(* ===== verification/Prelude.thy ===== *)
theory Prelude
  imports Main "HOL-Library.Multiset"
begin

text \<open>
  What every component shares: the model of a relational statement (rows of a table kept as a
  list in insertion order), of a transaction with its commit and its roll back, of the faults a
  client of a database sees, and of a sort whose ties are not specified. Nothing here is about
  one service; the service theories instantiate it.
\<close>

named_theorems repo_defs \<open>definitions of the repository operations\<close>
named_theorems table_simps \<open>effect of statements on tables\<close>

section \<open>Rows and statements\<close>

text \<open>
  A table is the list of its rows in insertion order. An \<^verbatim>\<open>UPDATE ... SET f WHERE p\<close>
  rewrites the rows that satisfy \<open>p\<close>; the number of rows affected is the number of rows that
  satisfied \<open>p\<close>; a lookup by primary key is \<open>find_row\<close>.
\<close>

definition sql_update :: "('r \<Rightarrow> bool) \<Rightarrow> ('r \<Rightarrow> 'r) \<Rightarrow> 'r list \<Rightarrow> 'r list" where
  "sql_update p f t = map (\<lambda>r. if p r then f r else r) t"

definition rows_affected :: "('r \<Rightarrow> bool) \<Rightarrow> 'r list \<Rightarrow> nat" where
  "rows_affected p t = length (filter p t)"

definition find_row :: "('r \<Rightarrow> 'k) \<Rightarrow> 'k \<Rightarrow> 'r list \<Rightarrow> 'r option" where
  "find_row key k t = List.find (\<lambda>r. key r = k) t"

lemma sql_update_simps [simp]:
  "sql_update p f [] = []"
  "sql_update p f (r # t) = (if p r then f r else r) # sql_update p f t"
  by (simp_all add: sql_update_def)

lemma find_row_simps [simp]:
  "find_row key k [] = None"
  "find_row key k (r # t) = (if key r = k then Some r else find_row key k t)"
  by (simp_all add: find_row_def)

lemma set_sql_update: "set (sql_update p f t) = f ` {r \<in> set t. p r} \<union> {r \<in> set t. \<not> p r}"
  by (induction t) auto

lemma length_sql_update [simp]: "length (sql_update p f t) = length t"
  by (simp add: sql_update_def)

lemma in_sql_updateE:
  assumes "r \<in> set (sql_update p f t)"
  obtains (hit) r0 where "r0 \<in> set t" "p r0" "r = f r0"
    | (miss) "r \<in> set t" "\<not> p r"
  using assms by (auto simp: set_sql_update)

lemma find_row_Some_iff_set:
  "find_row key k t = Some r \<Longrightarrow> r \<in> set t \<and> key r = k"
  by (induction t) (auto split: if_splits)

lemma find_row_None_iff: "find_row key k t = None \<longleftrightarrow> k \<notin> key ` set t"
  by (induction t) auto

lemma find_row_distinct:
  "distinct (map key t) \<Longrightarrow> r \<in> set t \<Longrightarrow> find_row key (key r) t = Some r"
  by (induction t) (auto simp: rev_image_eqI)

lemma distinct_key_eq:
  "distinct (map key t) \<Longrightarrow> r \<in> set t \<Longrightarrow> r' \<in> set t \<Longrightarrow> key r = key r' \<Longrightarrow> r = r'"
  by (metis find_row_distinct option.inject)

lemma find_row_append [simp]:
  "find_row key k (t @ u) = (case find_row key k t of Some r \<Rightarrow> Some r | None \<Rightarrow> find_row key k u)"
  by (induction t) auto

lemma find_row_filter_Some:
  "find_row key k (filter p t) = Some r \<Longrightarrow> r \<in> set t \<and> p r \<and> key r = k"
  by (induction t) (auto split: if_splits)

lemma find_row_filter:
  "distinct (map key t) \<Longrightarrow>
   find_row key k (filter p t) = (case find_row key k t of None \<Rightarrow> None | Some r \<Rightarrow> if p r then Some r else None)"
  by (induction t) (auto split: option.splits dest: find_row_Some_iff_set simp: rev_image_eqI)

lemma rows_affected_zero: "rows_affected p t = 0 \<longleftrightarrow> (\<forall>r \<in> set t. \<not> p r)"
  by (auto simp: rows_affected_def filter_empty_conv)

lemma rows_affected_update:
  "(\<And>r. p r \<Longrightarrow> p (f r)) \<Longrightarrow> rows_affected p (sql_update p f t) = rows_affected p t"
  by (induction t) (auto simp: rows_affected_def)

lemma sql_update_none: "(\<forall>r \<in> set t. \<not> p r) \<Longrightarrow> sql_update p f t = t"
  by (induction t) auto

text \<open>
  The interface of an \<^verbatim>\<open>UPDATE\<close> that leaves the primary key alone: every statement of the
  repositories interprets it, and the facts about keys and lookups come from here.
\<close>

locale keyed_update =
  fixes key :: "'r \<Rightarrow> 'k" and upd :: "'r \<Rightarrow> 'r"
  assumes key_upd: "key (upd r) = key r"
begin

lemma keys_unchanged: "map key (sql_update p upd t) = map key t"
  by (induction t) (auto simp: key_upd)

lemma find_after:
  "find_row key k (sql_update p upd t) =
     map_option (\<lambda>r. if p r then upd r else r) (find_row key k t)"
  by (induction t) (auto simp: key_upd)

lemma distinct_after: "distinct (map key (sql_update p upd t)) = distinct (map key t)"
  by (simp add: keys_unchanged)

end

section \<open>Transactions and faults\<close>

text \<open>
  A transaction body either aborts with an error (the deferred \<^verbatim>\<open>tx.Rollback\<close> undoes what it
  did), returns without committing, or reaches \<^verbatim>\<open>tx.Commit\<close> with the tables it wrote. What
  the database can do to the client is a set of fault points: no transaction starts, the n-th
  statement of the operation fails, the commit is refused, or the commit is done and the answer
  lost. A client sees an error in each of these cases, and the tables differ in the last one.
\<close>

datatype db_point = BeginTx | Stmt nat | CommitRefused | CommitLost

type_synonym faults = "db_point \<Rightarrow> bool"

abbreviation no_faults :: faults where
  "no_faults \<equiv> \<lambda>_. False"

datatype ('e, 'a, 'd) tx_out = TxAbort 'e | TxReturn 'a | TxCommit 'a 'd

definition run_tx :: "'e \<Rightarrow> faults \<Rightarrow> ('e, 'a, 'd) tx_out \<Rightarrow> 'd \<Rightarrow> ('e + 'a) \<times> 'd" where
  "run_tx dberr f body d =
     (if f BeginTx then (Inl dberr, d)
      else case body of
        TxAbort e \<Rightarrow> (Inl e, d)
      | TxReturn v \<Rightarrow> (Inr v, d)
      | TxCommit v d' \<Rightarrow>
          if f CommitRefused then (Inl dberr, d)
          else if f CommitLost then (Inl dberr, d')
          else (Inr v, d'))"

text \<open>One statement outside a transaction is committed on its own.\<close>

definition run_stmt :: "'e \<Rightarrow> faults \<Rightarrow> 'a \<Rightarrow> 'd \<Rightarrow> 'd \<Rightarrow> ('e + 'a) \<times> 'd" where
  "run_stmt dberr f v d' d =
     (if f (Stmt 0) then (Inl dberr, d) else if f CommitLost then (Inl dberr, d') else (Inr v, d'))"

lemma run_tx_state:
  "snd (run_tx e f body d) = d \<or> (\<exists>v. body = TxCommit v (snd (run_tx e f body d)))"
  by (auto simp: run_tx_def split: tx_out.splits)

lemma run_tx_snd:
  "snd (run_tx e f body d) = d' \<Longrightarrow> d' \<noteq> d \<Longrightarrow> \<exists>v. body = TxCommit v d'"
  by (auto simp: run_tx_def split: tx_out.splits if_splits)

lemma run_tx_Inr:
  "run_tx e f body d = (Inr v, d') \<longleftrightarrow>
     \<not> f BeginTx \<and>
     (body = TxReturn v \<and> d' = d \<or>
      body = TxCommit v d' \<and> \<not> f CommitRefused \<and> \<not> f CommitLost)"
  by (auto simp: run_tx_def split: tx_out.splits)

lemma run_stmt_state: "snd (run_stmt e f v d' d) \<in> {d, d'}"
  by (auto simp: run_stmt_def)

lemma run_stmt_Inr:
  "run_stmt e f v d' d = (Inr w, d'') \<longleftrightarrow> \<not> f (Stmt 0) \<and> \<not> f CommitLost \<and> w = v \<and> d'' = d'"
  by (auto simp: run_stmt_def)

text \<open>An invariant that every commit keeps is kept by the transaction, whatever fails.\<close>

lemma run_tx_invariant:
  assumes "I d" and "\<And>v d'. body = TxCommit v d' \<Longrightarrow> I d'"
  shows "I (snd (run_tx e f body d))"
  using assms run_tx_state [of e f body d] by metis

lemma run_stmt_invariant: "I d \<Longrightarrow> I d' \<Longrightarrow> I (snd (run_stmt e f v d' d))"
  using run_stmt_state [of e f v d' d] by auto

section \<open>Sorting with unspecified ties\<close>

text \<open>
  Go's \<^verbatim>\<open>sort.Slice\<close> is not stable: all that a caller may rely on is that the result is a
  permutation in non-descending order of the key. The routines that sort take the sort as an
  argument, and their properties are proved for every sort that meets this contract.
\<close>

locale slice_sort =
  fixes srt :: "('a \<Rightarrow> 'k::linorder) \<Rightarrow> 'a list \<Rightarrow> 'a list"
  assumes sorted_srt: "sorted (map k (srt k xs))"
    and mset_srt: "mset (srt k xs) = mset xs"
begin

lemma set_srt [simp]: "set (srt k xs) = set xs"
  by (metis mset_srt set_mset_mset)

lemma length_srt [simp]: "length (srt k xs) = length xs"
  by (metis mset_srt size_mset)

lemma distinct_srt [simp]: "distinct (srt k xs) = distinct xs"
  by (metis mset_srt distinct_count_atmost_1 set_srt)

lemma mset_map_srt: "mset (map g (srt k xs)) = mset (map g xs)"
  by (simp add: mset_srt)

text \<open>The first elements of the sort have keys no larger than the others.\<close>

lemma take_srt_least:
  assumes "x \<in> set (take n (srt k xs))" "y \<in> set (drop n (srt k xs))"
  shows "k x \<le> k y"
proof -
  have "sorted (map k (take n (srt k xs)) @ map k (drop n (srt k xs)))"
    using sorted_srt [of k xs] by (metis append_take_drop_id map_append)
  then show ?thesis using assms by (auto simp: sorted_append)
qed

end

text \<open>A stable sort is one of them.\<close>

interpretation stable: slice_sort sort_key
  by unfold_locales simp_all

lemma distinct_submset:
  assumes "mset xs \<subseteq># mset ys" "distinct ys"
  shows "distinct xs"
proof -
  obtain C where "mset ys = mset xs + C" using assms(1) by (auto simp: subset_mset.le_iff_add)
  moreover obtain zs where "mset zs = C" using ex_mset by blast
  ultimately have "mset ys = mset (xs @ zs)" by simp
  then have "distinct (xs @ zs)" using assms(2) mset_eq_imp_distinct_iff by blast
  then show ?thesis by simp
qed

lemma image_filter_iff: "y \<in> f ` {x \<in> A. P x} \<longleftrightarrow> (\<exists>x \<in> A. P x \<and> f x = y)"
  by blast

lemma distinct_map_perm_filter:
  assumes "mset ss = mset (filter p xs)" "distinct (map k xs)"
  shows "distinct (map k ss)"
proof -
  have "mset (map k ss) = mset (map k (filter p xs))" using assms(1) by simp
  then show ?thesis using distinct_map_filter [OF assms(2)] mset_eq_imp_distinct_iff by blast
qed

section \<open>Errors as results\<close>

text \<open>
  The Go idiom \<^verbatim>\<open>if err != nil { return err }\<close>, once for a function that returns a result and
  once for a transaction body, where it abandons the transaction.
\<close>

definition bind_res :: "'e + 'a \<Rightarrow> ('a \<Rightarrow> 'e + 'b) \<Rightarrow> 'e + 'b" where
  "bind_res r k = (case r of Inl e \<Rightarrow> Inl e | Inr v \<Rightarrow> k v)"

definition on_ok :: "'e + 'a \<Rightarrow> ('a \<Rightarrow> ('e, 'b, 'd) tx_out) \<Rightarrow> ('e, 'b, 'd) tx_out" where
  "on_ok r k = (case r of Inl e \<Rightarrow> TxAbort e | Inr v \<Rightarrow> k v)"

definition stmt :: "'e \<Rightarrow> faults \<Rightarrow> nat \<Rightarrow> 'e + unit" where
  "stmt dberr f n = (if f (Stmt n) then Inl dberr else Inr ())"

lemma bind_res_simps [simp]:
  "bind_res (Inl e) k = Inl e"
  "bind_res (Inr v) k = k v"
  by (simp_all add: bind_res_def)

lemma on_ok_simps [simp]:
  "on_ok (Inl e) k = TxAbort e"
  "on_ok (Inr v) k = k v"
  by (simp_all add: on_ok_def)

lemma bind_res_Inr_iff: "bind_res r k = Inr w \<longleftrightarrow> (\<exists>v. r = Inr v \<and> k v = Inr w)"
  by (cases r) auto

lemma on_ok_commit_iff: "on_ok r k = TxCommit w d \<longleftrightarrow> (\<exists>v. r = Inr v \<and> k v = TxCommit w d)"
  by (cases r) auto

lemma on_ok_return_iff: "on_ok r k = TxReturn w \<longleftrightarrow> (\<exists>v. r = Inr v \<and> k v = TxReturn w)"
  by (cases r) auto

lemma stmt_Inr_iff [simp]: "stmt e f n = Inr u \<longleftrightarrow> \<not> f (Stmt n)"
  by (simp add: stmt_def)

lemma stmt_no_faults [simp]: "stmt e no_faults n = Inr ()"
  by simp

lemma if_abort_commit_iff: "(if b then TxAbort e else x) = TxCommit v d \<longleftrightarrow> \<not> b \<and> x = TxCommit v d"
  by simp

lemma if_return_commit_iff: "(if b then TxReturn w else x) = TxCommit v d \<longleftrightarrow> \<not> b \<and> x = TxCommit v d"
  by simp

lemma if_error_Inr_iff: "(if b then Inl e else x) = Inr v \<longleftrightarrow> \<not> b \<and> x = Inr v"
  by simp

lemma if_abort_return_iff:
  "((if c then TxAbort e else t) = TxReturn v) \<longleftrightarrow> \<not> c \<and> t = TxReturn v"
  by simp

text \<open>The aborts of a transaction body.\<close>

lemma on_ok_abort_iff:
  "on_ok r k = TxAbort e \<longleftrightarrow> r = Inl e \<or> (\<exists>v. r = Inr v \<and> k v = TxAbort e)"
  by (auto simp: on_ok_def split: sum.splits)

lemma if_abort_abort_iff:
  "((if c then TxAbort e else t) = TxAbort e') \<longleftrightarrow> c \<and> e = e' \<or> \<not> c \<and> t = TxAbort e'"
  by auto

lemma stmt_Inl_iff: "stmt dberr f n = Inl e \<longleftrightarrow> f (Stmt n) \<and> e = dberr"
  by (auto simp: stmt_def)

lemmas abort_iffs = on_ok_abort_iff if_abort_abort_iff stmt_Inl_iff tx_out.distinct

lemmas return_iffs = if_abort_return_iff on_ok_return_iff tx_out.distinct

lemmas commit_iffs = if_abort_commit_iff if_return_commit_iff if_error_Inr_iff on_ok_commit_iff on_ok_return_iff bind_res_Inr_iff

section \<open>Decimal text\<close>

text \<open>\<^verbatim>\<open>fmt.Sprintf("%d", n)\<close> on a non-negative number.\<close>

fun digits :: "nat \<Rightarrow> string" where
  "digits n = (if n < 10 then [char_of (48 + n)] else digits (n div 10) @ [char_of (48 + n mod 10)])"

declare digits.simps [simp del]

definition sprintf_d :: "int \<Rightarrow> string" where
  "sprintf_d i = (if i < 0 then ''-'' @ digits (nat (- i)) else digits (nat i))"

lemma digit_char_inj:
  assumes "char_of (48 + a) = (char_of (48 + b) :: char)" "a < 10" "b < 10"
  shows "a = (b::nat)"
proof -
  have "of_char (char_of (48 + a) :: char) = (of_char (char_of (48 + b) :: char) :: nat)"
    using assms(1) by simp
  then show ?thesis using assms(2,3) by (simp add: of_char_of)
qed

lemma digits_not_Nil [simp]: "digits n \<noteq> []" "[] \<noteq> digits n"
  by (subst digits.simps, simp)+

lemma digits_is_digit: "c \<in> set (digits n) \<Longrightarrow> \<exists>a<10. c = char_of (48 + a :: nat)"
proof (induction n rule: digits.induct)
  case (1 n)
  show ?case
  proof (cases "n < 10")
    case True
    then have "digits n = [char_of (48 + n)]" by (simp add: digits.simps)
    then show ?thesis using 1(2) True by auto
  next
    case False
    then have "digits n = digits (n div 10) @ [char_of (48 + n mod 10)]" by (subst digits.simps) simp
    moreover have "n mod 10 < 10" by simp
    ultimately show ?thesis using 1 False by fastforce
  qed
qed

lemma digits_inj: "digits a = digits b \<Longrightarrow> a = b"
proof (induction a arbitrary: b rule: digits.induct)
  case (1 a)
  have shape: "digits n = (if n < 10 then [char_of (48 + n)]
      else digits (n div 10) @ [char_of (48 + n mod 10)])" for n
    by (rule digits.simps)
  show ?case
  proof (cases "a < 10")
    case True
    then have "b < 10" using 1(2) shape [of a] shape [of b] by (auto split: if_splits)
    then show ?thesis using True 1(2) shape [of a] shape [of b] digit_char_inj [of a b] by simp
  next
    case False
    then have b: "\<not> b < 10" using 1(2) shape [of a] shape [of b] by (auto split: if_splits)
    have "digits (a div 10) = digits (b div 10)"
      and "(char_of (48 + a mod 10) :: char) = char_of (48 + b mod 10)"
      using 1(2) shape [of a] shape [of b] False b by auto
    then have "a div 10 = b div 10" "a mod 10 = b mod 10"
      using 1(1) [OF False] digit_char_inj [of "a mod 10" "b mod 10"] by auto
    then show ?thesis by (metis div_mult_mod_eq)
  qed
qed

lemma sprintf_d_inj: "0 \<le> i \<Longrightarrow> 0 \<le> j \<Longrightarrow> sprintf_d i = sprintf_d j \<longleftrightarrow> i = j"
  by (auto simp: sprintf_d_def dest: digits_inj)

end
