(* ===== verification/Venue_Types.thy ===== *)
theory Venue_Types
  imports Prelude
begin

text \<open>
  The data model of venue-service: the rows of its PostgreSQL tables, the enumerations of their
  status columns, the sentinel errors, and the database as a record of tables
  (\<^verbatim>\<open>internal/repository/repository.go\<close>). Identifiers are texts, times are integers (ticks of the
  database clock), integer columns are integers. A column that the Go code reads through
  \<^verbatim>\<open>COALESCE(col::text, '')\<close> and writes through \<^verbatim>\<open>NULLIF\<close> is a string whose empty text is the NULL;
  the other nullable columns are options.
\<close>

section \<open>Sentinel errors\<close>

text \<open>\<open>ErrDb\<close> is any error the driver reports; the others are the package's sentinels.\<close>

datatype venue_error =
    ErrVenueNotFound
  | ErrPlanNotFound
  | ErrSectionNotFound
  | ErrSeatNotFound
  | ErrReservationNotFound
  | ErrPlanAlreadyActive
  | ErrPlanNotActive
  | ErrPlanNotAttached
  | ErrPlanHasNoSections
  | ErrSeatNotAvailable
  | ErrSeatNotHeldByUser
  | ErrSeatLimitExceeded
  | ErrReservationConflict
  | ErrReservationAlreadyDone
  | ErrVersionConflict
  | ErrUnknownSectionType string
  | ErrDb

section \<open>Enumerations\<close>

datatype plan_status = PlanStatusDraft | PlanStatusActive | PlanStatusInactive

datatype seat_status =
    SeatStatusAvailable
  | SeatStatusHeld
  | SeatStatusReserved
  | SeatStatusSold
  | SeatStatusBlocked

datatype reservation_status =
    ReservationStatusReserved
  | ReservationStatusReleased
  | ReservationStatusSold
  | ReservationStatusExpired

text \<open>Section types stay texts: the code compares them and has a branch for any other text.\<close>

definition SectionTypeSeated :: string where "SectionTypeSeated = ''seated''"
definition SectionTypeGA :: string where "SectionTypeGA = ''ga''"

text \<open>The text of a status column, as the code compares and prints it.\<close>

fun seat_status_text :: "seat_status \<Rightarrow> string" where
  "seat_status_text SeatStatusAvailable = ''AVAILABLE''"
| "seat_status_text SeatStatusHeld = ''HELD''"
| "seat_status_text SeatStatusReserved = ''RESERVED''"
| "seat_status_text SeatStatusSold = ''SOLD''"
| "seat_status_text SeatStatusBlocked = ''BLOCKED''"

fun reservation_status_text :: "reservation_status \<Rightarrow> string" where
  "reservation_status_text ReservationStatusReserved = ''RESERVED''"
| "reservation_status_text ReservationStatusReleased = ''RELEASED''"
| "reservation_status_text ReservationStatusSold = ''SOLD''"
| "reservation_status_text ReservationStatusExpired = ''EXPIRED''"

lemma seat_status_text_inj: "seat_status_text a = seat_status_text b \<longleftrightarrow> a = b"
  by (cases a; cases b) simp_all

lemma reservation_status_text_inj:
  "reservation_status_text a = reservation_status_text b \<longleftrightarrow> a = b"
  by (cases a; cases b) simp_all

section \<open>Rows\<close>

record venue =
  v_id :: string
  v_organizer :: string
  v_name :: string
  v_capacity :: int
  v_timezone :: string
  v_address :: string
  v_created :: int
  v_updated :: int

record seating_plan =
  p_id :: string
  p_venue :: string
  p_ticket :: string
  p_organizer :: string
  p_name :: string
  p_status :: plan_status
  p_max_per_order :: int
  p_layout :: string
  p_assignment :: string
  p_pricing :: string
  p_version :: int
  p_created :: int
  p_updated :: int

record venue_section =
  vs_id :: string
  vs_venue :: string
  vs_name :: string
  vs_type :: string
  vs_rows :: int
  vs_columns :: int
  vs_position :: string
  vs_order :: int
  vs_created :: int
  vs_updated :: int

record plan_section =
  sec_id :: string
  sec_plan :: string
  sec_name :: string
  sec_type :: string
  sec_rows :: int
  sec_columns :: int
  sec_tier :: string
  sec_created :: int
  sec_updated :: int

record price_tier =
  pt_id :: string
  pt_plan :: string
  pt_name :: string
  pt_price :: string
  pt_created :: int

record seat =
  s_id :: string
  s_section :: string
  s_plan :: string
  s_tier :: string
  s_label :: string
  s_row :: string
  s_column :: int
  s_status :: seat_status
  s_held_by :: "string option"
  s_held_until :: "int option"
  s_attributes :: string
  s_version :: int
  s_created :: int
  s_updated :: int

record seat_reservation =
  r_id :: string
  r_plan :: string
  r_ticket :: string
  r_order :: "string option"
  r_user :: string
  r_section :: string
  r_status :: reservation_status
  r_expires :: "int option"
  r_created :: int
  r_updated :: int

record reservation_item =
  i_reservation :: string
  i_seat :: string
  i_section :: string
  i_price :: string
  i_label :: string

section \<open>The database\<close>

record venue_db =
  db_venues :: "venue list"
  db_venue_sections :: "venue_section list"
  db_plans :: "seating_plan list"
  db_tiers :: "price_tier list"
  db_sections :: "plan_section list"
  db_seats :: "seat list"
  db_reservations :: "seat_reservation list"
  db_items :: "reservation_item list"

definition empty_db :: venue_db where
  "empty_db = \<lparr>db_venues = [], db_venue_sections = [], db_plans = [], db_tiers = [],
     db_sections = [], db_seats = [], db_reservations = [], db_items = []\<rparr>"

abbreviation seat_of :: "venue_db \<Rightarrow> string \<Rightarrow> seat option" where
  "seat_of d sid \<equiv> find_row s_id sid (db_seats d)"

abbreviation reservation_of :: "venue_db \<Rightarrow> string \<Rightarrow> seat_reservation option" where
  "reservation_of d rid \<equiv> find_row r_id rid (db_reservations d)"

definition items_of :: "venue_db \<Rightarrow> string \<Rightarrow> reservation_item list" where
  "items_of d rid = filter (\<lambda>i. i_reservation i = rid) (db_items d)"

lemma set_items_of: "i \<in> set (items_of d rid) \<longleftrightarrow> i \<in> set (db_items d) \<and> i_reservation i = rid"
  by (simp add: items_of_def)

text \<open>A generator of row ids is fresh for a list of ids when it repeats none and never one of its own.\<close>

definition fresh_ids :: "(nat \<Rightarrow> string) \<Rightarrow> string set \<Rightarrow> bool" where
  "fresh_ids gen used \<longleftrightarrow> inj gen \<and> (\<forall>n. gen n \<notin> used)"

end
