(* ===== verification/Section_Repo.thy ===== *)
theory Section_Repo
  imports Venue_Types "HOL-Library.Product_Lexorder" "HOL-Library.List_Lexorder" "HOL-Library.Char_ord"
begin

text \<open>
  The section and seat repository of venue-service
  (\<^verbatim>\<open>internal/repository/postgres/section_repo.go\<close>): creating sections, generating seat rows,
  cloning a venue template into a plan, and the seat transitions (hold, release, reserve, sell,
  sweep) with the per-buyer cap. A statement number \<open>Stmt n\<close> names the n-th database call of the
  operation that can fail. Advisory and row locks make an operation's transaction atomic, so a
  transaction is one function from tables to tables; \<open>now\<close> is the transaction's \<^verbatim>\<open>now()\<close>.
\<close>

section \<open>Sections and seat generation\<close>

definition createSection ::
  "faults \<Rightarrow> nat \<Rightarrow> string \<Rightarrow> int \<Rightarrow> plan_section \<Rightarrow> venue_db \<Rightarrow> venue_error + plan_section \<times> venue_db" where
  "createSection f k newid now s d =
     bind_res (stmt ErrDb f k) (\<lambda>_.
       let s' = s\<lparr>sec_id := newid, sec_created := now, sec_updated := now\<rparr>
       in Inr (s', d\<lparr>db_sections := db_sections d @ [s']\<rparr>))"

definition CreateSection ::
  "faults \<Rightarrow> string \<Rightarrow> int \<Rightarrow> plan_section \<Rightarrow> venue_db \<Rightarrow> (venue_error + plan_section) \<times> venue_db" where
  "CreateSection f newid now s d =
     (case createSection f 0 newid now s d of
        Inl e \<Rightarrow> (Inl e, d)
      | Inr (s', d') \<Rightarrow> run_stmt ErrDb f s' d' d)"

text \<open>The labels of the generated seats: seat label, row label, column number.\<close>

definition seat_layout :: "string \<Rightarrow> int \<Rightarrow> int \<Rightarrow> venue_error + (string \<times> string \<times> int) list" where
  "seat_layout sectionType rowCount columnCount =
     (if sectionType = SectionTypeSeated then
        Inr (concat (map (\<lambda>r. map (\<lambda>c.
               (''R'' @ sprintf_d r @ ''S'' @ sprintf_d c, ''R'' @ sprintf_d r, c))
             [1..columnCount]) [1..rowCount]))
      else if sectionType = SectionTypeGA then
        Inr (map (\<lambda>i. (''GA'' @ sprintf_d i, ''GA'', i)) [1..columnCount])
      else Inl (ErrUnknownSectionType sectionType))"

definition new_seat ::
  "string \<Rightarrow> int \<Rightarrow> string \<Rightarrow> string \<Rightarrow> string \<Rightarrow> string \<times> string \<times> int \<Rightarrow> seat" where
  "new_seat newid now sectionID planID tier lab =
     \<lparr>s_id = newid, s_section = sectionID, s_plan = planID, s_tier = tier,
      s_label = fst lab, s_row = fst (snd lab), s_column = snd (snd lab),
      s_status = SeatStatusAvailable, s_held_by = None, s_held_until = None,
      s_attributes = ''{}'', s_version = 1, s_created = now, s_updated = now\<rparr>"

text \<open>
  The batch gives the i-th queued row the id \<open>gen (n0 + i)\<close>. A batch is sent as one implicit
  transaction, so it fails or succeeds as a whole; an empty batch is not sent.
\<close>

definition bulkInsertSeats ::
  "faults \<Rightarrow> nat \<Rightarrow> (nat \<Rightarrow> string) \<Rightarrow> nat \<Rightarrow> int \<Rightarrow> string \<Rightarrow> string \<Rightarrow> string \<Rightarrow> string \<Rightarrow> int \<Rightarrow> int
     \<Rightarrow> venue_db \<Rightarrow> venue_error + nat \<times> venue_db" where
  "bulkInsertSeats f k gen n0 now sectionID planID sectionType tier rowCount columnCount d =
     bind_res (seat_layout sectionType rowCount columnCount) (\<lambda>labs.
       if labs = [] then Inr (n0, d)
       else bind_res (stmt ErrDb f k) (\<lambda>_.
         Inr (n0 + length labs,
              d\<lparr>db_seats := db_seats d @
                   map (\<lambda>(i, lab). new_seat (gen (n0 + i)) now sectionID planID tier lab)
                     (enumerate 0 labs)\<rparr>)))"

definition BulkInsertSeats ::
  "faults \<Rightarrow> (nat \<Rightarrow> string) \<Rightarrow> int \<Rightarrow> string \<Rightarrow> string \<Rightarrow> string \<Rightarrow> string \<Rightarrow> int \<Rightarrow> int
     \<Rightarrow> venue_db \<Rightarrow> (venue_error + unit) \<times> venue_db" where
  "BulkInsertSeats f gen now sectionID planID sectionType tier rowCount columnCount d =
     (case bulkInsertSeats f 0 gen 0 now sectionID planID sectionType tier rowCount columnCount d of
        Inl e \<Rightarrow> (Inl e, d)
      | Inr (_, d') \<Rightarrow> run_stmt ErrDb f () d' d)"

section \<open>Provisioning a plan from its venue\<close>

text \<open>
  The clone loop of \<^verbatim>\<open>ProvisionFromVenue\<close>: \<open>k\<close> is the number of the next statement, \<open>m\<close> the number
  of the next section, \<open>n\<close> of the next seat.
\<close>

fun clone_sections ::
  "faults \<Rightarrow> nat \<Rightarrow> (nat \<Rightarrow> string) \<Rightarrow> nat \<Rightarrow> (nat \<Rightarrow> string) \<Rightarrow> nat \<Rightarrow> int \<Rightarrow> string
     \<Rightarrow> venue_section list \<Rightarrow> venue_db \<Rightarrow> venue_error + venue_db" where
  "clone_sections f k sgen m gen n now planID [] d = Inr d"
| "clone_sections f k sgen m gen n now planID (ts # tss) d =
     bind_res
       (createSection f k (sgen m) now
          \<lparr>sec_id = [], sec_plan = planID, sec_name = vs_name ts, sec_type = vs_type ts,
           sec_rows = vs_rows ts, sec_columns = vs_columns ts, sec_tier = [],
           sec_created = 0, sec_updated = 0\<rparr> d)
       (\<lambda>(s, d1). bind_res
          (bulkInsertSeats f (Suc k) gen n now (sec_id s) planID (vs_type ts) []
             (vs_rows ts) (vs_columns ts) d1)
          (\<lambda>(n', d2). clone_sections f (k + 2) sgen (Suc m) gen n' now planID tss d2))"

definition venue_templates :: "string \<Rightarrow> venue_db \<Rightarrow> venue_section list" where
  "venue_templates venueID d =
     sort_key (\<lambda>v. (vs_order v, vs_created v)) (filter (\<lambda>v. vs_venue v = venueID) (db_venue_sections d))"

definition ProvisionFromVenue ::
  "faults \<Rightarrow> (nat \<Rightarrow> string) \<Rightarrow> (nat \<Rightarrow> string) \<Rightarrow> int \<Rightarrow> string \<Rightarrow> string
     \<Rightarrow> venue_db \<Rightarrow> (venue_error + nat) \<times> venue_db" where
  "ProvisionFromVenue f sgen gen now planID venueID d = run_tx ErrDb f
     (on_ok (stmt ErrDb f 0) (\<lambda>_.                     \<comment> \<open>advisory lock on the plan\<close>
      on_ok (stmt ErrDb f 1) (\<lambda>_.                     \<comment> \<open>count of the plan's sections\<close>
      if \<exists>s \<in> set (db_sections d). sec_plan s = planID then TxReturn 0
      else on_ok (stmt ErrDb f 2) (\<lambda>_.                \<comment> \<open>template sections\<close>
        let templates = venue_templates venueID d in
        if templates = [] then TxReturn 0
        else on_ok (clone_sections f 3 sgen 0 gen 0 now planID templates d) (\<lambda>d'.
          TxCommit (length templates) d'))))) d"

section \<open>Queries\<close>

definition FindSectionByID :: "faults \<Rightarrow> string \<Rightarrow> venue_db \<Rightarrow> venue_error + plan_section" where
  "FindSectionByID f sid d =
     (if f (Stmt 0) then Inl ErrDb
      else case find_row sec_id sid (db_sections d) of
        None \<Rightarrow> Inl ErrSectionNotFound
      | Some s \<Rightarrow> Inr s)"

definition ListSectionsByPlan :: "faults \<Rightarrow> string \<Rightarrow> venue_db \<Rightarrow> venue_error + plan_section list" where
  "ListSectionsByPlan f planID d =
     bind_res (stmt ErrDb f 0) (\<lambda>_.
       Inr (sort_key sec_created (filter (\<lambda>s. sec_plan s = planID) (db_sections d))))"

text \<open>
  The \<^verbatim>\<open>ON CONFLICT (id)\<close> clause never applies, because the statement inserts no id: the row always
  gets a new one. An empty price tier is not turned into NULL and is no uuid.
\<close>

definition UpsertSeat ::
  "faults \<Rightarrow> string \<Rightarrow> int \<Rightarrow> seat \<Rightarrow> venue_db \<Rightarrow> (venue_error + seat) \<times> venue_db" where
  "UpsertSeat f newid now s d =
     (let attrs = (if s_attributes s = [] then ''{}'' else s_attributes s);
          row = (new_seat newid now (s_section s) (s_plan s) (s_tier s) (s_label s, s_row s, s_column s))
                  \<lparr>s_attributes := attrs\<rparr>;
          s' = s\<lparr>s_id := s_id row, s_status := s_status row, s_version := s_version row,
                 s_created := s_created row, s_updated := s_updated row\<rparr>
      in if s_tier s = [] then (Inl ErrDb, d)
         else run_stmt ErrDb f s' (d\<lparr>db_seats := db_seats d @ [row]\<rparr>) d)"

text \<open>
  Text columns are ordered by the collation of the database, which is not in the source: the
  queries take the sort key of a text as an argument.
\<close>

definition scanSeats :: "faults \<Rightarrow> seat list \<Rightarrow> venue_error + seat list" where
  "scanSeats f rows = bind_res (stmt ErrDb f 0) (\<lambda>_. Inr rows)"

definition FindSeatsBySection ::
  "(string \<Rightarrow> string) \<Rightarrow> faults \<Rightarrow> string \<Rightarrow> venue_db \<Rightarrow> venue_error + seat list" where
  "FindSeatsBySection collate f sectionID d =
     scanSeats f (sort_key (\<lambda>s. (collate (s_row s), s_column s))
       (filter (\<lambda>s. s_section s = sectionID) (db_seats d)))"

definition FindSeatsByIDs :: "faults \<Rightarrow> string list \<Rightarrow> venue_db \<Rightarrow> venue_error + seat list" where
  "FindSeatsByIDs f seatIDs d =
     (if seatIDs = [] then Inr []
      else scanSeats f (filter (\<lambda>s. s_id s \<in> set seatIDs) (db_seats d)))"

definition GetAvailableSeatsInSection ::
  "(string \<Rightarrow> string) \<Rightarrow> faults \<Rightarrow> string \<Rightarrow> venue_db \<Rightarrow> venue_error + seat list" where
  "GetAvailableSeatsInSection collate f sectionID d =
     scanSeats f (sort_key (\<lambda>s. (collate (s_row s), s_column s))
       (filter (\<lambda>s. s_section s = sectionID \<and> s_status s = SeatStatusAvailable) (db_seats d)))"

section \<open>Seat transitions\<close>

text \<open>A hold that has run out: \<^verbatim>\<open>COALESCE(status = 'HELD' AND held_until < now(), false)\<close>.\<close>

definition hold_lapsed :: "int \<Rightarrow> seat \<Rightarrow> bool" where
  "hold_lapsed now s \<longleftrightarrow> s_status s = SeatStatusHeld \<and>
     (case s_held_until s of None \<Rightarrow> False | Some u \<Rightarrow> u < now)"

text \<open>The \<^verbatim>\<open>SET\<close> lists of the seat updates.\<close>

definition hold_seat :: "string \<Rightarrow> int \<Rightarrow> int \<Rightarrow> seat \<Rightarrow> seat" where
  "hold_seat userID expiresAt now s = s\<lparr>s_status := SeatStatusHeld, s_held_by := Some userID,
     s_held_until := Some expiresAt, s_version := s_version s + 1, s_updated := now\<rparr>"

definition free_seat :: "int \<Rightarrow> seat \<Rightarrow> seat" where
  "free_seat now s = s\<lparr>s_status := SeatStatusAvailable, s_held_by := None,
     s_held_until := None, s_version := s_version s + 1, s_updated := now\<rparr>"

definition reserve_seat :: "string \<Rightarrow> int \<Rightarrow> seat \<Rightarrow> seat" where
  "reserve_seat reservationID now s = s\<lparr>s_status := SeatStatusReserved, s_held_by := Some reservationID,
     s_held_until := None, s_version := s_version s + 1, s_updated := now\<rparr>"

definition sell_seat :: "int \<Rightarrow> seat \<Rightarrow> seat" where
  "sell_seat now s = s\<lparr>s_status := SeatStatusSold, s_version := s_version s + 1, s_updated := now\<rparr>"

definition lockBuyerOnPlan :: "faults \<Rightarrow> nat \<Rightarrow> int \<Rightarrow> venue_error + unit" where
  "lockBuyerOnPlan f k maxPerUser = (if maxPerUser \<le> 0 then Inr () else stmt ErrDb f k)"

text \<open>
  The seats a buyer counts on a plan: live holds, the requested seats, and the items of the
  buyer's reserved and sold reservations. \<^verbatim>\<open>UNION\<close> counts a seat once.
\<close>

definition live_holds :: "int \<Rightarrow> string \<Rightarrow> string \<Rightarrow> venue_db \<Rightarrow> string list" where
  "live_holds now planID userID d =
     map s_id (filter (\<lambda>s. s_plan s = planID \<and> s_status s = SeatStatusHeld \<and> s_held_by s = Some userID \<and>
                       (case s_held_until s of None \<Rightarrow> False | Some u \<Rightarrow> now < u)) (db_seats d))"

definition taken_items :: "string \<Rightarrow> string \<Rightarrow> venue_db \<Rightarrow> string list" where
  "taken_items planID userID d =
     concat (map (\<lambda>r. map i_seat (items_of d (r_id r)))
       (filter (\<lambda>r. r_plan r = planID \<and> r_user r = userID \<and>
                    (r_status r = ReservationStatusReserved \<or> r_status r = ReservationStatusSold))
          (db_reservations d)))"

definition buyer_seats :: "int \<Rightarrow> string \<Rightarrow> string \<Rightarrow> string list \<Rightarrow> venue_db \<Rightarrow> string list" where
  "buyer_seats now planID userID seatIDs d =
     remdups (live_holds now planID userID d @ seatIDs @ taken_items planID userID d)"

definition checkSeatLimit ::
  "faults \<Rightarrow> nat \<Rightarrow> int \<Rightarrow> string \<Rightarrow> string \<Rightarrow> string list \<Rightarrow> int \<Rightarrow> venue_db \<Rightarrow> venue_error + unit" where
  "checkSeatLimit f k now planID userID seatIDs maxPerUser d =
     (if maxPerUser \<le> 0 then Inr ()
      else bind_res (stmt ErrDb f k) (\<lambda>_.
        if int (length (buyer_seats now planID userID seatIDs d)) > maxPerUser
        then Inl ErrSeatLimitExceeded else Inr ()))"

text \<open>The rows a \<^verbatim>\<open>SELECT ... WHERE id = ANY(ids) AND plan_id = plan FOR UPDATE\<close> locks.\<close>

definition lock_seats :: "string \<Rightarrow> string list \<Rightarrow> venue_db \<Rightarrow> seat list" where
  "lock_seats planID seatIDs d = filter (\<lambda>s. s_id s \<in> set seatIDs \<and> s_plan s = planID) (db_seats d)"

definition HoldSeats ::
  "faults \<Rightarrow> int \<Rightarrow> string \<Rightarrow> string list \<Rightarrow> string \<Rightarrow> int \<Rightarrow> int \<Rightarrow> venue_db
     \<Rightarrow> (venue_error + unit) \<times> venue_db" where
  "HoldSeats f now planID seatIDs userID expiresAt maxPerUser d = run_tx ErrDb f
     (on_ok (lockBuyerOnPlan f 0 maxPerUser) (\<lambda>_.
      on_ok (stmt ErrDb f 1) (\<lambda>_.
      let rows = lock_seats planID seatIDs d;
          free = (\<lambda>id. case find_row s_id id rows of
                    None \<Rightarrow> False
                  | Some s \<Rightarrow> s_status s = SeatStatusAvailable \<or> hold_lapsed now s)
      in if \<not> list_all free seatIDs then TxAbort ErrSeatNotAvailable
         else on_ok (checkSeatLimit f 2 now planID userID seatIDs maxPerUser d) (\<lambda>_.
              on_ok (stmt ErrDb f 3) (\<lambda>_.
              TxCommit () (d\<lparr>db_seats := sql_update (\<lambda>s. s_id s \<in> set seatIDs)
                               (hold_seat userID expiresAt now) (db_seats d)\<rparr>)))))) d"

definition ReleaseHold ::
  "faults \<Rightarrow> int \<Rightarrow> string list \<Rightarrow> string \<Rightarrow> venue_db \<Rightarrow> (venue_error + unit) \<times> venue_db" where
  "ReleaseHold f now seatIDs userID d = run_stmt ErrDb f ()
     (d\<lparr>db_seats := sql_update
          (\<lambda>s. s_id s \<in> set seatIDs \<and> s_held_by s = Some userID \<and> s_status s = SeatStatusHeld)
          (free_seat now) (db_seats d)\<rparr>) d"

definition ReserveSeats ::
  "faults \<Rightarrow> int \<Rightarrow> string list \<Rightarrow> string \<Rightarrow> venue_db \<Rightarrow> (venue_error + unit) \<times> venue_db" where
  "ReserveSeats f now seatIDs reservationID d = run_tx ErrDb f
     (on_ok (stmt ErrDb f 0) (\<lambda>_.
      let rows = filter (\<lambda>s. s_id s \<in> set seatIDs) (db_seats d);
          ok = (\<lambda>id. case find_row s_id id rows of
                  None \<Rightarrow> False
                | Some s \<Rightarrow> s_status s = SeatStatusHeld \<or> s_status s = SeatStatusAvailable)
      in if \<not> list_all ok seatIDs then TxAbort ErrSeatNotAvailable
         else on_ok (stmt ErrDb f 1) (\<lambda>_.
              TxCommit () (d\<lparr>db_seats := sql_update (\<lambda>s. s_id s \<in> set seatIDs)
                               (reserve_seat reservationID now) (db_seats d)\<rparr>)))) d"

definition ReleaseReservedSeats ::
  "faults \<Rightarrow> int \<Rightarrow> string list \<Rightarrow> venue_db \<Rightarrow> (venue_error + unit) \<times> venue_db" where
  "ReleaseReservedSeats f now seatIDs d = run_stmt ErrDb f ()
     (d\<lparr>db_seats := sql_update (\<lambda>s. s_id s \<in> set seatIDs \<and> s_status s = SeatStatusReserved)
          (free_seat now) (db_seats d)\<rparr>) d"

definition SellSeats ::
  "faults \<Rightarrow> int \<Rightarrow> string list \<Rightarrow> venue_db \<Rightarrow> (venue_error + unit) \<times> venue_db" where
  "SellSeats f now seatIDs d = run_stmt ErrDb f ()
     (d\<lparr>db_seats := sql_update (\<lambda>s. s_id s \<in> set seatIDs \<and> s_status s = SeatStatusReserved)
          (sell_seat now) (db_seats d)\<rparr>) d"

text \<open>\<open>gotLock\<close> is the answer of \<^verbatim>\<open>pg_try_advisory_xact_lock\<close>: false when another pod sweeps.\<close>

definition SweepExpiredHolds ::
  "faults \<Rightarrow> bool \<Rightarrow> int \<Rightarrow> venue_db \<Rightarrow> (venue_error + nat) \<times> venue_db" where
  "SweepExpiredHolds f gotLock now d = run_tx ErrDb f
     (on_ok (stmt ErrDb f 0) (\<lambda>_.
      if \<not> gotLock then TxReturn 0
      else on_ok (stmt ErrDb f 1) (\<lambda>_.
        TxCommit (rows_affected (hold_lapsed now) (db_seats d))
          (d\<lparr>db_seats := sql_update (hold_lapsed now) (free_seat now) (db_seats d)\<rparr>)))) d"

end
