(* ===== verification/Plan_Repo.thy ===== *)
theory Plan_Repo
  imports Section_Repo
begin

text \<open>
  The seating plan, price tier, venue section and venue repositories of venue-service
  (\<^verbatim>\<open>plan_repo.go\<close>, \<^verbatim>\<open>price_tier_repo.go\<close>, \<^verbatim>\<open>venue_section_repo.go\<close>, \<^verbatim>\<open>venue_repo.go\<close>). An operation
  that reads before it writes takes the states it read as arguments. The \<^verbatim>\<open>CHECK\<close> constraints of
  \<^verbatim>\<open>seating_plans\<close> are part of the model, because they refuse what \<^verbatim>\<open>Update\<close> does not validate.
\<close>

section \<open>Seating plans\<close>

definition default_text :: "string \<Rightarrow> string \<Rightarrow> string" where
  "default_text dflt s = (if s = [] then dflt else s)"

definition plan_checks :: "int \<Rightarrow> string \<Rightarrow> string \<Rightarrow> bool" where
  "plan_checks maxSeats assignment pricing \<longleftrightarrow> 0 < maxSeats \<and> assignment \<in> {''manual'', ''auto''} \<and>
     pricing \<in> {''single'', ''section'', ''seat''}"

definition CreatePlan ::
  "faults \<Rightarrow> string \<Rightarrow> int \<Rightarrow> seating_plan \<Rightarrow> venue_db \<Rightarrow> (venue_error + seating_plan) \<times> venue_db" where
  "CreatePlan f newid now p d =
     (let p' = p\<lparr>p_id := newid, p_status := PlanStatusDraft,
                 p_max_per_order := (if p_max_per_order p \<le> 0 then 10 else p_max_per_order p),
                 p_layout := ''{}'',
                 p_assignment := default_text ''manual'' (p_assignment p),
                 p_pricing := default_text ''single'' (p_pricing p),
                 p_version := 1, p_created := now, p_updated := now\<rparr>
      in if \<not> plan_checks (p_max_per_order p') (p_assignment p') (p_pricing p') then (Inl ErrDb, d)
         else run_stmt ErrDb f p' (d\<lparr>db_plans := db_plans d @ [p']\<rparr>) d)"

definition FindPlanByID :: "faults \<Rightarrow> nat \<Rightarrow> string \<Rightarrow> venue_db \<Rightarrow> venue_error + seating_plan" where
  "FindPlanByID f k pid d =
     (if f (Stmt k) then Inl ErrDb
      else case find_row p_id pid (db_plans d) of None \<Rightarrow> Inl ErrPlanNotFound | Some p \<Rightarrow> Inr p)"

definition FindPlansByIDs ::
  "faults \<Rightarrow> string list \<Rightarrow> venue_db \<Rightarrow> venue_error + seating_plan option list" where
  "FindPlansByIDs f ids d =
     (if ids = [] then Inr []
      else bind_res (stmt ErrDb f 0) (\<lambda>_.
        let rows = filter (\<lambda>p. p_id p \<in> set ids) (db_plans d)
        in Inr (map (\<lambda>i. find_row p_id i rows) ids)))"

definition newest_first :: "seating_plan list \<Rightarrow> seating_plan list" where
  "newest_first ps = sort_key (\<lambda>p. - p_created p) ps"

definition ListPlansByVenue :: "faults \<Rightarrow> string \<Rightarrow> string \<Rightarrow> venue_db \<Rightarrow> venue_error + seating_plan list" where
  "ListPlansByVenue f venueID organizerID d = bind_res (stmt ErrDb f 0) (\<lambda>_.
     Inr (newest_first (filter (\<lambda>p. p_venue p = venueID \<and> p_organizer p = organizerID) (db_plans d))))"

definition ListPlansByTicket :: "faults \<Rightarrow> string \<Rightarrow> string \<Rightarrow> venue_db \<Rightarrow> venue_error + seating_plan list" where
  "ListPlansByTicket f ticketID organizerID d = bind_res (stmt ErrDb f 0) (\<lambda>_.
     Inr (newest_first (filter (\<lambda>p. p_ticket p = ticketID \<and> p_organizer p = organizerID) (db_plans d))))"

definition ListActivePlans :: "faults \<Rightarrow> venue_db \<Rightarrow> venue_error + seating_plan list" where
  "ListActivePlans f d = bind_res (stmt ErrDb f 0) (\<lambda>_.
     Inr (sort_key p_created (filter (\<lambda>p. p_status p = PlanStatusActive) (db_plans d))))"

text \<open>An update that returns a column of the row: no row is the driver's \<^verbatim>\<open>ErrNoRows\<close>.\<close>

definition update_plan ::
  "faults \<Rightarrow> nat \<Rightarrow> venue_error \<Rightarrow> (seating_plan \<Rightarrow> bool) \<Rightarrow> (seating_plan \<Rightarrow> seating_plan)
     \<Rightarrow> venue_db \<Rightarrow> (venue_error + unit) \<times> venue_db" where
  "update_plan f k noRows p g d =
     (if f (Stmt k) then (Inl ErrDb, d)
      else if rows_affected p (db_plans d) = 0 then (Inl noRows, d)
      else if f CommitLost then (Inl ErrDb, d\<lparr>db_plans := sql_update p g (db_plans d)\<rparr>)
      else (Inr (), d\<lparr>db_plans := sql_update p g (db_plans d)\<rparr>))"

definition set_plan_status :: "plan_status \<Rightarrow> int \<Rightarrow> seating_plan \<Rightarrow> seating_plan" where
  "set_plan_status st now p = p\<lparr>p_status := st, p_updated := now\<rparr>"

definition Activate ::
  "faults \<Rightarrow> int \<Rightarrow> string \<Rightarrow> int \<Rightarrow> venue_db \<Rightarrow> venue_db \<Rightarrow> venue_db \<Rightarrow> (venue_error + unit) \<times> venue_db" where
  "Activate f now planID expectedVersion s1 s2 d =
     (case FindPlanByID f 0 planID s1 of
        Inl e \<Rightarrow> (Inl e, d)
      | Inr p \<Rightarrow>
          if p_status p = PlanStatusActive then (Inl ErrPlanAlreadyActive, d)
          else if f (Stmt 1) then (Inl ErrDb, d)
          else if filter (\<lambda>s. sec_plan s = planID) (db_sections s2) = [] then (Inl ErrPlanHasNoSections, d)
          else update_plan f 2 ErrVersionConflict
                 (\<lambda>p. p_id p = planID \<and> p_version p = expectedVersion \<and>
                      (p_status p = PlanStatusDraft \<or> p_status p = PlanStatusInactive))
                 (set_plan_status PlanStatusActive now) d)"

definition Deactivate ::
  "faults \<Rightarrow> int \<Rightarrow> string \<Rightarrow> string \<Rightarrow> venue_db \<Rightarrow> venue_db \<Rightarrow> (venue_error + unit) \<times> venue_db" where
  "Deactivate f now planID organizerID snap d =
     (case FindPlanByID f 0 planID snap of
        Inl e \<Rightarrow> (Inl e, d)
      | Inr p \<Rightarrow>
          if p_organizer p \<noteq> organizerID then (Inl ErrPlanNotFound, d)
          else if p_status p \<noteq> PlanStatusActive then (Inl ErrPlanNotActive, d)
          else update_plan f 1 ErrPlanNotActive
                 (\<lambda>p. p_id p = planID \<and> p_organizer p = organizerID \<and> p_status p = PlanStatusActive)
                 (set_plan_status PlanStatusInactive now) d)"

definition edit_plan :: "seating_plan \<Rightarrow> int \<Rightarrow> seating_plan \<Rightarrow> seating_plan" where
  "edit_plan p now row = row\<lparr>p_name := p_name p, p_max_per_order := p_max_per_order p,
     p_assignment := default_text ''manual'' (p_assignment p),
     p_pricing := default_text ''single'' (p_pricing p), p_updated := now\<rparr>"

definition UpdatePlan ::
  "faults \<Rightarrow> int \<Rightarrow> seating_plan \<Rightarrow> venue_db \<Rightarrow> (venue_error + unit) \<times> venue_db" where
  "UpdatePlan f now p d =
     (let hit = (\<lambda>row. p_id row = p_id p \<and> p_organizer row = p_organizer p)
      in if rows_affected hit (db_plans d) \<noteq> 0 \<and>
            \<not> plan_checks (p_max_per_order p) (default_text ''manual'' (p_assignment p))
                (default_text ''single'' (p_pricing p))
         then (Inl ErrDb, d)
         else update_plan f 0 ErrPlanNotFound hit (edit_plan p now) d)"

definition set_layout :: "string \<Rightarrow> int \<Rightarrow> seating_plan \<Rightarrow> seating_plan" where
  "set_layout layout now p = p\<lparr>p_layout := layout, p_updated := now\<rparr>"

definition SaveLayout ::
  "faults \<Rightarrow> int \<Rightarrow> string \<Rightarrow> string \<Rightarrow> string \<Rightarrow> venue_db \<Rightarrow> (venue_error + unit) \<times> venue_db" where
  "SaveLayout f now planID organizerID layout d =
     (let hit = (\<lambda>p. p_id p = planID \<and> p_organizer p = organizerID \<and> p_status p = PlanStatusDraft)
      in if \<not> f (Stmt 0) \<and> rows_affected hit (db_plans d) = 0
         then (case FindPlanByID f 1 planID d of
                 Inl e \<Rightarrow> (Inl e, d)
               | Inr p \<Rightarrow> if p_organizer p \<noteq> organizerID then (Inl ErrPlanNotFound, d)
                          else (Inl ErrPlanAlreadyActive, d))
         else update_plan f 0 ErrPlanNotFound hit (set_layout (default_text ''{}'' layout) now) d)"

section \<open>Price tiers\<close>

definition CreateTier ::
  "faults \<Rightarrow> string \<Rightarrow> int \<Rightarrow> price_tier \<Rightarrow> venue_db \<Rightarrow> (venue_error + price_tier) \<times> venue_db" where
  "CreateTier f newid now t d =
     (let t' = t\<lparr>pt_id := newid, pt_created := now\<rparr>
      in run_stmt ErrDb f t' (d\<lparr>db_tiers := db_tiers d @ [t']\<rparr>) d)"

definition FindTierByID :: "faults \<Rightarrow> string \<Rightarrow> venue_db \<Rightarrow> venue_error + price_tier" where
  "FindTierByID f tid d =
     (if f (Stmt 0) then Inl ErrDb
      else case find_row pt_id tid (db_tiers d) of None \<Rightarrow> Inl ErrSectionNotFound | Some t \<Rightarrow> Inr t)"

definition ListTiersByPlan :: "faults \<Rightarrow> string \<Rightarrow> venue_db \<Rightarrow> venue_error + price_tier list" where
  "ListTiersByPlan f planID d = bind_res (stmt ErrDb f 0) (\<lambda>_.
     Inr (sort_key pt_created (filter (\<lambda>t. pt_plan t = planID) (db_tiers d))))"

section \<open>Venue template sections\<close>

definition CreateVenueSection ::
  "faults \<Rightarrow> string \<Rightarrow> int \<Rightarrow> venue_section \<Rightarrow> venue_db \<Rightarrow> (venue_error + venue_section) \<times> venue_db" where
  "CreateVenueSection f newid now v d =
     (let row = v\<lparr>vs_id := newid, vs_position := default_text ''{}'' (vs_position v),
                  vs_created := now, vs_updated := now\<rparr>
      in run_stmt ErrDb f (v\<lparr>vs_id := newid, vs_created := now, vs_updated := now\<rparr>)
           (d\<lparr>db_venue_sections := db_venue_sections d @ [row]\<rparr>) d)"

definition FindVenueSectionByID :: "faults \<Rightarrow> string \<Rightarrow> venue_db \<Rightarrow> venue_error + venue_section" where
  "FindVenueSectionByID f vid d =
     (if f (Stmt 0) then Inl ErrDb
      else case find_row vs_id vid (db_venue_sections d) of None \<Rightarrow> Inl ErrSectionNotFound | Some v \<Rightarrow> Inr v)"

definition ListVenueSections :: "faults \<Rightarrow> string \<Rightarrow> venue_db \<Rightarrow> venue_error + venue_section list" where
  "ListVenueSections f venueID d = bind_res (stmt ErrDb f 0) (\<lambda>_. Inr (venue_templates venueID d))"

definition edit_venue_section :: "venue_section \<Rightarrow> int \<Rightarrow> venue_section \<Rightarrow> venue_section" where
  "edit_venue_section v now row = row\<lparr>vs_name := vs_name v, vs_type := vs_type v, vs_rows := vs_rows v,
     vs_columns := vs_columns v, vs_position := default_text ''{}'' (vs_position v),
     vs_order := vs_order v, vs_updated := now\<rparr>"

definition UpdateVenueSection ::
  "faults \<Rightarrow> int \<Rightarrow> venue_section \<Rightarrow> venue_db \<Rightarrow> (venue_error + unit) \<times> venue_db" where
  "UpdateVenueSection f now v d =
     (let hit = (\<lambda>row. vs_id row = vs_id v \<and> vs_venue row = vs_venue v)
      in if f (Stmt 0) then (Inl ErrDb, d)
         else if rows_affected hit (db_venue_sections d) = 0 then (Inl ErrSectionNotFound, d)
         else run_stmt ErrDb f ()
                (d\<lparr>db_venue_sections := sql_update hit (edit_venue_section v now) (db_venue_sections d)\<rparr>) d)"

definition DeleteVenueSection ::
  "faults \<Rightarrow> string \<Rightarrow> string \<Rightarrow> venue_db \<Rightarrow> (venue_error + unit) \<times> venue_db" where
  "DeleteVenueSection f vid venueID d =
     (let hit = (\<lambda>row. vs_id row = vid \<and> vs_venue row = venueID)
      in if f (Stmt 0) then (Inl ErrDb, d)
         else if rows_affected hit (db_venue_sections d) = 0 then (Inl ErrSectionNotFound, d)
         else run_stmt ErrDb f ()
                (d\<lparr>db_venue_sections := filter (\<lambda>r. \<not> hit r) (db_venue_sections d)\<rparr>) d)"

section \<open>Venues\<close>

definition CreateVenue ::
  "faults \<Rightarrow> string \<Rightarrow> int \<Rightarrow> venue \<Rightarrow> venue_db \<Rightarrow> (venue_error + venue) \<times> venue_db" where
  "CreateVenue f newid now v d =
     (let v' = v\<lparr>v_id := newid, v_created := now, v_updated := now\<rparr>
      in run_stmt ErrDb f v' (d\<lparr>db_venues := db_venues d @ [v']\<rparr>) d)"

definition FindVenueByID :: "faults \<Rightarrow> string \<Rightarrow> venue_db \<Rightarrow> venue_error + venue" where
  "FindVenueByID f vid d =
     (if f (Stmt 0) then Inl ErrDb
      else case find_row v_id vid (db_venues d) of None \<Rightarrow> Inl ErrVenueNotFound | Some v \<Rightarrow> Inr v)"

definition ListVenuesByOrganizer :: "faults \<Rightarrow> string \<Rightarrow> venue_db \<Rightarrow> venue_error + venue list" where
  "ListVenuesByOrganizer f organizerID d = bind_res (stmt ErrDb f 0) (\<lambda>_.
     Inr (sort_key (\<lambda>v. - v_created v) (filter (\<lambda>v. v_organizer v = organizerID) (db_venues d))))"

definition edit_venue :: "venue \<Rightarrow> int \<Rightarrow> venue \<Rightarrow> venue" where
  "edit_venue v now row = row\<lparr>v_name := v_name v, v_capacity := v_capacity v, v_timezone := v_timezone v,
     v_address := v_address v, v_updated := now\<rparr>"

definition UpdateVenue :: "faults \<Rightarrow> int \<Rightarrow> venue \<Rightarrow> venue_db \<Rightarrow> (venue_error + unit) \<times> venue_db" where
  "UpdateVenue f now v d =
     (let hit = (\<lambda>row. v_id row = v_id v \<and> v_organizer row = v_organizer v)
      in if f (Stmt 0) then (Inl ErrDb, d)
         else if rows_affected hit (db_venues d) = 0 then (Inl ErrVenueNotFound, d)
         else run_stmt ErrDb f () (d\<lparr>db_venues := sql_update hit (edit_venue v now) (db_venues d)\<rparr>) d)"

section \<open>The life of a plan\<close>

interpretation plan_status: keyed_update p_id "set_plan_status st now" for st now
  by unfold_locales (simp add: set_plan_status_def)

interpretation plan_edit: keyed_update p_id "edit_plan p now" for p now
  by unfold_locales (simp add: edit_plan_def)

interpretation plan_layout: keyed_update p_id "set_layout l now" for l now
  by unfold_locales (simp add: set_layout_def)

text \<open>Every operation on existing plans, with the states it read.\<close>

inductive plan_step :: "venue_db \<Rightarrow> venue_db \<Rightarrow> bool" where
  activate: "plan_step d (snd (Activate f now pid ver s1 s2 d))"
| deactivate: "plan_step d (snd (Deactivate f now pid org snap d))"
| update: "plan_step d (snd (UpdatePlan f now p d))"
| save_layout: "plan_step d (snd (SaveLayout f now pid org l d))"

fun plan_moves :: "plan_status \<Rightarrow> plan_status \<Rightarrow> bool" where
  "plan_moves PlanStatusDraft PlanStatusActive = True"
| "plan_moves PlanStatusInactive PlanStatusActive = True"
| "plan_moves PlanStatusActive PlanStatusInactive = True"
| "plan_moves a b = (a = b)"

lemma plan_moves_refl [simp]: "plan_moves a a"
  by (cases a) auto

definition plan_frame :: "seating_plan \<Rightarrow> seating_plan \<Rightarrow> bool" where
  "plan_frame p q \<longleftrightarrow> plan_moves (p_status p) (p_status q) \<and> p_version q = p_version p \<and>
     p_venue q = p_venue p \<and> p_ticket q = p_ticket p \<and> p_organizer q = p_organizer p \<and>
     p_created q = p_created p \<and> (p_status p \<noteq> PlanStatusDraft \<longrightarrow> p_layout q = p_layout p)"

lemma plan_frame_refl [simp]: "plan_frame p p"
  by (simp add: plan_frame_def)

lemma update_plan_frame:
  assumes K: "keyed_update p_id g" and g: "\<And>p. hit p \<Longrightarrow> plan_frame p (g p)"
    and d': "d' = snd (update_plan f k e hit g d)" and p: "find_row p_id pid (db_plans d) = Some p"
  shows "\<exists>q. find_row p_id pid (db_plans d') = Some q \<and> plan_frame p q"
  using keyed_update.find_after [OF K, of pid hit "db_plans d"] g p
  unfolding d' update_plan_def by auto

lemma plan_step_frame:
  assumes "plan_step d d'" "find_row p_id pid (db_plans d) = Some p"
  shows "\<exists>q. find_row p_id pid (db_plans d') = Some q \<and> plan_frame p q"
  using assms(1)
proof cases
  case (activate f now pid' ver s1 s2)
  show ?thesis
  proof (cases "d' = d")
    case False
    then have eq: "d' = snd (update_plan f 2 ErrVersionConflict
                 (\<lambda>p. p_id p = pid' \<and> p_version p = ver \<and>
                      (p_status p = PlanStatusDraft \<or> p_status p = PlanStatusInactive))
                 (set_plan_status PlanStatusActive now) d)"
      using activate by (auto simp: Activate_def split: sum.splits if_splits)
    show ?thesis
      by (rule update_plan_frame [OF plan_status.keyed_update_axioms _ eq assms(2)]) (auto simp: plan_frame_def set_plan_status_def)
  qed (use assms in simp)
next
  case (deactivate f now pid' org snap)
  show ?thesis
  proof (cases "d' = d")
    case False
    then have eq: "d' = snd (update_plan f 1 ErrPlanNotActive
                 (\<lambda>p. p_id p = pid' \<and> p_organizer p = org \<and> p_status p = PlanStatusActive)
                 (set_plan_status PlanStatusInactive now) d)"
      using deactivate by (auto simp: Deactivate_def split: sum.splits if_splits)
    show ?thesis
      by (rule update_plan_frame [OF plan_status.keyed_update_axioms _ eq assms(2)]) (auto simp: plan_frame_def set_plan_status_def)
  qed (use assms in simp)
next
  case (update f now p')
  show ?thesis
  proof (cases "d' = d")
    case False
    then have eq: "d' = snd (update_plan f 0 ErrPlanNotFound
        (\<lambda>row. p_id row = p_id p' \<and> p_organizer row = p_organizer p') (edit_plan p' now) d)"
      using update by (auto simp: UpdatePlan_def Let_def split: if_splits)
    show ?thesis
      by (rule update_plan_frame [OF plan_edit.keyed_update_axioms _ eq assms(2)]) (auto simp: plan_frame_def edit_plan_def)
  qed (use assms in simp)
next
  case (save_layout f now pid' org l)
  show ?thesis
  proof (cases "d' = d")
    case False
    then have eq: "d' = snd (update_plan f 0 ErrPlanNotFound
        (\<lambda>p. p_id p = pid' \<and> p_organizer p = org \<and> p_status p = PlanStatusDraft)
        (set_layout (default_text ''{}'' l) now) d)"
      using save_layout by (auto simp: SaveLayout_def Let_def split: if_splits sum.splits)
    show ?thesis
      by (rule update_plan_frame [OF plan_layout.keyed_update_axioms _ eq assms(2)]) (auto simp: plan_frame_def set_layout_def)
  qed (use assms in simp)
qed


lemma plan_frame_steps:
  assumes "plan_step\<^sup>*\<^sup>* d d'" "find_row p_id pid (db_plans d) = Some p"
  shows "\<exists>q. find_row p_id pid (db_plans d') = Some q \<and> p_version q = p_version p \<and>
     p_venue q = p_venue p \<and> p_ticket q = p_ticket p \<and> p_organizer q = p_organizer p \<and>
     (p_status p \<noteq> PlanStatusDraft \<longrightarrow> p_status q \<noteq> PlanStatusDraft \<and> p_layout q = p_layout p)"
  using assms
proof (induction rule: rtranclp_induct)
  case (step d1 d2)
  obtain q where q: "find_row p_id pid (db_plans d1) = Some q" "p_version q = p_version p"
      "p_venue q = p_venue p" "p_ticket q = p_ticket p" "p_organizer q = p_organizer p"
      "p_status p \<noteq> PlanStatusDraft \<longrightarrow> p_status q \<noteq> PlanStatusDraft \<and> p_layout q = p_layout p"
    using step.IH step.prems by blast
  obtain q' where q': "find_row p_id pid (db_plans d2) = Some q'" "plan_frame q q'"
    using plan_step_frame [OF step.hyps(2) q(1)] by blast
  then have "p_status q \<noteq> PlanStatusDraft \<longrightarrow> p_status q' \<noteq> PlanStatusDraft"
    unfolding plan_frame_def by (cases "p_status q"; cases "p_status q'") auto
  then show ?case using q q' unfolding plan_frame_def by auto
qed simp

section \<open>Properties\<close>

text \<open>
  The life of a seating plan. However activation, deactivation, edits and layout saves are
  interleaved, and whatever they read beforehand, a plan keeps its venue, ticket, organizer and
  version; once it left the draft status it never returns to it and its layout is frozen. The
  version column therefore never changes.
\<close>

theorem plan_life:
  assumes "plan_step\<^sup>*\<^sup>* d d'" and "find_row p_id pid (db_plans d) = Some p"
  shows "\<exists>q. find_row p_id pid (db_plans d') = Some q \<and> p_version q = p_version p \<and>
     p_venue q = p_venue p \<and> p_ticket q = p_ticket p \<and> p_organizer q = p_organizer p \<and>
     (p_status p \<noteq> PlanStatusDraft \<longrightarrow> p_status q \<noteq> PlanStatusDraft \<and> p_layout q = p_layout p)"
  using assms by (rule plan_frame_steps)

definition ex_plan :: seating_plan where
  "ex_plan = \<lparr>p_id = ''p'', p_venue = ''v'', p_ticket = ''t'', p_organizer = ''o'', p_name = ''Main hall'',
     p_status = PlanStatusDraft, p_max_per_order = 10, p_layout = ''{}'', p_assignment = ''manual'',
     p_pricing = ''single'', p_version = 1, p_created = 1, p_updated = 1\<rparr>"

definition ex_section :: plan_section where
  "ex_section = \<lparr>sec_id = ''s'', sec_plan = ''p'', sec_name = ''Stalls'', sec_type = ''ga'', sec_rows = 1,
     sec_columns = 2, sec_tier = [], sec_created = 1, sec_updated = 1\<rparr>"

definition ex_plans :: venue_db where
  "ex_plans = empty_db\<lparr>db_plans := [ex_plan], db_sections := [ex_section]\<rparr>"

definition ex_active :: venue_db where
  "ex_active = snd (Activate no_faults 5 ''p'' 1 ex_plans ex_plans ex_plans)"

lemma plan_life_witness:
  "map p_status (db_plans ex_active) = [PlanStatusActive] \<and>
   (\<exists>q. find_row p_id ''p'' (db_plans (snd (SaveLayout no_faults 6 ''p'' ''o'' ''[1]'' ex_active))) = Some q \<and>
      p_layout q = ''{}'')"
proof -
  let ?p = "ex_plan\<lparr>p_status := PlanStatusActive, p_updated := 5\<rparr>"
  have "plan_step\<^sup>*\<^sup>* ex_active (snd (SaveLayout no_faults 6 ''p'' ''o'' ''[1]'' ex_active))"
    by (rule r_into_rtranclp) (rule plan_step.save_layout)
  moreover have "find_row p_id ''p'' (db_plans ex_active) = Some ?p" by code_simp
  ultimately have "\<exists>q. find_row p_id ''p'' (db_plans (snd (SaveLayout no_faults 6 ''p'' ''o'' ''[1]'' ex_active))) = Some q \<and>
      p_layout q = ''{}''"
    using plan_life [of ex_active _ "''p''" ?p] by (force simp: ex_plan_def)
  moreover have "map p_status (db_plans ex_active) = [PlanStatusActive]" by code_simp
  ultimately show ?thesis by blast
qed

text \<open>
  Updates are last-writer-wins. Two organizers' edits that read the same version of a plan are
  both accepted, one after the other, and the second replaces the first: the version the caller
  supplies is not compared, although the comment on Update says a mismatch is rejected.
\<close>

theorem stale_update_overwrites:
  assumes "fst (UpdatePlan no_faults n1 p d) = Inr ()"
    and "p_id q = p_id p" "p_organizer q = p_organizer p" "p_version q = p_version p"
    and "plan_checks (p_max_per_order q) (default_text ''manual'' (p_assignment q))
           (default_text ''single'' (p_pricing q))"
  shows "fst (UpdatePlan no_faults n2 q (snd (UpdatePlan no_faults n1 p d))) = Inr () \<and>
    (\<forall>row \<in> set (db_plans (snd (UpdatePlan no_faults n2 q (snd (UpdatePlan no_faults n1 p d))))).
       p_id row = p_id p \<and> p_organizer row = p_organizer p \<longrightarrow> p_name row = p_name q)"
proof -
  let ?hit = "\<lambda>row. p_id row = p_id p \<and> p_organizer row = p_organizer p"
  have d1: "snd (UpdatePlan no_faults n1 p d) = d\<lparr>db_plans := sql_update ?hit (edit_plan p n1) (db_plans d)\<rparr>"
    and hit: "rows_affected ?hit (db_plans d) \<noteq> 0"
    using assms(1) by (auto simp: UpdatePlan_def update_plan_def Let_def split: if_splits)
  have "rows_affected ?hit (sql_update ?hit (edit_plan p n1) (db_plans d)) \<noteq> 0"
    using hit by (subst rows_affected_update) (simp_all add: edit_plan_def)
  then show ?thesis
    using assms(2-) unfolding d1
    by (auto simp: UpdatePlan_def update_plan_def Let_def set_sql_update edit_plan_def)
qed

lemma stale_update_overwrites_witness:
  "map p_name (db_plans (snd (UpdatePlan no_faults 8 (ex_plan\<lparr>p_name := ''B''\<rparr>)
     (snd (UpdatePlan no_faults 7 (ex_plan\<lparr>p_name := ''A''\<rparr>) ex_plans))))) = [''B''] \<and>
   fst (UpdatePlan no_faults 8 (ex_plan\<lparr>p_name := ''B''\<rparr>)
     (snd (UpdatePlan no_faults 7 (ex_plan\<lparr>p_name := ''A''\<rparr>) ex_plans))) = Inr ()"
proof
  have a: "fst (UpdatePlan no_faults 7 (ex_plan\<lparr>p_name := ''A''\<rparr>) ex_plans) = Inr ()" by code_simp
  show "fst (UpdatePlan no_faults 8 (ex_plan\<lparr>p_name := ''B''\<rparr>)
     (snd (UpdatePlan no_faults 7 (ex_plan\<lparr>p_name := ''A''\<rparr>) ex_plans))) = Inr ()"
    by (rule conjunct1 [OF stale_update_overwrites [OF a]])
      (simp_all add: ex_plan_def plan_checks_def default_text_def)
qed code_simp

end
