(* ===== verification/Reservation_Repo.thy ===== *)
theory Reservation_Repo
  imports Section_Repo
begin

text \<open>
  The durable reservation ledger of venue-service
  (\<^verbatim>\<open>internal/repository/postgres/reservation_repo.go\<close>). Release and finalize first read the
  reservation outside a transaction and then act in one: the earlier state of the database is
  their argument \<open>snap\<close>, so what a concurrent request did in between is part of the model.
\<close>

section \<open>Reading the ledger\<close>

definition FindReservationByID ::
  "faults \<Rightarrow> string \<Rightarrow> venue_db \<Rightarrow> venue_error + seat_reservation \<times> reservation_item list" where
  "FindReservationByID f rid d =
     bind_res (stmt ErrDb f 0) (\<lambda>_.
       case reservation_of d rid of
         None \<Rightarrow> Inl ErrReservationNotFound
       | Some r \<Rightarrow> bind_res (stmt ErrDb f 1) (\<lambda>_. Inr (r, items_of d rid)))"

definition currentStateErr ::
  "faults \<Rightarrow> nat \<Rightarrow> string \<Rightarrow> reservation_status \<Rightarrow> venue_db \<Rightarrow> venue_error" where
  "currentStateErr f k rid want d =
     (if f (Stmt k) then ErrDb
      else case reservation_of d rid of
        None \<Rightarrow> ErrReservationNotFound
      | Some r \<Rightarrow>
          if r_status r = want then ErrReservationAlreadyDone
          else if want = ReservationStatusReleased \<and> r_status r = ReservationStatusExpired
          then ErrReservationAlreadyDone
          else ErrReservationConflict)"

section \<open>Creating reservations\<close>

text \<open>
  Inserting one item: the primary key is (reservation, seat), so a second item for the same pair
  is refused. \<open>k\<close> is the number of the statement.
\<close>

fun insert_items ::
  "faults \<Rightarrow> nat \<Rightarrow> reservation_item list \<Rightarrow> venue_db \<Rightarrow> venue_error + venue_db" where
  "insert_items f k [] d = Inr d"
| "insert_items f k (i # is) d =
     (if f (Stmt k) \<or>
         (\<exists>j \<in> set (db_items d). i_reservation j = i_reservation i \<and> i_seat j = i_seat i)
      then Inl ErrDb
      else insert_items f (Suc k) is (d\<lparr>db_items := db_items d @ [i]\<rparr>))"

definition CreateReservation ::
  "faults \<Rightarrow> string \<Rightarrow> int \<Rightarrow> seat_reservation \<Rightarrow> reservation_item list \<Rightarrow> venue_db
     \<Rightarrow> (venue_error + seat_reservation \<times> reservation_item list) \<times> venue_db" where
  "CreateReservation f newid now res items d = run_tx ErrDb f
     (on_ok (stmt ErrDb f 0) (\<lambda>_.
      let res' = res\<lparr>r_id := newid, r_order := None, r_created := now, r_updated := now\<rparr>;
          items' = map (\<lambda>i. i\<lparr>i_reservation := newid\<rparr>) items
      in on_ok (insert_items f 1 items' (d\<lparr>db_reservations := db_reservations d @ [res']\<rparr>)) (\<lambda>d'.
         TxCommit (res', items') d'))) d"

text \<open>The price of a seat: its own tier's, else its section's, else the ticket's base price.\<close>

definition tier_price :: "venue_db \<Rightarrow> string \<Rightarrow> string option" where
  "tier_price d tier = (if tier = [] then None else map_option pt_price (find_row pt_id tier (db_tiers d)))"

definition seat_price :: "venue_db \<Rightarrow> string \<Rightarrow> seat \<Rightarrow> string" where
  "seat_price d basePrice s =
     (case tier_price d (s_tier s) of
        Some p \<Rightarrow> p
      | None \<Rightarrow>
          (case find_row sec_id (s_section s) (db_sections d) of
             None \<Rightarrow> basePrice
           | Some sec \<Rightarrow> (case tier_price d (sec_tier sec) of Some p \<Rightarrow> p | None \<Rightarrow> basePrice)))"

definition reservable :: "int \<Rightarrow> string \<Rightarrow> seat \<Rightarrow> bool" where
  "reservable now userID s \<longleftrightarrow>
     s_status s = SeatStatusAvailable \<or>
     s_status s = SeatStatusHeld \<and> (s_held_by s = Some userID \<or> hold_lapsed now s)"

definition new_item :: "venue_db \<Rightarrow> string \<Rightarrow> string \<Rightarrow> seat \<Rightarrow> reservation_item" where
  "new_item d basePrice reservationID s =
     \<lparr>i_reservation = reservationID, i_seat = s_id s, i_section = s_section s,
      i_price = seat_price d basePrice s, i_label = s_label s\<rparr>"

definition AtomicReserveAndCreate ::
  "faults \<Rightarrow> int \<Rightarrow> string list \<Rightarrow> seat_reservation \<Rightarrow> string \<Rightarrow> int \<Rightarrow> venue_db
     \<Rightarrow> (venue_error + seat_reservation \<times> reservation_item list) \<times> venue_db" where
  "AtomicReserveAndCreate f now seatIDs res basePrice maxPerUser d = run_tx ErrDb f
     (on_ok (lockBuyerOnPlan f 0 maxPerUser) (\<lambda>_.
      on_ok (stmt ErrDb f 1) (\<lambda>_.
      let rows = lock_seats (r_plan res) seatIDs d;
          ok = (\<lambda>id. case find_row s_id id rows of None \<Rightarrow> False | Some s \<Rightarrow> reservable now (r_user res) s)
      in if \<not> list_all ok seatIDs then TxAbort ErrSeatNotAvailable
         else
         on_ok (checkSeatLimit f 2 now (r_plan res) (r_user res) seatIDs maxPerUser d) (\<lambda>_.
         on_ok (stmt ErrDb f 3) (\<lambda>_.
         let d1 = d\<lparr>db_seats := sql_update (\<lambda>s. s_id s \<in> set seatIDs)
                                 (reserve_seat (r_id res) now) (db_seats d)\<rparr>;
             res' = res\<lparr>r_order := None, r_created := now, r_updated := now\<rparr>;
             items = map (\<lambda>id. case find_row s_id id rows of
                              Some s \<Rightarrow> new_item d basePrice (r_id res) s
                            | None \<Rightarrow> \<lparr>i_reservation = r_id res, i_seat = [], i_section = [],
                                       i_price = [], i_label = []\<rparr>) seatIDs
         in on_ok (stmt ErrDb f 4) (\<lambda>_.
            if reservation_of d (r_id res) \<noteq> None then TxAbort ErrReservationAlreadyDone
            else on_ok (insert_items f 5 items (d1\<lparr>db_reservations := db_reservations d1 @ [res']\<rparr>)) (\<lambda>d'.
                 TxCommit (res', items) d'))))))) d"

section \<open>Release and finalize\<close>

definition set_status :: "reservation_status \<Rightarrow> int \<Rightarrow> seat_reservation \<Rightarrow> seat_reservation" where
  "set_status st now r = r\<lparr>r_status := st, r_updated := now\<rparr>"

definition mark_sold :: "string \<Rightarrow> int \<Rightarrow> seat_reservation \<Rightarrow> seat_reservation" where
  "mark_sold orderID now r = r\<lparr>r_status := ReservationStatusSold, r_order := Some orderID, r_updated := now\<rparr>"

definition claimable :: "string \<Rightarrow> seat_reservation \<Rightarrow> bool" where
  "claimable rid r \<longleftrightarrow> r_id r = rid \<and> r_status r = ReservationStatusReserved"

text \<open>
  The transaction the two operations share: claim the reservation with a guarded update, then
  move the seats of the items read earlier; with no seats the seat statement is not sent.
\<close>

definition claim_tx ::
  "faults \<Rightarrow> string \<Rightarrow> reservation_status \<Rightarrow> (seat_reservation \<Rightarrow> seat_reservation) \<Rightarrow> (seat \<Rightarrow> seat)
     \<Rightarrow> string list \<Rightarrow> venue_db \<Rightarrow> (venue_error, unit, venue_db) tx_out" where
  "claim_tx f rid want updRes updSeat seatIDs d =
     on_ok (stmt ErrDb f 2) (\<lambda>_.
       if rows_affected (claimable rid) (db_reservations d) = 0
       then TxAbort (currentStateErr f 3 rid want d)
       else
         let d1 = d\<lparr>db_reservations := sql_update (claimable rid) updRes (db_reservations d)\<rparr>
         in if seatIDs = [] then TxCommit () d1
            else on_ok (stmt ErrDb f 4) (\<lambda>_.
              TxCommit () (d1\<lparr>db_seats := sql_update
                 (\<lambda>s. s_id s \<in> set seatIDs \<and> s_status s = SeatStatusReserved) updSeat (db_seats d1)\<rparr>)))"

definition ReleaseReservation ::
  "faults \<Rightarrow> int \<Rightarrow> string \<Rightarrow> venue_db \<Rightarrow> venue_db \<Rightarrow> (venue_error + unit) \<times> venue_db" where
  "ReleaseReservation f now reservationID snap d =
     (case FindReservationByID f reservationID snap of
        Inl e \<Rightarrow> (Inl e, d)
      | Inr (res, items) \<Rightarrow>
          (case r_status res of
             ReservationStatusReleased \<Rightarrow> (Inl ErrReservationAlreadyDone, d)
           | ReservationStatusExpired \<Rightarrow> (Inl ErrReservationAlreadyDone, d)
           | ReservationStatusSold \<Rightarrow> (Inl ErrReservationConflict, d)
           | ReservationStatusReserved \<Rightarrow>
               run_tx ErrDb f
                 (claim_tx f reservationID ReservationStatusReleased
                    (set_status ReservationStatusReleased now) (free_seat now)
                    (map i_seat items) d) d))"

definition FinalizeReservation ::
  "faults \<Rightarrow> int \<Rightarrow> string \<Rightarrow> string \<Rightarrow> venue_db \<Rightarrow> venue_db \<Rightarrow> (venue_error + unit) \<times> venue_db" where
  "FinalizeReservation f now reservationID orderID snap d =
     (case FindReservationByID f reservationID snap of
        Inl e \<Rightarrow> (Inl e, d)
      | Inr (res, items) \<Rightarrow>
          (case r_status res of
             ReservationStatusSold \<Rightarrow> (Inl ErrReservationAlreadyDone, d)
           | ReservationStatusReleased \<Rightarrow> (Inl ErrReservationConflict, d)
           | ReservationStatusExpired \<Rightarrow> (Inl ErrReservationConflict, d)
           | ReservationStatusReserved \<Rightarrow>
               run_tx ErrDb f
                 (claim_tx f reservationID ReservationStatusSold
                    (mark_sold orderID now) (sell_seat now)
                    (map i_seat items) d) d))"

section \<open>Expiry sweep\<close>

definition expirySweepBatch :: nat where "expirySweepBatch = 200"

definition reservation_lapsed :: "int \<Rightarrow> seat_reservation \<Rightarrow> bool" where
  "reservation_lapsed now r \<longleftrightarrow> r_status r = ReservationStatusReserved \<and>
     (case r_expires r of None \<Rightarrow> False | Some u \<Rightarrow> u < now)"

text \<open>
  \<open>locked\<close> are the reservations other transactions have locked, which \<^verbatim>\<open>SKIP LOCKED\<close> leaves out.
\<close>

definition sweep_batch :: "string list \<Rightarrow> int \<Rightarrow> venue_db \<Rightarrow> string list" where
  "sweep_batch locked now d =
     map r_id (take expirySweepBatch (sort_key (\<lambda>r. case r_expires r of None \<Rightarrow> 0 | Some u \<Rightarrow> u)
       (filter (\<lambda>r. reservation_lapsed now r \<and> r_id r \<notin> set locked) (db_reservations d))))"

definition owned_by_expired :: "string list \<Rightarrow> venue_db \<Rightarrow> seat \<Rightarrow> bool" where
  "owned_by_expired ids d s \<longleftrightarrow> s_status s = SeatStatusReserved \<and>
     (\<exists>i \<in> set (db_items d). i_seat i = s_id s \<and> i_reservation i \<in> set ids \<and>
        s_held_by s = Some (i_reservation i))"

definition SweepExpiredReservations ::
  "faults \<Rightarrow> bool \<Rightarrow> string list \<Rightarrow> int \<Rightarrow> venue_db \<Rightarrow> (venue_error + nat) \<times> venue_db" where
  "SweepExpiredReservations f gotLock locked now d = run_tx ErrDb f
     (on_ok (stmt ErrDb f 0) (\<lambda>_.
      if \<not> gotLock then TxReturn 0
      else on_ok (stmt ErrDb f 1) (\<lambda>_.
        let ids = sweep_batch locked now d;
            d1 = d\<lparr>db_reservations := sql_update
                     (\<lambda>r. r_status r = ReservationStatusReserved \<and> r_id r \<in> set ids)
                     (set_status ReservationStatusExpired now) (db_reservations d)\<rparr>
        in if ids = [] then TxReturn 0
           else on_ok (stmt ErrDb f 2) (\<lambda>_.
             TxCommit (length ids)
               (d1\<lparr>db_seats := sql_update (owned_by_expired ids d1) (free_seat now) (db_seats d1)\<rparr>))))) d"

end
