(* ===== verification/Hold_Manager.thy ===== *)
theory Hold_Manager
  imports Plan_Repo Reservation_Repo "HOL-Library.AList"
begin

text \<open>
  The hold manager of venue-service (\<^verbatim>\<open>internal/hold/\<close>): the Redis seat state with its two Lua
  scripts, the hold and release path over Redis and PostgreSQL, the availability snapshot, the
  decorator that keeps Redis in step with the reservation ledger, and the cached seat limit.
  Times and durations are in milliseconds. A Redis call can fail before it runs or lose its
  answer after it ran; \<open>rfc\<close> is the RFC 3339 text of a time.
\<close>

section \<open>Redis\<close>

text \<open>
  Per plan: the hash of seat states, the marker keys with their expiry, the advisory sets of a
  user's holds, the change counter and the messages published to the changes channel.
\<close>

record redis =
  rd_seats :: "string \<Rightarrow> (string \<times> string) list"
  rd_markers :: "string \<times> string \<Rightarrow> (string \<times> int option) option"
  rd_user_holds :: "string \<times> string \<Rightarrow> string list"
  rd_version :: "string \<Rightarrow> nat"
  rd_published :: "(string \<times> string \<times> string list \<times> nat) list"

datatype redis_point = RFail nat | RLost nat

type_synonym redis_faults = "redis_point \<Rightarrow> bool"

abbreviation no_redis_faults :: redis_faults where
  "no_redis_faults \<equiv> \<lambda>_. False"

text \<open>One call: it fails without effect, or runs and its answer is lost, or succeeds.\<close>

definition redis_call :: "redis_faults \<Rightarrow> nat \<Rightarrow> 'a \<times> redis \<Rightarrow> redis \<Rightarrow> 'a option \<times> redis" where
  "redis_call rf k run rd =
     (if rf (RFail k) then (None, rd) else if rf (RLost k) then (None, snd run) else (Some (fst run), snd run))"

definition hget :: "redis \<Rightarrow> string \<Rightarrow> string \<Rightarrow> string option" where
  "hget rd planID sid = map_of (rd_seats rd planID) sid"

definition hset :: "string \<Rightarrow> string \<Rightarrow> string \<Rightarrow> redis \<Rightarrow> redis" where
  "hset planID sid st rd = rd\<lparr>rd_seats := (rd_seats rd)(planID := AList.update sid st (rd_seats rd planID))\<rparr>"

definition set_marker :: "string \<Rightarrow> string \<Rightarrow> string \<Rightarrow> int option \<Rightarrow> redis \<Rightarrow> redis" where
  "set_marker planID sid meta expiry rd = rd\<lparr>rd_markers := (rd_markers rd)((planID, sid) \<mapsto> (meta, expiry))\<rparr>"

definition del_marker :: "string \<Rightarrow> string \<Rightarrow> redis \<Rightarrow> redis" where
  "del_marker planID sid rd = rd\<lparr>rd_markers := (rd_markers rd)((planID, sid) := None)\<rparr>"

text \<open>\<^verbatim>\<open>GET\<close> and \<^verbatim>\<open>EXISTS\<close> of a marker key: an expired key is gone.\<close>

definition marker :: "int \<Rightarrow> redis \<Rightarrow> string \<Rightarrow> string \<Rightarrow> string option" where
  "marker now rd planID sid =
     (case rd_markers rd (planID, sid) of
        None \<Rightarrow> None
      | Some (meta, None) \<Rightarrow> Some meta
      | Some (meta, Some e) \<Rightarrow> if now < e then Some meta else None)"

definition redisStateAvailable :: string where "redisStateAvailable = ''0''"
definition redisStateReserved :: string where "redisStateReserved = ''2''"
definition redisStateSold :: string where "redisStateSold = ''3''"

section \<open>The Lua scripts\<close>

datatype lua_result = LuaOk | LuaConflict string | LuaError

definition hold_meta :: "string \<Rightarrow> string \<Rightarrow> string \<Rightarrow> string \<Rightarrow> string" where
  "hold_meta userId sessionId heldAt expiresAt =
     ''{\"userId\":\"'' @ userId @ ''\",\"sessionId\":\"'' @ sessionId @ ''\",\"heldAt\":\"'' @ heldAt @
     ''\",\"expiresAt\":\"'' @ expiresAt @ ''\"}''"

definition seat_blocked :: "int \<Rightarrow> redis \<Rightarrow> string \<Rightarrow> string \<Rightarrow> bool" where
  "seat_blocked now rd planID sid =
     (case hget rd planID sid of
        None \<Rightarrow> False
      | Some st \<Rightarrow> st \<noteq> ''0'' \<and> (st = ''3'' \<or> marker now rd planID sid \<noteq> None))"

text \<open>The second phase. \<^verbatim>\<open>SET ... EX\<close> refuses a lifetime below one second and ends the script there.\<close>

fun hold_phase2 :: "int \<Rightarrow> string \<Rightarrow> string \<Rightarrow> int \<Rightarrow> string list \<Rightarrow> redis \<Rightarrow> lua_result \<times> redis" where
  "hold_phase2 now planID meta ttlSec [] rd = (LuaOk, rd)"
| "hold_phase2 now planID meta ttlSec (sid # sids) rd =
     (if ttlSec \<le> 0 then (LuaError, hset planID sid ''1'' rd)
      else hold_phase2 now planID meta ttlSec sids
             (set_marker planID sid meta (Some (now + ttlSec * 1000)) (hset planID sid ''1'' rd)))"

definition luaHold ::
  "int \<Rightarrow> string \<Rightarrow> string \<Rightarrow> string \<Rightarrow> string \<Rightarrow> string \<Rightarrow> int \<Rightarrow> string list \<Rightarrow> redis \<Rightarrow> lua_result \<times> redis" where
  "luaHold now planID userId sessionId heldAt expiresAt ttlSec seatIDs rd =
     (case List.find (seat_blocked now rd planID) seatIDs of
        Some sid \<Rightarrow> (LuaConflict sid, rd)
      | None \<Rightarrow> hold_phase2 now planID (hold_meta userId sessionId heldAt expiresAt) ttlSec seatIDs rd)"

text \<open>\<^verbatim>\<open>string.find(raw, pat, 1, true)\<close>: a plain substring search.\<close>

fun contains :: "string \<Rightarrow> string \<Rightarrow> bool" where
  "contains pat s \<longleftrightarrow> take (length pat) s = pat \<or> (case s of [] \<Rightarrow> False | _ # r \<Rightarrow> contains pat r)"

declare contains.simps [simp del]

definition owner_pattern :: "string \<Rightarrow> string" where
  "owner_pattern userId = ''\"userId\":\"'' @ userId @ ''\"''"

definition lua_release_seat :: "int \<Rightarrow> string \<Rightarrow> string \<Rightarrow> string \<Rightarrow> redis \<Rightarrow> redis" where
  "lua_release_seat now planID userId sid rd =
     (if hget rd planID sid = Some ''1'' then
        (case marker now rd planID sid of
           Some raw \<Rightarrow>
             if contains (owner_pattern userId) raw
             then del_marker planID sid (hset planID sid ''0'' rd) else rd
         | None \<Rightarrow> hset planID sid ''0'' rd)
      else rd)"

definition luaRelease :: "int \<Rightarrow> string \<Rightarrow> string \<Rightarrow> string list \<Rightarrow> redis \<Rightarrow> lua_result \<times> redis" where
  "luaRelease now planID userId seatIDs rd = (LuaOk, fold (lua_release_seat now planID userId) seatIDs rd)"

section \<open>The manager\<close>

datatype hold_error = HRepo venue_error | HPlanNotActive | HSeatLimitUnavailable | HRedis

text \<open>
  What the manager was built with: whether it has a Redis client and a broadcaster, the hold
  lifetime, and the seat limit lookup (\<open>None\<close> while the cap is not enforced).
\<close>

record hold_config =
  hc_redis :: bool
  hc_broadcaster :: bool
  hc_ttl :: int
  hc_limit :: "(seating_plan \<Rightarrow> int option) option"

definition NewManager :: "bool \<Rightarrow> int \<Rightarrow> hold_config" where
  "NewManager withRedis holdTTL = \<lparr>hc_redis = withRedis, hc_broadcaster = False,
     hc_ttl = (if holdTTL \<le> 0 then 600000 else holdTTL), hc_limit = None\<rparr>"

record hold_world =
  hw_db :: venue_db
  hw_redis :: redis
  hw_local :: "string \<Rightarrow> nat"
  hw_broadcast :: "(string \<times> string \<times> string list \<times> nat) list"

definition nextVersion :: "hold_config \<Rightarrow> redis_faults \<Rightarrow> string \<Rightarrow> hold_world \<Rightarrow> nat \<times> hold_world" where
  "nextVersion c rf planID w =
     (if \<not> hc_redis c then
        let v = hw_local w planID + 1 in (v, w\<lparr>hw_local := (hw_local w)(planID := v)\<rparr>)
      else
        let rd = hw_redis w; v = rd_version rd planID + 1;
            (a, rd') = redis_call rf 4 (v, rd\<lparr>rd_version := (rd_version rd)(planID := v)\<rparr>) rd
        in (case a of None \<Rightarrow> 0 | Some v \<Rightarrow> v, w\<lparr>hw_redis := rd'\<rparr>))"

definition currentVersion :: "hold_config \<Rightarrow> redis_faults \<Rightarrow> string \<Rightarrow> hold_world \<Rightarrow> nat" where
  "currentVersion c rf planID w =
     (if \<not> hc_redis c then hw_local w planID
      else if rf (RFail 6) \<or> rf (RLost 6) then 0 else rd_version (hw_redis w) planID)"

definition publishChange ::
  "hold_config \<Rightarrow> redis_faults \<Rightarrow> string \<Rightarrow> string \<Rightarrow> string list \<Rightarrow> hold_world \<Rightarrow> hold_world" where
  "publishChange c rf planID event seatIDs w =
     (let (v, w1) = nextVersion c rf planID w; msg = (planID, event, seatIDs, v)
      in if hc_redis c then
           w1\<lparr>hw_redis := snd (redis_call rf 5
                ((), (hw_redis w1)\<lparr>rd_published := rd_published (hw_redis w1) @ [msg]\<rparr>) (hw_redis w1))\<rparr>
         else if hc_broadcaster c then w1\<lparr>hw_broadcast := hw_broadcast w1 @ [msg]\<rparr>
         else w1)"

definition redisHold ::
  "(int \<Rightarrow> string) \<Rightarrow> redis_faults \<Rightarrow> int \<Rightarrow> string \<Rightarrow> string \<Rightarrow> string \<Rightarrow> string list \<Rightarrow> int \<Rightarrow> int \<Rightarrow> redis
     \<Rightarrow> (hold_error + unit) \<times> redis" where
  "redisHold rfc rf now planID userID sessionID seatIDs ttl expiresAt rd =
     (case redis_call rf 0
             (luaHold now planID userID sessionID (rfc now) (rfc expiresAt) (ttl div 1000) seatIDs rd) rd of
        (Some LuaOk, rd1) \<Rightarrow>
          (Inr (), snd (redis_call rf 1
             ((), rd1\<lparr>rd_user_holds := (rd_user_holds rd1)((planID, userID) :=
                    foldl (\<lambda>xs i. List.insert i xs) (rd_user_holds rd1 (planID, userID)) seatIDs)\<rparr>) rd1))
      | (Some (LuaConflict sid), rd1) \<Rightarrow> (Inl (HRepo ErrSeatNotAvailable), rd1)
      | (_, rd1) \<Rightarrow> (Inl HRedis, rd1))"

definition redisReleaseHold ::
  "redis_faults \<Rightarrow> int \<Rightarrow> string \<Rightarrow> string \<Rightarrow> string list \<Rightarrow> redis \<Rightarrow> (hold_error + unit) \<times> redis" where
  "redisReleaseHold rf now planID userID seatIDs rd =
     (case redis_call rf 2 (luaRelease now planID userID seatIDs rd) rd of
        (Some LuaOk, rd1) \<Rightarrow>
          (Inr (), snd (redis_call rf 3
             ((), rd1\<lparr>rd_user_holds := (rd_user_holds rd1)((planID, userID) :=
                    filter (\<lambda>i. i \<notin> set seatIDs) (rd_user_holds rd1 (planID, userID)))\<rparr>) rd1))
      | (_, rd1) \<Rightarrow> (Inl HRedis, rd1))"

text \<open>\<open>fp\<close> are the faults of reading the plan, \<open>fh\<close> those of the repository operation.\<close>

definition Manager_HoldSeats ::
  "hold_config \<Rightarrow> (int \<Rightarrow> string) \<Rightarrow> faults \<Rightarrow> faults \<Rightarrow> redis_faults \<Rightarrow> int \<Rightarrow> string \<Rightarrow> string \<Rightarrow> string
     \<Rightarrow> string list \<Rightarrow> hold_world \<Rightarrow> (hold_error + string list \<times> int) \<times> hold_world" where
  "Manager_HoldSeats c rfc fp fh rf now planID userID sessionID seatIDs w =
     (case FindPlanByID fp 0 planID (hw_db w) of
        Inl e \<Rightarrow> (Inl (HRepo e), w)
      | Inr plan \<Rightarrow>
        if p_status plan \<noteq> PlanStatusActive then (Inl HPlanNotActive, w)
        else (case (case hc_limit c of None \<Rightarrow> Some 0 | Some f \<Rightarrow> f plan) of
          None \<Rightarrow> (Inl HSeatLimitUnavailable, w)
        | Some maxPerUser \<Rightarrow>
          let expiresAt = now + hc_ttl c;
              db_only = (\<lambda>w. case HoldSeats fh now planID seatIDs userID expiresAt maxPerUser (hw_db w) of
                  (Inl e, d') \<Rightarrow> (Inl (HRepo e), w\<lparr>hw_db := d'\<rparr>)
                | (Inr u, d') \<Rightarrow> (Inr (seatIDs, expiresAt), w\<lparr>hw_db := d'\<rparr>))
          in if \<not> hc_redis c then db_only w
             else (case redisHold rfc rf now planID userID sessionID seatIDs (hc_ttl c) expiresAt (hw_redis w) of
               (Inl e, rd1) \<Rightarrow>
                 if e = HRepo ErrSeatNotAvailable then (Inl e, w\<lparr>hw_redis := rd1\<rparr>)
                 else db_only (w\<lparr>hw_redis := rd1\<rparr>)
             | (Inr u, rd1) \<Rightarrow>
                 (case HoldSeats fh now planID seatIDs userID expiresAt maxPerUser (hw_db w) of
                    (Inl e, d') \<Rightarrow>
                      (Inl (HRepo e),
                       w\<lparr>hw_db := d', hw_redis := snd (redisReleaseHold rf now planID userID seatIDs rd1)\<rparr>)
                  | (Inr u, d') \<Rightarrow>
                      (Inr (seatIDs, expiresAt),
                       publishChange c rf planID ''hold'' seatIDs (w\<lparr>hw_db := d', hw_redis := rd1\<rparr>))))))"

definition Manager_ReleaseHold ::
  "hold_config \<Rightarrow> faults \<Rightarrow> redis_faults \<Rightarrow> int \<Rightarrow> string \<Rightarrow> string \<Rightarrow> string list \<Rightarrow> hold_world
     \<Rightarrow> (hold_error + unit) \<times> hold_world" where
  "Manager_ReleaseHold c f rf now planID userID seatIDs w =
     (let w1 = (if hc_redis c
                then w\<lparr>hw_redis := snd (redisReleaseHold rf now planID userID seatIDs (hw_redis w))\<rparr> else w)
      in case ReleaseHold f now seatIDs userID (hw_db w1) of
           (Inl e, d') \<Rightarrow> (Inl (HRepo e), w1\<lparr>hw_db := d'\<rparr>)
         | (Inr u, d') \<Rightarrow> (Inr (), publishChange c rf planID ''release'' seatIDs (w1\<lparr>hw_db := d'\<rparr>)))"

definition Manager_SweepExpiredHolds ::
  "faults \<Rightarrow> bool \<Rightarrow> int \<Rightarrow> hold_world \<Rightarrow> (venue_error + nat) \<times> hold_world" where
  "Manager_SweepExpiredHolds f gotLock now w =
     (let (a, d') = SweepExpiredHolds f gotLock now (hw_db w) in (a, w\<lparr>hw_db := d'\<rparr>))"

section \<open>Availability\<close>

text \<open>\<^verbatim>\<open>strings.ToLower\<close> of a seat status.\<close>

fun lower_status :: "seat_status \<Rightarrow> string" where
  "lower_status SeatStatusAvailable = ''available''"
| "lower_status SeatStatusHeld = ''held''"
| "lower_status SeatStatusReserved = ''reserved''"
| "lower_status SeatStatusSold = ''sold''"
| "lower_status SeatStatusBlocked = ''blocked''"

record seat_entry =
  se_status :: string
  se_section :: string

record availability =
  av_plan :: string
  av_seats :: "(string \<times> seat_entry) list"
  av_counts :: "(string \<times> nat) list"
  av_version :: nat

text \<open>\<open>xf\<close> are the seats whose \<^verbatim>\<open>EXISTS\<close> call fails; the status from PostgreSQL then stands.\<close>

definition shown_status :: "hold_config \<Rightarrow> (string \<Rightarrow> bool) \<Rightarrow> int \<Rightarrow> redis \<Rightarrow> string \<Rightarrow> seat \<Rightarrow> string" where
  "shown_status c xf now rd planID s =
     (if hc_redis c \<and> s_status s = SeatStatusHeld \<and> \<not> xf (s_id s) \<and> marker now rd planID (s_id s) = None
      then lower_status SeatStatusAvailable else lower_status (s_status s))"

definition bump :: "string \<Rightarrow> (string \<times> nat) list \<Rightarrow> (string \<times> nat) list" where
  "bump st counts = AList.update st (case map_of counts st of None \<Rightarrow> 1 | Some n \<Rightarrow> n + 1) counts"

definition add_seat ::
  "hold_config \<Rightarrow> (string \<Rightarrow> bool) \<Rightarrow> int \<Rightarrow> redis \<Rightarrow> string \<Rightarrow> string \<Rightarrow> seat \<Rightarrow> availability \<Rightarrow> availability" where
  "add_seat c xf now rd planID secID s a =
     (let st = shown_status c xf now rd planID s
      in a\<lparr>av_seats := AList.update (s_id s) \<lparr>se_status = st, se_section = secID\<rparr> (av_seats a),
           av_counts := bump st (av_counts a)\<rparr>)"

fun walk_sections ::
  "(string \<Rightarrow> string) \<Rightarrow> hold_config \<Rightarrow> (string \<Rightarrow> faults) \<Rightarrow> (string \<Rightarrow> bool) \<Rightarrow> int \<Rightarrow> string \<Rightarrow> plan_section list
     \<Rightarrow> hold_world \<Rightarrow> availability \<Rightarrow> venue_error + availability" where
  "walk_sections collate c fs xf now planID [] w a = Inr a"
| "walk_sections collate c fs xf now planID (sec # secs) w a =
     bind_res (FindSeatsBySection collate (fs (sec_id sec)) (sec_id sec) (hw_db w)) (\<lambda>seats.
       walk_sections collate c fs xf now planID secs w
         (fold (add_seat c xf now (hw_redis w) planID (sec_id sec)) seats a))"

definition GetAvailability ::
  "(string \<Rightarrow> string) \<Rightarrow> hold_config \<Rightarrow> faults \<Rightarrow> faults \<Rightarrow> (string \<Rightarrow> faults) \<Rightarrow> (string \<Rightarrow> bool) \<Rightarrow> redis_faults
     \<Rightarrow> int \<Rightarrow> string \<Rightarrow> hold_world \<Rightarrow> venue_error + availability" where
  "GetAvailability collate c fp fl fs xf rf now planID w =
     bind_res (FindPlanByID fp 0 planID (hw_db w)) (\<lambda>_.
     bind_res (ListSectionsByPlan fl planID (hw_db w)) (\<lambda>secs.
       walk_sections collate c fs xf now planID secs w
         \<lparr>av_plan = planID, av_seats = [], av_counts = [], av_version = currentVersion c rf planID w\<rparr>))"

section \<open>Reservations kept in step with Redis\<close>

definition itemSeatIDs :: "reservation_item list \<Rightarrow> string list" where
  "itemSeatIDs items = map i_seat items"

definition reserved_meta :: "string \<Rightarrow> string" where
  "reserved_meta reservationID = ''{\"reservationId\":\"'' @ reservationID @ ''\"}''"

text \<open>The two pipelines are \<^verbatim>\<open>MULTI/EXEC\<close> transactions.\<close>

definition markReserved ::
  "hold_config \<Rightarrow> redis_faults \<Rightarrow> int \<Rightarrow> string \<Rightarrow> string \<Rightarrow> string list \<Rightarrow> int option \<Rightarrow> redis \<Rightarrow> redis" where
  "markReserved c rf now planID reservationID seatIDs expiresAt rd =
     (if \<not> hc_redis c \<or> seatIDs = [] then rd
      else if (case expiresAt of None \<Rightarrow> False | Some e \<Rightarrow> e - now \<le> 0) then rd
      else snd (redis_call rf 7
             ((), fold (\<lambda>sid rd. set_marker planID sid (reserved_meta reservationID) expiresAt
                                  (hset planID sid redisStateReserved rd)) seatIDs rd) rd))"

definition setSeatState ::
  "hold_config \<Rightarrow> redis_faults \<Rightarrow> string \<Rightarrow> string list \<Rightarrow> string \<Rightarrow> redis \<Rightarrow> redis" where
  "setSeatState c rf planID seatIDs st rd =
     (if \<not> hc_redis c \<or> seatIDs = [] then rd
      else snd (redis_call rf 8
             ((), fold (\<lambda>sid rd. del_marker planID sid (hset planID sid st rd)) seatIDs rd) rd))"

definition Synced_Reserve ::
  "hold_config \<Rightarrow> faults \<Rightarrow> redis_faults \<Rightarrow> int \<Rightarrow> string list \<Rightarrow> seat_reservation \<Rightarrow> string \<Rightarrow> int \<Rightarrow> hold_world
     \<Rightarrow> (venue_error + seat_reservation \<times> reservation_item list) \<times> hold_world" where
  "Synced_Reserve c f rf now seatIDs res basePrice maxPerUser w =
     (case AtomicReserveAndCreate f now seatIDs res basePrice maxPerUser (hw_db w) of
        (Inl e, d') \<Rightarrow> (Inl e, w\<lparr>hw_db := d'\<rparr>)
      | (Inr v, d') \<Rightarrow> (Inr v, w\<lparr>hw_db := d',
            hw_redis := markReserved c rf now (r_plan res) (r_id res) seatIDs (r_expires res) (hw_redis w)\<rparr>))"

text \<open>\<open>s0\<close> is the state of the first read, \<open>s1\<close> the one the inner release reads.\<close>

definition Synced_Release ::
  "hold_config \<Rightarrow> faults \<Rightarrow> faults \<Rightarrow> redis_faults \<Rightarrow> int \<Rightarrow> string \<Rightarrow> venue_db \<Rightarrow> venue_db \<Rightarrow> hold_world
     \<Rightarrow> (venue_error + unit) \<times> hold_world" where
  "Synced_Release c f0 f rf now reservationID s0 s1 w =
     (let before = FindReservationByID f0 reservationID s0
      in case ReleaseReservation f now reservationID s1 (hw_db w) of
           (Inl e, d') \<Rightarrow> (Inl e, w\<lparr>hw_db := d'\<rparr>)
         | (Inr u, d') \<Rightarrow>
             (case before of
                Inl e \<Rightarrow> (Inr (), w\<lparr>hw_db := d'\<rparr>)
              | Inr (res, items) \<Rightarrow>
                  if r_status res = ReservationStatusReserved
                  then (Inr (), w\<lparr>hw_db := d', hw_redis := setSeatState c rf (r_plan res)
                          (itemSeatIDs items) redisStateAvailable (hw_redis w)\<rparr>)
                  else (Inr (), w\<lparr>hw_db := d'\<rparr>)))"

definition Synced_Finalize ::
  "hold_config \<Rightarrow> faults \<Rightarrow> faults \<Rightarrow> redis_faults \<Rightarrow> int \<Rightarrow> string \<Rightarrow> string \<Rightarrow> venue_db \<Rightarrow> hold_world
     \<Rightarrow> (venue_error + unit) \<times> hold_world" where
  "Synced_Finalize c f f1 rf now reservationID orderID s1 w =
     (case FinalizeReservation f now reservationID orderID s1 (hw_db w) of
        (Inl e, d') \<Rightarrow> (Inl e, w\<lparr>hw_db := d'\<rparr>)
      | (Inr u, d') \<Rightarrow>
          (case FindReservationByID f1 reservationID d' of
             Inl e \<Rightarrow> (Inr (), w\<lparr>hw_db := d'\<rparr>)
           | Inr (res, items) \<Rightarrow>
               (Inr (), w\<lparr>hw_db := d', hw_redis := setSeatState c rf (r_plan res)
                       (itemSeatIDs items) redisStateSold (hw_redis w)\<rparr>)))"

section \<open>The cached seat limit\<close>

text \<open>
  The cache maps a ticket to its limit and the time it was fetched; \<open>fetched\<close> is what the wrapped
  lookup answers now.
\<close>

definition CachedSeatLimit ::
  "int \<Rightarrow> int \<Rightarrow> int option \<Rightarrow> seating_plan \<Rightarrow> (string \<times> int \<times> int) list
     \<Rightarrow> int option \<times> (string \<times> int \<times> int) list" where
  "CachedSeatLimit ttl now fetched plan cache =
     (let entry = map_of cache (p_ticket plan)
      in case entry of
           Some (limit, at) \<Rightarrow>
             if now - at < ttl then (Some limit, cache)
             else (case fetched of
                     None \<Rightarrow> (Some limit, cache)
                   | Some l \<Rightarrow> (Some l, AList.update (p_ticket plan) (l, now) cache))
         | None \<Rightarrow>
             (case fetched of
                None \<Rightarrow> (None, cache)
              | Some l \<Rightarrow> (Some l, AList.update (p_ticket plan) (l, now) cache)))"

end
