(* ===== verification/Autoassign.thy ===== *)
theory Autoassign
  imports Section_Repo
begin

text \<open>
  Automatic seat assignment (\<^verbatim>\<open>venue-service/internal/autoassign/autoassign.go\<close>). Columns are
  integers; the float scores of the code are all multiples of one half and are kept doubled, so
  the comparisons are exact. \<open>rsort\<close> and \<open>fsort\<close> are the two uses of \<^verbatim>\<open>sort.Slice\<close>, of which the
  code may rely only on the contract \<open>slice_sort\<close>.
\<close>

section \<open>The algorithm\<close>

datatype assign_error = ErrQuantity | ErrNotEnoughSeats

definition maxWindowPerRow :: nat where "maxWindowPerRow = 200"

definition groupByRow :: "seat list \<Rightarrow> string \<Rightarrow> seat list" where
  "groupByRow seats label = filter (\<lambda>s. s_row s = label) seats"

definition sortedRowLabels :: "seat list \<Rightarrow> string list" where
  "sortedRowLabels seats = sort (remdups (map s_row seats))"

definition maxColumn :: "seat list \<Rightarrow> int" where
  "maxColumn seats = foldl (\<lambda>m s. if s_column s > m then s_column s else m) 0 seats"

fun contiguous :: "seat list \<Rightarrow> bool" where
  "contiguous (a # b # r) = (s_column b = s_column a + 1 \<and> contiguous (b # r))"
| "contiguous _ = True"

text \<open>Twice the score of a block whose end columns are \<open>c1\<close> and \<open>c2\<close>.\<close>

definition score2 :: "int \<Rightarrow> nat \<Rightarrow> int \<Rightarrow> int \<Rightarrow> int" where
  "score2 maxCol rowIdx c1 c2 = 2000 - 20 * int rowIdx - \<bar>c1 + c2 - (maxCol + 1)\<bar>"

definition row_windows :: "nat \<Rightarrow> seat list \<Rightarrow> seat list list" where
  "row_windows q row = filter contiguous
     (map (\<lambda>i. take q (drop i row)) [0..<min (length row + 1 - q) maxWindowPerRow])"

definition row_candidates :: "int \<Rightarrow> nat \<Rightarrow> nat \<Rightarrow> seat list \<Rightarrow> (string list \<times> int) list" where
  "row_candidates maxCol q rowIdx row =
     map (\<lambda>w. (map s_id w, score2 maxCol rowIdx (s_column (hd w)) (s_column (last w)))) (row_windows q row)"

definition sorted_rows :: "((seat \<Rightarrow> int) \<Rightarrow> seat list \<Rightarrow> seat list) \<Rightarrow> seat list \<Rightarrow> (nat \<times> seat list) list" where
  "sorted_rows rsort available =
     enumerate 0 (map (\<lambda>l. rsort s_column (groupByRow available l)) (sortedRowLabels available))"

definition better :: "(string list \<times> int) option \<Rightarrow> string list \<times> int \<Rightarrow> (string list \<times> int) option" where
  "better best c = (case best of None \<Rightarrow> Some c | Some b \<Rightarrow> if snd c > snd b then Some c else best)"

definition scored_seats :: "int \<Rightarrow> (nat \<times> seat list) list \<Rightarrow> (string \<times> int) list" where
  "scored_seats maxCol rows =
     concat (map (\<lambda>(rowIdx, row). map (\<lambda>s. (s_id s, score2 maxCol rowIdx (s_column s) (s_column s))) row) rows)"

definition FindBestBlock ::
  "((seat \<Rightarrow> int) \<Rightarrow> seat list \<Rightarrow> seat list) \<Rightarrow>
   ((string \<times> int \<Rightarrow> int) \<Rightarrow> (string \<times> int) list \<Rightarrow> (string \<times> int) list) \<Rightarrow>
   seat list \<Rightarrow> int \<Rightarrow> assign_error + string list" where
  "FindBestBlock rsort fsort seats quantity =
     (if quantity \<le> 0 then Inl ErrQuantity
      else
        let available = filter (\<lambda>s. s_status s = SeatStatusAvailable) seats;
            q = nat quantity
        in if length available < q then Inl ErrNotEnoughSeats
        else
          let maxCol = maxColumn available;
              rows = sorted_rows rsort available;
              best = foldl better None (concat (map (\<lambda>(i, row). row_candidates maxCol q i row) rows))
          in case best of
               Some b \<Rightarrow> Inr (fst b)
             | None \<Rightarrow> Inr (map fst (take q (fsort (\<lambda>p. - snd p) (scored_seats maxCol rows)))))"

section \<open>Facts about the search\<close>

lemma foldl_better_Some:
  "\<exists>b. foldl better (Some b0) cs = Some b \<and> (b = b0 \<or> b \<in> set cs) \<and> snd b0 \<le> snd b \<and>
       (\<forall>c \<in> set cs. snd c \<le> snd b)"
proof (induction cs arbitrary: b0)
  case (Cons c cs)
  show ?case
  proof (cases "snd c > snd b0")
    case True
    then show ?thesis using Cons.IH [of c] by (auto simp: better_def)
  next
    case False
    then show ?thesis using Cons.IH [of b0] by (auto simp: better_def)
  qed
qed simp

lemma foldl_better:
  "case foldl better None cs of
     None \<Rightarrow> cs = []
   | Some b \<Rightarrow> b \<in> set cs \<and> (\<forall>c \<in> set cs. snd c \<le> snd b)"
proof (cases cs)
  case (Cons c cs')
  then show ?thesis using foldl_better_Some [of c cs'] by (auto simp: better_def)
qed simp

lemma mset_filter_partition:
  "distinct ls \<Longrightarrow> mset (concat (map (\<lambda>l. filter (\<lambda>s. f s = l) xs) ls)) = mset (filter (\<lambda>s. f s \<in> set ls) xs)"
proof (induction ls)
  case (Cons l ls)
  have "mset (filter (\<lambda>s. f s = l \<or> f s \<in> set ls) xs) =
      mset (filter (\<lambda>s. f s = l) xs) + mset (filter (\<lambda>s. f s \<in> set ls) xs)"
    using Cons.prems by (induction xs) auto
  then show ?case using Cons by simp
qed simp

locale block_sorts = row_sort: slice_sort rsort + seat_sort: slice_sort fsort
  for rsort :: "(seat \<Rightarrow> int) \<Rightarrow> seat list \<Rightarrow> seat list"
    and fsort :: "(string \<times> int \<Rightarrow> int) \<Rightarrow> (string \<times> int) list \<Rightarrow> (string \<times> int) list"
begin

lemma row_of_sorted_rows:
  "(i, row) \<in> set (sorted_rows rsort av) \<Longrightarrow>
   i < length (sortedRowLabels av) \<and> row = rsort s_column (groupByRow av (sortedRowLabels av ! i))"
  unfolding sorted_rows_def by (auto simp: in_set_enumerate_eq)

lemma row_set:
  assumes "(i, row) \<in> set (sorted_rows rsort av)"
  shows "set row \<subseteq> set av" "\<And>s t. s \<in> set row \<Longrightarrow> t \<in> set row \<Longrightarrow> s_row s = s_row t"
    "mset row \<subseteq># mset av"
proof -
  note r = row_of_sorted_rows [OF assms]
  then show "set row \<subseteq> set av" "\<And>s t. s \<in> set row \<Longrightarrow> t \<in> set row \<Longrightarrow> s_row s = s_row t"
    by (auto simp: groupByRow_def)
  show "mset row \<subseteq># mset av"
    using r by (simp add: groupByRow_def row_sort.mset_srt multiset_filter_subset)
qed

lemma mset_sorted_rows: "mset (concat (map snd (sorted_rows rsort av))) = mset av"
proof -
  have "mset (concat (map snd (sorted_rows rsort av))) =
      mset (concat (map (\<lambda>l. filter (\<lambda>s. s_row s = l) av) (sortedRowLabels av)))"
  proof -
    have "mset (concat (map (\<lambda>l. rsort s_column (groupByRow av l)) ls)) =
        mset (concat (map (\<lambda>l. filter (\<lambda>s. s_row s = l) av) ls))" for ls
      by (induction ls) (simp_all add: row_sort.mset_srt groupByRow_def)
    then show ?thesis by (simp add: sorted_rows_def)
  qed
  also have "\<dots> = mset (filter (\<lambda>s. s_row s \<in> set (sortedRowLabels av)) av)"
    by (rule mset_filter_partition) (simp add: sortedRowLabels_def)
  also have "filter (\<lambda>s. s_row s \<in> set (sortedRowLabels av)) av = av"
    by (rule filter_True) (simp add: sortedRowLabels_def)
  finally show ?thesis .
qed

lemma map_fst_scored: "map fst (scored_seats mc rows) = map s_id (concat (map snd rows))"
  by (induction rows) (auto simp: scored_seats_def)

lemma mset_scored: "mset (map fst (scored_seats mc (sorted_rows rsort av))) = mset (map s_id av)"
  by (metis map_fst_scored mset_map mset_sorted_rows)

lemma length_scored: "length (scored_seats mc (sorted_rows rsort av)) = length av"
  by (metis length_map mset_scored size_mset)

text \<open>A window is a sublist of a row: its seats are available, in one row, in consecutive columns.\<close>

lemma window_facts:
  assumes "w \<in> set (row_windows q row)"
  shows "length w = q" "set w \<subseteq> set row" "contiguous w" "mset w \<subseteq># mset row"
proof -
  obtain i where i: "w = take q (drop i row)" "i < length row + 1 - q" "contiguous w"
    using assms by (auto simp: row_windows_def)
  then show "length w = q" "set w \<subseteq> set row" "contiguous w"
    by (auto dest: in_set_takeD in_set_dropD)
  have "mset row = mset (take i row) + mset (drop i row)"
    by (metis append_take_drop_id mset_append)
  moreover have "mset (drop i row) = mset w + mset (drop q (drop i row))"
    unfolding i(1) by (metis append_take_drop_id mset_append)
  ultimately show "mset w \<subseteq># mset row" by simp
qed

lemma distinct_sub: "mset (w :: seat list) \<subseteq># mset av \<Longrightarrow> distinct (map s_id av) \<Longrightarrow> distinct (map s_id w)"
proof -
  assume sub: "mset w \<subseteq># mset av" and d: "distinct (map s_id av)"
  have "mset (map s_id w) \<subseteq># mset (map s_id av)"
    using image_mset_subseteq_mono [OF sub] by simp
  then show ?thesis using d by (rule distinct_submset)
qed

text \<open>Every answer is made of the right number of different available seats.\<close>

lemma answer_sound:
  assumes r: "FindBestBlock rsort fsort seats n = Inr ids"
    and d: "distinct (map s_id seats)"
  shows "length ids = nat n \<and> distinct ids \<and>
    set ids \<subseteq> s_id ` {s \<in> set seats. s_status s = SeatStatusAvailable}"
proof -
  let ?av = "filter (\<lambda>s. s_status s = SeatStatusAvailable) seats"
  let ?mc = "maxColumn ?av" and ?rows = "sorted_rows rsort ?av" and ?q = "nat n"
  let ?cs = "concat (map (\<lambda>(i, row). row_candidates ?mc ?q i row) ?rows)"
  have n: "0 < n" "?q \<le> length ?av"
    using r by (auto simp: FindBestBlock_def Let_def split: if_splits)
  have dav: "distinct (map s_id ?av)" using d by (rule distinct_map_filter)
  show ?thesis
  proof (cases "foldl better None ?cs")
    case (Some b)
    then have ids: "ids = fst b" using r n by (simp add: FindBestBlock_def Let_def)
    obtain i row w where w: "(i, row) \<in> set ?rows" "w \<in> set (row_windows ?q row)" "ids = map s_id w"
      using foldl_better [of ?cs] Some ids by (auto simp: row_candidates_def)
    have "mset w \<subseteq># mset ?av"
      using window_facts(4) [OF w(2)] row_set(3) [OF w(1)] by (rule subset_mset.trans)
    moreover have "set w \<subseteq> set ?av" using window_facts(2) [OF w(2)] row_set(1) [OF w(1)] by blast
    ultimately show ?thesis using w(3) window_facts(1) [OF w(2)] distinct_sub [OF _ dav] by auto
  next
    case None
    let ?sc = "fsort (\<lambda>p. - snd p) (scored_seats ?mc ?rows)"
    have ids: "ids = map fst (take ?q ?sc)" using r n None by (simp add: FindBestBlock_def Let_def)
    have m: "mset (map fst ?sc) = mset (map s_id ?av)"
      using seat_sort.mset_map_srt [of fst] mset_scored [of ?mc ?av] by (simp del: mset_map)
    then have "distinct (map fst ?sc)"
      using dav mset_eq_imp_distinct_iff by blast
    then have "distinct ids" unfolding ids by (metis distinct_take take_map)
    moreover have "set ids \<subseteq> set (map s_id ?av)"
      unfolding ids using m by (metis set_mset_mset set_take_subset take_map)
    moreover have "length ids = ?q" unfolding ids using n(2) length_scored [of ?mc ?av] by simp
    ultimately show ?thesis by auto
  qed
qed

text \<open>There is an answer exactly when enough seats are available.\<close>

lemma answer_exists:
  assumes "0 < n"
  shows "(\<exists>ids. FindBestBlock rsort fsort seats n = Inr ids) \<longleftrightarrow>
    nat n \<le> length (filter (\<lambda>s. s_status s = SeatStatusAvailable) seats)"
  using assms by (auto simp: FindBestBlock_def Let_def split: option.splits)

text \<open>When a row offers a window, the answer is a window of the best score.\<close>

lemma answer_best:
  fixes seats :: "seat list" and n :: int
  defines "av \<equiv> filter (\<lambda>s. s_status s = SeatStatusAvailable) seats"
  assumes n: "0 < n" "nat n \<le> length av"
    and w: "(i, row) \<in> set (sorted_rows rsort av)" "w \<in> set (row_windows (nat n) row)"
  shows "\<exists>j row' w'. (j, row') \<in> set (sorted_rows rsort av) \<and> w' \<in> set (row_windows (nat n) row') \<and>
    FindBestBlock rsort fsort seats n = Inr (map s_id w') \<and>
    score2 (maxColumn av) i (s_column (hd w)) (s_column (last w)) \<le>
    score2 (maxColumn av) j (s_column (hd w')) (s_column (last w'))"
proof -
  let ?mc = "maxColumn av" and ?rows = "sorted_rows rsort av" and ?q = "nat n"
  let ?cs = "concat (map (\<lambda>(i, row). row_candidates ?mc ?q i row) ?rows)"
  have c: "(map s_id w, score2 ?mc i (s_column (hd w)) (s_column (last w))) \<in> set ?cs"
    using w by (auto simp: row_candidates_def intro!: bexI [OF _ w(1)])
  then obtain b where b: "foldl better None ?cs = Some b" "b \<in> set ?cs" "\<forall>c \<in> set ?cs. snd c \<le> snd b"
    using foldl_better [of ?cs] by (cases "foldl better None ?cs") auto
  obtain j row' w' where w': "(j, row') \<in> set ?rows" "w' \<in> set (row_windows ?q row')"
      "b = (map s_id w', score2 ?mc j (s_column (hd w')) (s_column (last w')))"
    using b(2) by (auto simp: row_candidates_def)
  have "FindBestBlock rsort fsort seats n = Inr (map s_id w')"
    using n b(1) w'(3) unfolding av_def by (simp add: FindBestBlock_def Let_def)
  then show ?thesis using w' b(3) c by (metis snd_conv)
qed

text \<open>Without one, the answer is a set of seats with the best individual scores.\<close>

lemma answer_fallback:
  fixes seats :: "seat list" and n :: int
  defines "av \<equiv> filter (\<lambda>s. s_status s = SeatStatusAvailable) seats"
  assumes r: "FindBestBlock rsort fsort seats n = Inr ids"
    and none: "\<forall>(i, row) \<in> set (sorted_rows rsort av). row_windows (nat n) row = []"
    and p: "p \<in> set (scored_seats (maxColumn av) (sorted_rows rsort av))" "fst p \<notin> set ids"
    and q: "k < length ids"
  shows "\<exists>s. (ids ! k, s) \<in> set (scored_seats (maxColumn av) (sorted_rows rsort av)) \<and> snd p \<le> s"
proof -
  let ?sc = "scored_seats (maxColumn av) (sorted_rows rsort av)"
  let ?srt = "fsort (\<lambda>p. - snd p) ?sc"
  have "concat (map (\<lambda>(i, row). row_candidates (maxColumn av) (nat n) i row) (sorted_rows rsort av)) = []"
    using none by (auto simp: row_candidates_def)
  then have "foldl better None (concat (map (\<lambda>(i, row). row_candidates (maxColumn av) (nat n) i row)
      (sorted_rows rsort av))) = None"
    by (simp only: foldl.simps)
  then have ids: "ids = map fst (take (nat n) ?srt)"
    using r unfolding av_def by (simp add: FindBestBlock_def Let_def split: if_splits)
  have "p \<in> set (drop (nat n) ?srt)"
  proof -
    have "p \<in> set ?srt" using p(1) by simp
    then have "p \<in> set (take (nat n) ?srt) \<or> p \<in> set (drop (nat n) ?srt)"
      by (metis Un_iff append_take_drop_id set_append)
    then show ?thesis using p(2) ids by auto
  qed
  moreover have t: "take (nat n) ?srt ! k \<in> set (take (nat n) ?srt)"
    using q ids by (intro nth_mem) simp
  ultimately have "- snd (take (nat n) ?srt ! k) \<le> - snd p"
    using seat_sort.take_srt_least [of "take (nat n) ?srt ! k" "nat n" "\<lambda>p. - snd p" ?sc p] by blast
  then have "snd p \<le> snd (take (nat n) ?srt ! k)" by simp
  moreover have "take (nat n) ?srt ! k \<in> set ?sc" using in_set_takeD [OF t] by simp
  moreover have "ids ! k = fst (take (nat n) ?srt ! k)" using q ids by simp
  ultimately show ?thesis by (metis prod.collapse)
qed

end

interpretation stable_block: block_sorts sort_key sort_key
  by unfold_locales


section \<open>Properties\<close>

text \<open>
  C8: Auto-assignment returns seats exactly when enough are available, and whatever order the
  sorts give to ties, the answer has the requested number of different seats, all of them
  available seats of the input.
\<close>

theorem assignment_sound:
  assumes "slice_sort rsort" "slice_sort fsort" "distinct (map s_id seats)" "0 < n"
  shows "case FindBestBlock rsort fsort seats n of
      Inl e \<Rightarrow> e = ErrNotEnoughSeats \<and>
        int (length (filter (\<lambda>s. s_status s = SeatStatusAvailable) seats)) < n
    | Inr ids \<Rightarrow> length ids = nat n \<and> distinct ids \<and>
        set ids \<subseteq> s_id ` {s \<in> set seats. s_status s = SeatStatusAvailable}"
proof -
  have B: "block_sorts rsort fsort" using assms(1,2) by (rule block_sorts.intro)
  show ?thesis
  proof (cases "FindBestBlock rsort fsort seats n")
    case (Inl e)
    then show ?thesis
      using assms(4) by (auto simp: FindBestBlock_def Let_def split: if_splits option.splits)
  next
    case (Inr ids)
    then show ?thesis using block_sorts.answer_sound [OF B Inr assms(3)] by simp
  qed
qed

text \<open>Two rows: the first has a gap, the second is full.\<close>

definition row_seat :: "string \<Rightarrow> string \<Rightarrow> int \<Rightarrow> seat" where
  "row_seat sid row col = new_seat sid 1 ''sec'' ''plan'' [] (sid, row, col)"

definition ex_rows :: "seat list" where
  "ex_rows = [row_seat ''a1'' ''A'' 1, row_seat ''a4'' ''A'' 4, row_seat ''b2'' ''B'' 2, row_seat ''b1'' ''B'' 1, row_seat ''b3'' ''B'' 3]"

lemma assignment_sound_witness:
  "FindBestBlock sort_key sort_key ex_rows 2 = Inr [''b2'', ''b3''] \<and>
   set [''b2'', ''b3''] \<subseteq> s_id ` {s \<in> set ex_rows. s_status s = SeatStatusAvailable}"
proof
  show r: "FindBestBlock sort_key sort_key ex_rows 2 = Inr [''b2'', ''b3'']" by code_simp
  have "distinct (map s_id ex_rows)" by code_simp
  from assignment_sound [OF stable.slice_sort_axioms stable.slice_sort_axioms this, of 2] r
  show "set [''b2'', ''b3''] \<subseteq> s_id ` {s \<in> set ex_rows. s_status s = SeatStatusAvailable}" by simp
qed

text \<open>
  C9: Adjacent seats first. When some row offers a run of the requested length among its first
  200 windows, the answer is such a run: seats of one row in consecutive columns, whose score
  (front rows first, then nearness to the centre) no offered run exceeds.
\<close>

theorem assignment_adjacent_and_best:
  assumes "slice_sort rsort" "slice_sort fsort" "0 < n"
    and av: "av = filter (\<lambda>s. s_status s = SeatStatusAvailable) seats" "nat n \<le> length av"
    and w: "(i, row) \<in> set (sorted_rows rsort av)" "w \<in> set (row_windows (nat n) row)"
  shows "\<exists>j w'. FindBestBlock rsort fsort seats n = Inr (map s_id w') \<and>
    set w' \<subseteq> set av \<and> contiguous w' \<and> (\<forall>s \<in> set w'. s_row s = sortedRowLabels av ! j) \<and>
    score2 (maxColumn av) i (s_column (hd w)) (s_column (last w)) \<le>
    score2 (maxColumn av) j (s_column (hd w')) (s_column (last w'))"
proof -
  have B: "block_sorts rsort fsort" using assms(1,2) by (rule block_sorts.intro)
  obtain j row' w' where w': "(j, row') \<in> set (sorted_rows rsort av)" "w' \<in> set (row_windows (nat n) row')"
      "FindBestBlock rsort fsort seats n = Inr (map s_id w')"
      "score2 (maxColumn av) i (s_column (hd w)) (s_column (last w)) \<le>
       score2 (maxColumn av) j (s_column (hd w')) (s_column (last w'))"
    using block_sorts.answer_best [OF B assms(3), of seats] av w by blast
  note facts = block_sorts.window_facts [OF B w'(2)]
  have "row' = rsort s_column (groupByRow av (sortedRowLabels av ! j))"
    using block_sorts.row_of_sorted_rows [OF B w'(1)] by blast
  then have "set row' = set (groupByRow av (sortedRowLabels av ! j))"
    using slice_sort.set_srt [OF assms(1)] by simp
  then show ?thesis using w'(3,4) facts
    by (intro exI [of _ j] exI [of _ w']) (auto simp: groupByRow_def)
qed

lemma assignment_adjacent_and_best_witness:
  "\<exists>j w'. FindBestBlock sort_key sort_key ex_rows 2 = Inr (map s_id w') \<and> contiguous w' \<and>
     score2 4 1 1 2 \<le> score2 4 j (s_column (hd w')) (s_column (last w'))"
proof -
  let ?av = "filter (\<lambda>s. s_status s = SeatStatusAvailable) ex_rows"
  let ?row = "[row_seat ''b1'' ''B'' 1, row_seat ''b2'' ''B'' 2, row_seat ''b3'' ''B'' 3]"
  have 1: "sorted_rows sort_key ?av ! 1 = (1, ?row)" "length (sorted_rows sort_key ?av) = 2" by code_simp+
  have r: "(1, ?row) \<in> set (sorted_rows sort_key ?av)" using nth_mem [of 1 "sorted_rows sort_key ?av", unfolded 1] by simp
  have w: "[row_seat ''b1'' ''B'' 1, row_seat ''b2'' ''B'' 2] \<in> set (row_windows (nat 2) ?row)" by code_simp
  have len: "nat 2 \<le> length ?av" and mc: "maxColumn ?av = 4" by code_simp+
  from assignment_adjacent_and_best [OF stable.slice_sort_axioms stable.slice_sort_axioms _ refl len r w] mc
  show ?thesis by (auto simp: row_seat_def new_seat_def)
qed

text \<open>
  Without adjacent seats the answer is made of best seats: no available seat left out scores
  more than one that was taken.
\<close>

theorem assignment_fallback_best:
  assumes "slice_sort rsort" "slice_sort fsort"
    and av: "av = filter (\<lambda>s. s_status s = SeatStatusAvailable) seats"
    and r: "FindBestBlock rsort fsort seats n = Inr ids"
    and none: "\<forall>(i, row) \<in> set (sorted_rows rsort av). row_windows (nat n) row = []"
    and p: "(sid, sc) \<in> set (scored_seats (maxColumn av) (sorted_rows rsort av))" "sid \<notin> set ids"
    and q: "k < length ids"
  shows "\<exists>s. (ids ! k, s) \<in> set (scored_seats (maxColumn av) (sorted_rows rsort av)) \<and> sc \<le> s"
proof -
  have B: "block_sorts rsort fsort" using assms(1,2) by (rule block_sorts.intro)
  show ?thesis
    using block_sorts.answer_fallback [OF B r, of "(sid, sc)" k] none p q av by simp
qed

definition ex_gap :: "seat list" where
  "ex_gap = [row_seat ''a1'' ''A'' 1, row_seat ''a30'' ''A'' 30, row_seat ''b15'' ''B'' 15]"

lemma assignment_fallback_best_witness:
  "FindBestBlock sort_key sort_key ex_gap 2 = Inr [''b15'', ''a1''] \<and> (\<exists>s. (''b15'', s) \<in>
     set (scored_seats 30 (sorted_rows sort_key ex_gap)) \<and> 1971 \<le> s)"
proof
  show r: "FindBestBlock sort_key sort_key ex_gap 2 = Inr [''b15'', ''a1'']" by code_simp
  have f: "ex_gap = filter (\<lambda>s. s_status s = SeatStatusAvailable) ex_gap" by code_simp
  have n: "\<forall>(i, row) \<in> set (sorted_rows sort_key ex_gap). row_windows (nat 2) row = []" by code_simp
  have p: "(''a30'', 1971) \<in> set (scored_seats (maxColumn ex_gap) (sorted_rows sort_key ex_gap))" by code_simp
  have mc: "maxColumn ex_gap = 30" by code_simp
  from assignment_fallback_best [OF stable.slice_sort_axioms stable.slice_sort_axioms f r n p, of 0] mc
  show "\<exists>s. (''b15'', s) \<in> set (scored_seats 30 (sorted_rows sort_key ex_gap)) \<and> 1971 \<le> s" by simp
qed

text \<open>
  The fallback is not front rows first, and rows rank by the text of their labels. With two
  seats at the ends of a front row of thirty and one in the middle of the second row, a party of
  two gets one of each, although both front-row seats are free; and of the rows R2 and R10, which
  seat generation numbers, R10 counts as the one in front.
\<close>

lemma assignment_row_order:
  "FindBestBlock sort_key sort_key ex_gap 2 = Inr [''b15'', ''a1''] \<and>
   FindBestBlock sort_key sort_key [row_seat ''front'' ''R2'' 1, row_seat ''far'' ''R10'' 1] 1 = Inr [''far'']"
  by code_simp

end
