(* ===== verification/Grpc_Types.thy ===== *)
theory Grpc_Types
  imports Main
begin

text \<open>
  The gRPC status codes the services answer with. A handler returns a response or a status, which
  is a code and a message.
\<close>

datatype grpc_code =
    CodeCanceled | CodeUnknown | CodeInvalidArgument | CodeDeadlineExceeded | CodeNotFound
  | CodeAlreadyExists | CodePermissionDenied | CodeResourceExhausted | CodeFailedPrecondition
  | CodeAborted | CodeOutOfRange | CodeUnimplemented | CodeInternal | CodeUnavailable
  | CodeDataLoss | CodeUnauthenticated

type_synonym grpc_status = "grpc_code \<times> string"

text \<open>An error of the call: the context's, the breaker's, or a gRPC status.\<close>

datatype rpc_error = RpcCanceled | RpcContextDeadline | RpcBreakerOpen | RpcTooManyRequests | RpcStatus grpc_code

text \<open>\<^verbatim>\<open>status.Code\<close> of an error that is not a status is \<^verbatim>\<open>Unknown\<close>.\<close>

fun status_code :: "rpc_error \<Rightarrow> grpc_code" where
  "status_code (RpcStatus c) = c"
| "status_code _ = CodeUnknown"

text \<open>
  A circuit breaker of the library \<^verbatim>\<open>gobreaker\<close>, with a state of its own: whether it lets a call through, and
  what it learns of the call's success. Its \<^verbatim>\<open>Execute\<close> makes the call only when it is let through.
\<close>

record 'b breaker =
  br_enter :: "'b \<Rightarrow> rpc_error option \<times> 'b"
  br_leave :: "bool \<Rightarrow> 'b \<Rightarrow> 'b"

definition Execute ::
  "'b breaker \<Rightarrow> (rpc_error option \<Rightarrow> bool) \<Rightarrow> (rpc_error + 'r) \<Rightarrow> 'b \<Rightarrow> (rpc_error + 'r) \<times> 'b" where
  "Execute B successful r b =
     (case br_enter B b of
        (Some e, b') \<Rightarrow> (Inl e, b')
      | (None, b') \<Rightarrow> (r, br_leave B (successful (case r of Inl e \<Rightarrow> Some e | Inr x \<Rightarrow> None)) b'))"

end
