(* ===== verification/Venue_Grpc.thy ===== *)
theory Venue_Grpc
  imports Hold_Manager Autoassign Grpc_Types "HOL-Library.Word"
begin

text \<open>
  The gRPC server of venue-service (\<^verbatim>\<open>internal/grpc/server.go\<close>), its client of ticket-service with the
  circuit breaker settings (\<^verbatim>\<open>internal/grpc/ticket_client.go\<close>), and the Kafka event handlers
  (\<^verbatim>\<open>internal/service/venue_service.go\<close>). The handlers work on the repository that also keeps Redis
  in step. Each read of the database takes the state it sees; int32 fields of the messages are
  32-bit words. What ticket-service answers is an argument.
\<close>

section \<open>The client of ticket-service\<close>

definition shouldCountTicketServiceFailure :: "rpc_error option \<Rightarrow> bool" where
  "shouldCountTicketServiceFailure err =
     (case err of
        None \<Rightarrow> False
      | Some RpcCanceled \<Rightarrow> False
      | Some RpcContextDeadline \<Rightarrow> True
      | Some e \<Rightarrow> status_code e \<notin> {CodeInvalidArgument, CodeNotFound, CodeAlreadyExists, CodePermissionDenied,
          CodeFailedPrecondition, CodeOutOfRange, CodeUnauthenticated, CodeCanceled})"

text \<open>
  \<^verbatim>\<open>ReadyToTrip\<close> of the breaker settings. The quotient of two 32-bit counts is at least one half
  in floating point exactly when twice the failures reach the requests.
\<close>

definition readyToTrip :: "nat \<Rightarrow> nat \<Rightarrow> bool" where
  "readyToTrip requests totalFailures = (if requests < 10 then False else requests \<le> 2 * totalFailures)"

datatype lookup_error = ErrTicketServiceUnavailable | ErrTicketServiceTimeout | LookupOther rpc_error

definition classifyTicketServiceError :: "rpc_error \<Rightarrow> lookup_error" where
  "classifyTicketServiceError err =
     (case err of
        RpcBreakerOpen \<Rightarrow> ErrTicketServiceUnavailable
      | RpcTooManyRequests \<Rightarrow> ErrTicketServiceUnavailable
      | RpcContextDeadline \<Rightarrow> ErrTicketServiceTimeout
      | e \<Rightarrow> (case status_code e of
               CodeDeadlineExceeded \<Rightarrow> ErrTicketServiceTimeout
             | CodeUnavailable \<Rightarrow> ErrTicketServiceUnavailable
             | _ \<Rightarrow> LookupOther e))"

text \<open>The fields of the answer the venue service uses.\<close>

record ticket_info =
  ti_price :: string
  ti_max_per_user :: "32 word"

definition client_GetTicket :: "rpc_error + ticket_info \<Rightarrow> lookup_error + ticket_info" where
  "client_GetTicket r = (case r of Inl e \<Rightarrow> Inl (classifyTicketServiceError e) | Inr t \<Rightarrow> Inr t)"

text \<open>The call through the breaker; \<open>r\<close> is what ticket-service answers when it is asked.\<close>

definition resilient_GetTicket ::
  "'b breaker \<Rightarrow> (rpc_error + ticket_info) \<Rightarrow> 'b \<Rightarrow> (lookup_error + ticket_info) \<times> 'b" where
  "resilient_GetTicket B r b =
     (case Execute B (\<lambda>e. \<not> shouldCountTicketServiceFailure e) r b of (r', b') \<Rightarrow> (client_GetTicket r', b'))"

text \<open>An open breaker answers for the service, and answers such as not found never open it.\<close>

lemma open_breaker_answers:
  "br_enter B b = (Some RpcBreakerOpen, b') \<Longrightarrow> resilient_GetTicket B r b = (Inl ErrTicketServiceUnavailable, b')"
  by (simp add: resilient_GetTicket_def Execute_def client_GetTicket_def classifyTicketServiceError_def)

lemma business_errors_keep_breaker_closed:
  "br_enter B b = (None, b') \<Longrightarrow> code \<in> {CodeNotFound, CodeInvalidArgument, CodeFailedPrecondition, CodePermissionDenied} \<Longrightarrow>
   resilient_GetTicket B (Inl (RpcStatus code)) b = (Inl (LookupOther (RpcStatus code)), br_leave B True b')"
  by (auto simp: resilient_GetTicket_def Execute_def client_GetTicket_def classifyTicketServiceError_def
      shouldCountTicketServiceFailure_def)

section \<open>Messages\<close>

record reserve_request =
  rq_plan :: string
  rq_ticket :: string
  rq_reservation :: string
  rq_user :: string
  rq_seats :: "string list"
  rq_expires :: "int option"

record assign_request =
  aq_plan :: string
  aq_ticket :: string
  aq_section :: string
  aq_reservation :: string
  aq_user :: string
  aq_quantity :: "32 word"
  aq_expires :: "int option"

record seat_detail =
  sd_seat :: string
  sd_section :: string
  sd_label :: string
  sd_price :: string

record reserve_response =
  rs_success :: bool
  rs_reservation :: string
  rs_seats :: "seat_detail list"
  rs_unavailable :: "string list"

definition toSeatDetails :: "reservation_item list \<Rightarrow> seat_detail list" where
  "toSeatDetails items = map (\<lambda>i. \<lparr>sd_seat = i_seat i, sd_section = i_section i,
     sd_label = i_label i, sd_price = i_price i\<rparr>) items"

definition ReservationReleasedSuffix :: string where "ReservationReleasedSuffix = ''was already released''"
definition SeatLimitExceededMessage :: string where "SeatLimitExceededMessage = ''per-buyer seat limit reached''"

definition seatLimit :: "bool \<Rightarrow> ticket_info \<Rightarrow> int" where
  "seatLimit enforced t = (if \<not> enforced then 0 else sint (ti_max_per_user t))"

section \<open>Reserving\<close>

definition internal :: grpc_status where "internal = (CodeInternal, ''internal error'')"

text \<open>
  The idempotency check both handlers begin with: an answer if the reservation exists or the
  lookup fails, \<open>None\<close> to go on.
\<close>

definition existing_answer ::
  "faults \<Rightarrow> string \<Rightarrow> venue_db \<Rightarrow> (grpc_status + reserve_response) option" where
  "existing_answer f rid d =
     (case FindReservationByID f rid d of
        Inr (r, items) \<Rightarrow>
          (case r_status r of
             ReservationStatusReserved \<Rightarrow> Some (Inr \<lparr>rs_success = True, rs_reservation = r_id r,
                 rs_seats = toSeatDetails items, rs_unavailable = []\<rparr>)
           | ReservationStatusReleased \<Rightarrow> Some (Inl (CodeFailedPrecondition,
                 ''reservation '' @ rid @ '' '' @ ReservationReleasedSuffix))
           | ReservationStatusExpired \<Rightarrow> Some (Inl (CodeFailedPrecondition,
                 ''reservation '' @ rid @ '' '' @ ReservationReleasedSuffix))
           | ReservationStatusSold \<Rightarrow> Some (Inl (CodeFailedPrecondition,
                 ''reservation '' @ rid @ '' was already sold'')))
      | Inl e \<Rightarrow> if e = ErrReservationNotFound then None else Some (Inl internal))"

definition lookup_status :: "lookup_error \<Rightarrow> grpc_status" where
  "lookup_status e =
     (case e of
        ErrTicketServiceUnavailable \<Rightarrow> (CodeUnavailable, ''ticket-service unavailable'')
      | ErrTicketServiceTimeout \<Rightarrow> (CodeDeadlineExceeded, ''ticket-service deadline exceeded'')
      | LookupOther x \<Rightarrow> internal)"

text \<open>
  The reserve and the mapping of its errors, which the handlers share; \<open>unavail\<close> is what a refused
  reserve lists. \<open>f1\<close> are the faults of reloading a reservation a concurrent duplicate created.
\<close>

definition reserve_and_answer ::
  "hold_config \<Rightarrow> bool \<Rightarrow> faults \<Rightarrow> faults \<Rightarrow> redis_faults \<Rightarrow> int \<Rightarrow> ticket_info \<Rightarrow> string list \<Rightarrow> seat_reservation
     \<Rightarrow> string list \<Rightarrow> hold_world \<Rightarrow> (grpc_status + reserve_response) \<times> hold_world" where
  "reserve_and_answer c enforced f f1 rf now t ids res unavail w =
     (case Synced_Reserve c f rf now ids res (ti_price t) (seatLimit enforced t) w of
        (Inr (r, items), w') \<Rightarrow>
          (Inr \<lparr>rs_success = True, rs_reservation = r_id r, rs_seats = toSeatDetails items, rs_unavailable = []\<rparr>, w')
      | (Inl e, w') \<Rightarrow>
          ((case e of
              ErrSeatLimitExceeded \<Rightarrow> Inl (CodeFailedPrecondition, SeatLimitExceededMessage)
            | ErrSeatNotAvailable \<Rightarrow> Inr \<lparr>rs_success = False, rs_reservation = [], rs_seats = [], rs_unavailable = unavail\<rparr>
            | ErrReservationAlreadyDone \<Rightarrow>
                (case FindReservationByID f1 (r_id res) (hw_db w') of
                   Inr (r, items) \<Rightarrow> Inr \<lparr>rs_success = True, rs_reservation = r_id r,
                       rs_seats = toSeatDetails items, rs_unavailable = []\<rparr>
                 | Inl x \<Rightarrow> Inr \<lparr>rs_success = True, rs_reservation = r_id res, rs_seats = [], rs_unavailable = []\<rparr>)
            | _ \<Rightarrow> Inl internal), w'))"

definition new_reservation ::
  "string \<Rightarrow> string \<Rightarrow> string \<Rightarrow> string \<Rightarrow> string \<Rightarrow> int option \<Rightarrow> seat_reservation" where
  "new_reservation rid planID ticketID userID sectionID expires =
     \<lparr>r_id = rid, r_plan = planID, r_ticket = ticketID, r_order = None, r_user = userID, r_section = sectionID,
      r_status = ReservationStatusReserved, r_expires = expires, r_created = 0, r_updated = 0\<rparr>"

text \<open>\<open>f0\<close> and \<open>s0\<close>: faults and state of the lookup; \<open>ticket\<close>: the answer of ticket-service.\<close>

definition ReserveHeldSeats ::
  "hold_config \<Rightarrow> bool \<Rightarrow> faults \<Rightarrow> faults \<Rightarrow> faults \<Rightarrow> redis_faults \<Rightarrow> int \<Rightarrow> lookup_error + ticket_info
     \<Rightarrow> reserve_request \<Rightarrow> venue_db \<Rightarrow> hold_world \<Rightarrow> (grpc_status + reserve_response) \<times> hold_world" where
  "ReserveHeldSeats c enforced f0 f f1 rf now ticket req s0 w =
     (if rq_plan req = [] \<or> rq_ticket req = [] \<or> rq_reservation req = [] \<or> rq_user req = []
      then (Inl (CodeInvalidArgument, ''plan_id, ticket_id, reservation_id, and user_id are required''), w)
      else if rq_seats req = [] then (Inl (CodeInvalidArgument, ''seat_ids must not be empty''), w)
      else case existing_answer f0 (rq_reservation req) s0 of
        Some a \<Rightarrow> (a, w)
      | None \<Rightarrow>
          (case ticket of
             Inl e \<Rightarrow> (Inl (lookup_status e), w)
           | Inr t \<Rightarrow> reserve_and_answer c enforced f f1 rf now t (rq_seats req)
               (new_reservation (rq_reservation req) (rq_plan req) (rq_ticket req) (rq_user req) [] (rq_expires req))
               (rq_seats req) w))"

text \<open>\<open>fa\<close> and \<open>s1\<close>: faults and state of the query for available seats.\<close>

definition AutoAssignAndReserve ::
  "((seat \<Rightarrow> int) \<Rightarrow> seat list \<Rightarrow> seat list) \<Rightarrow>
   ((string \<times> int \<Rightarrow> int) \<Rightarrow> (string \<times> int) list \<Rightarrow> (string \<times> int) list) \<Rightarrow> (string \<Rightarrow> string) \<Rightarrow>
   hold_config \<Rightarrow> bool \<Rightarrow> faults \<Rightarrow> faults \<Rightarrow> faults \<Rightarrow> faults \<Rightarrow> redis_faults \<Rightarrow> int \<Rightarrow> lookup_error + ticket_info
     \<Rightarrow> assign_request \<Rightarrow> venue_db \<Rightarrow> venue_db \<Rightarrow> hold_world \<Rightarrow> (grpc_status + reserve_response) \<times> hold_world" where
  "AutoAssignAndReserve rsort fsort collate c enforced f0 fa f f1 rf now ticket req s0 s1 w =
     (if aq_plan req = [] \<or> aq_ticket req = [] \<or> aq_section req = [] \<or> aq_reservation req = [] \<or> aq_user req = []
      then (Inl (CodeInvalidArgument,
              ''plan_id, ticket_id, section_id, reservation_id, and user_id are required''), w)
      else if sint (aq_quantity req) \<le> 0 then (Inl (CodeInvalidArgument, ''quantity must be greater than zero''), w)
      else case existing_answer f0 (aq_reservation req) s0 of
        Some a \<Rightarrow> (a, w)
      | None \<Rightarrow>
        (case GetAvailableSeatsInSection collate fa (aq_section req) s1 of
           Inl ErrSectionNotFound \<Rightarrow> (Inl (CodeNotFound, ''section not found: '' @ aq_section req), w)
         | Inl e \<Rightarrow> (Inl internal, w)
         | Inr seats \<Rightarrow>
           (case FindBestBlock rsort fsort seats (sint (aq_quantity req)) of
              Inl ErrNotEnoughSeats \<Rightarrow>
                (Inr \<lparr>rs_success = False, rs_reservation = [], rs_seats = [], rs_unavailable = []\<rparr>, w)
            | Inl ErrQuantity \<Rightarrow> (Inl internal, w)
            | Inr ids \<Rightarrow>
              (case ticket of
                 Inl e \<Rightarrow> (Inl (lookup_status e), w)
               | Inr t \<Rightarrow> reserve_and_answer c enforced f f1 rf now t ids
                   (new_reservation (aq_reservation req) (aq_plan req) (aq_ticket req) (aq_user req)
                      (aq_section req) (aq_expires req)) [] w))))"

section \<open>Release, finalize and plan lookup\<close>

definition ReleaseSeatReservation ::
  "hold_config \<Rightarrow> faults \<Rightarrow> faults \<Rightarrow> redis_faults \<Rightarrow> int \<Rightarrow> string \<Rightarrow> venue_db \<Rightarrow> venue_db \<Rightarrow> hold_world
     \<Rightarrow> (grpc_status + bool) \<times> hold_world" where
  "ReleaseSeatReservation c f0 f rf now rid s0 s1 w =
     (if rid = [] then (Inl (CodeInvalidArgument, ''reservation_id is required''), w)
      else case Synced_Release c f0 f rf now rid s0 s1 w of
        (Inr u, w') \<Rightarrow> (Inr True, w')
      | (Inl e, w') \<Rightarrow>
          ((case e of
              ErrReservationAlreadyDone \<Rightarrow> Inr True
            | ErrReservationNotFound \<Rightarrow> Inl (CodeNotFound, ''reservation not found: '' @ rid)
            | ErrReservationConflict \<Rightarrow> Inl (CodeFailedPrecondition,
                ''reservation '' @ rid @ '' is already sold and cannot be released'')
            | _ \<Rightarrow> Inl internal), w'))"

definition FinalizeSeatReservation ::
  "hold_config \<Rightarrow> faults \<Rightarrow> faults \<Rightarrow> redis_faults \<Rightarrow> int \<Rightarrow> string \<Rightarrow> string \<Rightarrow> venue_db \<Rightarrow> hold_world
     \<Rightarrow> (grpc_status + bool) \<times> hold_world" where
  "FinalizeSeatReservation c f f1 rf now rid orderID s1 w =
     (if rid = [] \<or> orderID = [] then (Inl (CodeInvalidArgument, ''reservation_id and order_id are required''), w)
      else case Synced_Finalize c f f1 rf now rid orderID s1 w of
        (Inr u, w') \<Rightarrow> (Inr True, w')
      | (Inl e, w') \<Rightarrow>
          ((case e of
              ErrReservationAlreadyDone \<Rightarrow> Inr True
            | ErrReservationNotFound \<Rightarrow> Inl (CodeNotFound, ''reservation not found: '' @ rid)
            | ErrReservationConflict \<Rightarrow> Inl (CodeFailedPrecondition,
                ''reservation '' @ rid @ '' was released and cannot be finalized'')
            | _ \<Rightarrow> Inl internal), w'))"

fun plan_status_text :: "plan_status \<Rightarrow> string" where
  "plan_status_text PlanStatusDraft = ''draft''"
| "plan_status_text PlanStatusActive = ''active''"
| "plan_status_text PlanStatusInactive = ''inactive''"

record plan_response =
  pl_plan :: string
  pl_ticket :: string
  pl_status :: string
  pl_assignment :: string
  pl_pricing :: string

definition GetSeatingPlan :: "faults \<Rightarrow> string \<Rightarrow> venue_db \<Rightarrow> grpc_status + plan_response" where
  "GetSeatingPlan f pid d =
     (if pid = [] then Inl (CodeInvalidArgument, ''plan_id is required'')
      else case FindPlanByID f 0 pid d of
        Inl e \<Rightarrow> Inl (if e = ErrPlanNotFound then (CodeNotFound, ''seating plan not found: '' @ pid) else internal)
      | Inr p \<Rightarrow> Inr \<lparr>pl_plan = p_id p, pl_ticket = p_ticket p, pl_status = plan_status_text (p_status p),
                     pl_assignment = p_assignment p, pl_pricing = p_pricing p\<rparr>)"

section \<open>Order events\<close>

definition OnOrderCancelled ::
  "hold_config \<Rightarrow> faults \<Rightarrow> faults \<Rightarrow> redis_faults \<Rightarrow> int \<Rightarrow> string \<Rightarrow> venue_db \<Rightarrow> venue_db \<Rightarrow> hold_world
     \<Rightarrow> (venue_error + unit) \<times> hold_world" where
  "OnOrderCancelled c f0 f rf now rid s0 s1 w =
     (case Synced_Release c f0 f rf now rid s0 s1 w of
        (Inl ErrReservationAlreadyDone, w') \<Rightarrow> (Inr (), w')
      | (Inl ErrReservationNotFound, w') \<Rightarrow> (Inr (), w')
      | (Inl e, w') \<Rightarrow> (Inl e, w')
      | (Inr u, w') \<Rightarrow> (Inr (), w'))"

definition OnOrderCompleted ::
  "hold_config \<Rightarrow> faults \<Rightarrow> faults \<Rightarrow> redis_faults \<Rightarrow> int \<Rightarrow> string \<Rightarrow> string \<Rightarrow> venue_db \<Rightarrow> hold_world
     \<Rightarrow> (venue_error + unit) \<times> hold_world" where
  "OnOrderCompleted c f f1 rf now rid orderID s1 w =
     (case Synced_Finalize c f f1 rf now rid orderID s1 w of
        (Inl ErrReservationAlreadyDone, w') \<Rightarrow> (Inr (), w')
      | (Inl ErrReservationNotFound, w') \<Rightarrow> (Inr (), w')
      | (Inl e, w') \<Rightarrow> (Inl e, w')
      | (Inr u, w') \<Rightarrow> (Inr (), w'))"

end
