(* ===== verification/Venue_Ledger.thy ===== *)
theory Venue_Ledger
  imports Reservation_Repo
begin

text \<open>
  The contract between the seat rows and the reservation ledger, and the runs of the venue
  database: any sequence of the repository operations the service calls, with any faults, where
  release and finalize may have read any earlier state.
\<close>

section \<open>The ledger invariant\<close>

text \<open>What a reservation in a given status says of its seats.\<close>

fun claims :: "reservation_status \<Rightarrow> seat_status option" where
  "claims ReservationStatusReserved = Some SeatStatusReserved"
| "claims ReservationStatusSold = Some SeatStatusSold"
| "claims ReservationStatusReleased = None"
| "claims ReservationStatusExpired = None"

definition taken :: "seat \<Rightarrow> bool" where
  "taken s \<longleftrightarrow> s_status s = SeatStatusReserved \<or> s_status s = SeatStatusSold"

definition keys_ok :: "venue_db \<Rightarrow> bool" where
  "keys_ok d \<longleftrightarrow> distinct (map s_id (db_seats d)) \<and> distinct (map r_id (db_reservations d)) \<and>
     distinct (map (\<lambda>i. (i_reservation i, i_seat i)) (db_items d)) \<and>
     (\<forall>i \<in> set (db_items d). reservation_of d (i_reservation i) \<noteq> None)"

text \<open>Every seat of a reserved or sold reservation is in that state and names the reservation.\<close>

definition items_backed :: "venue_db \<Rightarrow> bool" where
  "items_backed d \<longleftrightarrow> (\<forall>i \<in> set (db_items d). \<forall>r st.
     reservation_of d (i_reservation i) = Some r \<longrightarrow> claims (r_status r) = Some st \<longrightarrow>
     (\<exists>s. seat_of d (i_seat i) = Some s \<and> s_status s = st \<and> s_held_by s = Some (i_reservation i)))"

text \<open>Every reserved or sold seat belongs to a reservation of the ledger in that state.\<close>

definition seats_backed :: "venue_db \<Rightarrow> bool" where
  "seats_backed d \<longleftrightarrow> (\<forall>sid s. seat_of d sid = Some s \<longrightarrow> taken s \<longrightarrow>
     (\<exists>i \<in> set (db_items d). i_seat i = sid \<and>
        (\<exists>r. reservation_of d (i_reservation i) = Some r \<and> claims (r_status r) = Some (s_status s))))"

definition ledger_ok :: "venue_db \<Rightarrow> bool" where
  "ledger_ok d \<longleftrightarrow> keys_ok d \<and> items_backed d \<and> seats_backed d"

lemma ledger_ok_cong:
  "db_seats d' = db_seats d \<Longrightarrow> db_reservations d' = db_reservations d \<Longrightarrow> db_items d' = db_items d \<Longrightarrow>
   ledger_ok d' = ledger_ok d"
  by (simp add: ledger_ok_def keys_ok_def items_backed_def seats_backed_def)

lemma claims_taken: "claims st = Some x \<Longrightarrow> x = SeatStatusReserved \<or> x = SeatStatusSold"
  by (cases st) auto

lemma claims_Reserved_iff [simp]: "claims st = Some SeatStatusReserved \<longleftrightarrow> st = ReservationStatusReserved"
  by (cases st) auto

lemma claims_Sold_iff [simp]: "claims st = Some SeatStatusSold \<longleftrightarrow> st = ReservationStatusSold"
  by (cases st) auto

lemma items_backedD:
  "items_backed d \<Longrightarrow> i \<in> set (db_items d) \<Longrightarrow> reservation_of d (i_reservation i) = Some r \<Longrightarrow>
   claims (r_status r) = Some st \<Longrightarrow>
   \<exists>s. seat_of d (i_seat i) = Some s \<and> s_status s = st \<and> s_held_by s = Some (i_reservation i)"
  unfolding items_backed_def by blast

lemma seats_backedD:
  "seats_backed d \<Longrightarrow> seat_of d sid = Some s \<Longrightarrow> taken s \<Longrightarrow>
   \<exists>i \<in> set (db_items d). i_seat i = sid \<and>
      (\<exists>r. reservation_of d (i_reservation i) = Some r \<and> claims (r_status r) = Some (s_status s))"
  unfolding seats_backed_def by blast

text \<open>A taken seat names, in its \<^verbatim>\<open>held_by\<close> column, the reservation that took it.\<close>

lemma taken_held_by:
  assumes "ledger_ok d" and "seat_of d sid = Some s" and "taken s"
  shows "\<exists>i \<in> set (db_items d). \<exists>r. i_seat i = sid \<and> s_held_by s = Some (i_reservation i) \<and>
           reservation_of d (i_reservation i) = Some r \<and> claims (r_status r) = Some (s_status s)"
proof -
  obtain i r where i: "i \<in> set (db_items d)" "i_seat i = sid"
      "reservation_of d (i_reservation i) = Some r" "claims (r_status r) = Some (s_status s)"
    using assms seats_backedD unfolding ledger_ok_def by blast
  then have "s_held_by s = Some (i_reservation i)"
    using assms items_backedD [of d i r] unfolding ledger_ok_def by auto
  then show ?thesis using i by blast
qed

section \<open>The statements keep the keys\<close>

interpretation hold: keyed_update s_id "hold_seat u e n" for u e n
  by unfold_locales (simp add: hold_seat_def)

interpretation free: keyed_update s_id "free_seat n" for n
  by unfold_locales (simp add: free_seat_def)

interpretation rsv: keyed_update s_id "reserve_seat rid n" for rid n
  by unfold_locales (simp add: reserve_seat_def)

interpretation sell: keyed_update s_id "sell_seat n" for n
  by unfold_locales (simp add: sell_seat_def)

interpretation mark: keyed_update r_id "set_status st n" for st n
  by unfold_locales (simp add: set_status_def)

interpretation marksold: keyed_update r_id "mark_sold oid n" for oid n
  by unfold_locales (simp add: mark_sold_def)

lemma seat_upd_status [simp]:
  "s_status (hold_seat u e n s) = SeatStatusHeld"
  "s_status (free_seat n s) = SeatStatusAvailable"
  "s_status (reserve_seat rid n s) = SeatStatusReserved"
  "s_status (sell_seat n s) = SeatStatusSold"
  "s_held_by (reserve_seat rid n s) = Some rid"
  "s_held_by (sell_seat n s) = s_held_by s"
  "s_id (hold_seat u e n s) = s_id s"
  "s_id (free_seat n s) = s_id s"
  "s_id (reserve_seat rid n s) = s_id s"
  "s_id (sell_seat n s) = s_id s"
  "s_plan (hold_seat u e n s) = s_plan s"
  "s_plan (free_seat n s) = s_plan s"
  "s_plan (reserve_seat rid n s) = s_plan s"
  "s_plan (sell_seat n s) = s_plan s"
  by (simp_all add: hold_seat_def free_seat_def reserve_seat_def sell_seat_def)

lemma res_upd_simps [simp]:
  "r_status (set_status st n r) = st" "r_id (set_status st n r) = r_id r"
  "r_plan (set_status st n r) = r_plan r" "r_user (set_status st n r) = r_user r"
  "r_status (mark_sold oid n r) = ReservationStatusSold" "r_id (mark_sold oid n r) = r_id r"
  "r_plan (mark_sold oid n r) = r_plan r" "r_user (mark_sold oid n r) = r_user r"
  by (simp_all add: set_status_def mark_sold_def)

section \<open>Preservation by kind of update\<close>

text \<open>An update that neither touches nor creates taken seats.\<close>

lemma ledger_ok_seat_update:
  assumes ok: "ledger_ok d" and K: "keyed_update s_id g"
    and miss: "\<And>s. p s \<Longrightarrow> s \<in> set (db_seats d) \<Longrightarrow> \<not> taken s"
    and untaken: "\<And>s. \<not> taken (g s)"
  shows "ledger_ok (d\<lparr>db_seats := sql_update p g (db_seats d)\<rparr>)"
proof -
  have find: "find_row s_id k (sql_update p g (db_seats d)) =
      map_option (\<lambda>r. if p r then g r else r) (seat_of d k)" for k
    by (rule keyed_update.find_after [OF K])
  have keep: "find_row s_id k (sql_update p g (db_seats d)) = Some s"
    if "seat_of d k = Some s" "taken s" for k s
    using that miss find find_row_Some_iff_set by fastforce
  have rev: "seat_of d k = Some s"
    if "find_row s_id k (sql_update p g (db_seats d)) = Some s" "taken s" for k s
    using that untaken find by (auto split: if_splits)
  have "items_backed (d\<lparr>db_seats := sql_update p g (db_seats d)\<rparr>)"
    unfolding items_backed_def
  proof (intro ballI allI impI)
    fix i r st
    assume "i \<in> set (db_items (d\<lparr>db_seats := sql_update p g (db_seats d)\<rparr>))"
      "find_row r_id (i_reservation i)
         (db_reservations (d\<lparr>db_seats := sql_update p g (db_seats d)\<rparr>)) = Some r"
      "claims (r_status r) = Some st"
    then obtain s where "seat_of d (i_seat i) = Some s" "s_status s = st"
        "s_held_by s = Some (i_reservation i)" "taken s"
      using ok items_backedD [of d i r st] claims_taken [of "r_status r" st]
      unfolding ledger_ok_def taken_def by fastforce
    then show "\<exists>s. find_row s_id (i_seat i)
        (db_seats (d\<lparr>db_seats := sql_update p g (db_seats d)\<rparr>)) = Some s \<and>
        s_status s = st \<and> s_held_by s = Some (i_reservation i)"
      using keep by auto
  qed
  moreover have "seats_backed (d\<lparr>db_seats := sql_update p g (db_seats d)\<rparr>)"
    using ok rev unfolding ledger_ok_def seats_backed_def by fastforce
  moreover have "keys_ok (d\<lparr>db_seats := sql_update p g (db_seats d)\<rparr>)"
    using ok keyed_update.keys_unchanged [OF K, of p "db_seats d"]
    unfolding ledger_ok_def keys_ok_def by simp
  ultimately show ?thesis by (simp add: ledger_ok_def)
qed

text \<open>New seats, all available and with new ids.\<close>

lemma ledger_ok_seat_insert:
  assumes ok: "ledger_ok d" and new: "distinct (map s_id ss)" "s_id ` set ss \<inter> s_id ` set (db_seats d) = {}"
    and avail: "\<And>s. s \<in> set ss \<Longrightarrow> \<not> taken s"
  shows "ledger_ok (d\<lparr>db_seats := db_seats d @ ss\<rparr>)"
proof -
  have keep: "seat_of d k = Some s \<Longrightarrow> find_row s_id k (db_seats d @ ss) = Some s" for k s
    by simp
  have rev: "find_row s_id k (db_seats d @ ss) = Some s \<Longrightarrow> taken s \<Longrightarrow> seat_of d k = Some s" for k s
    using avail by (auto split: option.splits dest: find_row_Some_iff_set)
  have "items_backed (d\<lparr>db_seats := db_seats d @ ss\<rparr>)"
    using ok keep unfolding ledger_ok_def items_backed_def by fastforce
  moreover have "seats_backed (d\<lparr>db_seats := db_seats d @ ss\<rparr>)"
    using ok rev unfolding ledger_ok_def seats_backed_def by fastforce
  moreover have "keys_ok (d\<lparr>db_seats := db_seats d @ ss\<rparr>)"
    using ok new unfolding ledger_ok_def keys_ok_def by auto
  ultimately show ?thesis by (simp add: ledger_ok_def)
qed

text \<open>
  A set \<open>R\<close> of reserved reservations leaves the reserved state together with its seats: \<open>st\<close> is the
  new status of the reservations, \<open>updR\<close> and \<open>updS\<close> the updates, \<open>pr\<close> and \<open>ps\<close> their guards. First
  what the lookups in the new tables \<open>d'\<close> say of the old ones.
\<close>

lemma claim_items_backed:
  assumes ok: "ledger_ok d" and same: "db_items d' = db_items d"
    and findR: "\<And>k. reservation_of d' k = map_option (\<lambda>r. if pr r then updR r else r) (reservation_of d k)"
    and findS: "\<And>k. seat_of d' k = map_option (\<lambda>s. if ps s then updS s else s) (seat_of d k)"
    and prr: "\<And>k r. reservation_of d k = Some r \<Longrightarrow> pr r \<longleftrightarrow> r_status r = ReservationStatusReserved \<and> k \<in> R"
    and psf: "\<And>k s. seat_of d k = Some s \<Longrightarrow>
      ps s \<longleftrightarrow> s_status s = SeatStatusReserved \<and> (\<exists>rid \<in> R. s_held_by s = Some rid)"
    and st: "\<And>r. r_status (updR r) = st"
    and seat: "\<And>s x. claims st = Some x \<Longrightarrow> s_status (updS s) = x \<and> s_held_by (updS s) = s_held_by s"
  shows "items_backed d'"
  unfolding items_backed_def
proof (intro ballI allI impI)
  fix i r' x
  assume i: "i \<in> set (db_items d')" and r': "reservation_of d' (i_reservation i) = Some r'"
    and x: "claims (r_status r') = Some x"
  obtain r where r: "reservation_of d (i_reservation i) = Some r" "r' = (if pr r then updR r else r)"
    using r' findR by auto
  obtain y where y: "claims (r_status r) = Some y" using r x prr [OF r(1)] by (auto split: if_splits)
  then obtain s where s: "seat_of d (i_seat i) = Some s" "s_status s = y" "s_held_by s = Some (i_reservation i)"
    using items_backedD [OF _ _ r(1) y] i ok same by (auto simp: ledger_ok_def)
  have "ps s \<longleftrightarrow> pr r"
    using psf [OF s(1)] prr [OF r(1)] s y claims_taken [OF y] by (cases "r_status r") auto
  then have "seat_of d' (i_seat i) = Some (if pr r then updS s else s)" using findS s by simp
  moreover have "s_status (if pr r then updS s else s) = x \<and>
      s_held_by (if pr r then updS s else s) = Some (i_reservation i)"
    using s y r x st seat [of x s] by (auto split: if_splits)
  ultimately show "\<exists>s. seat_of d' (i_seat i) = Some s \<and> s_status s = x \<and> s_held_by s = Some (i_reservation i)"
    by blast
qed

lemma claim_seats_backed:
  assumes ok: "ledger_ok d" and same: "db_items d' = db_items d"
    and findR: "\<And>k. reservation_of d' k = map_option (\<lambda>r. if pr r then updR r else r) (reservation_of d k)"
    and findS: "\<And>k. seat_of d' k = map_option (\<lambda>s. if ps s then updS s else s) (seat_of d k)"
    and prr: "\<And>k r. reservation_of d k = Some r \<Longrightarrow> pr r \<longleftrightarrow> r_status r = ReservationStatusReserved \<and> k \<in> R"
    and psf: "\<And>k s. seat_of d k = Some s \<Longrightarrow>
      ps s \<longleftrightarrow> s_status s = SeatStatusReserved \<and> (\<exists>rid \<in> R. s_held_by s = Some rid)"
    and st: "\<And>r. r_status (updR r) = st"
    and seat: "\<And>s. claims st = None \<Longrightarrow> \<not> taken (updS s)" "\<And>s x. claims st = Some x \<Longrightarrow> s_status (updS s) = x"
  shows "seats_backed d'"
  unfolding seats_backed_def
proof (intro allI impI)
  fix sid s'
  assume s': "seat_of d' sid = Some s'" and tk: "taken s'"
  then obtain s where s: "seat_of d sid = Some s" "s' = (if ps s then updS s else s)" using findS by auto
  have "taken s" using s tk psf [OF s(1)] by (auto simp: taken_def split: if_splits)
  then obtain i r where i: "i \<in> set (db_items d)" "i_seat i = sid" "s_held_by s = Some (i_reservation i)"
      "reservation_of d (i_reservation i) = Some r" "claims (r_status r) = Some (s_status s)"
    using taken_held_by [OF ok s(1)] by blast
  have pp: "ps s \<longleftrightarrow> pr r" using psf [OF s(1)] prr [OF i(4)] i by (cases "r_status r") auto
  have "claims (r_status (if pr r then updR r else r)) = Some (s_status s')"
  proof (cases "pr r")
    case True
    then have "s' = updS s" using s pp by simp
    then show ?thesis using seat tk True st by fastforce
  qed (use s pp i in simp)
  then show "\<exists>i \<in> set (db_items d'). i_seat i = sid \<and>
      (\<exists>r. reservation_of d' (i_reservation i) = Some r \<and> claims (r_status r) = Some (s_status s'))"
    using i findR same by (intro bexI [of _ i]) auto
qed

lemma ledger_ok_claim:
  assumes ok: "ledger_ok d" and KR: "keyed_update r_id updR" and KS: "keyed_update s_id updS"
    and st: "\<And>r. r_status (updR r) = st" "st \<noteq> ReservationStatusReserved"
    and pr: "\<And>r. r \<in> set (db_reservations d) \<Longrightarrow>
               pr r \<longleftrightarrow> r_status r = ReservationStatusReserved \<and> r_id r \<in> R"
    and ps: "\<And>s. s \<in> set (db_seats d) \<Longrightarrow>
               ps s \<longleftrightarrow> s_status s = SeatStatusReserved \<and> (\<exists>rid \<in> R. s_held_by s = Some rid)"
    and seat: "\<And>s. claims st = None \<Longrightarrow> \<not> taken (updS s)"
      "\<And>s x. claims st = Some x \<Longrightarrow> s_status (updS s) = x \<and> s_held_by (updS s) = s_held_by s"
  shows "ledger_ok (d\<lparr>db_reservations := sql_update pr updR (db_reservations d),
                      db_seats := sql_update ps updS (db_seats d)\<rparr>)"
    (is "ledger_ok ?d")
proof -
  have findR: "reservation_of ?d k = map_option (\<lambda>r. if pr r then updR r else r) (reservation_of d k)" for k
    using keyed_update.find_after [OF KR, of k pr "db_reservations d"] by simp
  have findS: "seat_of ?d k = map_option (\<lambda>s. if ps s then updS s else s) (seat_of d k)" for k
    using keyed_update.find_after [OF KS, of k ps "db_seats d"] by simp
  have prr: "reservation_of d k = Some r \<Longrightarrow> pr r \<longleftrightarrow> r_status r = ReservationStatusReserved \<and> k \<in> R" for k r
    using pr find_row_Some_iff_set by fastforce
  have psf: "seat_of d k = Some s \<Longrightarrow>
      ps s \<longleftrightarrow> s_status s = SeatStatusReserved \<and> (\<exists>rid \<in> R. s_held_by s = Some rid)" for k s
    using ps find_row_Some_iff_set by fastforce
  have same: "db_items ?d = db_items d" by simp
  have "items_backed ?d" by (rule claim_items_backed [OF ok same findR findS prr psf st(1) seat(2)])
  moreover have "seats_backed ?d"
    by (rule claim_seats_backed [OF ok same findR findS prr psf st(1) seat(1) conjunct1 [OF seat(2)]])
  moreover have "keys_ok ?d"
    using ok keyed_update.keys_unchanged [OF KR, of pr "db_reservations d"]
      keyed_update.keys_unchanged [OF KS, of ps "db_seats d"] findR
    unfolding keys_ok_def ledger_ok_def by auto
  ultimately show ?thesis by (simp add: ledger_ok_def)
qed

text \<open>A new reservation takes seats that are not taken.\<close>

lemma reserve_items_backed:
  assumes ok: "items_backed d" and old: "\<And>i. i \<in> set (db_items d) \<Longrightarrow> i_reservation i \<noteq> rid"
    and items: "set (db_items d') = set (db_items d) \<union> set is" "\<And>i. i \<in> set is \<Longrightarrow> i_reservation i = rid \<and> i_seat i \<in> set ids"
    and findS: "\<And>k. seat_of d' k = map_option (\<lambda>s. if k \<in> set ids then reserve_seat rid now s else s) (seat_of d k)"
    and findR: "\<And>k. reservation_of d' k = (if k = rid then Some res else reservation_of d k)"
    and res: "r_status res = ReservationStatusReserved"
    and free: "\<And>id. id \<in> set ids \<Longrightarrow> \<exists>s. seat_of d id = Some s \<and> \<not> taken s"
  shows "items_backed d'"
  unfolding items_backed_def
proof (intro ballI allI impI)
  fix i r x
  assume i: "i \<in> set (db_items d')" and r: "reservation_of d' (i_reservation i) = Some r"
    and x: "claims (r_status r) = Some x"
  show "\<exists>s. seat_of d' (i_seat i) = Some s \<and> s_status s = x \<and> s_held_by s = Some (i_reservation i)"
  proof (cases "i \<in> set is")
    case True
    moreover then obtain s where "seat_of d (i_seat i) = Some s" using free items(2) by blast
    ultimately show ?thesis using findS findR r x res items(2) by auto
  next
    case False
    then have d: "i \<in> set (db_items d)" using i items(1) by simp
    then have r0: "reservation_of d (i_reservation i) = Some r" using r findR old by auto
    obtain s where s: "seat_of d (i_seat i) = Some s" "s_status s = x" "s_held_by s = Some (i_reservation i)"
      using items_backedD [OF ok d r0 x] by blast
    then have "i_seat i \<notin> set ids" using free claims_taken [OF x] unfolding taken_def by force
    then show ?thesis using s findS by auto
  qed
qed

lemma reserve_seats_backed:
  assumes ok: "seats_backed d" and old: "\<And>i. i \<in> set (db_items d) \<Longrightarrow> i_reservation i \<noteq> rid"
    and items: "set (db_items d') = set (db_items d) \<union> set is" "map i_seat is = ids" "\<And>i. i \<in> set is \<Longrightarrow> i_reservation i = rid"
    and findS: "\<And>k. seat_of d' k = map_option (\<lambda>s. if k \<in> set ids then reserve_seat rid now s else s) (seat_of d k)"
    and findR: "\<And>k. reservation_of d' k = (if k = rid then Some res else reservation_of d k)"
    and res: "r_status res = ReservationStatusReserved"
  shows "seats_backed d'"
  unfolding seats_backed_def
proof (intro allI impI)
  fix sid s'
  assume s': "seat_of d' sid = Some s'" and tk: "taken s'"
  show "\<exists>i \<in> set (db_items d'). i_seat i = sid \<and>
      (\<exists>r. reservation_of d' (i_reservation i) = Some r \<and> claims (r_status r) = Some (s_status s'))"
  proof (cases "sid \<in> set ids")
    case True
    then obtain i where i: "i \<in> set is" "i_seat i = sid" using items(2) by auto
    have "s_status s' = SeatStatusReserved"
      using findS [of sid] s' True by (cases "seat_of d sid") (auto simp: reserve_seat_def)
    moreover have "reservation_of d' (i_reservation i) = Some res" using findR items(3) [OF i(1)] by simp
    ultimately show ?thesis using i res items(1) by (intro bexI [of _ i]) simp_all
  next
    case False
    then have "seat_of d sid = Some s'" using s' findS by (auto simp: option.map_id)
    then obtain i r where "i \<in> set (db_items d)" "i_seat i = sid"
        "reservation_of d (i_reservation i) = Some r" "claims (r_status r) = Some (s_status s')"
      using seats_backedD [OF ok _ tk] by blast
    then show ?thesis using old findR items(1) by (auto intro!: bexI [of _ i])
  qed
qed

lemma ledger_ok_reserve:
  assumes ok: "ledger_ok d" and fresh: "reservation_of d rid = None"
    and res: "r_id res = rid" "r_status res = ReservationStatusReserved"
    and free: "\<And>id. id \<in> set ids \<Longrightarrow> \<exists>s. seat_of d id = Some s \<and> \<not> taken s"
    and items: "map i_seat is = ids" "\<And>i. i \<in> set is \<Longrightarrow> i_reservation i = rid" "distinct ids"
  shows "ledger_ok (d\<lparr>db_seats := sql_update (\<lambda>s. s_id s \<in> set ids) (reserve_seat rid now) (db_seats d),
                      db_reservations := db_reservations d @ [res], db_items := db_items d @ is\<rparr>)"
    (is "ledger_ok ?d")
proof -
  have findS: "seat_of ?d k =
      map_option (\<lambda>s. if k \<in> set ids then reserve_seat rid now s else s) (seat_of d k)" for k
    using rsv.find_after [of k "\<lambda>s. s_id s \<in> set ids" rid now "db_seats d"]
    by (cases "seat_of d k") (auto dest: find_row_Some_iff_set)
  have findR: "reservation_of ?d k = (if k = rid then Some res else reservation_of d k)" for k
    using fresh res by (auto split: option.splits)
  have ko: "keys_ok d" and ib: "items_backed d" and sb: "seats_backed d" using ok by (simp_all add: ledger_ok_def)
  have old: "i_reservation i \<noteq> rid" if "i \<in> set (db_items d)" for i
    using ko that fresh unfolding keys_ok_def by force
  have new: "set (db_items ?d) = set (db_items d) \<union> set is" by simp
  have "items_backed ?d"
    by (rule reserve_items_backed [OF ib old new _ findS findR res(2) free]) (use items(1,2) in auto)
  moreover have "seats_backed ?d"
    by (rule reserve_seats_backed [OF sb old new items(1,2) findS findR res(2)])
  moreover have "keys_ok ?d"
  proof -
    have "distinct (map (\<lambda>i. (i_reservation i, i_seat i)) is)"
      using items(1,3) by (auto simp: distinct_map inj_on_def)
    moreover have "rid \<notin> r_id ` set (db_reservations d)" using fresh by (simp add: find_row_None_iff)
    ultimately show ?thesis
      using ko old items(2) res findR rsv.keys_unchanged [of "\<lambda>s. s_id s \<in> set ids" rid now "db_seats d"]
      unfolding keys_ok_def by auto
  qed
  ultimately show ?thesis by (simp add: ledger_ok_def)
qed

end
