(* ===== verification/Venue_Run.thy ===== *)
theory Venue_Run
  imports Venue_Ledger
begin

text \<open>
  The runs of the venue database and what holds in every reachable state: the effect of each
  operation, the step relation over the operations the service calls, and the properties that
  survive any interleaving with any faults.
\<close>

section \<open>Effects of the operations\<close>

lemma checkSeatLimit_Inr:
  "checkSeatLimit f k now p u ids m d = Inr w \<Longrightarrow>
   m \<le> 0 \<or> int (length (buyer_seats now p u ids d)) \<le> m"
  by (auto simp: checkSeatLimit_def commit_iffs split: if_splits)

lemma lock_seats_find:
  assumes "case find_row s_id k (lock_seats p ids d) of None \<Rightarrow> False | Some s \<Rightarrow> Q s"
  shows "\<exists>s \<in> set (db_seats d). find_row s_id k (lock_seats p ids d) = Some s \<and> s_id s = k \<and> s_plan s = p \<and> Q s"
proof (cases "find_row s_id k (lock_seats p ids d)")
  case (Some s)
  then have "s \<in> set (db_seats d) \<and> s_plan s = p \<and> s_id s = k"
    unfolding lock_seats_def by (auto dest: find_row_filter_Some)
  then show ?thesis using Some assms by auto
qed (use assms in simp)

lemma HoldSeats_effect:
  assumes "snd (HoldSeats f now p ids u e m d) = d'" "d' \<noteq> d"
  shows "d' = d\<lparr>db_seats := sql_update (\<lambda>s. s_id s \<in> set ids) (hold_seat u e now) (db_seats d)\<rparr> \<and>
    (\<forall>id \<in> set ids. \<exists>s \<in> set (db_seats d). s_id s = id \<and> s_plan s = p \<and>
        (s_status s = SeatStatusAvailable \<or> hold_lapsed now s)) \<and>
    (m \<le> 0 \<or> int (length (buyer_seats now p u ids d)) \<le> m)"
proof -
  let ?ok = "\<lambda>id. case find_row s_id id (lock_seats p ids d) of
      None \<Rightarrow> False | Some s \<Rightarrow> s_status s = SeatStatusAvailable \<or> hold_lapsed now s"
  have c: "list_all ?ok ids \<and> (\<exists>w. checkSeatLimit f 2 now p u ids m d = Inr w) \<and>
    d' = d\<lparr>db_seats := sql_update (\<lambda>s. s_id s \<in> set ids) (hold_seat u e now) (db_seats d)\<rparr>"
    using run_tx_snd [OF assms [unfolded HoldSeats_def Let_def]]
    by (auto simp only: commit_iffs not_not tx_out.inject)
  have "\<forall>id \<in> set ids. \<exists>s \<in> set (db_seats d). s_id s = id \<and> s_plan s = p \<and>
        (s_status s = SeatStatusAvailable \<or> hold_lapsed now s)"
  proof
    fix id assume "id \<in> set ids"
    then have "?ok id" using c by (simp add: list_all_iff)
    then show "\<exists>s \<in> set (db_seats d). s_id s = id \<and> s_plan s = p \<and>
        (s_status s = SeatStatusAvailable \<or> hold_lapsed now s)"
      using lock_seats_find [of _ id p ids d] by blast
  qed
  then show ?thesis using c checkSeatLimit_Inr by blast
qed

abbreviation item_key :: "reservation_item \<Rightarrow> string \<times> string" where
  "item_key i \<equiv> (i_reservation i, i_seat i)"

lemma insert_items_Inr:
  "insert_items f k is d = Inr d' \<Longrightarrow>
   d' = d\<lparr>db_items := db_items d @ is\<rparr> \<and> distinct (map item_key is) \<and>
   item_key ` set is \<inter> item_key ` set (db_items d) = {}"
proof (induction "is" arbitrary: k d)
  case (Cons i "is")
  have c: "item_key i \<notin> item_key ` set (db_items d)"
    and r: "insert_items f (Suc k) is (d\<lparr>db_items := db_items d @ [i]\<rparr>) = Inr d'"
    using Cons.prems by (auto split: if_splits)
  show ?case using Cons.IH [OF r] c by auto
qed simp


text \<open>The commit of a reserve: what was checked, and the three tables it writes.\<close>

lemma AtomicReserveAndCreate_effect:
  assumes "snd (AtomicReserveAndCreate f now ids res bp m d) = d'" "d' \<noteq> d"
  shows "\<exists>is. d' = d\<lparr>db_seats := sql_update (\<lambda>s. s_id s \<in> set ids) (reserve_seat (r_id res) now) (db_seats d),
              db_reservations := db_reservations d @ [res\<lparr>r_order := None, r_created := now, r_updated := now\<rparr>],
              db_items := db_items d @ is\<rparr> \<and>
     reservation_of d (r_id res) = None \<and> distinct ids \<and> map i_seat is = ids \<and>
     (\<forall>i \<in> set is. i_reservation i = r_id res) \<and>
     (\<forall>id \<in> set ids. \<exists>s \<in> set (db_seats d). s_id s = id \<and> s_plan s = r_plan res \<and>
        reservable now (r_user res) s \<and> new_item d bp (r_id res) s \<in> set is) \<and>
     (m \<le> 0 \<or> int (length (buyer_seats now (r_plan res) (r_user res) ids d)) \<le> m)"
proof -
  let ?ok = "\<lambda>id. case find_row s_id id (lock_seats (r_plan res) ids d) of
      None \<Rightarrow> False | Some s \<Rightarrow> reservable now (r_user res) s"
  let ?item = "\<lambda>id. case find_row s_id id (lock_seats (r_plan res) ids d) of
      Some s \<Rightarrow> new_item d bp (r_id res) s
    | None \<Rightarrow> \<lparr>i_reservation = r_id res, i_seat = [], i_section = [], i_price = [], i_label = []\<rparr>"
  let ?d1 = "d\<lparr>db_seats := sql_update (\<lambda>s. s_id s \<in> set ids) (reserve_seat (r_id res) now) (db_seats d)\<rparr>"
  let ?d2 = "?d1\<lparr>db_reservations := db_reservations ?d1 @ [res\<lparr>r_order := None, r_created := now, r_updated := now\<rparr>]\<rparr>"
  have c: "list_all ?ok ids \<and> (\<exists>w. checkSeatLimit f 2 now (r_plan res) (r_user res) ids m d = Inr w) \<and>
     reservation_of d (r_id res) = None \<and> insert_items f 5 (map ?item ids) ?d2 = Inr d'"
    using run_tx_snd [OF assms [unfolded AtomicReserveAndCreate_def Let_def]]
    by (auto simp only: commit_iffs not_not tx_out.inject)
  have found: "\<exists>s \<in> set (db_seats d). find_row s_id id (lock_seats (r_plan res) ids d) = Some s \<and>
      s_id s = id \<and> s_plan s = r_plan res \<and> reservable now (r_user res) s" if "id \<in> set ids" for id
  proof -
    have "?ok id" using c that by (simp add: list_all_iff)
    then show ?thesis using lock_seats_find [of _ id "r_plan res" ids d] by blast
  qed
  have seat: "i_seat (?item id) = id \<and> i_reservation (?item id) = r_id res" if "id \<in> set ids" for id
    using found [OF that] by (auto simp: new_item_def)
  have seats: "map i_seat (map ?item ids) = ids"
    unfolding map_map using seat by (intro map_idI) simp
  have ins: "d' = ?d2\<lparr>db_items := db_items ?d2 @ map ?item ids\<rparr>"
    "distinct (map item_key (map ?item ids))"
    using insert_items_Inr c by blast+
  have "distinct (map i_seat (map ?item ids))"
    using ins(2) seat by (auto simp: distinct_map inj_on_def)
  then have "distinct ids" using seats by simp
  moreover have "\<forall>id \<in> set ids. \<exists>s \<in> set (db_seats d). s_id s = id \<and> s_plan s = r_plan res \<and>
      reservable now (r_user res) s \<and> new_item d bp (r_id res) s \<in> set (map ?item ids)"
  proof
    fix id assume id: "id \<in> set ids"
    obtain s where s: "s \<in> set (db_seats d)" "find_row s_id id (lock_seats (r_plan res) ids d) = Some s"
      "s_id s = id" "s_plan s = r_plan res" "reservable now (r_user res) s"
      using found [OF id] by blast
    have "?item id \<in> set (map ?item ids)" unfolding set_map using id by (rule imageI)
    moreover have "?item id = new_item d bp (r_id res) s" using s(2) by simp
    ultimately have "new_item d bp (r_id res) s \<in> set (map ?item ids)" by (rule subst [rotated])
    then show "\<exists>s \<in> set (db_seats d). s_id s = id \<and> s_plan s = r_plan res \<and>
        reservable now (r_user res) s \<and> new_item d bp (r_id res) s \<in> set (map ?item ids)"
      using s by blast
  qed
  moreover have "\<forall>i \<in> set (map ?item ids). i_reservation i = r_id res" using seat by auto
  moreover have "d' = d\<lparr>db_seats := sql_update (\<lambda>s. s_id s \<in> set ids) (reserve_seat (r_id res) now) (db_seats d),
              db_reservations := db_reservations d @ [res\<lparr>r_order := None, r_created := now, r_updated := now\<rparr>],
              db_items := db_items d @ map ?item ids\<rparr>"
    unfolding ins(1) by simp
  moreover have "m \<le> 0 \<or> int (length (buyer_seats now (r_plan res) (r_user res) ids d)) \<le> m"
    using c checkSeatLimit_Inr by blast
  moreover have "reservation_of d (r_id res) = None" using c by blast
  ultimately show ?thesis using seats by blast
qed


lemma claim_tx_effect:
  assumes "snd (run_tx ErrDb f (claim_tx f rid want uR uS ids d) d) = d'" "d' \<noteq> d"
  shows "d' = d\<lparr>db_reservations := sql_update (claimable rid) uR (db_reservations d),
                db_seats := sql_update (\<lambda>s. s_status s = SeatStatusReserved \<and> s_id s \<in> set ids) uS (db_seats d)\<rparr> \<and>
         rows_affected (claimable rid) (db_reservations d) \<noteq> 0"
proof -
  let ?d1 = "d\<lparr>db_reservations := sql_update (claimable rid) uR (db_reservations d)\<rparr>"
  obtain v where "claim_tx f rid want uR uS ids d = TxCommit v d'"
    using run_tx_snd [OF assms] by blast
  then have "rows_affected (claimable rid) (db_reservations d) \<noteq> 0 \<and>
      (if ids = [] then d' = ?d1 else d' = ?d1\<lparr>db_seats := sql_update
         (\<lambda>s. s_id s \<in> set ids \<and> s_status s = SeatStatusReserved) uS (db_seats ?d1)\<rparr>)"
    unfolding claim_tx_def Let_def commit_iffs not_not
    by (cases "ids = []") (simp_all add: commit_iffs)
  then show ?thesis
    by (cases "ids = []") (simp_all add: sql_update_none conj_commute)
qed

lemma ReleaseReservation_effect:
  assumes "snd (ReleaseReservation f now rid snap d) = d'" "d' \<noteq> d"
  shows "d' = d\<lparr>db_reservations := sql_update (claimable rid) (set_status ReservationStatusReleased now) (db_reservations d),
                db_seats := sql_update (\<lambda>s. s_status s = SeatStatusReserved \<and>
                  s_id s \<in> i_seat ` set (items_of snap rid)) (free_seat now) (db_seats d)\<rparr> \<and>
         rows_affected (claimable rid) (db_reservations d) \<noteq> 0 \<and>
         (\<exists>r. reservation_of snap rid = Some r)"
  using assms claim_tx_effect [OF _ assms(2)]
  by (fastforce simp: ReleaseReservation_def FindReservationByID_def stmt_def
      split: if_splits option.splits reservation_status.splits)

lemma FinalizeReservation_effect:
  assumes "snd (FinalizeReservation f now rid oid snap d) = d'" "d' \<noteq> d"
  shows "d' = d\<lparr>db_reservations := sql_update (claimable rid) (mark_sold oid now) (db_reservations d),
                db_seats := sql_update (\<lambda>s. s_status s = SeatStatusReserved \<and>
                  s_id s \<in> i_seat ` set (items_of snap rid)) (sell_seat now) (db_seats d)\<rparr> \<and>
         rows_affected (claimable rid) (db_reservations d) \<noteq> 0 \<and>
         (\<exists>r. reservation_of snap rid = Some r)"
  using assms claim_tx_effect [OF _ assms(2)]
  by (fastforce simp: FinalizeReservation_def FindReservationByID_def stmt_def
      split: if_splits option.splits reservation_status.splits)

lemma SweepExpiredReservations_effect:
  assumes "snd (SweepExpiredReservations f g locked now d) = d'" "d' \<noteq> d"
  shows "let ids = sweep_batch locked now d in
         d' = d\<lparr>db_reservations := sql_update
                  (\<lambda>r. r_status r = ReservationStatusReserved \<and> r_id r \<in> set ids)
                  (set_status ReservationStatusExpired now) (db_reservations d),
                db_seats := sql_update (owned_by_expired ids d) (free_seat now) (db_seats d)\<rparr>"
proof -
  let ?ids = "sweep_batch locked now d"
  let ?d1 = "d\<lparr>db_reservations := sql_update
                  (\<lambda>r. r_status r = ReservationStatusReserved \<and> r_id r \<in> set ?ids)
                  (set_status ReservationStatusExpired now) (db_reservations d)\<rparr>"
  have own: "owned_by_expired ?ids ?d1 = owned_by_expired ?ids d"
    by (simp add: owned_by_expired_def fun_eq_iff)
  obtain v where "on_ok (stmt ErrDb f 0) (\<lambda>_.
      if \<not> g then TxReturn 0
      else on_ok (stmt ErrDb f 1) (\<lambda>_.
           if ?ids = [] then TxReturn 0
           else on_ok (stmt ErrDb f 2) (\<lambda>_.
             TxCommit (length ?ids)
               (?d1\<lparr>db_seats := sql_update (owned_by_expired ?ids ?d1) (free_seat now) (db_seats ?d1)\<rparr>)))) = TxCommit v d'"
    using run_tx_snd [OF assms [unfolded SweepExpiredReservations_def Let_def]] by blast
  then have "d' = ?d1\<lparr>db_seats := sql_update (owned_by_expired ?ids ?d1) (free_seat now) (db_seats ?d1)\<rparr>"
    unfolding commit_iffs not_not by simp
  then show ?thesis unfolding own Let_def by simp
qed


section \<open>Seat generation\<close>

lemma bulk_rows_keys:
  "map s_id (map (\<lambda>(i, lab). new_seat (gen (n + i)) now sid pid tier lab) (enumerate k labs)) =
   map (\<lambda>i. gen (n + i)) [k..<k + length labs]"
  by (induction labs arbitrary: k) (simp_all add: new_seat_def upt_rec)

lemma bulkInsertSeats_Inr:
  assumes "bulkInsertSeats f k gen n now sid pid ty tier rc cc d = Inr (n', d')"
  shows "n \<le> n' \<and> (\<exists>ss. d' = d\<lparr>db_seats := db_seats d @ ss\<rparr> \<and> map s_id ss = map gen [n..<n'] \<and>
           (\<forall>s \<in> set ss. \<not> taken s \<and> s_section s = sid \<and> s_plan s = pid))"
proof -
  obtain labs where labs: "seat_layout ty rc cc = Inr labs"
    using assms by (auto simp: bulkInsertSeats_def commit_iffs)
  let ?ss = "map (\<lambda>(i, lab). new_seat (gen (n + i)) now sid pid tier lab) (enumerate 0 labs)"
  have n': "n' = n + length labs" and d': "d' = d\<lparr>db_seats := db_seats d @ ?ss\<rparr>"
    using assms labs by (auto simp: bulkInsertSeats_def commit_iffs split: if_splits)
  have "map s_id ?ss = map gen [n..<n']"
    unfolding bulk_rows_keys n' by (rule nth_equalityI) auto
  moreover have "\<forall>s \<in> set ?ss. \<not> taken s \<and> s_section s = sid \<and> s_plan s = pid"
    by (auto simp: new_seat_def taken_def)
  ultimately show ?thesis using n' d' by (metis le_add1)
qed

text \<open>What the seat tables of two states have in common when seats were only added.\<close>

definition seats_added :: "(nat \<Rightarrow> string) \<Rightarrow> nat \<Rightarrow> nat \<Rightarrow> venue_db \<Rightarrow> venue_db \<Rightarrow> bool" where
  "seats_added gen n n' d d' \<longleftrightarrow> n \<le> n' \<and> db_reservations d' = db_reservations d \<and> db_items d' = db_items d \<and>
     (\<exists>ss. db_seats d' = db_seats d @ ss \<and> map s_id ss = map gen [n..<n'] \<and> (\<forall>s \<in> set ss. \<not> taken s))"

lemma seats_added_trans:
  assumes "seats_added gen a b d d1" "seats_added gen b c d1 d2"
  shows "seats_added gen a c d d2"
proof -
  obtain ss tt where "db_seats d1 = db_seats d @ ss" "map s_id ss = map gen [a..<b]" "\<forall>s \<in> set ss. \<not> taken s"
    "db_seats d2 = db_seats d1 @ tt" "map s_id tt = map gen [b..<c]" "\<forall>s \<in> set tt. \<not> taken s"
    "a \<le> b" "b \<le> c"
    using assms unfolding seats_added_def by blast
  moreover then have "[a..<c] = [a..<b] @ [b..<c]" by (metis le_add_diff_inverse upt_add_eq_append)
  ultimately have "db_seats d2 = db_seats d @ (ss @ tt) \<and> map s_id (ss @ tt) = map gen [a..<c] \<and>
      (\<forall>s \<in> set (ss @ tt). \<not> taken s)"
    by auto
  then show ?thesis using assms unfolding seats_added_def by auto
qed

lemma clone_sections_added:
  "clone_sections f k sgen m gen n now pid tss d = Inr d' \<Longrightarrow> \<exists>n'. seats_added gen n n' d d'"
proof (induction tss arbitrary: k m n d)
  case Nil
  then show ?case by (intro exI [of _ n]) (simp add: seats_added_def)
next
  case (Cons ts tss)
  obtain s d1 n1 d2 where
    c: "createSection f k (sgen m) now
          \<lparr>sec_id = [], sec_plan = pid, sec_name = vs_name ts, sec_type = vs_type ts,
           sec_rows = vs_rows ts, sec_columns = vs_columns ts, sec_tier = [],
           sec_created = 0, sec_updated = 0\<rparr> d = Inr (s, d1)"
    and b: "bulkInsertSeats f (Suc k) gen n now (sec_id s) pid (vs_type ts) []
             (vs_rows ts) (vs_columns ts) d1 = Inr (n1, d2)"
    and r: "clone_sections f (k + 2) sgen (Suc m) gen n1 now pid tss d2 = Inr d'"
    using Cons.prems by (auto simp: commit_iffs)
  have d1: "db_seats d1 = db_seats d \<and> db_reservations d1 = db_reservations d \<and> db_items d1 = db_items d"
    using c by (auto simp: createSection_def commit_iffs Let_def)
  have "seats_added gen n n1 d d2"
    using bulkInsertSeats_Inr [OF b] d1 unfolding seats_added_def by auto
  then show ?case using Cons.IH [OF r] seats_added_trans by blast
qed

lemma ProvisionFromVenue_added:
  assumes "snd (ProvisionFromVenue f sgen gen now pid vid d) = d'"
  shows "\<exists>n'. seats_added gen 0 n' d d'"
proof (cases "d' = d")
  case True
  then show ?thesis by (intro exI [of _ 0]) (simp add: seats_added_def)
next
  case False
  have "clone_sections f 3 sgen 0 gen 0 now pid (venue_templates vid d) d = Inr d'"
    using run_tx_snd [OF assms [unfolded ProvisionFromVenue_def Let_def] False]
    by (auto simp only: commit_iffs not_not tx_out.inject)
  then show ?thesis using clone_sections_added by blast
qed

lemma BulkInsertSeats_added:
  assumes "snd (BulkInsertSeats f gen now sid pid ty tier rc cc d) = d'"
  shows "\<exists>n'. seats_added gen 0 n' d d'"
proof (cases "d' = d")
  case True
  then show ?thesis by (intro exI [of _ 0]) (simp add: seats_added_def)
next
  case False
  then obtain n' where "bulkInsertSeats f 0 gen 0 now sid pid ty tier rc cc d = Inr (n', d')"
    using assms run_stmt_state [of ErrDb f "()"] unfolding BulkInsertSeats_def
    by (fastforce split: sum.splits prod.splits)
  then show ?thesis using bulkInsertSeats_Inr unfolding seats_added_def by fastforce
qed

lemma ledger_ok_added:
  assumes "ledger_ok d" "seats_added gen n n' d d'" "fresh_ids gen (s_id ` set (db_seats d))"
  shows "ledger_ok d'"
proof -
  obtain ss where ss: "db_seats d' = db_seats d @ ss" "map s_id ss = map gen [n..<n']"
      "\<forall>s \<in> set ss. \<not> taken s"
    using assms(2) unfolding seats_added_def by blast
  have "distinct (map s_id ss)"
    unfolding ss(2) using assms(3) by (simp add: fresh_ids_def distinct_map inj_on_def)
  moreover have "s_id ` set ss \<inter> s_id ` set (db_seats d) = {}"
  proof -
    have "s_id ` set ss = gen ` {n..<n'}" using arg_cong [OF ss(2), of set] by simp
    then show ?thesis using assms(3) by (auto simp: fresh_ids_def)
  qed
  ultimately have "ledger_ok (d\<lparr>db_seats := db_seats d @ ss\<rparr>)"
    using ledger_ok_seat_insert [OF assms(1)] ss(3) by blast
  moreover have "ledger_ok d' = ledger_ok (d\<lparr>db_seats := db_seats d @ ss\<rparr>)"
    by (rule ledger_ok_cong) (use ss(1) assms(2) in \<open>simp_all add: seats_added_def\<close>)
  ultimately show ?thesis by simp
qed


section \<open>The step relation\<close>

text \<open>
  \<open>venue_step caps snap d d'\<close>: one repository operation takes the tables \<open>d\<close> to \<open>d'\<close>, whatever its
  arguments and faults; an operation that reads before its transaction read \<open>snap\<close>. \<open>caps p u m\<close>
  says that callers may reserve for buyer \<open>u\<close> on plan \<open>p\<close> with the limit \<open>m\<close>. The last rule is any
  operation of the other repositories, which do not write these tables.
\<close>

inductive venue_step :: "(string \<Rightarrow> string \<Rightarrow> int \<Rightarrow> bool) \<Rightarrow> venue_db \<Rightarrow> venue_db \<Rightarrow> venue_db \<Rightarrow> bool"
  for caps snap d where
  hold: "venue_step caps snap d (snd (HoldSeats f now p ids u e m d))"
| release_hold: "venue_step caps snap d (snd (ReleaseHold f now ids u d))"
| sweep_holds: "venue_step caps snap d (snd (SweepExpiredHolds f got now d))"
| reserve: "r_status res = ReservationStatusReserved \<Longrightarrow> caps (r_plan res) (r_user res) m \<Longrightarrow>
    venue_step caps snap d (snd (AtomicReserveAndCreate f now ids res bp m d))"
| release: "venue_step caps snap d (snd (ReleaseReservation f now rid snap d))"
| finalize: "venue_step caps snap d (snd (FinalizeReservation f now rid oid snap d))"
| sweep_reservations: "venue_step caps snap d (snd (SweepExpiredReservations f got locked now d))"
| create_section: "venue_step caps snap d (snd (CreateSection f sid now sec d))"
| bulk_insert: "fresh_ids gen (s_id ` set (db_seats d)) \<Longrightarrow>
    venue_step caps snap d (snd (BulkInsertSeats f gen now sid p ty tier rc cc d))"
| provision: "fresh_ids gen (s_id ` set (db_seats d)) \<Longrightarrow>
    venue_step caps snap d (snd (ProvisionFromVenue f sgen gen now p v d))"
| upsert_seat: "newid \<notin> s_id ` set (db_seats d) \<Longrightarrow>
    venue_step caps snap d (snd (UpsertSeat f newid now s d))"
| elsewhere: "db_seats d' = db_seats d \<Longrightarrow> db_reservations d' = db_reservations d \<Longrightarrow>
    db_items d' = db_items d \<Longrightarrow> venue_step caps snap d d'"

text \<open>The history of a run, the present state first. Any past state may be the one that was read.\<close>

definition venue_start :: "venue_db \<Rightarrow> bool" where
  "venue_start d \<longleftrightarrow> distinct (map s_id (db_seats d)) \<and> (\<forall>s \<in> set (db_seats d). \<not> taken s) \<and>
     db_reservations d = [] \<and> db_items d = []"

inductive venue_run :: "(string \<Rightarrow> string \<Rightarrow> int \<Rightarrow> bool) \<Rightarrow> venue_db list \<Rightarrow> bool" for caps where
  start: "venue_start d \<Longrightarrow> venue_run caps [d]"
| step: "venue_run caps (d # h) \<Longrightarrow> snap \<in> set (d # h) \<Longrightarrow> venue_step caps snap d d' \<Longrightarrow>
    venue_run caps (d' # d # h)"

text \<open>
  What never changes as the ledger grows: a reservation stays, its plan, buyer and items stay,
  and a row that left the reserved status is final.
\<close>

definition ledger_ext :: "venue_db \<Rightarrow> venue_db \<Rightarrow> bool" where
  "ledger_ext s d \<longleftrightarrow> (\<forall>rid r. reservation_of s rid = Some r \<longrightarrow>
     items_of d rid = items_of s rid \<and>
     (\<exists>r'. reservation_of d rid = Some r' \<and> r_plan r' = r_plan r \<and> r_user r' = r_user r \<and>
       (r_status r \<noteq> ReservationStatusReserved \<longrightarrow> r' = r)))"

lemma ledger_ext_refl: "ledger_ext d d"
  by (simp add: ledger_ext_def)

lemma ledger_ext_trans: "ledger_ext a b \<Longrightarrow> ledger_ext b c \<Longrightarrow> ledger_ext a c"
  unfolding ledger_ext_def by metis

lemma ledger_ext_cong:
  "db_reservations d' = db_reservations d \<Longrightarrow> db_items d' = db_items d \<Longrightarrow> ledger_ext d d'"
  by (simp add: ledger_ext_def items_of_def)

lemma ledger_ext_update:
  assumes "keyed_update r_id g" "\<And>r. r_plan (g r) = r_plan r" "\<And>r. r_user (g r) = r_user r"
    "\<And>r. p r \<Longrightarrow> r_status r = ReservationStatusReserved"
    "db_reservations d' = sql_update p g (db_reservations d)" "db_items d' = db_items d"
  shows "ledger_ext d d'"
  using keyed_update.find_after [OF assms(1)] assms(2-) unfolding ledger_ext_def items_of_def by auto

lemma ledger_ext_append:
  assumes "keys_ok d" "reservation_of d rid = None" "r_id res = rid" "\<forall>i \<in> set is. i_reservation i = rid"
    "db_reservations d' = db_reservations d @ [res]" "db_items d' = db_items d @ is"
  shows "ledger_ext d d'"
  using assms unfolding ledger_ext_def items_of_def by (auto simp: filter_empty_conv)

text \<open>The seats of a reserved reservation, found by its items or by the seats' own column.\<close>

lemma reserved_seats_of:
  assumes ok: "ledger_ok d" and s: "s \<in> set (db_seats d)" "s_status s = SeatStatusReserved"
    and r: "reservation_of d rid = Some r" "r_status r = ReservationStatusReserved"
  shows "s_id s \<in> i_seat ` set (items_of d rid) \<longleftrightarrow> s_held_by s = Some rid"
proof -
  have self: "seat_of d (s_id s) = Some s"
    using ok s(1) find_row_distinct unfolding ledger_ok_def keys_ok_def by metis
  show ?thesis
  proof
    assume "s_id s \<in> i_seat ` set (items_of d rid)"
    then obtain i where "i \<in> set (db_items d)" "i_reservation i = rid" "i_seat i = s_id s"
      by (auto simp: set_items_of)
    then show "s_held_by s = Some rid"
      using ok items_backedD [of d i r SeatStatusReserved] r self unfolding ledger_ok_def by auto
  next
    assume "s_held_by s = Some rid"
    then obtain i where "i \<in> set (db_items d)" "i_seat i = s_id s" "i_reservation i = rid"
      using taken_held_by [OF ok self] s(2) by (auto simp: taken_def)
    then show "s_id s \<in> i_seat ` set (items_of d rid)" by (metis image_eqI set_items_of)
  qed
qed

lemma owned_by_expired_iff:
  assumes ok: "ledger_ok d" and s: "s \<in> set (db_seats d)"
  shows "owned_by_expired ids d s \<longleftrightarrow>
    s_status s = SeatStatusReserved \<and> (\<exists>rid \<in> set ids. s_held_by s = Some rid)"
proof -
  have self: "seat_of d (s_id s) = Some s"
    using ok s find_row_distinct unfolding ledger_ok_def keys_ok_def by metis
  show ?thesis
    using taken_held_by [OF ok self] unfolding owned_by_expired_def taken_def by fastforce
qed


section \<open>Every step keeps the ledger\<close>

lemma claimable_row:
  assumes "keys_ok d" "rows_affected (claimable rid) (db_reservations d) \<noteq> 0"
  shows "\<exists>r. reservation_of d rid = Some r \<and> r_status r = ReservationStatusReserved"
proof -
  obtain r where "r \<in> set (db_reservations d)" "r_id r = rid" "r_status r = ReservationStatusReserved"
    using assms(2) rows_affected_zero [of "claimable rid"] by (auto simp: claimable_def)
  then show ?thesis using assms(1) find_row_distinct unfolding keys_ok_def by metis
qed

text \<open>Release and finalize, which share their transaction.\<close>

lemma claim_step:
  assumes ok: "ledger_ok d" and ext: "ledger_ext snap d"
    and K: "keyed_update r_id uR" "keyed_update s_id uS"
    and uR: "\<And>r. r_plan (uR r) = r_plan r" "\<And>r. r_user (uR r) = r_user r"
      "\<And>r. r_status (uR r) = st" "st \<noteq> ReservationStatusReserved"
    and seat: "\<And>s. claims st = None \<Longrightarrow> \<not> taken (uS s)"
      "\<And>s x. claims st = Some x \<Longrightarrow> s_status (uS s) = x \<and> s_held_by (uS s) = s_held_by s"
    and d': "d' = d\<lparr>db_reservations := sql_update (claimable rid) uR (db_reservations d),
                db_seats := sql_update (\<lambda>s. s_status s = SeatStatusReserved \<and>
                  s_id s \<in> i_seat ` set (items_of snap rid)) uS (db_seats d)\<rparr>"
    and hit: "rows_affected (claimable rid) (db_reservations d) \<noteq> 0"
      "\<exists>r. reservation_of snap rid = Some r"
  shows "ledger_ok d' \<and> ledger_ext d d'"
proof -
  have ko: "keys_ok d" using ok by (simp add: ledger_ok_def)
  obtain r where r: "reservation_of d rid = Some r" "r_status r = ReservationStatusReserved"
    using claimable_row [OF ko hit(1)] by blast
  have items: "items_of snap rid = items_of d rid"
    using ext hit(2) unfolding ledger_ext_def by metis
  have "ledger_ok d'"
    unfolding d'
  proof (rule ledger_ok_claim [OF ok K, where st = st and R = "{rid}"])
    show "\<And>s. s \<in> set (db_seats d) \<Longrightarrow>
        (s_status s = SeatStatusReserved \<and> s_id s \<in> i_seat ` set (items_of snap rid)) =
        (s_status s = SeatStatusReserved \<and> (\<exists>rid' \<in> {rid}. s_held_by s = Some rid'))"
      using reserved_seats_of [OF ok _ _ r] items by auto
  qed (use uR seat in \<open>auto simp: claimable_def\<close>)
  moreover have "ledger_ext d d'"
    by (rule ledger_ext_update [OF K(1), where p = "claimable rid"])
      (use uR in \<open>auto simp: d' claimable_def\<close>)
  ultimately show ?thesis by blast
qed

lemma release_step:
  assumes "ledger_ok d" "ledger_ext snap d" "snd (ReleaseReservation f now rid snap d) = d'" "d' \<noteq> d"
  shows "ledger_ok d' \<and> ledger_ext d d'"
  by (rule claim_step [OF assms(1,2) mark.keyed_update_axioms free.keyed_update_axioms,
        where st = ReservationStatusReleased])
    (use ReleaseReservation_effect [OF assms(3,4)] in \<open>auto simp: taken_def\<close>)

lemma finalize_step:
  assumes "ledger_ok d" "ledger_ext snap d" "snd (FinalizeReservation f now rid oid snap d) = d'" "d' \<noteq> d"
  shows "ledger_ok d' \<and> ledger_ext d d'"
  by (rule claim_step [OF assms(1,2) marksold.keyed_update_axioms sell.keyed_update_axioms,
        where st = ReservationStatusSold])
    (use FinalizeReservation_effect [OF assms(3,4)] in \<open>auto simp: taken_def\<close>)

lemma sweep_step:
  assumes ok: "ledger_ok d" and d': "snd (SweepExpiredReservations f got locked now d) = d'" "d' \<noteq> d"
  shows "ledger_ok d' \<and> ledger_ext d d'"
proof -
  let ?ids = "sweep_batch locked now d"
  have eq: "d' = d\<lparr>db_reservations := sql_update
                  (\<lambda>r. r_status r = ReservationStatusReserved \<and> r_id r \<in> set ?ids)
                  (set_status ReservationStatusExpired now) (db_reservations d),
                db_seats := sql_update (owned_by_expired ?ids d) (free_seat now) (db_seats d)\<rparr>"
    using SweepExpiredReservations_effect [OF d'] by (simp add: Let_def)
  have "ledger_ok d'"
    unfolding eq
    by (rule ledger_ok_claim [OF ok mark.keyed_update_axioms free.keyed_update_axioms,
          where st = ReservationStatusExpired and R = "set ?ids"])
      (use owned_by_expired_iff [OF ok] in \<open>auto simp: taken_def\<close>)
  moreover have "ledger_ext d d'"
    by (rule ledger_ext_update [OF mark.keyed_update_axioms]) (auto simp: eq)
  ultimately show ?thesis by blast
qed

lemma reserve_step:
  assumes ok: "ledger_ok d" and st: "r_status res = ReservationStatusReserved"
    and d': "snd (AtomicReserveAndCreate f now ids res bp m d) = d'" "d' \<noteq> d"
  shows "ledger_ok d' \<and> ledger_ext d d'"
proof -
  obtain "is" where eq: "d' = d\<lparr>db_seats := sql_update (\<lambda>s. s_id s \<in> set ids) (reserve_seat (r_id res) now) (db_seats d),
              db_reservations := db_reservations d @ [res\<lparr>r_order := None, r_created := now, r_updated := now\<rparr>],
              db_items := db_items d @ is\<rparr>"
      and new: "reservation_of d (r_id res) = None" "distinct ids" "map i_seat is = ids"
        "\<forall>i \<in> set is. i_reservation i = r_id res"
      and seats: "\<forall>id \<in> set ids. \<exists>s \<in> set (db_seats d). s_id s = id \<and> s_plan s = r_plan res \<and>
        reservable now (r_user res) s \<and> new_item d bp (r_id res) s \<in> set is"
    using AtomicReserveAndCreate_effect [OF d'] by blast
  have ko: "keys_ok d" using ok by (simp add: ledger_ok_def)
  have free: "\<exists>s. seat_of d id = Some s \<and> \<not> taken s" if "id \<in> set ids" for id
  proof -
    obtain s where "s \<in> set (db_seats d)" "s_id s = id" "reservable now (r_user res) s"
      using seats \<open>id \<in> set ids\<close> by blast
    moreover then have "seat_of d id = Some s"
      using ko find_row_distinct unfolding keys_ok_def by metis
    ultimately show ?thesis by (auto simp: reservable_def taken_def)
  qed
  have "ledger_ok d'"
    unfolding eq by (rule ledger_ok_reserve [OF ok new(1)]) (use new st free in auto)
  moreover have "ledger_ext d d'"
    by (rule ledger_ext_append [OF ko new(1)]) (use eq new in auto)
  ultimately show ?thesis by blast
qed

text \<open>The operations on holds, and the ones that only add rows.\<close>

lemma seat_update_step:
  assumes "ledger_ok d" "keyed_update s_id g" "\<And>s. \<not> taken (g s)"
    "\<And>s. p s \<Longrightarrow> s \<in> set (db_seats d) \<Longrightarrow> \<not> taken s"
  shows "ledger_ok (d\<lparr>db_seats := sql_update p g (db_seats d)\<rparr>) \<and>
         ledger_ext d (d\<lparr>db_seats := sql_update p g (db_seats d)\<rparr>)"
  using ledger_ok_seat_update [OF assms(1,2,4,3)] ledger_ext_cong by simp

lemma hold_step:
  assumes ok: "ledger_ok d" and d': "snd (HoldSeats f now p ids u e m d) = d'" "d' \<noteq> d"
  shows "ledger_ok d' \<and> ledger_ext d d'"
proof -
  note effect = HoldSeats_effect [OF d']
  have s: "\<forall>id \<in> set ids. \<exists>s \<in> set (db_seats d). s_id s = id \<and> s_plan s = p \<and>
        (s_status s = SeatStatusAvailable \<or> hold_lapsed now s)"
    using conjunct2 [OF effect] by (rule conjunct1)
  have "\<not> taken s" if in_ids: "s_id s \<in> set ids" and in_tab: "s \<in> set (db_seats d)" for s
  proof -
    obtain s' where s': "s' \<in> set (db_seats d)" "s_id s' = s_id s"
        "s_status s' = SeatStatusAvailable \<or> hold_lapsed now s'"
      using bspec [OF s in_ids] by blast
    have "distinct (map s_id (db_seats d))" using ok by (simp add: ledger_ok_def keys_ok_def)
    then have "s' = s" by (rule distinct_key_eq [OF _ s'(1) in_tab s'(2)])
    then have "s_status s = SeatStatusAvailable \<or> hold_lapsed now s" using s'(3) by simp
    then show ?thesis by (auto simp: taken_def hold_lapsed_def)
  qed
  then show ?thesis unfolding conjunct1 [OF effect]
    by (intro seat_update_step [OF ok hold.keyed_update_axioms]) (auto simp: taken_def)
qed

lemma venue_step_ok:
  assumes "venue_step caps snap d d'" "ledger_ok d" "ledger_ext snap d"
  shows "ledger_ok d' \<and> ledger_ext d d'"
proof (cases "d' = d")
  case True
  then show ?thesis using assms(2) ledger_ext_refl by simp
next
  case False
  show ?thesis
    using assms(1)
  proof cases
    case hold
    then show ?thesis using hold_step [OF assms(2) sym False] by simp
  next
    case reserve
    then show ?thesis using reserve_step [OF assms(2) _ sym False] by simp
  next
    case release
    then show ?thesis using release_step [OF assms(2,3) sym False] by simp
  next
    case finalize
    then show ?thesis using finalize_step [OF assms(2,3) sym False] by simp
  next
    case sweep_reservations
    then show ?thesis using sweep_step [OF assms(2) sym False] by simp
  next
    case (release_hold f now ids u)
    then have eq: "d' = d\<lparr>db_seats := sql_update
          (\<lambda>s. s_id s \<in> set ids \<and> s_held_by s = Some u \<and> s_status s = SeatStatusHeld)
          (free_seat now) (db_seats d)\<rparr>"
      using False by (simp add: ReleaseHold_def run_stmt_def split: if_splits)
    show ?thesis unfolding eq
      by (intro seat_update_step [OF assms(2) free.keyed_update_axioms]) (auto simp: taken_def)
  next
    case (sweep_holds f got now)
    then have eq: "d' = d\<lparr>db_seats := sql_update (hold_lapsed now) (free_seat now) (db_seats d)\<rparr>"
      using run_tx_snd [OF sym [OF sweep_holds [unfolded SweepExpiredHolds_def]] False]
      by (auto simp: commit_iffs)
    show ?thesis unfolding eq
      by (intro seat_update_step [OF assms(2) free.keyed_update_axioms]) (auto simp: taken_def hold_lapsed_def)
  next
    case (create_section f sid now sec)
    then have "db_seats d' = db_seats d \<and> db_reservations d' = db_reservations d \<and> db_items d' = db_items d"
      by (auto simp: CreateSection_def createSection_def run_stmt_def stmt_def Let_def split: sum.splits if_splits)
    then show ?thesis using ledger_ok_cong ledger_ext_cong assms(2) by blast
  next
    case (bulk_insert gen f now sid p ty tier rc cc)
    then obtain n where "seats_added gen 0 n d d'" using BulkInsertSeats_added by blast
    then show ?thesis
      using ledger_ok_added [OF assms(2)] bulk_insert ledger_ext_cong unfolding seats_added_def by blast
  next
    case (provision gen f sgen now p v)
    then obtain n where "seats_added gen 0 n d d'" using ProvisionFromVenue_added by blast
    then show ?thesis
      using ledger_ok_added [OF assms(2)] provision ledger_ext_cong unfolding seats_added_def by blast
  next
    case (upsert_seat newid f now s)
    then obtain row where row: "d' = d\<lparr>db_seats := db_seats d @ [row]\<rparr>" "s_id row = newid" "\<not> taken row"
      using False by (auto simp: UpsertSeat_def Let_def run_stmt_def new_seat_def taken_def split: if_splits)
    then have "ledger_ok d'" using ledger_ok_seat_insert [OF assms(2), of "[row]"] upsert_seat by auto
    then show ?thesis using row ledger_ext_cong by simp
  next
    case elsewhere
    then show ?thesis using ledger_ok_cong ledger_ext_cong assms(2) by blast
  qed
qed

lemma venue_start_ok: "venue_start d \<Longrightarrow> ledger_ok d"
  unfolding venue_start_def ledger_ok_def keys_ok_def items_backed_def seats_backed_def
  by (auto dest: find_row_Some_iff_set)

lemma venue_run_inv: "venue_run caps h \<Longrightarrow> ledger_ok (hd h) \<and> (\<forall>s \<in> set h. ledger_ext s (hd h))"
proof (induction rule: venue_run.induct)
  case (start d)
  then show ?case by (simp add: venue_start_ok ledger_ext_refl)
next
  case (step d h snap d')
  have IH: "ledger_ok d" "\<And>s. s \<in> set (d # h) \<Longrightarrow> ledger_ext s d" using step.IH by auto
  then have n: "ledger_ok d'" "ledger_ext d d'"
    using venue_step_ok [OF step(3)] step(2) by blast+
  have "ledger_ext s d'" if "s \<in> set (d' # d # h)" for s
    using that IH(2) n(2) ledger_ext_refl ledger_ext_trans by (metis set_ConsD)
  then show ?case using n(1) by simp
qed

end
