(* ===== verification/Ledger_Contract.thy ===== *)
theory Ledger_Contract
  imports Main
begin

text \<open>
  The contract of a reservation ledger, which venue-service keeps for seats and ticket-service
  for quotas: a reservation is reserved, and the first release, expiry or finalize that reaches
  it decides its fate. Both repositories interpret it; what a sequence of requests does to a
  reservation is proved here once.
\<close>

datatype ledger_phase = PhaseReserved | PhaseReleased | PhaseSold

text \<open>How a request ends for its caller: accepted (now or already), refused, or unknown reservation.\<close>

datatype ledger_answer = Accepted | Refused | Unknown

datatype ledger_request = Release string | Finalize string

fun request_target :: "ledger_request \<Rightarrow> string" where
  "request_target (Release rid) = rid"
| "request_target (Finalize rid) = rid"

fun request_phase :: "ledger_request \<Rightarrow> ledger_phase" where
  "request_phase (Release rid) = PhaseReleased"
| "request_phase (Finalize rid) = PhaseSold"

text \<open>A sequence of requests, with the answers in order.\<close>

fun submits :: "(ledger_request \<Rightarrow> 'd \<Rightarrow> ledger_answer \<times> 'd) \<Rightarrow> ledger_request list \<Rightarrow> 'd
    \<Rightarrow> ledger_answer list \<times> 'd" where
  "submits submit [] d = ([], d)"
| "submits submit (q # qs) d =
     (let (a, d1) = submit q d; (as, d2) = submits submit qs d1 in (a # as, d2))"

text \<open>
  \<open>good n d\<close>: the ledger is well-formed and has room for \<open>n\<close> more requests; a ledger whose counters
  are of bounded width has room for boundedly many.
\<close>

locale reservation_ledger =
  fixes good :: "nat \<Rightarrow> 'd \<Rightarrow> bool"
    and phase :: "'d \<Rightarrow> string \<Rightarrow> ledger_phase option"
    and submit :: "ledger_request \<Rightarrow> 'd \<Rightarrow> ledger_answer \<times> 'd"
  assumes good_submit: "good (Suc n) d \<Longrightarrow> good n (snd (submit q d))"
    and submit_unknown: "good (Suc n) d \<Longrightarrow> phase d (request_target q) = None \<Longrightarrow> submit q d = (Unknown, d)"
    and submit_reserved: "good (Suc n) d \<Longrightarrow> phase d (request_target q) = Some PhaseReserved \<Longrightarrow>
          fst (submit q d) = Accepted \<and>
          phase (snd (submit q d)) (request_target q) = Some (request_phase q)"
    and submit_final: "good (Suc n) d \<Longrightarrow> phase d (request_target q) = Some p \<Longrightarrow> p \<noteq> PhaseReserved \<Longrightarrow>
          submit q d = (if p = request_phase q then Accepted else Refused, d)"
    and submit_frame: "good (Suc n) d \<Longrightarrow> rid \<noteq> request_target q \<Longrightarrow> phase (snd (submit q d)) rid = phase d rid"
begin

text \<open>A retry of an accepted request is accepted again and changes nothing.\<close>

lemma submit_retry:
  assumes "good (Suc (Suc n)) d" "fst (submit q d) = Accepted"
  shows "submit q (snd (submit q d)) = (Accepted, snd (submit q d))"
proof (cases "phase d (request_target q)")
  case None
  then show ?thesis using assms submit_unknown by force
next
  case (Some p)
  show ?thesis
  proof (cases "p = PhaseReserved")
    case True
    then have "phase (snd (submit q d)) (request_target q) = Some (request_phase q)"
      using submit_reserved assms Some by blast
    then show ?thesis using submit_final [OF good_submit [OF assms(1)]] by (cases q) auto
  next
    case False
    then show ?thesis using submit_final [OF assms(1) Some] assms(2) by (auto split: if_splits)
  qed
qed

text \<open>A phase that is not reserved never changes again.\<close>

lemma final_stays:
  "good (length qs) d \<Longrightarrow> phase d rid = Some p \<Longrightarrow> p \<noteq> PhaseReserved \<Longrightarrow>
   phase (snd (submits submit qs d)) rid = Some p"
proof (induction qs arbitrary: d)
  case (Cons q qs)
  then have good: "good (Suc (length qs)) d" by simp
  have "phase (snd (submit q d)) rid = Some p"
    using submit_final [OF good, of q p] submit_frame [OF good, of rid q] Cons.prems
    by (cases "rid = request_target q") auto
  then show ?case
    using Cons.IH [OF good_submit [OF good]] Cons.prems(3) by (simp add: Let_def split_def)
qed simp

text \<open>The first request for a reserved reservation decides; without one it stays reserved.\<close>

theorem first_decides:
  "good (length qs) d \<Longrightarrow> phase d rid = Some PhaseReserved \<Longrightarrow>
   phase (snd (submits submit qs d)) rid =
     (case filter (\<lambda>q. request_target q = rid) qs of
        [] \<Rightarrow> Some PhaseReserved
      | q # _ \<Rightarrow> Some (request_phase q))"
proof (induction qs arbitrary: d)
  case (Cons q qs)
  then have good: "good (Suc (length qs)) d" by simp
  show ?case
  proof (cases "request_target q = rid")
    case True
    then have "phase (snd (submit q d)) rid = Some (request_phase q)"
      using submit_reserved [OF good] Cons.prems by blast
    then show ?thesis
      using final_stays [OF good_submit [OF good, of q], of rid "request_phase q"] True
      by (cases q) (auto simp: Let_def split_def)
  next
    case False
    then have "phase (snd (submit q d)) rid = Some PhaseReserved"
      using submit_frame [OF good] Cons.prems(2) by auto
    then show ?thesis
      using Cons.IH [OF good_submit [OF good]] False by (simp add: Let_def split_def)
  qed
qed simp

end

end
