(* ===== verification/Venue_Props.thy ===== *)
theory Venue_Props
  imports Venue_Run Ledger_Contract
begin

text \<open>
  The properties of the seat inventory of venue-service: the ledger contract on its repository,
  no double booking, the agreement of seats and ledger, final states, the buyer cap, and what
  each operation promises on its own.
\<close>

section \<open>The ledger contract\<close>

fun venue_phase :: "reservation_status \<Rightarrow> ledger_phase" where
  "venue_phase ReservationStatusReserved = PhaseReserved"
| "venue_phase ReservationStatusReleased = PhaseReleased"
| "venue_phase ReservationStatusExpired = PhaseReleased"
| "venue_phase ReservationStatusSold = PhaseSold"

fun venue_answer :: "(venue_error + unit) \<Rightarrow> ledger_answer" where
  "venue_answer (Inr ()) = Accepted"
| "venue_answer (Inl ErrReservationAlreadyDone) = Accepted"
| "venue_answer (Inl ErrReservationNotFound) = Unknown"
| "venue_answer (Inl e) = Refused"

definition venue_ledger_phase :: "venue_db \<Rightarrow> string \<Rightarrow> ledger_phase option" where
  "venue_ledger_phase d rid = map_option (\<lambda>r. venue_phase (r_status r)) (reservation_of d rid)"

text \<open>A request served without faults and without a race: it reads the state it acts on.\<close>

fun venue_submit :: "int \<Rightarrow> string \<Rightarrow> ledger_request \<Rightarrow> venue_db \<Rightarrow> ledger_answer \<times> venue_db" where
  "venue_submit now oid (Release rid) d =
     (let (a, d') = ReleaseReservation no_faults now rid d d in (venue_answer a, d'))"
| "venue_submit now oid (Finalize rid) d =
     (let (a, d') = FinalizeReservation no_faults now rid oid d d in (venue_answer a, d'))"

lemma Release_no_race:
  assumes "keys_ok d"
  shows "ReleaseReservation no_faults now rid d d =
    (case reservation_of d rid of
       None \<Rightarrow> (Inl ErrReservationNotFound, d)
     | Some r \<Rightarrow> (case r_status r of
         ReservationStatusReserved \<Rightarrow>
           (Inr (), d\<lparr>db_reservations := sql_update (claimable rid) (set_status ReservationStatusReleased now) (db_reservations d),
                     db_seats := sql_update (\<lambda>s. s_id s \<in> i_seat ` set (items_of d rid) \<and> s_status s = SeatStatusReserved)
                        (free_seat now) (db_seats d)\<rparr>)
       | ReservationStatusSold \<Rightarrow> (Inl ErrReservationConflict, d)
       | _ \<Rightarrow> (Inl ErrReservationAlreadyDone, d)))"
proof (cases "reservation_of d rid")
  case (Some r)
  have "rows_affected (claimable rid) (db_reservations d) \<noteq> 0" if "r_status r = ReservationStatusReserved"
    using find_row_Some_iff_set [OF Some] that by (auto simp: rows_affected_zero claimable_def)
  then show ?thesis using Some
    by (cases "r_status r")
      (auto simp: ReleaseReservation_def FindReservationByID_def run_tx_def claim_tx_def Let_def sql_update_none)
qed (simp add: ReleaseReservation_def FindReservationByID_def)

lemma Finalize_no_race:
  assumes "keys_ok d"
  shows "FinalizeReservation no_faults now rid oid d d =
    (case reservation_of d rid of
       None \<Rightarrow> (Inl ErrReservationNotFound, d)
     | Some r \<Rightarrow> (case r_status r of
         ReservationStatusReserved \<Rightarrow>
           (Inr (), d\<lparr>db_reservations := sql_update (claimable rid) (mark_sold oid now) (db_reservations d),
                     db_seats := sql_update (\<lambda>s. s_id s \<in> i_seat ` set (items_of d rid) \<and> s_status s = SeatStatusReserved)
                        (sell_seat now) (db_seats d)\<rparr>)
       | ReservationStatusSold \<Rightarrow> (Inl ErrReservationAlreadyDone, d)
       | _ \<Rightarrow> (Inl ErrReservationConflict, d)))"
proof (cases "reservation_of d rid")
  case (Some r)
  have "rows_affected (claimable rid) (db_reservations d) \<noteq> 0" if "r_status r = ReservationStatusReserved"
    using find_row_Some_iff_set [OF Some] that by (auto simp: rows_affected_zero claimable_def)
  then show ?thesis using Some
    by (cases "r_status r")
      (auto simp: FinalizeReservation_def FindReservationByID_def run_tx_def claim_tx_def Let_def sql_update_none)
qed (simp add: FinalizeReservation_def FindReservationByID_def)

lemma claimable_find:
  assumes "keyed_update r_id g"
  shows "find_row r_id k (sql_update (claimable rid) g t) =
    (if k = rid then map_option (\<lambda>r. if r_status r = ReservationStatusReserved then g r else r) (find_row r_id k t)
     else find_row r_id k t)"
  using keyed_update.find_after [OF assms, of k "claimable rid" t] find_row_Some_iff_set [of r_id k t]
  by (cases "find_row r_id k t") (auto simp: claimable_def)

lemma venue_submit_good: "ledger_ok d \<Longrightarrow> ledger_ok (snd (venue_submit now oid q d))"
  using release_step [OF _ ledger_ext_refl refl, of d no_faults now]
    finalize_step [OF _ ledger_ext_refl refl, of d no_faults now]
  by (cases q; simp add: split_def Let_def) metis+

interpretation venue_ledger: reservation_ledger "\<lambda>n. ledger_ok" venue_ledger_phase "venue_submit now oid" for now oid
proof
  fix d q
  assume ok: "ledger_ok d"
  then have k: "keys_ok d" by (simp add: ledger_ok_def)
  note nr = Release_no_race [OF k] Finalize_no_race [OF k]
  note cf = claimable_find [OF mark.keyed_update_axioms] claimable_find [OF marksold.keyed_update_axioms]
  show "ledger_ok (snd (venue_submit now oid q d))" using ok by (rule venue_submit_good)
  show "venue_submit now oid q d = (Unknown, d)" if "venue_ledger_phase d (request_target q) = None"
    using that by (cases q) (auto simp: nr venue_ledger_phase_def)
  show "fst (venue_submit now oid q d) = Accepted \<and>
      venue_ledger_phase (snd (venue_submit now oid q d)) (request_target q) = Some (request_phase q)"
    if "venue_ledger_phase d (request_target q) = Some PhaseReserved"
    using that by (cases q) (auto simp: nr venue_ledger_phase_def cf split: reservation_status.splits)
  show "venue_submit now oid q d = (if p = request_phase q then Accepted else Refused, d)"
    if "venue_ledger_phase d (request_target q) = Some p" "p \<noteq> PhaseReserved" for p
    using that by (cases q) (auto simp: nr venue_ledger_phase_def split: reservation_status.splits)
  show "venue_ledger_phase (snd (venue_submit now oid q d)) rid = venue_ledger_phase d rid"
    if "rid \<noteq> request_target q" for rid
    using that by (cases q) (auto simp: nr venue_ledger_phase_def cf split: option.splits reservation_status.splits)
qed


section \<open>What a step does to the items\<close>

text \<open>Only a committed reserve adds items to the ledger.\<close>

lemma HoldSeats_items: "db_items (snd (HoldSeats f now p ids u e m d)) = db_items d"
proof (cases "snd (HoldSeats f now p ids u e m d) = d")
  case False
  show ?thesis by (subst conjunct1 [OF HoldSeats_effect [OF refl False]]) simp
qed simp

lemma ReleaseReservation_items: "db_items (snd (ReleaseReservation f now rid snap d)) = db_items d"
proof (cases "snd (ReleaseReservation f now rid snap d) = d")
  case False
  show ?thesis by (subst conjunct1 [OF ReleaseReservation_effect [OF refl False]]) simp
qed simp

lemma FinalizeReservation_items: "db_items (snd (FinalizeReservation f now rid oid snap d)) = db_items d"
proof (cases "snd (FinalizeReservation f now rid oid snap d) = d")
  case False
  show ?thesis by (subst conjunct1 [OF FinalizeReservation_effect [OF refl False]]) simp
qed simp

lemma SweepExpiredReservations_items: "db_items (snd (SweepExpiredReservations f got locked now d)) = db_items d"
proof (cases "snd (SweepExpiredReservations f got locked now d) = d")
  case False
  show ?thesis by (subst SweepExpiredReservations_effect [OF refl False, unfolded Let_def]) simp
qed simp

lemma SweepExpiredHolds_items: "db_items (snd (SweepExpiredHolds f got now d)) = db_items d"
  by (auto simp: SweepExpiredHolds_def run_tx_def stmt_def)

lemma ReleaseHold_items: "db_items (snd (ReleaseHold f now ids u d)) = db_items d"
  by (simp add: ReleaseHold_def run_stmt_def)

lemma CreateSection_items: "db_items (snd (CreateSection f sid now sec d)) = db_items d"
  by (auto simp: CreateSection_def createSection_def run_stmt_def stmt_def Let_def split: sum.splits if_splits)

lemma UpsertSeat_items: "db_items (snd (UpsertSeat f newid now s d)) = db_items d"
  by (simp add: UpsertSeat_def run_stmt_def Let_def)

lemma BulkInsertSeats_items: "db_items (snd (BulkInsertSeats f gen now sid pid ty tier rc cc d)) = db_items d"
  using BulkInsertSeats_added [OF refl] unfolding seats_added_def by blast

lemma ProvisionFromVenue_items: "db_items (snd (ProvisionFromVenue f sgen gen now pid vid d)) = db_items d"
  using ProvisionFromVenue_added [OF refl] unfolding seats_added_def by blast

lemmas items_frame = HoldSeats_items ReleaseReservation_items FinalizeReservation_items
  SweepExpiredReservations_items SweepExpiredHolds_items ReleaseHold_items CreateSection_items
  UpsertSeat_items BulkInsertSeats_items ProvisionFromVenue_items

lemma venue_step_items:
  assumes "venue_step caps snap d d'"
  shows "db_items d' = db_items d \<or>
    (\<exists>f now ids res bp m. r_status res = ReservationStatusReserved \<and> caps (r_plan res) (r_user res) m \<and>
       d' = snd (AtomicReserveAndCreate f now ids res bp m d) \<and> d' \<noteq> d)"
proof (cases "d' = d")
  case False
  with assms show ?thesis by cases ((simp add: items_frame; fail) | blast)+
qed simp

definition active :: "seat_reservation \<Rightarrow> bool" where
  "active r \<longleftrightarrow> r_status r = ReservationStatusReserved \<or> r_status r = ReservationStatusSold"

lemma set_taken_items:
  assumes "keys_ok d"
  shows "sid \<in> set (taken_items p u d) \<longleftrightarrow>
    (\<exists>i \<in> set (db_items d). i_seat i = sid \<and>
       (\<exists>r. reservation_of d (i_reservation i) = Some r \<and> r_plan r = p \<and> r_user r = u \<and> active r))"
proof -
  have row: "r \<in> set (db_reservations d) \<and> r_id r = k \<longleftrightarrow> reservation_of d k = Some r" for r k
    using assms find_row_distinct [of r_id "db_reservations d" r] find_row_Some_iff_set
    unfolding keys_ok_def by metis
  have "sid \<in> set (taken_items p u d) \<longleftrightarrow>
      (\<exists>r \<in> set (db_reservations d). \<exists>i \<in> set (db_items d). r_plan r = p \<and> r_user r = u \<and> active r \<and>
         i_reservation i = r_id r \<and> i_seat i = sid)"
    unfolding taken_items_def active_def by (auto simp: set_items_of; blast)
  also have "\<dots> \<longleftrightarrow> (\<exists>i \<in> set (db_items d). i_seat i = sid \<and>
      (\<exists>r. (r \<in> set (db_reservations d) \<and> r_id r = i_reservation i) \<and> r_plan r = p \<and> r_user r = u \<and> active r))"
    by metis
  finally show ?thesis unfolding row .
qed

lemma taken_items_ext:
  assumes "keys_ok d" "keys_ok d'" "ledger_ext d d'" "db_items d' = db_items d"
  shows "set (taken_items p u d') \<subseteq> set (taken_items p u d)"
proof
  fix sid assume "sid \<in> set (taken_items p u d')"
  then obtain i r' where i: "i \<in> set (db_items d)" "i_seat i = sid"
      "reservation_of d' (i_reservation i) = Some r'" "r_plan r' = p" "r_user r' = u" "active r'"
    using set_taken_items [OF assms(2)] assms(4) by auto
  then obtain r where "reservation_of d (i_reservation i) = Some r"
    using assms(1) unfolding keys_ok_def by auto
  moreover then have "r_plan r = p \<and> r_user r = u \<and> active r"
    using assms(3) i unfolding ledger_ext_def active_def by fastforce
  ultimately show "sid \<in> set (taken_items p u d)"
    using i set_taken_items [OF assms(1)] by auto
qed

text \<open>The seats a reserve leaves its buyer with are among those it counted.\<close>

lemma taken_items_reserve:
  assumes ok: "keys_ok d" "keys_ok d'" and st: "r_status res = ReservationStatusReserved"
    and d': "d' = snd (AtomicReserveAndCreate f now ids res bp m d)" "d' \<noteq> d"
  shows "set (taken_items p u d') \<subseteq>
    (if p = r_plan res \<and> u = r_user res then set (buyer_seats now p u ids d) else set (taken_items p u d))"
proof -
  obtain "is" where eq: "db_items d' = db_items d @ is"
      "db_reservations d' = db_reservations d @ [res\<lparr>r_order := None, r_created := now, r_updated := now\<rparr>]"
      and new: "reservation_of d (r_id res) = None" "map i_seat is = ids"
        "\<forall>i \<in> set is. i_reservation i = r_id res"
    using AtomicReserveAndCreate_effect [OF sym [OF d'(1)] d'(2)]
    by (elim exE conjE) simp
  have find: "reservation_of d' k = (if k = r_id res then Some (res\<lparr>r_order := None, r_created := now, r_updated := now\<rparr>)
      else reservation_of d k)" for k
    using new(1) eq(2) by (auto split: option.splits)
  have old: "i_reservation i \<noteq> r_id res" if "i \<in> set (db_items d)" for i
    using ok(1) that new(1) unfolding keys_ok_def by force
  have seats: "i_seat i \<in> set ids" if "i \<in> set is" for i using that new(2) by auto
  have "sid \<in> (if p = r_plan res \<and> u = r_user res then set (buyer_seats now p u ids d) else set (taken_items p u d))"
    if sid: "sid \<in> set (taken_items p u d')" for sid
  proof -
    obtain i r where i: "i \<in> set (db_items d) \<or> i \<in> set is" "i_seat i = sid"
        "reservation_of d' (i_reservation i) = Some r" "r_plan r = p" "r_user r = u" "active r"
      using sid set_taken_items [OF ok(2)] eq(1) by auto
    show ?thesis
    proof (cases "i \<in> set is")
      case True
      then show ?thesis using i new(3) find seats by (auto simp: buyer_seats_def)
    next
      case False
      then have "sid \<in> set (taken_items p u d)"
        using i old find set_taken_items [OF ok(1)] by auto
      then show ?thesis by (auto simp: buyer_seats_def)
    qed
  qed
  then show ?thesis by blast
qed

lemma cap_step:
  assumes step: "venue_step caps snap d d'" and ok: "ledger_ok d" "ledger_ext snap d"
    and caps: "\<And>m. caps p u m \<Longrightarrow> 0 < m \<and> m \<le> int M"
    and M: "card (set (taken_items p u d)) \<le> M"
  shows "card (set (taken_items p u d')) \<le> M"
proof -
  have ok': "ledger_ok d'" "ledger_ext d d'" using venue_step_ok [OF step ok] by auto
  have k: "keys_ok d" "keys_ok d'" using ok ok' by (simp_all add: ledger_ok_def)
  from venue_step_items [OF step] show ?thesis
  proof (elim disjE exE conjE)
    assume "db_items d' = db_items d"
    from taken_items_ext [OF k ok'(2) this] show ?thesis
      using M card_mono [of "set (taken_items p u d)"] by (meson List.finite_set le_trans)
  next
    fix f now ids res bp m
    assume st: "r_status res = ReservationStatusReserved" and cm: "caps (r_plan res) (r_user res) m"
      and d': "d' = snd (AtomicReserveAndCreate f now ids res bp m d)" "d' \<noteq> d"
    note sub = taken_items_reserve [OF k st d', of p u]
    show ?thesis
    proof (cases "p = r_plan res \<and> u = r_user res")
      case True
      have "m \<le> 0 \<or> int (length (buyer_seats now p u ids d)) \<le> m"
        using AtomicReserveAndCreate_effect [OF sym [OF d'(1)] d'(2)] True by auto
      then have "length (buyer_seats now p u ids d) \<le> M" using caps [of m] cm True by auto
      moreover have "card (set (taken_items p u d')) \<le> card (set (buyer_seats now p u ids d))"
        using sub True by (intro card_mono) auto
      ultimately show ?thesis using card_length [of "buyer_seats now p u ids d"] by linarith
    next
      case False
      then have "set (taken_items p u d') \<subseteq> set (taken_items p u d)" using sub by (simp split: if_splits)
      then show ?thesis using M card_mono [of "set (taken_items p u d)"] by (meson List.finite_set le_trans)
    qed
  qed
qed

lemma cap_run:
  assumes "venue_run caps h" "\<And>m. caps p u m \<Longrightarrow> 0 < m \<and> m \<le> int M"
  shows "card (set (taken_items p u (hd h))) \<le> M"
  using assms(1)
proof (induction rule: venue_run.induct)
  case (start d)
  then show ?case by (simp add: venue_start_def taken_items_def)
next
  case (step d h snap d')
  then show ?case
    using cap_step [OF step(3) _ _ assms(2)] venue_run_inv [OF step(1)] by auto
qed


section \<open>A small venue\<close>

text \<open>Three seats of one plan; buyer U1 reserves A and B, pays, and the clock is at 10.\<close>

definition ex_seat :: "string \<Rightarrow> seat" where
  "ex_seat sid = new_seat sid 1 ''sec'' ''plan'' [] (sid, ''R1'', 1)"

definition ex_res :: "string \<Rightarrow> string \<Rightarrow> seat_reservation" where
  "ex_res rid u = \<lparr>r_id = rid, r_plan = ''plan'', r_ticket = ''t'', r_order = None, r_user = u,
     r_section = [], r_status = ReservationStatusReserved, r_expires = Some 20, r_created = 0, r_updated = 0\<rparr>"

definition ex0 :: venue_db where
  "ex0 = empty_db\<lparr>db_seats := [ex_seat ''A'', ex_seat ''B'', ex_seat ''C'']\<rparr>"

definition ex1 :: venue_db where
  "ex1 = snd (AtomicReserveAndCreate no_faults 10 [''A'', ''B''] (ex_res ''r1'' ''U1'') ''25.00'' 2 ex0)"

definition ex2 :: venue_db where
  "ex2 = snd (FinalizeReservation no_faults 12 ''r1'' ''order1'' ex1 ex1)"

definition ex_caps :: "string \<Rightarrow> string \<Rightarrow> int \<Rightarrow> bool" where
  "ex_caps p u m \<longleftrightarrow> m = 2"

lemma ex_run1: "venue_run ex_caps [ex1, ex0]"
proof -
  have "venue_start ex0" by code_simp
  then have "venue_run ex_caps [ex0]" by (rule venue_run.start)
  then show ?thesis
    unfolding ex1_def
    by (rule venue_run.step [OF _ list.set_intros(1) venue_step.reserve]) (simp_all add: ex_res_def ex_caps_def)
qed

lemma ex_run: "venue_run ex_caps [ex2, ex1, ex0]"
  using ex_run1 unfolding ex2_def by (rule venue_run.step [OF _ list.set_intros(1) venue_step.finalize])

lemma ex1_ok: "ledger_ok ex1"
  using venue_run_inv [OF ex_run1] by simp

definition ex_item :: "string \<Rightarrow> reservation_item" where
  "ex_item sid = \<lparr>i_reservation = ''r1'', i_seat = sid, i_section = ''sec'', i_price = ''25.00'', i_label = sid\<rparr>"

definition ex_sold :: seat_reservation where
  "ex_sold = (ex_res ''r1'' ''U1'')\<lparr>r_status := ReservationStatusSold, r_order := Some ''order1'',
     r_created := 10, r_updated := 12\<rparr>"

lemma ex2_items: "db_items ex2 = [ex_item ''A'', ex_item ''B'']"
  by code_simp

lemma ex2_res: "reservation_of ex2 ''r1'' = Some ex_sold"
  by code_simp


section \<open>Properties of every run\<close>

text \<open>
  C1: No double booking. In every reachable state of the venue database, whatever the faults, the
  order of the requests and the age of what release and finalize read, a seat is an item of at
  most one reservation that is reserved or sold.
\<close>

theorem no_double_booking:
  assumes run: "venue_run caps (d # h)"
    and i: "i \<in> set (db_items d)" "reservation_of d (i_reservation i) = Some r" "active r"
    and j: "j \<in> set (db_items d)" "reservation_of d (i_reservation j) = Some q" "active q"
    and same: "i_seat i = i_seat j"
  shows "i = j"
proof -
  have ok: "items_backed d" "keys_ok d" using venue_run_inv [OF run] by (simp_all add: ledger_ok_def)
  have owner: "\<exists>s. seat_of d (i_seat k) = Some s \<and> s_held_by s = Some (i_reservation k)"
    if "k \<in> set (db_items d)" "reservation_of d (i_reservation k) = Some x" "active x" for k x
    using items_backedD [OF ok(1) that(1,2)] that(3) by (auto simp: active_def)
  have "i_reservation i = i_reservation j" using owner [OF i] owner [OF j] same by auto
  then show ?thesis
    using ok(2) i(1) j(1) same by (auto simp: keys_ok_def distinct_map inj_on_def)
qed

lemma no_double_booking_witness: "ex_item ''A'' \<in> set (db_items ex2) \<and> ex_item ''A'' = ex_item ''A''"
  using no_double_booking [OF ex_run, of "ex_item ''A''" ex_sold "ex_item ''A''" ex_sold] ex2_items ex2_res
  by (simp add: ex_item_def ex_sold_def active_def)

text \<open>
  C2: Seats and ledger agree. In every reachable state a seat row is RESERVED exactly when it is
  an item of a reservation the ledger has as RESERVED, and SOLD exactly when it is an item of one
  the ledger has as SOLD; the seat then names that reservation in held_by.
\<close>

theorem seats_agree_with_ledger:
  assumes run: "venue_run caps (d # h)" and s: "seat_of d sid = Some s"
    and st: "(st, rst) \<in> {(SeatStatusReserved, ReservationStatusReserved), (SeatStatusSold, ReservationStatusSold)}"
  shows "s_status s = st \<longleftrightarrow> (\<exists>i \<in> set (db_items d). i_seat i = sid \<and> s_held_by s = Some (i_reservation i) \<and>
           (\<exists>r. reservation_of d (i_reservation i) = Some r \<and> r_status r = rst))"
proof
  have ok: "ledger_ok d" using venue_run_inv [OF run] by simp
  have c: "claims x = Some st \<longleftrightarrow> x = rst" for x using st by auto
  show "\<exists>i \<in> set (db_items d). i_seat i = sid \<and> s_held_by s = Some (i_reservation i) \<and>
      (\<exists>r. reservation_of d (i_reservation i) = Some r \<and> r_status r = rst)" if "s_status s = st"
    using taken_held_by [OF ok s] that st c by (fastforce simp: taken_def)
  show "s_status s = st" if "\<exists>i \<in> set (db_items d). i_seat i = sid \<and> s_held_by s = Some (i_reservation i) \<and>
      (\<exists>r. reservation_of d (i_reservation i) = Some r \<and> r_status r = rst)"
    using that items_backedD [of d _ _ st] ok s c unfolding ledger_ok_def by fastforce
qed

definition ex2_seat :: seat where
  "ex2_seat = (ex_seat ''A'')\<lparr>s_status := SeatStatusSold, s_held_by := Some ''r1'', s_version := 3, s_updated := 12\<rparr>"

lemma seats_agree_with_ledger_witness:
  "s_status ex2_seat = SeatStatusSold \<and> (\<exists>i \<in> set (db_items ex2). i_seat i = ''A'')"
proof -
  have "seat_of ex2 ''A'' = Some ex2_seat" by code_simp
  from seats_agree_with_ledger [OF ex_run this, of SeatStatusSold ReservationStatusSold]
  show ?thesis by (auto simp: ex2_seat_def ex_seat_def new_seat_def)
qed

text \<open>
  C3: A decision is final. A reservation that was released, expired or sold at some moment of a
  run is, at every later moment, the same row with the same items; if it was sold, each of its
  seats is then SOLD under its name. No later operation, retry or sweep resells or frees it.
\<close>

theorem terminal_states_are_final:
  assumes run: "venue_run caps (d # h)" and past: "s \<in> set h"
    and r: "reservation_of s rid = Some r" "r_status r \<noteq> ReservationStatusReserved"
  shows "reservation_of d rid = Some r \<and> items_of d rid = items_of s rid \<and>
    (r_status r = ReservationStatusSold \<longrightarrow>
       (\<forall>i \<in> set (items_of d rid). \<exists>seat. seat_of d (i_seat i) = Some seat \<and>
          s_status seat = SeatStatusSold \<and> s_held_by seat = Some rid))"
proof -
  have ok: "items_backed d" and ext: "ledger_ext s d"
    using venue_run_inv [OF run] past by (simp_all add: ledger_ok_def)
  then have now: "reservation_of d rid = Some r" "items_of d rid = items_of s rid"
    using r unfolding ledger_ext_def by auto
  moreover have "\<exists>seat. seat_of d (i_seat i) = Some seat \<and> s_status seat = SeatStatusSold \<and>
      s_held_by seat = Some rid"
    if sold: "r_status r = ReservationStatusSold" and item: "i \<in> set (items_of d rid)" for i
    using items_backedD [OF ok, of i r SeatStatusSold] item sold now(1) by (simp add: set_items_of)
  ultimately show ?thesis by blast
qed

definition ex3 :: venue_db where
  "ex3 = snd (ReleaseReservation no_faults 15 ''r1'' ex1 ex2)"

lemma terminal_states_are_final_witness: "reservation_of ex3 ''r1'' = Some ex_sold"
proof -
  have "venue_run ex_caps [ex3, ex2, ex1, ex0]"
    unfolding ex3_def
    by (rule venue_run.step [OF ex_run _ venue_step.release]) simp
  from terminal_states_are_final [OF this, of ex2 "''r1''" ex_sold] show ?thesis
    using ex2_res by (simp add: ex_sold_def)
qed

text \<open>
  C4: The buyer cap holds. If every reserve for a buyer on a plan is made with a limit between 1
  and M, then in every reachable state that buyer's reserved and sold reservations on the plan
  have at most M different seats, however many holds, reserves, retries and releases ran.
\<close>

theorem buyer_cap_holds:
  assumes run: "venue_run caps (d # h)"
    and caps: "\<And>m. caps p u m \<Longrightarrow> 0 < m \<and> m \<le> int M"
  shows "card (set (taken_items p u d)) \<le> M"
  using cap_run [OF run caps] by simp

lemma buyer_cap_holds_witness:
  "card (set (taken_items ''plan'' ''U1'' ex2)) \<le> 2 \<and> taken_items ''plan'' ''U1'' ex2 = [''A'', ''B'']"
proof
  show "card (set (taken_items ''plan'' ''U1'' ex2)) \<le> 2"
    by (rule buyer_cap_holds [OF ex_run]) (simp add: ex_caps_def)
  show "taken_items ''plan'' ''U1'' ex2 = [''A'', ''B'']" by code_simp
qed

text \<open>
  C5: The first request decides. Any sequence of releases and finalizes served one after another
  leaves a reserved reservation to the first request that names it: released if that is a
  release, sold if it is a finalize, still reserved when none names it; and repeating an accepted
  request is accepted again and changes no table.
\<close>

theorem first_request_decides:
  assumes "ledger_ok d" and "venue_ledger_phase d rid = Some PhaseReserved"
  shows "venue_ledger_phase (snd (submits (venue_submit now oid) qs d)) rid =
    (case filter (\<lambda>q. request_target q = rid) qs of
       [] \<Rightarrow> Some PhaseReserved | q # _ \<Rightarrow> Some (request_phase q)) \<and>
    venue_submit now oid (Release rid) (snd (venue_submit now oid (Release rid) d)) =
      (Accepted, snd (venue_submit now oid (Release rid) d)) \<and>
    venue_submit now oid (Finalize rid) (snd (venue_submit now oid (Finalize rid) d)) =
      (Accepted, snd (venue_submit now oid (Finalize rid) d))"
  using venue_ledger.first_decides [OF assms] venue_ledger.submit_retry [OF assms(1)]
    venue_ledger.submit_reserved [OF assms(1), of "Release rid"]
    venue_ledger.submit_reserved [OF assms(1), of "Finalize rid"] assms(2)
  by (metis request_target.simps)

lemma first_request_decides_witness:
  "venue_ledger_phase (snd (submits (venue_submit 15 ''order1'')
     [Finalize ''r0'', Finalize ''r1'', Release ''r1''] ex1)) ''r1'' = Some PhaseSold"
proof -
  have "venue_ledger_phase ex1 ''r1'' = Some PhaseReserved" by code_simp
  from conjunct1 [OF first_request_decides [OF ex1_ok this, of 15 "''order1''"
      "[Finalize ''r0'', Finalize ''r1'', Release ''r1'']"]]
  show ?thesis by simp
qed

end
