(* ===== verification/Hold_Props.thy ===== *)
theory Hold_Props
  imports Hold_Manager Venue_Props
begin

text \<open>
  What the hold manager promises: the Lua hold is all or nothing and never takes a live hold or a
  sold seat; PostgreSQL decides every hold; a refused hold leaves nothing behind in Redis; the
  decorator changes Redis only for the reservation that this call moved.
\<close>

section \<open>Facts about the scripts\<close>

lemma hget_hset: "hget (hset p sid st rd) q x = (if q = p \<and> x = sid then Some st else hget rd q x)"
  by (simp add: hget_def hset_def update_conv')

lemma hget_set_marker [simp]: "hget (set_marker p sid m e rd) q x = hget rd q x"
  by (simp add: hget_def set_marker_def)

lemma hget_del_marker [simp]: "hget (del_marker p sid rd) q x = hget rd q x"
  by (simp add: hget_def del_marker_def)

lemma marker_hset [simp]: "marker now (hset p sid st rd) q x = marker now rd q x"
  by (simp add: marker_def hset_def)

lemma marker_set_marker:
  "marker now (set_marker p sid m e rd) q x =
    (if q = p \<and> x = sid then (case e of None \<Rightarrow> Some m | Some t \<Rightarrow> if now < t then Some m else None)
     else marker now rd q x)"
  by (simp add: marker_def set_marker_def split: option.splits)

lemma marker_del_marker: "marker now (del_marker p sid rd) q x = (if q = p \<and> x = sid then None else marker now rd q x)"
  by (simp add: marker_def del_marker_def)

lemma hold_phase2_ok:
  assumes "0 < ttl"
  shows "fst (hold_phase2 now p meta ttl ids rd) = LuaOk"
    "hget (snd (hold_phase2 now p meta ttl ids rd)) q x = (if q = p \<and> x \<in> set ids then Some ''1'' else hget rd q x)"
    "marker t (snd (hold_phase2 now p meta ttl ids rd)) q x =
       (if q = p \<and> x \<in> set ids then (if t < now + ttl * 1000 then Some meta else None) else marker t rd q x)"
  using assms by (induction ids arbitrary: rd) (auto simp: hget_hset marker_set_marker)

lemma contains_append: "contains p (a @ p @ b)"
proof (induction a)
  case Nil
  then show ?case by (subst contains.simps) simp
next
  case (Cons x a)
  then show ?case by (subst contains.simps) simp
qed

lemma owner_in_meta: "contains (owner_pattern u) (hold_meta u s a e)"
proof -
  have "hold_meta u s a e = ''{'' @ owner_pattern u @ ('',\"sessionId\":\"'' @ s @ ''\",\"heldAt\":\"'' @ a @ ''\",\"expiresAt\":\"'' @ e @ ''\"}'')"
    by (simp add: hold_meta_def owner_pattern_def)
  then show ?thesis by (metis contains_append)
qed


text \<open>A seat that shows a hold of the user, and one that shows nothing.\<close>

definition held_in_redis :: "int \<Rightarrow> redis \<Rightarrow> string \<Rightarrow> string \<Rightarrow> string \<Rightarrow> bool" where
  "held_in_redis now rd p u x \<longleftrightarrow> hget rd p x = Some ''1'' \<and>
     (case marker now rd p x of None \<Rightarrow> True | Some m \<Rightarrow> contains (owner_pattern u) m)"

definition clear_in_redis :: "int \<Rightarrow> redis \<Rightarrow> string \<Rightarrow> string \<Rightarrow> bool" where
  "clear_in_redis now rd p x \<longleftrightarrow> hget rd p x = Some ''0'' \<and> marker now rd p x = None"

lemma lua_release_seat_facts:
  "held_in_redis now rd p u x \<Longrightarrow> clear_in_redis now (lua_release_seat now p u x rd) p x"
  "x \<noteq> y \<Longrightarrow> hget (lua_release_seat now p u y rd) p x = hget rd p x"
  "x \<noteq> y \<Longrightarrow> marker now (lua_release_seat now p u y rd) p x = marker now rd p x"
  "clear_in_redis now rd p x \<Longrightarrow> clear_in_redis now (lua_release_seat now p u y rd) p x"
  by (auto simp: held_in_redis_def clear_in_redis_def lua_release_seat_def hget_hset marker_del_marker
      split: option.splits)

lemma luaRelease_clears:
  assumes "\<forall>x \<in> set ids. held_in_redis now rd p u x \<or> clear_in_redis now rd p x"
  shows "\<forall>x \<in> set ids. clear_in_redis now (snd (luaRelease now p u ids rd)) p x"
proof -
  have "\<forall>x \<in> set ids \<union> A. held_in_redis now rd p u x \<or> clear_in_redis now rd p x \<Longrightarrow>
    \<forall>x \<in> A. clear_in_redis now rd p x \<Longrightarrow>
    \<forall>x \<in> set ids \<union> A. clear_in_redis now (fold (lua_release_seat now p u) ids rd) p x" for A
  proof (induction ids arbitrary: rd A)
    case (Cons y ids)
    let ?rd = "lua_release_seat now p u y rd"
    have y: "clear_in_redis now ?rd p y"
      using Cons.prems(1) lua_release_seat_facts(1,4) [of now _ p] by auto
    have keep: "held_in_redis now rd p u x \<Longrightarrow> x \<noteq> y \<Longrightarrow> held_in_redis now ?rd p u x" for x
      using lua_release_seat_facts(2,3) [of x y] by (simp add: held_in_redis_def)
    have "\<forall>x \<in> set ids \<union> insert y A. held_in_redis now ?rd p u x \<or> clear_in_redis now ?rd p x"
      using Cons.prems(1) keep y lua_release_seat_facts(4) by (metis Un_iff insert_iff list.set(2))
    moreover have "\<forall>x \<in> insert y A. clear_in_redis now ?rd p x"
      using Cons.prems(2) y lua_release_seat_facts(4) by blast
    ultimately show ?case using Cons.IH [of "insert y A" ?rd] by simp
  qed simp
  from this [of "{}"] show ?thesis using assms by (simp add: luaRelease_def)
qed

text \<open>The DB-only path.\<close>

definition db_only_hold ::
  "faults \<Rightarrow> int \<Rightarrow> string \<Rightarrow> string list \<Rightarrow> string \<Rightarrow> int \<Rightarrow> int \<Rightarrow> hold_world
     \<Rightarrow> (hold_error + string list \<times> int) \<times> hold_world" where
  "db_only_hold fh now p ids u e m w =
     (case HoldSeats fh now p ids u e m (hw_db w) of
        (Inl err, d') \<Rightarrow> (Inl (HRepo err), w\<lparr>hw_db := d'\<rparr>)
      | (Inr x, d') \<Rightarrow> (Inr (ids, e), w\<lparr>hw_db := d'\<rparr>))"

definition redis_first_hold ::
  "hold_config \<Rightarrow> faults \<Rightarrow> redis_faults \<Rightarrow> int \<Rightarrow> string \<Rightarrow> string list \<Rightarrow> string \<Rightarrow> int \<Rightarrow> int \<Rightarrow> redis \<Rightarrow> hold_world
     \<Rightarrow> (hold_error + string list \<times> int) \<times> hold_world" where
  "redis_first_hold c fh rf now p ids u e m rd1 w =
     (case HoldSeats fh now p ids u e m (hw_db w) of
        (Inl err, d') \<Rightarrow> (Inl (HRepo err), w\<lparr>hw_db := d', hw_redis := snd (redisReleaseHold rf now p u ids rd1)\<rparr>)
      | (Inr x, d') \<Rightarrow> (Inr (ids, e), publishChange c rf p ''hold'' ids (w\<lparr>hw_db := d', hw_redis := rd1\<rparr>)))"

lemma Manager_HoldSeats_unfold:
  "Manager_HoldSeats c rfc fp fh rf now p u sess ids w =
     (case FindPlanByID fp 0 p (hw_db w) of
        Inl e \<Rightarrow> (Inl (HRepo e), w)
      | Inr plan \<Rightarrow>
        if p_status plan \<noteq> PlanStatusActive then (Inl HPlanNotActive, w)
        else (case (case hc_limit c of None \<Rightarrow> Some 0 | Some f \<Rightarrow> f plan) of
          None \<Rightarrow> (Inl HSeatLimitUnavailable, w)
        | Some m \<Rightarrow>
          if \<not> hc_redis c then db_only_hold fh now p ids u (now + hc_ttl c) m w
          else (case redisHold rfc rf now p u sess ids (hc_ttl c) (now + hc_ttl c) (hw_redis w) of
               (Inl e, rd1) \<Rightarrow>
                 if e = HRepo ErrSeatNotAvailable then (Inl e, w\<lparr>hw_redis := rd1\<rparr>)
                 else db_only_hold fh now p ids u (now + hc_ttl c) m (w\<lparr>hw_redis := rd1\<rparr>)
             | (Inr x, rd1) \<Rightarrow> redis_first_hold c fh rf now p ids u (now + hc_ttl c) m rd1 w)))"
  unfolding Manager_HoldSeats_def Let_def db_only_hold_def redis_first_hold_def by (rule refl)

lemma publishChange_db [simp]: "hw_db (publishChange c rf p ev ids w) = hw_db w"
  by (auto simp: publishChange_def nextVersion_def Let_def split: prod.splits)

lemma db_only_hold_facts:
  "fst (db_only_hold fh now p ids u e m w) = Inr r \<Longrightarrow>
     r = (ids, e) \<and> HoldSeats fh now p ids u e m (hw_db w) = (Inr (), hw_db (snd (db_only_hold fh now p ids u e m w)))"
  "hw_db (snd (db_only_hold fh now p ids u e m w)) = snd (HoldSeats fh now p ids u e m (hw_db w))"
  "hw_redis (snd (db_only_hold fh now p ids u e m w)) = hw_redis w"
  "hw_broadcast (snd (db_only_hold fh now p ids u e m w)) = hw_broadcast w"
  by (auto simp: db_only_hold_def split: prod.splits sum.splits)

lemma redis_first_hold_facts:
  "fst (redis_first_hold c fh rf now p ids u e m rd w) = Inr r \<Longrightarrow>
     r = (ids, e) \<and> HoldSeats fh now p ids u e m (hw_db w) = (Inr (), hw_db (snd (redis_first_hold c fh rf now p ids u e m rd w)))"
  "hw_db (snd (redis_first_hold c fh rf now p ids u e m rd w)) = snd (HoldSeats fh now p ids u e m (hw_db w))"
  by (auto simp: redis_first_hold_def split: prod.splits sum.splits)

lemma HoldSeats_error_state:
  "fst (HoldSeats fh now p ids u e m d) = Inl err \<Longrightarrow> snd (HoldSeats fh now p ids u e m d) = d \<or> fh CommitLost"
  by (auto simp: HoldSeats_def run_tx_def split: tx_out.splits if_splits)

text \<open>The three ways a hold on an active plan with a known limit can go.\<close>

lemma Manager_HoldSeats_paths:
  assumes run: "Manager_HoldSeats c rfc fp fh rf now p u sess ids w = (res, w')"
    and plan: "FindPlanByID fp 0 p (hw_db w) = Inr plan" "p_status plan = PlanStatusActive"
    and m: "(case hc_limit c of None \<Rightarrow> Some 0 | Some f \<Rightarrow> f plan) = Some m"
    and e: "e = now + hc_ttl c"
  obtains (redis_no) "res = Inl (HRepo ErrSeatNotAvailable)" "hw_db w' = hw_db w"
    | (db) v where "(res, w') = db_only_hold fh now p ids u e m v" "hw_db v = hw_db w"
    | (both) rd where "(res, w') = redis_first_hold c fh rf now p ids u e m rd w"
proof (cases "hc_redis c")
  case False
  then have "(res, w') = db_only_hold fh now p ids u e m w"
    using run plan m by (simp add: Manager_HoldSeats_unfold e)
  then show thesis by (rule db) simp
next
  case True
  obtain a rd where a: "redisHold rfc rf now p u sess ids (hc_ttl c) e (hw_redis w) = (a, rd)" by fastforce
  note u = run plan m a True
  show thesis
  proof (cases a)
    case (Inr x)
    then have "(res, w') = redis_first_hold c fh rf now p ids u e m rd w"
      using u by (simp add: Manager_HoldSeats_unfold e)
    then show thesis by (rule both)
  next
    case (Inl err)
    show thesis
    proof (cases "err = HRepo ErrSeatNotAvailable")
      case True
      then show thesis using u Inl by (intro redis_no) (auto simp: Manager_HoldSeats_unfold e)
    next
      case False
      then have "(res, w') = db_only_hold fh now p ids u e m (w\<lparr>hw_redis := rd\<rparr>)"
        using u Inl by (simp add: Manager_HoldSeats_unfold e)
      then show thesis by (rule db) simp
    qed
  qed
qed

section \<open>Properties\<close>



text \<open>An active plan with three seats, an empty Redis, and its witness.\<close>

definition ex_redis :: redis where
  "ex_redis = \<lparr>rd_seats = (\<lambda>_. []), rd_markers = (\<lambda>_. None), rd_user_holds = (\<lambda>_. []),
     rd_version = (\<lambda>_. 0), rd_published = []\<rparr>"

definition ex_hold_world :: hold_world where
  "ex_hold_world = \<lparr>hw_db = ex0\<lparr>db_plans := [ex_plan\<lparr>p_id := ''plan'', p_status := PlanStatusActive\<rparr>]\<rparr>,
     hw_redis = ex_redis, hw_local = (\<lambda>_. 0), hw_broadcast = []\<rparr>"

definition ex_config :: hold_config where
  "ex_config = (NewManager True 600000)\<lparr>hc_limit := Some (\<lambda>_. Some 2)\<rparr>"




text \<open>
  C14: A refused hold leaves no trace. When Redis took the seats but PostgreSQL refused the hold,
  and the Redis calls succeed, every requested seat is free again in Redis with no marker, so
  the refused request blocks nobody.
\<close>

theorem refused_hold_is_rolled_back:
  assumes lim: "find_row p_id p (db_plans (hw_db w)) = Some plan" "p_status plan = PlanStatusActive"
      "case hc_limit c of None \<Rightarrow> m = 0 | Some g \<Rightarrow> g plan = Some m"
    and c: "hc_redis c" "1000 \<le> hc_ttl c"
    and free: "\<forall>x \<in> set ids. \<not> seat_blocked now (hw_redis w) p x"
    and refused: "fst (HoldSeats fh now p ids u (now + hc_ttl c) m (hw_db w)) = Inl e"
  shows "\<exists>w'. Manager_HoldSeats c rfc no_faults fh no_redis_faults now p u sess ids w = (Inl (HRepo e), w') \<and>
    (\<forall>x \<in> set ids. clear_in_redis now (hw_redis w') p x)"
proof -
  let ?ttl = "hc_ttl c div 1000" and ?meta = "hold_meta u sess (rfc now) (rfc (now + hc_ttl c))"
  have ttl: "0 < ?ttl" using c(2) by simp
  let ?rd = "snd (hold_phase2 now p ?meta ?ttl ids (hw_redis w))"
  have "luaHold now p u sess (rfc now) (rfc (now + hc_ttl c)) ?ttl ids (hw_redis w) = (LuaOk, ?rd)"
    using free hold_phase2_ok(1) [OF ttl]
    by (auto simp: luaHold_def find_None_iff prod_eq_iff split: option.splits dest: find_Some_iff [THEN iffD1])
  then obtain rd1 where rd1: "redisHold rfc no_redis_faults now p u sess ids (hc_ttl c) (now + hc_ttl c) (hw_redis w) = (Inr (), rd1)"
      "rd_seats rd1 = rd_seats ?rd" "rd_markers rd1 = rd_markers ?rd"
    by (simp add: redisHold_def redis_call_def)
  have "held_in_redis now rd1 p u x" if "x \<in> set ids" for x
  proof -
    have "hget rd1 p x = hget ?rd p x" "marker now rd1 p x = marker now ?rd p x"
      using rd1(2,3) by (simp_all add: hget_def marker_def)
    then show ?thesis
      using that ttl owner_in_meta by (simp add: held_in_redis_def hold_phase2_ok(2,3) [OF ttl])
  qed
  then have "\<forall>x \<in> set ids. clear_in_redis now (snd (luaRelease now p u ids rd1)) p x"
    using luaRelease_clears by blast
  then have cl: "\<forall>x \<in> set ids. clear_in_redis now (snd (redisReleaseHold no_redis_faults now p u ids rd1)) p x"
    by (auto simp: redisReleaseHold_def redis_call_def luaRelease_def clear_in_redis_def hget_def marker_def)
  have m: "(case hc_limit c of None \<Rightarrow> Some 0 | Some f \<Rightarrow> f plan) = Some m"
    using lim(3) by (auto split: option.splits)
  have "Manager_HoldSeats c rfc no_faults fh no_redis_faults now p u sess ids w =
      redis_first_hold c fh no_redis_faults now p ids u (now + hc_ttl c) m rd1 w"
    using lim(1,2) m c(1) rd1(1) by (simp add: Manager_HoldSeats_unfold FindPlanByID_def)
  then show ?thesis
    using refused cl by (cases "HoldSeats fh now p ids u (now + hc_ttl c) m (hw_db w)")
      (auto simp: redis_first_hold_def)
qed

lemma refused_hold_is_rolled_back_witness:
  "\<exists>w'. Manager_HoldSeats ex_config (\<lambda>_. ''T'') no_faults no_faults no_redis_faults 10
        ''plan'' ''U1'' ''S'' [''A'', ''B'', ''C''] ex_hold_world = (Inl (HRepo ErrSeatLimitExceeded), w') \<and>
      clear_in_redis 10 (hw_redis w') ''plan'' ''B''"
proof -
  have 1: "find_row p_id ''plan'' (db_plans (hw_db ex_hold_world)) =
      Some (ex_plan\<lparr>p_id := ''plan'', p_status := PlanStatusActive\<rparr>)" by code_simp
  have 2: "fst (HoldSeats no_faults 10 ''plan'' [''A'', ''B'', ''C''] ''U1'' (10 + hc_ttl ex_config) 2 (hw_db ex_hold_world)) =
      Inl ErrSeatLimitExceeded" by code_simp
  have 3: "\<forall>x \<in> set [''A'', ''B'', ''C'']. \<not> seat_blocked 10 (hw_redis ex_hold_world) ''plan'' x" by code_simp
  have 4: "hc_redis ex_config" "1000 \<le> hc_ttl ex_config"
      "case hc_limit ex_config of None \<Rightarrow> (2::int) = 0 | Some g \<Rightarrow> g (ex_plan\<lparr>p_id := ''plan'', p_status := PlanStatusActive\<rparr>) = Some 2"
    by (simp_all add: ex_config_def NewManager_def)
  from refused_hold_is_rolled_back [OF 1 _ 4(3,1,2) 3 2, of "\<lambda>_. ''T''" "''S''"] show ?thesis
    by auto
qed

text \<open>
  Without Redis a hold is never announced. A manager with only the in-process broadcaster
  publishes nothing when it holds seats, in any state and with any faults, although every
  release it completes is published; subscribers see seats come back but never go.
\<close>

theorem db_only_holds_are_silent:
  assumes "\<not> hc_redis c"
  shows "hw_broadcast (snd (Manager_HoldSeats c rfc fp fh rf now p u sess ids w)) = hw_broadcast w \<and>
    (hc_broadcaster c \<and> fst (Manager_ReleaseHold c f rf now p u ids w) = Inr () \<longrightarrow>
      hw_broadcast (snd (Manager_ReleaseHold c f rf now p u ids w)) =
        hw_broadcast w @ [(p, ''release'', ids, hw_local w p + 1)])"
proof (intro conjI impI)
  show "hw_broadcast (snd (Manager_HoldSeats c rfc fp fh rf now p u sess ids w)) = hw_broadcast w"
    using assms by (auto simp: Manager_HoldSeats_unfold db_only_hold_facts(4) split: sum.splits option.splits)
  assume "hc_broadcaster c \<and> fst (Manager_ReleaseHold c f rf now p u ids w) = Inr ()"
  then show "hw_broadcast (snd (Manager_ReleaseHold c f rf now p u ids w)) =
        hw_broadcast w @ [(p, ''release'', ids, hw_local w p + 1)]"
    using assms by (auto simp: Manager_ReleaseHold_def Let_def publishChange_def nextVersion_def
        split: prod.splits sum.splits)
qed

lemma db_only_holds_are_silent_witness:
  "hw_broadcast (snd (Manager_HoldSeats ((NewManager False 600000)\<lparr>hc_broadcaster := True\<rparr>) (\<lambda>_. ''T'')
     no_faults no_faults no_redis_faults 10 ''plan'' ''U1'' ''S'' [''A''] ex_hold_world)) = []"
proof -
  have "\<not> hc_redis ((NewManager False 600000)\<lparr>hc_broadcaster := True\<rparr>)" by (simp add: NewManager_def)
  from db_only_holds_are_silent [OF this] show ?thesis by (simp add: ex_hold_world_def)
qed


section \<open>Redis in step with the ledger\<close>

lemma ReleaseReservation_success:
  assumes "ReleaseReservation f now rid snap d = (Inr u, d')"
  shows "rows_affected (claimable rid) (db_reservations d) \<noteq> 0 \<and>
    db_reservations d' = sql_update (claimable rid) (set_status ReservationStatusReleased now) (db_reservations d)"
  using assms
  by (auto simp: ReleaseReservation_def run_tx_Inr claim_tx_def commit_iffs Let_def
      split: sum.splits reservation_status.splits if_splits)

lemma FinalizeReservation_success:
  assumes "FinalizeReservation f now rid oid snap d = (Inr u, d')"
  shows "rows_affected (claimable rid) (db_reservations d) \<noteq> 0 \<and>
    db_reservations d' = sql_update (claimable rid) (mark_sold oid now) (db_reservations d)"
  using assms
  by (auto simp: FinalizeReservation_def run_tx_Inr claim_tx_def commit_iffs Let_def
      split: sum.splits reservation_status.splits if_splits)

lemma setSeatState_hget:
  "hc_redis c \<Longrightarrow> x \<in> set ids \<Longrightarrow> hget (setSeatState c no_redis_faults p ids st rd) p x = Some st"
proof -
  assume c: "hc_redis c" and x: "x \<in> set ids"
  have keep: "hget rd p x = Some st \<Longrightarrow>
      hget (fold (\<lambda>sid rd. del_marker p sid (hset p sid st rd)) ids rd) p x = Some st" for ids rd
    by (induction ids arbitrary: rd) (simp_all add: hget_hset)
  have "hget (fold (\<lambda>sid rd. del_marker p sid (hset p sid st rd)) ids rd) p x = Some st"
    using x by (induction ids arbitrary: rd) (auto simp: hget_hset keep)
  then show ?thesis using c x by (auto simp: setSeatState_def redis_call_def)
qed

text \<open>
  A release touches Redis only when it is the one that freed the seats. If the decorated
  release changes anything in Redis, this very call moved the reservation from RESERVED to
  RELEASED; a redelivered release, a refused one and one that lost the race leave newer holds
  on the same seats alone.
\<close>

theorem redis_release_only_by_the_mover:
  assumes keys: "keys_ok (hw_db w)"
    and run: "Synced_Release c f0 f rf now rid s0 s1 w = (a, w')"
    and changed: "hw_redis w' \<noteq> hw_redis w"
  shows "a = Inr () \<and> venue_ledger_phase (hw_db w) rid = Some PhaseReserved \<and>
    venue_ledger_phase (hw_db w') rid = Some PhaseReleased"
proof -
  obtain b d' where b: "ReleaseReservation f now rid s1 (hw_db w) = (b, d')" by fastforce
  then have ok: "b = Inr () \<and> a = Inr () \<and> hw_db w' = d'"
    using run changed by (auto simp: Synced_Release_def Let_def split: sum.splits if_splits)
  then have e: "rows_affected (claimable rid) (db_reservations (hw_db w)) \<noteq> 0"
      "db_reservations d' = sql_update (claimable rid) (set_status ReservationStatusReleased now) (db_reservations (hw_db w))"
    using ReleaseReservation_success b by blast+
  obtain r where "reservation_of (hw_db w) rid = Some r" "r_status r = ReservationStatusReserved"
    using claimable_row [OF keys e(1)] by blast
  then show ?thesis
    using ok e(2) claimable_find [OF mark.keyed_update_axioms, of rid rid ReservationStatusReleased now]
    by (simp add: venue_ledger_phase_def)
qed

definition ex_synced :: hold_world where
  "ex_synced = ex_hold_world\<lparr>hw_db := ex1\<rparr>"

lemma redis_release_only_by_the_mover_witness:
  "venue_ledger_phase (hw_db (snd (Synced_Release ex_config no_faults no_faults no_redis_faults 12 ''r1'' ex1 ex1 ex_synced))) ''r1''
     = Some PhaseReleased"
proof -
  let ?w = "snd (Synced_Release ex_config no_faults no_faults no_redis_faults 12 ''r1'' ex1 ex1 ex_synced)"
  have "hget (hw_redis ?w) ''plan'' ''A'' = Some ''0''" "hget (hw_redis ex_synced) ''plan'' ''A'' = None" by code_simp+
  then have "hw_redis ?w \<noteq> hw_redis ex_synced" by auto
  moreover have "keys_ok (hw_db ex_synced)" using ex1_ok by (simp add: ex_synced_def ledger_ok_def)
  ultimately show ?thesis
    using redis_release_only_by_the_mover [OF _ surjective_pairing] by blast
qed

text \<open>
  Sold seats block at once. After a decorated finalize that succeeded with working Redis
  calls, every seat of the reservation is shown as sold, so from then on any Lua hold that
  includes one of them answers conflict, at any time.
\<close>

theorem sold_seats_block_in_redis:
  assumes keys: "keys_ok (hw_db w)" and c: "hc_redis c"
    and run: "Synced_Finalize c f no_faults no_redis_faults now rid oid s1 w = (Inr (), w')"
  shows "\<exists>r. reservation_of (hw_db w') rid = Some r \<and> r_status r = ReservationStatusSold \<and>
    (\<forall>i \<in> set (items_of (hw_db w') rid). \<forall>t. seat_blocked t (hw_redis w') (r_plan r) (i_seat i))"
proof -
  obtain b d' where b: "FinalizeReservation f now rid oid s1 (hw_db w) = (b, d')" by fastforce
  then have ok: "b = Inr () \<and> hw_db w' = d'"
    using run by (auto simp: Synced_Finalize_def split: sum.splits)
  then have e: "rows_affected (claimable rid) (db_reservations (hw_db w)) \<noteq> 0"
      "db_reservations d' = sql_update (claimable rid) (mark_sold oid now) (db_reservations (hw_db w))"
    using FinalizeReservation_success b by blast+
  obtain r0 where "reservation_of (hw_db w) rid = Some r0" "r_status r0 = ReservationStatusReserved"
    using claimable_row [OF keys e(1)] by blast
  then have r: "reservation_of d' rid = Some (mark_sold oid now r0)"
    using e(2) claimable_find [OF marksold.keyed_update_axioms, of rid rid oid now] by simp
  then have "hw_redis w' = setSeatState c no_redis_faults (r_plan r0) (itemSeatIDs (items_of d' rid)) redisStateSold (hw_redis w)"
    using run b ok by (auto simp: Synced_Finalize_def FindReservationByID_def)
  then have "hget (hw_redis w') (r_plan r0) (i_seat i) = Some ''3''" if "i \<in> set (items_of d' rid)" for i
    using setSeatState_hget [OF c] that by (simp add: itemSeatIDs_def redisStateSold_def)
  then show ?thesis using r ok by (simp add: seat_blocked_def)
qed

lemma sold_seats_block_in_redis_witness:
  "\<exists>r. reservation_of ex2 ''r1'' = Some r \<and> r_status r = ReservationStatusSold"
proof -
  let ?r = "Synced_Finalize ex_config no_faults no_faults no_redis_faults 12 ''r1'' ''order1'' ex1 ex_synced"
  have "fst ?r = Inr ()" by code_simp
  then have r: "?r = (Inr (), snd ?r)" by (simp add: prod_eq_iff)
  have d: "hw_db (snd ?r) = ex2"
    by (auto simp: Synced_Finalize_def ex_synced_def ex_hold_world_def ex2_def split: prod.splits sum.splits)
  have "keys_ok (hw_db ex_synced)" using ex1_ok by (simp add: ex_synced_def ledger_ok_def)
  from sold_seats_block_in_redis [OF this _ r] show ?thesis unfolding d
    by (auto simp: ex_config_def NewManager_def)
qed

section \<open>The seat limit cache\<close>

text \<open>
  The cached limit fails closed only for unknown tickets. The lookup fails only when the
  ticket was never fetched and ticket-service does not answer; an entry younger than its lifetime
  is used without asking; an older one is replaced by a fresh answer, and kept when there is
  none. Entries of other tickets are untouched.
\<close>

theorem cached_limit_cases:
  assumes "CachedSeatLimit ttl now fetched plan cache = (limit, cache')"
  shows "(limit = None \<longleftrightarrow> map_of cache (p_ticket plan) = None \<and> fetched = None) \<and>
    (\<forall>l at. map_of cache (p_ticket plan) = Some (l, at) \<longrightarrow>
       limit = (if now - at < ttl then Some l else case fetched of None \<Rightarrow> Some l | Some n \<Rightarrow> Some n)) \<and>
    (\<forall>t. t \<noteq> p_ticket plan \<longrightarrow> map_of cache' t = map_of cache t) \<and>
    (limit = fetched \<and> cache' \<noteq> cache \<longrightarrow> (\<exists>l. fetched = Some l \<and> map_of cache' (p_ticket plan) = Some (l, now)))"
  using assms by (auto simp: CachedSeatLimit_def Let_def update_conv' split: option.splits if_splits prod.splits)

lemma cached_limit_cases_witness:
  "map_of (snd (CachedSeatLimit 60 100 (Some 4) ex_plan [(''t'', (2, 10))])) ''t'' = Some (4, 100) \<and>
   fst (CachedSeatLimit 60 100 (Some 4) ex_plan [(''t'', (2, 10))]) \<noteq> None"
proof
  show "map_of (snd (CachedSeatLimit 60 100 (Some 4) ex_plan [(''t'', (2, 10))])) ''t'' = Some (4, 100)" by code_simp
  show "fst (CachedSeatLimit 60 100 (Some 4) ex_plan [(''t'', (2, 10))]) \<noteq> None"
    using cached_limit_cases [OF surjective_pairing, of 60 100 "Some 4" ex_plan "[(''t'', (2, 10))]"] by simp
qed

end
