(* ===== verification/Venue_Grpc_Props.thy ===== *)
theory Venue_Grpc_Props
  imports Venue_Grpc Hold_Props
begin

text \<open>
  What the RPC handlers of venue-service promise their callers: a retried reserve repeats its
  answer, an answer describes the tables, auto-assignment gives the requested number of seats of
  the section, and the handlers of order events can be delivered any number of times.
\<close>

section \<open>A successful reserve\<close>

lemma AtomicReserveAndCreate_success:
  assumes "AtomicReserveAndCreate f now ids res bp m d = (Inr (r, items), d')"
  shows "r = res\<lparr>r_order := None, r_created := now, r_updated := now\<rparr>" "d' \<noteq> d"
    "db_items d' = db_items d @ items"
proof -
  let ?r = "res\<lparr>r_order := None, r_created := now, r_updated := now\<rparr>"
  have c: "r = ?r \<and> (\<exists>d2. insert_items f 5 items d2 = Inr d' \<and>
      db_reservations d2 = db_reservations d @ [?r] \<and> db_items d2 = db_items d)"
    using assms [unfolded AtomicReserveAndCreate_def Let_def run_tx_Inr return_iffs]
    by (auto simp only: commit_iffs not_not tx_out.inject prod.inject) (rule exI, rule conjI, assumption, simp)
  then show "r = ?r" by (rule conjunct1)
  obtain d2 where d2: "insert_items f 5 items d2 = Inr d'"
      "db_reservations d2 = db_reservations d @ [?r]" "db_items d2 = db_items d"
    using c by blast
  then have e: "d' = d2\<lparr>db_items := db_items d2 @ items\<rparr>" using insert_items_Inr by blast
  show "db_items d' = db_items d @ items" using e d2(3) by simp
  have "db_reservations d' = db_reservations d @ [?r]" using e d2(2) by simp
  then show "d' \<noteq> d" by auto
qed

lemma items_of_unknown: "keys_ok d \<Longrightarrow> reservation_of d rid = None \<Longrightarrow> items_of d rid = []"
  unfolding keys_ok_def items_of_def by (auto simp: filter_empty_conv)

text \<open>What a fresh reservation looks like in the tables.\<close>

lemma fresh_reservation:
  assumes keys: "keys_ok d" and a: "AtomicReserveAndCreate f now ids res bp m d = (Inr (r, items), d')"
  shows "reservation_of d (r_id res) = None" "reservation_of d' (r_id res) = Some r" "r_id r = r_id res"
    "items_of d' (r_id res) = items" "map i_seat items = ids" "distinct ids"
    "\<forall>id \<in> set ids. \<exists>s \<in> set (db_seats d). s_id s = id \<and> s_plan s = r_plan res \<and>
        reservable now (r_user res) s \<and> new_item d bp (r_id res) s \<in> set items"
    "db_seats d' = sql_update (\<lambda>s. s_id s \<in> set ids) (reserve_seat (r_id res) now) (db_seats d)"
proof -
  note s = AtomicReserveAndCreate_success [OF a]
  obtain "is" where e: "d' = d\<lparr>db_seats := sql_update (\<lambda>s. s_id s \<in> set ids) (reserve_seat (r_id res) now) (db_seats d),
              db_reservations := db_reservations d @ [res\<lparr>r_order := None, r_created := now, r_updated := now\<rparr>],
              db_items := db_items d @ is\<rparr>"
     and new: "reservation_of d (r_id res) = None" "distinct ids" "map i_seat is = ids"
     "\<forall>i \<in> set is. i_reservation i = r_id res"
     "\<forall>id \<in> set ids. \<exists>s \<in> set (db_seats d). s_id s = id \<and> s_plan s = r_plan res \<and>
        reservable now (r_user res) s \<and> new_item d bp (r_id res) s \<in> set is"
    using AtomicReserveAndCreate_effect [of f now ids res bp m d d'] a s(2) by auto
  have "is = items" using e s(3) by simp
  note new = new [unfolded this]
  have tabs: "db_reservations d' = db_reservations d @ [r]" "db_items d' = db_items d @ items"
    using e s(1,3) by simp_all
  show "reservation_of d (r_id res) = None" "distinct ids" "map i_seat items = ids" using new by blast+
  show "reservation_of d' (r_id res) = Some r" using new(1) s(1) tabs(1) by simp
  show "r_id r = r_id res" using s(1) by simp
  show "items_of d' (r_id res) = items"
    using items_of_unknown [OF keys new(1)] new(4) tabs(2) by (simp add: items_of_def)
  show "\<forall>id \<in> set ids. \<exists>s \<in> set (db_seats d). s_id s = id \<and> s_plan s = r_plan res \<and>
        reservable now (r_user res) s \<and> new_item d bp (r_id res) s \<in> set items" by (rule new(5))
  show "db_seats d' = sql_update (\<lambda>s. s_id s \<in> set ids) (reserve_seat (r_id res) now) (db_seats d)"
    using e by simp
qed

section \<open>The answer of a reserve\<close>

definition reserved_answer :: "string \<Rightarrow> reservation_item list \<Rightarrow> reserve_response" where
  "reserved_answer rid items =
     \<lparr>rs_success = True, rs_reservation = rid, rs_seats = toSeatDetails items, rs_unavailable = []\<rparr>"

lemma reserved_answer_success [simp]: "rs_success (reserved_answer rid items)"
  by (simp add: reserved_answer_def)

text \<open>A reserve either created the reservation or was refused by the repository.\<close>

lemma reserve_and_answer_cases:
  assumes "reserve_and_answer c enforced f f1 rf now t ids res unavail w = (ans, w')"
  obtains (created) r items where "ans = Inr (reserved_answer (r_id r) items)"
      "AtomicReserveAndCreate f now ids res (ti_price t) (seatLimit enforced t) (hw_db w) = (Inr (r, items), hw_db w')"
  | (duplicate) "\<forall>r items. FindReservationByID f1 (r_id res) (hw_db w') = Inr (r, items) \<longrightarrow>
        ans = Inr (reserved_answer (r_id r) items)"
      "AtomicReserveAndCreate f now ids res (ti_price t) (seatLimit enforced t) (hw_db w)
         = (Inl ErrReservationAlreadyDone, hw_db w')"
  | (refused) e where "e \<noteq> ErrReservationAlreadyDone" "\<forall>a. ans = Inr a \<longrightarrow> \<not> rs_success a \<and> e = ErrSeatNotAvailable"
      "AtomicReserveAndCreate f now ids res (ti_price t) (seatLimit enforced t) (hw_db w) = (Inl e, hw_db w')"
proof -
  obtain o1 d' where run: "AtomicReserveAndCreate f now ids res (ti_price t) (seatLimit enforced t) (hw_db w) = (o1, d')"
    by fastforce
  show thesis
  proof (cases o1)
    case (Inr v)
    obtain r items where v: "v = (r, items)" by fastforce
    have "ans = Inr (reserved_answer (r_id r) items)" "hw_db w' = d'"
      using assms run unfolding Inr v
      by (auto simp: reserve_and_answer_def Synced_Reserve_def reserved_answer_def)
    then show thesis using created [of r items] run unfolding Inr v by simp
  next
    case (Inl e)
    have w: "w' = w\<lparr>hw_db := d'\<rparr>"
      using assms run unfolding Inl by (auto simp: reserve_and_answer_def Synced_Reserve_def)
    show thesis
    proof (cases "e = ErrReservationAlreadyDone")
      case True
      then have "ans = (case FindReservationByID f1 (r_id res) (hw_db w') of
                   Inr (r, items) \<Rightarrow> Inr \<lparr>rs_success = True, rs_reservation = r_id r,
                       rs_seats = toSeatDetails items, rs_unavailable = []\<rparr>
                 | Inl x \<Rightarrow> Inr \<lparr>rs_success = True, rs_reservation = r_id res, rs_seats = [], rs_unavailable = []\<rparr>)"
        using assms run w unfolding Inl by (auto simp: reserve_and_answer_def Synced_Reserve_def)
      then show thesis using duplicate run w True unfolding Inl by (auto simp: reserved_answer_def)
    next
      case False
      then have "\<forall>a. ans = Inr a \<longrightarrow> \<not> rs_success a \<and> e = ErrSeatNotAvailable"
        using assms run unfolding Inl
        by (auto simp: reserve_and_answer_def Synced_Reserve_def split: venue_error.splits)
      then show thesis using refused [OF False] run w unfolding Inl by simp
    qed
  qed
qed

text \<open>A refused reserve leaves the tables alone, unless the answer of its commit was lost.\<close>

lemma AtomicReserveAndCreate_error_state:
  "AtomicReserveAndCreate f now ids res bp m d = (Inl e, d') \<Longrightarrow> d' = d \<or> f CommitLost \<and> e = ErrDb"
  by (auto simp: AtomicReserveAndCreate_def run_tx_def split: tx_out.splits if_splits)

lemma insert_items_error: "insert_items f k is d = Inl e \<Longrightarrow> e = ErrDb"
  by (induction "is" arbitrary: k d) (auto split: if_splits)

lemma AtomicReserveAndCreate_duplicate:
  assumes "AtomicReserveAndCreate f now ids res bp m d = (Inl ErrReservationAlreadyDone, d')"
  shows "d' = d \<and> reservation_of d (r_id res) \<noteq> None"
proof -
  have ab: "run_tx ErrDb f body d = (Inl ErrReservationAlreadyDone, d') \<Longrightarrow>
      body = TxAbort ErrReservationAlreadyDone \<and> d' = d" for body :: "(venue_error, seat_reservation \<times> reservation_item list, venue_db) tx_out"
    by (auto simp: run_tx_def split: tx_out.splits if_splits)
  have lim: "checkSeatLimit f k n p u ids m d \<noteq> Inl ErrReservationAlreadyDone" for k n p u m
    by (auto simp: checkSeatLimit_def bind_res_def stmt_def)
  show ?thesis
    using ab [OF assms [unfolded AtomicReserveAndCreate_def]]
    by (auto simp only: Let_def abort_iffs lim lockBuyerOnPlan_def split: if_splits dest!: insert_items_error)
qed

lemma existing_answer_some:
  assumes "existing_answer f rid d = Some (Inr a)"
  shows "\<exists>r. reservation_of d rid = Some r \<and> r_status r = ReservationStatusReserved \<and>
     a = reserved_answer (r_id r) (items_of d rid)"
  using assms
  by (auto simp: existing_answer_def FindReservationByID_def reserved_answer_def bind_res_def stmt_def
      split: sum.splits if_splits option.splits reservation_status.splits)

text \<open>An answer that shows a reservation as it is in the tables.\<close>

definition shows_reservation :: "venue_db \<Rightarrow> string \<Rightarrow> reserve_response \<Rightarrow> bool" where
  "shows_reservation d rid a \<longleftrightarrow> reservation_of d rid \<noteq> None \<and> a = reserved_answer rid (items_of d rid)"

lemma existing_answer_shows:
  "existing_answer f rid d = Some (Inr a) \<Longrightarrow> shows_reservation d rid a"
  using existing_answer_some [of f rid d a] find_row_Some_iff_set [of r_id rid "db_reservations d"]
  by (auto simp: shows_reservation_def)

lemma shows_later: "shows_reservation s rid a \<Longrightarrow> ledger_ext s d \<Longrightarrow> shows_reservation d rid a"
  unfolding shows_reservation_def ledger_ext_def by (metis not_Some_eq)

lemma reserve_and_answer_shows:
  assumes keys: "keys_ok (hw_db w)" and a: "rs_success a"
    and run: "reserve_and_answer c enforced f no_faults rf now t ids res unavail w = (Inr a, w')"
  shows "shows_reservation (hw_db w') (r_id res) a"
  using run
proof (cases rule: reserve_and_answer_cases)
  case (created r items)
  then show ?thesis using fresh_reservation(2,3,4) [OF keys created(2)] by (simp add: shows_reservation_def)
next
  case duplicate
  then have "hw_db w' = hw_db w" and "reservation_of (hw_db w) (r_id res) \<noteq> None"
    using AtomicReserveAndCreate_duplicate by blast+
  then obtain r where r: "reservation_of (hw_db w') (r_id res) = Some r" by auto
  then have "FindReservationByID no_faults (r_id res) (hw_db w') = Inr (r, items_of (hw_db w') (r_id res))"
    by (simp add: FindReservationByID_def stmt_def)
  then have "a = reserved_answer (r_id r) (items_of (hw_db w') (r_id res))" using duplicate(1) by auto
  then show ?thesis using r find_row_Some_iff_set [OF r] by (simp add: shows_reservation_def)
next
  case (refused e)
  then show ?thesis using a by blast
qed

text \<open>What the handlers answer for a reservation the tables already have.\<close>

fun settled_answer :: "string \<Rightarrow> reserve_response \<Rightarrow> reservation_status \<Rightarrow> grpc_status + reserve_response" where
  "settled_answer rid a ReservationStatusReserved = Inr a"
| "settled_answer rid a ReservationStatusSold =
     Inl (CodeFailedPrecondition, ''reservation '' @ rid @ '' was already sold'')"
| "settled_answer rid a st =
     Inl (CodeFailedPrecondition, ''reservation '' @ rid @ '' '' @ ReservationReleasedSuffix)"

lemma existing_answer_known:
  assumes "shows_reservation d rid a"
  shows "\<exists>r. reservation_of d rid = Some r \<and> existing_answer no_faults rid d = Some (settled_answer rid a (r_status r))"
proof -
  obtain r where r: "reservation_of d rid = Some r" "a = reserved_answer rid (items_of d rid)"
    using assms by (auto simp: shows_reservation_def)
  then have "existing_answer no_faults rid d = Some (settled_answer rid a (r_status r))"
    using find_row_Some_iff_set [OF r(1)]
    by (cases "r_status r")
      (simp_all add: existing_answer_def FindReservationByID_def stmt_def reserved_answer_def)
  then show ?thesis using r(1) by blast
qed

text \<open>Every item of a fresh reservation is a row of the request, now reserved and priced.\<close>

lemma reserved_item_row:
  assumes keys: "keys_ok d" and a: "AtomicReserveAndCreate f now ids res bp m d = (Inr (r, items), d')"
    and i: "i \<in> set items"
  shows "\<exists>s \<in> set (db_seats d). s_id s = i_seat i \<and> s_plan s = r_plan res \<and> reservable now (r_user res) s \<and>
    i_price i = seat_price d bp s \<and> seat_of d' (i_seat i) = Some (reserve_seat (r_id res) now s)"
proof -
  note fresh = fresh_reservation [OF keys a]
  have "i_seat i \<in> set ids" using i fresh(5) by (metis image_eqI image_set)
  then obtain s where s: "s \<in> set (db_seats d)" "s_id s = i_seat i" "s_plan s = r_plan res"
      "reservable now (r_user res) s" "new_item d bp (r_id res) s \<in> set items"
    using fresh(7) by blast
  have inj: "inj_on i_seat (set items)" using fresh(5,6) by (metis distinct_map)
  have "i_seat i = i_seat (new_item d bp (r_id res) s)" using s(2) by (simp add: new_item_def)
  then have "i = new_item d bp (r_id res) s" by (rule inj_onD [OF inj _ i s(5)])
  then have "i_price i = seat_price d bp s" by (simp add: new_item_def)
  moreover have "seat_of d (i_seat i) = Some s"
    using keys s(1) find_row_distinct s(2) unfolding keys_ok_def by metis
  then have "seat_of d' (i_seat i) = Some (reserve_seat (r_id res) now s)"
    using rsv.find_after [of "i_seat i"] fresh(8) s(2) \<open>i_seat i \<in> set ids\<close> by simp
  ultimately show ?thesis using s by blast
qed

lemma created_answer:
  assumes keys: "keys_ok d" and a: "AtomicReserveAndCreate f now ids res bp m d = (Inr (r, items), d')"
  shows "distinct ids \<and> map sd_seat (toSeatDetails items) = ids \<and>
    (\<forall>x \<in> set (toSeatDetails items). \<exists>s \<in> set (db_seats d).
       s_id s = sd_seat x \<and> s_plan s = r_plan res \<and> reservable now (r_user res) s \<and>
       sd_price x = seat_price d bp s \<and> seat_of d' (sd_seat x) = Some (reserve_seat (r_id res) now s))"
  using fresh_reservation(5,6) [OF keys a] reserved_item_row [OF keys a]
  by (auto simp: toSeatDetails_def comp_def)

lemma refused_answer:
  assumes "reserve_and_answer c enforced f f1 rf now t ids res unavail w = (ans, w')"
  shows "\<forall>a. ans = Inr a \<longrightarrow> \<not> rs_success a \<longrightarrow> rs_unavailable a = unavail \<and>
    AtomicReserveAndCreate f now ids res (ti_price t) (seatLimit enforced t) (hw_db w) = (Inl ErrSeatNotAvailable, hw_db w')"
  using assms
  by (auto simp: reserve_and_answer_def Synced_Reserve_def split: prod.splits sum.splits venue_error.splits)

section \<open>Properties\<close>


text \<open>A request for the free seat of the small venue, and its witness.\<close>

definition ex_request :: reserve_request where
  "ex_request = \<lparr>rq_plan = ''plan'', rq_ticket = ''t'', rq_reservation = ''r2'', rq_user = ''U2'',
     rq_seats = [''C''], rq_expires = Some 40\<rparr>"

definition ex_ticket :: "lookup_error + ticket_info" where
  "ex_ticket = Inr \<lparr>ti_price = ''30.00'', ti_max_per_user = 2\<rparr>"

definition ex_answer :: reserve_response where
  "ex_answer = \<lparr>rs_success = True, rs_reservation = ''r2'', rs_seats = [\<lparr>sd_seat = ''C'', sd_section = ''sec'',
     sd_label = ''C'', sd_price = ''30.00''\<rparr>], rs_unavailable = []\<rparr>"

definition ex_reserved :: hold_world where
  "ex_reserved = snd (ReserveHeldSeats ex_config True no_faults no_faults no_faults no_redis_faults 12 ex_ticket
     ex_request ex1 ex_synced)"

lemma ex_reserved_run:
  "ReserveHeldSeats ex_config True no_faults no_faults no_faults no_redis_faults 12 ex_ticket
     ex_request ex1 ex_synced = (Inr ex_answer, ex_reserved)"
proof -
  have "fst (ReserveHeldSeats ex_config True no_faults no_faults no_faults no_redis_faults 12 ex_ticket
     ex_request ex1 ex_synced) = Inr ex_answer" by code_simp
  then show ?thesis by (simp add: ex_reserved_def prod_eq_iff)
qed

lemma ex_synced_db [simp]: "hw_db ex_synced = ex1"
  by (simp add: ex_synced_def)

lemma ex1_keys: "keys_ok ex1"
  using ex1_ok by (simp add: ledger_ok_def)


text \<open>
  C22: The answer of a reserve is the truth about the tables. A refusal changes nothing, unless
  the answer of the commit was lost, and lists the requested seats when they were not free; a
  success on a new reservation has exactly the requested seats, in order, each one reserved in the
  database for this reservation, and priced by its tier, its section's or the ticket.
\<close>

theorem reserve_answer_is_true:
  assumes keys: "keys_ok (hw_db w)" and s0: "ledger_ext s0 (hw_db w)"
    and run: "ReserveHeldSeats c enforced f0 f f1 rf now ticket req s0 w = (ans, w')"
  shows "case ans of
      Inl e \<Rightarrow> hw_db w' = hw_db w \<or> f CommitLost
    | Inr a \<Rightarrow>
        if \<not> rs_success a then hw_db w' = hw_db w \<and> rs_unavailable a = rq_seats req
        else reservation_of (hw_db w) (rq_reservation req) \<noteq> None \<or>
          distinct (rq_seats req) \<and> map sd_seat (rs_seats a) = rq_seats req \<and>
          (\<exists>t. ticket = Inr t \<and> (\<forall>x \<in> set (rs_seats a). \<exists>s \<in> set (db_seats (hw_db w)).
             s_id s = sd_seat x \<and> s_plan s = rq_plan req \<and> reservable now (rq_user req) s \<and>
             sd_price x = seat_price (hw_db w) (ti_price t) s \<and>
             seat_of (hw_db w') (sd_seat x) = Some (reserve_seat (rq_reservation req) now s)))"
proof (cases "existing_answer f0 (rq_reservation req) s0")
  case (Some x)
  have "w' = w" using run Some by (auto simp: ReserveHeldSeats_def split: if_splits)
  moreover have "reservation_of (hw_db w) (rq_reservation req) \<noteq> None \<and> rs_success a" if "ans = Inr a" for a
  proof -
    have "x = Inr a" using run that Some by (auto simp: ReserveHeldSeats_def split: if_splits)
    then show ?thesis
      using existing_answer_shows shows_later [OF _ s0] Some unfolding shows_reservation_def by fastforce
  qed
  ultimately show ?thesis by (cases ans) auto
next
  case None
  let ?res = "new_reservation (rq_reservation req) (rq_plan req) (rq_ticket req) (rq_user req) [] (rq_expires req)"
  have res: "r_id ?res = rq_reservation req" "r_plan ?res = rq_plan req" "r_user ?res = rq_user req"
    by (simp_all add: new_reservation_def)
  show ?thesis
  proof (cases "w' = w \<and> isl ans")
    case True
    then show ?thesis by (auto simp: isl_def)
  next
    case False
    then obtain t where t: "ticket = Inr t" and
      r: "reserve_and_answer c enforced f f1 rf now t (rq_seats req) ?res (rq_seats req) w = (ans, w')"
      using run None by (cases ticket) (auto simp: ReserveHeldSeats_def split: if_splits)
    from r show ?thesis
    proof (cases rule: reserve_and_answer_cases)
      case (created r items)
      then show ?thesis using created_answer [OF keys created(2)] t unfolding res by (simp add: reserved_answer_def)
    next
      case duplicate
      then show ?thesis using AtomicReserveAndCreate_duplicate [OF duplicate(2)] res(1) refused_answer [OF r]
        by (cases ans) auto
    next
      case (refused e)
      then show ?thesis
        using AtomicReserveAndCreate_error_state [OF refused(3)] refused_answer [OF r] by (cases ans) auto
    qed
  qed
qed

lemma reserve_answer_is_true_witness:
  "map sd_seat (rs_seats ex_answer) = rq_seats ex_request \<and> reservation_of ex1 ''r2'' = None"
proof -
  have "reservation_of ex1 ''r2'' = None" by code_simp
  moreover have "keys_ok (hw_db ex_synced)" "ledger_ext ex1 (hw_db ex_synced)" "rs_success ex_answer"
    using ex1_keys ledger_ext_refl by (simp_all add: ex_answer_def)
  ultimately show ?thesis
    using reserve_answer_is_true [OF _ _ ex_reserved_run] by (auto simp: ex_request_def)
qed

lemma available_in_section:
  assumes "GetAvailableSeatsInSection collate f sec d = Inr seats"
  shows "set seats = {s \<in> set (db_seats d). s_section s = sec \<and> s_status s = SeatStatusAvailable}"
    "distinct (map s_id (db_seats d)) \<Longrightarrow> distinct (map s_id seats)"
proof -
  let ?k = "\<lambda>s. (collate (s_row s), s_column s)"
  let ?av = "filter (\<lambda>s. s_section s = sec \<and> s_status s = SeatStatusAvailable) (db_seats d)"
  have eq: "seats = sort_key ?k ?av"
    using assms by (auto simp: GetAvailableSeatsInSection_def scanSeats_def bind_res_def stmt_def split: if_splits)
  show "set seats = {s \<in> set (db_seats d). s_section s = sec \<and> s_status s = SeatStatusAvailable}"
    unfolding eq by auto
  show "distinct (map s_id seats)" if "distinct (map s_id (db_seats d))"
    unfolding eq using that by (auto simp: distinct_map intro: inj_on_subset)
qed

text \<open>
  Auto-assignment reserves what was asked. Whatever order the sorts give to ties, a success
  on a new reservation holds exactly the requested number of different seats, all of them
  available in the requested section when the section was read, and reserved in the database for
  this reservation afterwards; any other answer left the tables as they were, unless the answer
  of the commit was lost.
\<close>

theorem auto_assign_gives_quantity:
  assumes sorts: "slice_sort rsort" "slice_sort fsort"
    and keys: "keys_ok (hw_db w)" "distinct (map s_id (db_seats s1))"
    and new: "existing_answer f0 (aq_reservation req) s0 = None"
    and run: "AutoAssignAndReserve rsort fsort collate c enforced f0 fa f f1 rf now ticket req s0 s1 w = (ans, w')"
  shows "(\<exists>a. ans = Inr a \<and> rs_success a \<and>
       (reservation_of (hw_db w) (aq_reservation req) \<noteq> None \<or>
        int (length (rs_seats a)) = sint (aq_quantity req) \<and> distinct (map sd_seat (rs_seats a)) \<and>
        (\<forall>x \<in> set (rs_seats a).
           (\<exists>s \<in> set (db_seats s1). s_id s = sd_seat x \<and> s_section s = aq_section req \<and> s_status s = SeatStatusAvailable) \<and>
           (\<exists>s. seat_of (hw_db w') (sd_seat x) = Some s \<and> s_status s = SeatStatusReserved \<and>
              s_held_by s = Some (aq_reservation req))))) \<or>
     hw_db w' = hw_db w \<or> f CommitLost"
proof (cases "hw_db w' = hw_db w")
  case False
  let ?res = "new_reservation (aq_reservation req) (aq_plan req) (aq_ticket req) (aq_user req) (aq_section req) (aq_expires req)"
  have res: "r_id ?res = aq_reservation req" "r_plan ?res = aq_plan req" "r_user ?res = aq_user req"
    by (simp_all add: new_reservation_def)
  obtain seats ids t where seats: "GetAvailableSeatsInSection collate fa (aq_section req) s1 = Inr seats"
      and ids: "FindBestBlock rsort fsort seats (sint (aq_quantity req)) = Inr ids"
      and r: "reserve_and_answer c enforced f f1 rf now t ids ?res [] w = (ans, w')"
      and q: "0 < sint (aq_quantity req)"
    using run new False
    by (auto simp: AutoAssignAndReserve_def split: if_splits sum.splits venue_error.splits assign_error.splits)
  have "block_sorts rsort fsort" using sorts by (rule block_sorts.intro)
  note sound = block_sorts.answer_sound [OF this ids available_in_section(2) [OF seats keys(2)]]
  from r show ?thesis
  proof (cases rule: reserve_and_answer_cases)
    case (created r items)
    let ?ss = "toSeatDetails items"
    note c = created_answer [OF keys(1) created(2), unfolded res]
    have "int (length ?ss) = sint (aq_quantity req) \<and> distinct (map sd_seat ?ss)"
      using c sound q by (metis length_map int_nat_eq less_imp_le)
    moreover have "\<exists>s \<in> set (db_seats s1). s_id s = sd_seat x \<and> s_section s = aq_section req \<and>
        s_status s = SeatStatusAvailable" if "x \<in> set ?ss" for x
    proof -
      have "sd_seat x \<in> set ids" using c that by (metis image_eqI image_set)
      then have "sd_seat x \<in> s_id ` set seats" using sound by blast
      then show ?thesis unfolding available_in_section(1) [OF seats] by force
    qed
    moreover have "\<exists>s. seat_of (hw_db w') (sd_seat x) = Some s \<and> s_status s = SeatStatusReserved \<and>
        s_held_by s = Some (aq_reservation req)" if "x \<in> set ?ss" for x
      using c that by fastforce
    moreover have "ans = Inr (reserved_answer (r_id r) items)" by (rule created(1))
    ultimately show ?thesis by (auto simp: reserved_answer_def)
  next
    case duplicate
    then show ?thesis using AtomicReserveAndCreate_duplicate [OF duplicate(2)] by simp
  next
    case (refused e)
    then show ?thesis using AtomicReserveAndCreate_error_state [OF refused(3)] by blast
  qed
qed simp

definition ex_assign :: assign_request where
  "ex_assign = \<lparr>aq_plan = ''plan'', aq_ticket = ''t'', aq_section = ''sec'', aq_reservation = ''r2'',
     aq_user = ''U2'', aq_quantity = 1, aq_expires = Some 40\<rparr>"

definition ex_assigned :: "(grpc_status + reserve_response) \<times> hold_world" where
  "ex_assigned = AutoAssignAndReserve sort_key sort_key id ex_config True no_faults no_faults no_faults no_faults
     no_redis_faults 12 ex_ticket ex_assign ex1 ex1 ex_synced"

lemma auto_assign_gives_quantity_witness:
  "\<exists>a. fst ex_assigned = Inr a \<and> rs_success a \<and> length (rs_seats a) = 1"
proof -
  have r: "AutoAssignAndReserve sort_key sort_key id ex_config True no_faults no_faults no_faults no_faults
     no_redis_faults 12 ex_ticket ex_assign ex1 ex1 ex_synced = (fst ex_assigned, snd ex_assigned)"
    by (simp add: ex_assigned_def)
  have "reservation_of (hw_db (snd ex_assigned)) ''r2'' \<noteq> None" "reservation_of ex1 ''r2'' = None" by code_simp+
  moreover have "existing_answer no_faults (aq_reservation ex_assign) ex1 = None" by code_simp
  moreover have "distinct (map s_id (db_seats ex1))" using ex1_keys by (simp add: keys_ok_def)
  ultimately show ?thesis
    using auto_assign_gives_quantity [OF stable.slice_sort_axioms stable.slice_sort_axioms _ _ _ r] ex1_keys
    by (fastforce simp: ex_assign_def)
qed

section \<open>Order events\<close>

abbreviation status_in :: "venue_db \<Rightarrow> string \<Rightarrow> reservation_status set \<Rightarrow> bool" where
  "status_in d rid S \<equiv> (\<exists>r. reservation_of d rid = Some r \<and> r_status r \<in> S)"

lemma ledger_ext_final:
  assumes "ledger_ext s d" "reservation_of s rid = Some r" "r_status r \<noteq> ReservationStatusReserved"
  shows "reservation_of d rid = Some r"
  using assms unfolding ledger_ext_def by (metis (full_types))

text \<open>A claim that found nothing to claim reports the state the reservation is in.\<close>

lemma claim_refused:
  assumes run: "run_tx ErrDb f (claim_tx f rid want uR uS ids d) d = (Inl e, d')"
    and r: "reservation_of d rid = Some r" and e: "e \<noteq> ErrDb"
  shows "d' = d \<and> r_status r \<noteq> ReservationStatusReserved \<and>
    e = (if r_status r = want \<or> want = ReservationStatusReleased \<and> r_status r = ReservationStatusExpired
         then ErrReservationAlreadyDone else ErrReservationConflict)"
proof -
  have a: "claim_tx f rid want uR uS ids d = TxAbort e \<and> d' = d"
    using run e by (auto simp: run_tx_def split: tx_out.splits if_splits)
  then have "rows_affected (claimable rid) (db_reservations d) = 0 \<and> e = currentStateErr f 3 rid want d"
    using e by (auto simp: claim_tx_def on_ok_def stmt_def Let_def split: if_splits)
  moreover from this have "r_status r \<noteq> ReservationStatusReserved"
    using find_row_Some_iff_set [OF r] by (auto simp: rows_affected_zero claimable_def)
  ultimately show ?thesis using a e r by (auto simp: currentStateErr_def split: if_splits)
qed

lemma claim_accepted:
  assumes "keyed_update r_id uR" "run_tx ErrDb f (claim_tx f rid want uR uS ids d) d = (Inr u, d')" "keys_ok d"
    "\<And>r. r_status (uR r) = st"
  shows "status_in d' rid {st}"
proof -
  have e: "rows_affected (claimable rid) (db_reservations d) \<noteq> 0"
      "db_reservations d' = sql_update (claimable rid) uR (db_reservations d)"
    using assms(2) by (auto simp: run_tx_Inr claim_tx_def commit_iffs Let_def split: if_splits)
  obtain r where "reservation_of d rid = Some r" "r_status r = ReservationStatusReserved"
    using claimable_row [OF assms(3) e(1)] by blast
  then show ?thesis using e(2) claimable_find [OF assms(1), of rid rid] assms(4) by simp
qed

abbreviation gone :: "reservation_status set" where
  "gone \<equiv> {ReservationStatusReleased, ReservationStatusExpired}"

lemma FinalizeReservation_outcome:
  assumes ext: "ledger_ext snap d" and keys: "keys_ok d"
    and run: "FinalizeReservation f now rid oid snap d = (a, d')"
  shows "case a of
      Inr u \<Rightarrow> status_in d' rid {ReservationStatusSold}
    | Inl e \<Rightarrow> (e = ErrReservationAlreadyDone \<longrightarrow> status_in d' rid {ReservationStatusSold}) \<and>
        (e = ErrReservationConflict \<longrightarrow> status_in d' rid gone) \<and>
        (e = ErrReservationNotFound \<longrightarrow> reservation_of snap rid = None)"
proof (cases "FindReservationByID f rid snap")
  case (Inl e)
  then show ?thesis using run
    by (auto simp: FinalizeReservation_def FindReservationByID_def bind_res_def stmt_def
        split: if_splits option.splits)
next
  case (Inr v)
  obtain r items where v: "v = (r, items)" by fastforce
  have r: "reservation_of snap rid = Some r"
    using Inr v by (auto simp: FindReservationByID_def bind_res_def stmt_def split: if_splits option.splits)
  show ?thesis
  proof (cases "r_status r = ReservationStatusReserved")
    case False
    then show ?thesis using ledger_ext_final [OF ext r] run Inr v
      by (cases "r_status r") (auto simp: FinalizeReservation_def)
  next
    case True
    have tx: "run_tx ErrDb f (claim_tx f rid ReservationStatusSold (mark_sold oid now) (sell_seat now)
        (map i_seat items) d) d = (a, d')"
      using run Inr v True by (simp add: FinalizeReservation_def)
    obtain r' where r': "reservation_of d rid = Some r'" using ext r unfolding ledger_ext_def by blast
    show ?thesis
    proof (cases a)
      case (Inr u)
      then show ?thesis using claim_accepted [OF marksold.keyed_update_axioms tx [unfolded Inr] keys] by simp
    next
      case (Inl e)
      then show ?thesis
        using claim_refused [OF tx [unfolded Inl] r'] r' by (cases "r_status r'") auto
    qed
  qed
qed

lemma ReleaseReservation_outcome:
  assumes ext: "ledger_ext snap d" and keys: "keys_ok d"
    and run: "ReleaseReservation f now rid snap d = (a, d')"
  shows "case a of
      Inr u \<Rightarrow> status_in d' rid gone
    | Inl e \<Rightarrow> (e = ErrReservationAlreadyDone \<longrightarrow> status_in d' rid gone) \<and>
        (e = ErrReservationConflict \<longrightarrow> status_in d' rid {ReservationStatusSold}) \<and>
        (e = ErrReservationNotFound \<longrightarrow> reservation_of snap rid = None)"
proof (cases "FindReservationByID f rid snap")
  case (Inl e)
  then show ?thesis using run
    by (auto simp: ReleaseReservation_def FindReservationByID_def bind_res_def stmt_def
        split: if_splits option.splits)
next
  case (Inr v)
  obtain r items where v: "v = (r, items)" by fastforce
  have r: "reservation_of snap rid = Some r"
    using Inr v by (auto simp: FindReservationByID_def bind_res_def stmt_def split: if_splits option.splits)
  show ?thesis
  proof (cases "r_status r = ReservationStatusReserved")
    case False
    then show ?thesis using ledger_ext_final [OF ext r] run Inr v
      by (cases "r_status r") (auto simp: ReleaseReservation_def)
  next
    case True
    have tx: "run_tx ErrDb f (claim_tx f rid ReservationStatusReleased (set_status ReservationStatusReleased now)
        (free_seat now) (map i_seat items) d) d = (a, d')"
      using run Inr v True by (simp add: ReleaseReservation_def)
    obtain r' where r': "reservation_of d rid = Some r'" using ext r unfolding ledger_ext_def by blast
    show ?thesis
    proof (cases a)
      case (Inr u)
      then show ?thesis
        using claim_accepted [OF mark.keyed_update_axioms tx [unfolded Inr] keys, of ReservationStatusReleased] by auto
    next
      case (Inl e)
      then show ?thesis
        using claim_refused [OF tx [unfolded Inl] r'] r' by (cases "r_status r'") auto
    qed
  qed
qed

text \<open>
  Order events can be delivered any number of times. When the handler of a completed order
  succeeds, the reservation is sold in the database, or the lookup did not know it; it fails with
  a conflict only when the reservation was released or expired before the order completed. When
  the handler of a cancelled order succeeds, the reservation is released or expired, or unknown;
  it fails with a conflict only when it is sold.
\<close>

theorem order_events_settle:
  assumes ext: "ledger_ext s1 (hw_db w)" and keys: "keys_ok (hw_db w)"
  shows "(case OnOrderCompleted c f f1 rf now rid oid s1 w of
      (Inr u, w') \<Rightarrow> reservation_of s1 rid = None \<or> status_in (hw_db w') rid {ReservationStatusSold}
    | (Inl e, w') \<Rightarrow> e = ErrReservationConflict \<longrightarrow>
        status_in (hw_db w') rid {ReservationStatusReleased, ReservationStatusExpired}) \<and>
   (case OnOrderCancelled c f0 f rf now rid s0 s1 w of
      (Inr u, w') \<Rightarrow> reservation_of s1 rid = None \<or>
        status_in (hw_db w') rid {ReservationStatusReleased, ReservationStatusExpired}
    | (Inl e, w') \<Rightarrow> e = ErrReservationConflict \<longrightarrow> status_in (hw_db w') rid {ReservationStatusSold})"
proof
  obtain a d' where fin: "FinalizeReservation f now rid oid s1 (hw_db w) = (a, d')" by fastforce
  show "case OnOrderCompleted c f f1 rf now rid oid s1 w of
      (Inr u, w') \<Rightarrow> reservation_of s1 rid = None \<or> status_in (hw_db w') rid {ReservationStatusSold}
    | (Inl e, w') \<Rightarrow> e = ErrReservationConflict \<longrightarrow>
        status_in (hw_db w') rid {ReservationStatusReleased, ReservationStatusExpired}"
    using FinalizeReservation_outcome [OF ext keys fin] fin
    by (auto simp: OnOrderCompleted_def Synced_Finalize_def split: sum.splits venue_error.splits prod.splits)
  obtain b d'' where rel: "ReleaseReservation f now rid s1 (hw_db w) = (b, d'')" by fastforce
  show "case OnOrderCancelled c f0 f rf now rid s0 s1 w of
      (Inr u, w') \<Rightarrow> reservation_of s1 rid = None \<or>
        status_in (hw_db w') rid {ReservationStatusReleased, ReservationStatusExpired}
    | (Inl e, w') \<Rightarrow> e = ErrReservationConflict \<longrightarrow> status_in (hw_db w') rid {ReservationStatusSold}"
    using ReleaseReservation_outcome [OF ext keys rel] rel
    by (auto simp: OnOrderCancelled_def Synced_Release_def Let_def split: sum.splits venue_error.splits prod.splits if_splits)
qed

lemma order_events_settle_witness:
  "status_in (hw_db (snd (OnOrderCompleted ex_config no_faults no_faults no_redis_faults 12 ''r1'' ''order1'' ex1 ex_synced)))
     ''r1'' {ReservationStatusSold}"
proof -
  let ?o = "OnOrderCompleted ex_config no_faults no_faults no_redis_faults 12 ''r1'' ''order1'' ex1 ex_synced"
  have "reservation_of ex1 ''r1'' \<noteq> None" "fst ?o = Inr ()" by code_simp+
  then show ?thesis
    using conjunct1 [OF order_events_settle [of ex1 ex_synced, where c = ex_config and f = no_faults
          and ?f1.0 = no_faults and rf = no_redis_faults and now = 12 and rid = "''r1''" and oid = "''order1''"]]
      ex1_keys ledger_ext_refl
    by (cases ?o) auto
qed

text \<open>A seat that was just reserved is not reservable again, for anybody, at any time.\<close>

lemma no_longer_reservable:
  assumes keys: "keys_ok d" and a: "AtomicReserveAndCreate f now ids res bp m d = (Inr (r, items), d')"
    and x: "x \<in> set ids"
  shows "\<not> (case find_row s_id x (lock_seats p qs d') of None \<Rightarrow> False | Some s \<Rightarrow> reservable t u s)"
proof
  assume "case find_row s_id x (lock_seats p qs d') of None \<Rightarrow> False | Some s \<Rightarrow> reservable t u s"
  then obtain s where s: "s \<in> set (db_seats d')" "s_id s = x" "reservable t u s"
    using lock_seats_find by blast
  then have "s_status s = SeatStatusReserved"
    using x unfolding fresh_reservation(8) [OF keys a] sql_update_def by (auto split: if_splits)
  then show False using s(3) by (simp add: reservable_def)
qed

text \<open>
  C25: A concurrent duplicate of a reserve is refused, not repeated. When two deliveries of the
  same request both looked the reservation up before either had created it, the second one finds
  the seats already reserved and answers that they are unavailable, although the reservation it
  asked for exists and holds them. The reload for concurrent duplicates is reached only when the
  seats of the two requests differ.
\<close>

theorem concurrent_duplicate_is_refused:
  assumes keys: "keys_ok (hw_db w)" and unknown: "existing_answer f0 (rq_reservation req) s0 = None"
      "reservation_of (hw_db w) (rq_reservation req) = None" "reservation_of s1 (rq_reservation req) = None"
    and first: "ReserveHeldSeats c enforced f0 f f1 rf now ticket req s0 w = (Inr a, w')" "rs_success a"
  shows "fst (ReserveHeldSeats c enforced no_faults no_faults f1' rf' now' (Inr t) req s1 w')
     = Inr \<lparr>rs_success = False, rs_reservation = [], rs_seats = [], rs_unavailable = rq_seats req\<rparr>"
proof -
  let ?res = "new_reservation (rq_reservation req) (rq_plan req) (rq_ticket req) (rq_user req) [] (rq_expires req)"
  let ?d = "hw_db w'"
  have res: "r_id ?res = rq_reservation req" "r_plan ?res = rq_plan req" "r_user ?res = rq_user req"
    by (simp_all add: new_reservation_def)
  have valid: "\<not> (rq_plan req = [] \<or> rq_ticket req = [] \<or> rq_reservation req = [] \<or> rq_user req = [])" "rq_seats req \<noteq> []"
    using first by (auto simp: ReserveHeldSeats_def split: if_splits)
  obtain t0 where r: "reserve_and_answer c enforced f f1 rf now t0 (rq_seats req) ?res (rq_seats req) w = (Inr a, w')"
    using first(1) valid unknown(1) by (cases ticket) (auto simp: ReserveHeldSeats_def)
  then obtain v items where created: "AtomicReserveAndCreate f now (rq_seats req) ?res (ti_price t0)
      (seatLimit enforced t0) (hw_db w) = (Inr (v, items), ?d)"
  proof (cases rule: reserve_and_answer_cases)
    case (created v items)
    show thesis by (rule that [OF created(2)])
  next
    case duplicate
    then show thesis using AtomicReserveAndCreate_duplicate [OF duplicate(2)] unknown(2) res by simp
  next
    case (refused e)
    then show thesis using first(2) by simp
  qed
  obtain x xs where x: "rq_seats req = x # xs" using valid(2) by (cases "rq_seats req") auto
  have "\<not> (case find_row s_id x (lock_seats (rq_plan req) (x # xs) ?d) of None \<Rightarrow> False
      | Some s \<Rightarrow> reservable now' (rq_user req) s)"
    using no_longer_reservable [OF keys created] x by simp
  then have refused: "AtomicReserveAndCreate no_faults now' (rq_seats req) ?res (ti_price t) (seatLimit enforced t) ?d
      = (Inl ErrSeatNotAvailable, ?d)"
    unfolding AtomicReserveAndCreate_def x res
    by (simp add: on_ok_def stmt_def lockBuyerOnPlan_def run_tx_def)
  have "existing_answer no_faults (rq_reservation req) s1 = None"
    using unknown(3) by (simp add: existing_answer_def FindReservationByID_def stmt_def)
  then show ?thesis
    using valid refused by (simp add: ReserveHeldSeats_def reserve_and_answer_def Synced_Reserve_def)
qed

lemma concurrent_duplicate_is_refused_witness:
  "fst (ReserveHeldSeats ex_config True no_faults no_faults no_faults no_redis_faults 13
     (Inr \<lparr>ti_price = ''30.00'', ti_max_per_user = 2\<rparr>) ex_request ex1 ex_reserved)
     = Inr \<lparr>rs_success = False, rs_reservation = [], rs_seats = [], rs_unavailable = [''C'']\<rparr>"
proof -
  have "existing_answer no_faults (rq_reservation ex_request) ex1 = None"
       "reservation_of ex1 (rq_reservation ex_request) = None" by code_simp+
  then show ?thesis
    using concurrent_duplicate_is_refused [OF _ _ _ _ ex_reserved_run, of ex1 no_faults no_redis_faults 13
        "\<lparr>ti_price = ''30.00'', ti_max_per_user = 2\<rparr>"] ex1_keys
    by (simp add: ex_answer_def ex_request_def)
qed

end
