(* ===== verification/Redis_Reconciler.thy ===== *)
theory Redis_Reconciler
  imports Hold_Manager
begin

text \<open>
  The reconciler that refills a lost Redis hash from PostgreSQL
  (\<^verbatim>\<open>venue-service/internal/reconciler/redis_reconciler.go\<close>), and what it and the availability
  snapshot show of the seats table.
\<close>

fun seatStateByte :: "seat_status \<Rightarrow> string" where
  "seatStateByte SeatStatusAvailable = ''0''"
| "seatStateByte SeatStatusHeld = ''1''"
| "seatStateByte SeatStatusReserved = ''2''"
| "seatStateByte SeatStatusSold = ''3''"
| "seatStateByte SeatStatusBlocked = ''4''"

text \<open>The fields of one \<^verbatim>\<open>HSET\<close>: the seats of all sections, in order.\<close>

fun collect_fields ::
  "(string \<Rightarrow> string) \<Rightarrow> (string \<Rightarrow> faults) \<Rightarrow> plan_section list \<Rightarrow> venue_db \<Rightarrow> venue_error + (string \<times> string) list" where
  "collect_fields collate fs [] d = Inr []"
| "collect_fields collate fs (sec # secs) d =
     bind_res (FindSeatsBySection collate (fs (sec_id sec)) (sec_id sec) d) (\<lambda>seats.
     bind_res (collect_fields collate fs secs d) (\<lambda>rest.
       Inr (map (\<lambda>s. (s_id s, seatStateByte (s_status s))) seats @ rest)))"

text \<open>
  \<open>rf\<close> numbers the two Redis calls of a plan: 0 is \<^verbatim>\<open>EXISTS\<close>, 1 the \<^verbatim>\<open>HSET\<close>. A hash exists when it
  has a field.
\<close>

definition reconcilePlan ::
  "(string \<Rightarrow> string) \<Rightarrow> faults \<Rightarrow> (string \<Rightarrow> faults) \<Rightarrow> redis_faults \<Rightarrow> string \<Rightarrow> venue_db \<Rightarrow> redis
     \<Rightarrow> (hold_error + unit) \<times> redis" where
  "reconcilePlan collate fl fs rf planID d rd =
     (if rf (RFail 0) \<or> rf (RLost 0) then (Inl HRedis, rd)
      else if rd_seats rd planID \<noteq> [] then (Inr (), rd)
      else case bind_res (ListSectionsByPlan fl planID d) (\<lambda>secs. collect_fields collate fs secs d) of
             Inl e \<Rightarrow> (Inl (HRepo e), rd)
           | Inr fvs \<Rightarrow>
               if fvs = [] then (Inr (), rd)
               else case redis_call rf 1 ((), fold (\<lambda>(sid, st). hset planID sid st) fvs rd) rd of
                      (None, rd') \<Rightarrow> (Inl HRedis, rd')
                    | (Some u, rd') \<Rightarrow> (Inr (), rd'))"

text \<open>One pass: an error on a plan is logged and the next plan is tried.\<close>

definition Reconciler_Run ::
  "(string \<Rightarrow> string) \<Rightarrow> faults \<Rightarrow> (string \<Rightarrow> faults) \<Rightarrow> (string \<Rightarrow> string \<Rightarrow> faults) \<Rightarrow> (string \<Rightarrow> redis_faults)
     \<Rightarrow> venue_db \<Rightarrow> redis \<Rightarrow> (venue_error + unit) \<times> redis" where
  "Reconciler_Run collate fa fl fs rf d rd =
     (case ListActivePlans fa d of
        Inl e \<Rightarrow> (Inl e, rd)
      | Inr plans \<Rightarrow>
          (Inr (), fold (\<lambda>p rd. snd (reconcilePlan collate (fl (p_id p)) (fs (p_id p)) (rf (p_id p)) (p_id p) d rd))
                     plans rd))"

section \<open>Facts\<close>

lemma FindSeatsBySection_Inr:
  "FindSeatsBySection collate f sid d = Inr ss \<Longrightarrow>
   set ss = {s \<in> set (db_seats d). s_section s = sid} \<and> mset ss = mset (filter (\<lambda>s. s_section s = sid) (db_seats d))"
  by (auto simp: FindSeatsBySection_def scanSeats_def commit_iffs)

lemma ListSectionsByPlan_Inr:
  "ListSectionsByPlan f pid d = Inr ss \<Longrightarrow>
   set ss = {s \<in> set (db_sections d). sec_plan s = pid} \<and> mset ss = mset (filter (\<lambda>s. sec_plan s = pid) (db_sections d))"
  by (auto simp: ListSectionsByPlan_def commit_iffs)

lemma fold_hset_other: "q \<noteq> p \<Longrightarrow> rd_seats (fold (\<lambda>(sid, st). hset p sid st) fs rd) q = rd_seats rd q"
  by (induction fs arbitrary: rd) (auto simp: hset_def)

lemma fold_hset_markers: "rd_markers (fold (\<lambda>(sid, st). hset p sid st) fs rd) = rd_markers rd"
  by (induction fs arbitrary: rd) (auto simp: hset_def)

lemma fold_hset_get:
  "distinct (map fst fs) \<Longrightarrow> hget (fold (\<lambda>(sid, st). hset p sid st) fs rd) p x =
     (case map_of fs x of Some st \<Rightarrow> Some st | None \<Rightarrow> hget rd p x)"
proof (induction fs arbitrary: rd)
  case (Cons f fs)
  obtain sid st where f: "f = (sid, st)" by fastforce
  have "map_of fs sid = None" using Cons.prems f by (simp add: map_of_eq_None_iff)
  moreover have "hget (hset p sid st rd) p x = (if x = sid then Some st else hget rd p x)"
    by (simp add: hget_def hset_def update_conv')
  ultimately show ?case using Cons.IH [of "hset p sid st rd"] Cons.prems f by (auto split: option.splits)
qed simp

lemma collect_fields_Inr:
  assumes "collect_fields collate fs secs d = Inr fvs"
  shows "set fvs = {(s_id s, seatStateByte (s_status s)) | s. s \<in> set (db_seats d) \<and> s_section s \<in> sec_id ` set secs}"
  using assms
proof (induction secs arbitrary: fvs)
  case (Cons sec secs)
  obtain ss rest where ss: "FindSeatsBySection collate (fs (sec_id sec)) (sec_id sec) d = Inr ss"
    and rest: "collect_fields collate fs secs d = Inr rest"
    and fvs: "fvs = map (\<lambda>s. (s_id s, seatStateByte (s_status s))) ss @ rest"
    using Cons.prems by (auto simp: commit_iffs)
  show ?case
    unfolding fvs using FindSeatsBySection_Inr [OF ss] Cons.IH [OF rest] by auto
qed auto

lemma collect_fields_distinct:
  assumes "collect_fields collate fs secs d = Inr fvs"
    "distinct (map s_id (db_seats d))" "distinct (map sec_id secs)"
  shows "distinct (map fst fvs)"
  using assms(1,3)
proof (induction secs arbitrary: fvs)
  case (Cons sec secs)
  obtain ss rest where ss: "FindSeatsBySection collate (fs (sec_id sec)) (sec_id sec) d = Inr ss"
    and rest: "collect_fields collate fs secs d = Inr rest"
    and fvs: "fvs = map (\<lambda>s. (s_id s, seatStateByte (s_status s))) ss @ rest"
    using Cons.prems(1) by (auto simp: commit_iffs)
  have "distinct (map s_id ss)"
    using conjunct2 [OF FindSeatsBySection_Inr [OF ss]] assms(2) by (rule distinct_map_perm_filter)
  moreover have "set (map s_id ss) \<inter> set (map fst rest) = {}"
  proof (rule ccontr)
    assume "set (map s_id ss) \<inter> set (map fst rest) \<noteq> {}"
    then obtain s x where s: "s \<in> set ss" "x \<in> set rest" "s_id s = fst x" by auto
    then obtain t where t: "x = (s_id t, seatStateByte (s_status t))" "t \<in> set (db_seats d)"
        "s_section t \<in> sec_id ` set secs"
      using collect_fields_Inr [OF rest] by auto
    have "s \<in> set (db_seats d)" "s_section s = sec_id sec" using FindSeatsBySection_Inr [OF ss] s(1) by auto
    then have "s = t" using distinct_key_eq [OF assms(2)] t s(3) by auto
    then show False using t(3) \<open>s_section s = sec_id sec\<close> Cons.prems(2) by auto
  qed
  moreover have "distinct (map fst rest)" using Cons.IH [OF rest] Cons.prems(2) by simp
  ultimately show ?case by (auto simp: fvs comp_def)
qed auto

section \<open>What a plan's hash should hold\<close>

definition in_plan :: "venue_db \<Rightarrow> string \<Rightarrow> seat \<Rightarrow> bool" where
  "in_plan d planID s \<longleftrightarrow> (\<exists>sec \<in> set (db_sections d). sec_plan sec = planID \<and> sec_id sec = s_section s)"

definition plan_byte :: "venue_db \<Rightarrow> string \<Rightarrow> string \<Rightarrow> string option" where
  "plan_byte d planID x =
     (case find_row s_id x (db_seats d) of
        None \<Rightarrow> None
      | Some s \<Rightarrow> if in_plan d planID s then Some (seatStateByte (s_status s)) else None)"

lemma map_of_collected:
  assumes keys: "distinct (map s_id (db_seats d))" "distinct (map fst fvs)"
    and mem: "\<And>x y. (x, y) \<in> set fvs \<longleftrightarrow>
      (\<exists>s \<in> set (db_seats d). s_id s = x \<and> y = seatStateByte (s_status s) \<and> in_plan d planID s)"
  shows "map_of fvs x = plan_byte d planID x"
proof (cases "map_of fvs x")
  case (Some y)
  then obtain s where s: "s \<in> set (db_seats d)" "s_id s = x" "y = seatStateByte (s_status s)" "in_plan d planID s"
    using mem map_of_SomeD by metis
  then have "find_row s_id x (db_seats d) = Some s" using find_row_distinct [OF keys(1) s(1)] by simp
  then show ?thesis using Some s by (simp add: plan_byte_def)
next
  case None
  then have no: "(x, y) \<notin> set fvs" for y using map_of_is_SomeI [OF keys(2)] by fastforce
  show ?thesis
  proof (cases "find_row s_id x (db_seats d)")
    case (Some s)
    then have "\<not> in_plan d planID s" using no mem find_row_Some_iff_set [OF Some] by blast
    then show ?thesis using None Some by (simp add: plan_byte_def)
  qed (use None in \<open>simp add: plan_byte_def\<close>)
qed

lemma plan_fields:
  assumes "distinct (map s_id (db_seats d))" "distinct (map sec_id (db_sections d))"
  shows "\<exists>fvs. bind_res (ListSectionsByPlan no_faults planID d) (\<lambda>secs. collect_fields collate (\<lambda>_. no_faults) secs d) = Inr fvs \<and>
    distinct (map fst fvs) \<and> (\<forall>x. map_of fvs x = plan_byte d planID x)"
proof -
  let ?secs = "sort_key sec_created (filter (\<lambda>s. sec_plan s = planID) (db_sections d))"
  have "\<exists>fvs. collect_fields collate (\<lambda>_. no_faults) secs d = Inr fvs" for secs
    by (induction secs) (auto simp: FindSeatsBySection_def scanSeats_def)
  then obtain fvs where fvs: "collect_fields collate (\<lambda>_. no_faults) ?secs d = Inr fvs" by blast
  have "distinct (map sec_id (filter (\<lambda>s. sec_plan s = planID) (db_sections d)))"
    using assms(2) by (rule distinct_map_filter)
  then have "distinct (map sec_id ?secs)" by (metis mset_eq_imp_distinct_iff mset_map mset_sort)
  then have df: "distinct (map fst fvs)" using collect_fields_distinct [OF fvs assms(1)] by blast
  have "(x, y) \<in> set fvs \<longleftrightarrow>
      (\<exists>s \<in> set (db_seats d). s_id s = x \<and> y = seatStateByte (s_status s) \<and> in_plan d planID s)" for x y
    unfolding collect_fields_Inr [OF fvs] in_plan_def by (auto simp: image_iff; metis)
  from map_of_collected [OF assms(1) df this] show ?thesis
    using fvs df by (simp add: ListSectionsByPlan_def)
qed

section \<open>Properties\<close>


definition ex_filled :: venue_db where
  "ex_filled = empty_db\<lparr>db_sections := [\<lparr>sec_id = ''sec'', sec_plan = ''plan'', sec_name = ''Stalls'', sec_type = ''ga'',
     sec_rows = 1, sec_columns = 2, sec_tier = [], sec_created = 1, sec_updated = 1\<rparr>],
     db_seats := [new_seat ''A'' 1 ''sec'' ''plan'' [] (''GA1'', ''GA'', 1),
                  (new_seat ''B'' 1 ''sec'' ''plan'' [] (''GA2'', ''GA'', 2))\<lparr>s_status := SeatStatusSold\<rparr>]\<rparr>"

definition ex_empty_redis :: redis where
  "ex_empty_redis = \<lparr>rd_seats = (\<lambda>_. []), rd_markers = (\<lambda>_. None), rd_user_holds = (\<lambda>_. []),
     rd_version = (\<lambda>_. 0), rd_published = []\<rparr>"


section \<open>The availability snapshot\<close>

lemma sum_bump: "distinct (map fst cs) \<Longrightarrow> sum_list (map snd (bump st cs)) = sum_list (map snd cs) + 1 \<and> distinct (map fst (bump st cs))"
proof (induction cs)
  case Nil
  then show ?case by (simp add: bump_def)
next
  case (Cons c cs)
  have keep: "AList.update k v cs' = cs' @ [(k, v)]" if "k \<notin> fst ` set cs'" for k v cs'
    using that by (induction cs') auto
  show ?case
  proof (cases "fst c = st")
    case True
    then show ?thesis using Cons.prems by (cases c) (auto simp: bump_def)
  next
    case False
    then have "bump st (c # cs) = c # bump st cs" by (cases c) (auto simp: bump_def)
    moreover have "fst ` set (bump st cs) \<subseteq> insert st (fst ` set cs)"
      by (auto simp: bump_def dom_update)
    ultimately show ?thesis using Cons False by auto
  qed
qed


lemma fold_add_seat:
  "distinct (map s_id ss) \<Longrightarrow>
   map_of (av_seats (fold (add_seat c xf now rd p sec) ss a)) x =
     (case find_row s_id x ss of
        Some s \<Rightarrow> Some \<lparr>se_status = shown_status c xf now rd p s, se_section = sec\<rparr>
      | None \<Rightarrow> map_of (av_seats a) x)"
proof (induction ss arbitrary: a)
  case (Cons s ss)
  have "find_row s_id (s_id s) ss = None" using Cons.prems by (simp add: find_row_None_iff)
  then show ?case
    using Cons by (auto simp: add_seat_def Let_def update_conv' split: option.splits)
qed simp

lemma fold_add_seat_counts:
  "distinct (map fst (av_counts a)) \<Longrightarrow>
   sum_list (map snd (av_counts (fold (add_seat c xf now rd p sec) ss a))) = sum_list (map snd (av_counts a)) + length ss \<and>
   distinct (map fst (av_counts (fold (add_seat c xf now rd p sec) ss a)))"
proof (induction ss arbitrary: a)
  case (Cons s ss)
  then show ?case using sum_bump [OF Cons.prems] by (simp add: add_seat_def Let_def)
qed simp

lemma fold_add_seat_frame:
  "av_version (fold (add_seat c xf now rd p sec) ss a) = av_version a"
  by (induction ss arbitrary: a) (simp_all add: add_seat_def Let_def)

lemma section_find:
  assumes "distinct (map s_id (db_seats d))" "FindSeatsBySection collate f sid d = Inr ss"
  shows "find_row s_id x ss =
    (case seat_of d x of None \<Rightarrow> None | Some s \<Rightarrow> if s_section s = sid then Some s else None)"
proof (cases "find_row s_id x ss")
  case None
  then have no: "x \<notin> s_id ` {s \<in> set (db_seats d). s_section s = sid}"
    using FindSeatsBySection_Inr [OF assms(2)] by (simp add: find_row_None_iff)
  show ?thesis
  proof (cases "seat_of d x")
    case (Some s)
    then have "s_section s \<noteq> sid" using no find_row_Some_iff_set [OF Some] by blast
    then show ?thesis using None Some by simp
  qed (use None in simp)
next
  case (Some s)
  then have "s \<in> set (db_seats d) \<and> s_section s = sid \<and> s_id s = x"
    using FindSeatsBySection_Inr [OF assms(2)] find_row_Some_iff_set [OF Some] by auto
  then show ?thesis using Some find_row_distinct [OF assms(1), of s] by auto
qed

lemma section_lengths:
  assumes "sec_id sec \<notin> sec_id ` set secs"
  shows "length (filter (\<lambda>s. s_section s \<in> sec_id ` set (sec # secs)) xs) =
    length (filter (\<lambda>s. s_section s = sec_id sec) xs) + length (filter (\<lambda>s. s_section s \<in> sec_id ` set secs) xs)"
  using assms by (induction xs) auto

lemma walk_sections_Inr:
  assumes "distinct (map s_id (db_seats (hw_db w)))"
  shows "walk_sections collate c fs xf now p secs w a = Inr a' \<Longrightarrow> distinct (map sec_id secs) \<Longrightarrow>
    distinct (map fst (av_counts a)) \<Longrightarrow>
    (\<forall>x. map_of (av_seats a') x =
      (case seat_of (hw_db w) x of
         Some s \<Rightarrow> if s_section s \<in> sec_id ` set secs
                   then Some \<lparr>se_status = shown_status c xf now (hw_redis w) p s, se_section = s_section s\<rparr>
                   else map_of (av_seats a) x
       | None \<Rightarrow> map_of (av_seats a) x)) \<and>
    sum_list (map snd (av_counts a')) = sum_list (map snd (av_counts a)) +
      length (filter (\<lambda>s. s_section s \<in> sec_id ` set secs) (db_seats (hw_db w))) \<and>
    av_version a' = av_version a"
proof (induction secs arbitrary: a)
  case Nil
  then show ?case by (auto split: option.splits)
next
  case (Cons sec secs)
  let ?d = "hw_db w"
  obtain ss where ss: "FindSeatsBySection collate (fs (sec_id sec)) (sec_id sec) ?d = Inr ss"
    and rest: "walk_sections collate c fs xf now p secs w
        (fold (add_seat c xf now (hw_redis w) p (sec_id sec)) ss a) = Inr a'"
    using Cons.prems(1) by (auto simp: commit_iffs)
  let ?a = "fold (add_seat c xf now (hw_redis w) p (sec_id sec)) ss a"
  note F = FindSeatsBySection_Inr [OF ss]
  have dss: "distinct (map s_id ss)"
    using conjunct2 [OF F] assms by (rule distinct_map_perm_filter)
  have len: "length ss = length (filter (\<lambda>s. s_section s = sec_id sec) (db_seats ?d))"
    using arg_cong [OF conjunct2 [OF F], of size] by (simp only: size_mset)
  note cnt = fold_add_seat_counts [OF Cons.prems(3), of c xf now "hw_redis w" p "sec_id sec" ss]
  note IH = Cons.IH [OF rest] 
  note ss_find = section_find [OF assms ss]
  have notin: "sec_id sec \<notin> sec_id ` set secs" using Cons.prems(2) by auto
  note flen = section_lengths [OF notin]
  have "sum_list (map snd (av_counts a')) = sum_list (map snd (av_counts a)) +
      length (filter (\<lambda>s. s_section s \<in> sec_id ` set (sec # secs)) (db_seats ?d))"
    using IH cnt len Cons.prems(2) unfolding flen by simp
  moreover have "map_of (av_seats a') x =
      (case seat_of ?d x of
         Some s \<Rightarrow> if s_section s \<in> sec_id ` set (sec # secs)
                   then Some \<lparr>se_status = shown_status c xf now (hw_redis w) p s, se_section = s_section s\<rparr>
                   else map_of (av_seats a) x
       | None \<Rightarrow> map_of (av_seats a) x)" for x
    using IH cnt Cons.prems(2) fold_add_seat [OF dss, of c xf now "hw_redis w" p "sec_id sec" a x] notin
    by (simp add: ss_find split: option.splits)
  moreover have "av_version a' = av_version a" using IH cnt Cons.prems(2) by (simp add: fold_add_seat_frame)
  ultimately show ?case by blast
qed


definition ex_shop :: hold_world where
  "ex_shop = \<lparr>hw_db = ex_filled\<lparr>db_plans := [ex_plan\<lparr>p_id := ''plan''\<rparr>]\<rparr>, hw_redis = ex_empty_redis,
     hw_local = (\<lambda>_. 0), hw_broadcast = []\<rparr>"


end
