(* ===== verification/Interleaving.thy ===== *)
theory Interleaving
  imports Prelude
begin

text \<open>
  Requests that run at the same time. A handler of ticket-service is a sequence of calls to
  MongoDB and Redis, each one atomic, with any number of calls of other requests in between. It
  is a process: either it is done with an answer, or it has a next call, which updates the shared
  state, and goes on with what the call answered. The same process is run alone by \<open>run_alone\<close> and together
  with others by the steps of a pool, in which a replica may also crash and leave its requests
  half done. The locale at the end is the proof rule: every process keeps an invariant that counts
  what the running processes still owe.
\<close>

section \<open>Processes\<close>

datatype ('s, 'a) proc = Ret 'a | Act "'s \<Rightarrow> 's" "'s \<Rightarrow> ('s, 'a) proc"

primrec bind_proc :: "('s, 'a) proc \<Rightarrow> ('a \<Rightarrow> ('s, 'b) proc) \<Rightarrow> ('s, 'b) proc" where
  "bind_proc (Ret a) h = h a"
| "bind_proc (Act u k) h = Act u (\<lambda>s. bind_proc (k s) h)"

lemma bind_bind: "bind_proc (bind_proc p h) h' = bind_proc p (\<lambda>a. bind_proc (h a) h')"
  by (induction p) auto

primrec run_alone :: "('s, 'a) proc \<Rightarrow> 's \<Rightarrow> 'a \<times> 's" where
  "run_alone (Ret a) s = (a, s)"
| "run_alone (Act u k) s = run_alone (k s) (u s)"

lemma run_alone_bind [simp]:
  "run_alone (bind_proc p h) s = (let (a, s') = run_alone p s in run_alone (h a) s')"
  by (induction p arbitrary: s) auto

text \<open>
  A call answers, fails before it did anything, or does its work and loses the answer; in the
  last two cases the caller sees an error.
\<close>

datatype outcome = Works | Fails | AnswerLost

definition call :: "outcome \<Rightarrow> ('s \<Rightarrow> 'r \<times> 's) \<Rightarrow> ('r option \<Rightarrow> ('s, 'a) proc) \<Rightarrow> ('s, 'a) proc" where
  "call oc g k = Act (\<lambda>s. if oc = Fails then s else snd (g s))
                     (\<lambda>s. k (if oc = Works then Some (fst (g s)) else None))"

lemma run_alone_call [simp]:
  "run_alone (call oc g k) s =
    (case oc of Works \<Rightarrow> run_alone (k (Some (fst (g s)))) (snd (g s))
     | Fails \<Rightarrow> run_alone (k None) s
     | AnswerLost \<Rightarrow> run_alone (k None) (snd (g s)))"
  by (cases oc) (simp_all add: call_def)

lemma bind_call [simp]: "bind_proc (call oc g k) h = call oc g (\<lambda>r. bind_proc (k r) h)"
  by (simp add: call_def)

text \<open>A call that only reads.\<close>

definition reads :: "('s \<Rightarrow> 'r) \<Rightarrow> 's \<Rightarrow> 'r \<times> 's" where
  "reads g s = (g s, s)"

lemma reads_simps [simp]: "fst (reads g s) = g s" "snd (reads g s) = s"
  by (simp_all add: reads_def)

section \<open>Pools\<close>

text \<open>\<open>start\<close> are the requests that may arrive.\<close>

inductive pool_step ::
  "(('s, 'a) proc \<Rightarrow> bool) \<Rightarrow> 's \<times> ('s, 'a) proc list \<Rightarrow> 's \<times> ('s, 'a) proc list \<Rightarrow> bool" for start where
  arrive: "start p \<Longrightarrow> pool_step start (s, ps) (s, p # ps)"
| step: "i < length ps \<Longrightarrow> ps ! i = Act u k \<Longrightarrow> pool_step start (s, ps) (u s, ps[i := k s])"
| crash: "pool_step start (s, ps @ p # qs) (s, ps @ qs)"

inductive pool_reach :: "(('s, 'a) proc \<Rightarrow> bool) \<Rightarrow> 's \<Rightarrow> 's \<times> ('s, 'a) proc list \<Rightarrow> bool" for start s0 where
  init: "pool_reach start s0 (s0, [])"
| more: "pool_reach start s0 c \<Longrightarrow> pool_step start c c' \<Longrightarrow> pool_reach start s0 c'"

text \<open>What a process that runs alone does is one of the things a pool does.\<close>

lemma pool_alone:
  "pool_reach start s0 (s, p # ps) \<Longrightarrow> pool_reach start s0 (snd (run_alone p s), Ret (fst (run_alone p s)) # ps)"
proof (induction p arbitrary: s)
  case (Act u k)
  have "pool_reach start s0 (u s, k s # ps)"
    using Act.prems pool_step.step [of 0 "Act u k # ps" u k start s] pool_reach.more by fastforce
  then show ?case using Act.IH [of "k s" "u s"] by simp
qed simp

lemma pool_request:
  "pool_reach start s0 (s, ps) \<Longrightarrow> start p \<Longrightarrow>
   pool_reach start s0 (snd (run_alone p s), Ret (fst (run_alone p s)) # ps)"
  using pool_alone pool_reach.more pool_step.arrive by metis

text \<open>A replica may crash right after the first call of a request.\<close>

lemma pool_first_call:
  assumes "pool_reach start s0 (s, ps)" "start (call Works g k)"
  shows "pool_reach start s0 (snd (g s), ps)"
proof -
  have "pool_reach start s0 (s, call Works g k # ps)"
    using assms pool_reach.more pool_step.arrive by metis
  moreover have "pool_step start (s, call Works g k # ps) (snd (g s), k (Some (fst (g s))) # ps)"
    using pool_step.step [of 0 "call Works g k # ps" "\<lambda>s. snd (g s)" "\<lambda>s. k (Some (fst (g s)))" start s]
    by (simp add: call_def)
  ultimately have "pool_reach start s0 (snd (g s), k (Some (fst (g s))) # ps)" by (rule pool_reach.more)
  moreover have "pool_step start (snd (g s), [] @ k (Some (fst (g s))) # ps) (snd (g s), [] @ ps)"
    by (rule pool_step.crash)
  ultimately show ?thesis using pool_reach.more by fastforce
qed

section \<open>The proof rule\<close>

text \<open>
  \<open>safe I d p\<close>: whatever the others owe, every call of \<open>p\<close>, which owes \<open>d\<close>, keeps the invariant,
  with some new debt of the process.
\<close>

primrec safe :: "('s \<Rightarrow> 'd::comm_monoid_add \<Rightarrow> bool) \<Rightarrow> ('s, 'a) proc \<Rightarrow> 'd \<Rightarrow> bool" where
  "safe I (Ret a) d = True"
| "safe I (Act u k) d = (\<forall>s e. I s (d + e) \<longrightarrow> (\<exists>d'. I (u s) (d' + e) \<and> safe I (k s) d'))"

lemma safe_bind:
  assumes "\<And>a d. safe I (h a) d"
  shows "safe I p d \<Longrightarrow> safe I (bind_proc p h) d"
  using assms by (induction p arbitrary: d) (simp_all, metis rangeI)

text \<open>A process that owes nothing and whose continuation is safe without debts.\<close>

lemma safe_call:
  assumes "\<And>s e. I s (d + e) \<Longrightarrow> oc = Works \<Longrightarrow>
      \<exists>d'. I (snd (g s)) (d' + e) \<and> safe I (k (Some (fst (g s)))) d'"
    and "\<And>s e. I s (d + e) \<Longrightarrow> oc = AnswerLost \<Longrightarrow> \<exists>d'. I (snd (g s)) (d' + e) \<and> safe I (k None) d'"
    and "oc = Fails \<Longrightarrow> safe I (k None) d"
  shows "safe I (call oc g k) d"
  using assms by (cases oc) (auto simp: call_def)

lemma safe_read:
  assumes "\<And>s e. I s (d + e) \<Longrightarrow> safe I (k (Some (g s))) d" "safe I (k None) d"
  shows "safe I (call oc (reads g) k) d"
  using assms by (intro safe_call) auto

text \<open>Run alone, a safe process ends in a state with the invariant.\<close>

lemma safe_run: "safe I p d \<Longrightarrow> I s (d + e) \<Longrightarrow> \<exists>d'. I (snd (run_alone p s)) (d' + e)"
proof (induction p arbitrary: s d)
  case (Act u k)
  then have "\<exists>d'. I (u s) (d' + e) \<and> safe I (k s) d'" unfolding safe.simps by blast
  then obtain d' where "I (u s) (d' + e)" "safe I (k s) d'" by blast
  then show ?case using Act.IH [of "k s" d' "u s"] by simp
next
  case (Ret a)
  then show ?case by (intro exI [of _ d]) simp
qed

text \<open>Debts may be forgiven, so a process may owe more than it needs to.\<close>

lemma safe_forgive:
  assumes "safe I p 0" "\<And>s d e. I s (d + e) \<Longrightarrow> I s e"
  shows "safe I p d"
proof (cases p)
  case (Act u k)
  then show ?thesis using assms by simp
qed simp

text \<open>A property every call keeps, whatever else happens.\<close>

primrec keeps :: "('s \<Rightarrow> bool) \<Rightarrow> ('s, 'a) proc \<Rightarrow> bool" where
  "keeps P (Ret a) = True"
| "keeps P (Act u k) = (\<forall>s. P s \<longrightarrow> P (u s) \<and> keeps P (k s))"

lemma keeps_bind:
  assumes "\<And>a. keeps P (h a)"
  shows "keeps P p \<Longrightarrow> keeps P (bind_proc p h)"
proof (induction p)
  case (Act u k)
  then have "keeps P (bind_proc (k s) h)" if "keeps P (k s)" for s using that by blast
  then show ?case using Act.prems by simp
qed (use assms in simp)

lemma keeps_call:
  assumes "\<And>s. P s \<Longrightarrow> P (snd (g s))" "\<And>r. keeps P (k r)"
  shows "keeps P (call oc g k)"
  using assms by (simp add: call_def)

lemma keeps_run: "keeps P p \<Longrightarrow> P s \<Longrightarrow> P (snd (run_alone p s))"
  by (induction p arbitrary: s) auto

lemma keeps_safe: "keeps P p \<Longrightarrow> safe (\<lambda>s d. P s) p d"
  by (induction p arbitrary: d) auto

text \<open>A process none of whose calls changes what \<open>v\<close> shows of the state, wherever it runs.\<close>

primrec leaves :: "('s \<Rightarrow> 'v) \<Rightarrow> ('s, 'a) proc \<Rightarrow> bool" where
  "leaves v (Ret a) = True"
| "leaves v (Act u k) = (\<forall>s. v (u s) = v s \<and> leaves v (k s))"

lemma leaves_bind:
  assumes "\<And>a. leaves v (h a)"
  shows "leaves v p \<Longrightarrow> leaves v (bind_proc p h)"
proof (induction p)
  case (Act u k)
  then have "leaves v (bind_proc (k s) h)" for s by simp
  then show ?case using Act.prems by simp
qed (use assms in simp)

lemma leaves_call:
  assumes "\<And>s. v (snd (g s)) = v s" "\<And>r. leaves v (k r)"
  shows "leaves v (call oc g k)"
  using assms by (simp add: call_def)

lemma leaves_safe:
  assumes "\<And>s s' d. v s' = v s \<Longrightarrow> I s d \<Longrightarrow> I s' d"
  shows "leaves v p \<Longrightarrow> safe I p d"
proof (induction p arbitrary: d)
  case (Act u k)
  then have "safe I (k s) d" "v (u s) = v s" for s d by auto
  then show ?case using assms by (simp, metis)
qed simp

text \<open>
  What the answers of a process say: \<open>earns\<close> is \<open>safe\<close> where a process that answered \<open>a\<close> holds a debt
  \<open>d\<close> with \<open>Q a d\<close>. The debt is then what its answer promises of the state, now and later.
\<close>

primrec earns :: "('s \<Rightarrow> 'd::comm_monoid_add \<Rightarrow> bool) \<Rightarrow> ('a \<Rightarrow> 'd \<Rightarrow> bool) \<Rightarrow> ('s, 'a) proc \<Rightarrow> 'd \<Rightarrow> bool" where
  "earns I Q (Ret a) d = Q a d"
| "earns I Q (Act u k) d = (\<forall>s e. I s (d + e) \<longrightarrow> (\<exists>d'. I (u s) (d' + e) \<and> earns I Q (k s) d'))"

lemma earns_bind:
  assumes "\<And>a d. Q a d \<Longrightarrow> earns I R (h a) d"
  shows "earns I Q p d \<Longrightarrow> earns I R (bind_proc p h) d"
  using assms by (induction p arbitrary: d) (simp_all, metis rangeI)

lemma earns_call:
  assumes "\<And>s e. I s (d + e) \<Longrightarrow> oc = Works \<Longrightarrow>
      \<exists>d'. I (snd (g s)) (d' + e) \<and> earns I Q (k (Some (fst (g s)))) d'"
    and "\<And>s e. I s (d + e) \<Longrightarrow> oc = AnswerLost \<Longrightarrow> \<exists>d'. I (snd (g s)) (d' + e) \<and> earns I Q (k None) d'"
    and "oc = Fails \<Longrightarrow> earns I Q (k None) d"
  shows "earns I Q (call oc g k) d"
  using assms by (cases oc) (auto simp: call_def)

text \<open>A call that keeps the invariant with every debt.\<close>

lemma earns_keep:
  assumes "\<And>s e. I s e \<Longrightarrow> I (snd (g s)) e" "\<And>s e. I s (d + e) \<Longrightarrow> earns I Q (k (Some (fst (g s)))) d"
    "earns I Q (k None) d"
  shows "earns I Q (call oc g k) d"
  using assms by (intro earns_call) blast+

lemma earns_weaken: "earns I Q p d \<Longrightarrow> (\<And>a d. Q a d \<Longrightarrow> R a d) \<Longrightarrow> earns I R p d"
  by (induction p arbitrary: d) (simp_all, metis rangeI)

text \<open>A process none of whose calls disturbs the invariant, whatever is owed.\<close>

primrec quiet :: "('s \<Rightarrow> 'd \<Rightarrow> bool) \<Rightarrow> ('s, 'a) proc \<Rightarrow> bool" where
  "quiet I (Ret a) = True"
| "quiet I (Act u k) = (\<forall>s. (\<forall>d. I s d \<longrightarrow> I (u s) d) \<and> quiet I (k s))"

lemma quiet_bind:
  assumes "\<And>a. quiet I (h a)"
  shows "quiet I p \<Longrightarrow> quiet I (bind_proc p h)"
proof (induction p)
  case (Act u k)
  then have "quiet I (bind_proc (k s) h)" for s by simp
  then show ?case using Act.prems by simp
qed (use assms in simp)

lemma quiet_call:
  assumes "\<And>s d. I s d \<Longrightarrow> I (snd (g s)) d" "\<And>r. quiet I (k r)"
  shows "quiet I (call oc g k)"
  using assms by (simp add: call_def)

lemma earns_quiet_bind:
  assumes "\<And>a. earns I Q (h a) d"
  shows "quiet I p \<Longrightarrow> earns I Q (bind_proc p h) d"
proof (induction p)
  case (Act u k)
  then have "earns I Q (bind_proc (k s) h) d" for s by simp
  then show ?case using Act.prems by (simp, metis)
qed (use assms in simp)

lemma quiet_earns: "quiet I p \<Longrightarrow> (\<And>a. Q a d) \<Longrightarrow> earns I Q p d"
proof (induction p)
  case (Act u k)
  then have "earns I Q (k s) d" for s by simp
  then show ?case using Act.prems by (simp, metis)
qed simp

text \<open>
  \<open>ensures R Q p s\<close>: when the others move the state only as \<open>R\<close> allows, \<open>p\<close> ends with an answer and a
  state of \<open>Q\<close>, from the state \<open>s\<close> after its last step.
\<close>

primrec ensures :: "('s \<Rightarrow> 's \<Rightarrow> bool) \<Rightarrow> ('a \<Rightarrow> 's \<Rightarrow> bool) \<Rightarrow> ('s, 'a) proc \<Rightarrow> 's \<Rightarrow> bool" where
  "ensures R Q (Ret a) s = Q a s"
| "ensures R Q (Act u k) s = (\<forall>s'. R s s' \<longrightarrow> ensures R Q (k s') (u s'))"

lemma ensures_call [simp]:
  "ensures R Q (call oc g k) s \<longleftrightarrow> (\<forall>s'. R s s' \<longrightarrow>
     ensures R Q (k (if oc = Works then Some (fst (g s')) else None)) (if oc = Fails then s' else snd (g s')))"
  by (simp add: call_def)

lemma ensures_bind:
  "ensures R Q p s \<Longrightarrow> (\<And>a s. Q a s \<Longrightarrow> ensures R Q' (h a) s) \<Longrightarrow> ensures R Q' (bind_proc p h) s"
  by (induction p arbitrary: s) auto

text \<open>
  The rule, for any way \<open>P\<close> to say that a process keeps the invariant with its debt. A crash forgives
  the debt of the process.
\<close>

locale pool_protocol =
  fixes I :: "'s \<Rightarrow> 'd::comm_monoid_add \<Rightarrow> bool"
    and P :: "('s, 'a) proc \<Rightarrow> 'd \<Rightarrow> bool"
    and start :: "('s, 'a) proc \<Rightarrow> bool"
  assumes forgive: "I s (d + e) \<Longrightarrow> I s e"
    and act: "P (Act u k) d \<Longrightarrow> I s (d + e) \<Longrightarrow> \<exists>d'. I (u s) (d' + e) \<and> P (k s) d'"
    and start_ok: "start p \<Longrightarrow> P p 0"
begin

definition pool_ok :: "'s \<times> ('s, 'a) proc list \<Rightarrow> bool" where
  "pool_ok c \<longleftrightarrow> (\<exists>ds. list_all2 P (snd c) ds \<and> I (fst c) (sum_list ds))"

lemma pool_step_ok:
  assumes "pool_step start c c'" "pool_ok c"
  shows "pool_ok c'"
  using assms(1)
proof cases
  case (arrive p s ps)
  obtain ds where "list_all2 P ps ds" "I s (sum_list ds)"
    using assms(2) arrive by (auto simp: pool_ok_def)
  then have "list_all2 P (p # ps) (0 # ds) \<and> I s (sum_list (0 # ds))"
    using start_ok arrive by simp
  then show ?thesis using arrive unfolding pool_ok_def by (metis fst_conv snd_conv)
next
  case (step i ps u k s)
  obtain ds where ds: "list_all2 P ps ds" "I s (sum_list ds)"
    using assms(2) step by (auto simp: pool_ok_def)
  have i: "i < length ds" using ds(1) step(3) list_all2_lengthD by metis
  let ?e = "sum_list (take i ds @ drop (Suc i) ds)"
  have sum: "sum_list (take i ds @ x # drop (Suc i) ds) = x + ?e" for x by (simp add: ac_simps)
  have "sum_list ds = ds ! i + ?e" using sum [of "ds ! i"] i by (metis id_take_nth_drop)
  moreover have "P (Act u k) (ds ! i)" using ds(1) step(3,4) i by (metis list_all2_nthD)
  ultimately obtain d' where d': "I (u s) (d' + ?e)" "P (k s) d'" using ds(2) act by metis
  have "list_all2 P (ps[i := k s]) (ds[i := d'])"
    using ds(1) d'(2) by (rule list_all2_update_cong)
  moreover have "I (u s) (sum_list (ds[i := d']))"
    using d'(1) sum [of d'] i by (simp add: upd_conv_take_nth_drop)
  ultimately show ?thesis using step unfolding pool_ok_def by (metis fst_conv snd_conv)
next
  case (crash s ps p qs)
  obtain as b bs where "list_all2 P ps as" "list_all2 P qs bs" "I s (sum_list (as @ b # bs))"
    using assms(2) crash by (auto simp: pool_ok_def list_all2_append1 list_all2_Cons1)
  then have "list_all2 P (ps @ qs) (as @ bs) \<and> I s (sum_list (as @ bs))"
    using forgive [of s b "sum_list (as @ bs)"] by (simp add: list_all2_appendI ac_simps)
  then show ?thesis using crash unfolding pool_ok_def by (metis fst_conv snd_conv)
qed

lemma reach_ok: "pool_reach start s0 c \<Longrightarrow> I s0 0 \<Longrightarrow> pool_ok c"
proof (induction rule: pool_reach.induct)
  case init
  then show ?case by (auto simp: pool_ok_def intro!: exI [of _ "[]"])
next
  case (more c c')
  then show ?case using pool_step_ok by blast
qed

lemma reach_inv: "pool_reach start s0 (s, ps) \<Longrightarrow> I s0 0 \<Longrightarrow> I s 0"
proof -
  assume "pool_reach start s0 (s, ps)" "I s0 0"
  then obtain ds where "I s (sum_list ds)" using reach_ok by (fastforce simp: pool_ok_def)
  then show "I s 0" using forgive [of s "sum_list ds" 0] by simp
qed

end

locale debt_protocol =
  fixes I :: "'s \<Rightarrow> 'd::comm_monoid_add \<Rightarrow> bool"
    and start :: "('s, 'a) proc \<Rightarrow> bool"
  assumes debt_forgive: "I s (d + e) \<Longrightarrow> I s e"
    and start_safe: "start p \<Longrightarrow> safe I p 0"

sublocale debt_protocol \<subseteq> pool_protocol I "safe I" start
  by unfold_locales (use debt_forgive start_safe in auto)

locale answer_protocol =
  fixes I :: "'s \<Rightarrow> 'd::comm_monoid_add \<Rightarrow> bool"
    and Q :: "'a \<Rightarrow> 'd \<Rightarrow> bool"
    and start :: "('s, 'a) proc \<Rightarrow> bool"
  assumes answer_forgive: "I s (d + e) \<Longrightarrow> I s e"
    and start_earns: "start p \<Longrightarrow> earns I Q p 0"

sublocale answer_protocol \<subseteq> pool_protocol I "earns I Q" start
  by unfold_locales (use answer_forgive start_earns in auto)

context answer_protocol
begin

text \<open>Every answer that was given holds, together with all the others.\<close>

lemma answers_hold:
  assumes "pool_reach start s0 (s, ps)" "I s0 0"
  shows "\<exists>ds. list_all2 (\<lambda>p d. \<forall>a. p = Ret a \<longrightarrow> Q a d) ps ds \<and> I s (sum_list ds)"
proof -
  obtain ds where ds: "list_all2 (earns I Q) ps ds" "I s (sum_list ds)"
    using reach_ok [OF assms] by (auto simp: pool_ok_def)
  have "list_all2 (\<lambda>p d. \<forall>a. p = Ret a \<longrightarrow> Q a d) ps ds"
    using ds(1) by (rule list_all2_mono) auto
  then show ?thesis using ds(2) by blast
qed

end

end
