(* ===== verification/Ticket_Types.thy ===== *)
theory Ticket_Types
  imports Interleaving
begin

text \<open>
  The data of ticket-service (\<^verbatim>\<open>internal/repository/mongo_ticket_repository.go\<close>): the ticket and
  reservation documents, the outbox entries embedded in a ticket, and the schema MongoDB validates
  on every write. Times are milliseconds, the precision of BSON dates; a missing optional field is
  \<open>None\<close>. The shared state of a replica set is \<open>ticket_world\<close>.
\<close>

section \<open>Documents\<close>

record ticket_event =
  e_title :: string
  e_description :: string
  e_starts :: int
  e_ends :: "int option"
  e_image :: string
  e_venue :: string
  e_address :: string

record outbox_detail =
  od_title :: string
  od_description :: string
  od_starts :: string
  od_ends :: string
  od_image :: string
  od_venue :: string
  od_address :: string

datatype outbox_type = OutboxEventTypeTicketCreated | OutboxEventTypeTicketUpdated

record outbox_payload =
  op_id :: string
  op_title :: string
  op_price :: string
  op_user :: string
  op_plan :: string
  op_type :: string
  op_quota :: int
  op_reserved :: int
  op_sold :: int
  op_max :: int
  op_version :: int
  op_event :: "outbox_detail option"
  op_category :: string
  op_created :: int

text \<open>What is published on Kafka for an outbox entry.\<close>

record event_data =
  ed_id :: string
  ed_title :: string
  ed_price :: string
  ed_user :: string
  ed_plan :: string
  ed_type :: string
  ed_quota :: int
  ed_reserved :: int
  ed_sold :: int
  ed_max :: int
  ed_version :: int
  ed_category :: string
  ed_event :: "outbox_detail option"
  ed_created :: string

record outbox_event =
  ob_id :: string
  ob_type :: outbox_type
  ob_payload :: outbox_payload
  ob_attempts :: int
  ob_next :: int
  ob_created :: int
  ob_claim :: "string option"
  ob_lease :: "int option"
  ob_error :: string

text \<open>
  A ticket. \<open>t_order\<close> and \<open>t_plan\<close> are absent from a new document and an empty string after an
  update that set them to nothing, which a filter can tell apart; \<^verbatim>\<open>field\<close> reads them as Go does.
\<close>

record ticket =
  t_id :: string
  t_title :: string
  t_price :: string
  t_user :: string
  t_order :: "string option"
  t_plan :: "string option"
  t_type :: string
  t_category :: string
  t_quota :: int
  t_reserved :: int
  t_sold :: int
  t_max :: int
  t_version :: int
  t_created :: int
  t_updated :: int
  t_event :: "ticket_event option"
  t_outbox :: "outbox_event list"

definition field :: "string option \<Rightarrow> string" where
  "field x = (case x of None \<Rightarrow> [] | Some s \<Rightarrow> s)"

datatype resv_status = ResvReserved | ResvReleased | ResvSold | ResvExpired

record ticket_reservation =
  v_id :: string
  v_ticket :: string
  v_order :: string
  v_user :: string
  v_quantity :: int
  v_status :: resv_status
  v_expires :: "int option"
  v_created :: int
  v_updated :: int

text \<open>Go's zero \<^verbatim>\<open>time.Time\<close>, in milliseconds.\<close>

definition zero_time :: int where "zero_time = -62135596800000"

datatype ticket_error =
    ErrTicketNotFound
  | ErrTicketReserved
  | ErrVersionConflict
  | ErrInsufficientQuota
  | ErrPerUserLimitExceeded
  | ErrTicketReservationNotFound
  | ErrTicketReservationConflict
  | ErrSeatingPlanAlreadyAttached
  | ErrStore

section \<open>Schema validation\<close>

text \<open>\<^verbatim>\<open>bsonType: "int"\<close> accepts 32-bit integers only; larger Go integers are encoded as 64-bit ones.\<close>

definition bson_int :: "int \<Rightarrow> bool" where
  "bson_int n \<longleftrightarrow> - 2147483648 \<le> n \<and> n \<le> 2147483647"

definition valid_ticket :: "ticket \<Rightarrow> bool" where
  "valid_ticket t \<longleftrightarrow>
     1 \<le> length (t_title t) \<and> length (t_title t) \<le> 200 \<and> 1 \<le> length (t_price t) \<and>
     bson_int (t_quota t) \<and> 1 \<le> t_quota t \<and> bson_int (t_reserved t) \<and> 0 \<le> t_reserved t \<and>
     bson_int (t_sold t) \<and> 0 \<le> t_sold t \<and> bson_int (t_max t) \<and> 1 \<le> t_max t \<and> bson_int (t_version t)"

definition valid_reservation :: "ticket_reservation \<Rightarrow> bool" where
  "valid_reservation r \<longleftrightarrow> bson_int (v_quantity r) \<and> 1 \<le> v_quantity r"

section \<open>Collections\<close>

text \<open>
  One document is changed at a time. The answer of an update is \<open>None\<close> when the changed document
  fails the schema, else the changed document, if one matched.
\<close>

fun update_first :: "('r \<Rightarrow> bool) \<Rightarrow> ('r \<Rightarrow> 'r) \<Rightarrow> ('r \<Rightarrow> bool) \<Rightarrow> 'r list \<Rightarrow> 'r option option \<times> 'r list" where
  "update_first p g ok [] = (Some None, [])"
| "update_first p g ok (x # xs) =
     (if p x then (if ok (g x) then (Some (Some (g x)), g x # xs) else (None, x # xs))
      else (let (r, xs') = update_first p g ok xs in (r, x # xs')))"

definition insert_one :: "('r \<Rightarrow> string) \<Rightarrow> ('r \<Rightarrow> bool) \<Rightarrow> 'r \<Rightarrow> 'r list \<Rightarrow> unit option \<times> 'r list" where
  "insert_one key ok x xs = (if ok x \<and> key x \<notin> key ` set xs then (Some (), xs @ [x]) else (None, xs))"

section \<open>The shared state\<close>

text \<open>
  The MongoDB collections, the counters of the Redis quota manager, by ticket and by ticket and
  user, the Redis cache of tickets and of the first page of the listing, each with the time from
  which it is stale, the locks of the cache's refreshes and of the reconciler with their tokens,
  the events on Kafka, and the events users have saved.
\<close>

record saved_event =
  s_user :: string
  s_event :: string
  s_saved :: int
  s_updated :: int

record ticket_world =
  tw_tickets :: "ticket list"
  tw_resv :: "ticket_reservation list"
  tw_avail :: "string \<Rightarrow> int option"
  tw_user :: "string \<Rightarrow> string \<Rightarrow> int option"
  tw_cache :: "string \<Rightarrow> (ticket \<times> int) option"
  tw_list :: "(ticket list \<times> int) option"
  tw_lock :: "string \<Rightarrow> string option"
  tw_leader :: "string option"
  tw_saved :: "saved_event list"
  tw_published :: "(outbox_type \<times> event_data) list"

definition tickets_call :: "(ticket list \<Rightarrow> 'r \<times> ticket list) \<Rightarrow> ticket_world \<Rightarrow> 'r \<times> ticket_world" where
  "tickets_call g w = (let (r, ts) = g (tw_tickets w) in (r, w\<lparr>tw_tickets := ts\<rparr>))"

definition resv_call ::
  "(ticket_reservation list \<Rightarrow> 'r \<times> ticket_reservation list) \<Rightarrow> ticket_world \<Rightarrow> 'r \<times> ticket_world" where
  "resv_call g w = (let (r, vs) = g (tw_resv w) in (r, w\<lparr>tw_resv := vs\<rparr>))"

lemma call_simps [simp]:
  "fst (tickets_call g w) = fst (g (tw_tickets w))"
  "snd (tickets_call g w) = w\<lparr>tw_tickets := snd (g (tw_tickets w))\<rparr>"
  "fst (resv_call h w) = fst (h (tw_resv w))"
  "snd (resv_call h w) = w\<lparr>tw_resv := snd (h (tw_resv w))\<rparr>"
  by (simp_all add: tickets_call_def resv_call_def split: prod.split)

lemma update_first_none [simp]: "\<forall>x \<in> set xs. \<not> p x \<Longrightarrow> update_first p g ok xs = (Some None, xs)"
  by (induction xs) auto

lemma update_first_cases:
  obtains (none) "\<forall>x \<in> set xs. \<not> p x" "update_first p g ok xs = (Some None, xs)"
  | (invalid) ys x zs where "xs = ys @ x # zs" "p x" "\<forall>y \<in> set ys. \<not> p y" "\<not> ok (g x)"
      "update_first p g ok xs = (None, xs)"
  | (changed) ys x zs where "xs = ys @ x # zs" "p x" "\<forall>y \<in> set ys. \<not> p y" "ok (g x)"
      "update_first p g ok xs = (Some (Some (g x)), ys @ g x # zs)"
proof (induction xs arbitrary: thesis)
  case Nil
  then show ?case by simp
next
  case (Cons a xs)
  show ?case
  proof (cases "p a")
    case True
    then show ?thesis using Cons.prems(2) [of "[]" a xs] Cons.prems(3) [of "[]" a xs] by (cases "ok (g a)") auto
  next
    case False
    show ?thesis
    proof (rule Cons.IH)
      assume "\<forall>x \<in> set xs. \<not> p x" "update_first p g ok xs = (Some None, xs)"
      then show thesis using Cons.prems(1) False by simp
    next
      fix ys x zs
      assume "xs = ys @ x # zs" "p x" "\<forall>y \<in> set ys. \<not> p y" "\<not> ok (g x)" "update_first p g ok xs = (None, xs)"
      then show thesis using Cons.prems(2) [of "a # ys" x zs] False by simp
    next
      fix ys x zs
      assume "xs = ys @ x # zs" "p x" "\<forall>y \<in> set ys. \<not> p y" "ok (g x)"
        "update_first p g ok xs = (Some (Some (g x)), ys @ g x # zs)"
      then show thesis using Cons.prems(3) [of "a # ys" x zs] False by simp
    qed
  qed
qed

lemma update_first_keeps:
  assumes "\<And>x. key (g x) = key x"
  shows "map key (snd (update_first p g ok xs)) = map key xs"
  by (rule update_first_cases [of xs p g ok]) (auto simp: assms)

text \<open>An update of the document with a given key.\<close>

lemma update_first_key:
  assumes "find_row key k xs = Some r" "\<And>x. p x \<Longrightarrow> key x = k" "p r" "ok (g r)" "key (g r) = k"
  shows "fst (update_first p g ok xs) = Some (Some (g r)) \<and>
    (\<forall>j. find_row key j (snd (update_first p g ok xs)) = (if j = k then Some (g r) else find_row key j xs))"
  using assms(1)
proof (induction xs)
  case (Cons a xs)
  show ?case
  proof (cases "key a = k")
    case True
    then have "a = r" using Cons.prems by simp
    then show ?thesis using assms(3-5) True by auto
  next
    case False
    then have "\<not> p a" using assms(2) by blast
    then show ?thesis using Cons False by (auto simp: split_def)
  qed
qed simp

lemma update_first_members:
  "x \<in> set (snd (update_first p g ok xs)) \<Longrightarrow> x \<in> set xs \<or> (\<exists>y \<in> set xs. p y \<and> ok (g y) \<and> x = g y)"
  by (rule update_first_cases [of xs p g ok]) auto

end
