(* ===== verification/Quota_Manager.thy ===== *)
theory Quota_Manager
  imports Ticket_Types
begin

text \<open>
  The Redis counters that gate reservations (\<^verbatim>\<open>internal/cache/quota_manager.go\<close>): the three Lua
  scripts, each one atomic, the calls that run them, and the seeding of the availability counter.
  A ticket and a user name their own counters.
\<close>

datatype quota_error = ErrQuotaInsufficient | ErrUserLimitExceeded | ErrKeyNotInitialised | QuotaRedis

text \<open>\<^verbatim>\<open>tonumber(redis.call('GET', k) or 0)\<close>\<close>

definition counter :: "int option \<Rightarrow> int" where
  "counter c = (case c of None \<Rightarrow> 0 | Some n \<Rightarrow> n)"

definition set_avail :: "string \<Rightarrow> int \<Rightarrow> ticket_world \<Rightarrow> ticket_world" where
  "set_avail tid n w = w\<lparr>tw_avail := (tw_avail w)(tid := Some n)\<rparr>"

definition set_user :: "string \<Rightarrow> string \<Rightarrow> int \<Rightarrow> ticket_world \<Rightarrow> ticket_world" where
  "set_user tid uid n w = w\<lparr>tw_user := (tw_user w)(tid := (tw_user w tid)(uid := Some n))\<rparr>"

section \<open>The scripts\<close>

definition reserveScript :: "string \<Rightarrow> string \<Rightarrow> int \<Rightarrow> int \<Rightarrow> ticket_world \<Rightarrow> int \<times> ticket_world" where
  "reserveScript tid uid qty maxPer w =
     (case tw_avail w tid of
        None \<Rightarrow> (-2, w)
      | Some avail \<Rightarrow>
          if avail < qty then (-1, w)
          else if counter (tw_user w tid uid) + qty > maxPer then (-3, w)
          else (avail - qty, set_user tid uid (counter (tw_user w tid uid) + qty) (set_avail tid (avail - qty) w)))"

definition releaseScript :: "string \<Rightarrow> string \<Rightarrow> int \<Rightarrow> ticket_world \<Rightarrow> unit \<times> ticket_world" where
  "releaseScript tid uid qty w =
     ((), set_user tid uid (max 0 (counter (tw_user w tid uid) - qty))
            (set_avail tid (counter (tw_avail w tid) + qty) w))"

definition finalizeScript :: "string \<Rightarrow> string \<Rightarrow> int \<Rightarrow> ticket_world \<Rightarrow> unit \<times> ticket_world" where
  "finalizeScript tid uid qty w = ((), set_user tid uid (max 0 (counter (tw_user w tid uid) - qty)) w)"

section \<open>The calls\<close>

definition Quota_Seed ::
  "outcome \<Rightarrow> string \<Rightarrow> int \<Rightarrow> bool \<Rightarrow> (ticket_world, quota_error + unit) proc" where
  "Quota_Seed oc tid available force =
     call oc (\<lambda>w. ((), if force \<or> tw_avail w tid = None then set_avail tid available w else w))
       (\<lambda>r. Ret (case r of None \<Rightarrow> Inl QuotaRedis | Some u \<Rightarrow> Inr ()))"

definition Quota_Reserve ::
  "outcome \<Rightarrow> string \<Rightarrow> string \<Rightarrow> int \<Rightarrow> int \<Rightarrow> (ticket_world, quota_error + unit) proc" where
  "Quota_Reserve oc tid uid quantity maxPerUser =
     call oc (reserveScript tid uid quantity maxPerUser)
       (\<lambda>r. Ret (case r of
            None \<Rightarrow> Inl QuotaRedis
          | Some n \<Rightarrow> if n = -2 then Inl ErrKeyNotInitialised
                     else if n = -1 then Inl ErrQuotaInsufficient
                     else if n = -3 then Inl ErrUserLimitExceeded
                     else Inr ()))"

definition Quota_Release ::
  "outcome \<Rightarrow> string \<Rightarrow> string \<Rightarrow> int \<Rightarrow> (ticket_world, quota_error + unit) proc" where
  "Quota_Release oc tid uid quantity =
     call oc (releaseScript tid uid quantity)
       (\<lambda>r. Ret (case r of None \<Rightarrow> Inl QuotaRedis | Some u \<Rightarrow> Inr ()))"

definition Quota_Finalize ::
  "outcome \<Rightarrow> string \<Rightarrow> string \<Rightarrow> int \<Rightarrow> (ticket_world, quota_error + unit) proc" where
  "Quota_Finalize oc tid uid quantity =
     call oc (finalizeScript tid uid quantity)
       (\<lambda>r. Ret (case r of None \<Rightarrow> Inl QuotaRedis | Some u \<Rightarrow> Inr ()))"

definition Quota_Available :: "outcome \<Rightarrow> string \<Rightarrow> (ticket_world, quota_error + int) proc" where
  "Quota_Available oc tid =
     call oc (reads (\<lambda>w. tw_avail w tid))
       (\<lambda>r. Ret (case r of
            None \<Rightarrow> Inl QuotaRedis
          | Some None \<Rightarrow> Inl ErrKeyNotInitialised
          | Some (Some n) \<Rightarrow> Inr n))"

section \<open>What the counters promise\<close>

lemma set_simps [simp]:
  "tw_tickets (set_avail tid n w) = tw_tickets w" "tw_resv (set_avail tid n w) = tw_resv w"
  "tw_tickets (set_user tid uid n w) = tw_tickets w" "tw_resv (set_user tid uid n w) = tw_resv w"
  "tw_cache (set_avail tid n w) = tw_cache w" "tw_cache (set_user tid uid n w) = tw_cache w"
  "tw_user (set_avail tid n w) = tw_user w" "tw_avail (set_user tid uid n w) = tw_avail w"
  "tw_avail (set_avail tid n w) = (tw_avail w)(tid := Some n)"
  "tw_user (set_user tid uid n w) = (tw_user w)(tid := (tw_user w tid)(uid := Some n))"
  by (simp_all add: set_avail_def set_user_def)

text \<open>The scripts never touch the collections.\<close>

lemma scripts_frame [simp]:
  "tw_tickets (snd (reserveScript tid uid q m w)) = tw_tickets w"
  "tw_resv (snd (reserveScript tid uid q m w)) = tw_resv w"
  "tw_cache (snd (reserveScript tid uid q m w)) = tw_cache w"
  "tw_cache (snd (releaseScript tid uid q w)) = tw_cache w"
  "tw_cache (snd (finalizeScript tid uid q w)) = tw_cache w"
  "tw_tickets (snd (releaseScript tid uid q w)) = tw_tickets w"
  "tw_resv (snd (releaseScript tid uid q w)) = tw_resv w"
  "tw_tickets (snd (finalizeScript tid uid q w)) = tw_tickets w"
  "tw_resv (snd (finalizeScript tid uid q w)) = tw_resv w"
  by (auto simp: reserveScript_def releaseScript_def finalizeScript_def split: option.split)

lemma reserveScript_accepts:
  "0 < qty \<Longrightarrow> (0 \<le> fst (reserveScript tid uid qty m w)) \<longleftrightarrow>
    (\<exists>avail. tw_avail w tid = Some avail \<and> qty \<le> avail \<and> counter (tw_user w tid uid) + qty \<le> m)"
  by (auto simp: reserveScript_def split: option.split)

end
