(* ===== verification/Ticket_Repo.thy ===== *)
theory Ticket_Repo
  imports Quota_Manager "HOL-Library.Product_Lexorder" "HOL-Library.List_Lexorder" "HOL-Library.Char_ord"
begin

text \<open>
  The MongoDB repository of ticket-service (\<^verbatim>\<open>internal/repository/mongo_ticket_repository.go\<close>). Every
  operation is a process of single-document calls; there are no transactions. \<open>f\<close> says how each
  call of the operation ends and \<open>k\<close> numbers the first one; \<open>qm\<close> says whether a Redis quota manager
  is attached. Generated identifiers and the clock are arguments.
\<close>

section \<open>Reading\<close>

definition Mongo_FindByID :: "(nat \<Rightarrow> outcome) \<Rightarrow> nat \<Rightarrow> string \<Rightarrow> (ticket_world, ticket_error + ticket) proc" where
  "Mongo_FindByID f k tid =
     call (f k) (reads (\<lambda>w. find_row t_id tid (tw_tickets w)))
       (\<lambda>r. Ret (case r of None \<Rightarrow> Inl ErrStore
                 | Some None \<Rightarrow> Inl ErrTicketNotFound
                 | Some (Some t) \<Rightarrow> Inr t))"

definition Mongo_FindByIDs ::
  "(nat \<Rightarrow> outcome) \<Rightarrow> nat \<Rightarrow> string list \<Rightarrow> (ticket_world, ticket_error + ticket option list) proc" where
  "Mongo_FindByIDs f k ids =
     call (f k) (reads (\<lambda>w. filter (\<lambda>t. t_id t \<in> set ids) (tw_tickets w)))
       (\<lambda>r. Ret (case r of None \<Rightarrow> Inl ErrStore
                 | Some ts \<Rightarrow> Inr (map (\<lambda>i. find_row t_id i (rev ts)) ids)))"

definition Mongo_FindReservationByID ::
  "(nat \<Rightarrow> outcome) \<Rightarrow> nat \<Rightarrow> string \<Rightarrow> (ticket_world, ticket_error + ticket_reservation) proc" where
  "Mongo_FindReservationByID f k rid =
     call (f k) (reads (\<lambda>w. find_row v_id rid (tw_resv w)))
       (\<lambda>r. Ret (case r of None \<Rightarrow> Inl ErrStore
                 | Some None \<Rightarrow> Inl ErrTicketReservationNotFound
                 | Some (Some v) \<Rightarrow> Inr v))"

definition sumUserActiveReservations ::
  "(nat \<Rightarrow> outcome) \<Rightarrow> nat \<Rightarrow> string \<Rightarrow> string \<Rightarrow> (ticket_world, ticket_error + int) proc" where
  "sumUserActiveReservations f k tid uid =
     call (f k) (reads (\<lambda>w. sum_list (map v_quantity
         (filter (\<lambda>r. v_ticket r = tid \<and> v_user r = uid \<and> v_status r = ResvReserved) (tw_resv w)))))
       (\<lambda>r. Ret (case r of None \<Rightarrow> Inl ErrStore | Some n \<Rightarrow> Inr n))"

section \<open>Outbox entries\<close>

definition NewTicketOutboxEvent :: "string \<Rightarrow> int \<Rightarrow> outbox_type \<Rightarrow> outbox_payload \<Rightarrow> outbox_event" where
  "NewTicketOutboxEvent newid now ty payload =
     \<lparr>ob_id = newid, ob_type = ty, ob_payload = payload, ob_attempts = 0, ob_next = now, ob_created = now,
      ob_claim = None, ob_lease = None, ob_error = []\<rparr>"

definition event_detail :: "(int \<Rightarrow> string) \<Rightarrow> ticket_event \<Rightarrow> outbox_detail" where
  "event_detail rfc3339 e =
     \<lparr>od_title = e_title e, od_description = e_description e, od_starts = rfc3339 (e_starts e),
      od_ends = (case e_ends e of None \<Rightarrow> [] | Some t \<Rightarrow> rfc3339 t),
      od_image = e_image e, od_venue = e_venue e, od_address = e_address e\<rparr>"

definition normalizePendingOutboxEvent :: "(int \<Rightarrow> string) \<Rightarrow> ticket \<Rightarrow> outbox_event \<Rightarrow> outbox_event" where
  "normalizePendingOutboxEvent rfc3339 t ev = ev\<lparr>ob_payload := (ob_payload ev)
     \<lparr>op_id := t_id t, op_title := t_title t, op_price := t_price t, op_user := t_user t,
      op_plan := field (t_plan t), op_type := t_type t, op_quota := t_quota t, op_reserved := t_reserved t,
      op_sold := t_sold t, op_max := t_max t, op_version := t_version t, op_category := t_category t,
      op_created := t_created t,
      op_event := (case t_event t of
                     Some e \<Rightarrow> if op_event (ob_payload ev) = None then Some (event_detail rfc3339 e)
                              else op_event (ob_payload ev)
                   | None \<Rightarrow> op_event (ob_payload ev))\<rparr>\<rparr>"

section \<open>Writing tickets\<close>

definition new_ticket :: "(int \<Rightarrow> string) \<Rightarrow> string \<Rightarrow> int \<Rightarrow> ticket \<Rightarrow> outbox_event list \<Rightarrow> ticket" where
  "new_ticket rfc3339 newid now t0 pending =
     (let t = t0\<lparr>t_id := (if t_id t0 = [] then newid else t_id t0), t_created := now, t_updated := now,
                 t_version := 1, t_quota := (if t_quota t0 = 0 then 1 else t_quota t0),
                 t_max := (if t_max t0 = 0 then 1 else t_max t0)\<rparr>
      in t\<lparr>t_outbox := t_outbox t @ map (normalizePendingOutboxEvent rfc3339 t) pending\<rparr>)"

definition Mongo_Create ::
  "bool \<Rightarrow> (int \<Rightarrow> string) \<Rightarrow> (nat \<Rightarrow> outcome) \<Rightarrow> nat \<Rightarrow> string \<Rightarrow> int \<Rightarrow> ticket \<Rightarrow> outbox_event list
     \<Rightarrow> (ticket_world, ticket_error + ticket) proc" where
  "Mongo_Create qm rfc3339 f k newid now t0 pending =
     (let t = new_ticket rfc3339 newid now t0 pending in
      call (f k) (tickets_call (insert_one t_id valid_ticket t)) (\<lambda>r.
        case r of
          Some (Some u) \<Rightarrow>
            if qm then bind_proc (Quota_Seed (f (k + 1)) (t_id t) (t_quota t - t_reserved t - t_sold t) False)
                         (\<lambda>s. Ret (case s of Inl e \<Rightarrow> Inl ErrStore | Inr u \<Rightarrow> Inr t))
            else Ret (Inr t)
        | _ \<Rightarrow> Ret (Inl ErrStore)))"

text \<open>What an update with the caller's copy \<open>t\<close> writes over the stored document.\<close>

definition set_ticket_fields :: "ticket \<Rightarrow> int \<Rightarrow> outbox_event list \<Rightarrow> ticket \<Rightarrow> ticket" where
  "set_ticket_fields t now pending d = d\<lparr>t_title := t_title t, t_price := t_price t,
     t_order := Some (field (t_order t)), t_plan := Some (field (t_plan t)), t_type := t_type t,
     t_quota := t_quota t, t_max := t_max t, t_version := t_version t, t_updated := now,
     t_event := (case t_event t of None \<Rightarrow> t_event d | Some e \<Rightarrow> Some e),
     t_outbox := t_outbox d @ pending\<rparr>"

definition Mongo_Update ::
  "(int \<Rightarrow> string) \<Rightarrow> (nat \<Rightarrow> outcome) \<Rightarrow> nat \<Rightarrow> int \<Rightarrow> ticket \<Rightarrow> outbox_event list
     \<Rightarrow> (ticket_world, ticket_error + ticket) proc" where
  "Mongo_Update rfc3339 f k now t0 pending =
     (let t = t0\<lparr>t_version := t_version t0 + 1, t_updated := now\<rparr>;
          evs = map (normalizePendingOutboxEvent rfc3339 t) pending in
      call (f k) (tickets_call (update_first (\<lambda>d. t_id d = t_id t \<and> t_version d = t_version t0)
                                 (set_ticket_fields t now evs) valid_ticket)) (\<lambda>r.
        case r of
          Some (Some (Some d)) \<Rightarrow> Ret (Inr t)
        | Some (Some None) \<Rightarrow>
            bind_proc (Mongo_FindByID f (k + 1) (t_id t)) (\<lambda>x.
              Ret (Inl (if x = Inl ErrTicketNotFound then ErrTicketNotFound else ErrVersionConflict)))
        | _ \<Rightarrow> Ret (Inl ErrStore)))"

definition ReserveTicket ::
  "(nat \<Rightarrow> outcome) \<Rightarrow> nat \<Rightarrow> int \<Rightarrow> string \<Rightarrow> string \<Rightarrow> (ticket_world, ticket_error + unit) proc" where
  "ReserveTicket f k now tid orderID =
     call (f k) (tickets_call (update_first (\<lambda>d. t_id d = tid \<and> field (t_order d) = [])
         (\<lambda>d. d\<lparr>t_order := Some orderID, t_updated := now, t_version := t_version d + 1\<rparr>) valid_ticket)) (\<lambda>r.
       case r of
         Some (Some (Some d)) \<Rightarrow> Ret (Inr ())
       | Some (Some None) \<Rightarrow>
           bind_proc (Mongo_FindByID f (k + 1) tid) (\<lambda>x.
             Ret (Inl (if x = Inl ErrTicketNotFound then ErrTicketNotFound else ErrTicketReserved)))
       | _ \<Rightarrow> Ret (Inl ErrStore))"

definition ReleaseTicket ::
  "(nat \<Rightarrow> outcome) \<Rightarrow> nat \<Rightarrow> int \<Rightarrow> string \<Rightarrow> (ticket_world, ticket_error + unit) proc" where
  "ReleaseTicket f k now tid =
     call (f k) (tickets_call (update_first (\<lambda>d. t_id d = tid)
         (\<lambda>d. d\<lparr>t_order := None, t_updated := now, t_version := t_version d + 1\<rparr>) valid_ticket)) (\<lambda>r.
       Ret (case r of
              Some (Some (Some d)) \<Rightarrow> Inr ()
            | Some (Some None) \<Rightarrow> Inl ErrTicketNotFound
            | _ \<Rightarrow> Inl ErrStore))"

section \<open>Reserving\<close>

text \<open>
  The Redis gate: with the ticket's cap it runs the reserve script, and a refusal ends the request.
  The answer is whether the counters were taken, so that they have to be given back on failure.
\<close>

definition redis_gate ::
  "bool \<Rightarrow> (nat \<Rightarrow> outcome) \<Rightarrow> nat \<Rightarrow> ticket_reservation \<Rightarrow> (ticket_world, ticket_error + bool) proc" where
  "redis_gate qm f k res =
     (if \<not> qm then Ret (Inr False)
      else bind_proc (Mongo_FindByID f k (v_ticket res)) (\<lambda>t.
        let maxPerUser = (case t of Inr t \<Rightarrow> t_max t | Inl e \<Rightarrow> 0) in
        if maxPerUser \<le> 0 then Ret (Inr False)
        else bind_proc (Quota_Reserve (f (k + 1)) (v_ticket res) (v_user res) (v_quantity res) maxPerUser) (\<lambda>r.
          Ret (case r of
                 Inl ErrKeyNotInitialised \<Rightarrow> Inr False
               | Inl ErrQuotaInsufficient \<Rightarrow> Inl ErrInsufficientQuota
               | Inl ErrUserLimitExceeded \<Rightarrow> Inl ErrPerUserLimitExceeded
               | Inl QuotaRedis \<Rightarrow> Inl ErrStore
               | Inr u \<Rightarrow> Inr True))))"

text \<open>The end of a reserve that failed: the Redis counters are given back, whatever that answers.\<close>

definition give_back ::
  "bool \<Rightarrow> (nat \<Rightarrow> outcome) \<Rightarrow> nat \<Rightarrow> ticket_reservation \<Rightarrow> ticket_error
     \<Rightarrow> (ticket_world, ticket_error + unit) proc" where
  "give_back redisReserved f k res e =
     (if redisReserved
      then bind_proc (Quota_Release (f k) (v_ticket res) (v_user res) (v_quantity res)) (\<lambda>x. Ret (Inl e))
      else Ret (Inl e))"

definition inc_reserved :: "int \<Rightarrow> int \<Rightarrow> ticket \<Rightarrow> ticket" where
  "inc_reserved now q d = d\<lparr>t_reserved := t_reserved d + q, t_version := t_version d + 1, t_updated := now\<rparr>"

text \<open>The guarded increment, the insert, and the compensation when the insert failed, at a later clock \<open>now2\<close>.\<close>

definition has_room :: "ticket_reservation \<Rightarrow> ticket \<Rightarrow> bool" where
  "has_room res d \<longleftrightarrow> t_id d = v_ticket res \<and> t_reserved d + t_sold d + v_quantity res \<le> t_quota d"

definition insert_reservation ::
  "bool \<Rightarrow> (nat \<Rightarrow> outcome) \<Rightarrow> nat \<Rightarrow> int \<Rightarrow> ticket_reservation \<Rightarrow> (ticket_world, ticket_error + unit) proc" where
  "insert_reservation redisReserved f k now2 res =
     call (f k) (resv_call (insert_one v_id valid_reservation res)) (\<lambda>r.
       case r of
         Some (Some u) \<Rightarrow> Ret (Inr ())
       | _ \<Rightarrow> call (f (k + 1)) (tickets_call (update_first (\<lambda>d. t_id d = v_ticket res)
                                   (inc_reserved now2 (- v_quantity res)) valid_ticket))
               (\<lambda>x. give_back redisReserved f (k + 2) res ErrStore))"

definition take_counter ::
  "bool \<Rightarrow> (nat \<Rightarrow> outcome) \<Rightarrow> nat \<Rightarrow> int \<Rightarrow> int \<Rightarrow> ticket_reservation \<Rightarrow> (ticket_world, ticket_error + unit) proc" where
  "take_counter redisReserved f k now now2 res =
     call (f k) (tickets_call (update_first (has_room res) (inc_reserved now (v_quantity res)) valid_ticket)) (\<lambda>r.
       case r of
         Some (Some (Some d)) \<Rightarrow> insert_reservation redisReserved f (k + 2) now2 res
       | Some (Some None) \<Rightarrow> give_back redisReserved f (k + 1) res ErrInsufficientQuota
       | _ \<Rightarrow> give_back redisReserved f (k + 1) res ErrStore)"

definition Mongo_CreateReservation ::
  "bool \<Rightarrow> (nat \<Rightarrow> outcome) \<Rightarrow> nat \<Rightarrow> int \<Rightarrow> int \<Rightarrow> ticket_reservation \<Rightarrow> (ticket_world, ticket_error + unit) proc" where
  "Mongo_CreateReservation qm f k now now2 res0 =
     (let res = res0\<lparr>v_created := (if v_created res0 = zero_time then now else v_created res0),
                     v_updated := now, v_status := ResvReserved\<rparr> in
      bind_proc (redis_gate qm f k res) (\<lambda>g.
        case g of
          Inl e \<Rightarrow> Ret (Inl e)
        | Inr redisReserved \<Rightarrow>
            bind_proc (Mongo_FindByID f (k + 2) (v_ticket res)) (\<lambda>t.
              case t of
                Inl e \<Rightarrow> give_back redisReserved f (k + 3) res e
              | Inr ticket \<Rightarrow>
                  if t_quota ticket - t_reserved ticket - t_sold ticket < v_quantity res
                  then give_back redisReserved f (k + 3) res ErrInsufficientQuota
                  else bind_proc (sumUserActiveReservations f (k + 4) (v_ticket res) (v_user res)) (\<lambda>s.
                    case s of
                      Inl e \<Rightarrow> give_back redisReserved f (k + 5) res ErrStore
                    | Inr userActive \<Rightarrow>
                        if userActive + v_quantity res > t_max ticket
                        then give_back redisReserved f (k + 5) res ErrPerUserLimitExceeded
                        else take_counter redisReserved f (k + 6) now now2 res))))"

section \<open>Release, finalize and the sweep\<close>

definition move_resv :: "resv_status \<Rightarrow> string option \<Rightarrow> int \<Rightarrow> ticket_reservation \<Rightarrow> ticket_reservation" where
  "move_resv st orderID now r = r\<lparr>v_status := st, v_updated := now,
     v_order := (case orderID of None \<Rightarrow> v_order r | Some oid \<Rightarrow> oid)\<rparr>"

definition reserved_row :: "string \<Rightarrow> ticket_reservation \<Rightarrow> bool" where
  "reserved_row rid r \<longleftrightarrow> v_id r = rid \<and> v_status r = ResvReserved"

text \<open>After the row moved: the ticket's counter, then the Redis counters.\<close>

definition release_counter ::
  "bool \<Rightarrow> (nat \<Rightarrow> outcome) \<Rightarrow> nat \<Rightarrow> int \<Rightarrow> ticket_reservation \<Rightarrow> (ticket_world, ticket_error + unit) proc" where
  "release_counter qm f k now v =
     call (f k) (tickets_call (update_first (\<lambda>d. t_id d = v_ticket v)
         (inc_reserved now (- v_quantity v)) valid_ticket)) (\<lambda>y.
       case y of
         Some (Some d) \<Rightarrow>
           if qm then bind_proc (Quota_Release (f (k + 1)) (v_ticket v) (v_user v) (v_quantity v)) (\<lambda>z. Ret (Inr ()))
           else Ret (Inr ())
       | _ \<Rightarrow> Ret (Inl ErrStore))"

definition Mongo_ReleaseReservation ::
  "bool \<Rightarrow> (nat \<Rightarrow> outcome) \<Rightarrow> nat \<Rightarrow> int \<Rightarrow> string \<Rightarrow> (ticket_world, ticket_error + unit) proc" where
  "Mongo_ReleaseReservation qm f k now rid =
     call (f k) (resv_call (update_first (reserved_row rid) (move_resv ResvReleased None now) valid_reservation)) (\<lambda>r.
       case r of
         Some (Some None) \<Rightarrow>
           bind_proc (Mongo_FindReservationByID f (k + 1) rid) (\<lambda>x.
             Ret (case x of Inl e \<Rightarrow> Inl e
                  | Inr v \<Rightarrow> if v_status v = ResvSold then Inl ErrTicketReservationConflict else Inr ()))
       | Some (Some (Some v)) \<Rightarrow> release_counter qm f (k + 2) now v
       | _ \<Rightarrow> Ret (Inl ErrStore))"

definition move_to_sold :: "int \<Rightarrow> int \<Rightarrow> ticket \<Rightarrow> ticket" where
  "move_to_sold now q d = d\<lparr>t_reserved := t_reserved d - q, t_sold := t_sold d + q,
     t_version := t_version d + 1, t_updated := now\<rparr>"

definition finalize_counter ::
  "bool \<Rightarrow> (nat \<Rightarrow> outcome) \<Rightarrow> nat \<Rightarrow> int \<Rightarrow> ticket_reservation \<Rightarrow> (ticket_world, ticket_error + unit) proc" where
  "finalize_counter qm f k now v =
     call (f k) (tickets_call (update_first (\<lambda>d. t_id d = v_ticket v)
         (move_to_sold now (v_quantity v)) valid_ticket)) (\<lambda>y.
       case y of
         Some (Some d) \<Rightarrow>
           if qm then bind_proc (Quota_Finalize (f (k + 1)) (v_ticket v) (v_user v) (v_quantity v)) (\<lambda>z. Ret (Inr ()))
           else Ret (Inr ())
       | _ \<Rightarrow> Ret (Inl ErrStore))"

definition Mongo_FinalizeReservation ::
  "bool \<Rightarrow> (nat \<Rightarrow> outcome) \<Rightarrow> nat \<Rightarrow> int \<Rightarrow> string \<Rightarrow> string \<Rightarrow> (ticket_world, ticket_error + unit) proc" where
  "Mongo_FinalizeReservation qm f k now rid orderID =
     call (f k) (resv_call (update_first (reserved_row rid) (move_resv ResvSold (Some orderID) now) valid_reservation)) (\<lambda>r.
       case r of
         Some (Some None) \<Rightarrow>
           bind_proc (Mongo_FindReservationByID f (k + 1) rid) (\<lambda>x.
             Ret (case x of Inl e \<Rightarrow> Inl e
                  | Inr v \<Rightarrow> if v_status v = ResvReleased \<or> v_status v = ResvExpired
                            then Inl ErrTicketReservationConflict else Inr ()))
       | Some (Some (Some v)) \<Rightarrow> finalize_counter qm f (k + 2) now v
       | _ \<Rightarrow> Ret (Inl ErrStore))"

definition resv_lapsed :: "int \<Rightarrow> ticket_reservation \<Rightarrow> bool" where
  "resv_lapsed now r \<longleftrightarrow> v_status r = ResvReserved \<and> (case v_expires r of None \<Rightarrow> False | Some e \<Rightarrow> e < now)"

text \<open>The loop of the sweep: \<open>nows\<close> gives the clock of each release, \<open>n\<close> counts the successes.\<close>

fun sweep_each ::
  "bool \<Rightarrow> (nat \<Rightarrow> outcome) \<Rightarrow> nat \<Rightarrow> (nat \<Rightarrow> int) \<Rightarrow> string list \<Rightarrow> nat \<Rightarrow> (ticket_world, nat) proc" where
  "sweep_each qm f k nows [] n = Ret n"
| "sweep_each qm f k nows (rid # rids) n =
     bind_proc (Mongo_ReleaseReservation qm f k (nows k) rid) (\<lambda>r.
       sweep_each qm f (k + 4) nows rids (case r of Inl e \<Rightarrow> n | Inr u \<Rightarrow> Suc n))"

definition Mongo_SweepExpiredReservations ::
  "bool \<Rightarrow> (nat \<Rightarrow> outcome) \<Rightarrow> nat \<Rightarrow> (nat \<Rightarrow> int) \<Rightarrow> int \<Rightarrow> (ticket_world, ticket_error + nat) proc" where
  "Mongo_SweepExpiredReservations qm f k nows now =
     call (f k) (reads (\<lambda>w. map v_id (filter (resv_lapsed now) (tw_resv w)))) (\<lambda>r.
       case r of
         None \<Rightarrow> Ret (Inl ErrStore)
       | Some rids \<Rightarrow> bind_proc (sweep_each qm f (k + 1) nows rids 0) (\<lambda>n. Ret (Inr n)))"

end
