(* ===== verification/Ticket_Ledger.thy ===== *)
theory Ticket_Ledger
  imports Ticket_Repo "HOL-Library.Multiset"
begin

text \<open>
  Inventory accounting of ticket-service under concurrency. A reserve takes the counter before it
  writes the ledger row, a release and a finalize write the row before they move the counter; what
  a request still has to do is its debt. The invariant holds between any two calls of any number of
  requests, also when a replica crashes and its debts are never paid.
\<close>

section \<open>Debts and the invariant\<close>

text \<open>
  \<open>Dec\<close>: a quantity of the ticket's reserved counter that no reserved row stands for; \<open>Move\<close>: one
  that still has to become sold; \<open>Snap\<close>: a version of a ticket the request has read, with its quota.
\<close>

datatype debt = Dec string int | Move string int | Snap string int int

fun reserved_debt :: "string \<Rightarrow> debt \<Rightarrow> int" where
  "reserved_debt tid (Dec i q) = (if i = tid then q else 0)"
| "reserved_debt tid (Move i q) = (if i = tid then q else 0)"
| "reserved_debt tid (Snap i v q) = 0"

fun total_debt :: "string \<Rightarrow> debt \<Rightarrow> int" where
  "total_debt tid (Dec i q) = (if i = tid then q else 0)"
| "total_debt tid (Move i q) = 0"
| "total_debt tid (Snap i v q) = 0"

definition owed :: "(debt \<Rightarrow> int) \<Rightarrow> debt multiset \<Rightarrow> int" where
  "owed h D = sum_mset (image_mset h D)"

lemma owed_simps [simp]:
  "owed h {#} = 0" "owed h (add_mset d D) = h d + owed h D" "owed h (D + E) = owed h D + owed h E"
  by (simp_all add: owed_def)

definition quantity_in :: "resv_status \<Rightarrow> string \<Rightarrow> ticket_reservation list \<Rightarrow> int" where
  "quantity_in st tid vs = sum_list (map v_quantity (filter (\<lambda>r. v_ticket r = tid \<and> v_status r = st) vs))"

lemma quantity_in_simps [simp]:
  "quantity_in st tid [] = 0"
  "quantity_in st tid (r # vs) =
     (if v_ticket r = tid \<and> v_status r = st then v_quantity r else 0) + quantity_in st tid vs"
  "quantity_in st tid (us @ vs) = quantity_in st tid us + quantity_in st tid vs"
  by (simp_all add: quantity_in_def)

fun debt_fine :: "ticket list \<Rightarrow> debt \<Rightarrow> bool" where
  "debt_fine ts (Dec i q) = (0 \<le> q \<and> i \<in> t_id ` set ts)"
| "debt_fine ts (Move i q) = (0 \<le> q \<and> i \<in> t_id ` set ts)"
| "debt_fine ts (Snap i v q) = (i \<in> t_id ` set ts \<and>
     (\<forall>t \<in> set ts. t_id t = i \<longrightarrow> v \<le> t_version t \<and> (t_version t = v \<longrightarrow> t_quota t = q)))"

text \<open>The accounts of one ticket.\<close>

definition balanced :: "ticket_reservation list \<Rightarrow> debt multiset \<Rightarrow> ticket \<Rightarrow> bool" where
  "balanced vs D t \<longleftrightarrow>
     quantity_in ResvReserved (t_id t) vs + owed (reserved_debt (t_id t)) D \<le> t_reserved t \<and>
     quantity_in ResvReserved (t_id t) vs + quantity_in ResvSold (t_id t) vs + owed (total_debt (t_id t)) D
       \<le> t_reserved t + t_sold t \<and>
     t_reserved t + t_sold t \<le> t_quota t"

text \<open>A ticket in the cache is one the store has held: its version is bound to its quota.\<close>

abbreviation snap_of :: "ticket \<Rightarrow> debt" where
  "snap_of t \<equiv> Snap (t_id t) (t_version t) (t_quota t)"

definition stock_inv :: "ticket_world \<Rightarrow> debt multiset \<Rightarrow> bool" where
  "stock_inv w D \<longleftrightarrow> distinct (map t_id (tw_tickets w)) \<and> distinct (map v_id (tw_resv w)) \<and>
     (\<forall>r \<in> set (tw_resv w). 0 \<le> v_quantity r \<and> v_ticket r \<in> t_id ` set (tw_tickets w)) \<and>
     (\<forall>d \<in># D. debt_fine (tw_tickets w) d) \<and>
     (\<forall>k c. tw_cache w k = Some c \<longrightarrow> debt_fine (tw_tickets w) (snap_of (fst c))) \<and>
     (\<forall>t \<in> set (tw_tickets w). balanced (tw_resv w) D t)"

lemma stock_invI:
  assumes "distinct (map t_id (tw_tickets w))" "distinct (map v_id (tw_resv w))"
    "\<And>r. r \<in> set (tw_resv w) \<Longrightarrow> 0 \<le> v_quantity r \<and> v_ticket r \<in> t_id ` set (tw_tickets w)"
    "\<And>d. d \<in># D \<Longrightarrow> debt_fine (tw_tickets w) d"
    "\<And>t. t \<in> set (tw_tickets w) \<Longrightarrow> balanced (tw_resv w) D t"
    "\<And>k c. tw_cache w k = Some c \<Longrightarrow> debt_fine (tw_tickets w) (snap_of (fst c))"
  shows "stock_inv w D"
  using assms unfolding stock_inv_def by blast

lemma stock_invD:
  assumes "stock_inv w D"
  shows "distinct (map t_id (tw_tickets w))" "distinct (map v_id (tw_resv w))"
    "r \<in> set (tw_resv w) \<Longrightarrow> 0 \<le> v_quantity r \<and> v_ticket r \<in> t_id ` set (tw_tickets w)"
    "d \<in># D \<Longrightarrow> debt_fine (tw_tickets w) d"
    "t \<in> set (tw_tickets w) \<Longrightarrow> balanced (tw_resv w) D t"
    "tw_cache w k = Some c \<Longrightarrow> debt_fine (tw_tickets w) (snap_of (fst c))"
  using assms unfolding stock_inv_def by blast+

lemma stock_inv_cong:
  "tw_tickets w' = tw_tickets w \<Longrightarrow> tw_resv w' = tw_resv w \<Longrightarrow> tw_cache w' = tw_cache w \<Longrightarrow> stock_inv w' D = stock_inv w D"
  by (simp add: stock_inv_def)

lemma debt_nonneg: "debt_fine ts d \<Longrightarrow> 0 \<le> reserved_debt tid d \<and> 0 \<le> total_debt tid d"
  by (cases d) auto

lemma owed_nonneg:
  "\<forall>d \<in># D. debt_fine ts d \<Longrightarrow> 0 \<le> owed (reserved_debt tid) D \<and> 0 \<le> owed (total_debt tid) D"
  by (induction D) (auto dest: debt_nonneg [where tid = tid])

lemma balanced_mono:
  assumes "balanced vs D t" "owed (reserved_debt (t_id t)) E \<le> owed (reserved_debt (t_id t)) D"
    "owed (total_debt (t_id t)) E \<le> owed (total_debt (t_id t)) D"
  shows "balanced vs E t"
  using assms unfolding balanced_def by linarith

lemma stock_inv_forgive: 
  assumes inv: "stock_inv w (D + E)"
  shows "stock_inv w E"
proof -
  have D: "\<forall>d \<in># D. debt_fine (tw_tickets w) d" using inv unfolding stock_inv_def by simp
  have "balanced (tw_resv w) E t" if "t \<in> set (tw_tickets w)" for t
    using inv that owed_nonneg [OF D, of "t_id t"] unfolding stock_inv_def
    by (intro balanced_mono [of _ "D + E" t E]) simp_all
  then show ?thesis using inv unfolding stock_inv_def by simp
qed

section \<open>Single-document updates\<close>

lemma update_first_fst:
  "fst (update_first p g ok xs) = Some (Some y) \<Longrightarrow> \<exists>us x zs. xs = us @ x # zs \<and> p x \<and> ok (g x) \<and> y = g x \<and>
     snd (update_first p g ok xs) = us @ g x # zs"
  by (rule update_first_cases [of xs p g ok]) auto

lemma update_first_unchanged:
  "(\<And>y. fst (update_first p g ok xs) \<noteq> Some (Some y)) \<Longrightarrow>
   snd (update_first p g ok xs) = xs"
  by (rule update_first_cases [of xs p g ok]) auto

lemma debt_fine_replace:
  assumes d: "debt_fine (us @ t # zs) d" and t: "t_id t' = t_id t"
    "t_version t < t_version t' \<or> t_version t' = t_version t \<and> t_quota t' = t_quota t"
  shows "debt_fine (us @ t' # zs) d"
proof -
  have ids: "t_id ` set (us @ t' # zs) = t_id ` set (us @ t # zs)" using t(1) by simp
  show ?thesis
  proof (cases d)
    case (Snap i v q)
    then have "\<forall>x \<in> set (us @ zs). t_id x = i \<longrightarrow> v \<le> t_version x \<and> (t_version x = v \<longrightarrow> t_quota x = q)"
        "t_id t = i \<Longrightarrow> v \<le> t_version t \<and> (t_version t = v \<longrightarrow> t_quota t = q)"
      using d by simp_all
    moreover from this(2) have "t_id t' = i \<Longrightarrow> v \<le> t_version t' \<and> (t_version t' = v \<longrightarrow> t_quota t' = q)"
      using t by auto
    moreover have "i \<in> t_id ` set (us @ t' # zs)" using d Snap ids by simp
    ultimately show ?thesis unfolding Snap by simp
  qed (use d ids in \<open>simp_all del: set_append list.set\<close>)
qed

text \<open>A change of one ticket that keeps its accounts balanced under the new debts.\<close>

lemma stock_inv_ticket:
  assumes inv: "stock_inv w (D + E)" and ts: "tw_tickets w = us @ t # zs"
    and g: "t_id t' = t_id t" "t_version t < t_version t' \<or> t_version t' = t_version t \<and> t_quota t' = t_quota t"
    and debts: "\<And>i. i \<noteq> t_id t \<Longrightarrow> owed (reserved_debt i) D' \<le> owed (reserved_debt i) D \<and>
        owed (total_debt i) D' \<le> owed (total_debt i) D"
    and fine: "\<forall>d \<in># D'. debt_fine (us @ t' # zs) d"
    and bal: "balanced (tw_resv w) (D' + E) t'"
  shows "stock_inv (w\<lparr>tw_tickets := us @ t' # zs\<rparr>) (D' + E)"
proof -
  have ids: "t_id ` set (us @ t' # zs) = t_id ` set (tw_tickets w)" using ts g(1) by auto
  have keep: "debt_fine (us @ t' # zs) d" if "debt_fine (tw_tickets w) d" for d
    using that unfolding ts by (rule debt_fine_replace [OF _ g])
  have old: "debt_fine (us @ t' # zs) d" if d: "d \<in># E" for d
    by (rule keep, rule stock_invD(4) [OF inv]) (simp add: d)
  have other: "balanced (tw_resv w) (D' + E) x" if x: "x \<in> set (us @ zs)" for x
  proof -
    have "t_id t \<notin> t_id ` set (us @ zs)" using stock_invD(1) [OF inv] unfolding ts by auto
    moreover have "t_id x \<in> t_id ` set (us @ zs)" by (rule imageI [OF x])
    ultimately have "t_id x \<noteq> t_id t" by (metis (full_types))
    then have d: "owed (reserved_debt (t_id x)) D' \<le> owed (reserved_debt (t_id x)) D"
        "owed (total_debt (t_id x)) D' \<le> owed (total_debt (t_id x)) D"
      using debts [of "t_id x"] by simp_all
    have "x \<in> set (tw_tickets w)" unfolding ts using x by simp
    from stock_invD(5) [OF inv this] show ?thesis
      by (rule balanced_mono) (use d in simp_all)
  qed
  show ?thesis
  proof (rule stock_invI)
    show "distinct (map t_id (tw_tickets (w\<lparr>tw_tickets := us @ t' # zs\<rparr>)))"
      using stock_invD(1) [OF inv] g(1) unfolding ts by simp
    show "distinct (map v_id (tw_resv (w\<lparr>tw_tickets := us @ t' # zs\<rparr>)))"
      using stock_invD(2) [OF inv] by simp
    show "0 \<le> v_quantity r \<and> v_ticket r \<in> t_id ` set (tw_tickets (w\<lparr>tw_tickets := us @ t' # zs\<rparr>))"
      if "r \<in> set (tw_resv (w\<lparr>tw_tickets := us @ t' # zs\<rparr>))" for r
      using stock_invD(3) [OF inv, of r] that ids by simp
    show "debt_fine (tw_tickets (w\<lparr>tw_tickets := us @ t' # zs\<rparr>)) d" if "d \<in># D' + E" for d
      using that fine old [of d] by auto
    show "balanced (tw_resv (w\<lparr>tw_tickets := us @ t' # zs\<rparr>)) (D' + E) x"
      if "x \<in> set (tw_tickets (w\<lparr>tw_tickets := us @ t' # zs\<rparr>))" for x
      using that bal other [of x] by auto
    show "debt_fine (tw_tickets (w\<lparr>tw_tickets := us @ t' # zs\<rparr>)) (snap_of (fst c))"
      if "tw_cache (w\<lparr>tw_tickets := us @ t' # zs\<rparr>) k = Some c" for k c
      using keep [OF stock_invD(6) [OF inv, of k c]] that by simp
  qed
qed

text \<open>A change of one reservation row.\<close>

lemma stock_inv_row:
  assumes inv: "stock_inv w (D + E)" and vs: "tw_resv w = us @ r # zs"
    and g: "v_id r' = v_id r" "v_ticket r' = v_ticket r" "v_quantity r' = v_quantity r"
    and fine: "\<forall>d \<in># D'. debt_fine (tw_tickets w) d"
    and bal: "\<And>t. t \<in> set (tw_tickets w) \<Longrightarrow> balanced (us @ r # zs) (D + E) t \<Longrightarrow> balanced (us @ r' # zs) (D' + E) t"
  shows "stock_inv (w\<lparr>tw_resv := us @ r' # zs\<rparr>) (D' + E)"
  using inv fine bal g unfolding stock_inv_def by (auto simp: vs)

section \<open>Calls that keep the accounts\<close>

lemma world_same [simp]: "w\<lparr>tw_tickets := tw_tickets w\<rparr> = w" "w\<lparr>tw_resv := tw_resv w\<rparr> = w"
  by simp_all

lemma safe_update_tickets:
  assumes upd: "\<And>w E us t zs. stock_inv w (D + E) \<Longrightarrow> tw_tickets w = us @ t # zs \<Longrightarrow> p t \<Longrightarrow> ok (g t) \<Longrightarrow>
      stock_inv (w\<lparr>tw_tickets := us @ g t # zs\<rparr>) (D' + E)"
    and changed: "\<And>t. p t \<Longrightarrow> ok (g t) \<Longrightarrow> safe stock_inv (k (Some (Some (Some (g t))))) D'"
    and lost: "safe stock_inv (k None) D'"
    and rest: "\<And>r. \<forall>y. r \<noteq> Some (Some (Some y)) \<Longrightarrow> safe stock_inv (k r) D"
  shows "safe stock_inv (call oc (tickets_call (update_first p g ok)) k) D"
proof (rule safe_call)
  fix w E
  assume inv: "stock_inv w (D + E)"
  let ?r = "update_first p g ok (tw_tickets w)"
  have two: "(\<exists>y. fst ?r = Some (Some y)) \<or> snd ?r = tw_tickets w"
    using update_first_unchanged [of p g ok "tw_tickets w"] by blast
  have ok: "stock_inv (w\<lparr>tw_tickets := snd ?r\<rparr>) (D' + E) \<and> (\<exists>t. p t \<and> ok (g t) \<and> y = g t)"
    if r: "fst ?r = Some (Some y)" for y
  proof -
    obtain us x zs where x: "tw_tickets w = us @ x # zs" "p x" "ok (g x)" "y = g x" "snd ?r = us @ g x # zs"
      using update_first_fst [OF r] by blast
    then show ?thesis using upd [OF inv x(1,2,3)] by auto
  qed
  show "\<exists>d'. stock_inv (snd (tickets_call (update_first p g ok) w)) (d' + E) \<and>
      safe stock_inv (k (Some (fst (tickets_call (update_first p g ok) w)))) d'"
    if "oc = Works"
  proof (cases "\<exists>y. fst ?r = Some (Some y)")
    case True
    then obtain y where "fst ?r = Some (Some y)" by blast
    then show ?thesis using ok changed by (intro exI [of _ D']) auto
  next
    case False
    then show ?thesis using two inv rest by (intro exI [of _ D]) auto
  qed
  show "\<exists>d'. stock_inv (snd (tickets_call (update_first p g ok) w)) (d' + E) \<and> safe stock_inv (k None) d'"
    if "oc = AnswerLost"
  proof (cases "\<exists>y. fst ?r = Some (Some y)")
    case True
    then show ?thesis using ok lost by (intro exI [of _ D']) auto
  next
    case False
    then show ?thesis using two inv rest by (intro exI [of _ D]) auto
  qed
qed (use rest in simp)

lemma safe_update_rows:
  assumes upd: "\<And>w E us r zs. stock_inv w (D + E) \<Longrightarrow> tw_resv w = us @ r # zs \<Longrightarrow> p r \<Longrightarrow>
      stock_inv (w\<lparr>tw_resv := us @ g r # zs\<rparr>) (D' r + E)"
    and changed: "\<And>r. p r \<Longrightarrow> safe stock_inv (k (Some (Some (Some (g r))))) (D' r)"
    and lost: "\<And>r. p r \<Longrightarrow> safe stock_inv (k None) (D' r)"
    and rest: "\<And>r. \<forall>y. r \<noteq> Some (Some (Some y)) \<Longrightarrow> safe stock_inv (k r) D"
  shows "safe stock_inv (call oc (resv_call (update_first p g ok)) k) D"
proof (rule safe_call)
  fix w E
  assume inv: "stock_inv w (D + E)"
  let ?r = "update_first p g ok (tw_resv w)"
  have two: "(\<exists>y. fst ?r = Some (Some y)) \<or> snd ?r = tw_resv w"
    using update_first_unchanged [of p g ok "tw_resv w"] by blast
  have ok: "\<exists>x. p x \<and> y = g x \<and> stock_inv (w\<lparr>tw_resv := snd ?r\<rparr>) (D' x + E)"
    if r: "fst ?r = Some (Some y)" for y
  proof -
    obtain us x zs where x: "tw_resv w = us @ x # zs" "p x" "y = g x" "snd ?r = us @ g x # zs"
      using update_first_fst [OF r] by blast
    then show ?thesis using upd [OF inv x(1,2)] by auto
  qed
  show "\<exists>d'. stock_inv (snd (resv_call (update_first p g ok) w)) (d' + E) \<and>
      safe stock_inv (k (Some (fst (resv_call (update_first p g ok) w)))) d'"
    if "oc = Works"
  proof (cases "\<exists>y. fst ?r = Some (Some y)")
    case True
    then obtain y x where "fst ?r = Some (Some y)" "p x" "y = g x"
        "stock_inv (w\<lparr>tw_resv := snd ?r\<rparr>) (D' x + E)" using ok by blast
    then show ?thesis using changed by (intro exI [of _ "D' x"]) auto
  next
    case False
    then show ?thesis using two inv rest by (intro exI [of _ D]) auto
  qed
  show "\<exists>d'. stock_inv (snd (resv_call (update_first p g ok) w)) (d' + E) \<and> safe stock_inv (k None) d'"
    if "oc = AnswerLost"
  proof (cases "\<exists>y. fst ?r = Some (Some y)")
    case True
    then obtain y x where "p x" "stock_inv (w\<lparr>tw_resv := snd ?r\<rparr>) (D' x + E)" using ok by blast
    then show ?thesis using lost by (intro exI [of _ "D' x"]) auto
  next
    case False
    then show ?thesis using two inv rest by (intro exI [of _ D]) auto
  qed
qed (use rest in simp)

text \<open>Calls that leave the collections alone keep every debt.\<close>

lemma safe_outside:
  assumes "\<And>w. tw_tickets (snd (g w)) = tw_tickets w" "\<And>w. tw_resv (snd (g w)) = tw_resv w"
    "\<And>w. tw_cache (snd (g w)) = tw_cache w" "\<And>r. safe stock_inv (k r) D"
  shows "safe stock_inv (call oc g k) D"
  using assms stock_inv_cong by (intro safe_call) (metis, metis, simp)

lemma safe_quota [intro!]:
  "safe stock_inv (Quota_Seed oc tid n b) D" "safe stock_inv (Quota_Reserve oc tid u q m) D"
  "safe stock_inv (Quota_Release oc tid u q) D" "safe stock_inv (Quota_Finalize oc tid u q) D"
  "safe stock_inv (Quota_Available oc tid) D"
  unfolding Quota_Seed_def Quota_Reserve_def Quota_Release_def Quota_Finalize_def Quota_Available_def
  by (rule safe_outside; simp)+

lemma safe_reads [intro!]:
  "safe stock_inv (Mongo_FindByID f k tid) D" "safe stock_inv (Mongo_FindByIDs f k ids) D"
  "safe stock_inv (Mongo_FindReservationByID f k rid) D"
  "safe stock_inv (sumUserActiveReservations f k tid u) D"
  unfolding Mongo_FindByID_def Mongo_FindByIDs_def Mongo_FindReservationByID_def sumUserActiveReservations_def
  by (rule safe_outside; simp)+

section \<open>Every request keeps the accounts\<close>

lemma dec_reserved:
  assumes inv: "stock_inv w ({#Dec tid q#} + E)" and ts: "tw_tickets w = us @ t # zs" and tid: "t_id t = tid"
  shows "stock_inv (w\<lparr>tw_tickets := us @ inc_reserved now (- q) t # zs\<rparr>) ({#} + E)"
proof (rule stock_inv_ticket [OF inv ts])
  have "balanced (tw_resv w) ({#Dec tid q#} + E) t" "0 \<le> q" using inv ts unfolding stock_inv_def by auto
  then show "balanced (tw_resv w) ({#} + E) (inc_reserved now (- q) t)"
    using tid by (simp add: balanced_def inc_reserved_def)
qed (use inv in \<open>auto simp: inc_reserved_def stock_inv_def\<close>)

lemma safe_give_back: "safe stock_inv (give_back b f k res e) D"
  unfolding give_back_def by (auto intro!: safe_bind)

lemma safe_insert_reservation:
  assumes "f k \<noteq> AnswerLost" "v_status res = ResvReserved"
  shows "safe stock_inv (insert_reservation b f k now2 res) {#Dec (v_ticket res) (v_quantity res)#}"
proof -
  let ?D = "{#Dec (v_ticket res) (v_quantity res)#}"
  let ?comp = "call (f (k + 1)) (tickets_call (update_first (\<lambda>d. t_id d = v_ticket res)
        (inc_reserved now2 (- v_quantity res)) valid_ticket)) (\<lambda>x. give_back b f (k + 2) res ErrStore)"
  have comp: "safe stock_inv ?comp ?D"
    by (rule safe_update_tickets [where D' = "{#}"]) (use dec_reserved in \<open>auto simp: safe_give_back\<close>)
  show ?thesis
    unfolding insert_reservation_def
  proof (rule safe_call)
    fix w E
    assume inv: "stock_inv w (?D + E)"
    let ?r = "insert_one v_id valid_reservation res (tw_resv w)"
    show "\<exists>d'. stock_inv (snd (resv_call (insert_one v_id valid_reservation res) w)) (d' + E) \<and>
        safe stock_inv (case Some (fst (resv_call (insert_one v_id valid_reservation res) w)) of
            Some (Some u) \<Rightarrow> Ret (Inr ()) | _ \<Rightarrow> ?comp) d'"
    proof (cases "valid_reservation res \<and> v_id res \<notin> v_id ` set (tw_resv w)")
      case False
      then show ?thesis using inv comp by (intro exI [of _ ?D]) (auto simp: insert_one_def)
    next
      case True
      have "stock_inv (w\<lparr>tw_resv := tw_resv w @ [res]\<rparr>) ({#} + E)"
        using inv True assms(2)
        by (fastforce simp: stock_inv_def balanced_def valid_reservation_def)
      then show ?thesis using True by (intro exI [of _ "{#}"]) (simp add: insert_one_def)
    qed
  qed (use assms(1) comp in simp_all)
qed

lemma safe_take_counter:
  assumes "f (k + 2) \<noteq> AnswerLost" "v_status res = ResvReserved" "1 \<le> v_quantity res"
  shows "safe stock_inv (take_counter b f k now now2 res) {#}"
proof -
  let ?D = "{#Dec (v_ticket res) (v_quantity res)#}"
  have step: "stock_inv (w\<lparr>tw_tickets := us @ inc_reserved now (v_quantity res) t # zs\<rparr>) (?D + E)"
    if inv: "stock_inv w ({#} + E)" and ts: "tw_tickets w = us @ t # zs" and room: "has_room res t" for w E us t zs
  proof (rule stock_inv_ticket [OF inv ts])
    have "balanced (tw_resv w) ({#} + E) t" using stock_invD(5) [OF inv] ts by simp
    then show "balanced (tw_resv w) (?D + E) (inc_reserved now (v_quantity res) t)"
      using room by (simp add: balanced_def inc_reserved_def has_room_def)
  qed (use room assms(3) in \<open>auto simp: inc_reserved_def has_room_def\<close>)
  have ins: "safe stock_inv (insert_reservation b f (k + 2) now2 res) ?D"
    using assms safe_insert_reservation by blast
  show ?thesis
    unfolding take_counter_def
    by (rule safe_update_tickets [where D' = ?D])
      (use step ins in \<open>auto simp: safe_give_back split: option.split\<close>)
qed

lemma safe_redis_gate: "safe stock_inv (redis_gate qm f k res) D"
  unfolding redis_gate_def Let_def by (auto intro!: safe_bind split: sum.split)

lemma safe_owing: "safe stock_inv p {#} \<Longrightarrow> safe stock_inv p D"
  using safe_forgive [of stock_inv p D] stock_inv_forgive by simp

lemma safe_seq:
  assumes "safe stock_inv p D" "\<And>a. safe stock_inv (h a) {#}"
  shows "safe stock_inv (bind_proc p h) D"
  by (rule safe_bind [OF safe_owing [OF assms(2)] assms(1)])

lemma safe_create_reservation:
  assumes "f (k + 8) \<noteq> AnswerLost" "1 \<le> v_quantity res0"
  shows "safe stock_inv (Mongo_CreateReservation qm f k now now2 res0) {#}"
proof -
  define res where "res = res0\<lparr>v_created := (if v_created res0 = zero_time then now else v_created res0),
                     v_updated := now, v_status := ResvReserved\<rparr>"
  have "safe stock_inv (take_counter b f (k + 6) now now2 res) {#}" for b
    by (rule safe_take_counter) (use assms in \<open>simp_all add: res_def add.commute\<close>)
  then show ?thesis
    unfolding Mongo_CreateReservation_def Let_def res_def [symmetric]
    by (intro safe_seq safe_redis_gate safe_reads)
      (auto split!: sum.split intro!: safe_seq safe_reads safe_give_back)
qed

text \<open>A row that leaves the reserved status leaves a debt.\<close>

lemma quantity_in_mid:
  "quantity_in st tid (us @ r # zs) = quantity_in st tid (us @ zs) +
     (if v_ticket r = tid \<and> v_status r = st then v_quantity r else 0)"
  by simp

lemma flip_row:
  assumes inv: "stock_inv w ({#} + E)" and vs: "tw_resv w = us @ r # zs" and r: "reserved_row rid r"
    and st: "st = ResvReleased \<and> d = Dec (v_ticket r) (v_quantity r) \<or> st = ResvSold \<and> d = Move (v_ticket r) (v_quantity r)"
  shows "stock_inv (w\<lparr>tw_resv := us @ move_resv st oid now r # zs\<rparr>) ({#d#} + E)"
proof (rule stock_invI)
  let ?w = "w\<lparr>tw_resv := us @ move_resv st oid now r # zs\<rparr>"
  have row: "0 \<le> v_quantity r \<and> v_ticket r \<in> t_id ` set (tw_tickets w)"
    using stock_invD(3) [OF inv, of r] vs by simp
  have mv: "v_id (move_resv st oid now r) = v_id r" "v_ticket (move_resv st oid now r) = v_ticket r"
      "v_quantity (move_resv st oid now r) = v_quantity r" "v_status (move_resv st oid now r) = st"
    by (simp_all add: move_resv_def)
  show "distinct (map t_id (tw_tickets ?w))" using stock_invD(1) [OF inv] by simp
  show "distinct (map v_id (tw_resv ?w))" using stock_invD(2) [OF inv] mv(1) unfolding vs by simp
  show "0 \<le> v_quantity x \<and> v_ticket x \<in> t_id ` set (tw_tickets ?w)" if "x \<in> set (tw_resv ?w)" for x
    using that stock_invD(3) [OF inv, of x] row mv(2,3) vs by auto
  show "debt_fine (tw_tickets ?w) x" if "x \<in># {#d#} + E" for x
    using that stock_invD(4) [OF inv, of x] row st by auto
  show "balanced (tw_resv ?w) ({#d#} + E) t" if "t \<in> set (tw_tickets ?w)" for t
  proof -
    have "balanced (us @ r # zs) E t" using stock_invD(5) [OF inv, of t] that vs by simp
    then show ?thesis using st r mv unfolding balanced_def reserved_row_def by auto
  qed
  show "debt_fine (tw_tickets ?w) (snap_of (fst c))" if "tw_cache ?w i = Some c" for i c
    using stock_invD(6) [OF inv, of i c] that by simp
qed

lemma move_sold:
  assumes inv: "stock_inv w ({#Move tid q#} + E)" and ts: "tw_tickets w = us @ t # zs" and tid: "t_id t = tid"
  shows "stock_inv (w\<lparr>tw_tickets := us @ move_to_sold now q t # zs\<rparr>) ({#} + E)"
proof (rule stock_inv_ticket [OF inv ts])
  have "balanced (tw_resv w) ({#Move tid q#} + E) t" using stock_invD(5) [OF inv] ts by simp
  moreover have "0 \<le> q" using stock_invD(4) [OF inv, of "Move tid q"] by simp
  ultimately show "balanced (tw_resv w) ({#} + E) (move_to_sold now q t)"
    using tid by (simp add: balanced_def move_to_sold_def)
qed (use tid in \<open>auto simp: move_to_sold_def\<close>)

lemma safe_release_counter: "safe stock_inv (release_counter qm f k now v) {#Dec (v_ticket v) (v_quantity v)#}"
  unfolding release_counter_def
  by (rule safe_update_tickets [where D' = "{#}"])
    (use dec_reserved in \<open>auto intro!: safe_seq split: option.split\<close>)

lemma safe_finalize_counter: "safe stock_inv (finalize_counter qm f k now v) {#Move (v_ticket v) (v_quantity v)#}"
  unfolding finalize_counter_def
  by (rule safe_update_tickets [where D' = "{#}"])
    (use move_sold in \<open>auto intro!: safe_seq split: option.split\<close>)

lemma move_resv_simps [simp]:
  "v_id (move_resv st oid now r) = v_id r" "v_ticket (move_resv st oid now r) = v_ticket r"
  "v_quantity (move_resv st oid now r) = v_quantity r" "v_user (move_resv st oid now r) = v_user r"
  "v_status (move_resv st oid now r) = st"
  by (simp_all add: move_resv_def)

lemma safe_release_reservation: "safe stock_inv (Mongo_ReleaseReservation qm f k now rid) {#}"
  unfolding Mongo_ReleaseReservation_def
  by (rule safe_update_rows [where D' = "\<lambda>r. {#Dec (v_ticket r) (v_quantity r)#}"])
    (use flip_row safe_release_counter [where v = "move_resv ResvReleased None now r" for r]
      in \<open>auto split: option.split intro!: safe_seq\<close>)

lemma safe_finalize_reservation: "safe stock_inv (Mongo_FinalizeReservation qm f k now rid oid) {#}"
  unfolding Mongo_FinalizeReservation_def
  by (rule safe_update_rows [where D' = "\<lambda>r. {#Move (v_ticket r) (v_quantity r)#}"])
    (use flip_row safe_finalize_counter [where v = "move_resv ResvSold (Some oid) now r" for r]
      in \<open>auto split: option.split intro!: safe_seq\<close>)

lemma safe_sweep_each: "safe stock_inv (sweep_each qm f k nows rids n) {#}"
  by (induction rids arbitrary: k n) (auto intro!: safe_seq safe_release_reservation)

lemma safe_sweep: "safe stock_inv (Mongo_SweepExpiredReservations qm f k nows now) {#}"
  unfolding Mongo_SweepExpiredReservations_def
  by (rule safe_outside) (auto split: option.split intro!: safe_seq safe_sweep_each)

text \<open>An update whose copy of the ticket was read before: its version check keeps the quota.\<close>

lemma safe_update: "safe stock_inv (Mongo_Update rfc f k now t0 evs) {#snap_of t0#}"
  unfolding Mongo_Update_def Let_def
proof (rule safe_update_tickets [where D' = "{#}"])
  let ?t = "t0\<lparr>t_version := t_version t0 + 1, t_updated := now\<rparr>"
  let ?g = "set_ticket_fields ?t now (map (normalizePendingOutboxEvent rfc ?t) evs)"
  fix w E us t zs
  assume inv: "stock_inv w ({#snap_of t0#} + E)"
    and ts: "tw_tickets w = us @ t # zs" and t: "t_id t = t_id ?t \<and> t_version t = t_version t0"
  have q: "t_quota t = t_quota t0"
    using stock_invD(4) [OF inv, of "snap_of t0"] t ts by simp
  show "stock_inv (w\<lparr>tw_tickets := us @ ?g t # zs\<rparr>) ({#} + E)"
  proof (rule stock_inv_ticket [OF inv ts])
    have "balanced (tw_resv w) ({#snap_of t0#} + E) t"
      using stock_invD(5) [OF inv] ts by simp
    then show "balanced (tw_resv w) ({#} + E) (?g t)"
      using q by (simp add: balanced_def set_ticket_fields_def)
  qed (use t in \<open>auto simp: set_ticket_fields_def\<close>)
qed (auto split: option.split intro!: safe_seq)

lemma stock_inv_snap:
  assumes inv: "stock_inv w (D + E)" and t: "t \<in> set (tw_tickets w)"
  shows "stock_inv w ({#snap_of t#} + E)"
proof -
  note E = stock_inv_forgive [OF inv]
  have same: "x = t" if "x \<in> set (tw_tickets w)" "t_id x = t_id t" for x
    using stock_invD(1) [OF E] that t by (auto simp: distinct_map dest: inj_onD)
  have fine: "debt_fine (tw_tickets w) (snap_of t)"
    using t by (auto dest: same)
  have "balanced (tw_resv w) ({#snap_of t#} + E) x" if "x \<in> set (tw_tickets w)" for x
    using stock_invD(5) [OF E that] by (simp add: balanced_def)
  then show ?thesis using E fine unfolding stock_inv_def by simp
qed

text \<open>Reading a ticket gives its version and quota to what follows.\<close>

lemma safe_find:
  assumes "\<And>t. safe stock_inv (h (Inr t)) {#snap_of t#}"
    and "\<And>e. safe stock_inv (h (Inl e)) {#}"
  shows "safe stock_inv (bind_proc (Mongo_FindByID f k tid) h) {#}"
  unfolding Mongo_FindByID_def bind_call
proof (rule safe_call)
  fix w E
  assume inv: "stock_inv w ({#} + E)"
  show "\<exists>d'. stock_inv (snd (reads (\<lambda>w. find_row t_id tid (tw_tickets w)) w)) (d' + E) \<and>
      safe stock_inv (bind_proc (Ret (case Some (fst (reads (\<lambda>w. find_row t_id tid (tw_tickets w)) w)) of
        None \<Rightarrow> Inl ErrStore | Some None \<Rightarrow> Inl ErrTicketNotFound | Some (Some t) \<Rightarrow> Inr t)) h) d'"
  proof (cases "find_row t_id tid (tw_tickets w)")
    case None
    then show ?thesis using inv assms(2) by (intro exI [of _ "{#}"]) simp
  next
    case (Some t)
    then have "t \<in> set (tw_tickets w)" using find_row_Some_iff_set by metis
    then show ?thesis using stock_inv_snap [OF inv] Some assms(1)
      by (intro exI [of _ "{#snap_of t#}"]) simp
  qed
  show "\<exists>d'. stock_inv (snd (reads (\<lambda>w. find_row t_id tid (tw_tickets w)) w)) (d' + E) \<and>
      safe stock_inv (bind_proc (Ret (case None of None \<Rightarrow> Inl ErrStore | Some None \<Rightarrow> Inl ErrTicketNotFound
        | Some (Some t) \<Rightarrow> Inr t)) h) d'"
    using inv assms(2) by (intro exI [of _ "{#}"]) simp
qed (use assms(2) in simp)

text \<open>Nothing is known of a ticket that does not exist yet.\<close>

lemma owed_none:
  "\<forall>d \<in># D. debt_fine ts d \<Longrightarrow> tid \<notin> t_id ` set ts \<Longrightarrow>
   owed (reserved_debt tid) D = 0 \<and> owed (total_debt tid) D = 0"
proof (induction D)
  case (add d D)
  then have "reserved_debt tid d = 0 \<and> total_debt tid d = 0" by (cases d) auto
  with add show ?case by simp
qed simp

lemma quantity_none:
  "\<forall>r \<in> set vs. v_ticket r \<noteq> tid \<Longrightarrow> quantity_in st tid vs = 0"
  by (induction vs) simp_all

lemma stock_inv_new:
  assumes inv: "stock_inv w E" and t: "t_id t \<notin> t_id ` set (tw_tickets w)" "t_reserved t = 0" "t_sold t = 0" "0 \<le> t_quota t"
  shows "stock_inv (w\<lparr>tw_tickets := tw_tickets w @ [t]\<rparr>) E"
proof (rule stock_invI)
  let ?w = "w\<lparr>tw_tickets := tw_tickets w @ [t]\<rparr>"
  show "distinct (map t_id (tw_tickets ?w))" using stock_invD(1) [OF inv] t(1) by simp
  show "distinct (map v_id (tw_resv ?w))" using stock_invD(2) [OF inv] by simp
  show "0 \<le> v_quantity r \<and> v_ticket r \<in> t_id ` set (tw_tickets ?w)" if "r \<in> set (tw_resv ?w)" for r
    using stock_invD(3) [OF inv, of r] that by simp
  have keep: "debt_fine (tw_tickets ?w) d" if "debt_fine (tw_tickets w) d" for d
    using that t(1) by (cases d) auto
  show "debt_fine (tw_tickets ?w) d" if "d \<in># E" for d
    using keep stock_invD(4) [OF inv that] by blast
  show "debt_fine (tw_tickets ?w) (snap_of (fst c))" if "tw_cache ?w k = Some c" for k c
    using keep [OF stock_invD(6) [OF inv, of k c]] that by simp
  show "balanced (tw_resv ?w) E x" if "x \<in> set (tw_tickets ?w)" for x
  proof (cases "x = t")
    case True
    have "\<forall>r \<in> set (tw_resv w). v_ticket r \<noteq> t_id t"
      using stock_invD(3) [OF inv] t(1) by metis
    note zero = quantity_none [OF this]
    have "\<forall>d \<in># E. debt_fine (tw_tickets w) d" using stock_invD(4) [OF inv] by simp
    note none = owed_none [OF this t(1)]
    show ?thesis using zero none t unfolding True balanced_def by simp
  next
    case False
    then show ?thesis using stock_invD(5) [OF inv, of x] that by simp
  qed
qed

lemma new_ticket_simps:
  "t_reserved (new_ticket rfc newid now t0 evs) = t_reserved t0"
  "t_sold (new_ticket rfc newid now t0 evs) = t_sold t0"
  by (simp_all add: new_ticket_def Let_def)

lemma safe_create:
  assumes "t_reserved t0 = 0" "t_sold t0 = 0"
  shows "safe stock_inv (Mongo_Create qm rfc f k newid now t0 evs) {#}"
  unfolding Mongo_Create_def Let_def
proof (rule safe_call)
  let ?t = "new_ticket rfc newid now t0 evs"
  fix w E
  assume inv: "stock_inv w ({#} + E)"
  have ins: "stock_inv (snd (tickets_call (insert_one t_id valid_ticket ?t) w)) ({#} + E)"
  proof (cases "valid_ticket ?t \<and> t_id ?t \<notin> t_id ` set (tw_tickets w)")
    case True
    then have "stock_inv (w\<lparr>tw_tickets := tw_tickets w @ [?t]\<rparr>) ({#} + E)"
      using assms by (intro stock_inv_new [OF inv]) (simp_all add: new_ticket_simps valid_ticket_def)
    then show ?thesis using True by (simp add: insert_one_def)
  next
    case False
    then have "snd (insert_one t_id valid_ticket ?t (tw_tickets w)) = tw_tickets w"
      by (simp only: insert_one_def if_False snd_conv)
    then show ?thesis using inv by simp
  qed
  show "\<exists>d'. stock_inv (snd (tickets_call (insert_one t_id valid_ticket ?t) w)) (d' + E) \<and>
      safe stock_inv (case Some (fst (tickets_call (insert_one t_id valid_ticket ?t) w)) of
          Some (Some u) \<Rightarrow> if qm then bind_proc (Quota_Seed (f (k + 1)) (t_id ?t) (t_quota ?t - t_reserved ?t - t_sold ?t) False)
                         (\<lambda>s. Ret (case s of Inl e \<Rightarrow> Inl ErrStore | Inr u \<Rightarrow> Inr ?t))
            else Ret (Inr ?t)
        | _ \<Rightarrow> Ret (Inl ErrStore)) d'"
    using ins by (intro exI [of _ "{#}"]) (auto split: option.split intro!: safe_seq)
  show "\<exists>d'. stock_inv (snd (tickets_call (insert_one t_id valid_ticket ?t) w)) (d' + E) \<and>
      safe stock_inv (case None of
          Some (Some u) \<Rightarrow> if qm then bind_proc (Quota_Seed (f (k + 1)) (t_id ?t) (t_quota ?t - t_reserved ?t - t_sold ?t) False)
                         (\<lambda>s. Ret (case s of Inl e \<Rightarrow> Inl ErrStore | Inr u \<Rightarrow> Inr ?t))
            else Ret (Inr ?t)
        | _ \<Rightarrow> Ret (Inl ErrStore)) d'"
    using ins by (intro exI [of _ "{#}"]) simp
qed simp

end
