(* ===== verification/Go_Text.thy ===== *)
theory Go_Text
  imports Main "HOL-Library.Char_ord"
begin

text \<open>
  The parts of Go's \<^verbatim>\<open>strconv\<close>, \<^verbatim>\<open>fmt\<close> and \<^verbatim>\<open>strings\<close> the services use on text: decimal numbers and
  the removal of white space. A text is the list of its bytes.
\<close>

section \<open>Decimal numbers\<close>

definition digit :: "nat \<Rightarrow> char" where
  "digit d = char_of (48 + d)"

fun show_nat :: "nat \<Rightarrow> string" where
  "show_nat n = (if n < 10 then [digit n] else show_nat (n div 10) @ [digit (n mod 10)])"

declare show_nat.simps [simp del]

text \<open>\<^verbatim>\<open>fmt.Sprintf("%d", n)\<close>\<close>

definition show_int :: "int \<Rightarrow> string" where
  "show_int n = (if n < 0 then CHR ''-'' # show_nat (nat (- n)) else show_nat (nat n))"

definition digit_val :: "char \<Rightarrow> nat option" where
  "digit_val c = (let n = (of_char c :: nat) in if 48 \<le> n \<and> n \<le> 57 then Some (n - 48) else None)"

fun digits_val :: "nat \<Rightarrow> string \<Rightarrow> nat option" where
  "digits_val n [] = Some n"
| "digits_val n (c # cs) = (case digit_val c of None \<Rightarrow> None | Some d \<Rightarrow> digits_val (10 * n + d) cs)"

text \<open>\<^verbatim>\<open>strconv.ParseInt(s, 10, 64)\<close>: an optional sign, at least one digit, and the range of an int64.\<close>

definition ParseInt :: "string \<Rightarrow> int option" where
  "ParseInt s =
     (let neg = (s \<noteq> [] \<and> hd s = CHR ''-'');
          ds = (if s \<noteq> [] \<and> (hd s = CHR ''-'' \<or> hd s = CHR ''+'') then tl s else s) in
      if ds = [] then None
      else case digits_val 0 ds of
             None \<Rightarrow> None
           | Some n \<Rightarrow> if neg then (if int n \<le> 9223372036854775808 then Some (- int n) else None)
                      else (if int n \<le> 9223372036854775807 then Some (int n) else None))"

text \<open>\<^verbatim>\<open>strings.TrimSpace\<close> on ASCII text.\<close>

definition white :: "char \<Rightarrow> bool" where
  "white c \<longleftrightarrow> (let n = (of_char c :: nat) in (9 \<le> n \<and> n \<le> 13) \<or> n = 32)"

definition TrimSpace :: "string \<Rightarrow> string" where
  "TrimSpace s = rev (dropWhile white (rev (dropWhile white s)))"

section \<open>Numbers are read back\<close>

lemma digit_val_digit [simp]: "d < 10 \<Longrightarrow> digit_val (digit d) = Some d"
  by (simp add: digit_val_def digit_def)

lemma digit_val_sign [simp]: "digit_val CHR ''-'' = None" "digit_val CHR ''+'' = None" "digit_val CHR '':'' = None"
  by (simp_all add: digit_val_def)

lemma digits_val_append:
  "digits_val n (xs @ ys) = (case digits_val n xs of None \<Rightarrow> None | Some m \<Rightarrow> digits_val m ys)"
  by (induction xs arbitrary: n) (auto split: option.split)

lemma digits_val_show: "digits_val 0 (show_nat n) = Some n"
proof (induction n rule: show_nat.induct)
  case (1 n)
  show ?case
  proof (cases "n < 10")
    case True
    then show ?thesis by (simp add: show_nat.simps [of n])
  next
    case False
    then have "digits_val 0 (show_nat (n div 10)) = Some (n div 10)" by (rule 1)
    then show ?thesis using False by (simp add: show_nat.simps [of n] digits_val_append)
  qed
qed

lemma show_nat_digits: "c \<in> set (show_nat n) \<Longrightarrow> digit_val c \<noteq> None"
proof (induction n rule: show_nat.induct)
  case (1 n)
  show ?case
  proof (cases "n < 10")
    case True
    then have "c = digit n" using 1(2) by (simp add: show_nat.simps [of n])
    then show ?thesis using True by simp
  next
    case False
    then have "c \<in> set (show_nat (n div 10)) \<or> c = digit (n mod 10)"
      using 1(2) by (auto simp: show_nat.simps [of n])
    then show ?thesis using 1(1) [OF False] by (auto simp: digit_val_digit [of "n mod 10"])
  qed
qed

lemma show_nat_Cons: "\<exists>c cs. show_nat n = c # cs \<and> digit_val c \<noteq> None"
proof -
  have "show_nat n \<noteq> []" by (simp add: show_nat.simps [of n])
  then show ?thesis using show_nat_digits [of "hd (show_nat n)" n] by (cases "show_nat n") auto
qed

lemma ParseInt_show:
  "ParseInt (show_int n) =
     (if - 9223372036854775808 \<le> n \<and> n \<le> 9223372036854775807 then Some n else None)"
proof (cases "n < 0")
  case True
  obtain c cs where c: "show_nat (nat (- n)) = c # cs" using show_nat_Cons by blast
  then show ?thesis using True digits_val_show [of "nat (- n)"] by (simp add: ParseInt_def show_int_def c)
next
  case False
  obtain c cs where c: "show_nat (nat n) = c # cs" "digit_val c \<noteq> None" using show_nat_Cons by blast
  then have "c \<noteq> CHR ''-''" "c \<noteq> CHR ''+''" by auto
  then show ?thesis using False digits_val_show [of "nat n"] by (simp add: ParseInt_def show_int_def c)
qed

lemma show_nat_inject [simp]: "show_nat m = show_nat n \<longleftrightarrow> m = n"
  by (metis digits_val_show option.inject)

end
