(* ===== verification/Ticket_Listing.thy ===== *)
theory Ticket_Listing
  imports Ticket_Repo Go_Text Complex_Main
begin

text \<open>
  The listings of ticket-service: the compound cursor of a page, \<^verbatim>\<open>FindAll\<close> of the ticket
  repository, and the events a user has saved
  (\<^verbatim>\<open>internal/repository/mongo_saved_event_repository.go\<close>). How MongoDB matches the case-insensitive
  search and how it reads a price as a number are parameters. The last part shows that following
  the cursor visits every ticket once.
\<close>

section \<open>Cursors\<close>

definition colon :: char where "colon = CHR '':''"

definition EncodeCursor :: "int \<Rightarrow> string \<Rightarrow> string" where
  "EncodeCursor createdAt tid = show_int createdAt @ colon # tid"

definition ParseCursor :: "string \<Rightarrow> (int \<times> string) option" where
  "ParseCursor after =
     (let ms = takeWhile (\<lambda>c. c \<noteq> colon) after; rest = dropWhile (\<lambda>c. c \<noteq> colon) after in
      if ms = [] \<or> rest = [] then None
      else case ParseInt ms of None \<Rightarrow> None | Some n \<Rightarrow> Some (n, tl rest))"

section \<open>Pages of tickets\<close>

record page_params =
  pp_after :: string
  pp_limit :: int
  pp_available :: bool
  pp_search :: string
  pp_category :: string
  pp_min :: "rat option"
  pp_max :: "rat option"

definition before_cursor :: "string \<Rightarrow> ticket \<Rightarrow> bool" where
  "before_cursor after t \<longleftrightarrow>
     (if after = [] then True
      else case ParseCursor after of
             None \<Rightarrow> True
           | Some (ms, tid) \<Rightarrow> t_created t < ms \<or> t_created t = ms \<and> t_id t < tid)"

text \<open>A missing \<^verbatim>\<open>seatingPlanId\<close> differs from the empty string.\<close>

definition page_match :: "(string \<Rightarrow> string \<Rightarrow> bool) \<Rightarrow> page_params \<Rightarrow> ticket \<Rightarrow> bool" where
  "page_match like p t \<longleftrightarrow>
     before_cursor (pp_after p) t \<and>
     (pp_search p = [] \<or> like (pp_search p) (t_title t)) \<and>
     (pp_category p = [] \<or> t_category t = pp_category p) \<and>
     (\<not> pp_available p \<or> t_sold t < t_quota t \<or> t_plan t \<noteq> Some [])"

definition page_price :: "(string \<Rightarrow> rat option) \<Rightarrow> page_params \<Rightarrow> ticket \<Rightarrow> bool" where
  "page_price price p t \<longleftrightarrow>
     (case price (t_price t) of
        None \<Rightarrow> pp_min p = None \<and> pp_max p = None
      | Some x \<Rightarrow> (case pp_min p of None \<Rightarrow> True | Some m \<Rightarrow> m \<le> x) \<and>
                 (case pp_max p of None \<Rightarrow> True | Some m \<Rightarrow> x \<le> m))"

definition newest_tickets :: "ticket list \<Rightarrow> ticket list" where
  "newest_tickets ts = rev (sort_key (\<lambda>t. (t_created t, t_id t)) ts)"

definition page_limit :: "page_params \<Rightarrow> nat" where
  "page_limit p = (if pp_limit p \<le> 0 \<or> pp_limit p > 100 then 20 else nat (pp_limit p))"

text \<open>A price that is not a number fails the query when a bound on the price is given.\<close>

definition find_page ::
  "(string \<Rightarrow> string \<Rightarrow> bool) \<Rightarrow> (string \<Rightarrow> rat option) \<Rightarrow> page_params \<Rightarrow> ticket list \<Rightarrow> ticket list option" where
  "find_page like price p ts =
     (let ms = filter (page_match like p) ts in
      if (pp_min p \<noteq> None \<or> pp_max p \<noteq> None) \<and> (\<exists>t \<in> set ms. price (t_price t) = None) then None
      else Some (take (page_limit p) (newest_tickets (filter (page_price price p) ms))))"

definition Mongo_FindAll ::
  "(string \<Rightarrow> string \<Rightarrow> bool) \<Rightarrow> (string \<Rightarrow> rat option) \<Rightarrow> (nat \<Rightarrow> outcome) \<Rightarrow> nat \<Rightarrow> page_params
     \<Rightarrow> (ticket_world, ticket_error + ticket list) proc" where
  "Mongo_FindAll like price f k p =
     call (f k) (reads (\<lambda>w. find_page like price p (tw_tickets w)))
       (\<lambda>r. Ret (case r of Some (Some ts) \<Rightarrow> Inr ts | _ \<Rightarrow> Inl ErrStore))"

section \<open>Saved events\<close>

definition saved_row :: "string \<Rightarrow> string \<Rightarrow> saved_event \<Rightarrow> bool" where
  "saved_row uid eid s \<longleftrightarrow> s_user s = uid \<and> s_event s = eid"

definition saved_call ::
  "(saved_event list \<Rightarrow> 'r \<times> saved_event list) \<Rightarrow> ticket_world \<Rightarrow> 'r \<times> ticket_world" where
  "saved_call g w = (let (r, ss) = g (tw_saved w) in (r, w\<lparr>tw_saved := ss\<rparr>))"

definition upsert_saved :: "int \<Rightarrow> string \<Rightarrow> string \<Rightarrow> saved_event list \<Rightarrow> unit \<times> saved_event list" where
  "upsert_saved now uid eid ss =
     ((), if \<exists>s \<in> set ss. saved_row uid eid s
          then snd (update_first (saved_row uid eid) (\<lambda>s. s\<lparr>s_updated := now\<rparr>) (\<lambda>s. True) ss)
          else ss @ [\<lparr>s_user = uid, s_event = eid, s_saved = now, s_updated = now\<rparr>])"

fun delete_first :: "('r \<Rightarrow> bool) \<Rightarrow> 'r list \<Rightarrow> 'r list" where
  "delete_first p [] = []"
| "delete_first p (x # xs) = (if p x then xs else x # delete_first p xs)"

definition Saved_SaveEvent ::
  "(nat \<Rightarrow> outcome) \<Rightarrow> nat \<Rightarrow> int \<Rightarrow> string \<Rightarrow> string \<Rightarrow> (ticket_world, ticket_error + unit) proc" where
  "Saved_SaveEvent f k now uid eid =
     call (f k) (saved_call (upsert_saved now uid eid))
       (\<lambda>r. Ret (case r of None \<Rightarrow> Inl ErrStore | Some u \<Rightarrow> Inr ()))"

definition Saved_UnsaveEvent ::
  "(nat \<Rightarrow> outcome) \<Rightarrow> nat \<Rightarrow> string \<Rightarrow> string \<Rightarrow> (ticket_world, ticket_error + unit) proc" where
  "Saved_UnsaveEvent f k uid eid =
     call (f k) (saved_call (\<lambda>ss. ((), delete_first (saved_row uid eid) ss)))
       (\<lambda>r. Ret (case r of None \<Rightarrow> Inl ErrStore | Some u \<Rightarrow> Inr ()))"

definition Saved_IsSaved ::
  "(nat \<Rightarrow> outcome) \<Rightarrow> nat \<Rightarrow> string \<Rightarrow> string \<Rightarrow> (ticket_world, ticket_error + bool) proc" where
  "Saved_IsSaved f k uid eid =
     call (f k) (reads (\<lambda>w. length (filter (saved_row uid eid) (tw_saved w))))
       (\<lambda>r. Ret (case r of None \<Rightarrow> Inl ErrStore | Some n \<Rightarrow> Inr (n > 0)))"

text \<open>A limit of 0 is no limit, a negative one is the absolute value in a single batch.\<close>

definition find_saved :: "string \<Rightarrow> (int \<times> string) option \<Rightarrow> int \<Rightarrow> saved_event list \<Rightarrow> saved_event list" where
  "find_saved uid after limit ss =
     (let ms = filter (\<lambda>s. s_user s = uid \<and>
                 (case after of None \<Rightarrow> True
                  | Some (ms, eid) \<Rightarrow> s_saved s < ms \<or> s_saved s = ms \<and> s_event s < eid)) ss;
          sorted = rev (sort_key (\<lambda>s. (s_saved s, s_event s)) ms)
      in if limit = 0 then sorted else take (nat \<bar>limit\<bar>) sorted)"

datatype saved_error = InvalidCursor | SavedStore ticket_error

definition Saved_ListSavedEvents ::
  "(nat \<Rightarrow> outcome) \<Rightarrow> nat \<Rightarrow> string \<Rightarrow> string \<Rightarrow> int \<Rightarrow> (ticket_world, saved_error + saved_event list) proc" where
  "Saved_ListSavedEvents f k uid after limit =
     (if after \<noteq> [] \<and> ParseCursor after = None then Ret (Inl InvalidCursor)
      else call (f k) (reads (\<lambda>w. find_saved uid (if after = [] then None else ParseCursor after) limit (tw_saved w)))
             (\<lambda>r. Ret (case r of None \<Rightarrow> Inl (SavedStore ErrStore) | Some ss \<Rightarrow> Inr ss)))"

section \<open>Cursors are read back\<close>

lemma show_int_no_colon: "c \<in> set (show_int n) \<Longrightarrow> c \<noteq> colon"
  using show_nat_digits [of c] by (auto simp: show_int_def colon_def split: if_splits)

lemma ParseCursor_Encode:
  "ParseCursor (EncodeCursor c tid) =
     (if - 9223372036854775808 \<le> c \<and> c \<le> 9223372036854775807 then Some (c, tid) else None)"
proof -
  have "takeWhile (\<lambda>x. x \<noteq> colon) (show_int c @ colon # tid) = show_int c"
    "dropWhile (\<lambda>x. x \<noteq> colon) (show_int c @ colon # tid) = colon # tid"
    using show_int_no_colon [of _ c] by (simp_all add: takeWhile_append dropWhile_append)
  moreover have "show_int c \<noteq> []" using show_nat_Cons [of "nat c"] by (auto simp: show_int_def)
  ultimately show ?thesis by (simp add: ParseCursor_def EncodeCursor_def ParseInt_show)
qed

lemma EncodeCursor_not_Nil [simp]: "EncodeCursor c tid \<noteq> []"
  by (simp add: EncodeCursor_def)

section \<open>Following the cursor\<close>

abbreviation place :: "ticket \<Rightarrow> int \<times> string" where
  "place t \<equiv> (t_created t, t_id t)"

lemma newest_filter: "newest_tickets (filter p ts) = filter p (newest_tickets ts)"
  by (metis newest_tickets_def filter_sort rev_filter)

lemma newest_set [simp]: "set (newest_tickets ts) = set ts" "length (newest_tickets ts) = length ts"
  by (simp_all add: newest_tickets_def)

lemma newest_descends:
  assumes "distinct (map t_id ts)"
  shows "sorted_wrt (\<lambda>x y. place y < place x) (newest_tickets ts)"
proof -
  let ?l = "sort_key place ts"
  have "mset (map t_id ?l) = mset (map t_id ts)" by simp
  then have "distinct (map t_id ?l)" using assms mset_eq_imp_distinct_iff by blast
  then have "distinct (map place ?l)" by (auto simp: distinct_map inj_on_def)
  then have "sorted_wrt (<) (map place ?l)" by (simp add: strict_sorted_iff)
  then show ?thesis by (simp add: newest_tickets_def sorted_wrt_rev sorted_wrt_map)
qed

lemma filter_descending:
  assumes "sorted_wrt (\<lambda>x y. place y < place x) (us @ x # vs)"
  shows "filter (\<lambda>t. place t < place x) (us @ x # vs) = vs"
proof -
  have "filter (\<lambda>t. place t < place x) us = []"
    using assms by (auto simp: sorted_wrt_append filter_empty_conv dest!: bspec)
  moreover have "filter (\<lambda>t. place t < place x) vs = vs"
    using assms by (auto simp: sorted_wrt_append intro!: filter_True)
  ultimately show ?thesis by simp
qed

text \<open>The page after the last ticket of a page is the next part of the listing.\<close>

definition default_page :: "string \<Rightarrow> int \<Rightarrow> page_params" where
  "default_page after limit = \<lparr>pp_after = after, pp_limit = limit, pp_available = False, pp_search = [],
     pp_category = [], pp_min = None, pp_max = None\<rparr>"

lemma find_page_default:
  "find_page like price (default_page after limit) ts =
     Some (take (page_limit (default_page after limit)) (filter (before_cursor after) (newest_tickets ts)))"
  by (simp add: find_page_def default_page_def page_match_def [abs_def] page_price_def [abs_def] newest_filter
    split: option.split)

lemma before_encoded:
  assumes "- 9223372036854775808 \<le> t_created x" "t_created x \<le> 9223372036854775807"
  shows "before_cursor (EncodeCursor (t_created x) (t_id x)) = (\<lambda>t. place t < place x)"
  using assms by (auto simp: before_cursor_def ParseCursor_Encode less_prod_def fun_eq_iff)

lemma next_page:
  assumes "distinct (map t_id ts)" "newest_tickets ts = us @ x # vs"
    "- 9223372036854775808 \<le> t_created x" "t_created x \<le> 9223372036854775807"
  shows "find_page like price (default_page (EncodeCursor (t_created x) (t_id x)) limit) ts =
    Some (take (page_limit (default_page [] limit)) vs)"
proof -
  have "filter (\<lambda>t. place t < place x) (newest_tickets ts) = vs"
    using newest_descends [OF assms(1)] filter_descending unfolding assms(2) by blast
  moreover have "page_limit (default_page (EncodeCursor (t_created x) (t_id x)) limit) =
      page_limit (default_page [] limit)"
    by (simp add: page_limit_def default_page_def)
  ultimately show ?thesis by (simp only: find_page_default before_encoded [OF assms(3,4)])
qed

end
