(* ===== verification/Ticket_Cache.thy ===== *)
theory Ticket_Cache
  imports Ticket_Listing
begin

text \<open>
  The caching repository of ticket-service (\<^verbatim>\<open>internal/repository/caching_ticket_repository.go\<close>)
  over the stale-while-revalidate cache in Redis (\<^verbatim>\<open>internal/cache/swr_cache.go\<close>). A key that has
  passed its hard lifetime is missing, which a reader cannot tell from a failed read: both go to
  MongoDB. The refresh of a stale entry runs in the background, as a process of its own.
\<close>

section \<open>The cache\<close>

definition set_cached :: "string \<Rightarrow> int \<Rightarrow> ticket \<Rightarrow> ticket_world \<Rightarrow> unit \<times> ticket_world" where
  "set_cached tid now t w = ((), w\<lparr>tw_cache := (tw_cache w)(tid := Some (t, now + 5000))\<rparr>)"

definition del_cached :: "string \<Rightarrow> ticket_world \<Rightarrow> unit \<times> ticket_world" where
  "del_cached tid w = ((), w\<lparr>tw_cache := (tw_cache w)(tid := None)\<rparr>)"

definition set_list :: "int \<Rightarrow> ticket list \<Rightarrow> ticket_world \<Rightarrow> unit \<times> ticket_world" where
  "set_list now ts w = ((), w\<lparr>tw_list := Some (ts, now + 5000)\<rparr>)"

definition del_list :: "ticket_world \<Rightarrow> unit \<times> ticket_world" where
  "del_list w = ((), w\<lparr>tw_list := None\<rparr>)"

definition stale :: "int \<Rightarrow> ticket \<times> int \<Rightarrow> bool" where
  "stale now c \<longleftrightarrow> snd c \<le> now"

text \<open>\<^verbatim>\<open>SET NX PX\<close>; \<open>expired\<close> says whether a lock that is there has outlived its ten seconds.\<close>

definition tryRefreshLock :: "bool \<Rightarrow> string \<Rightarrow> string \<Rightarrow> ticket_world \<Rightarrow> bool \<times> ticket_world" where
  "tryRefreshLock expired tid token w =
     (if tw_lock w tid = None \<or> expired then (True, w\<lparr>tw_lock := (tw_lock w)(tid := Some token)\<rparr>) else (False, w))"

definition releaseLockScript :: "string \<Rightarrow> string \<Rightarrow> ticket_world \<Rightarrow> unit \<times> ticket_world" where
  "releaseLockScript tid token w =
     ((), if tw_lock w tid = Some token then w\<lparr>tw_lock := (tw_lock w)(tid := None)\<rparr> else w)"

section \<open>Reading through the cache\<close>

definition Caching_FindByID ::
  "(nat \<Rightarrow> outcome) \<Rightarrow> nat \<Rightarrow> int \<Rightarrow> string \<Rightarrow> (ticket_world, ticket_error + ticket) proc" where
  "Caching_FindByID f k now tid =
     call (f k) (reads (\<lambda>w. tw_cache w tid)) (\<lambda>r.
       case r of
         Some (Some c) \<Rightarrow> Ret (Inr (fst c))
       | _ \<Rightarrow> bind_proc (Mongo_FindByID f (k + 1) tid) (\<lambda>x.
               case x of
                 Inl e \<Rightarrow> Ret (Inl e)
               | Inr t \<Rightarrow> call (f (k + 2)) (set_cached tid now t) (\<lambda>y. Ret (Inr t))))"

definition triggerTicketRefresh ::
  "(nat \<Rightarrow> outcome) \<Rightarrow> nat \<Rightarrow> int \<Rightarrow> bool \<Rightarrow> string \<Rightarrow> string \<Rightarrow> (ticket_world, unit) proc" where
  "triggerTicketRefresh f k now expired token tid =
     call (f k) (tryRefreshLock expired tid token) (\<lambda>r.
       if r \<noteq> Some True then Ret ()
       else bind_proc (Mongo_FindByID f (k + 1) tid) (\<lambda>x.
         case x of
           Inl e \<Rightarrow> Ret ()
         | Inr t \<Rightarrow> call (f (k + 2)) (set_cached tid now t) (\<lambda>y.
                    if y = None then Ret ()
                    else call (f (k + 3)) (releaseLockScript tid token) (\<lambda>z. Ret ()))))"

definition cacheable :: "page_params \<Rightarrow> bool" where
  "cacheable p \<longleftrightarrow> pp_after p = [] \<and> (pp_limit p \<le> 0 \<or> pp_limit p = 20) \<and> \<not> pp_available p \<and>
     pp_search p = [] \<and> pp_category p = [] \<and> pp_min p = None \<and> pp_max p = None"

definition Caching_FindAll ::
  "(string \<Rightarrow> string \<Rightarrow> bool) \<Rightarrow> (string \<Rightarrow> rat option) \<Rightarrow> (nat \<Rightarrow> outcome) \<Rightarrow> nat \<Rightarrow> int \<Rightarrow> page_params
     \<Rightarrow> (ticket_world, ticket_error + ticket list) proc" where
  "Caching_FindAll like price f k now p =
     (if \<not> cacheable p then Mongo_FindAll like price f k p
      else call (f k) (reads tw_list) (\<lambda>r.
        case r of
          Some (Some c) \<Rightarrow> Ret (Inr (fst c))
        | _ \<Rightarrow> bind_proc (Mongo_FindAll like price f (k + 1) p) (\<lambda>x.
                case x of
                  Inl e \<Rightarrow> Ret (Inl e)
                | Inr ts \<Rightarrow> call (f (k + 2)) (set_list now ts) (\<lambda>y. Ret (Inr ts)))))"

section \<open>Writing through the cache\<close>

definition Caching_Create ::
  "bool \<Rightarrow> (int \<Rightarrow> string) \<Rightarrow> (nat \<Rightarrow> outcome) \<Rightarrow> nat \<Rightarrow> string \<Rightarrow> int \<Rightarrow> ticket \<Rightarrow> outbox_event list
     \<Rightarrow> (ticket_world, ticket_error + ticket) proc" where
  "Caching_Create qm rfc3339 f k newid now t pending =
     bind_proc (Mongo_Create qm rfc3339 f k newid now t pending) (\<lambda>r.
       case r of
         Inl e \<Rightarrow> Ret (Inl e)
       | Inr t \<Rightarrow> call (f (k + 2)) del_list (\<lambda>y. Ret (Inr t)))"

definition Caching_Update ::
  "(int \<Rightarrow> string) \<Rightarrow> (nat \<Rightarrow> outcome) \<Rightarrow> nat \<Rightarrow> int \<Rightarrow> ticket \<Rightarrow> outbox_event list
     \<Rightarrow> (ticket_world, ticket_error + ticket) proc" where
  "Caching_Update rfc3339 f k now t pending =
     bind_proc (Mongo_Update rfc3339 f k now t pending) (\<lambda>r.
       case r of
         Inl e \<Rightarrow> Ret (Inl e)
       | Inr t \<Rightarrow> call (f (k + 2)) (del_cached (t_id t)) (\<lambda>y.
                  call (f (k + 3)) del_list (\<lambda>z. Ret (Inr t))))"

lemma cache_frame [simp]:
  "tw_tickets (snd (set_cached tid now t w)) = tw_tickets w" "tw_resv (snd (set_cached tid now t w)) = tw_resv w"
  "tw_tickets (snd (del_cached tid w)) = tw_tickets w" "tw_resv (snd (del_cached tid w)) = tw_resv w"
  "tw_tickets (snd (set_list now ts w)) = tw_tickets w" "tw_resv (snd (set_list now ts w)) = tw_resv w"
  "tw_cache (snd (set_list now ts w)) = tw_cache w"
  "tw_tickets (snd (del_list w)) = tw_tickets w" "tw_resv (snd (del_list w)) = tw_resv w"
  "tw_cache (snd (del_list w)) = tw_cache w"
  "tw_tickets (snd (tryRefreshLock b tid token w)) = tw_tickets w"
  "tw_resv (snd (tryRefreshLock b tid token w)) = tw_resv w"
  "tw_cache (snd (tryRefreshLock b tid token w)) = tw_cache w"
  "tw_tickets (snd (releaseLockScript tid token w)) = tw_tickets w"
  "tw_resv (snd (releaseLockScript tid token w)) = tw_resv w"
  "tw_cache (snd (releaseLockScript tid token w)) = tw_cache w"
  by (simp_all add: set_cached_def del_cached_def set_list_def del_list_def tryRefreshLock_def releaseLockScript_def)

end
