(* ===== verification/Ticket_Service.thy ===== *)
theory Ticket_Service
  imports Ticket_Cache Grpc_Types
begin

text \<open>
  The business operations of ticket-service (\<^verbatim>\<open>internal/service/ticket_service.go\<close>) on the caching
  repository, and its client of venue-service (\<^verbatim>\<open>internal/service/venue_client.go\<close>). What
  venue-service answers for a plan is an argument; \<open>u\<close> is the identifier of the new outbox entry.
\<close>

section \<open>The client of venue-service\<close>

definition shouldCountVenueServiceFailure :: "rpc_error option \<Rightarrow> bool" where
  "shouldCountVenueServiceFailure err =
     (case err of
        None \<Rightarrow> False
      | Some RpcCanceled \<Rightarrow> False
      | Some RpcContextDeadline \<Rightarrow> True
      | Some e \<Rightarrow> status_code e \<notin> {CodeInvalidArgument, CodeNotFound, CodeAlreadyExists, CodePermissionDenied,
          CodeFailedPrecondition, CodeOutOfRange, CodeUnauthenticated, CodeCanceled})"

record plan_info =
  pi_status :: string
  pi_mode :: string

datatype service_error =
    ErrUnauthorized
  | ErrVenueServiceTimeout
  | ErrVenueServiceUnavailable
  | VenueLookupFailed rpc_error
  | EventStartRequired
  | Repo ticket_error
  | ListCursor

definition classifyVenueServiceError :: "rpc_error \<Rightarrow> service_error" where
  "classifyVenueServiceError err =
     (case err of
        RpcBreakerOpen \<Rightarrow> ErrVenueServiceUnavailable
      | RpcTooManyRequests \<Rightarrow> ErrVenueServiceUnavailable
      | RpcContextDeadline \<Rightarrow> ErrVenueServiceTimeout
      | e \<Rightarrow> (case status_code e of
               CodeDeadlineExceeded \<Rightarrow> ErrVenueServiceTimeout
             | CodeUnavailable \<Rightarrow> ErrVenueServiceUnavailable
             | _ \<Rightarrow> VenueLookupFailed e))"

definition client_GetSeatingPlan :: "rpc_error + plan_info \<Rightarrow> service_error + plan_info" where
  "client_GetSeatingPlan r = (case r of Inl e \<Rightarrow> Inl (classifyVenueServiceError e) | Inr p \<Rightarrow> Inr p)"

text \<open>\<^verbatim>\<open>ReadyToTrip\<close> of the breaker settings, and the call through the breaker.\<close>

definition venue_readyToTrip :: "nat \<Rightarrow> nat \<Rightarrow> bool" where
  "venue_readyToTrip requests totalFailures = (if requests < 10 then False else requests \<le> 2 * totalFailures)"

definition resilient_GetSeatingPlan ::
  "'b breaker \<Rightarrow> (rpc_error + plan_info) \<Rightarrow> 'b \<Rightarrow> (service_error + plan_info) \<times> 'b" where
  "resilient_GetSeatingPlan B r b =
     (case Execute B (\<lambda>e. \<not> shouldCountVenueServiceFailure e) r b of (r', b') \<Rightarrow> (client_GetSeatingPlan r', b'))"

lemma venue_down_is_unavailable:
  "br_enter B b = (Some RpcBreakerOpen, b') \<Longrightarrow> resilient_GetSeatingPlan B r b = (Inl ErrVenueServiceUnavailable, b')"
  "br_enter B b = (None, b') \<Longrightarrow>
     resilient_GetSeatingPlan B (Inl RpcContextDeadline) b = (Inl ErrVenueServiceTimeout, br_leave B False b')"
  by (simp_all add: resilient_GetSeatingPlan_def Execute_def client_GetSeatingPlan_def classifyVenueServiceError_def
      shouldCountVenueServiceFailure_def)

section \<open>Creating\<close>

record create_input =
  ci_title :: string
  ci_price :: string
  ci_user :: string
  ci_quota :: int
  ci_max :: int
  ci_category :: string
  ci_event :: "ticket_event option"

definition buildOutboxPayload :: "(int \<Rightarrow> string) \<Rightarrow> ticket \<Rightarrow> outbox_payload" where
  "buildOutboxPayload rfc3339 t =
     \<lparr>op_id = t_id t, op_title = t_title t, op_price = t_price t, op_user = t_user t,
      op_plan = field (t_plan t), op_type = t_type t, op_quota = 0, op_reserved = 0, op_sold = 0,
      op_max = 0, op_version = t_version t, op_event = map_option (event_detail rfc3339) (t_event t),
      op_category = t_category t, op_created = zero_time\<rparr>"

definition draft_ticket :: "create_input \<Rightarrow> ticket" where
  "draft_ticket i =
     \<lparr>t_id = [], t_title = ci_title i, t_price = ci_price i, t_user = ci_user i, t_order = None,
      t_plan = None, t_type = [], t_category = (if ci_category i = [] then ''OTHER'' else ci_category i),
      t_quota = ci_quota i, t_reserved = 0, t_sold = 0, t_max = ci_max i, t_version = 0,
      t_created = zero_time, t_updated = zero_time, t_event = ci_event i, t_outbox = []\<rparr>"

definition CreateTicket ::
  "bool \<Rightarrow> (int \<Rightarrow> string) \<Rightarrow> (nat \<Rightarrow> outcome) \<Rightarrow> string \<Rightarrow> string \<Rightarrow> int \<Rightarrow> create_input
     \<Rightarrow> (ticket_world, service_error + ticket) proc" where
  "CreateTicket qm rfc3339 f newid u now i =
     (if (case ci_event i of None \<Rightarrow> False | Some e \<Rightarrow> e_starts e = zero_time) then Ret (Inl EventStartRequired)
      else bind_proc (Caching_Create qm rfc3339 f 0 newid now (draft_ticket i)
             [NewTicketOutboxEvent u now OutboxEventTypeTicketCreated (buildOutboxPayload rfc3339 (draft_ticket i))])
           (\<lambda>r. Ret (case r of Inl e \<Rightarrow> Inl (Repo e) | Inr t \<Rightarrow> Inr t)))"

section \<open>Reading\<close>

definition GetTicketByID ::
  "(nat \<Rightarrow> outcome) \<Rightarrow> nat \<Rightarrow> int \<Rightarrow> string \<Rightarrow> (ticket_world, service_error + ticket) proc" where
  "GetTicketByID f k now tid =
     bind_proc (Caching_FindByID f k now tid)
       (\<lambda>r. Ret (case r of Inl e \<Rightarrow> Inl (Repo e) | Inr t \<Rightarrow> Inr t))"

definition GetTicketsByIDs ::
  "(nat \<Rightarrow> outcome) \<Rightarrow> nat \<Rightarrow> string list \<Rightarrow> (ticket_world, service_error + ticket option list) proc" where
  "GetTicketsByIDs f k ids =
     bind_proc (Mongo_FindByIDs f k ids)
       (\<lambda>r. Ret (case r of Inl e \<Rightarrow> Inl (Repo e) | Inr ts \<Rightarrow> Inr ts))"

definition ListTickets ::
  "(string \<Rightarrow> string \<Rightarrow> bool) \<Rightarrow> (string \<Rightarrow> rat option) \<Rightarrow> (nat \<Rightarrow> outcome) \<Rightarrow> nat \<Rightarrow> int \<Rightarrow> page_params
     \<Rightarrow> (ticket_world, service_error + ticket list) proc" where
  "ListTickets like price f k now p =
     bind_proc (Caching_FindAll like price f k now p)
       (\<lambda>r. Ret (case r of Inl e \<Rightarrow> Inl (Repo e) | Inr ts \<Rightarrow> Inr ts))"

section \<open>Updating\<close>

record update_input =
  ui_id :: string
  ui_title :: string
  ui_price :: string
  ui_user :: string
  ui_plan :: string
  ui_type :: string
  ui_event :: "ticket_event option"

definition plan_ticket_type :: "string \<Rightarrow> string \<Rightarrow> string" where
  "plan_ticket_type mode fallback =
     (if mode = ''auto'' then ''SEATED_AUTO''
      else if mode = ''manual'' then ''SEATED_MANUAL''
      else if fallback \<noteq> [] \<and> (fallback = ''SEATED_AUTO'' \<or> fallback = ''SEATED_MANUAL'') then fallback
      else [])"

text \<open>The seating plan part of an update: the ticket with the plan, or the error.\<close>

definition attach_plan ::
  "(string \<Rightarrow> rpc_error + plan_info) \<Rightarrow> update_input \<Rightarrow> ticket \<Rightarrow> service_error + ticket" where
  "attach_plan venue i t =
     (if ui_plan i = [] then Inr t
      else
        let current = field (t_plan t);
            new_plan = (case client_GetSeatingPlan (venue (ui_plan i)) of
                Inl e \<Rightarrow> Inl e
              | Inr p \<Rightarrow> Inr (t\<lparr>t_plan := Some (ui_plan i), t_type := plan_ticket_type (pi_mode p) (ui_type i)\<rparr>))
        in if current \<noteq> [] \<and> current \<noteq> ui_plan i
           then (case client_GetSeatingPlan (venue current) of
                   Inl e \<Rightarrow> Inl e
                 | Inr p \<Rightarrow> if pi_status p \<noteq> ''inactive'' then Inl (Repo ErrSeatingPlanAlreadyAttached) else new_plan)
           else if current \<noteq> ui_plan i then new_plan
           else Inr t)"

text \<open>An update of the copy that was read: the checks, the changes, the plan and the write.\<close>

definition changed_ticket :: "update_input \<Rightarrow> ticket \<Rightarrow> ticket" where
  "changed_ticket i t = t\<lparr>t_title := ui_title i, t_price := ui_price i,
     t_event := (case ui_event i of None \<Rightarrow> t_event t | Some e \<Rightarrow> Some e)\<rparr>"

definition update_copy ::
  "(int \<Rightarrow> string) \<Rightarrow> (string \<Rightarrow> rpc_error + plan_info) \<Rightarrow> (nat \<Rightarrow> outcome) \<Rightarrow> nat \<Rightarrow> string \<Rightarrow> int \<Rightarrow> update_input
     \<Rightarrow> ticket \<Rightarrow> (ticket_world, service_error + ticket) proc" where
  "update_copy rfc3339 venue f k u now i t =
     (if t_user t \<noteq> ui_user i then Ret (Inl ErrUnauthorized)
      else if t_reserved t > 0 then Ret (Inl (Repo ErrTicketReserved))
      else case attach_plan venue i (changed_ticket i t) of
             Inl e \<Rightarrow> Ret (Inl e)
           | Inr t' \<Rightarrow>
               bind_proc (Caching_Update rfc3339 f k now t'
                   [NewTicketOutboxEvent u now OutboxEventTypeTicketUpdated (buildOutboxPayload rfc3339 t')])
                 (\<lambda>x. Ret (case x of Inl e \<Rightarrow> Inl (Repo e) | Inr t'' \<Rightarrow> Inr t'')))"

definition UpdateTicket ::
  "(int \<Rightarrow> string) \<Rightarrow> (string \<Rightarrow> rpc_error + plan_info) \<Rightarrow> (nat \<Rightarrow> outcome) \<Rightarrow> nat \<Rightarrow> string \<Rightarrow> int \<Rightarrow> update_input
     \<Rightarrow> (ticket_world, service_error + ticket) proc" where
  "UpdateTicket rfc3339 venue f k u now i =
     bind_proc (Caching_FindByID f k now (ui_id i)) (\<lambda>r.
       case r of
         Inl e \<Rightarrow> Ret (Inl (Repo e))
       | Inr t \<Rightarrow> update_copy rfc3339 venue f (k + 3) u now i t)"

section \<open>Saved events\<close>

definition Service_SaveEvent ::
  "(nat \<Rightarrow> outcome) \<Rightarrow> nat \<Rightarrow> int \<Rightarrow> string \<Rightarrow> string \<Rightarrow> (ticket_world, service_error + ticket) proc" where
  "Service_SaveEvent f k now uid eid =
     bind_proc (Caching_FindByID f k now eid) (\<lambda>r.
       case r of
         Inl e \<Rightarrow> Ret (Inl (Repo e))
       | Inr t \<Rightarrow> bind_proc (Saved_SaveEvent f (k + 3) now uid eid)
                    (\<lambda>x. Ret (case x of Inl e \<Rightarrow> Inl (Repo e) | Inr v \<Rightarrow> Inr t)))"

definition Service_UnsaveEvent ::
  "(nat \<Rightarrow> outcome) \<Rightarrow> nat \<Rightarrow> string \<Rightarrow> string \<Rightarrow> (ticket_world, service_error + unit) proc" where
  "Service_UnsaveEvent f k uid eid =
     bind_proc (Saved_UnsaveEvent f k uid eid) (\<lambda>x. Ret (case x of Inl e \<Rightarrow> Inl (Repo e) | Inr v \<Rightarrow> Inr ()))"

definition Service_IsSaved ::
  "(nat \<Rightarrow> outcome) \<Rightarrow> nat \<Rightarrow> string \<Rightarrow> string \<Rightarrow> (ticket_world, service_error + bool) proc" where
  "Service_IsSaved f k uid eid =
     bind_proc (Saved_IsSaved f k uid eid) (\<lambda>x. Ret (case x of Inl e \<Rightarrow> Inl (Repo e) | Inr b \<Rightarrow> Inr b))"

text \<open>Saved events whose ticket is gone are left out.\<close>

definition Service_ListSavedEvents ::
  "(nat \<Rightarrow> outcome) \<Rightarrow> nat \<Rightarrow> string \<Rightarrow> string \<Rightarrow> int \<Rightarrow> (ticket_world, service_error + ticket list) proc" where
  "Service_ListSavedEvents f k uid after limit =
     bind_proc (Saved_ListSavedEvents f k uid after limit) (\<lambda>x.
       case x of
         Inl InvalidCursor \<Rightarrow> Ret (Inl ListCursor)
       | Inl (SavedStore e) \<Rightarrow> Ret (Inl (Repo e))
       | Inr ss \<Rightarrow>
           if ss = [] then Ret (Inr [])
           else bind_proc (Mongo_FindByIDs f (k + 1) (map s_event ss))
                  (\<lambda>y. Ret (case y of Inl e \<Rightarrow> Inl (Repo e)
                            | Inr ts \<Rightarrow> Inr (concat (map (\<lambda>t. case t of None \<Rightarrow> [] | Some t \<Rightarrow> [t]) ts)))))"

end
