(* ===== verification/Ticket_Grpc.thy ===== *)
theory Ticket_Grpc
  imports Ticket_Service "HOL-Library.Word"
begin

text \<open>
  The gRPC server of ticket-service (\<^verbatim>\<open>internal/grpc/server.go\<close>) on the caching repository, and the
  Kafka consumer of order events (\<^verbatim>\<open>internal/kafka/consumer.go\<close>). int32 and int64 fields of the
  messages are words. The clocks and the outcome of each call are arguments.
\<close>

section \<open>Messages\<close>

definition int32 :: "int \<Rightarrow> 32 word" where "int32 n = word_of_int n"

record get_ticket_response =
  gt_ticket :: string
  gt_title :: string
  gt_price :: string
  gt_user :: string
  gt_order :: string
  gt_version :: "64 word"
  gt_created :: int
  gt_updated :: int
  gt_quota :: "32 word"
  gt_reserved :: "32 word"
  gt_sold :: "32 word"
  gt_max_per_user :: "32 word"
  gt_plan :: string
  gt_type :: string
  gt_event_title :: string
  gt_event_starts :: "int option"
  gt_event_ends :: "int option"
  gt_event_image :: string
  gt_venue :: string
  gt_address :: string

record validate_response =
  vr_available :: bool
  vr_ticket :: string
  vr_price :: string
  vr_title :: string

record quota_request =
  qr_ticket :: string
  qr_reservation :: string
  qr_user :: string
  qr_quantity :: "32 word"
  qr_expires :: "int option"

record quota_response =
  qs_reservation :: string
  qs_ticket :: string
  qs_quantity :: "32 word"
  qs_remaining :: "32 word"
  qs_title :: string
  qs_price :: string
  qs_max_per_user :: "32 word"

record release_response =
  ls_reservation :: string
  ls_remaining :: "32 word"

definition internal_error :: grpc_status where "internal_error = (CodeInternal, ''internal error'')"

definition not_found :: "string \<Rightarrow> grpc_status" where
  "not_found tid = (CodeNotFound, ''ticket not found: '' @ tid)"

definition find_status :: "string \<Rightarrow> ticket_error \<Rightarrow> grpc_status" where
  "find_status tid e = (if e = ErrTicketNotFound then not_found tid else internal_error)"

fun status_name :: "resv_status \<Rightarrow> string" where
  "status_name ResvReserved = ''RESERVED''"
| "status_name ResvReleased = ''RELEASED''"
| "status_name ResvSold = ''SOLD''"
| "status_name ResvExpired = ''EXPIRED''"

definition ReservationInactivePrefix :: string where
  "ReservationInactivePrefix = ''reservation no longer active: ''"

section \<open>Reading a ticket\<close>

text \<open>The answer to \<^verbatim>\<open>GetTicket\<close>; the fields the handler does not set are zero.\<close>

definition get_ticket_answer :: "ticket \<Rightarrow> get_ticket_response" where
  "get_ticket_answer t =
     (let r = \<lparr>gt_ticket = t_id t, gt_title = t_title t, gt_price = t_price t, gt_user = t_user t,
               gt_order = field (t_order t), gt_version = word_of_int (t_version t),
               gt_created = t_created t, gt_updated = t_updated t,
               gt_quota = 0, gt_reserved = 0, gt_sold = 0, gt_max_per_user = 0, gt_plan = [],
               gt_type = t_type t, gt_event_title = [], gt_event_starts = None, gt_event_ends = None,
               gt_event_image = [], gt_venue = [], gt_address = []\<rparr>
      in case t_event t of
           None \<Rightarrow> r
         | Some e \<Rightarrow> r\<lparr>gt_event_title := e_title e, gt_event_starts := Some (e_starts e),
                       gt_event_ends := e_ends e, gt_event_image := e_image e,
                       gt_venue := e_venue e, gt_address := e_address e\<rparr>)"

definition GetTicket ::
  "(nat \<Rightarrow> outcome) \<Rightarrow> int \<Rightarrow> string \<Rightarrow> (ticket_world, grpc_status + get_ticket_response) proc" where
  "GetTicket f now tid =
     (if tid = [] then Ret (Inl (CodeInvalidArgument, ''ticket_id is required''))
      else bind_proc (Caching_FindByID f 0 now tid) (\<lambda>r.
        Ret (case r of Inl e \<Rightarrow> Inl (find_status tid e) | Inr t \<Rightarrow> Inr (get_ticket_answer t))))"

definition ValidateTicketAvailability ::
  "(nat \<Rightarrow> outcome) \<Rightarrow> int \<Rightarrow> string \<Rightarrow> (ticket_world, grpc_status + validate_response) proc" where
  "ValidateTicketAvailability f now tid =
     (if tid = [] then Ret (Inl (CodeInvalidArgument, ''ticket_id is required''))
      else bind_proc (Caching_FindByID f 0 now tid) (\<lambda>r.
        Ret (case r of Inl e \<Rightarrow> Inl (find_status tid e)
             | Inr t \<Rightarrow> Inr \<lparr>vr_available = (t_quota t - t_reserved t - t_sold t > 0),
                             vr_ticket = t_id t, vr_price = t_price t, vr_title = t_title t\<rparr>)))"

section \<open>Reserving\<close>

definition quota_answer :: "ticket \<Rightarrow> string \<Rightarrow> 32 word \<Rightarrow> int \<Rightarrow> quota_response" where
  "quota_answer t rid qty remaining =
     \<lparr>qs_reservation = rid, qs_ticket = t_id t, qs_quantity = qty, qs_remaining = int32 remaining,
      qs_title = t_title t, qs_price = t_price t, qs_max_per_user = int32 (t_max t)\<rparr>"

text \<open>A failed reserve that may be the repetition of one that succeeded.\<close>

definition duplicate_answer ::
  "quota_request \<Rightarrow> ticket \<Rightarrow> ticket_error + ticket_reservation \<Rightarrow> grpc_status + quota_response" where
  "duplicate_answer req t found =
     (case found of
        Inr e \<Rightarrow>
          if v_ticket e = qr_ticket req \<and> v_user e = qr_user req \<and> v_quantity e = sint (qr_quantity req)
          then (if v_status e \<noteq> ResvReserved
                then Inl (CodeFailedPrecondition,
                       ReservationInactivePrefix @ qr_reservation req @ '' is '' @ status_name (v_status e))
                else Inr (quota_answer t (v_id e) (int32 (v_quantity e)) (t_quota t - t_reserved t - t_sold t)))
          else Inl internal_error
      | Inl x \<Rightarrow> Inl internal_error)"

definition quota_reservation :: "quota_request \<Rightarrow> int \<Rightarrow> ticket_reservation" where
  "quota_reservation req now =
     \<lparr>v_id = qr_reservation req, v_ticket = qr_ticket req, v_order = [], v_user = qr_user req,
      v_quantity = sint (qr_quantity req), v_status = ResvReserved,
      v_expires = Some (case qr_expires req of Some e \<Rightarrow> e | None \<Rightarrow> now + 900000),
      v_created = zero_time, v_updated = zero_time\<rparr>"

definition bad_quota_request :: "quota_request \<Rightarrow> string option" where
  "bad_quota_request req =
     (if qr_ticket req = [] then Some ''ticket_id is required''
      else if qr_reservation req = [] then Some ''reservation_id is required''
      else if qr_user req = [] then Some ''user_id is required''
      else if sint (qr_quantity req) < 1 then Some ''quantity must be >= 1''
      else None)"

text \<open>What follows the insert of the reservation.\<close>

definition reserve_answer ::
  "(nat \<Rightarrow> outcome) \<Rightarrow> nat \<Rightarrow> int \<Rightarrow> quota_request \<Rightarrow> ticket \<Rightarrow> ticket_error + unit
     \<Rightarrow> (ticket_world, grpc_status + quota_response) proc" where
  "reserve_answer f k now req t r =
     (case r of
        Inl ErrTicketNotFound \<Rightarrow> Ret (Inl (not_found (qr_ticket req)))
      | Inl ErrInsufficientQuota \<Rightarrow>
          Ret (Inl (CodeResourceExhausted, ''insufficient quota for ticket '' @ qr_ticket req))
      | Inl ErrPerUserLimitExceeded \<Rightarrow>
          Ret (Inl (CodeFailedPrecondition, ''per-user limit exceeded for ticket '' @ qr_ticket req))
      | Inl e \<Rightarrow>
          bind_proc (Mongo_FindReservationByID f k (qr_reservation req))
            (\<lambda>x. Ret (duplicate_answer req t x))
      | Inr u \<Rightarrow>
          bind_proc (Caching_FindByID f k now (qr_ticket req)) (\<lambda>x.
            Ret (Inr (quota_answer t (qr_reservation req) (qr_quantity req)
              (case x of Inr t' \<Rightarrow> t_quota t' - t_reserved t' - t_sold t'
               | Inl e \<Rightarrow> t_quota t - t_reserved t - t_sold t - sint (qr_quantity req))))))"

definition ReserveQuota ::
  "bool \<Rightarrow> (nat \<Rightarrow> outcome) \<Rightarrow> int \<Rightarrow> int \<Rightarrow> quota_request
     \<Rightarrow> (ticket_world, grpc_status + quota_response) proc" where
  "ReserveQuota qm f now now2 req =
     (case bad_quota_request req of
        Some msg \<Rightarrow> Ret (Inl (CodeInvalidArgument, msg))
      | None \<Rightarrow>
          bind_proc (Caching_FindByID f 0 now (qr_ticket req)) (\<lambda>r.
            case r of
              Inl e \<Rightarrow> Ret (Inl (find_status (qr_ticket req) e))
            | Inr t \<Rightarrow>
                if field (t_plan t) \<noteq> []
                then Ret (Inl (CodeFailedPrecondition, ''ticket '' @ qr_ticket req @ '' is a seated ticket '' @
                       [CHR 0xE2, CHR 0x80, CHR 0x94] @ '' use the venue-service reservation path''))
                else bind_proc (Mongo_CreateReservation qm f 3 now now2 (quota_reservation req now))
                       (reserve_answer f 14 now2 req t)))"

section \<open>Release and finalize\<close>

definition release_status :: "string \<Rightarrow> ticket_error \<Rightarrow> grpc_status" where
  "release_status rid e =
     (if e = ErrTicketReservationNotFound then (CodeNotFound, ''reservation not found: '' @ rid)
      else if e = ErrTicketReservationConflict
           then (CodeFailedPrecondition, ''reservation '' @ rid @ '' is already finalized (SOLD)'')
      else internal_error)"

definition Grpc_ReleaseReservation ::
  "bool \<Rightarrow> (nat \<Rightarrow> outcome) \<Rightarrow> int \<Rightarrow> string \<Rightarrow> (ticket_world, grpc_status + release_response) proc" where
  "Grpc_ReleaseReservation qm f now rid =
     (if rid = [] then Ret (Inl (CodeInvalidArgument, ''reservation_id is required''))
      else bind_proc (Mongo_ReleaseReservation qm f 0 now rid) (\<lambda>r.
        case r of
          Inl e \<Rightarrow> Ret (Inl (release_status rid e))
        | Inr u \<Rightarrow>
            bind_proc (Mongo_FindReservationByID f 4 rid) (\<lambda>x.
              case x of
                Inl e \<Rightarrow> Ret (Inr \<lparr>ls_reservation = rid, ls_remaining = 0\<rparr>)
              | Inr v \<Rightarrow>
                  bind_proc (Caching_FindByID f 5 now (v_ticket v)) (\<lambda>y.
                    Ret (Inr \<lparr>ls_reservation = rid,
                      ls_remaining = (case y of Inl e \<Rightarrow> 0
                                      | Inr t \<Rightarrow> int32 (t_quota t - t_reserved t - t_sold t))\<rparr>)))))"

definition finalize_status :: "string \<Rightarrow> ticket_error \<Rightarrow> grpc_status" where
  "finalize_status rid e =
     (if e = ErrTicketReservationNotFound then (CodeNotFound, ''reservation not found: '' @ rid)
      else if e = ErrTicketReservationConflict
           then (CodeFailedPrecondition, ''reservation '' @ rid @ '' is already released'')
      else internal_error)"

definition Grpc_FinalizeReservation ::
  "bool \<Rightarrow> (nat \<Rightarrow> outcome) \<Rightarrow> int \<Rightarrow> string \<Rightarrow> string \<Rightarrow> (ticket_world, grpc_status + string) proc" where
  "Grpc_FinalizeReservation qm f now rid orderID =
     (if rid = [] then Ret (Inl (CodeInvalidArgument, ''reservation_id is required''))
      else if orderID = [] then Ret (Inl (CodeInvalidArgument, ''order_id is required''))
      else bind_proc (Mongo_FinalizeReservation qm f 0 now rid orderID) (\<lambda>r.
        Ret (case r of Inl e \<Rightarrow> Inl (finalize_status rid e) | Inr u \<Rightarrow> Inr rid)))"

section \<open>Order events\<close>

text \<open>A message of one of the order topics, or one that is not valid JSON or of no known topic.\<close>

record order_data =
  oe_order :: string
  oe_ticket :: string
  oe_reservation :: string

datatype order_message =
    OrderCreated order_data
  | OrderCancelled order_data
  | OrderCompleted order_data
  | BadPayload
  | OtherTopic

datatype consumer_error = EventMalformed | ConsumerRepo ticket_error

definition lift_repo :: "ticket_error + unit \<Rightarrow> consumer_error + unit" where
  "lift_repo r = (case r of Inl e \<Rightarrow> Inl (ConsumerRepo e) | Inr u \<Rightarrow> Inr ())"

definition handleOrderCreated ::
  "(nat \<Rightarrow> outcome) \<Rightarrow> nat \<Rightarrow> int \<Rightarrow> order_data \<Rightarrow> (ticket_world, consumer_error + unit) proc" where
  "handleOrderCreated f k now d =
     (if oe_reservation d \<noteq> [] then Ret (Inr ())
      else if oe_ticket d = [] \<or> oe_order d = [] then Ret (Inl EventMalformed)
      else bind_proc (ReserveTicket f k now (oe_ticket d) (oe_order d)) (\<lambda>r. Ret (lift_repo r)))"

definition handleOrderCancelled ::
  "bool \<Rightarrow> (nat \<Rightarrow> outcome) \<Rightarrow> nat \<Rightarrow> int \<Rightarrow> order_data \<Rightarrow> (ticket_world, consumer_error + unit) proc" where
  "handleOrderCancelled qm f k now d =
     (if oe_reservation d \<noteq> []
      then bind_proc (Mongo_ReleaseReservation qm f k now (oe_reservation d)) (\<lambda>r. Ret (lift_repo r))
      else if oe_ticket d = [] then Ret (Inl EventMalformed)
      else bind_proc (ReleaseTicket f k now (oe_ticket d)) (\<lambda>r. Ret (lift_repo r)))"

definition handleOrderCompleted ::
  "bool \<Rightarrow> (nat \<Rightarrow> outcome) \<Rightarrow> nat \<Rightarrow> int \<Rightarrow> order_data \<Rightarrow> (ticket_world, consumer_error + unit) proc" where
  "handleOrderCompleted qm f k now d =
     (if oe_reservation d = [] then Ret (Inl EventMalformed)
      else if oe_order d = [] then Ret (Inl EventMalformed)
      else bind_proc (Mongo_FinalizeReservation qm f k now (oe_reservation d) (oe_order d)) (\<lambda>r. Ret (lift_repo r)))"

definition handleMessage ::
  "bool \<Rightarrow> (nat \<Rightarrow> outcome) \<Rightarrow> nat \<Rightarrow> int \<Rightarrow> order_message \<Rightarrow> (ticket_world, consumer_error + unit) proc" where
  "handleMessage qm f k now m =
     (case m of
        OrderCreated d \<Rightarrow> handleOrderCreated f k now d
      | OrderCancelled d \<Rightarrow> handleOrderCancelled qm f k now d
      | OrderCompleted d \<Rightarrow> handleOrderCompleted qm f k now d
      | BadPayload \<Rightarrow> Ret (Inl EventMalformed)
      | OtherTopic \<Rightarrow> Ret (Inr ()))"

text \<open>
  Up to three attempts; \<open>left\<close> of them are left. The answer is \<open>Some True\<close> when the message was
  handled, \<open>Some False\<close> when it went to the dead-letter topic, and \<open>None\<close> when neither worked or the
  consumer was stopped during the wait (\<open>stopped\<close>), and the offset is not committed. \<open>dlq\<close> is
  whether the write to the dead-letter topic succeeds.
\<close>

fun processWithRetry ::
  "bool \<Rightarrow> (nat \<Rightarrow> outcome) \<Rightarrow> nat \<Rightarrow> (nat \<Rightarrow> int) \<Rightarrow> (nat \<Rightarrow> bool) \<Rightarrow> bool \<Rightarrow> order_message \<Rightarrow> nat
     \<Rightarrow> (ticket_world, bool option) proc" where
  "processWithRetry qm f k clock stopped dlq m 0 = Ret (if dlq then Some False else None)"
| "processWithRetry qm f k clock stopped dlq m (Suc left) =
     (if left < 2 \<and> stopped left then Ret None
      else bind_proc (handleMessage qm f k (clock left) m) (\<lambda>r.
        case r of
          Inr u \<Rightarrow> Ret (Some True)
        | Inl e \<Rightarrow> processWithRetry qm f (k + 4) clock stopped dlq m left))"

definition consume_order ::
  "bool \<Rightarrow> (nat \<Rightarrow> outcome) \<Rightarrow> (nat \<Rightarrow> int) \<Rightarrow> (nat \<Rightarrow> bool) \<Rightarrow> bool \<Rightarrow> order_message
     \<Rightarrow> (ticket_world, bool option) proc" where
  "consume_order qm f clock stopped dlq m = processWithRetry qm f 0 clock stopped dlq m 3"

end
