(* ===== verification/Ticket_Outbox.thy ===== *)
theory Ticket_Outbox
  imports Ticket_Repo "HOL-Library.Word"
begin

text \<open>
  The outbox of ticket-service: the claims, acknowledgements and retries of the repository
  (\<^verbatim>\<open>internal/repository/mongo_ticket_repository.go\<close>) and the relay that publishes the entries on
  Kafka (\<^verbatim>\<open>internal/outbox/relay.go\<close>). An entry lies in the document of its ticket. Claim tokens are
  an argument, one for each claim. Durations of the relay are nanoseconds in 64-bit arithmetic.
\<close>

unbundle bit_operations_syntax

section \<open>Claiming\<close>

definition claimable_event :: "int \<Rightarrow> outbox_event \<Rightarrow> bool" where
  "claimable_event now e \<longleftrightarrow> ob_next e \<le> now \<and>
     (ob_claim e = None \<or> (case ob_lease e of None \<Rightarrow> False | Some l \<Rightarrow> l < now))"

definition first_event :: "(outbox_event \<Rightarrow> bool) \<Rightarrow> (outbox_event \<Rightarrow> outbox_event) \<Rightarrow> ticket \<Rightarrow> ticket" where
  "first_event p g t = t\<lparr>t_outbox := snd (update_first p g (\<lambda>e. True) (t_outbox t))\<rparr>"

definition mark_claimed :: "string \<Rightarrow> int \<Rightarrow> outbox_event \<Rightarrow> outbox_event" where
  "mark_claimed token lease e = e\<lparr>ob_claim := Some token, ob_lease := Some lease\<rparr>"

type_synonym claimed_event = "string \<times> outbox_event"

text \<open>One claim after the other until the limit, no entry is left, or an error; \<open>n\<close> may still be made.\<close>

fun claim_loop ::
  "(nat \<Rightarrow> outcome) \<Rightarrow> nat \<Rightarrow> (nat \<Rightarrow> string) \<Rightarrow> int \<Rightarrow> int \<Rightarrow> nat \<Rightarrow> claimed_event list
     \<Rightarrow> (ticket_world, ticket_error + claimed_event list) proc" where
  "claim_loop f k token now lease 0 claimed = Ret (Inr claimed)"
| "claim_loop f k token now lease (Suc n) claimed =
     call (f k) (tickets_call (update_first (\<lambda>t. \<exists>e \<in> set (t_outbox t). claimable_event now e)
         (first_event (claimable_event now) (mark_claimed (token k) (now + lease))) valid_ticket)) (\<lambda>r.
       case r of
         Some (Some None) \<Rightarrow> Ret (Inr claimed)
       | Some (Some (Some t)) \<Rightarrow>
           (case List.find (\<lambda>e. ob_claim e = Some (token k)) (t_outbox t) of
              None \<Rightarrow> Ret (Inl ErrStore)
            | Some e \<Rightarrow> claim_loop f (k + 1) token now lease n (claimed @ [(t_id t, e)]))
       | _ \<Rightarrow> Ret (Inl ErrStore))"

definition ClaimPendingOutboxEvents ::
  "(nat \<Rightarrow> outcome) \<Rightarrow> nat \<Rightarrow> (nat \<Rightarrow> string) \<Rightarrow> int \<Rightarrow> int \<Rightarrow> int
     \<Rightarrow> (ticket_world, ticket_error + claimed_event list) proc" where
  "ClaimPendingOutboxEvents f k token now lease limit =
     claim_loop f k token now lease (if limit \<le> 0 then 1 else nat limit) []"

section \<open>Acknowledging and requeueing\<close>

definition claimed_by :: "string \<Rightarrow> string option \<Rightarrow> outbox_event \<Rightarrow> bool" where
  "claimed_by eid token e \<longleftrightarrow> ob_id e = eid \<and> ob_claim e = token \<and> token \<noteq> None"

definition AcknowledgeOutboxEvent ::
  "outcome \<Rightarrow> string \<Rightarrow> string \<Rightarrow> string option \<Rightarrow> (ticket_world, bool) proc" where
  "AcknowledgeOutboxEvent oc tid eid token =
     call oc (tickets_call (update_first
         (\<lambda>t. t_id t = tid \<and> (\<exists>e \<in> set (t_outbox t). claimed_by eid token e))
         (\<lambda>t. t\<lparr>t_outbox := filter (\<lambda>e. ob_id e \<noteq> eid) (t_outbox t)\<rparr>) valid_ticket))
       (\<lambda>r. Ret (case r of Some (Some (Some t)) \<Rightarrow> True | _ \<Rightarrow> False))"

definition mark_requeued :: "int \<Rightarrow> string \<Rightarrow> int \<Rightarrow> outbox_event \<Rightarrow> outbox_event" where
  "mark_requeued attempts lastErr next_at e =
     e\<lparr>ob_attempts := attempts, ob_error := lastErr, ob_next := next_at, ob_claim := None, ob_lease := None\<rparr>"

definition RequeueOutboxEvent ::
  "outcome \<Rightarrow> string \<Rightarrow> string \<Rightarrow> string option \<Rightarrow> string \<Rightarrow> int \<Rightarrow> int \<Rightarrow> (ticket_world, bool) proc" where
  "RequeueOutboxEvent oc tid eid token lastErr attempts next_at =
     call oc (tickets_call (update_first
         (\<lambda>t. t_id t = tid \<and> (\<exists>e \<in> set (t_outbox t). claimed_by eid token e))
         (first_event (claimed_by eid token) (mark_requeued attempts lastErr next_at)) valid_ticket))
       (\<lambda>r. Ret (case r of Some (Some (Some t)) \<Rightarrow> True | _ \<Rightarrow> False))"

section \<open>The relay\<close>

definition buildTicketEventData :: "(int \<Rightarrow> string) \<Rightarrow> outbox_payload \<Rightarrow> event_data" where
  "buildTicketEventData rfc3339 p =
     \<lparr>ed_id = op_id p, ed_title = op_title p, ed_price = op_price p, ed_user = op_user p,
      ed_plan = op_plan p, ed_type = op_type p, ed_quota = op_quota p, ed_reserved = op_reserved p,
      ed_sold = op_sold p, ed_max = op_max p, ed_version = op_version p, ed_category = op_category p,
      ed_event = op_event p, ed_created = rfc3339 (op_created p)\<rparr>"

definition message_of :: "(int \<Rightarrow> string) \<Rightarrow> outbox_event \<Rightarrow> outbox_type \<times> event_data" where
  "message_of rfc3339 e = (ob_type e, buildTicketEventData rfc3339 (ob_payload e))"

definition publish_event :: "(int \<Rightarrow> string) \<Rightarrow> outcome \<Rightarrow> outbox_event \<Rightarrow> (ticket_world, bool) proc" where
  "publish_event rfc3339 oc e =
     call oc (\<lambda>w. ((), w\<lparr>tw_published := tw_published w @ [message_of rfc3339 e]\<rparr>)) (\<lambda>r. Ret (r \<noteq> None))"

text \<open>\<^verbatim>\<open>backoffDelay\<close>: the shift and the product wrap around at 64 bits.\<close>

definition backoffDelay :: "int \<Rightarrow> int" where
  "backoffDelay attempt =
     (let n = (if attempt < 1 then 1 else attempt);
          delay = sint (500000000 * push_bit (nat (n - 1)) 1 :: 64 word)
      in if delay > 30000000000 then 30000000000 else delay)"

definition nextIdleInterval :: "int \<Rightarrow> int" where
  "nextIdleInterval current =
     (let next = sint (word_of_int current * 2 :: 64 word) in if next < 5000000000 then next else 5000000000)"

text \<open>\<open>now\<close> is the clock when a failed entry is put back, \<open>err\<close> the text of the failure.\<close>

definition processClaimedEvent ::
  "(int \<Rightarrow> string) \<Rightarrow> (nat \<Rightarrow> outcome) \<Rightarrow> nat \<Rightarrow> int \<Rightarrow> string \<Rightarrow> claimed_event \<Rightarrow> (ticket_world, bool) proc" where
  "processClaimedEvent rfc3339 f k now err item =
     bind_proc (publish_event rfc3339 (f k) (snd item)) (\<lambda>published.
       if published then AcknowledgeOutboxEvent (f (k + 1)) (fst item) (ob_id (snd item)) (ob_claim (snd item))
       else
         let attempts = ob_attempts (snd item) + 1 in
         bind_proc (RequeueOutboxEvent (f (k + 1)) (fst item) (ob_id (snd item)) (ob_claim (snd item)) err attempts
             (now + backoffDelay attempts div 1000000)) (\<lambda>r. Ret False))"

fun process_each ::
  "(int \<Rightarrow> string) \<Rightarrow> (nat \<Rightarrow> outcome) \<Rightarrow> nat \<Rightarrow> (nat \<Rightarrow> int) \<Rightarrow> string \<Rightarrow> claimed_event list \<Rightarrow> (ticket_world, unit) proc" where
  "process_each rfc3339 f k clock err [] = Ret ()"
| "process_each rfc3339 f k clock err (item # items) =
     bind_proc (processClaimedEvent rfc3339 f k (clock k) err item)
       (\<lambda>r. process_each rfc3339 f (k + 2) clock err items)"

text \<open>A batch of 20 with a lease of 30 seconds. \<open>g\<close>: the outcomes of the calls after the claims.\<close>

definition processBatch ::
  "(int \<Rightarrow> string) \<Rightarrow> (nat \<Rightarrow> outcome) \<Rightarrow> (nat \<Rightarrow> outcome) \<Rightarrow> (nat \<Rightarrow> string) \<Rightarrow> int \<Rightarrow> (nat \<Rightarrow> int) \<Rightarrow> string
     \<Rightarrow> (ticket_world, ticket_error + nat) proc" where
  "processBatch rfc3339 f g token now clock err =
     bind_proc (ClaimPendingOutboxEvents f 0 token now 30000 20) (\<lambda>r.
       case r of
         Inl e \<Rightarrow> Ret (Inl e)
       | Inr claimed \<Rightarrow> bind_proc (process_each rfc3339 g 0 clock err claimed) (\<lambda>u. Ret (Inr (length claimed))))"

section \<open>The back-off\<close>

lemma backoff_word: "1 \<le> n \<Longrightarrow> backoffDelay n =
    (let d = sint (500000000 * push_bit (nat (n - 1)) 1 :: 64 word) in if d > 30000000000 then 30000000000 else d)"
  by (simp add: backoffDelay_def)

lemma push_bit_int: "(500000000 * push_bit n 1 :: 64 word) = word_of_int (500000000 * 2 ^ n)"
  by (simp add: push_bit_eq_mult)

lemma backoff_small:
  assumes "n < 35"
  shows "sint (500000000 * push_bit n 1 :: 64 word) = 500000000 * 2 ^ n"
proof -
  have "(2::int) ^ n \<le> 2 ^ 34" by (rule power_increasing) (use assms in auto)
  then have "500000000 * (2::int) ^ n < 9223372036854775808" by simp
  moreover have "- 9223372036854775808 \<le> 500000000 * (2::int) ^ n" by (rule order_trans [of _ 0]) simp_all
  ultimately have "signed_take_bit 63 (500000000 * (2::int) ^ n) = 500000000 * 2 ^ n"
    by (intro signed_take_bit_int_eq_self) simp_all
  then show ?thesis unfolding push_bit_int sint_sbintrunc' by simp
qed

lemma backoff_zero:
  assumes "56 \<le> n"
  shows "(500000000 * push_bit n 1 :: 64 word) = 0"
proof -
  obtain m where "n = 56 + m" using assms le_Suc_ex by blast
  then have "(500000000::int) * 2 ^ n = 2 ^ 64 * (1953125 * 2 ^ m)" by (simp add: power_add)
  then have "(2::int) ^ 64 dvd 500000000 * 2 ^ n" by simp
  then have "(2::int) ^ LENGTH(64) dvd 500000000 * 2 ^ n" by simp
  then show ?thesis unfolding push_bit_int word_of_int_eq_0_iff .
qed

end
