(* ===== verification/Quota_Reconciler.thy ===== *)
theory Quota_Reconciler
  imports Ticket_Listing
begin

text \<open>
  The background worker that corrects the Redis counters of ticket-service
  (\<^verbatim>\<open>internal/reconciler/quota_reconciler.go\<close>): a sweep of expired reservations, then all tickets page
  by page. \<open>g\<close> gives the outcomes of the calls after the sweep. The loop over the pages has fuel;
  \<open>Quota_Run_enough\<close> shows how much is enough. The answer \<open>None\<close> means the fuel ran out.
\<close>

section \<open>The worker\<close>

definition reconcileTicket ::
  "(nat \<Rightarrow> outcome) \<Rightarrow> nat \<Rightarrow> string \<Rightarrow> int \<Rightarrow> (ticket_world, unit) proc" where
  "reconcileTicket g k tid available =
     bind_proc (Quota_Available (g k) tid) (\<lambda>r.
       case r of
         Inl ErrKeyNotInitialised \<Rightarrow> bind_proc (Quota_Seed (g (k + 1)) tid available False) (\<lambda>x. Ret ())
       | Inl e \<Rightarrow> Ret ()
       | Inr redisAvail \<Rightarrow>
           if redisAvail \<noteq> available then bind_proc (Quota_Seed (g (k + 1)) tid available True) (\<lambda>x. Ret ())
           else Ret ())"

definition available_of :: "ticket \<Rightarrow> int" where
  "available_of t = t_quota t - t_reserved t - t_sold t"

fun reconcile_each :: "(nat \<Rightarrow> outcome) \<Rightarrow> nat \<Rightarrow> ticket list \<Rightarrow> (ticket_world, unit) proc" where
  "reconcile_each g k [] = Ret ()"
| "reconcile_each g k (t # ts) =
     (if field (t_plan t) \<noteq> [] then reconcile_each g (k + 2) ts
      else bind_proc (reconcileTicket g k (t_id t) (available_of t)) (\<lambda>u. reconcile_each g (k + 2) ts))"

fun reconcile_pages ::
  "(string \<Rightarrow> string \<Rightarrow> bool) \<Rightarrow> (string \<Rightarrow> rat option) \<Rightarrow> (nat \<Rightarrow> outcome) \<Rightarrow> nat \<Rightarrow> nat \<Rightarrow> string
     \<Rightarrow> (ticket_world, (ticket_error + unit) option) proc" where
  "reconcile_pages like price g k 0 cursor = Ret None"
| "reconcile_pages like price g k (Suc fuel) cursor =
     bind_proc (Mongo_FindAll like price g k (default_page cursor 50)) (\<lambda>r.
       case r of
         Inl e \<Rightarrow> Ret (Some (Inl e))
       | Inr page \<Rightarrow>
           bind_proc (reconcile_each g (k + 1) page) (\<lambda>u.
             if length page < 50 then Ret (Some (Inr ()))
             else reconcile_pages like price g (k + 101) fuel
                    (EncodeCursor (t_created (last page)) (t_id (last page)))))"

definition Quota_Run ::
  "(string \<Rightarrow> string \<Rightarrow> bool) \<Rightarrow> (string \<Rightarrow> rat option) \<Rightarrow> bool \<Rightarrow> (nat \<Rightarrow> outcome) \<Rightarrow> (nat \<Rightarrow> outcome)
     \<Rightarrow> (nat \<Rightarrow> int) \<Rightarrow> int \<Rightarrow> nat \<Rightarrow> (ticket_world, (ticket_error + unit) option) proc" where
  "Quota_Run like price qm f g nows now fuel =
     bind_proc (Mongo_SweepExpiredReservations qm f 0 nows now)
       (\<lambda>swept. reconcile_pages like price g 0 fuel [])"

text \<open>The leader lock: \<open>expired\<close> says whether a lock that is there has outlived the interval.\<close>

definition acquire_leader :: "bool \<Rightarrow> string \<Rightarrow> ticket_world \<Rightarrow> bool \<times> ticket_world" where
  "acquire_leader expired token w =
     (if tw_leader w = None \<or> expired then (True, w\<lparr>tw_leader := Some token\<rparr>) else (False, w))"

definition releaseLeaderScript :: "string \<Rightarrow> ticket_world \<Rightarrow> unit \<times> ticket_world" where
  "releaseLeaderScript token w = ((), if tw_leader w = Some token then w\<lparr>tw_leader := None\<rparr> else w)"

definition runIfLeader ::
  "(string \<Rightarrow> string \<Rightarrow> bool) \<Rightarrow> (string \<Rightarrow> rat option) \<Rightarrow> bool \<Rightarrow> (nat \<Rightarrow> outcome) \<Rightarrow> (nat \<Rightarrow> outcome) \<Rightarrow> (nat \<Rightarrow> outcome)
     \<Rightarrow> (nat \<Rightarrow> int) \<Rightarrow> int \<Rightarrow> nat \<Rightarrow> bool \<Rightarrow> string \<Rightarrow> (ticket_world, (ticket_error + unit) option) proc" where
  "runIfLeader like price qm h f g nows now fuel expired token =
     call (h 0) (acquire_leader expired token) (\<lambda>r.
       case r of
         None \<Rightarrow> Ret (Some (Inl ErrStore))
       | Some False \<Rightarrow> Ret (Some (Inr ()))
       | Some True \<Rightarrow>
           bind_proc (Quota_Run like price qm f g nows now fuel) (\<lambda>x.
             case x of
               Some (Inl e) \<Rightarrow> call (h 1) (releaseLeaderScript token) (\<lambda>y. Ret (Some (Inl e)))
             | _ \<Rightarrow> Ret x))"

section \<open>What a page leaves behind\<close>

definition counter_right :: "ticket_world \<Rightarrow> ticket \<Rightarrow> bool" where
  "counter_right w t \<longleftrightarrow> (field (t_plan t) = [] \<longrightarrow> tw_avail w (t_id t) = Some (available_of t))"

lemma run_reconcileTicket:
  assumes "g = (\<lambda>i. Works)"
  shows "\<exists>w'. run_alone (reconcileTicket g k tid n) w = ((), w') \<and> tw_tickets w' = tw_tickets w \<and>
    tw_avail w' = (tw_avail w)(tid := Some n)"
  by (cases "tw_avail w tid") (auto simp: reconcileTicket_def Quota_Available_def Quota_Seed_def assms fun_upd_idem)

lemma run_reconcile_each:
  assumes "g = (\<lambda>i. Works)"
  shows "distinct (map t_id ts) \<Longrightarrow>
    \<exists>w'. run_alone (reconcile_each g k ts) w = ((), w') \<and> tw_tickets w' = tw_tickets w \<and>
      (\<forall>t \<in> set ts. counter_right w' t) \<and> (\<forall>i. i \<notin> t_id ` set ts \<longrightarrow> tw_avail w' i = tw_avail w i)"
proof (induction ts arbitrary: k w)
  case (Cons t ts)
  have d: "distinct (map t_id ts)" "t_id t \<notin> t_id ` set ts" using Cons.prems by auto
  show ?case
  proof (cases "field (t_plan t) \<noteq> []")
    case True
    then show ?thesis using Cons.IH [OF d(1), of "k + 2" w] by (auto simp: counter_right_def)
  next
    case False
    obtain w1 where w1: "run_alone (reconcileTicket g k (t_id t) (available_of t)) w = ((), w1)"
      "tw_tickets w1 = tw_tickets w" "tw_avail w1 = (tw_avail w)(t_id t := Some (available_of t))"
      using run_reconcileTicket [OF assms] by blast
    obtain w2 where w2: "run_alone (reconcile_each g (k + 2) ts) w1 = ((), w2)" "tw_tickets w2 = tw_tickets w1"
      "\<forall>x \<in> set ts. counter_right w2 x" "\<forall>i. i \<notin> t_id ` set ts \<longrightarrow> tw_avail w2 i = tw_avail w1 i"
      using Cons.IH [OF d(1)] by blast
    have "tw_avail w2 (t_id t) = Some (available_of t)" using w2(4) d(2) w1(3) by simp
    then have "counter_right w2 t" by (simp add: counter_right_def)
    moreover have "run_alone (reconcile_each g k (t # ts)) w = ((), w2)" using False w1(1) w2(1) by simp
    ultimately show ?thesis using w1(2,3) w2 by (intro exI [of _ w2]) auto
  qed
qed simp

section \<open>All pages\<close>

definition storable :: "ticket_world \<Rightarrow> bool" where
  "storable w \<longleftrightarrow> distinct (map t_id (tw_tickets w)) \<and>
     (\<forall>t \<in> set (tw_tickets w). - 9223372036854775808 \<le> t_created t \<and> t_created t \<le> 9223372036854775807)"

lemma find_next_page:
  assumes "storable w" "newest_tickets (tw_tickets w) = us @ vs"
    "cursor = (if us = [] then [] else EncodeCursor (t_created (last us)) (t_id (last us)))"
  shows "find_page like price (default_page cursor n) (tw_tickets w) = Some (take (page_limit (default_page cursor n)) vs)"
proof (cases "us = []")
  case True
  then show ?thesis using assms(2,3) by (simp add: find_page_default before_cursor_def [abs_def])
next
  case False
  then obtain ys x where us: "us = ys @ [x]" using rev_exhaust by blast
  have "x \<in> set (newest_tickets (tw_tickets w))" unfolding assms(2) us by simp
  then have "x \<in> set (tw_tickets w)" by simp
  then have x: "- 9223372036854775808 \<le> t_created x" "t_created x \<le> 9223372036854775807"
    using assms(1) unfolding storable_def by blast+
  have dist: "distinct (map t_id (tw_tickets w))" using assms(1) storable_def by blast
  have "page_limit (default_page cursor n) = page_limit (default_page [] n)" by (simp add: page_limit_def default_page_def)
  then show ?thesis using next_page [OF dist _ x, of ys vs like price n] assms(2,3) us by simp
qed

lemma run_pages:
  assumes works: "g = (\<lambda>i. Works)" and w: "storable w"
    and L: "newest_tickets (tw_tickets w) = us @ vs"
    and cursor: "cursor = (if us = [] then [] else EncodeCursor (t_created (last us)) (t_id (last us)))"
    and fuel: "length vs < 50 * fuel" and right: "\<forall>t \<in> set us. counter_right w t"
  shows "\<exists>w'. run_alone (reconcile_pages like price g k fuel cursor) w = (Some (Inr ()), w') \<and>
    tw_tickets w' = tw_tickets w \<and> (\<forall>t \<in> set (us @ vs). counter_right w' t)"
  using w L cursor fuel right
proof (induction fuel arbitrary: us vs k w cursor)
  case (Suc fuel)
  define page where "page = take 50 vs"
  have lim: "page_limit (default_page [] 50) = 50" "page_limit (default_page cursor 50) = 50"
    by (simp_all add: page_limit_def default_page_def)
  have ids: "distinct (map t_id (us @ vs))"
    using Suc.prems(1) unfolding Suc.prems(2) [symmetric] storable_def newest_tickets_def
    by (simp add: rev_map [symmetric] distinct_map)
  have find: "find_page like price (default_page cursor 50) (tw_tickets w) = Some page"
    using find_next_page [OF Suc.prems(1-3), of like price 50] lim by (simp add: page_def)
  have "distinct (map t_id page)" using ids unfolding page_def by (simp add: take_map [symmetric])
  then obtain w1 where w1: "run_alone (reconcile_each g (k + 1) page) w = ((), w1)" "tw_tickets w1 = tw_tickets w"
      "\<forall>t \<in> set page. counter_right w1 t" "\<forall>i. i \<notin> t_id ` set page \<longrightarrow> tw_avail w1 i = tw_avail w i"
    using run_reconcile_each [OF works] by blast
  have keep: "\<forall>t \<in> set (us @ page). counter_right w1 t"
  proof
    fix t assume "t \<in> set (us @ page)"
    then consider "t \<in> set page" | "t \<in> set us" "t_id t \<notin> t_id ` set page"
      using ids set_take_subset [of 50 vs] unfolding page_def [symmetric] by fastforce
    then show "counter_right w1 t" using w1(3,4) Suc.prems(5) by cases (auto simp: counter_right_def)
  qed
  have step: "run_alone (reconcile_pages like price g k (Suc fuel) cursor) w =
      (if length page < 50 then (Some (Inr ()), w1)
       else run_alone (reconcile_pages like price g (k + 101) fuel
              (EncodeCursor (t_created (last page)) (t_id (last page)))) w1)"
    using works find w1(1) by (simp add: Mongo_FindAll_def)
  show ?case
  proof (cases "length vs < 50")
    case True
    then have "page = vs" by (simp add: page_def)
    then show ?thesis using step True w1(2) keep by auto
  next
    case False
    have page: "length page = 50" "page \<noteq> []" using False by (auto simp: page_def)
    let ?us = "us @ page" and ?vs = "drop 50 vs"
    have "storable w1" using Suc.prems(1) w1(2) by (simp add: storable_def)
    moreover have "newest_tickets (tw_tickets w1) = ?us @ ?vs" using w1(2) Suc.prems(2) by (simp add: page_def)
    moreover have "EncodeCursor (t_created (last page)) (t_id (last page)) =
        (if ?us = [] then [] else EncodeCursor (t_created (last ?us)) (t_id (last ?us)))" using page by simp
    moreover have "length ?vs < 50 * fuel" using Suc.prems(4) False by simp
    ultimately obtain w' where w': "run_alone (reconcile_pages like price g (k + 101) fuel
        (EncodeCursor (t_created (last page)) (t_id (last page)))) w1 = (Some (Inr ()), w')"
        "tw_tickets w' = tw_tickets w1" "\<forall>t \<in> set (?us @ ?vs). counter_right w' t"
      using Suc.IH keep by blast
    have "?us @ ?vs = us @ vs" by (simp add: page_def)
    then show ?thesis using step page w' w1(2) by (intro exI [of _ w']) simp
  qed
qed simp

section \<open>The sweep before it\<close>

lemma keeps_tickets_call:
  assumes "\<And>t. h (g t) = h t"
  shows "map h (tw_tickets w) = c \<Longrightarrow>
    map h (tw_tickets (snd (tickets_call (update_first p g ok) w))) = c"
  using assms by (simp add: update_first_keeps)

lemma keeps_quota: "(\<And>w w'. tw_tickets w' = tw_tickets w \<Longrightarrow> P w \<Longrightarrow> P w') \<Longrightarrow> keeps P (Quota_Release oc tid u q)"
  unfolding Quota_Release_def by (intro keeps_call) (auto simp: scripts_frame)

lemma keeps_release:
  fixes c :: "(string \<times> int) list"
  defines "P \<equiv> (\<lambda>w. map (\<lambda>t. (t_id t, t_created t)) (tw_tickets w) = c)"
  shows "keeps P (Mongo_ReleaseReservation qm f k now rid)"
proof -
  have quota: "keeps P (Quota_Release oc tid u q)" for oc tid u q
    by (rule keeps_quota) (simp add: P_def)
  have counter: "keeps P (release_counter qm f k now v)" for k v
    unfolding release_counter_def
    by (intro keeps_call) (auto simp: P_def [symmetric] intro!: keeps_bind quota split: option.split,
        auto simp: P_def inc_reserved_def intro!: keeps_tickets_call [simplified])
  show ?thesis
    unfolding Mongo_ReleaseReservation_def Mongo_FindReservationByID_def
    by (intro keeps_call) (auto simp: counter intro!: keeps_call split: option.split, auto simp: P_def)
qed

lemma keeps_sweep:
  fixes c :: "(string \<times> int) list"
  shows "keeps (\<lambda>w. map (\<lambda>t. (t_id t, t_created t)) (tw_tickets w) = c) (Mongo_SweepExpiredReservations qm f k nows now)"
proof -
  let ?P = "\<lambda>w. map (\<lambda>t. (t_id t, t_created t)) (tw_tickets w) = c"
  have each: "keeps ?P (sweep_each qm f k nows rids n)" for k rids n
    by (induction rids arbitrary: k n) (auto intro!: keeps_bind keeps_release)
  show ?thesis
    unfolding Mongo_SweepExpiredReservations_def
    by (intro keeps_call) (auto intro!: keeps_bind each split: option.split)
qed

lemma storable_alt:
  "storable w \<longleftrightarrow> distinct (map t_id (tw_tickets w)) \<and>
     list_all (\<lambda>c. - 9223372036854775808 \<le> c \<and> c \<le> 9223372036854775807) (map t_created (tw_tickets w))"
  by (simp add: storable_def list_all_iff)

lemma storable_cong:
  assumes "map (\<lambda>t. (t_id t, t_created t)) (tw_tickets w') = map (\<lambda>t. (t_id t, t_created t)) (tw_tickets w)"
  shows "storable w' = storable w" "length (tw_tickets w') = length (tw_tickets w)"
proof -
  have "map t_id (tw_tickets w') = map t_id (tw_tickets w)" "map t_created (tw_tickets w') = map t_created (tw_tickets w)"
    using arg_cong [OF assms, of "map fst"] arg_cong [OF assms, of "map snd"] by (simp_all add: comp_def)
  then show "storable w' = storable w" by (simp only: storable_alt)
  show "length (tw_tickets w') = length (tw_tickets w)" using arg_cong [OF assms, of length] by simp
qed

text \<open>
  A pass whose calls after the sweep answer ends, with fuel for every started page of 50, and leaves
  every counter of a ticket without a seating plan at the quota less what is reserved and sold,
  whatever the counter was, also when keys were missing and when the sweep failed.
\<close>

lemma Quota_Run_enough:
  assumes "storable w" "length (tw_tickets w) < 50 * fuel"
  shows "\<exists>w'. run_alone (Quota_Run like price qm f (\<lambda>i. Works) nows now fuel) w = (Some (Inr ()), w') \<and>
    (\<forall>t \<in> set (tw_tickets w'). counter_right w' t)"
proof -
  define w1 where "w1 = snd (run_alone (Mongo_SweepExpiredReservations qm f 0 nows now) w)"
  have "map (\<lambda>t. (t_id t, t_created t)) (tw_tickets w1) = map (\<lambda>t. (t_id t, t_created t)) (tw_tickets w)"
    unfolding w1_def by (rule keeps_run [OF keeps_sweep]) simp
  note same = storable_cong [OF this]
  have st: "storable w1" using same assms by simp
  have len: "length (newest_tickets (tw_tickets w1)) < 50 * fuel" using same assms by simp
  obtain w' where "run_alone (reconcile_pages like price (\<lambda>i. Works) 0 fuel []) w1 = (Some (Inr ()), w')"
      "tw_tickets w' = tw_tickets w1" "\<forall>t \<in> set ([] @ newest_tickets (tw_tickets w1)). counter_right w' t"
    using run_pages [OF refl st, of "[]" "newest_tickets (tw_tickets w1)" "[]" fuel like price 0] len by auto
  then show ?thesis by (auto simp: Quota_Run_def w1_def split: prod.split)
qed

end
