(* ===== verification/Ticket_Pool.thy ===== *)
theory Ticket_Pool
  imports Ticket_Ledger Ticket_Grpc Ticket_Outbox Quota_Reconciler
begin

text \<open>
  All requests and workers of ticket-service at once: \<open>ticket_request\<close> is what may start on any
  replica, each one keeps the accounts of \<open>Ticket_Ledger\<close>, and so does every run of any number of
  them. The one exclusion is a reserve whose insert of the reservation is stored but reported as
  failed; \<open>Ticket_Props\<close> shows what it does.
\<close>

section \<open>More calls that keep the accounts\<close>

lemma stock_inv_learn:
  assumes "stock_inv w E" "debt_fine (tw_tickets w) (snap_of t)"
  shows "stock_inv w ({#snap_of t#} + E)"
  using assms by (simp add: stock_inv_def balanced_def)

lemma stock_inv_cached:
  assumes "stock_inv w ({#snap_of t#} + E)"
  shows "stock_inv (snd (set_cached tid now t w)) ({#snap_of t#} + E)"
proof (rule stock_invI)
  have "debt_fine (tw_tickets w) (snap_of t)" using stock_invD(4) [OF assms, of "snap_of t"] by simp
  then show "debt_fine (tw_tickets (snd (set_cached tid now t w))) (snap_of (fst c))"
    if "tw_cache (snd (set_cached tid now t w)) k = Some c" for k c
    using that stock_invD(6) [OF assms, of k c] by (cases "k = tid") (auto simp: set_cached_def)
qed (use stock_invD [OF assms] in \<open>simp_all del: debt_fine.simps\<close>)

lemma stock_inv_del:
  assumes "stock_inv w D"
  shows "stock_inv (snd (del_cached tid w)) D"
proof (rule stock_invI)
  show "debt_fine (tw_tickets (snd (del_cached tid w))) (snap_of (fst c))"
    if "tw_cache (snd (del_cached tid w)) k = Some c" for k c
    using that stock_invD(6) [OF assms, of k c] by (cases "k = tid") (auto simp: del_cached_def)
qed (use stock_invD [OF assms] in \<open>simp_all del: debt_fine.simps\<close>)

lemma safe_set_cached:
  assumes "\<And>r. safe stock_inv (k r) {#snap_of t#}"
  shows "safe stock_inv (call oc (set_cached tid now t) k) {#snap_of t#}"
  using assms stock_inv_cached by (intro safe_call) (blast, blast, simp)

lemma safe_del_cached:
  assumes "\<And>r. safe stock_inv (k r) D"
  shows "safe stock_inv (call oc (del_cached tid) k) D"
  using assms stock_inv_del by (intro safe_call) (blast, blast, simp)

text \<open>Reading through the cache also gives a version with its quota.\<close>

lemma safe_caching_find:
  assumes "\<And>t. safe stock_inv (h (Inr t)) {#snap_of t#}" and "\<And>e. safe stock_inv (h (Inl e)) {#}"
  shows "safe stock_inv (bind_proc (Caching_FindByID f k now tid) h) {#}"
proof -
  have load: "safe stock_inv (bind_proc (bind_proc (Mongo_FindByID f k' tid) (\<lambda>x.
      case x of Inl e \<Rightarrow> Ret (Inl e) | Inr t \<Rightarrow> call oc (set_cached tid now t) (\<lambda>y. Ret (Inr t)))) h) {#}" for k' oc
    unfolding bind_bind
    by (rule safe_find) (simp_all add: assms safe_set_cached)
  show ?thesis
    unfolding Caching_FindByID_def bind_call
  proof (rule safe_call)
    fix w E
    assume inv: "stock_inv w ({#} + E)"
    show "\<exists>d'. stock_inv (snd (reads (\<lambda>w. tw_cache w tid) w)) (d' + E) \<and>
        safe stock_inv (bind_proc (case Some (fst (reads (\<lambda>w. tw_cache w tid) w)) of
            Some (Some c) \<Rightarrow> Ret (Inr (fst c))
          | _ \<Rightarrow> bind_proc (Mongo_FindByID f (k + 1) tid) (\<lambda>x.
               case x of
                 Inl e \<Rightarrow> Ret (Inl e)
               | Inr t \<Rightarrow> call (f (k + 2)) (set_cached tid now t) (\<lambda>y. Ret (Inr t)))) h) d'"
    proof (cases "tw_cache w tid")
      case None
      then show ?thesis using inv load by (intro exI [of _ "{#}"]) simp
    next
      case (Some c)
      then have "stock_inv w ({#snap_of (fst c)#} + E)"
        using stock_inv_learn [OF _ stock_invD(6)] inv by simp
      then show ?thesis using Some assms(1) by (intro exI [of _ "{#snap_of (fst c)#}"]) simp
    qed
  qed (use load in \<open>auto intro!: exI [of _ "{#}"]\<close>)
qed

lemma safe_caching_find_any:
  assumes "\<And>r. safe stock_inv (h r) {#}"
  shows "safe stock_inv (bind_proc (Caching_FindByID f k now tid) h) {#}"
  by (rule safe_caching_find) (simp_all add: assms safe_owing)

text \<open>A change of a ticket that leaves quota and counters alone and never lowers the version.\<close>

lemma safe_neutral:
  assumes g: "\<And>t. t_id (g t) = t_id t \<and> t_version t \<le> t_version (g t) \<and> t_quota (g t) = t_quota t \<and>
      t_reserved (g t) = t_reserved t \<and> t_sold (g t) = t_sold t"
    and k: "\<And>r. safe stock_inv (k r) {#}"
  shows "safe stock_inv (call oc (tickets_call (update_first p g ok)) k) {#}"
proof (rule safe_update_tickets [where D' = "{#}"])
  fix w E us t zs
  assume inv: "stock_inv w ({#} + E)" and ts: "tw_tickets w = us @ t # zs"
  show "stock_inv (w\<lparr>tw_tickets := us @ g t # zs\<rparr>) ({#} + E)"
  proof (rule stock_inv_ticket [OF inv ts])
    show "t_id (g t) = t_id t" "t_version t < t_version (g t) \<or> t_version (g t) = t_version t \<and> t_quota (g t) = t_quota t"
      using g [of t] by auto
    have "balanced (tw_resv w) ({#} + E) t" using stock_invD(5) [OF inv] ts by simp
    then show "balanced (tw_resv w) ({#} + E) (g t)" using g [of t] by (simp add: balanced_def)
  qed simp_all
qed (simp_all add: k)

section \<open>Handlers\<close>

lemma safe_done [simp]: "safe stock_inv (bind_proc (Ret a) h) D = safe stock_inv (h a) D"
  by simp

lemma safe_Mongo_FindAll: "safe stock_inv (Mongo_FindAll like price f k p) D"
  unfolding Mongo_FindAll_def by (rule safe_outside) simp_all

lemma safe_refresh: "safe stock_inv (triggerTicketRefresh f k now b token tid) {#}"
proof -
  have "safe stock_inv (bind_proc (Mongo_FindByID f k1 tid) (\<lambda>x.
         case x of
           Inl e \<Rightarrow> Ret ()
         | Inr t \<Rightarrow> call oc (set_cached tid now t) (\<lambda>y.
                    if y = None then Ret ()
                    else call oc' (releaseLockScript tid token) (\<lambda>z. Ret ())))) {#}" for k1 oc oc'
    by (rule safe_find) (auto intro!: safe_set_cached safe_outside)
  then show ?thesis unfolding triggerTicketRefresh_def by (intro safe_outside) auto
qed

lemma safe_caching_create:
  assumes "t_reserved t0 = 0" "t_sold t0 = 0"
  shows "safe stock_inv (Caching_Create qm rfc f k newid now t0 evs) {#}"
  unfolding Caching_Create_def
  by (rule safe_seq [OF safe_create]) (auto simp: assms intro!: safe_outside split: sum.split)

lemma safe_CreateTicket: "safe stock_inv (CreateTicket qm rfc f newid u now i) {#}"
  unfolding CreateTicket_def
  by (auto intro!: safe_seq safe_caching_create simp: draft_ticket_def)

lemma attach_plan_case:
  "case attach_plan venue i t of Inl e \<Rightarrow> True | Inr t' \<Rightarrow>
    t_id t' = t_id t \<and> t_version t' = t_version t \<and> t_quota t' = t_quota t"
  by (simp add: attach_plan_def Let_def split: sum.split)

lemma attach_plan_keeps: "attach_plan venue i t = Inr t' \<Longrightarrow>
    t_id t' = t_id t \<and> t_version t' = t_version t \<and> t_quota t' = t_quota t"
  using attach_plan_case [where venue = venue and i = i and t = t] by simp

lemma safe_caching_update: "safe stock_inv (Caching_Update rfc f k now t evs) {#snap_of t#}"
  unfolding Caching_Update_def
proof (rule safe_seq [OF safe_update])
  fix a
  show "safe stock_inv (case a of Inl e \<Rightarrow> Ret (Inl e)
      | Inr t \<Rightarrow> call (f (k + 2)) (del_cached (t_id t)) (\<lambda>y. call (f (k + 3)) del_list (\<lambda>z. Ret (Inr t)))) {#}"
  proof (cases a)
    case (Inr t)
    show ?thesis
      unfolding Inr sum.case
      by (rule safe_del_cached, rule safe_outside) simp_all
  qed simp
qed

lemma changed_ticket_simps [simp]:
  "t_id (changed_ticket i t) = t_id t" "t_version (changed_ticket i t) = t_version t"
  "t_quota (changed_ticket i t) = t_quota t"
  by (simp_all add: changed_ticket_def)

lemma safe_update_copy: "safe stock_inv (update_copy rfc venue f k u now i t) {#snap_of t#}"
proof (cases "attach_plan venue i (changed_ticket i t)")
  case (Inr t')
  have "snap_of t' = snap_of t" using attach_plan_keeps [OF Inr] by simp
  then have "safe stock_inv (bind_proc (Caching_Update rfc f k now t' evs) (\<lambda>x. Ret (h x))) {#snap_of t#}"
    for evs and h :: "ticket_error + ticket \<Rightarrow> service_error + ticket"
    using safe_seq [OF safe_caching_update [of rfc f k now t' evs], of "\<lambda>x. Ret (h x)"] by simp
  then show ?thesis unfolding update_copy_def Inr by simp
qed (simp add: update_copy_def)

lemma safe_UpdateTicket: "safe stock_inv (UpdateTicket rfc venue f k u now i) {#}"
  unfolding UpdateTicket_def
  by (rule safe_caching_find) (simp_all add: safe_update_copy)

lemma safe_GetTicket: "safe stock_inv (GetTicket f now tid) {#}"
  unfolding GetTicket_def by (auto intro!: safe_caching_find_any)

lemma safe_Validate: "safe stock_inv (ValidateTicketAvailability f now tid) {#}"
  unfolding ValidateTicketAvailability_def by (auto intro!: safe_caching_find_any)

lemma safe_reserve_answer: "safe stock_inv (reserve_answer f k now req t r) {#}"
  unfolding reserve_answer_def
  by (cases r rule: sum.exhaust)
    (auto split!: ticket_error.split intro!: safe_seq safe_reads safe_caching_find_any)

lemma safe_ReserveQuota:
  assumes "f 11 \<noteq> AnswerLost"
  shows "safe stock_inv (ReserveQuota qm f now now2 req) {#}"
proof (cases "bad_quota_request req")
  case None
  then have q: "1 \<le> v_quantity (quota_reservation req now)"
    by (auto simp: bad_quota_request_def quota_reservation_def split: if_splits)
  have "f (3 + 8) \<noteq> AnswerLost" using assms by simp
  note create = safe_create_reservation [of f 3, OF this q]
  show ?thesis
    unfolding ReserveQuota_def None
    by (auto split!: sum.split intro!: safe_caching_find_any safe_seq create safe_reserve_answer)
qed (simp add: ReserveQuota_def)

lemma safe_Release: "safe stock_inv (Grpc_ReleaseReservation qm f now rid) {#}"
  unfolding Grpc_ReleaseReservation_def
  by (auto split!: sum.split intro!: safe_seq safe_release_reservation safe_reads safe_caching_find_any)

lemma safe_Finalize: "safe stock_inv (Grpc_FinalizeReservation qm f now rid oid) {#}"
  unfolding Grpc_FinalizeReservation_def
  by (auto intro!: safe_seq safe_finalize_reservation)

lemma safe_legacy:
  "safe stock_inv (ReserveTicket f k now tid oid) {#}" "safe stock_inv (ReleaseTicket f k now tid) {#}"
  unfolding ReserveTicket_def ReleaseTicket_def
  by (auto intro!: safe_neutral safe_seq safe_reads split: option.split)

lemma safe_handleMessage: "safe stock_inv (handleMessage qm f k now m) {#}"
  unfolding handleMessage_def handleOrderCreated_def handleOrderCancelled_def handleOrderCompleted_def
  by (cases m) (auto intro!: safe_seq safe_legacy safe_release_reservation safe_finalize_reservation)

lemma safe_consume: "safe stock_inv (processWithRetry qm f k clock stopped dlq m n) {#}"
  by (induction n arbitrary: k) (auto intro!: safe_seq safe_handleMessage split: sum.split)

lemma safe_reconcileTicket: "safe stock_inv (reconcileTicket g k tid n) {#}"
  unfolding reconcileTicket_def
  by (intro safe_seq safe_quota) (auto intro!: safe_seq split: sum.split quota_error.split)

lemma safe_reconcile_each: "safe stock_inv (reconcile_each g k ts) {#}"
  by (induction ts arbitrary: k) (auto intro!: safe_seq safe_reconcileTicket)

lemma safe_reconcile_pages: "safe stock_inv (reconcile_pages like price g k fuel c) {#}"
  by (induction fuel arbitrary: k c)
    (auto intro!: safe_seq safe_Mongo_FindAll safe_reconcile_each split: sum.split)

lemma safe_runIfLeader: "safe stock_inv (runIfLeader like price qm h f g nows now fuel b token) {#}"
  unfolding runIfLeader_def Quota_Run_def
  by (intro safe_outside)
    (auto simp: acquire_leader_def releaseLeaderScript_def split!: option.split bool.split sum.split
      intro!: safe_seq safe_sweep safe_reconcile_pages safe_outside)

lemma first_event_simps [simp]:
  "t_id (first_event p g t) = t_id t" "t_version (first_event p g t) = t_version t"
  "t_quota (first_event p g t) = t_quota t" "t_reserved (first_event p g t) = t_reserved t"
  "t_sold (first_event p g t) = t_sold t"
  by (simp_all add: first_event_def)

lemma safe_claim_loop: "safe stock_inv (claim_loop f k token now lease n claimed) {#}"
  by (induction n arbitrary: k claimed) (auto intro!: safe_neutral split: option.split)

lemma safe_process_event: "safe stock_inv (processClaimedEvent rfc f k now err item) {#}"
  unfolding processClaimedEvent_def publish_event_def AcknowledgeOutboxEvent_def RequeueOutboxEvent_def Let_def
  by (auto intro!: safe_outside safe_neutral)

lemma safe_process_each: "safe stock_inv (process_each rfc f k clock err items) {#}"
  by (induction items arbitrary: k) (auto intro!: safe_seq safe_process_event)

lemma safe_processBatch: "safe stock_inv (processBatch rfc f g token now clock err) {#}"
  unfolding processBatch_def ClaimPendingOutboxEvents_def
  by (auto intro!: safe_seq safe_claim_loop safe_process_each split: sum.split)

lemma safe_saved:
  "safe stock_inv (Service_SaveEvent f k now uid eid) {#}" "safe stock_inv (Service_UnsaveEvent f k uid eid) {#}"
  unfolding Service_SaveEvent_def Service_UnsaveEvent_def Saved_SaveEvent_def Saved_UnsaveEvent_def
  by (auto intro!: safe_caching_find_any safe_outside split!: sum.split simp: saved_call_def split: prod.split)

lemma safe_ListTickets: "safe stock_inv (ListTickets like price f k now p) {#}"
  unfolding ListTickets_def Caching_FindAll_def
  by (auto intro!: safe_seq safe_Mongo_FindAll safe_outside split!: option.split sum.split)

section \<open>What may run\<close>

definition no_answer :: "(ticket_world, 'a) proc \<Rightarrow> (ticket_world, unit) proc" where
  "no_answer p = bind_proc p (\<lambda>x. Ret ())"

inductive ticket_request :: "(ticket_world, unit) proc \<Rightarrow> bool" where
  create: "ticket_request (no_answer (CreateTicket qm rfc f newid u now i))"
| update: "ticket_request (no_answer (UpdateTicket rfc venue f k u now ui))"
| list: "ticket_request (no_answer (ListTickets like price f k now p))"
| save: "ticket_request (no_answer (Service_SaveEvent f k now uid eid))"
| unsave: "ticket_request (no_answer (Service_UnsaveEvent f k uid eid))"
| get: "ticket_request (no_answer (GetTicket f now tid))"
| validate: "ticket_request (no_answer (ValidateTicketAvailability f now tid))"
| reserve: "f 11 \<noteq> AnswerLost \<Longrightarrow> ticket_request (no_answer (ReserveQuota qm f now now2 req))"
| release: "ticket_request (no_answer (Grpc_ReleaseReservation qm f now rid))"
| finalize: "ticket_request (no_answer (Grpc_FinalizeReservation qm f now rid oid))"
| consume: "ticket_request (no_answer (consume_order qm f clock stopped dlq m))"
| refresh: "ticket_request (no_answer (triggerTicketRefresh f k now b token tid))"
| reconcile: "ticket_request (no_answer (runIfLeader like price qm h f g nows now fuel b token))"
| relay: "ticket_request (no_answer (processBatch rfc f g tok now clock err))"

lemma safe_no_answer: "safe stock_inv p {#} \<Longrightarrow> safe stock_inv (no_answer p) {#}"
  unfolding no_answer_def by (rule safe_seq) simp_all

lemma ticket_request_safe: "ticket_request p \<Longrightarrow> safe stock_inv p {#}"
  by (induction rule: ticket_request.induct)
    (intro safe_no_answer; simp add: safe_CreateTicket safe_UpdateTicket safe_ListTickets safe_saved safe_GetTicket
      safe_Validate safe_ReserveQuota safe_Release safe_Finalize consume_order_def safe_consume safe_refresh
      safe_runIfLeader safe_processBatch)+

interpretation accounts: debt_protocol stock_inv ticket_request
  by unfold_locales (auto simp: stock_inv_forgive ticket_request_safe zero_multiset_def [symmetric])

end
