(* ===== verification/Ticket_Props.thy ===== *)
theory Ticket_Props
  imports Ticket_Pool Ledger_Contract
begin

text \<open>
  The theorems about ticket-service's reservations: no overselling in any run of all requests, what
  a reserve answers on each path, the contract of the ledger, and the faults the code does not
  cover.
\<close>

section \<open>One request after the other\<close>

abbreviation works :: "nat \<Rightarrow> outcome" where "works \<equiv> (\<lambda>i. Works)"

lemma accounts_alone:
  assumes "safe stock_inv p {#}" "stock_inv w {#}"
  shows "stock_inv (snd (run_alone p w)) {#}"
proof -
  obtain D where "stock_inv (snd (run_alone p w)) (D + {#})"
    using safe_run [OF assms(1), of w "{#}"] assms(2) by auto
  then show ?thesis by (rule stock_inv_forgive)
qed

text \<open>\<open>n\<close> more versions of every ticket fit the 32 bits of the schema.\<close>

definition ticket_ledger_ok :: "nat \<Rightarrow> ticket_world \<Rightarrow> bool" where
  "ticket_ledger_ok n w \<longleftrightarrow> stock_inv w {#} \<and>
     (\<forall>t \<in> set (tw_tickets w). valid_ticket t \<and> t_version t + int n \<le> 2147483647) \<and>
     (\<forall>r \<in> set (tw_resv w). valid_reservation r)"

fun phase_of :: "resv_status \<Rightarrow> ledger_phase" where
  "phase_of ResvReserved = PhaseReserved"
| "phase_of ResvSold = PhaseSold"
| "phase_of ResvReleased = PhaseReleased"
| "phase_of ResvExpired = PhaseReleased"

definition ticket_phase :: "ticket_world \<Rightarrow> string \<Rightarrow> ledger_phase option" where
  "ticket_phase w rid = map_option (\<lambda>r. phase_of (v_status r)) (find_row v_id rid (tw_resv w))"

definition ticket_answer :: "ticket_error + unit \<Rightarrow> ledger_answer" where
  "ticket_answer r = (case r of Inr u \<Rightarrow> Accepted
     | Inl e \<Rightarrow> if e = ErrTicketReservationNotFound then Unknown else Refused)"

definition ticket_submit :: "bool \<Rightarrow> int \<Rightarrow> string \<Rightarrow> ledger_request \<Rightarrow> ticket_world \<Rightarrow> ledger_answer \<times> ticket_world" where
  "ticket_submit qm now oid q w =
     (let (r, w') = run_alone (case q of
            Release rid \<Rightarrow> Mongo_ReleaseReservation qm works 0 now rid
          | Finalize rid \<Rightarrow> Mongo_FinalizeReservation qm works 0 now rid oid) w
      in (ticket_answer r, w'))"

text \<open>What the two requests do, by the state of the row.\<close>

lemma no_reserved_row:
  assumes "distinct (map v_id vs)" "\<forall>r. find_row v_id rid vs = Some r \<longrightarrow> v_status r \<noteq> ResvReserved"
  shows "update_first (reserved_row rid) g ok vs = (Some None, vs)"
proof (rule update_first_none, intro ballI notI)
  fix x assume x: "x \<in> set vs" "reserved_row rid x"
  then have "find_row v_id rid vs = Some x"
    using find_row_distinct [OF assms(1) x(1)] by (simp add: reserved_row_def)
  then show False using assms(2) x(2) by (simp add: reserved_row_def)
qed

lemma reserved_row_key: "reserved_row rid x \<Longrightarrow> v_id x = rid"
  by (simp add: reserved_row_def)

text \<open>The counters of a reserved row fit: both moves leave the ticket valid.\<close>

lemma row_quantity_le:
  assumes "\<forall>r \<in> set vs. 0 \<le> v_quantity r" "r \<in> set vs" "v_status r = st"
  shows "v_quantity r \<le> quantity_in st (v_ticket r) vs"
  using assms(1,2)
proof (induction vs)
  case (Cons a vs)
  have "0 \<le> quantity_in st (v_ticket r) vs"
    using Cons.prems(1) by (auto simp: quantity_in_def intro!: sum_list_nonneg)
  with Cons show ?case using assms(3) by auto
qed simp

lemma reserved_counters:
  assumes "ticket_ledger_ok (Suc n) w" "find_row v_id rid (tw_resv w) = Some r" "v_status r = ResvReserved"
  shows "\<exists>t. find_row t_id (v_ticket r) (tw_tickets w) = Some t \<and>
    valid_ticket (inc_reserved now (- v_quantity r) t) \<and> valid_ticket (move_to_sold now (v_quantity r) t)"
proof -
  have inv: "stock_inv w {#}" using assms(1) by (simp add: ticket_ledger_ok_def)
  have r: "r \<in> set (tw_resv w)" using find_row_Some_iff_set [OF assms(2)] by simp
  then have "v_ticket r \<in> t_id ` set (tw_tickets w)" using stock_invD(3) [OF inv] by blast
  then obtain t where t: "find_row t_id (v_ticket r) (tw_tickets w) = Some t"
    using find_row_None_iff [of t_id "v_ticket r" "tw_tickets w"] by (cases "find_row t_id (v_ticket r) (tw_tickets w)") auto
  have tin: "t \<in> set (tw_tickets w)" "t_id t = v_ticket r" using find_row_Some_iff_set [OF t] by auto
  have "\<forall>x \<in> set (tw_resv w). 0 \<le> v_quantity x" using stock_invD(3) [OF inv] by blast
  note q = row_quantity_le [OF this r assms(3)] and pos = stock_invD(3) [OF inv r]
  have "balanced (tw_resv w) {#} t" using stock_invD(5) [OF inv tin(1)] .
  then have "v_quantity r \<le> t_reserved t" "t_reserved t + t_sold t \<le> t_quota t"
    using q tin(2) unfolding balanced_def by simp_all
  moreover have "valid_ticket t" "t_version t + int (Suc n) \<le> 2147483647"
    using assms(1) tin(1) unfolding ticket_ledger_ok_def by blast+
  ultimately show ?thesis using t pos
    by (auto simp: valid_ticket_def bson_int_def inc_reserved_def move_to_sold_def)
qed

lemma counter_moves:
  assumes "ticket_ledger_ok (Suc n) w" "find_row v_id rid (tw_resv w) = Some r" "v_status r = ResvReserved"
  shows "\<exists>t. fst (update_first (\<lambda>d. t_id d = v_ticket r) (inc_reserved now (- v_quantity r)) valid_ticket (tw_tickets w))
      = Some (Some t)"
    and "\<exists>t. fst (update_first (\<lambda>d. t_id d = v_ticket r) (move_to_sold now (v_quantity r)) valid_ticket (tw_tickets w))
      = Some (Some t)"
proof -
  obtain t where t: "find_row t_id (v_ticket r) (tw_tickets w) = Some t"
      "valid_ticket (inc_reserved now (- v_quantity r) t)" "valid_ticket (move_to_sold now (v_quantity r) t)"
    using reserved_counters [OF assms] by blast
  have tid: "t_id t = v_ticket r" using find_row_Some_iff_set [OF t(1)] by simp
  show "\<exists>t. fst (update_first (\<lambda>d. t_id d = v_ticket r) (inc_reserved now (- v_quantity r)) valid_ticket (tw_tickets w))
      = Some (Some t)"
    by (rule exI, rule conjunct1 [OF update_first_key [where g = "inc_reserved now (- v_quantity r)", OF t(1)]])
      (use t(2) tid in \<open>simp_all add: inc_reserved_def\<close>)
  show "\<exists>t. fst (update_first (\<lambda>d. t_id d = v_ticket r) (move_to_sold now (v_quantity r)) valid_ticket (tw_tickets w))
      = Some (Some t)"
    by (rule exI, rule conjunct1 [OF update_first_key [where g = "move_to_sold now (v_quantity r)", OF t(1)]])
      (use t(3) tid in \<open>simp_all add: move_to_sold_def\<close>)
qed

lemma row_moves:
  assumes "ticket_ledger_ok n w" "find_row v_id rid (tw_resv w) = Some r" "v_status r = ResvReserved"
  shows "fst (update_first (reserved_row rid) (move_resv st oid now) valid_reservation (tw_resv w)) =
      Some (Some (move_resv st oid now r)) \<and>
    (\<forall>j. find_row v_id j (snd (update_first (reserved_row rid) (move_resv st oid now) valid_reservation (tw_resv w))) =
      (if j = rid then Some (move_resv st oid now r) else find_row v_id j (tw_resv w)))"
proof (rule update_first_key [OF assms(2)])
  have r: "r \<in> set (tw_resv w)" "v_id r = rid" using find_row_Some_iff_set [OF assms(2)] by auto
  then have "valid_reservation r" using assms(1) by (simp add: ticket_ledger_ok_def)
  then show "valid_reservation (move_resv st oid now r)" by (simp add: valid_reservation_def)
  show "reserved_row rid r" "v_id (move_resv st oid now r) = rid" using r assms(3) by (simp_all add: reserved_row_def)
qed (simp add: reserved_row_key)

text \<open>A row that is not reserved is answered from what it is; one that is reserved moves, and no other.\<close>

lemma run_settled:
  assumes good: "ticket_ledger_ok n w" and row: "\<forall>r. find_row v_id rid (tw_resv w) = Some r \<longrightarrow> v_status r \<noteq> ResvReserved"
  shows "run_alone (Mongo_ReleaseReservation qm works k now rid) w =
      ((case find_row v_id rid (tw_resv w) of None \<Rightarrow> Inl ErrTicketReservationNotFound
        | Some r \<Rightarrow> if v_status r = ResvSold then Inl ErrTicketReservationConflict else Inr ()), w)"
    and "run_alone (Mongo_FinalizeReservation qm works k now rid oid) w =
      ((case find_row v_id rid (tw_resv w) of None \<Rightarrow> Inl ErrTicketReservationNotFound
        | Some r \<Rightarrow> if v_status r = ResvReleased \<or> v_status r = ResvExpired
            then Inl ErrTicketReservationConflict else Inr ()), w)"
proof -
  have "distinct (map v_id (tw_resv w))" using good unfolding ticket_ledger_ok_def by (blast dest: stock_invD(2))
  note none = no_reserved_row [OF this row]
  show "run_alone (Mongo_ReleaseReservation qm works k now rid) w =
      ((case find_row v_id rid (tw_resv w) of None \<Rightarrow> Inl ErrTicketReservationNotFound
        | Some r \<Rightarrow> if v_status r = ResvSold then Inl ErrTicketReservationConflict else Inr ()), w)"
    by (simp add: none Mongo_ReleaseReservation_def Mongo_FindReservationByID_def split: option.split)
  show "run_alone (Mongo_FinalizeReservation qm works k now rid oid) w =
      ((case find_row v_id rid (tw_resv w) of None \<Rightarrow> Inl ErrTicketReservationNotFound
        | Some r \<Rightarrow> if v_status r = ResvReleased \<or> v_status r = ResvExpired
            then Inl ErrTicketReservationConflict else Inr ()), w)"
    by (simp add: none Mongo_FinalizeReservation_def Mongo_FindReservationByID_def split: option.split)
qed

lemma run_release:
  assumes "ticket_ledger_ok (Suc n) w" "find_row v_id rid (tw_resv w) = Some r" "v_status r = ResvReserved"
  shows "\<exists>w'. run_alone (Mongo_ReleaseReservation qm works k now rid) w = (Inr (), w') \<and>
    tw_tickets w' = snd (update_first (\<lambda>d. t_id d = v_ticket r) (inc_reserved now (- v_quantity r)) valid_ticket (tw_tickets w)) \<and>
    tw_resv w' = snd (update_first (reserved_row rid) (move_resv ResvReleased None now) valid_reservation (tw_resv w))"
  using row_moves [OF assms, of ResvReleased None now] counter_moves(1) [OF assms, of now]
  by (auto simp: Mongo_ReleaseReservation_def release_counter_def Quota_Release_def)

lemma run_finalize:
  assumes "ticket_ledger_ok (Suc n) w" "find_row v_id rid (tw_resv w) = Some r" "v_status r = ResvReserved"
  shows "\<exists>w'. run_alone (Mongo_FinalizeReservation qm works k now rid oid) w = (Inr (), w') \<and>
    tw_tickets w' = snd (update_first (\<lambda>d. t_id d = v_ticket r) (move_to_sold now (v_quantity r)) valid_ticket (tw_tickets w)) \<and>
    tw_resv w' = snd (update_first (reserved_row rid) (move_resv ResvSold (Some oid) now) valid_reservation (tw_resv w))"
  using row_moves [OF assms, of ResvSold "Some oid" now] counter_moves(2) [OF assms, of now]
  by (auto simp: Mongo_FinalizeReservation_def finalize_counter_def Quota_Finalize_def)

section \<open>The ledger's contract\<close>

lemma ticket_ledger_ok_step:
  assumes good: "ticket_ledger_ok (Suc n) w" and inv: "stock_inv w' {#}"
    and ts: "tw_tickets w' = snd (update_first p g valid_ticket (tw_tickets w))"
    and vs: "tw_resv w' = snd (update_first p' g' valid_reservation (tw_resv w))"
    and g: "\<And>t. t_version (g t) = t_version t + 1"
  shows "ticket_ledger_ok n w'"
proof -
  have "valid_ticket t \<and> t_version t + int n \<le> 2147483647" if "t \<in> set (tw_tickets w')" for t
    using update_first_members [OF that [unfolded ts]] good g unfolding ticket_ledger_ok_def by fastforce
  moreover have "valid_reservation r" if "r \<in> set (tw_resv w')" for r
    using update_first_members [OF that [unfolded vs]] good unfolding ticket_ledger_ok_def by blast
  ultimately show ?thesis using inv by (simp add: ticket_ledger_ok_def)
qed

lemma ticket_submit_reserved:
  assumes good: "ticket_ledger_ok (Suc n) w" and row: "find_row v_id (request_target q) (tw_resv w) = Some r"
      "v_status r = ResvReserved"
  shows "fst (ticket_submit qm now oid q w) = Accepted \<and> ticket_ledger_ok n (snd (ticket_submit qm now oid q w)) \<and>
    (\<forall>j. ticket_phase (snd (ticket_submit qm now oid q w)) j =
       (if j = request_target q then Some (request_phase q) else ticket_phase w j))"
proof (cases q)
  case (Release rid)
  note prem = good row [unfolded Release request_target.simps]
  have inv: "stock_inv w {#}" using good by (simp add: ticket_ledger_ok_def)
  obtain w' where w': "run_alone (Mongo_ReleaseReservation qm works 0 now rid) w = (Inr (), w')"
    "tw_tickets w' = snd (update_first (\<lambda>d. t_id d = v_ticket r) (inc_reserved now (- v_quantity r)) valid_ticket (tw_tickets w))"
    "tw_resv w' = snd (update_first (reserved_row rid) (move_resv ResvReleased None now) valid_reservation (tw_resv w))"
    using run_release [OF prem] by blast
  have "stock_inv w' {#}"
    using accounts_alone [OF safe_release_reservation inv, of qm works 0 now rid] w'(1) by simp
  then have "ticket_ledger_ok n w'"
    using ticket_ledger_ok_step [OF good _ w'(2,3)] by (simp add: inc_reserved_def)
  then show ?thesis
    using w'(1,3) row_moves [OF prem, of ResvReleased None now]
    by (simp add: Release ticket_submit_def ticket_answer_def ticket_phase_def)
next
  case (Finalize rid)
  note prem = good row [unfolded Finalize request_target.simps]
  have inv: "stock_inv w {#}" using good by (simp add: ticket_ledger_ok_def)
  obtain w' where w': "run_alone (Mongo_FinalizeReservation qm works 0 now rid oid) w = (Inr (), w')"
    "tw_tickets w' = snd (update_first (\<lambda>d. t_id d = v_ticket r) (move_to_sold now (v_quantity r)) valid_ticket (tw_tickets w))"
    "tw_resv w' = snd (update_first (reserved_row rid) (move_resv ResvSold (Some oid) now) valid_reservation (tw_resv w))"
    using run_finalize [OF prem] by blast
  have "stock_inv w' {#}"
    using accounts_alone [OF safe_finalize_reservation inv, of qm works 0 now rid oid] w'(1) by simp
  then have "ticket_ledger_ok n w'"
    using ticket_ledger_ok_step [OF good _ w'(2,3)] by (simp add: move_to_sold_def)
  then show ?thesis
    using w'(1,3) row_moves [OF prem, of ResvSold "Some oid" now]
    by (simp add: Finalize ticket_submit_def ticket_answer_def ticket_phase_def)
qed

lemma ticket_submit_settled:
  assumes good: "ticket_ledger_ok n w"
    and row: "\<forall>r. find_row v_id (request_target q) (tw_resv w) = Some r \<longrightarrow> v_status r \<noteq> ResvReserved"
  shows "ticket_submit qm now oid q w =
    ((case ticket_phase w (request_target q) of None \<Rightarrow> Unknown
      | Some p \<Rightarrow> if p = request_phase q then Accepted else Refused), w)"
proof (cases q)
  case (Release rid)
  then show ?thesis
    using run_settled(1) [OF good, of rid qm 0 now] row
    by (cases "find_row v_id rid (tw_resv w)")
      (auto simp: ticket_submit_def ticket_answer_def ticket_phase_def intro: resv_status.exhaust)
next
  case (Finalize rid)
  then show ?thesis
    using run_settled(2) [OF good, of rid qm 0 now oid] row
    by (cases "find_row v_id rid (tw_resv w)")
      (auto simp: ticket_submit_def ticket_answer_def ticket_phase_def intro: resv_status.exhaust)
qed

lemma ticket_ledger_ok_less: "ticket_ledger_ok (Suc n) w \<Longrightarrow> ticket_ledger_ok n w"
  by (force simp: ticket_ledger_ok_def)

interpretation ticket_ledger: reservation_ledger ticket_ledger_ok ticket_phase "ticket_submit qm now oid" for qm now oid
proof
  fix n d q
  assume good: "ticket_ledger_ok (Suc n) d"
  let ?row = "\<exists>r. find_row v_id (request_target q) (tw_resv d) = Some r \<and> v_status r = ResvReserved"
  have phase: "ticket_phase d (request_target q) = Some PhaseReserved \<longleftrightarrow> ?row"
    unfolding ticket_phase_def map_option_eq_Some
    by (metis phase_of.simps ledger_phase.distinct(1,3) resv_status.exhaust)
  note res = ticket_submit_reserved [OF good]
  have set: "ticket_submit qm now oid q d =
      ((case ticket_phase d (request_target q) of None \<Rightarrow> Unknown
        | Some p \<Rightarrow> if p = request_phase q then Accepted else Refused), d)" if "\<not> ?row"
    using ticket_submit_settled [OF good] that by blast
  show "ticket_ledger_ok n (snd (ticket_submit qm now oid q d))"
    using res set ticket_ledger_ok_less [OF good] by (cases ?row) auto
  show "ticket_submit qm now oid q d = (Unknown, d)" if "ticket_phase d (request_target q) = None"
    using that set phase by auto
  show "fst (ticket_submit qm now oid q d) = Accepted \<and>
      ticket_phase (snd (ticket_submit qm now oid q d)) (request_target q) = Some (request_phase q)"
    if "ticket_phase d (request_target q) = Some PhaseReserved"
    using that res phase by auto
  show "ticket_submit qm now oid q d = (if p = request_phase q then Accepted else Refused, d)"
    if "ticket_phase d (request_target q) = Some p" "p \<noteq> PhaseReserved" for p
    using that set phase by auto
  show "ticket_phase (snd (ticket_submit qm now oid q d)) rid = ticket_phase d rid" if "rid \<noteq> request_target q" for rid
    using that res set by (cases ?row) auto
qed

section \<open>Reserving alone\<close>

lemma update_first_map:
  assumes "distinct (map key xs)" "x \<in> set xs" "key x = k" "ok (g x)" "\<And>y. key y = k \<Longrightarrow> y \<in> set xs \<Longrightarrow> p y"
    "\<And>y. p y \<Longrightarrow> key y = k"
  shows "update_first p g ok xs = (Some (Some (g x)), map (\<lambda>y. if key y = k then g y else y) xs)"
  using assms(1,2,5)
proof (induction xs)
  case (Cons a xs)
  show ?case
  proof (cases "key a = k")
    case True
    have "x = a" using Cons.prems(1,2) assms(3) True by (metis distinct.simps(2) imageI list.simps(9) set_ConsD set_map)
    moreover have "map (\<lambda>y. if key y = k then g y else y) xs = xs"
      using Cons.prems(1) True by (intro map_idI) (auto simp: image_iff)
    moreover have "p a" using Cons.prems(3) True by simp
    ultimately show ?thesis using True assms(4) by simp
  next
    case False
    then have "\<not> p a" "x \<in> set xs" using assms(3,6) Cons.prems(2) by auto
    then show ?thesis using Cons False by simp
  qed
qed simp

definition user_active :: "ticket_world \<Rightarrow> string \<Rightarrow> string \<Rightarrow> int" where
  "user_active w tid uid = sum_list (map v_quantity
     (filter (\<lambda>r. v_ticket r = tid \<and> v_user r = uid \<and> v_status r = ResvReserved) (tw_resv w)))"

definition reserve_row :: "int \<Rightarrow> ticket_reservation \<Rightarrow> ticket_reservation" where
  "reserve_row now res = res\<lparr>v_created := (if v_created res = zero_time then now else v_created res),
     v_updated := now, v_status := ResvReserved\<rparr>"

definition bump_reserved :: "int \<Rightarrow> string \<Rightarrow> int \<Rightarrow> ticket list \<Rightarrow> ticket list" where
  "bump_reserved now tid q = map (\<lambda>d. if t_id d = tid then inc_reserved now q d else d)"

text \<open>A request that fits takes the counter and then inserts its row.\<close>

lemma run_take_counter:
  assumes t: "t \<in> set (tw_tickets w)" "t_id t = v_ticket res" "distinct (map t_id (tw_tickets w))"
    and fits: "t_reserved t + t_sold t + v_quantity res \<le> t_quota t" "1 \<le> v_quantity res"
    and valid: "valid_ticket t" "t_version t < 2147483647"
  shows "update_first (has_room res) (inc_reserved now (v_quantity res)) valid_ticket (tw_tickets w) =
      (Some (Some (inc_reserved now (v_quantity res) t)), bump_reserved now (v_ticket res) (v_quantity res) (tw_tickets w))"
  unfolding bump_reserved_def
proof (rule update_first_map [OF t(3,1,2)])
  show "valid_ticket (inc_reserved now (v_quantity res) t)"
    using fits valid by (auto simp: valid_ticket_def bson_int_def inc_reserved_def)
  show "has_room res y" if "t_id y = v_ticket res" "y \<in> set (tw_tickets w)" for y
  proof -
    have "y = t" using t that by (metis distinct_map inj_onD)
    then show ?thesis using fits t by (simp add: has_room_def)
  qed
qed (simp add: has_room_def)

lemma run_fresh_insert:
  assumes "v_id res \<notin> v_id ` set vs" "valid_reservation res"
  shows "insert_one v_id valid_reservation res vs = (Some (), vs @ [res])"
  using assms by (simp add: insert_one_def)

lemma run_find:
  assumes "distinct (map t_id (tw_tickets w))" "t \<in> set (tw_tickets w)" "t_id t = tid"
  shows "run_alone (Mongo_FindByID works k tid) w = (Inr t, w)"
  using find_row_distinct [OF assms(1,2)] assms(3) by (simp add: Mongo_FindByID_def)

text \<open>What may be assumed of the ticket a request names.\<close>

definition live_ticket :: "ticket_world \<Rightarrow> string \<Rightarrow> ticket \<Rightarrow> bool" where
  "live_ticket w tid t \<longleftrightarrow> distinct (map t_id (tw_tickets w)) \<and> t \<in> set (tw_tickets w) \<and> t_id t = tid \<and>
     valid_ticket t \<and> t_version t < 2147483646"

lemma run_create:
  assumes "live_ticket w (v_ticket res) t" "1 \<le> v_quantity res"
  shows "run_alone (Mongo_CreateReservation False f k now now2 res) w =
    (if f (k + 2) = Works \<and> f (k + 4) = Works then
       (if t_quota t - t_reserved t - t_sold t < v_quantity res then (Inl ErrInsufficientQuota, w)
        else if user_active w (v_ticket res) (v_user res) + v_quantity res > t_max t
        then (Inl ErrPerUserLimitExceeded, w)
        else run_alone (take_counter False f (k + 6) now now2 (reserve_row now res)) w)
     else run_alone (Mongo_CreateReservation False f k now now2 res) w)"
  using find_row_distinct [of t_id "tw_tickets w" t] assms
  by (auto simp: Mongo_CreateReservation_def Let_def redis_gate_def Mongo_FindByID_def live_ticket_def
      sumUserActiveReservations_def user_active_def reserve_row_def give_back_def)

lemma run_take:
  assumes "live_ticket w (v_ticket res) t" "1 \<le> v_quantity res" "f k = Works"
    "t_reserved t + t_sold t + v_quantity res \<le> t_quota t"
  shows "run_alone (take_counter b f k now now2 res) w =
    run_alone (insert_reservation b f (k + 2) now2 res)
      (w\<lparr>tw_tickets := bump_reserved now (v_ticket res) (v_quantity res) (tw_tickets w)\<rparr>)"
  using run_take_counter [of t w res now] assms by (simp add: take_counter_def live_ticket_def)

lemma room_arith:
  "valid_ticket t \<Longrightarrow> t_reserved t + t_sold t + q \<le> t_quota t \<Longrightarrow> 1 \<le> q \<Longrightarrow> bson_int q"
  by (simp add: valid_ticket_def bson_int_def)

lemma run_take_fresh:
  assumes t: "live_ticket w (v_ticket res) t" and q: "1 \<le> v_quantity res"
    and room: "t_reserved t + t_sold t + v_quantity res \<le> t_quota t"
    and fresh: "v_id res \<notin> v_id ` set (tw_resv w)" and works: "f k = Works" "f (k + 2) = Works"
  shows "run_alone (take_counter b f k now now2 res) w =
    (Inr (), w\<lparr>tw_tickets := bump_reserved now (v_ticket res) (v_quantity res) (tw_tickets w),
               tw_resv := tw_resv w @ [res]\<rparr>)"
proof -
  have "valid_ticket t" using t by (simp add: live_ticket_def)
  then have "valid_reservation res" using room_arith room q by (simp add: valid_reservation_def)
  then show ?thesis
    unfolding run_take [where f = f and k = k, OF t q works(1) room] insert_reservation_def
    using works(2) fresh by (simp add: run_fresh_insert)
qed

lemma reserve_row_simps [simp]:
  "v_id (reserve_row now res) = v_id res" "v_ticket (reserve_row now res) = v_ticket res"
  "v_user (reserve_row now res) = v_user res" "v_quantity (reserve_row now res) = v_quantity res"
  "v_status (reserve_row now res) = ResvReserved"
  by (simp_all add: reserve_row_def)

text \<open>A sequential reserve, as one would specify it.\<close>

definition reserve_spec ::
  "int \<Rightarrow> ticket \<Rightarrow> ticket_reservation \<Rightarrow> ticket_world \<Rightarrow> (ticket_error + unit) \<times> ticket_world" where
  "reserve_spec now t res w =
     (if t_quota t < t_reserved t + t_sold t + v_quantity res then (Inl ErrInsufficientQuota, w)
      else if t_max t < user_active w (v_ticket res) (v_user res) + v_quantity res
           then (Inl ErrPerUserLimitExceeded, w)
      else (Inr (), w\<lparr>tw_tickets := bump_reserved now (v_ticket res) (v_quantity res) (tw_tickets w),
                      tw_resv := tw_resv w @ [reserve_row now res]\<rparr>))"

lemma create_spec:
  assumes t: "live_ticket w (v_ticket res) t" "1 \<le> v_quantity res" and fresh: "v_id res \<notin> v_id ` set (tw_resv w)"
  shows "run_alone (Mongo_CreateReservation False works k now now2 res) w = reserve_spec now t res w"
  using run_create [OF t, of works k now now2] run_take_fresh [of w "reserve_row now res" t works "k + 6" False now now2]
    t fresh by (auto simp: reserve_spec_def)

text \<open>A first read that misses the cache, and a failed insert with its compensation.\<close>

lemma run_cache_miss:
  assumes "distinct (map t_id (tw_tickets w))" "t \<in> set (tw_tickets w)" "t_id t = tid" "tw_cache w tid = None"
    "f k = Works" "f (k + 1) = Works" "f (k + 2) = Works"
  shows "run_alone (Caching_FindByID f k now tid) w = (Inr t, snd (set_cached tid now t w))"
  using find_row_distinct [OF assms(1,2)] assms(3-7) by (simp add: Caching_FindByID_def Mongo_FindByID_def)

lemma live_ticket_cong:
  "tw_tickets w' = tw_tickets w \<Longrightarrow> live_ticket w' tid t = live_ticket w tid t"
  by (simp add: live_ticket_def)

lemma run_compensate:
  assumes t: "live_ticket w tid t" and q: "0 \<le> q" "t_reserved t + t_sold t + q \<le> t_quota t"
  shows "\<exists>ts. update_first (\<lambda>d. t_id d = tid) (inc_reserved now2 (- q)) valid_ticket (bump_reserved now tid q (tw_tickets w)) =
      (Some (Some (inc_reserved now2 (- q) (inc_reserved now q t))), ts) \<and> map t_reserved ts = map t_reserved (tw_tickets w)"
proof -
  let ?ts = "bump_reserved now tid q (tw_tickets w)"
  have t': "distinct (map t_id (tw_tickets w))" "t \<in> set (tw_tickets w)" "t_id t = tid" "valid_ticket t"
      "t_version t < 2147483646" using t by (simp_all add: live_ticket_def)
  have ids: "map t_id ?ts = map t_id (tw_tickets w)" by (simp add: bump_reserved_def inc_reserved_def)
  have mem: "inc_reserved now q t \<in> set ?ts" using t'(2,3) by (force simp: bump_reserved_def)
  have "valid_ticket (inc_reserved now2 (- q) (inc_reserved now q t))"
    using t'(4,5) by (auto simp: valid_ticket_def bson_int_def inc_reserved_def)
  then have "update_first (\<lambda>d. t_id d = tid) (inc_reserved now2 (- q)) valid_ticket ?ts =
      (Some (Some (inc_reserved now2 (- q) (inc_reserved now q t))),
       map (\<lambda>y. if t_id y = tid then inc_reserved now2 (- q) y else y) ?ts)"
    using t'(1,3) ids mem by (intro update_first_map) (auto simp: inc_reserved_def)
  moreover have "map t_reserved (map (\<lambda>y. if t_id y = tid then inc_reserved now2 (- q) y else y) ?ts) =
      map t_reserved (tw_tickets w)"
    by (simp add: bump_reserved_def inc_reserved_def)
  ultimately show ?thesis by blast
qed

lemma run_take_undone:
  assumes t: "live_ticket w (v_ticket res) t" and q: "1 \<le> v_quantity res"
    and room: "t_reserved t + t_sold t + v_quantity res \<le> t_quota t"
    and dup: "v_id res \<in> v_id ` set (tw_resv w)" and works: "f k = Works" "f (k + 2) = Works" "f (k + 3) = Works"
  shows "\<exists>ts. run_alone (take_counter False f k now now2 res) w = (Inl ErrStore, w\<lparr>tw_tickets := ts\<rparr>) \<and>
    map t_reserved ts = map t_reserved (tw_tickets w)"
proof -
  obtain ts where ts: "update_first (\<lambda>d. t_id d = v_ticket res) (inc_reserved now2 (- v_quantity res)) valid_ticket
        (bump_reserved now (v_ticket res) (v_quantity res) (tw_tickets w)) =
        (Some (Some (inc_reserved now2 (- v_quantity res) (inc_reserved now (v_quantity res) t))), ts)"
      "map t_reserved ts = map t_reserved (tw_tickets w)"
    using run_compensate [OF t _ room] q by auto
  have three: "f (k + 2 + 1) = Works" using works(3) by (simp add: numeral_3_eq_3)
  have "run_alone (take_counter False f k now now2 res) w = (Inl ErrStore, w\<lparr>tw_tickets := ts\<rparr>)"
    unfolding run_take [where f = f and k = k, OF t q works(1) room] insert_reservation_def
    using works(2) three dup ts by (simp add: insert_one_def give_back_def)
  then show ?thesis using ts(2) by blast
qed

text \<open>The setting of a request for a ticket without a seating plan that the cache does not hold.\<close>

definition ga_request :: "ticket_world \<Rightarrow> quota_request \<Rightarrow> ticket \<Rightarrow> bool" where
  "ga_request w req t \<longleftrightarrow> bad_quota_request req = None \<and> live_ticket w (qr_ticket req) t \<and>
     field (t_plan t) = [] \<and> tw_cache w (qr_ticket req) = None"

text \<open>The handler up to the repository call; the read has filled the cache.\<close>

lemma ga_request_reads:
  fixes now :: int
  assumes "ga_request w req t" "f 0 = Works" "f 1 = Works" "f 2 = Works"
  defines "res \<equiv> quota_reservation req now"
  obtains w1 where
    "run_alone (ReserveQuota False f now now2 req) w =
       (case run_alone (Mongo_CreateReservation False f 3 now now2 res) w1 of
          (r, w2) \<Rightarrow> run_alone (reserve_answer f 14 now2 req t r) w2)"
    "tw_tickets w1 = tw_tickets w" "tw_resv w1 = tw_resv w" "tw_cache w1 (qr_ticket req) = Some (t, now + 5000)"
    "live_ticket w1 (v_ticket res) t" "1 \<le> v_quantity res" "v_id res = qr_reservation req" "v_user res = qr_user req"
    "v_ticket res = qr_ticket req" "v_quantity res = sint (qr_quantity req)"
    "user_active w1 = user_active w"
proof -
  let ?w1 = "snd (set_cached (qr_ticket req) now t w)"
  have req: "bad_quota_request req = None" "live_ticket w (qr_ticket req) t" "field (t_plan t) = []"
      "tw_cache w (qr_ticket req) = None" using assms(1) by (simp_all add: ga_request_def)
  have same: "tw_tickets ?w1 = tw_tickets w" "tw_resv ?w1 = tw_resv w" by simp_all
  have live: "live_ticket ?w1 (qr_ticket req) t" using req(2) live_ticket_cong [OF same(1)] by simp
  have find: "run_alone (Caching_FindByID f 0 now (qr_ticket req)) w = (Inr t, ?w1)"
    using run_cache_miss [of w t "qr_ticket req" f 0 now] req(2,4) assms(2-4)
    by (simp add: live_ticket_def numeral_2_eq_2)
  have res: "v_ticket res = qr_ticket req" "v_quantity res = sint (qr_quantity req)" "v_user res = qr_user req"
      "v_id res = qr_reservation req"
    by (simp_all add: res_def quota_reservation_def)
  have q: "1 \<le> v_quantity res" using req(1) res by (auto simp: bad_quota_request_def split: if_splits)
  have act: "user_active ?w1 = user_active w" using same by (simp add: user_active_def fun_eq_iff)
  have run: "run_alone (ReserveQuota False f now now2 req) w =
       (case run_alone (Mongo_CreateReservation False f 3 now now2 res) ?w1 of
          (r, w2) \<Rightarrow> run_alone (reserve_answer f 14 now2 req t r) w2)"
    using req(1,3) find by (simp add: ReserveQuota_def res_def split: prod.split)
  show thesis
    by (rule that [OF run same _ _ q res(4) res(3) res(1) res(2) act]) (use live res in \<open>simp_all add: set_cached_def\<close>)
qed

section \<open>Properties\<close>

text \<open>
  C26: In every run of all requests, consumers and workers of ticket-service, interleaved call by
  call on any number of replicas, some of which may crash at any point, the reserved and sold
  reservations of a ticket never add up to more than its counters, and these never to more than
  its quota. The only run excluded is one where MongoDB stores a reservation and reports a failure.
\<close>

theorem never_oversold:
  assumes "stock_inv w0 {#}" "pool_reach ticket_request w0 (w, ps)" "t \<in> set (tw_tickets w)"
  shows "quantity_in ResvReserved (t_id t) (tw_resv w) + quantity_in ResvSold (t_id t) (tw_resv w)
      \<le> t_reserved t + t_sold t \<and> t_reserved t + t_sold t \<le> t_quota t"
proof -
  have "stock_inv w 0" using accounts.reach_inv [OF assms(2)] assms(1) by simp
  then have "balanced (tw_resv w) {#} t" using stock_invD(5) [of w "{#}" t] assms(3) by simp
  then show ?thesis by (simp add: balanced_def)
qed

text \<open>A shop with one ticket, and a request for it.\<close>

definition shop_ticket :: ticket where
  "shop_ticket = \<lparr>t_id = ''t1'', t_title = ''Concert'', t_price = ''10.00'', t_user = ''seller'', t_order = None,
     t_plan = None, t_type = [], t_category = ''OTHER'', t_quota = 2, t_reserved = 0, t_sold = 0, t_max = 2,
     t_version = 1, t_created = 5, t_updated = 5, t_event = None, t_outbox = []\<rparr>"

definition shop :: ticket_world where
  "shop = \<lparr>tw_tickets = [shop_ticket], tw_resv = [], tw_avail = (\<lambda>i. None), tw_user = (\<lambda>i u. None),
     tw_cache = (\<lambda>i. None), tw_list = None, tw_lock = (\<lambda>i. None), tw_leader = None, tw_saved = [],
     tw_published = []\<rparr>"

definition buy :: "string \<Rightarrow> string \<Rightarrow> quota_request" where
  "buy rid uid = \<lparr>qr_ticket = ''t1'', qr_reservation = rid, qr_user = uid, qr_quantity = 2, qr_expires = Some 1000\<rparr>"

lemma shop_request: "ga_request shop (buy rid uid) shop_ticket" if "rid \<noteq> []" "uid \<noteq> []"
  using that by (simp add: ga_request_def buy_def bad_quota_request_def live_ticket_def shop_def shop_ticket_def
    valid_ticket_def bson_int_def field_def)

lemma shop_inv: "stock_inv shop {#}"
  by (simp add: stock_inv_def shop_def shop_ticket_def balanced_def)

text \<open>The first of the two buyers gets both tickets.\<close>

definition sold_out :: ticket_world where
  "sold_out = snd (run_alone (no_answer (ReserveQuota False works 10 20 (buy ''r1'' ''u1''))) shop)"

lemma sold_out_eq:
  "tw_tickets sold_out = [shop_ticket\<lparr>t_reserved := 2, t_version := 2, t_updated := 10\<rparr>] \<and>
   tw_resv sold_out = [\<lparr>v_id = ''r1'', v_ticket = ''t1'', v_order = [], v_user = ''u1'', v_quantity = 2,
     v_status = ResvReserved, v_expires = Some 1000, v_created = 10, v_updated = 10\<rparr>]"
  by code_simp

lemma sold_out_reached: "\<exists>ps. pool_reach ticket_request shop (sold_out, ps)"
  unfolding sold_out_def
  by (intro exI, rule pool_request [OF pool_reach.init], rule ticket_request.reserve) simp

lemma never_oversold_witness:
  "quantity_in ResvReserved ''t1'' (tw_resv sold_out) = 2 \<and>
   quantity_in ResvReserved ''t1'' (tw_resv sold_out) + quantity_in ResvSold ''t1'' (tw_resv sold_out)
     \<le> t_quota (hd (tw_tickets sold_out))"
proof -
  obtain ps where "pool_reach ticket_request shop (sold_out, ps)" using sold_out_reached by blast
  from never_oversold [OF shop_inv this, of "hd (tw_tickets sold_out)"] show ?thesis
    using sold_out_eq by (simp add: shop_ticket_def)
qed

text \<open>
  C27: When MongoDB stores the new reservation but reports a failure, the repository gives the
  counter back although the reservation stands; the buyer is told it succeeded, and the ticket has
  as much room as before, for the next buyer.
\<close>

theorem lost_insert_answer_frees_room:
  assumes "ga_request w req t" and "qr_reservation req \<notin> v_id ` set (tw_resv w)"
    and "t_reserved t + t_sold t + sint (qr_quantity req) \<le> t_quota t"
    and "user_active w (qr_ticket req) (qr_user req) + sint (qr_quantity req) \<le> t_max t"
  shows "\<exists>a w'. run_alone (ReserveQuota False (works(11 := AnswerLost)) now now2 req) w = (Inr a, w') \<and>
    tw_resv w' = tw_resv w @ [reserve_row now (quota_reservation req now)] \<and>
    map t_reserved (tw_tickets w') = map t_reserved (tw_tickets w)"
proof -
  let ?f = "works(11 := AnswerLost)" and ?res = "quota_reservation req now"
  let ?row = "reserve_row now ?res"
  obtain w1 where w1: "run_alone (ReserveQuota False ?f now now2 req) w =
       (case run_alone (Mongo_CreateReservation False ?f 3 now now2 ?res) w1 of
          (r, w2) \<Rightarrow> run_alone (reserve_answer ?f 14 now2 req t r) w2)"
      "tw_tickets w1 = tw_tickets w" "tw_resv w1 = tw_resv w"
      "live_ticket w1 (v_ticket ?res) t" "1 \<le> v_quantity ?res" "v_id ?res = qr_reservation req"
      "v_user ?res = qr_user req" "v_ticket ?res = qr_ticket req" "v_quantity ?res = sint (qr_quantity req)"
      "user_active w1 = user_active w"
    by (rule ga_request_reads [OF assms(1), of ?f now now2]) auto
  have room: "t_reserved t + t_sold t + v_quantity ?res \<le> t_quota t" using assms(3) w1(9) by simp
  have "valid_ticket t" using w1(4) by (simp add: live_ticket_def)
  then have valid: "valid_reservation ?row" using room_arith [OF _ room] w1(5) by (simp add: valid_reservation_def)
  obtain ts where ts: "update_first (\<lambda>d. t_id d = v_ticket ?res) (inc_reserved now2 (- v_quantity ?res)) valid_ticket
        (bump_reserved now (v_ticket ?res) (v_quantity ?res) (tw_tickets w1)) =
        (Some (Some (inc_reserved now2 (- v_quantity ?res) (inc_reserved now (v_quantity ?res) t))), ts)"
      "map t_reserved ts = map t_reserved (tw_tickets w1)"
    using run_compensate [OF w1(4) _ room] w1(5) by auto
  define w3 where "w3 = w1\<lparr>tw_tickets := ts, tw_resv := tw_resv w @ [?row]\<rparr>"
  have "run_alone (take_counter False ?f 9 now now2 ?row) w1 = (Inl ErrStore, w3)"
    using run_take [where f = ?f and k = 9 and w = w1 and res = ?row and t = t] w1(3-6) room assms(2) valid ts(1)
    by (simp add: insert_reservation_def run_fresh_insert give_back_def w3_def)
  then have create: "run_alone (Mongo_CreateReservation False ?f 3 now now2 ?res) w1 = (Inl ErrStore, w3)"
    using run_create [OF w1(4,5), of ?f 3 now now2] room assms(4) w1(7-10) by simp
  have "find_row v_id (qr_reservation req) (tw_resv w) = None" using assms(2) by (simp add: find_row_None_iff)
  then have row: "find_row v_id (qr_reservation req) (tw_resv w3) = Some ?row" using w1(6) by (simp add: w3_def)
  have "run_alone (reserve_answer ?f 14 now2 req t (Inl ErrStore)) w3 =
      (Inr (quota_answer t (v_id ?row) (int32 (v_quantity ?row)) (t_quota t - t_reserved t - t_sold t)), w3)"
    using row w1(7-9) by (simp add: reserve_answer_def Mongo_FindReservationByID_def duplicate_answer_def)
  then show ?thesis using w1(1,2) create ts(2) by (auto simp: w3_def)
qed

lemma lost_insert_answer_frees_room_witness:
  "(\<exists>a w'. run_alone (ReserveQuota False (works(11 := AnswerLost)) 10 20 (buy ''r1'' ''u1'')) shop = (Inr a, w') \<and>
     tw_resv w' = tw_resv shop @ [reserve_row 10 (quota_reservation (buy ''r1'' ''u1'') 10)] \<and>
     map t_reserved (tw_tickets w') = map t_reserved (tw_tickets shop)) \<and>
   (let w1 = snd (run_alone (ReserveQuota False (works(11 := AnswerLost)) 10 20 (buy ''r1'' ''u1'')) shop);
        w2 = snd (run_alone (ReserveQuota False works 30 40 (buy ''r2'' ''u2'')) w1)
    in quantity_in ResvReserved ''t1'' (tw_resv w2) = 4 \<and> map t_quota (tw_tickets w2) = [2])"
proof (rule conjI)
  show "\<exists>a w'. run_alone (ReserveQuota False (works(11 := AnswerLost)) 10 20 (buy ''r1'' ''u1'')) shop = (Inr a, w') \<and>
     tw_resv w' = tw_resv shop @ [reserve_row 10 (quota_reservation (buy ''r1'' ''u1'') 10)] \<and>
     map t_reserved (tw_tickets w') = map t_reserved (tw_tickets shop)"
    by (rule lost_insert_answer_frees_room [of _ _ shop_ticket])
      (simp_all add: shop_request, simp_all add: buy_def shop_def shop_ticket_def user_active_def)
  show "let w1 = snd (run_alone (ReserveQuota False (works(11 := AnswerLost)) 10 20 (buy ''r1'' ''u1'')) shop);
        w2 = snd (run_alone (ReserveQuota False works 30 40 (buy ''r2'' ''u2'')) w1)
    in quantity_in ResvReserved ''t1'' (tw_resv w2) = 4 \<and> map t_quota (tw_tickets w2) = [2]"
    by code_simp
qed



text \<open>
  C29: Of the releases, cancellations and finalizes that reach a reserved reservation, the first one
  decides whether it ends released or sold; the later ones change nothing, for it and for every
  other reservation.
\<close>

theorem first_settlement_decides:
  assumes "ticket_ledger_ok (length qs) w" "ticket_phase w rid = Some PhaseReserved"
  shows "ticket_phase (snd (submits (ticket_submit qm now oid) qs w)) rid =
    (case filter (\<lambda>q. request_target q = rid) qs of
       [] \<Rightarrow> Some PhaseReserved | q # _ \<Rightarrow> Some (request_phase q))"
  by (rule ticket_ledger.first_decides [OF assms])

lemma sold_out_ok: "ticket_ledger_ok 3 sold_out"
proof -
  have "stock_inv sold_out 0"
    using accounts.reach_inv sold_out_reached shop_inv by (metis zero_multiset_def)
  then show ?thesis
    using sold_out_eq by (simp add: ticket_ledger_ok_def shop_ticket_def valid_ticket_def valid_reservation_def bson_int_def)
qed

lemma first_settlement_decides_witness:
  "ticket_phase (snd (submits (ticket_submit True 15 ''o1'')
     [Finalize ''r0'', Finalize ''r1'', Release ''r1''] sold_out)) ''r1'' = Some PhaseSold"
proof -
  have "ticket_ledger_ok (length [Finalize ''r0'', Finalize ''r1'', Release ''r1'']) sold_out"
    using sold_out_ok by (simp add: numeral_3_eq_3)
  moreover have "ticket_phase sold_out ''r1'' = Some PhaseReserved" by (simp add: ticket_phase_def sold_out_eq)
  ultimately show ?thesis by (simp add: first_settlement_decides del: submits.simps)
qed

text \<open>
  C30: A replica that crashes between the two writes of a release loses the tickets for good: the
  reservation is released but the counter still holds it, and a retry reports success without
  giving anything back.
\<close>

theorem crashed_release_leaks:
  assumes "ticket_ledger_ok n w" "ticket_phase w rid = Some PhaseReserved" "rid \<noteq> []"
  shows "\<exists>w'. pool_reach ticket_request w (w', []) \<and> tw_tickets w' = tw_tickets w \<and>
    ticket_phase w' rid = Some PhaseReleased \<and>
    (\<forall>qm now. run_alone (Mongo_ReleaseReservation qm works 0 now rid) w' = (Inr (), w'))"
proof -
  obtain r where r: "find_row v_id rid (tw_resv w) = Some r" "v_status r = ResvReserved"
    using assms(2) unfolding ticket_phase_def map_option_eq_Some
    by (metis phase_of.simps ledger_phase.distinct(1,3) resv_status.exhaust)
  note moved = row_moves [OF assms(1) r, of ResvReleased None 0]
  let ?call = "resv_call (update_first (reserved_row rid) (move_resv ResvReleased None 0) valid_reservation)"
  define w' where "w' = snd (?call w)"
  have same: "tw_tickets w' = tw_tickets w" by (simp add: w'_def)
  have row: "find_row v_id rid (tw_resv w') = Some (move_resv ResvReleased None 0 r)" using moved by (simp add: w'_def)
  obtain k where req: "no_answer (Grpc_ReleaseReservation False works 0 rid) = call Works ?call k"
    using assms(3) by (simp add: no_answer_def Grpc_ReleaseReservation_def Mongo_ReleaseReservation_def)
  have "ticket_request (call Works ?call k)"
    unfolding req [symmetric] by (rule ticket_request.release)
  then have crash: "pool_reach ticket_request w (w', [])"
    unfolding w'_def by (rule pool_first_call [OF pool_reach.init])
  have ids: "map v_id (tw_resv w') = map v_id (tw_resv w)"
    by (simp add: w'_def update_first_keeps)
  have "distinct (map v_id (tw_resv w))"
    using assms(1) unfolding ticket_ledger_ok_def by (blast dest: stock_invD(2))
  then have none: "update_first (reserved_row rid) g ok (tw_resv w') = (Some None, tw_resv w')" for g ok
    using no_reserved_row [of "tw_resv w'" rid] ids row by simp
  have "run_alone (Mongo_ReleaseReservation qm works 0 now rid) w' = (Inr (), w')" for qm now
    using row by (simp add: Mongo_ReleaseReservation_def Mongo_FindReservationByID_def none)
  then show ?thesis using crash same row by (intro exI [of _ w']) (simp add: ticket_phase_def)
qed

lemma crashed_release_leaks_witness:
  "\<exists>w'. pool_reach ticket_request sold_out (w', []) \<and> tw_tickets w' = tw_tickets sold_out \<and>
    ticket_phase w' ''r1'' = Some PhaseReleased \<and>
    (\<forall>qm now. run_alone (Mongo_ReleaseReservation qm works 0 now ''r1'') w' = (Inr (), w'))"
  by (rule crashed_release_leaks [OF sold_out_ok]) (simp_all add: ticket_phase_def sold_out_eq)

end
