(* ===== verification/Ticket_Retries.thy ===== *)
theory Ticket_Retries
  imports Ticket_Props
begin

text \<open>
  Retries and stale copies in ticket-service: what a repeated reserve answers, and what an update of
  a ticket may write.
\<close>

section \<open>A reserve that is repeated\<close>

definition repeats :: "quota_request \<Rightarrow> ticket_reservation \<Rightarrow> bool" where
  "repeats req v \<longleftrightarrow> v_ticket v = qr_ticket req \<and> v_user v = qr_user req \<and> v_quantity v = sint (qr_quantity req)"

text \<open>
  C31: Repeating a reserve whose reservation is still held adds no row and takes no ticket. But it is
  accepted again only if the ticket and the buyer's limit have room for the same quantity once
  more; otherwise the buyer is told that the tickets are sold out or the limit is exceeded.
\<close>

theorem repeated_reserve_needs_room:
  assumes "ga_request w req t" and "find_row v_id (qr_reservation req) (tw_resv w) = Some v"
    and "repeats req v" "v_status v = ResvReserved"
  shows "\<exists>a w'. run_alone (ReserveQuota False works now now2 req) w = (a, w') \<and> tw_resv w' = tw_resv w \<and>
    map t_reserved (tw_tickets w') = map t_reserved (tw_tickets w) \<and>
    a = (if t_quota t < t_reserved t + t_sold t + sint (qr_quantity req)
         then Inl (CodeResourceExhausted, ''insufficient quota for ticket '' @ qr_ticket req)
         else if t_max t < user_active w (qr_ticket req) (qr_user req) + sint (qr_quantity req)
         then Inl (CodeFailedPrecondition, ''per-user limit exceeded for ticket '' @ qr_ticket req)
         else Inr (quota_answer t (qr_reservation req) (int32 (sint (qr_quantity req)))
                (t_quota t - t_reserved t - t_sold t)))"
proof -
  let ?res = "quota_reservation req now"
  obtain w1 where w1: "run_alone (ReserveQuota False works now now2 req) w =
       (case run_alone (Mongo_CreateReservation False works 3 now now2 ?res) w1 of
          (r, w2) \<Rightarrow> run_alone (reserve_answer works 14 now2 req t r) w2)"
      "tw_tickets w1 = tw_tickets w" "tw_resv w1 = tw_resv w"
      "live_ticket w1 (v_ticket ?res) t" "1 \<le> v_quantity ?res" "v_id ?res = qr_reservation req"
      "v_user ?res = qr_user req" "v_ticket ?res = qr_ticket req" "v_quantity ?res = sint (qr_quantity req)"
      "user_active w1 = user_active w"
    by (rule ga_request_reads [OF assms(1), of works now now2]) auto
  note create = run_create [OF w1(4,5), of works 3 now now2]
  show ?thesis
  proof (cases "t_quota t < t_reserved t + t_sold t + sint (qr_quantity req) \<or>
      t_max t < user_active w (qr_ticket req) (qr_user req) + sint (qr_quantity req)")
    case True
    then show ?thesis using create w1(2,3,7-10) by (auto simp: w1(1) reserve_answer_def)
  next
    case False
    have v: "v \<in> set (tw_resv w)" "v_id v = qr_reservation req" using find_row_Some_iff_set [OF assms(2)] by auto
    have dup: "v_id (reserve_row now ?res) \<in> v_id ` set (tw_resv w1)" using v w1(3,6) by force
    obtain ts where ts: "run_alone (take_counter False works (3 + 6) now now2 (reserve_row now ?res)) w1 =
        (Inl ErrStore, w1\<lparr>tw_tickets := ts\<rparr>)" "map t_reserved ts = map t_reserved (tw_tickets w1)"
      using run_take_undone [of w1 "reserve_row now ?res" t works "3 + 6" now now2] w1(4,5,9) dup False by auto
    have "run_alone (Mongo_CreateReservation False works 3 now now2 ?res) w1 = (Inl ErrStore, w1\<lparr>tw_tickets := ts\<rparr>)"
      using create ts(1) False w1(7-10) by simp
    then show ?thesis
      using ts(2) False assms(2-4) w1(2,3) v(2)
      by (simp add: w1(1) reserve_answer_def Mongo_FindReservationByID_def duplicate_answer_def repeats_def)
  qed
qed

lemma repeated_reserve_needs_room_witness:
  "\<exists>w'. run_alone (ReserveQuota False works 50 60 (buy ''r1'' ''u1'')) (sold_out\<lparr>tw_cache := (\<lambda>i. None)\<rparr>) =
     (Inl (CodeResourceExhausted, ''insufficient quota for ticket t1''), w')"
proof -
  let ?w = "sold_out\<lparr>tw_cache := (\<lambda>i. None)\<rparr>" and ?t = "hd (tw_tickets sold_out)"
  have ga: "ga_request ?w (buy ''r1'' ''u1'') ?t"
    using sold_out_eq by (simp add: ga_request_def buy_def bad_quota_request_def live_ticket_def shop_ticket_def
        valid_ticket_def bson_int_def field_def)
  have row: "find_row v_id (qr_reservation (buy ''r1'' ''u1'')) (tw_resv ?w) = Some (hd (tw_resv sold_out))"
    "repeats (buy ''r1'' ''u1'') (hd (tw_resv sold_out))" "v_status (hd (tw_resv sold_out)) = ResvReserved"
    "t_quota ?t < t_reserved ?t + t_sold ?t + sint (qr_quantity (buy ''r1'' ''u1''))"
    using sold_out_eq by (simp_all add: buy_def repeats_def shop_ticket_def)
  then show ?thesis using repeated_reserve_needs_room [OF ga row(1-3), of 50 60] by (auto simp: buy_def)
qed

text \<open>
  Tickets that were paid for leave the buyer's limit: it is compared with what is still reserved, so a
  buyer at the limit of two may buy two more, and so on.
\<close>

lemma sold_tickets_leave_the_limit:
  "let w0 = shop\<lparr>tw_tickets := [shop_ticket\<lparr>t_quota := 4\<rparr>]\<rparr>;
       w1 = snd (run_alone (ReserveQuota False works 10 20 (buy ''r1'' ''u1'')) w0);
       w2 = snd (run_alone (Grpc_FinalizeReservation False works 30 ''r1'' ''o1'') w1);
       w3 = snd (run_alone (ReserveQuota False works 40 50 (buy ''r2'' ''u1'')) w2)
   in map t_max (tw_tickets w3) = [2] \<and> map v_user (tw_resv w3) = [''u1'', ''u1''] \<and>
      quantity_in ResvSold ''t1'' (tw_resv w3) + quantity_in ResvReserved ''t1'' (tw_resv w3) = 4"
  by code_simp

section \<open>Updates\<close>

definition written :: "(int \<Rightarrow> string) \<Rightarrow> int \<Rightarrow> ticket \<Rightarrow> outbox_event list \<Rightarrow> ticket \<Rightarrow> ticket" where
  "written rfc now t0 evs =
     (let t = t0\<lparr>t_version := t_version t0 + 1, t_updated := now\<rparr>
      in set_ticket_fields t now (map (normalizePendingOutboxEvent rfc t) evs))"

lemma keeps_reads: "keeps P (Mongo_FindByID f k tid)"
  unfolding Mongo_FindByID_def by (rule keeps_call) simp_all

lemma run_tickets_call:
  assumes "\<And>r ts. keeps (\<lambda>w. tw_tickets w = ts) (k r)"
  shows "tw_tickets (snd (run_alone (call oc (tickets_call g) k) w)) \<in> {tw_tickets w, snd (g (tw_tickets w))}"
proof -
  have "tw_tickets (snd (run_alone (k r) s)) = tw_tickets s" for r s
    using keeps_run [OF assms, where s = s] by simp
  then show ?thesis by (cases oc) simp_all
qed

lemma run_mongo_update:
  "tw_tickets (snd (run_alone (Mongo_Update rfc f k now t0 evs) w)) = tw_tickets w \<or>
   tw_tickets (snd (run_alone (Mongo_Update rfc f k now t0 evs) w)) =
     snd (update_first (\<lambda>d. t_id d = t_id t0 \<and> t_version d = t_version t0) (written rfc now t0 evs) valid_ticket (tw_tickets w))"
proof -
  let ?k = "\<lambda>r. case r of
          Some (Some (Some d)) \<Rightarrow> Ret (Inr (t0\<lparr>t_version := t_version t0 + 1, t_updated := now\<rparr>))
        | Some (Some None) \<Rightarrow>
            bind_proc (Mongo_FindByID f (k + 1) (t_id t0)) (\<lambda>x.
              Ret (Inl (if x = Inl ErrTicketNotFound then ErrTicketNotFound else ErrVersionConflict)))
        | _ \<Rightarrow> Ret (Inl ErrStore)"
  have keep: "keeps (\<lambda>w. tw_tickets w = ts) (?k r)" for r ts
    by (auto intro!: keeps_bind keeps_reads split: option.split)
  have eq: "Mongo_Update rfc f k now t0 evs =
      call (f k) (tickets_call (update_first (\<lambda>d. t_id d = t_id t0 \<and> t_version d = t_version t0) (written rfc now t0 evs) valid_ticket)) ?k"
    by (simp add: Mongo_Update_def written_def Let_def del: One_nat_def add_Suc_right)
  show ?thesis
    unfolding eq by (rule run_tickets_call [of ?k, OF keep, unfolded insert_iff empty_iff simp_thms])
qed

text \<open>The rule for a change of the seating plan, and of all an update may change.\<close>

definition plan_change ::
  "(string \<Rightarrow> rpc_error + plan_info) \<Rightarrow> update_input \<Rightarrow> string \<Rightarrow> string \<Rightarrow> bool" where
  "plan_change venue i old new \<longleftrightarrow> new = old \<or>
     new = ui_plan i \<and> (old = [] \<or> (\<exists>p. venue old = Inr p \<and> pi_status p = ''inactive''))"

definition allowed_update ::
  "(string \<Rightarrow> rpc_error + plan_info) \<Rightarrow> update_input \<Rightarrow> ticket \<Rightarrow> ticket \<Rightarrow> ticket \<Rightarrow> bool" where
  "allowed_update venue i c d d' \<longleftrightarrow>
     t_user c = ui_user i \<and> t_reserved c \<le> 0 \<and> t_id d = t_id c \<and> t_version d = t_version c \<and>
     t_id d' = t_id d \<and> t_version d' = t_version d + 1 \<and> t_user d' = t_user d \<and>
     t_quota d' = t_quota c \<and> t_reserved d' = t_reserved d \<and> t_sold d' = t_sold d \<and>
     t_title d' = ui_title i \<and> t_price d' = ui_price i \<and>
     plan_change venue i (field (t_plan c)) (field (t_plan d'))"

lemma attach_plan_rule:
  "case attach_plan venue i t of Inl e \<Rightarrow> True | Inr t' \<Rightarrow>
     t_id t' = t_id t \<and> t_version t' = t_version t \<and> t_quota t' = t_quota t \<and> t_title t' = t_title t \<and>
     t_price t' = t_price t \<and> plan_change venue i (field (t_plan t)) (field (t_plan t'))"
  by (simp add: attach_plan_def Let_def plan_change_def field_def client_GetSeatingPlan_def split: sum.split option.split)

lemma run_bind_tickets:
  assumes "\<And>a ts. keeps (\<lambda>w. tw_tickets w = ts) (h a)"
  shows "tw_tickets (snd (run_alone (bind_proc p h) w)) = tw_tickets (snd (run_alone p w))"
  using keeps_run [OF assms, where s = "snd (run_alone p w)"] by (simp add: split_def Let_def)

lemma run_caching_update:
  "tw_tickets (snd (run_alone (Caching_Update rfc f k now t evs) w)) =
   tw_tickets (snd (run_alone (Mongo_Update rfc f k now t evs) w))"
  unfolding Caching_Update_def
  by (rule run_bind_tickets) (auto intro!: keeps_call split: sum.split)

lemma written_simps:
  "t_id (written rfc now t evs d) = t_id d" "t_version (written rfc now t evs d) = t_version t + 1"
  "t_user (written rfc now t evs d) = t_user d" "t_quota (written rfc now t evs d) = t_quota t"
  "t_reserved (written rfc now t evs d) = t_reserved d" "t_sold (written rfc now t evs d) = t_sold d"
  "t_title (written rfc now t evs d) = t_title t" "t_price (written rfc now t evs d) = t_price t"
  "field (t_plan (written rfc now t evs d)) = field (t_plan t)"
  by (simp_all add: written_def set_ticket_fields_def Let_def field_def)

lemma update_copy_allowed:
  "tw_tickets (snd (run_alone (update_copy rfc venue f k u now i c) w)) = tw_tickets w \<or>
   (\<exists>us d d' zs. tw_tickets w = us @ d # zs \<and>
      tw_tickets (snd (run_alone (update_copy rfc venue f k u now i c) w)) = us @ d' # zs \<and>
      allowed_update venue i c d d')"
proof (cases "t_user c \<noteq> ui_user i \<or> t_reserved c > 0 \<or> (\<exists>e. attach_plan venue i (changed_ticket i c) = Inl e)")
  case True
  then show ?thesis by (auto simp: update_copy_def)
next
  case False
  then obtain t' where t': "attach_plan venue i (changed_ticket i c) = Inr t'"
    by (cases "attach_plan venue i (changed_ticket i c)") auto
  let ?evs = "[NewTicketOutboxEvent u now OutboxEventTypeTicketUpdated (buildOutboxPayload rfc t')]"
  have run: "tw_tickets (snd (run_alone (update_copy rfc venue f k u now i c) w)) =
      tw_tickets (snd (run_alone (Mongo_Update rfc f k now t' ?evs) w))"
    using False t' by (simp add: update_copy_def run_caching_update run_bind_tickets del: run_alone_bind)
  have rule: "t_id t' = t_id c" "t_version t' = t_version c" "t_quota t' = t_quota c" "t_title t' = ui_title i"
      "t_price t' = ui_price i" "plan_change venue i (field (t_plan c)) (field (t_plan t'))"
    using attach_plan_rule [where venue = venue and i = i and t = "changed_ticket i c"]
    by (simp_all add: t') (simp_all add: changed_ticket_def)
  let ?p = "\<lambda>d. t_id d = t_id t' \<and> t_version d = t_version t'" and ?g = "written rfc now t' ?evs"
  have allowed: "allowed_update venue i c d (?g d)" if "?p d" for d
    using that rule False by (simp add: allowed_update_def written_simps)
  show ?thesis
  proof (cases rule: update_first_cases [of "tw_tickets w" ?p ?g valid_ticket])
    case (changed us d zs)
    have "snd (update_first ?p ?g valid_ticket (tw_tickets w)) = us @ ?g d # zs" using changed(5) by simp
    then show ?thesis
      using run run_mongo_update [of rfc f k now t' ?evs w] changed(1) allowed [OF changed(2)] by metis
  qed (use run run_mongo_update [of rfc f k now t' ?evs w] in simp_all)
qed

definition readable :: "ticket_world \<Rightarrow> string \<Rightarrow> ticket \<Rightarrow> bool" where
  "readable w tid c \<longleftrightarrow>
     (case tw_cache w tid of None \<Rightarrow> False | Some e \<Rightarrow> fst e = c) \<or> find_row t_id tid (tw_tickets w) = Some c"

lemma run_caching_find:
  "tw_tickets (snd (run_alone (Caching_FindByID f k now tid) w)) = tw_tickets w \<and>
   (case fst (run_alone (Caching_FindByID f k now tid) w) of Inl e \<Rightarrow> True | Inr c \<Rightarrow> readable w tid c)"
  by (cases "f k"; cases "tw_cache w tid"; cases "f (k + 1)"; cases "find_row t_id tid (tw_tickets w)"; cases "f (k + 2)")
    (simp_all add: Caching_FindByID_def Mongo_FindByID_def readable_def set_cached_def)

text \<open>
  C32: Whatever fails on the way and however old the cached copy is, an update changes at most one
  ticket, and only if the copy it checked has the stored version, belongs to the seller and has no
  reservations; it raises the version by one, keeps the counters and the owner, and replaces a
  seating plan only if there was none or venue-service calls it inactive.
\<close>

theorem update_is_guarded:
  "tw_tickets (snd (run_alone (UpdateTicket rfc venue f k u now i) w)) = tw_tickets w \<or>
   (\<exists>c us d d' zs. readable w (ui_id i) c \<and> tw_tickets w = us @ d # zs \<and>
      tw_tickets (snd (run_alone (UpdateTicket rfc venue f k u now i) w)) = us @ d' # zs \<and>
      allowed_update venue i c d d')"
proof -
  obtain r w1 where find: "run_alone (Caching_FindByID f k now (ui_id i)) w = (r, w1)" by (meson surj_pair)
  have same: "tw_tickets w1 = tw_tickets w" and copy: "case r of Inl e \<Rightarrow> True | Inr c \<Rightarrow> readable w (ui_id i) c"
    using run_caching_find [of f k now "ui_id i" w] by (simp_all add: find)
  show ?thesis
  proof (cases r)
    case (Inl e)
    then show ?thesis using same by (simp add: UpdateTicket_def find)
  next
    case (Inr c)
    have run: "run_alone (UpdateTicket rfc venue f k u now i) w = run_alone (update_copy rfc venue f (k + 3) u now i c) w1"
      by (simp add: UpdateTicket_def find Inr)
    show ?thesis
      unfolding run using update_copy_allowed [of rfc venue f "k + 3" u now i c w1] copy same Inr
      by (simp only: sum.case) blast
  qed
qed

end
