(* ===== verification/Outbox_Delivery.thy ===== *)
theory Outbox_Delivery
  imports Ticket_Pool
begin

text \<open>
  No entry of the outbox is lost: with any number of relays, sellers and buyers at once and with
  crashes at any point, an entry stays in its ticket until its message is on Kafka. \<open>K\<close> is a set of
  entry identifiers that no new entry gets. What a relay knows of the entries it has claimed is its
  debt in the sense of \<open>Interleaving\<close>; others keep it true.
\<close>

section \<open>Entries\<close>

definition entries :: "ticket list \<Rightarrow> (string \<times> outbox_event) set" where
  "entries ts = (\<Union>t \<in> set ts. Pair (t_id t) ` set (t_outbox t))"

lemma entries_simps [simp]:
  "entries [] = {}" "entries (t # ts) = Pair (t_id t) ` set (t_outbox t) \<union> entries ts"
  "entries (us @ ts) = entries us \<union> entries ts"
  by (auto simp: entries_def)

definition same_msg :: "outbox_event \<Rightarrow> outbox_event \<Rightarrow> bool" where
  "same_msg e e' \<longleftrightarrow> ob_id e' = ob_id e \<and> ob_type e' = ob_type e \<and> ob_payload e' = ob_payload e"

lemma same_msg_refl [simp]: "same_msg e e"
  by (simp add: same_msg_def)

lemma same_msg_trans: "same_msg a b \<Longrightarrow> same_msg b c \<Longrightarrow> same_msg a c"
  by (simp add: same_msg_def)

lemma same_msg_sym: "same_msg a b \<Longrightarrow> same_msg b a"
  by (simp add: same_msg_def)

lemma same_message: "same_msg e e' \<Longrightarrow> message_of rfc e' = message_of rfc e"
  by (simp add: same_msg_def message_of_def)

text \<open>What a relay may know: an entry it has claimed, or that its message was published.\<close>

datatype knowledge = Holds string outbox_event | Sent outbox_event

fun known :: "string set \<Rightarrow> (int \<Rightarrow> string) \<Rightarrow> ticket_world \<Rightarrow> knowledge \<Rightarrow> bool" where
  "known K rfc w (Holds i e) =
     (\<forall>e'. (i, e') \<in> entries (tw_tickets w) \<longrightarrow> ob_id e' = ob_id e \<longrightarrow> ob_id e \<in> K \<longrightarrow> same_msg e e')"
| "known K rfc w (Sent e) = (message_of rfc e \<in> set (tw_published w))"

definition unambiguous :: "string set \<Rightarrow> ticket_world \<Rightarrow> bool" where
  "unambiguous K w \<longleftrightarrow> (\<forall>i e e'. (i, e) \<in> entries (tw_tickets w) \<longrightarrow> (i, e') \<in> entries (tw_tickets w) \<longrightarrow>
     ob_id e' = ob_id e \<longrightarrow> ob_id e \<in> K \<longrightarrow> same_msg e e')"

definition pending_or_sent :: "(int \<Rightarrow> string) \<Rightarrow> string \<times> outbox_event \<Rightarrow> ticket_world \<Rightarrow> bool" where
  "pending_or_sent rfc x w \<longleftrightarrow>
     (\<exists>e'. (fst x, e') \<in> entries (tw_tickets w) \<and> same_msg (snd x) e') \<or> message_of rfc (snd x) \<in> set (tw_published w)"

definition delivery_inv ::
  "string set \<Rightarrow> (int \<Rightarrow> string) \<Rightarrow> (string \<times> outbox_event) set \<Rightarrow> ticket_world \<Rightarrow> knowledge multiset \<Rightarrow> bool" where
  "delivery_inv K rfc T w D \<longleftrightarrow> unambiguous K w \<and> (\<forall>x \<in> T. ob_id (snd x) \<in> K \<and> pending_or_sent rfc x w) \<and>
     (\<forall>d \<in># D. known K rfc w d)"

lemma delivery_forgive: "delivery_inv K rfc T w (D + E) \<Longrightarrow> delivery_inv K rfc T w E"
  by (simp add: delivery_inv_def)

section \<open>Steps\<close>

text \<open>
  A step that only renames claims, adds entries outside \<open>K\<close>, and drops entries whose message was
  published.
\<close>

definition gentle :: "string set \<Rightarrow> (int \<Rightarrow> string) \<Rightarrow> ticket_world \<Rightarrow> ticket_world \<Rightarrow> bool" where
  "gentle K rfc w w' \<longleftrightarrow> set (tw_published w) \<subseteq> set (tw_published w') \<and>
     (\<forall>i e'. (i, e') \<in> entries (tw_tickets w') \<longrightarrow> ob_id e' \<in> K \<longrightarrow>
        (\<exists>e. (i, e) \<in> entries (tw_tickets w) \<and> same_msg e e')) \<and>
     (\<forall>i e. (i, e) \<in> entries (tw_tickets w) \<longrightarrow> ob_id e \<in> K \<longrightarrow>
        (\<exists>e'. (i, e') \<in> entries (tw_tickets w') \<and> same_msg e e') \<or> message_of rfc e \<in> set (tw_published w'))"

lemma gentle_refl [simp]: "gentle K rfc w w"
  by (auto simp: gentle_def intro: same_msg_refl)

lemma gentle_same:
  "entries (tw_tickets w') = entries (tw_tickets w) \<Longrightarrow> tw_published w' = tw_published w \<Longrightarrow> gentle K rfc w w'"
  by (auto simp: gentle_def intro: same_msg_refl)

lemma gentle_old:
  "gentle K rfc w w' \<Longrightarrow> (i, e') \<in> entries (tw_tickets w') \<Longrightarrow> ob_id e' \<in> K \<Longrightarrow>
   \<exists>e. (i, e) \<in> entries (tw_tickets w) \<and> same_msg e e'"
  unfolding gentle_def by blast

lemma known_gentle:
  assumes "gentle K rfc w w'" "known K rfc w d"
  shows "known K rfc w' d"
proof (cases d)
  case (Holds i e)
  have "same_msg e e'" if a: "(i, e') \<in> entries (tw_tickets w')" "ob_id e' = ob_id e" "ob_id e \<in> K" for e'
  proof -
    obtain e0 where e0: "(i, e0) \<in> entries (tw_tickets w)" "same_msg e0 e'"
      using gentle_old [OF assms(1) a(1)] a(2,3) by auto
    then have "same_msg e e0" using assms(2) Holds a by (simp add: same_msg_def)
    then show ?thesis using e0(2) by (rule same_msg_trans)
  qed
  then show ?thesis using Holds by simp
next
  case (Sent e)
  then show ?thesis using assms by (auto simp: gentle_def)
qed

lemma delivery_gentle:
  assumes g: "gentle K rfc w w'" and inv: "delivery_inv K rfc T w D"
  shows "delivery_inv K rfc T w' D"
proof -
  have "same_msg e e'"
    if c: "(i, e) \<in> entries (tw_tickets w')" "(i, e') \<in> entries (tw_tickets w')" "ob_id e' = ob_id e" "ob_id e \<in> K" for i e e'
  proof -
    obtain a b where ab: "(i, a) \<in> entries (tw_tickets w)" "same_msg a e" "(i, b) \<in> entries (tw_tickets w)" "same_msg b e'"
      using gentle_old [OF g c(1)] gentle_old [OF g c(2)] c(3,4) by auto
    then have ids: "ob_id b = ob_id a" "ob_id a \<in> K" using c(3,4) by (simp_all add: same_msg_def)
    have "unambiguous K w" using inv by (simp add: delivery_inv_def)
    then have "same_msg a b" using ab(1,3) ids unfolding unambiguous_def by blast
    then show ?thesis using ab(2,4) same_msg_trans same_msg_sym by metis
  qed
  then have "unambiguous K w'" unfolding unambiguous_def by blast
  moreover have "pending_or_sent rfc x w'" if "x \<in> T" for x
  proof -
    have x: "ob_id (snd x) \<in> K" "pending_or_sent rfc x w" using inv that unfolding delivery_inv_def by auto
    show ?thesis
    proof (cases "message_of rfc (snd x) \<in> set (tw_published w)")
      case True
      then show ?thesis using g unfolding gentle_def pending_or_sent_def by blast
    next
      case False
      then obtain e where e: "(fst x, e) \<in> entries (tw_tickets w)" "same_msg (snd x) e"
        using x(2) unfolding pending_or_sent_def by blast
      then have "ob_id e \<in> K" using x(1) by (simp add: same_msg_def)
      then have "(\<exists>e'. (fst x, e') \<in> entries (tw_tickets w') \<and> same_msg e e') \<or> message_of rfc e \<in> set (tw_published w')"
        using g e(1) unfolding gentle_def by blast
      then show ?thesis
        using e(2) same_message [OF e(2), of rfc] same_msg_trans unfolding pending_or_sent_def by metis
    qed
  qed
  ultimately show ?thesis
    using inv known_gentle [OF g] unfolding delivery_inv_def by blast
qed

lemma safe_gentle:
  assumes "\<And>w E. delivery_inv K rfc T w (D + E) \<Longrightarrow> gentle K rfc w (snd (g w))"
    and "\<And>r. safe (delivery_inv K rfc T) (k r) D"
  shows "safe (delivery_inv K rfc T) (call oc g k) D"
proof (rule safe_call)
  show "\<exists>d'. delivery_inv K rfc T (snd (g s)) (d' + e) \<and> safe (delivery_inv K rfc T) (k (Some (fst (g s)))) d'"
    if "delivery_inv K rfc T s (D + e)" for s e
    using delivery_gentle [OF assms(1) [OF that] that] assms(2) by blast
  show "\<exists>d'. delivery_inv K rfc T (snd (g s)) (d' + e) \<and> safe (delivery_inv K rfc T) (k None) d'"
    if "delivery_inv K rfc T s (D + e)" for s e
    using delivery_gentle [OF assms(1) [OF that] that] assms(2) by blast
qed (rule assms(2))

section \<open>Calls on one ticket\<close>

lemma update_first_covers:
  "x \<in> set xs \<Longrightarrow> x \<in> set (snd (update_first p g ok xs)) \<or> g x \<in> set (snd (update_first p g ok xs))"
  by (rule update_first_cases [of xs p g ok]) auto

lemma gentle_update:
  assumes "\<And>t. p t \<Longrightarrow> t_id (g t) = t_id t"
    and old: "\<And>t e'. p t \<Longrightarrow> e' \<in> set (t_outbox (g t)) \<Longrightarrow> ob_id e' \<in> K \<Longrightarrow> \<exists>e \<in> set (t_outbox t). same_msg e e'"
    and new: "\<And>t e. p t \<Longrightarrow> t \<in> set (tw_tickets w) \<Longrightarrow> e \<in> set (t_outbox t) \<Longrightarrow> ob_id e \<in> K \<Longrightarrow>
        (\<exists>e' \<in> set (t_outbox (g t)). same_msg e e') \<or> message_of rfc e \<in> set (tw_published w)"
  shows "gentle K rfc w (snd (tickets_call (update_first p g ok) w))"
proof (cases rule: update_first_cases [of "tw_tickets w" p g ok])
  case (changed us t zs)
  let ?w' = "snd (tickets_call (update_first p g ok) w)"
  have ts: "tw_tickets ?w' = us @ g t # zs" using changed(5) by simp
  have "\<exists>e. (i, e) \<in> entries (tw_tickets w) \<and> same_msg e e'"
    if c: "(i, e') \<in> entries (tw_tickets ?w')" "ob_id e' \<in> K" for i e'
  proof -
    consider "(i, e') \<in> entries us \<union> entries zs" | "i = t_id t" "e' \<in> set (t_outbox (g t))"
      using c(1) assms(1) [OF changed(2)] unfolding ts by auto
    then show ?thesis
    proof cases
      case 1
      then have "(i, e') \<in> entries (tw_tickets w)" unfolding changed(1) by auto
      then show ?thesis using same_msg_refl by blast
    next
      case 2
      then show ?thesis using old [OF changed(2) 2(2) c(2)] unfolding changed(1) by auto
    qed
  qed
  moreover have "(\<exists>e'. (i, e') \<in> entries (tw_tickets ?w') \<and> same_msg e e') \<or> message_of rfc e \<in> set (tw_published w)"
    if c: "(i, e) \<in> entries (tw_tickets w)" "ob_id e \<in> K" for i e
  proof -
    consider "(i, e) \<in> entries us \<union> entries zs" | "i = t_id t" "e \<in> set (t_outbox t)"
      using c(1) unfolding changed(1) by auto
    then show ?thesis
    proof cases
      case 1
      then have "(i, e) \<in> entries (tw_tickets ?w')" unfolding ts by auto
      then show ?thesis using same_msg_refl by blast
    next
      case 2
      have "t \<in> set (tw_tickets w)" unfolding changed(1) by simp
      from new [OF changed(2) this 2(2) c(2)] show ?thesis
        using assms(1) [OF changed(2)] 2(1) unfolding ts by auto
    qed
  qed
  ultimately show ?thesis by (simp add: gentle_def)
qed (rule gentle_same; simp)+

lemma gentle_first_event:
  assumes "\<And>e. same_msg e (h e)"
  shows "gentle K rfc w (snd (tickets_call (update_first p (first_event q h) ok) w))"
proof (rule gentle_update)
  show "\<exists>e \<in> set (t_outbox t). same_msg e e'" if e': "e' \<in> set (t_outbox (first_event q h t))" for t e'
  proof -
    have "e' \<in> set (snd (update_first q h (\<lambda>e. True) (t_outbox t)))" using e' by (simp add: first_event_def)
    from update_first_members [OF this] show ?thesis using assms same_msg_refl by blast
  qed
  show "(\<exists>e' \<in> set (t_outbox (first_event q h t)). same_msg e e') \<or> message_of rfc e \<in> set (tw_published w)"
    if "e \<in> set (t_outbox t)" for t e
    using update_first_covers [OF that, of q h "\<lambda>e. True"] assms [of e] same_msg_refl [of e]
    unfolding first_event_def by (simp, blast)
qed (simp add: first_event_def)

lemma same_marks: "same_msg e (mark_claimed tok l e)" "same_msg e (mark_requeued n err na e)"
  by (simp_all add: same_msg_def mark_claimed_def mark_requeued_def)

section \<open>The relay\<close>

definition holds :: "claimed_event list \<Rightarrow> knowledge multiset" where
  "holds cs = mset (map (\<lambda>c. Holds (fst c) (snd c)) cs)"

lemma holds_simps [simp]: "holds [] = {#}" "holds (cs @ [c]) = add_mset (Holds (fst c) (snd c)) (holds cs)"
  by (simp_all add: holds_def)

lemma holds_member: "c \<in> set cs \<Longrightarrow> Holds (fst c) (snd c) \<in># holds cs"
  by (auto simp: holds_def)

lemma unambiguous_holds:
  "unambiguous K w \<Longrightarrow> (i, e) \<in> entries (tw_tickets w) \<Longrightarrow> known K rfc w (Holds i e)"
  unfolding unambiguous_def known.simps by blast

lemma safe_claim_then:
  fixes K :: "string set" and rfc T
  defines "J \<equiv> delivery_inv K rfc T"
  assumes ok: "\<And>cs. safe J (h (Inr cs)) (holds cs)" and err: "\<And>e. safe J (h (Inl e)) {#}"
  shows "safe J (bind_proc (claim_loop f k token now lease n cs) h) (holds cs)"
proof (induction n arbitrary: k cs)
  case 0
  then show ?case using ok by simp
next
  case (Suc n)
  have forgive: "safe J (h (Inl e)) D" for e D
    using safe_forgive [of J "h (Inl e)" D] err delivery_forgive unfolding J_def by simp
  let ?p = "\<lambda>t. \<exists>e \<in> set (t_outbox t). claimable_event now e"
  let ?g = "first_event (claimable_event now) (mark_claimed (token k) (now + lease))"
  let ?u = "\<lambda>w. update_first ?p ?g valid_ticket (tw_tickets w)"
  let ?w' = "\<lambda>w. w\<lparr>tw_tickets := snd (?u w)\<rparr>"
  let ?k = "\<lambda>r. case r of
         Some (Some None) \<Rightarrow> h (Inr cs)
       | Some (Some (Some t)) \<Rightarrow>
           (case List.find (\<lambda>e. ob_claim e = Some (token k)) (t_outbox t) of
              None \<Rightarrow> h (Inl ErrStore)
            | Some e \<Rightarrow> bind_proc (claim_loop f (k + 1) token now lease n (cs @ [(t_id t, e)])) h)
       | _ \<Rightarrow> h (Inl ErrStore)"
  have eq: "bind_proc (claim_loop f k token now lease (Suc n) cs) h = call (f k) (tickets_call (update_first ?p ?g valid_ticket)) ?k"
    by (simp del: One_nat_def add_Suc_right, rule arg_cong [where f = "call (f k) (tickets_call (update_first ?p ?g valid_ticket))"])
      (auto simp: fun_eq_iff split: option.split)
  have keep: "J (?w' w) (holds cs + E)" if "J w (holds cs + E)" for w E
    using delivery_gentle [OF gentle_first_event that [unfolded J_def], of "mark_claimed (token k) (now + lease)"]
      same_marks(1) unfolding J_def by simp
  have known: "J (?w' w) (holds (cs @ [(t_id t, e)]) + E)"
    if j: "J w (holds cs + E)" and t: "fst (?u w) = Some (Some t)" and e: "e \<in> set (t_outbox t)" for w E t e
  proof -
    obtain us x zs where "snd (?u w) = us @ t # zs" using update_first_fst [OF t] by blast
    then have "(t_id t, e) \<in> entries (tw_tickets (?w' w))" using e by simp
    moreover have "unambiguous K (?w' w)" using keep [OF j] unfolding J_def delivery_inv_def by blast
    ultimately have "known K rfc (?w' w) (Holds (t_id t) e)" by (rule unambiguous_holds [rotated])
    then show ?thesis using keep [OF j] unfolding J_def by (simp add: delivery_inv_def del: known.simps)
  qed
  show ?case
    unfolding eq
  proof (rule safe_call)
    fix w E
    assume j: "J w (holds cs + E)"
    show "\<exists>d'. J (snd (tickets_call (update_first ?p ?g valid_ticket) w)) (d' + E) \<and>
        safe J (?k (Some (fst (tickets_call (update_first ?p ?g valid_ticket) w)))) d'"
    proof (cases "\<exists>t e. fst (?u w) = Some (Some t) \<and> List.find (\<lambda>e. ob_claim e = Some (token k)) (t_outbox t) = Some e")
      case True
      then obtain t e where te: "fst (?u w) = Some (Some t)"
          "List.find (\<lambda>e. ob_claim e = Some (token k)) (t_outbox t) = Some e" by blast
      have "e \<in> set (t_outbox t)" using te(2) by (auto simp: find_Some_iff)
      from known [OF j te(1) this] show ?thesis
        using te Suc.IH [of "k + 1" "cs @ [(t_id t, e)]"]
        by (intro exI [of _ "holds (cs @ [(t_id t, e)])"]) simp
    next
      case False
      then show ?thesis using keep [OF j] ok forgive
        by (intro exI [of _ "holds cs"]) (auto split: option.split)
    qed
    show "\<exists>d'. J (snd (tickets_call (update_first ?p ?g valid_ticket) w)) (d' + E) \<and> safe J (?k None) d'"
      using keep [OF j] forgive by (intro exI [of _ "holds cs"]) simp
  qed (simp add: forgive)
qed

lemma gentle_ack:
  assumes "delivery_inv K rfc T w D" "Holds i e \<in># D" "Sent e \<in># D"
  shows "gentle K rfc w (snd (tickets_call (update_first
      (\<lambda>t. t_id t = i \<and> (\<exists>x \<in> set (t_outbox t). claimed_by (ob_id e) tok x))
      (\<lambda>t. t\<lparr>t_outbox := filter (\<lambda>x. ob_id x \<noteq> ob_id e) (t_outbox t)\<rparr>) valid_ticket) w))"
proof (rule gentle_update)
  fix t x
  assume t: "t_id t = i \<and> (\<exists>x \<in> set (t_outbox t). claimed_by (ob_id e) tok x)" "t \<in> set (tw_tickets w)"
    and x: "x \<in> set (t_outbox t)" "ob_id x \<in> K"
  have known: "known K rfc w (Holds i e)" "known K rfc w (Sent e)"
    using assms unfolding delivery_inv_def by blast+
  have "(i, x) \<in> entries (tw_tickets w)" using t x(1) unfolding entries_def by blast
  then have "message_of rfc x \<in> set (tw_published w)" if "ob_id x = ob_id e"
    using known that x(2) same_message [of e x rfc] by auto
  then show "(\<exists>y \<in> set (t_outbox (t\<lparr>t_outbox := filter (\<lambda>x. ob_id x \<noteq> ob_id e) (t_outbox t)\<rparr>)). same_msg x y) \<or>
      message_of rfc x \<in> set (tw_published w)"
    using x(1) same_msg_refl [of x] by auto
qed (auto intro: same_msg_refl)

lemma delivery_process_each:
  fixes K :: "string set" and rfc T
  defines "J \<equiv> delivery_inv K rfc T"
  shows "\<forall>c \<in> set cs. Holds (fst c) (snd c) \<in># D \<Longrightarrow> safe J (process_each rfc f k clock err cs) D"
proof (induction cs arbitrary: k D)
  case (Cons c cs)
  let ?rest = "process_each rfc f (k + 2) clock err cs"
  let ?e = "snd c"
  have rest: "safe J ?rest D'" if "D \<subseteq># D'" for D'
    using Cons that by (metis list.set_intros(2) mset_subset_eqD)
  have ack: "safe J (bind_proc (AcknowledgeOutboxEvent (f (k + 1)) (fst c) (ob_id ?e) (ob_claim ?e)) (\<lambda>r. ?rest)) (add_mset (Sent ?e) D)"
    unfolding AcknowledgeOutboxEvent_def bind_call J_def
  proof (rule safe_gentle)
    fix w E
    assume "delivery_inv K rfc T w (add_mset (Sent ?e) D + E)"
    then show "gentle K rfc w (snd (tickets_call (update_first
        (\<lambda>t. t_id t = fst c \<and> (\<exists>x \<in> set (t_outbox t). claimed_by (ob_id ?e) (ob_claim ?e) x))
        (\<lambda>t. t\<lparr>t_outbox := filter (\<lambda>x. ob_id x \<noteq> ob_id ?e) (t_outbox t)\<rparr>) valid_ticket) w))"
      by (rule gentle_ack) (use Cons.prems in auto)
  qed (use rest [of "add_mset (Sent ?e) D"] J_def in simp)
  have retry: "safe J (bind_proc (RequeueOutboxEvent (f (k + 1)) (fst c) (ob_id ?e) (ob_claim ?e) err n na) (\<lambda>r. ?rest)) D" for n na
    unfolding RequeueOutboxEvent_def bind_call J_def
    by (rule safe_gentle, rule gentle_first_event, rule same_marks) (use rest [of D] J_def in simp)
  have publish: "J (w\<lparr>tw_published := tw_published w @ [message_of rfc ?e]\<rparr>) (D + E) \<and>
      J (w\<lparr>tw_published := tw_published w @ [message_of rfc ?e]\<rparr>) (add_mset (Sent ?e) D + E)"
    if j: "J w (D + E)" for w E
  proof -
    have "gentle K rfc w (w\<lparr>tw_published := tw_published w @ [message_of rfc ?e]\<rparr>)"
      by (auto simp: gentle_def intro: same_msg_refl)
    from delivery_gentle [OF this j [unfolded J_def]] show ?thesis
      unfolding J_def by (simp add: delivery_inv_def)
  qed
  have eq: "process_each rfc f k clock err (c # cs) =
      call (f k) (\<lambda>w. ((), w\<lparr>tw_published := tw_published w @ [message_of rfc ?e]\<rparr>)) (\<lambda>r.
        if r \<noteq> None then bind_proc (AcknowledgeOutboxEvent (f (k + 1)) (fst c) (ob_id ?e) (ob_claim ?e)) (\<lambda>r. ?rest)
        else bind_proc (RequeueOutboxEvent (f (k + 1)) (fst c) (ob_id ?e) (ob_claim ?e) err (ob_attempts ?e + 1)
          (clock k + backoffDelay (ob_attempts ?e + 1) div 1000000)) (\<lambda>r. ?rest))"
    by (simp add: processClaimedEvent_def publish_event_def Let_def bind_bind fun_eq_iff call_def
        del: One_nat_def add_Suc_right)
  show ?case
    unfolding eq
  proof (rule safe_call, goal_cases)
    case (1 w E)
    then show ?case using publish ack by (intro exI [of _ "add_mset (Sent ?e) D"]) simp
  next
    case (2 w E)
    then show ?case using publish retry by (intro exI [of _ D]) simp
  next
    case 3
    then show ?case using retry by simp
  qed
qed (simp add: J_def)

section \<open>Requests that leave the entries alone\<close>

definition outbox_view :: "ticket_world \<Rightarrow> (string \<times> outbox_event) set \<times> (outbox_type \<times> event_data) list" where
  "outbox_view w = (entries (tw_tickets w), tw_published w)"

lemma view_safe: "leaves outbox_view p \<Longrightarrow> safe (delivery_inv K rfc T) p D"
proof (rule leaves_safe)
  fix s s' d
  assume "outbox_view s' = outbox_view s" "delivery_inv K rfc T s d"
  then show "delivery_inv K rfc T s' d"
    using delivery_gentle [OF gentle_same] by (simp add: outbox_view_def)
qed

lemma view_update:
  assumes "\<And>t. t_id (g t) = t_id t \<and> t_outbox (g t) = t_outbox t"
  shows "outbox_view (snd (tickets_call (update_first p g ok) w)) = outbox_view w"
proof -
  have "map (\<lambda>t. (t_id t, t_outbox t)) (snd (update_first p g ok (tw_tickets w))) =
      map (\<lambda>t. (t_id t, t_outbox t)) (tw_tickets w)"
    using assms by (simp add: update_first_keeps)
  from arg_cong [OF this, of "\<lambda>xs. \<Union>x \<in> set xs. Pair (fst x) ` set (snd x)"]
  show ?thesis by (simp add: outbox_view_def entries_def)
qed

lemma view_other [simp]:
  "outbox_view (snd (resv_call g w)) = outbox_view w" "outbox_view (w\<lparr>tw_resv := vs\<rparr>) = outbox_view w"
  "outbox_view (snd (set_cached i now t w)) = outbox_view w" "outbox_view (snd (del_cached i w)) = outbox_view w"
  "outbox_view (snd (set_list now ts w)) = outbox_view w" "outbox_view (snd (del_list w)) = outbox_view w"
  "outbox_view (snd (reserveScript i u q m w)) = outbox_view w" "outbox_view (snd (releaseScript i u q w)) = outbox_view w"
  "outbox_view (snd (finalizeScript i u q w)) = outbox_view w" "outbox_view (set_avail i n w) = outbox_view w"
  "outbox_view (snd (reads h w)) = outbox_view w"
  by (auto simp: outbox_view_def set_cached_def del_cached_def set_list_def del_list_def reserveScript_def
      releaseScript_def finalizeScript_def set_avail_def set_user_def split: option.split)

lemma leaves_quota [intro!]:
  "leaves outbox_view (Quota_Seed oc i n b)" "leaves outbox_view (Quota_Reserve oc i u q m)"
  "leaves outbox_view (Quota_Release oc i u q)" "leaves outbox_view (Quota_Finalize oc i u q)"
  unfolding Quota_Seed_def Quota_Reserve_def Quota_Release_def Quota_Finalize_def
  by (rule leaves_call; simp)+

lemma leaves_reads [intro!]:
  "leaves outbox_view (Mongo_FindByID f k i)" "leaves outbox_view (Mongo_FindReservationByID f k rid)"
  "leaves outbox_view (sumUserActiveReservations f k i u)"
  unfolding Mongo_FindByID_def Mongo_FindReservationByID_def sumUserActiveReservations_def
  by (rule leaves_call; simp)+

lemma leaves_caching_find [intro!]: "leaves outbox_view (Caching_FindByID f k now i)"
  unfolding Caching_FindByID_def
  by (auto intro!: leaves_call leaves_bind split: option.split sum.split)

lemma leaves_tickets:
  assumes "\<And>t. t_id (g t) = t_id t \<and> t_outbox (g t) = t_outbox t" "\<And>r. leaves outbox_view (k r)"
  shows "leaves outbox_view (call oc (tickets_call (update_first p g ok)) k)"
  by (rule leaves_call [OF view_update [OF assms(1)] assms(2)])

lemma leaves_give_back [intro!]: "leaves outbox_view (give_back b f k res e)"
  unfolding give_back_def by (auto intro!: leaves_bind)

lemma leaves_insert [intro!]: "leaves outbox_view (insert_reservation b f k now2 res)"
  unfolding insert_reservation_def
  by (rule leaves_call) (auto intro!: leaves_tickets simp: inc_reserved_def split: option.split)

lemma leaves_take [intro!]: "leaves outbox_view (take_counter b f k now now2 res)"
  unfolding take_counter_def
  by (rule leaves_tickets) (auto simp: inc_reserved_def split: option.split)

lemma leaves_create [intro!]: "leaves outbox_view (Mongo_CreateReservation qm f k now now2 res)"
  unfolding Mongo_CreateReservation_def redis_gate_def Let_def
  by (auto intro!: leaves_bind split: sum.split)

lemma leaves_release [intro!]: "leaves outbox_view (Mongo_ReleaseReservation qm f k now rid)"
  unfolding Mongo_ReleaseReservation_def release_counter_def
  by (rule leaves_call) (auto intro!: leaves_bind leaves_tickets simp: inc_reserved_def split: option.split)

lemma leaves_finalize [intro!]: "leaves outbox_view (Mongo_FinalizeReservation qm f k now rid oid)"
  unfolding Mongo_FinalizeReservation_def finalize_counter_def
  by (rule leaves_call) (auto intro!: leaves_bind leaves_tickets simp: move_to_sold_def split: option.split)

lemma leaves_ReserveQuota: "leaves outbox_view (ReserveQuota qm f now now2 req)"
proof -
  have answer: "leaves outbox_view (reserve_answer f k now req t r)" for f k now t r
    unfolding reserve_answer_def
    by (cases r) (auto intro!: leaves_bind split: ticket_error.split)
  show ?thesis
    unfolding ReserveQuota_def by (auto intro!: leaves_bind answer split: option.split sum.split)
qed

lemma leaves_consume: "leaves outbox_view (processWithRetry qm f k clock stopped dlq m n)"
proof (induction n arbitrary: k)
  case (Suc n)
  have legacy: "leaves outbox_view (ReserveTicket f k now i oid)" "leaves outbox_view (ReleaseTicket f k now i)" for k now i oid
    unfolding ReserveTicket_def ReleaseTicket_def
    by (rule leaves_tickets; auto intro!: leaves_bind split: option.split)+
  have "leaves outbox_view (handleMessage qm f k now m)" for k now
    unfolding handleMessage_def handleOrderCreated_def handleOrderCancelled_def handleOrderCompleted_def
    by (cases m) (auto intro!: leaves_bind legacy)
  then show ?case using Suc by (auto intro!: leaves_bind split: sum.split)
qed simp

section \<open>Writers\<close>

lemma normalized_id [simp]: "ob_id (normalizePendingOutboxEvent rfc t e) = ob_id e"
  by (simp add: normalizePendingOutboxEvent_def)

lemma gentle_insert:
  assumes "\<forall>e \<in> set (t_outbox t). ob_id e \<notin> K"
  shows "gentle K rfc w (snd (tickets_call (insert_one t_id ok t) w))"
  using assms by (auto simp: gentle_def insert_one_def intro: same_msg_refl)

lemma safe_Mongo_Create:
  assumes "t_outbox t0 = []" "\<forall>e \<in> set evs. ob_id e \<notin> K"
  shows "safe (delivery_inv K rfc T) (Mongo_Create qm rfc' f k newid now t0 evs) D"
  unfolding Mongo_Create_def Let_def
proof (rule safe_gentle)
  show "gentle K rfc w (snd (tickets_call (insert_one t_id valid_ticket (new_ticket rfc' newid now t0 evs)) w))" for w
    by (rule gentle_insert) (use assms in \<open>auto simp: new_ticket_def Let_def\<close>)
  show "safe (delivery_inv K rfc T) (case r of
          Some (Some u) \<Rightarrow>
            if qm then bind_proc (Quota_Seed (f (k + 1)) (t_id (new_ticket rfc' newid now t0 evs))
                 (t_quota (new_ticket rfc' newid now t0 evs) - t_reserved (new_ticket rfc' newid now t0 evs)
                  - t_sold (new_ticket rfc' newid now t0 evs)) False)
               (\<lambda>s. Ret (case s of Inl e \<Rightarrow> Inl ErrStore | Inr u \<Rightarrow> Inr (new_ticket rfc' newid now t0 evs)))
            else Ret (Inr (new_ticket rfc' newid now t0 evs))
        | _ \<Rightarrow> Ret (Inl ErrStore)) D" for r
    by (rule view_safe) (auto intro!: leaves_bind split: option.split)
qed

lemma safe_Mongo_Update:
  assumes "\<forall>e \<in> set evs. ob_id e \<notin> K"
  shows "safe (delivery_inv K rfc T) (Mongo_Update rfc' f k now t0 evs) D"
  unfolding Mongo_Update_def Let_def
proof (rule safe_gentle)
  let ?t = "t0\<lparr>t_version := t_version t0 + 1, t_updated := now\<rparr>"
  show "gentle K rfc w (snd (tickets_call (update_first (\<lambda>d. t_id d = t_id ?t \<and> t_version d = t_version t0)
      (set_ticket_fields ?t now (map (normalizePendingOutboxEvent rfc' ?t) evs)) valid_ticket) w))" for w
    by (rule gentle_update) (use assms in \<open>auto simp: set_ticket_fields_def intro: same_msg_refl\<close>)
  show "safe (delivery_inv K rfc T) (case r of
          Some (Some (Some d)) \<Rightarrow> Ret (Inr ?t)
        | Some (Some None) \<Rightarrow>
            bind_proc (Mongo_FindByID f (k + 1) (t_id ?t)) (\<lambda>x.
              Ret (Inl (if x = Inl ErrTicketNotFound then ErrTicketNotFound else ErrVersionConflict)))
        | _ \<Rightarrow> Ret (Inl ErrStore)) D" for r
    by (rule view_safe) (auto intro!: leaves_bind split: option.split)
qed

lemma delivery_CreateTicket:
  assumes "u \<notin> K"
  shows "safe (delivery_inv K rfc T) (CreateTicket qm rfc' f newid u now i) D"
proof -
  have after: "safe (delivery_inv K rfc T) (case r of Inl e \<Rightarrow> Ret (Inl e)
      | Inr t \<Rightarrow> call oc del_list (\<lambda>y. Ret (Inr t))) D" for r :: "ticket_error + ticket" and oc D
    by (rule view_safe) (auto intro!: leaves_call split: sum.split)
  show ?thesis
    unfolding CreateTicket_def Caching_Create_def
    by (auto intro!: safe_bind safe_Mongo_Create after simp: draft_ticket_def NewTicketOutboxEvent_def assms)
qed

lemma delivery_UpdateTicket:
  assumes "u \<notin> K"
  shows "safe (delivery_inv K rfc T) (UpdateTicket rfc' venue f k u now i) D"
proof -
  have after: "leaves outbox_view (case r of Inl e \<Rightarrow> Ret (Inl e)
      | Inr t \<Rightarrow> call oc (del_cached (t_id t)) (\<lambda>y. call oc' del_list (\<lambda>z. Ret (Inr t))))"
    for r :: "ticket_error + ticket" and oc oc'
    by (auto intro!: leaves_call split: sum.split)
  have "safe (delivery_inv K rfc T) (Caching_Update rfc' f k' now t
      [NewTicketOutboxEvent u now OutboxEventTypeTicketUpdated (buildOutboxPayload rfc' t)]) D" for k' t D
    unfolding Caching_Update_def
    by (rule safe_bind [OF view_safe [OF after] safe_Mongo_Update]) (simp add: NewTicketOutboxEvent_def assms)
  then have copy: "safe (delivery_inv K rfc T) (update_copy rfc' venue f k' u now i c) D" for k' c D
    unfolding update_copy_def by (auto intro!: safe_bind split: sum.split)
  have "safe (delivery_inv K rfc T) (case r of Inl e \<Rightarrow> Ret (Inl (Repo e))
      | Inr t \<Rightarrow> update_copy rfc' venue f (k + 3) u now i t) D" for r D
    by (cases r) (simp_all add: copy)
  then show ?thesis
    unfolding UpdateTicket_def by (rule safe_bind [OF _ view_safe [OF leaves_caching_find]])
qed

lemma delivery_processBatch: "safe (delivery_inv K rfc T) (no_answer (processBatch rfc f g token now clock err)) {#}"
proof -
  have parts: "safe (delivery_inv K rfc T) (bind_proc (case r of
        Inl e \<Rightarrow> Ret (Inl e)
      | Inr claimed \<Rightarrow> bind_proc (process_each rfc g 0 clock err claimed) (\<lambda>u. Ret (Inr (length claimed)))) (\<lambda>x. Ret ())) D"
    if "\<forall>cs. r = Inr cs \<longrightarrow> D = holds cs" for r :: "ticket_error + claimed_event list" and D
    using that by (cases r) (auto simp: bind_bind intro!: safe_bind delivery_process_each holds_member [of "(a, b)" for a b, simplified])
  show ?thesis
    unfolding no_answer_def processBatch_def ClaimPendingOutboxEvents_def bind_bind
    by (rule safe_claim_then [where cs = "[]", unfolded holds_simps(1)]; rule parts) simp_all
qed

section \<open>What may run, and the invariant\<close>

inductive outbox_request :: "string set \<Rightarrow> (int \<Rightarrow> string) \<Rightarrow> (ticket_world, unit) proc \<Rightarrow> bool" for K rfc where
  create: "u \<notin> K \<Longrightarrow> outbox_request K rfc (no_answer (CreateTicket qm rfc' f newid u now i))"
| update: "u \<notin> K \<Longrightarrow> outbox_request K rfc (no_answer (UpdateTicket rfc' venue f k u now ui))"
| relay: "outbox_request K rfc (no_answer (processBatch rfc f g token now clock err))"
| reserve: "outbox_request K rfc (no_answer (ReserveQuota qm f now now2 req))"
| consume: "outbox_request K rfc (no_answer (consume_order qm f clock stopped dlq m))"
| release: "outbox_request K rfc (no_answer (Mongo_ReleaseReservation qm f k now rid))"
| finalize: "outbox_request K rfc (no_answer (Mongo_FinalizeReservation qm f k now rid oid))"

lemma leaves_no_answer: "leaves outbox_view p \<Longrightarrow> leaves outbox_view (no_answer p)"
  unfolding no_answer_def by (rule leaves_bind) simp_all

lemma delivery_no_answer: "safe (delivery_inv K rfc T) p D \<Longrightarrow> safe (delivery_inv K rfc T) (no_answer p) D"
  unfolding no_answer_def by (rule safe_bind) simp_all

lemma outbox_request_safe: "outbox_request K rfc p \<Longrightarrow> safe (delivery_inv K rfc T) p {#}"
proof (induction rule: outbox_request.induct)
  case relay
  show ?case by (rule delivery_processBatch)
qed (auto intro!: view_safe leaves_no_answer leaves_ReserveQuota leaves_consume delivery_no_answer
    delivery_CreateTicket delivery_UpdateTicket simp: consume_order_def)

interpretation delivery: debt_protocol "delivery_inv K rfc T" "outbox_request K rfc" for K rfc T
  by unfold_locales (auto intro: delivery_forgive outbox_request_safe simp: zero_multiset_def [symmetric])

end
