(* ===== verification/Ticket_Workers.thy ===== *)
theory Ticket_Workers
  imports Ticket_Retries Outbox_Delivery
begin

text \<open>
  The theorems about ticket-service's background work and listings: the reconciler, the cursors,
  the delivery of outbox entries and the back-off of their retries.
\<close>

text \<open>
  C33: A reconciliation pass whose calls after the sweep answer ends after the last page of 50 and
  leaves the Redis counter of every ticket without a seating plan at the quota less what is
  reserved and sold, whatever it was before, also when it was missing and when the sweep failed.
\<close>

theorem reconcile_pass_repairs:
  assumes "storable w" "length (tw_tickets w) < 50 * fuel"
  shows "\<exists>w'. run_alone (Quota_Run like price qm f (\<lambda>i. Works) nows now fuel) w = (Some (Inr ()), w') \<and>
    (\<forall>t \<in> set (tw_tickets w'). field (t_plan t) = [] \<longrightarrow>
       tw_avail w' (t_id t) = Some (t_quota t - t_reserved t - t_sold t))"
  using Quota_Run_enough [OF assms, of like price qm f nows now] unfolding counter_right_def available_of_def .

definition drifted :: ticket_world where
  "drifted = sold_out\<lparr>tw_avail := (\<lambda>i. Some 9)\<rparr>"

definition repaired :: "(ticket_error + unit) option \<times> ticket_world" where
  "repaired = run_alone (Quota_Run (\<lambda>s t. True) (\<lambda>p. None) True (\<lambda>i. Fails) (\<lambda>i. Works) (\<lambda>i. 0) 50 1) drifted"

lemma repaired_tickets: "map (\<lambda>t. (t_id t, t_plan t, t_quota t, t_reserved t, t_sold t)) (tw_tickets (snd repaired)) =
    [(''t1'', None, 2, 2, 0)]"
  by code_simp

lemma reconcile_pass_repairs_witness:
  "tw_avail drifted ''t1'' = Some 9 \<and> fst repaired = Some (Inr ()) \<and> tw_avail (snd repaired) ''t1'' = Some 0"
proof -
  have "storable drifted" "length (tw_tickets drifted) < 50 * 1"
    using sold_out_eq by (simp_all add: drifted_def storable_def shop_ticket_def)
  from reconcile_pass_repairs [OF this, of "\<lambda>s t. True" "\<lambda>p. None" True "\<lambda>i. Fails" "\<lambda>i. 0" 50]
  have run: "fst repaired = Some (Inr ())"
    "\<forall>t \<in> set (tw_tickets (snd repaired)). field (t_plan t) = [] \<longrightarrow>
       tw_avail (snd repaired) (t_id t) = Some (t_quota t - t_reserved t - t_sold t)"
    by (auto simp: repaired_def)
  obtain t where "tw_tickets (snd repaired) = [t]" "t_id t = ''t1''" "t_plan t = None" "t_quota t = 2" "t_reserved t = 2"
      "t_sold t = 0" using repaired_tickets by auto
  then show ?thesis using run by (simp add: drifted_def field_def)
qed

text \<open>
  A cursor is read back as the creation time and identifier it was made of, also when the
  identifier contains a colon, exactly for times that fit a signed 64-bit integer; the cursors of
  the search backend are refused.
\<close>

theorem cursor_round_trip:
  "ParseCursor (EncodeCursor c tid) =
     (if - 9223372036854775808 \<le> c \<and> c \<le> 9223372036854775807 then Some (c, tid) else None) \<and>
   ParseCursor (''os:'' @ s) = None"
proof
  show "ParseCursor (''os:'' @ s) = None"
    by (simp add: ParseCursor_def colon_def ParseInt_def digit_val_def)
qed (rule ParseCursor_Encode)

text \<open>
  C35: No entry of the outbox is lost: whatever sellers, buyers, consumers and relays do at once and
  wherever replicas crash, an entry is still in its ticket or its message is on Kafka. New entries
  get identifiers outside \<open>K\<close>, and entries of one ticket with an identifier in \<open>K\<close> are the same.
\<close>

theorem outbox_entry_not_lost:
  assumes "pool_reach (outbox_request K rfc) w0 (w, ps)" "unambiguous K w0"
    and "t \<in> set (tw_tickets w0)" "e \<in> set (t_outbox t)" "ob_id e \<in> K"
  shows "(\<exists>t' \<in> set (tw_tickets w). t_id t' = t_id t \<and> (\<exists>e' \<in> set (t_outbox t'). same_msg e e')) \<or>
    message_of rfc e \<in> set (tw_published w)"
proof -
  have here: "(t_id t, e) \<in> entries (tw_tickets w0)" using assms(3,4) by (auto simp: entries_def)
  have "delivery_inv K rfc {(t_id t, e)} w0 0"
    using assms(2,5) here same_msg_refl [of e] by (auto simp: delivery_inv_def pending_or_sent_def zero_multiset_def [symmetric])
  from delivery.reach_inv [OF assms(1) this] have "pending_or_sent rfc (t_id t, e) w"
    by (simp add: delivery_inv_def)
  then show ?thesis by (force simp: pending_or_sent_def entries_def)
qed

definition new_entry :: outbox_event where
  "new_entry = NewTicketOutboxEvent ''ev1'' 5 OutboxEventTypeTicketCreated (buildOutboxPayload (\<lambda>t. []) shop_ticket)"

definition listed :: ticket_world where
  "listed = shop\<lparr>tw_tickets := [shop_ticket\<lparr>t_outbox := [new_entry]\<rparr>]\<rparr>"

lemma outbox_entry_not_lost_witness:
  "tw_published listed = [] \<and>
   (let w = snd (run_alone (no_answer (processBatch (\<lambda>t. []) (\<lambda>i. Works) (\<lambda>i. Works) (\<lambda>i. ''tok'') 10 (\<lambda>i. 10) [])) listed)
    in (\<exists>t' \<in> set (tw_tickets w). t_id t' = ''t1'' \<and> (\<exists>e' \<in> set (t_outbox t'). same_msg new_entry e')) \<or>
       message_of (\<lambda>t. []) new_entry \<in> set (tw_published w))"
proof -
  let ?p = "no_answer (processBatch (\<lambda>t. []) (\<lambda>i. Works) (\<lambda>i. Works) (\<lambda>i. ''tok'') 10 (\<lambda>i. 10) [])"
  have "pool_reach (outbox_request {''ev1''} (\<lambda>t. [])) listed (snd (run_alone ?p listed), [Ret (fst (run_alone ?p listed))])"
    by (rule pool_request, rule pool_reach.init, rule outbox_request.relay)
  moreover have "unambiguous {''ev1''} listed" by (auto simp: unambiguous_def listed_def)
  ultimately show ?thesis
    using outbox_entry_not_lost [of "{''ev1''}" "\<lambda>t. []" listed _ _ "shop_ticket\<lparr>t_outbox := [new_entry]\<rparr>" new_entry]
    by (simp add: Let_def listed_def new_entry_def NewTicketOutboxEvent_def shop_ticket_def shop_def)
qed

text \<open>
  C36: The delay before the next attempt doubles from half a second and stays at 30 seconds, up to
  the 35th attempt; then the 64-bit product wraps around: the 36th delay is negative, and from the
  57th on there is none, so that entries that keep failing are retried without a pause.
\<close>

theorem backoff_delay_wraps:
  assumes "n \<le> 35 \<or> 57 \<le> n"
  shows "backoffDelay n =
      (if n \<le> 6 then 500000000 * 2 ^ nat (n - 1) else if n \<le> 35 then 30000000000 else 0) \<and>
    backoffDelay 36 = - 1266874889709551616"
proof -
  have "backoffDelay 36 = - 1266874889709551616" by code_simp
  moreover have "backoffDelay n = 0" if "57 \<le> n"
    using that backoff_zero [of "nat (n - 1)"] by (simp add: backoff_word)
  moreover have "backoffDelay n = (if n \<le> 6 then 500000000 * 2 ^ nat (n - 1) else 30000000000)" if "n \<le> 35"
  proof (cases "n \<le> 6")
    case True
    then have "nat (n - 1) \<le> 5" by simp
    then have "(2::int) ^ nat (n - 1) \<le> 2 ^ 5" by (intro power_increasing) simp_all
    then show ?thesis using True backoff_small [of "nat (n - 1)"] by (simp add: backoffDelay_def Let_def)
  next
    case False
    then have "6 \<le> nat (n - 1)" "nat (n - 1) < 35" using that by simp_all
    then have "(2::int) ^ 6 \<le> 2 ^ nat (n - 1)" by (intro power_increasing) simp_all
    then show ?thesis using False backoff_small [OF \<open>nat (n - 1) < 35\<close>] by (simp add: backoffDelay_def Let_def)
  qed
  ultimately show ?thesis using assms by auto
qed

lemma backoff_delay_wraps_witness: "backoffDelay 57 = 0 \<and> backoffDelay 7 = 30000000000"
  using backoff_delay_wraps [of 57] backoff_delay_wraps [of 7] by simp

end
