(* ===== verification/Attendance_Types.thy ===== *)
theory Attendance_Types
  imports Interleaving Go_Text
begin

text \<open>
  The data of attendance-service (\<^verbatim>\<open>internal/repository/repository.go\<close>): admission credentials, their
  transfers, the attendance policies, the log of scans and the outbox, as rows of the tables the
  migrations create, together with the topics its messages reach. Times are milliseconds; columns
  of type UUID are texts, and a text that is not a UUID is a statement that fails.
\<close>

section \<open>Rows\<close>

datatype credential_status =
    CredentialStatusIssued | CredentialStatusUsed | CredentialStatusRevoked | CredentialStatusExpired

datatype scan_mode = ScanModeQR | ScanModeManual

datatype scan_result =
    ScanAdmitted | ScanDenied | ScanAlreadyUsed | ScanInvalidToken | ScanPolicyBlock | ScanValidated

datatype transfer_state = TransferStateNone | TransferStatePending | TransferStateAccepted | TransferStateRecalled

record credential =
  cr_id :: string
  cr_ticket :: string
  cr_order :: string
  cr_buyer :: "string option"
  cr_event :: string
  cr_version :: int
  cr_token_id :: string
  cr_qr :: "string option"
  cr_key :: string
  cr_status :: credential_status
  cr_issued :: int
  cr_published :: "int option"
  cr_revoked :: "int option"
  cr_used_at :: "int option"
  cr_used_by :: "string option"
  cr_device :: "string option"
  cr_created :: int
  cr_updated :: int

record transfer =
  tf_id :: string
  tf_credential :: string
  tf_sender :: string
  tf_recipient :: "string option"
  tf_email :: string
  tf_state :: transfer_state
  tf_created :: int
  tf_accepted :: "int option"
  tf_recalled :: "int option"

text \<open>The payload of an issuance message, and its CloudEvents envelope.\<close>

record issued_data =
  qi_credential :: string
  qi_ticket :: string
  qi_event :: string
  qi_order :: string
  qi_issued :: int
  qi_token :: string

record cloud_event =
  ce_specversion :: string
  ce_type :: string
  ce_source :: string
  ce_id :: string
  ce_time :: int
  ce_content :: string
  ce_data :: issued_data

record cred_outbox =
  co_id :: string
  co_topic :: string
  co_payload :: cloud_event
  co_partition :: string
  co_published :: bool
  co_published_at :: "int option"
  co_created :: int

record attendance_policy =
  ap_id :: string
  ap_event :: string
  ap_ticket :: "string option"
  ap_organizer :: string
  ap_require_qr :: bool
  ap_allow_manual :: bool
  ap_created :: int
  ap_updated :: int

record scan_event =
  se_id :: string
  se_credential :: "string option"
  se_event :: string
  se_scanner :: string
  se_device :: string
  se_gate :: "string option"
  se_mode :: scan_mode
  se_result :: scan_result
  se_hash :: "string option"
  se_scanned :: int

record attendance_summary =
  as_event :: string
  as_admitted :: nat
  as_denied :: nat
  as_checked_in :: nat

text \<open>The message \<^verbatim>\<open>orders.order.completed\<close>.\<close>

record order_completed =
  oc_order :: string
  oc_user :: string
  oc_ticket :: string
  oc_reservation :: string
  oc_quantity :: int
  oc_version :: int
  oc_seats :: "string list"

text \<open>
  The tables, the messages on Kafka with their topics and partition keys, and the messages in the
  dead-letter topic, which are order messages or cannot be decoded.
\<close>

record attendance_db =
  ad_creds :: "credential list"
  ad_transfers :: "transfer list"
  ad_policies :: "attendance_policy list"
  ad_scans :: "scan_event list"
  ad_outbox :: "cred_outbox list"
  ad_topic :: "(string \<times> string \<times> cloud_event) list"
  ad_dlq :: "order_completed option list"

section \<open>Errors\<close>

datatype attendance_error =
    AttNotFound
  | AttDuplicate
  | AttForbidden
  | AttPolicyBlock
  | AttMalformed
  | AttCancelled
  | AttLookup
  | AttToken
  | AttStore

text \<open>
  An error of the database driver: of the driver the repository runs on, \<^verbatim>\<open>pgx/v5\<close>, or of the older
  \<^verbatim>\<open>github.com/jackc/pgconn\<close>, whose error type is another one. The code is the SQL state.
\<close>

datatype pg_error = PgxV5Error string | PgconnV1Error string

definition isUniqueViolation :: "pg_error \<Rightarrow> bool" where
  "isUniqueViolation err = (case err of PgconnV1Error code \<Rightarrow> code = ''23505'' | PgxV5Error code \<Rightarrow> False)"

text \<open>What PostgreSQL answers to an insert that violates a unique index, through \<^verbatim>\<open>pgx/v5\<close>.\<close>

definition unique_violation :: pg_error where
  "unique_violation = PgxV5Error ''23505''"

section \<open>Queries\<close>

text \<open>
  \<^verbatim>\<open>ORDER BY key DESC LIMIT 1\<close>; of equal keys the row inserted last. A query of one row answers the
  row, that there is none, or an error.
\<close>

definition latest :: "('r \<Rightarrow> int) \<Rightarrow> 'r list \<Rightarrow> 'r option" where
  "latest key rs = (if rs = [] then None else Some (last (sort_key key rs)))"

definition query_row ::
  "outcome \<Rightarrow> (attendance_db \<Rightarrow> 'r option) \<Rightarrow> (attendance_db, attendance_error + 'r) proc" where
  "query_row oc sel = call oc (reads sel) (\<lambda>r. Ret (case r of
     None \<Rightarrow> Inl AttStore | Some None \<Rightarrow> Inl AttNotFound | Some (Some c) \<Rightarrow> Inr c))"

text \<open>A statement or transaction with its own answer.\<close>

definition exec ::
  "outcome \<Rightarrow> (attendance_db \<Rightarrow> (attendance_error + 'r) \<times> attendance_db)
     \<Rightarrow> (attendance_db, attendance_error + 'r) proc" where
  "exec oc g = call oc g (\<lambda>r. Ret (case r of None \<Rightarrow> Inl AttStore | Some x \<Rightarrow> x))"

lemma latest_member: "latest key rs = Some r \<Longrightarrow> r \<in> set rs"
  by (cases "sort_key key rs = []")
    (auto simp: latest_def split: if_splits dest!: arg_cong [where f = set] last_in_set [of "sort_key key rs"])

lemma run_query_row [simp]:
  "run_alone (query_row oc sel) d =
     (if oc = Works then (case sel d of None \<Rightarrow> Inl AttNotFound | Some c \<Rightarrow> Inr c) else Inl AttStore, d)"
  by (cases oc) (auto simp: query_row_def split: option.split)

lemma run_exec [simp]:
  "run_alone (exec oc g) d =
     (case oc of Works \<Rightarrow> g d | Fails \<Rightarrow> (Inl AttStore, d) | AnswerLost \<Rightarrow> (Inl AttStore, snd (g d)))"
  by (cases oc) (auto simp: exec_def)

end
