(* ===== verification/Credential_Repo.thy ===== *)
theory Credential_Repo
  imports Attendance_Types
begin

text \<open>
  The PostgreSQL repositories of attendance-service: \<^verbatim>\<open>internal/repository/postgres/credential_repo.go\<close>,
  \<^verbatim>\<open>scan_repo.go\<close> and \<^verbatim>\<open>policy_repo.go\<close>. Each method is one statement or one transaction under row
  locks, so one atomic call; \<open>oc\<close> is what becomes of the call.
\<close>

section \<open>Credentials\<close>

definition Cred_FindByID :: "outcome \<Rightarrow> string \<Rightarrow> (attendance_db, attendance_error + credential) proc" where
  "Cred_FindByID oc cid = query_row oc (\<lambda>d. find_row cr_id cid (ad_creds d))"

definition Cred_FindByTicketID :: "outcome \<Rightarrow> string \<Rightarrow> (attendance_db, attendance_error + credential) proc" where
  "Cred_FindByTicketID oc tid = query_row oc (\<lambda>d. latest cr_issued (filter (\<lambda>c. cr_ticket c = tid) (ad_creds d)))"

definition Cred_FindByTicketAndBuyer ::
  "outcome \<Rightarrow> string \<Rightarrow> string \<Rightarrow> (attendance_db, attendance_error + credential) proc" where
  "Cred_FindByTicketAndBuyer oc tid uid =
     query_row oc (\<lambda>d. latest cr_issued (filter (\<lambda>c. cr_ticket c = tid \<and> cr_buyer c = Some uid) (ad_creds d)))"

definition Cred_FindByTicketAndOrder ::
  "outcome \<Rightarrow> string \<Rightarrow> string \<Rightarrow> (attendance_db, attendance_error + credential) proc" where
  "Cred_FindByTicketAndOrder oc tid oid =
     query_row oc (\<lambda>d. latest cr_issued (filter (\<lambda>c. cr_ticket c = tid \<and> cr_order c = oid) (ad_creds d)))"

definition Cred_FindByIssuanceKey ::
  "outcome \<Rightarrow> string \<Rightarrow> (attendance_db, attendance_error + credential) proc" where
  "Cred_FindByIssuanceKey oc key = query_row oc (\<lambda>d. find_row cr_key key (ad_creds d))"

text \<open>The columns an insert leaves out take their defaults.\<close>

definition inserted :: "int \<Rightarrow> credential \<Rightarrow> credential" where
  "inserted now c = c\<lparr>cr_published := None, cr_revoked := None, cr_used_at := None, cr_used_by := None,
     cr_device := None, cr_created := now, cr_updated := now\<rparr>"

definition insert_credential :: "int \<Rightarrow> credential \<Rightarrow> credential list \<Rightarrow> pg_error + credential list" where
  "insert_credential now c cs =
     (if cr_id c \<in> cr_id ` set cs \<or> cr_token_id c \<in> cr_token_id ` set cs \<or> cr_key c \<in> cr_key ` set cs
      then Inl unique_violation else Inr (cs @ [inserted now c]))"

definition create_credential ::
  "int \<Rightarrow> credential \<Rightarrow> attendance_db \<Rightarrow> (attendance_error + unit) \<times> attendance_db" where
  "create_credential now c d =
     (case insert_credential now c (ad_creds d) of
        Inl e \<Rightarrow> (Inl (if isUniqueViolation e then AttDuplicate else AttStore), d)
      | Inr cs \<Rightarrow> (Inr (), d\<lparr>ad_creds := cs\<rparr>))"

definition Cred_Create :: "outcome \<Rightarrow> int \<Rightarrow> credential \<Rightarrow> (attendance_db, attendance_error + unit) proc" where
  "Cred_Create oc now c = exec oc (create_credential now c)"

definition create_with_outbox ::
  "int \<Rightarrow> credential \<Rightarrow> cred_outbox \<Rightarrow> attendance_db \<Rightarrow> (attendance_error + unit) \<times> attendance_db" where
  "create_with_outbox now c ob d =
     (case create_credential now c d of
        (Inl e, d') \<Rightarrow> (Inl e, d)
      | (Inr u, d') \<Rightarrow>
          if co_id ob \<in> co_id ` set (ad_outbox d) then (Inl AttStore, d)
          else (Inr (), d'\<lparr>ad_outbox := ad_outbox d @
                  [ob\<lparr>co_published := False, co_published_at := None, co_created := now\<rparr>]\<rparr>))"

definition CreateWithOutbox ::
  "outcome \<Rightarrow> int \<Rightarrow> credential \<Rightarrow> cred_outbox \<Rightarrow> (attendance_db, attendance_error + unit) proc" where
  "CreateWithOutbox oc now c ob = exec oc (create_with_outbox now c ob)"

text \<open>An update of the credentials that must touch a row.\<close>

definition update_credential ::
  "string \<Rightarrow> (credential \<Rightarrow> credential) \<Rightarrow> attendance_db \<Rightarrow> (attendance_error + unit) \<times> attendance_db" where
  "update_credential cid g d =
     (if rows_affected (\<lambda>c. cr_id c = cid) (ad_creds d) = 0 then (Inl AttNotFound, d)
      else (Inr (), d\<lparr>ad_creds := sql_update (\<lambda>c. cr_id c = cid) g (ad_creds d)\<rparr>))"

definition Cred_UpdateStatus ::
  "outcome \<Rightarrow> int \<Rightarrow> string \<Rightarrow> credential_status \<Rightarrow> (attendance_db, attendance_error + unit) proc" where
  "Cred_UpdateStatus oc now cid st =
     exec oc (update_credential cid (\<lambda>c. c\<lparr>cr_status := st, cr_updated := now\<rparr>))"

definition MarkEventPublished ::
  "outcome \<Rightarrow> int \<Rightarrow> string \<Rightarrow> int \<Rightarrow> (attendance_db, attendance_error + unit) proc" where
  "MarkEventPublished oc now cid publishedAt =
     exec oc (update_credential cid (\<lambda>c. c\<lparr>cr_published := Some publishedAt, cr_updated := now\<rparr>))"

definition UpdateCredentialBuyer ::
  "outcome \<Rightarrow> int \<Rightarrow> string \<Rightarrow> string \<Rightarrow> (attendance_db, attendance_error + unit) proc" where
  "UpdateCredentialBuyer oc now cid uid =
     exec oc (update_credential cid (\<lambda>c. c\<lparr>cr_buyer := Some uid, cr_updated := now\<rparr>))"

text \<open>
  Consuming a credential: the row is locked, checked and marked in one transaction. Without rows
  affected the transaction would commit and the credential be read again.
\<close>

datatype consume_step = Unissued credential | Raced | Consumed credential

definition use_credential :: "int \<Rightarrow> int \<Rightarrow> string \<Rightarrow> string \<Rightarrow> credential \<Rightarrow> credential" where
  "use_credential now usedAt scanner device c = c\<lparr>cr_status := CredentialStatusUsed, cr_used_at := Some usedAt,
     cr_used_by := Some scanner, cr_device := Some device, cr_updated := now\<rparr>"

definition issued_row :: "string \<Rightarrow> credential \<Rightarrow> bool" where
  "issued_row cid c \<longleftrightarrow> cr_id c = cid \<and> cr_status c = CredentialStatusIssued"

definition consume_tx ::
  "int \<Rightarrow> int \<Rightarrow> string \<Rightarrow> string \<Rightarrow> string \<Rightarrow> attendance_db \<Rightarrow> (attendance_error + consume_step) \<times> attendance_db" where
  "consume_tx now usedAt scanner device cid d =
     (case find_row cr_id cid (ad_creds d) of
        None \<Rightarrow> (Inl AttNotFound, d)
      | Some c \<Rightarrow>
          if cr_status c \<noteq> CredentialStatusIssued then (Inr (Unissued c), d)
          else if rows_affected (issued_row cid) (ad_creds d) = 0 then (Inr Raced, d)
          else (Inr (Consumed (c\<lparr>cr_status := CredentialStatusUsed, cr_used_at := Some usedAt,
                                 cr_used_by := Some scanner, cr_device := Some device\<rparr>)),
                d\<lparr>ad_creds := sql_update (issued_row cid) (use_credential now usedAt scanner device) (ad_creds d)\<rparr>))"

definition ConsumeIssued ::
  "(nat \<Rightarrow> outcome) \<Rightarrow> nat \<Rightarrow> int \<Rightarrow> int \<Rightarrow> string \<Rightarrow> string \<Rightarrow> string
     \<Rightarrow> (attendance_db, attendance_error + credential \<times> bool) proc" where
  "ConsumeIssued f k now usedAt scanner device cid =
     bind_proc (exec (f k) (consume_tx now usedAt scanner device cid)) (\<lambda>r.
       case r of
         Inl e \<Rightarrow> Ret (Inl e)
       | Inr (Unissued c) \<Rightarrow> Ret (Inr (c, False))
       | Inr Raced \<Rightarrow> bind_proc (Cred_FindByID (f (k + 1)) cid)
                        (\<lambda>x. Ret (case x of Inl e \<Rightarrow> Inl e | Inr c \<Rightarrow> Inr (c, False)))
       | Inr (Consumed c) \<Rightarrow> Ret (Inr (c, True)))"

text \<open>\<^verbatim>\<open>ORDER BY used_at DESC, updated_at DESC\<close>; a used credential has a time of use.\<close>

definition ListCheckedInByEventID ::
  "outcome \<Rightarrow> string \<Rightarrow> int \<Rightarrow> (attendance_db, attendance_error + credential list) proc" where
  "ListCheckedInByEventID oc eid limit =
     query_row oc (\<lambda>d. Some (take (nat (if limit \<le> 0 then 50 else limit))
       (rev (sort_key (\<lambda>c. the (cr_used_at c)) (sort_key cr_updated
          (filter (\<lambda>c. cr_event c = eid \<and> cr_status c = CredentialStatusUsed) (ad_creds d)))))))"

section \<open>Transfers\<close>

definition insert_transfer :: "transfer \<Rightarrow> attendance_db \<Rightarrow> (attendance_error + unit) \<times> attendance_db" where
  "insert_transfer t d =
     (if tf_id t \<in> tf_id ` set (ad_transfers d) \<or> tf_credential t \<notin> cr_id ` set (ad_creds d) then (Inl AttStore, d)
      else (Inr (), d\<lparr>ad_transfers := ad_transfers d @ [t\<lparr>tf_accepted := None, tf_recalled := None\<rparr>]\<rparr>))"

definition CreateTransfer :: "outcome \<Rightarrow> transfer \<Rightarrow> (attendance_db, attendance_error + unit) proc" where
  "CreateTransfer oc t = exec oc (insert_transfer t)"

definition FindLatestTransferByCredentialID ::
  "outcome \<Rightarrow> string \<Rightarrow> (attendance_db, attendance_error + transfer) proc" where
  "FindLatestTransferByCredentialID oc cid =
     query_row oc (\<lambda>d. latest tf_created (filter (\<lambda>t. tf_credential t = cid) (ad_transfers d)))"

definition FindTransferByID :: "outcome \<Rightarrow> string \<Rightarrow> (attendance_db, attendance_error + transfer) proc" where
  "FindTransferByID oc tid = query_row oc (\<lambda>d. find_row tf_id tid (ad_transfers d))"

definition accepted_transfer :: "string \<Rightarrow> int \<Rightarrow> transfer \<Rightarrow> transfer" where
  "accepted_transfer uid acceptedAt t =
     t\<lparr>tf_state := TransferStateAccepted, tf_recipient := Some uid, tf_accepted := Some acceptedAt\<rparr>"

definition accept_tx ::
  "int \<Rightarrow> string \<Rightarrow> string \<Rightarrow> int \<Rightarrow> attendance_db \<Rightarrow> (attendance_error + transfer) \<times> attendance_db" where
  "accept_tx now tid uid acceptedAt d =
     (case find_row tf_id tid (ad_transfers d) of
        None \<Rightarrow> (Inl AttNotFound, d)
      | Some t \<Rightarrow>
          if tf_state t \<noteq> TransferStatePending then (Inl AttNotFound, d)
          else (Inr (accepted_transfer uid acceptedAt t),
                d\<lparr>ad_transfers := sql_update (\<lambda>x. tf_id x = tid) (accepted_transfer uid acceptedAt) (ad_transfers d),
                  ad_creds := sql_update (\<lambda>c. cr_id c = tf_credential t)
                                (\<lambda>c. c\<lparr>cr_buyer := Some uid, cr_updated := now\<rparr>) (ad_creds d)\<rparr>))"

definition Repo_AcceptTransfer ::
  "outcome \<Rightarrow> int \<Rightarrow> string \<Rightarrow> string \<Rightarrow> int \<Rightarrow> (attendance_db, attendance_error + transfer) proc" where
  "Repo_AcceptTransfer oc now tid uid acceptedAt = exec oc (accept_tx now tid uid acceptedAt)"

definition recallable :: "string \<Rightarrow> string \<Rightarrow> transfer \<Rightarrow> bool" where
  "recallable cid sender t \<longleftrightarrow>
     tf_credential t = cid \<and> tf_sender t = sender \<and> tf_state t = TransferStatePending"

text \<open>One statement recalls every pending transfer of the credential; the first row is returned.\<close>

definition recall_tx ::
  "string \<Rightarrow> string \<Rightarrow> int \<Rightarrow> attendance_db \<Rightarrow> (attendance_error + transfer) \<times> attendance_db" where
  "recall_tx cid sender recalledAt d =
     (let g = (\<lambda>t. t\<lparr>tf_state := TransferStateRecalled, tf_recalled := Some recalledAt\<rparr>) in
      (case filter (recallable cid sender) (ad_transfers d) of [] \<Rightarrow> Inl AttNotFound | t # ts \<Rightarrow> Inr (g t),
       d\<lparr>ad_transfers := sql_update (recallable cid sender) g (ad_transfers d)\<rparr>))"

definition Repo_RecallTransfer ::
  "outcome \<Rightarrow> string \<Rightarrow> string \<Rightarrow> int \<Rightarrow> (attendance_db, attendance_error + transfer) proc" where
  "Repo_RecallTransfer oc cid sender recalledAt = exec oc (recall_tx cid sender recalledAt)"

section \<open>The outbox\<close>

definition unpublished :: "nat \<Rightarrow> cred_outbox list \<Rightarrow> cred_outbox list" where
  "unpublished limit os = take limit (sort_key co_created (filter (\<lambda>x. \<not> co_published x) os))"

definition row_limit :: "int \<Rightarrow> nat" where
  "row_limit limit = nat (if limit \<le> 0 then 100 else limit)"

definition ListUnpublished :: "outcome \<Rightarrow> int \<Rightarrow> (attendance_db, attendance_error + cred_outbox list) proc" where
  "ListUnpublished oc limit = query_row oc (\<lambda>d. Some (unpublished (row_limit limit) (ad_outbox d)))"

text \<open>\<open>locked\<close> are the rows another transaction holds, which \<^verbatim>\<open>SKIP LOCKED\<close> leaves out.\<close>

definition ListUnpublishedTx ::
  "outcome \<Rightarrow> (string \<Rightarrow> bool) \<Rightarrow> int \<Rightarrow> (attendance_db, attendance_error + cred_outbox list) proc" where
  "ListUnpublishedTx oc locked limit =
     query_row oc (\<lambda>d. Some (unpublished (row_limit limit) (filter (\<lambda>x. \<not> locked (co_id x)) (ad_outbox d))))"

text \<open>
  A mark inside the relay's transaction: \<open>marks\<close> are the marks it made before, which it sees and nobody
  else does until the commit writes them.
\<close>

definition pending_mark :: "(string \<times> int) list \<Rightarrow> string \<Rightarrow> cred_outbox \<Rightarrow> bool" where
  "pending_mark marks oid x \<longleftrightarrow> co_id x = oid \<and> \<not> co_published x \<and> oid \<notin> fst ` set marks"

definition MarkPublishedTx ::
  "outcome \<Rightarrow> (string \<times> int) list \<Rightarrow> string \<Rightarrow> int \<Rightarrow> (attendance_db, attendance_error + (string \<times> int) list) proc" where
  "MarkPublishedTx oc marks oid publishedAt =
     query_row oc (\<lambda>d. if rows_affected (pending_mark marks oid) (ad_outbox d) = 0 then None
                       else Some (marks @ [(oid, publishedAt)]))"

definition commit_marks :: "(string \<times> int) list \<Rightarrow> attendance_db \<Rightarrow> (attendance_error + unit) \<times> attendance_db" where
  "commit_marks marks d = (Inr (), d\<lparr>ad_outbox := sql_update (\<lambda>x. co_id x \<in> fst ` set marks \<and> \<not> co_published x)
     (\<lambda>x. x\<lparr>co_published := True, co_published_at := map_of marks (co_id x)\<rparr>) (ad_outbox d)\<rparr>)"

definition mark_published :: "int \<Rightarrow> string \<Rightarrow> int \<Rightarrow> attendance_db \<Rightarrow> (attendance_error + unit) \<times> attendance_db" where
  "mark_published now oid publishedAt d =
     (if rows_affected (\<lambda>x. co_id x = oid \<and> \<not> co_published x) (ad_outbox d) = 0 then (Inl AttNotFound, d)
      else let (r, d') = update_credential oid (\<lambda>c. c\<lparr>cr_published := Some publishedAt, cr_updated := now\<rparr>) d in
        (case r of
           Inl e \<Rightarrow> (Inl e, d)
         | Inr u \<Rightarrow> (Inr (), d'\<lparr>ad_outbox := sql_update (\<lambda>x. co_id x = oid \<and> \<not> co_published x)
                                 (\<lambda>x. x\<lparr>co_published := True\<rparr>) (ad_outbox d)\<rparr>)))"

definition MarkPublished :: "outcome \<Rightarrow> int \<Rightarrow> string \<Rightarrow> int \<Rightarrow> (attendance_db, attendance_error + unit) proc" where
  "MarkPublished oc now oid publishedAt = exec oc (mark_published now oid publishedAt)"

definition deletable :: "int \<Rightarrow> nat \<Rightarrow> cred_outbox list \<Rightarrow> cred_outbox list" where
  "deletable before limit os = take limit (sort_key co_created (filter (\<lambda>x. co_published x \<and> co_created x < before) os))"

definition delete_published ::
  "int \<Rightarrow> nat \<Rightarrow> attendance_db \<Rightarrow> (attendance_error + nat) \<times> attendance_db" where
  "delete_published before limit d =
     (let gone = co_id ` set (deletable before limit (ad_outbox d)) in
      (Inr (length (filter (\<lambda>x. co_id x \<in> gone) (ad_outbox d))),
       d\<lparr>ad_outbox := filter (\<lambda>x. co_id x \<notin> gone) (ad_outbox d)\<rparr>))"

definition DeletePublishedBefore :: "outcome \<Rightarrow> int \<Rightarrow> int \<Rightarrow> (attendance_db, attendance_error + nat) proc" where
  "DeletePublishedBefore oc before limit = exec oc (delete_published before (row_limit limit))"

section \<open>Policies and scans\<close>

definition Policy_FindByEventID :: "outcome \<Rightarrow> string \<Rightarrow> (attendance_db, attendance_error + attendance_policy) proc" where
  "Policy_FindByEventID oc eid =
     query_row oc (\<lambda>d. List.find (\<lambda>p. ap_event p = eid \<and> ap_ticket p = None) (ad_policies d))"

text \<open>The unique index on event and ticket does not compare rows without a ticket.\<close>

definition upsert_policy :: "int \<Rightarrow> attendance_policy \<Rightarrow> attendance_db \<Rightarrow> (attendance_error + unit) \<times> attendance_db" where
  "upsert_policy now p d =
     (if ap_id p \<in> ap_id ` set (ad_policies d)
      then (Inr (), d\<lparr>ad_policies := sql_update (\<lambda>x. ap_id x = ap_id p)
              (\<lambda>x. x\<lparr>ap_require_qr := ap_require_qr p, ap_allow_manual := ap_allow_manual p, ap_updated := now\<rparr>)
              (ad_policies d)\<rparr>)
      else if ap_ticket p \<noteq> None \<and> (\<exists>x \<in> set (ad_policies d). ap_event x = ap_event p \<and> ap_ticket x = ap_ticket p)
      then (Inl AttStore, d)
      else (Inr (), d\<lparr>ad_policies := ad_policies d @ [p\<lparr>ap_created := now, ap_updated := now\<rparr>]\<rparr>))"

definition Policy_Upsert :: "outcome \<Rightarrow> int \<Rightarrow> attendance_policy \<Rightarrow> (attendance_db, attendance_error + unit) proc" where
  "Policy_Upsert oc now p = exec oc (upsert_policy now p)"

definition insert_scan :: "scan_event \<Rightarrow> attendance_db \<Rightarrow> (attendance_error + unit) \<times> attendance_db" where
  "insert_scan s d = (if se_id s \<in> se_id ` set (ad_scans d) then (Inl AttStore, d)
                      else (Inr (), d\<lparr>ad_scans := ad_scans d @ [s]\<rparr>))"

definition Scan_Create :: "outcome \<Rightarrow> scan_event \<Rightarrow> (attendance_db, attendance_error + unit) proc" where
  "Scan_Create oc s = exec oc (insert_scan s)"

definition summarize :: "string \<Rightarrow> scan_event list \<Rightarrow> attendance_summary" where
  "summarize eid ss =
     (let rs = map se_result (filter (\<lambda>s. se_event s = eid) ss); admitted = length (filter (\<lambda>r. r = ScanAdmitted) rs) in
      \<lparr>as_event = eid, as_admitted = admitted,
       as_denied = length (filter (\<lambda>r. r \<in> {ScanDenied, ScanPolicyBlock, ScanInvalidToken}) rs),
       as_checked_in = admitted\<rparr>)"

definition SummarizeByEventID :: "outcome \<Rightarrow> string \<Rightarrow> (attendance_db, attendance_error + attendance_summary) proc" where
  "SummarizeByEventID oc eid = query_row oc (\<lambda>d. Some (summarize eid (ad_scans d)))"

section \<open>Updates leave the keys alone\<close>

interpretation passing: keyed_update cr_id "\<lambda>c. c\<lparr>cr_buyer := Some uid, cr_updated := now\<rparr>" for uid now
  by unfold_locales simp

interpretation using_up: keyed_update cr_id "use_credential now usedAt scanner device" for now usedAt scanner device
  by unfold_locales (simp add: use_credential_def)

interpretation accepting: keyed_update tf_id "accepted_transfer uid acceptedAt" for uid acceptedAt
  by unfold_locales (simp add: accepted_transfer_def)

end
