(* ===== verification/Qr_Token.thy ===== *)
theory Qr_Token
  imports Main
begin

text \<open>
  The signed tokens of attendance-service (\<^verbatim>\<open>internal/qr/token.go\<close>). The signature HMAC-SHA256 under the
  service's key, the base64url and JSON codecs and the hash of a raw token are parameters, a record
  of functions; the laws of base64 and JSON the round trip needs are hypotheses.
\<close>

section \<open>Claims and errors\<close>

record claims =
  cl_v :: int
  cl_credential :: string
  cl_ticket :: string
  cl_event :: string
  cl_version :: int
  cl_issued :: int
  cl_expires :: int

datatype token_error = ErrTokenInvalid | ErrTokenExpired | ErrTokenMalformed

record token_codec =
  tc_sign :: "string \<Rightarrow> string"
  tc_encode :: "string \<Rightarrow> string"
  tc_decode :: "string \<Rightarrow> string option"
  tc_marshal :: "claims \<Rightarrow> string option"
  tc_unmarshal :: "string \<Rightarrow> claims option"
  tc_hash :: "string \<Rightarrow> string"

section \<open>Generating and verifying\<close>

definition dot :: char where "dot = CHR ''.''"

definition Generate :: "token_codec \<Rightarrow> claims \<Rightarrow> string option" where
  "Generate tc cl =
     (case tc_marshal tc cl of
        None \<Rightarrow> None
      | Some payload \<Rightarrow> (let p = tc_encode tc payload in Some (p @ dot # tc_encode tc (tc_sign tc p))))"

definition Verify :: "token_codec \<Rightarrow> int \<Rightarrow> string \<Rightarrow> token_error + claims" where
  "Verify tc now token =
     (let p = takeWhile (\<lambda>c. c \<noteq> dot) token; rest = dropWhile (\<lambda>c. c \<noteq> dot) token in
      if rest = [] then Inl ErrTokenMalformed
      else case tc_decode tc (tl rest) of
        None \<Rightarrow> Inl ErrTokenMalformed
      | Some sig \<Rightarrow>
          if sig \<noteq> tc_sign tc p then Inl ErrTokenInvalid
          else case tc_decode tc p of
            None \<Rightarrow> Inl ErrTokenMalformed
          | Some payload \<Rightarrow>
              (case tc_unmarshal tc payload of
                 None \<Rightarrow> Inl ErrTokenMalformed
               | Some cl \<Rightarrow> if cl_expires cl < now then Inl ErrTokenExpired else Inr cl))"

section \<open>Tokens are read back\<close>

text \<open>What the documentation of the two codecs says.\<close>

definition codec_laws :: "token_codec \<Rightarrow> bool" where
  "codec_laws tc \<longleftrightarrow> (\<forall>x. tc_decode tc (tc_encode tc x) = Some x \<and> dot \<notin> set (tc_encode tc x)) \<and>
     (\<forall>cl p. tc_marshal tc cl = Some p \<longrightarrow> tc_unmarshal tc p = Some cl)"

lemma split_at_dot:
  "dot \<notin> set p \<Longrightarrow> takeWhile (\<lambda>c. c \<noteq> dot) (p @ dot # s) = p \<and> dropWhile (\<lambda>c. c \<noteq> dot) (p @ dot # s) = dot # s"
  by (induction p) auto

text \<open>A token of the service is accepted with its own claims until it expires.\<close>

lemma Verify_Generate:
  assumes "codec_laws tc" "Generate tc cl = Some token"
  shows "Verify tc now token = (if cl_expires cl < now then Inl ErrTokenExpired else Inr cl)"
proof -
  obtain payload where p: "tc_marshal tc cl = Some payload"
    using assms(2) by (auto simp: Generate_def split: option.splits)
  let ?p = "tc_encode tc payload"
  have laws: "tc_decode tc (tc_encode tc x) = Some x" "dot \<notin> set (tc_encode tc x)" "tc_unmarshal tc payload = Some cl" for x
    using assms(1) p by (auto simp: codec_laws_def)
  have token: "token = ?p @ dot # tc_encode tc (tc_sign tc ?p)"
    using assms(2) p by (simp add: Generate_def Let_def)
  note split = split_at_dot [OF laws(2), of payload "tc_encode tc (tc_sign tc ?p)"]
  show ?thesis unfolding Verify_def token using split laws(1,3) by simp
qed

text \<open>Whatever is accepted carries a signature of its own payload, and has not expired.\<close>

lemma Verify_signed:
  assumes "Verify tc now token = Inr cl"
  shows "\<exists>p s payload. token = p @ dot # s \<and> tc_decode tc s = Some (tc_sign tc p) \<and> tc_decode tc p = Some payload \<and>
    tc_unmarshal tc payload = Some cl \<and> now \<le> cl_expires cl"
proof -
  define p r where "p = takeWhile (\<lambda>c. c \<noteq> dot) token" and "r = dropWhile (\<lambda>c. c \<noteq> dot) token"
  have v: "Verify tc now token = (if r = [] then Inl ErrTokenMalformed
      else case tc_decode tc (tl r) of None \<Rightarrow> Inl ErrTokenMalformed
      | Some sig \<Rightarrow> if sig \<noteq> tc_sign tc p then Inl ErrTokenInvalid
          else case tc_decode tc p of None \<Rightarrow> Inl ErrTokenMalformed
          | Some payload \<Rightarrow> (case tc_unmarshal tc payload of None \<Rightarrow> Inl ErrTokenMalformed
               | Some cl \<Rightarrow> if cl_expires cl < now then Inl ErrTokenExpired else Inr cl))"
    unfolding Verify_def Let_def p_def r_def by (rule refl)
  have r: "r \<noteq> []" using assms v by auto
  then have "hd r = dot" unfolding r_def by (metis (mono_tags, lifting) hd_dropWhile)
  then have "r = dot # tl r" using r by (metis list.collapse)
  then have "token = p @ dot # tl r" by (metis p_def r_def takeWhile_dropWhile_id)
  moreover have "\<exists>payload. tc_decode tc (tl r) = Some (tc_sign tc p) \<and> tc_decode tc p = Some payload \<and>
      tc_unmarshal tc payload = Some cl \<and> now \<le> cl_expires cl"
    using assms [unfolded v] r by (auto split: option.splits if_splits)
  ultimately show ?thesis by blast
qed

end
