(* ===== verification/Scan_Service.thy ===== *)
theory Scan_Service
  imports Credential_Repo Qr_Token
begin

text \<open>
  Admission at the gate (\<^verbatim>\<open>internal/service/scan_service.go\<close>): a token is validated, or checked in and its
  credential used up, or a buyer is checked in without a token. Every attempt leaves a row in the
  log of scans, whose failure is ignored. \<open>f\<close> gives the outcome of the calls, \<open>clock\<close> the readings of
  the clock, \<open>sid\<close> is the fresh identifier of the row.
\<close>

section \<open>Outcomes and the log\<close>

datatype scan_class =
    ScanResultValid | ScanResultAlreadyUsed | ScanResultRevoked | ScanResultInvalidSignature
  | ScanResultWrongEvent | ScanResultNotFound | ScanResultPolicyBlock

fun class_text :: "scan_class \<Rightarrow> string" where
  "class_text ScanResultValid = ''valid''"
| "class_text ScanResultAlreadyUsed = ''already_used''"
| "class_text ScanResultRevoked = ''revoked''"
| "class_text ScanResultInvalidSignature = ''invalid_signature''"
| "class_text ScanResultWrongEvent = ''wrong_event''"
| "class_text ScanResultNotFound = ''not_found''"
| "class_text ScanResultPolicyBlock = ''policy_block''"

record scan_outcome =
  so_result :: scan_class
  so_credential :: string
  so_event :: string
  so_status :: "credential_status option"

record scanner =
  sn_user :: string
  sn_device :: string
  sn_gate :: "string option"

definition uuid_nil :: string where
  "uuid_nil = ''00000000-0000-0000-0000-000000000000''"

definition recordScan ::
  "token_codec \<Rightarrow> outcome \<Rightarrow> int \<Rightarrow> string \<Rightarrow> scanner \<Rightarrow> claims option \<Rightarrow> string \<Rightarrow> scan_result
     \<Rightarrow> (attendance_db, attendance_error + unit) proc" where
  "recordScan tc oc now sid sn cl rawToken result =
     (let eid = (case cl of None \<Rightarrow> [] | Some c \<Rightarrow> cl_event c) in
      Scan_Create oc
       \<lparr>se_id = sid,
        se_credential = (case cl of None \<Rightarrow> None | Some c \<Rightarrow> if cl_credential c = [] then None else Some (cl_credential c)),
        se_event = (if eid = [] then uuid_nil else eid), se_scanner = sn_user sn, se_device = sn_device sn,
        se_gate = sn_gate sn, se_mode = ScanModeQR, se_result = result, se_hash = Some (tc_hash tc rawToken),
        se_scanned = now\<rparr>)"

definition recordManualScan ::
  "outcome \<Rightarrow> int \<Rightarrow> string \<Rightarrow> scanner \<Rightarrow> string \<Rightarrow> string \<Rightarrow> scan_result
     \<Rightarrow> (attendance_db, attendance_error + unit) proc" where
  "recordManualScan oc now sid sn cid eid result =
     Scan_Create oc
       \<lparr>se_id = sid, se_credential = (if cid = [] then None else Some cid),
        se_event = (if eid = [] then uuid_nil else eid), se_scanner = sn_user sn, se_device = sn_device sn,
        se_gate = sn_gate sn, se_mode = ScanModeManual, se_result = result, se_hash = None, se_scanned = now\<rparr>"

section \<open>The end of a scan\<close>

text \<open>The row is written, whatever that answers, and the outcome returned.\<close>

definition finish_scan ::
  "(scan_result \<Rightarrow> (attendance_db, attendance_error + unit) proc) \<Rightarrow> scan_outcome \<Rightarrow> scan_result
     \<Rightarrow> (attendance_db, attendance_error + scan_outcome) proc" where
  "finish_scan log outc res = bind_proc (log res) (\<lambda>u. Ret (Inr outc))"

definition cred_outcome :: "scan_class \<Rightarrow> credential \<Rightarrow> scan_outcome" where
  "cred_outcome r c = \<lparr>so_result = r, so_credential = cr_id c, so_event = cr_event c, so_status = Some (cr_status c)\<rparr>"

definition claims_outcome :: "scan_class \<Rightarrow> claims \<Rightarrow> scan_outcome" where
  "claims_outcome r cl = \<lparr>so_result = r, so_credential = cl_credential cl, so_event = cl_event cl, so_status = None\<rparr>"

definition bare_outcome :: "scan_class \<Rightarrow> string \<Rightarrow> scan_outcome" where
  "bare_outcome r eid = \<lparr>so_result = r, so_credential = [], so_event = eid, so_status = None\<rparr>"

text \<open>Using up the credential that was read; somebody else may have been faster.\<close>

definition consume_and_log ::
  "(nat \<Rightarrow> outcome) \<Rightarrow> nat \<Rightarrow> int \<Rightarrow> scanner \<Rightarrow> (scan_result \<Rightarrow> (attendance_db, attendance_error + unit) proc)
     \<Rightarrow> string \<Rightarrow> (attendance_db, attendance_error + scan_outcome) proc" where
  "consume_and_log f k now sn log cid =
     bind_proc (ConsumeIssued f k now now (sn_user sn) (sn_device sn) cid) (\<lambda>r.
       case r of
         Inl e \<Rightarrow> Ret (Inl e)
       | Inr (c, True) \<Rightarrow> finish_scan log (cred_outcome ScanResultValid c) ScanAdmitted
       | Inr (c, False) \<Rightarrow> finish_scan log (cred_outcome ScanResultAlreadyUsed c) ScanAlreadyUsed)"

section \<open>Scanning a token\<close>

definition judge_credential ::
  "(nat \<Rightarrow> outcome) \<Rightarrow> nat \<Rightarrow> int \<Rightarrow> scanner \<Rightarrow> (scan_result \<Rightarrow> (attendance_db, attendance_error + unit) proc)
     \<Rightarrow> bool \<Rightarrow> claims \<Rightarrow> credential \<Rightarrow> (attendance_db, attendance_error + scan_outcome) proc" where
  "judge_credential f k now sn log consume cl c =
     (if cr_version c \<noteq> cl_version cl
      then finish_scan log (cred_outcome ScanResultInvalidSignature c) ScanInvalidToken
      else case cr_status c of
        CredentialStatusRevoked \<Rightarrow> finish_scan log (cred_outcome ScanResultRevoked c) ScanDenied
      | CredentialStatusExpired \<Rightarrow> finish_scan log (cred_outcome ScanResultRevoked c) ScanDenied
      | CredentialStatusUsed \<Rightarrow> finish_scan log (cred_outcome ScanResultAlreadyUsed c) ScanAlreadyUsed
      | CredentialStatusIssued \<Rightarrow>
          if \<not> consume then finish_scan log (cred_outcome ScanResultValid c) ScanValidated
          else consume_and_log f k now sn log (cr_id c))"

definition evaluate ::
  "token_codec \<Rightarrow> (nat \<Rightarrow> outcome) \<Rightarrow> nat \<Rightarrow> (nat \<Rightarrow> int) \<Rightarrow> string \<Rightarrow> scanner \<Rightarrow> string \<Rightarrow> string \<Rightarrow> bool
     \<Rightarrow> (attendance_db, attendance_error + scan_outcome) proc" where
  "evaluate tc f k clock sid sn token eventID consume =
     (let log = (\<lambda>cl. recordScan tc (f (k + 3)) (clock 2) sid sn cl token) in
      case Verify tc (clock 0) token of
        Inl e \<Rightarrow> finish_scan (log None) (bare_outcome ScanResultInvalidSignature []) ScanInvalidToken
      | Inr cl \<Rightarrow>
          if eventID \<noteq> [] \<and> cl_event cl \<noteq> eventID
          then finish_scan (log (Some cl)) (claims_outcome ScanResultWrongEvent cl) ScanDenied
          else bind_proc (Cred_FindByID (f k) (cl_credential cl)) (\<lambda>r.
            case r of
              Inl AttNotFound \<Rightarrow> finish_scan (log (Some cl)) (claims_outcome ScanResultNotFound cl) ScanInvalidToken
            | Inl e \<Rightarrow> Ret (Inl e)
            | Inr c \<Rightarrow> judge_credential f (k + 1) (clock 1) sn (log (Some cl)) consume cl c))"

definition Validate ::
  "token_codec \<Rightarrow> (nat \<Rightarrow> outcome) \<Rightarrow> nat \<Rightarrow> (nat \<Rightarrow> int) \<Rightarrow> string \<Rightarrow> scanner \<Rightarrow> string \<Rightarrow> string
     \<Rightarrow> (attendance_db, attendance_error + scan_outcome) proc" where
  "Validate tc f k clock sid sn token eventID = evaluate tc f k clock sid sn token eventID False"

definition CheckIn ::
  "token_codec \<Rightarrow> (nat \<Rightarrow> outcome) \<Rightarrow> nat \<Rightarrow> (nat \<Rightarrow> int) \<Rightarrow> string \<Rightarrow> scanner \<Rightarrow> string \<Rightarrow> string
     \<Rightarrow> (attendance_db, attendance_error + scan_outcome) proc" where
  "CheckIn tc f k clock sid sn token eventID = evaluate tc f k clock sid sn token eventID True"

section \<open>Checking in a buyer\<close>

text \<open>
  The outcome that accompanies the policy error is dropped: every caller looks at the error first.
\<close>

definition CheckInByBuyer ::
  "(nat \<Rightarrow> outcome) \<Rightarrow> nat \<Rightarrow> (nat \<Rightarrow> int) \<Rightarrow> string \<Rightarrow> scanner \<Rightarrow> string \<Rightarrow> string \<Rightarrow> attendance_policy option
     \<Rightarrow> (attendance_db, attendance_error + scan_outcome) proc" where
  "CheckInByBuyer f k clock sid sn eventID buyer policy =
     (let log = recordManualScan (f (k + 3)) (clock 1) sid sn in
      if (case policy of None \<Rightarrow> True | Some p \<Rightarrow> \<not> ap_allow_manual p)
      then bind_proc (log [] eventID ScanPolicyBlock) (\<lambda>u. Ret (Inl AttPolicyBlock))
      else bind_proc (Cred_FindByTicketAndBuyer (f k) eventID buyer) (\<lambda>r.
        case r of
          Inl AttNotFound \<Rightarrow> finish_scan (log [] eventID) (bare_outcome ScanResultNotFound eventID) ScanInvalidToken
        | Inl e \<Rightarrow> Ret (Inl e)
        | Inr c \<Rightarrow>
            (case cr_status c of
               CredentialStatusRevoked \<Rightarrow> finish_scan (log (cr_id c) (cr_event c)) (cred_outcome ScanResultRevoked c) ScanDenied
             | CredentialStatusExpired \<Rightarrow> finish_scan (log (cr_id c) (cr_event c)) (cred_outcome ScanResultRevoked c) ScanDenied
             | CredentialStatusUsed \<Rightarrow>
                 finish_scan (log (cr_id c) (cr_event c)) (cred_outcome ScanResultAlreadyUsed c) ScanAlreadyUsed
             | CredentialStatusIssued \<Rightarrow>
                 consume_and_log f (k + 1) (clock 0) sn (log (cr_id c) (cr_event c)) (cr_id c))))"

end
