(* ===== verification/Issuance.thy ===== *)
theory Issuance
  imports Scan_Service
begin

text \<open>
  Issuing credentials for completed orders (\<^verbatim>\<open>internal/service/issuance.go\<close>, \<^verbatim>\<open>internal/kafka/consumer.go\<close>),
  the relay of their messages to Kafka (\<^verbatim>\<open>outbox_relay.go\<close>) and the purge of the outbox
  (\<^verbatim>\<open>outbox_cleanup.go\<close>). \<open>f\<close> gives the outcomes of the calls, \<open>ids\<close> the fresh identifiers of the credential
  and of its token and \<open>clock\<close> the time, all by the number of the call.
\<close>

section \<open>Admission units\<close>

definition TopicAttendanceQRIssued :: string where
  "TopicAttendanceQRIssued = ''attendance.qr.issued''"

text \<open>The issuance keys of an order: one for each seat, or one for each unit of the quantity.\<close>

definition admissionUnits :: "order_completed \<Rightarrow> string list" where
  "admissionUnits data =
     (if oc_seats data \<noteq> [] then map (\<lambda>s. oc_order data @ '':seat:'' @ s) (oc_seats data)
      else if oc_quantity data < 1 then []
      else map (\<lambda>i. oc_order data @ '':unit:'' @ show_nat i) [0..<nat (oc_quantity data)])"

definition malformed_order :: "order_completed \<Rightarrow> bool" where
  "malformed_order data \<longleftrightarrow>
     (let seats = map TrimSpace (oc_seats data) in
      oc_order data = [] \<or> oc_ticket data = [] \<or> TrimSpace (oc_user data) = [] \<or>
      [] \<in> set seats \<or> \<not> distinct seats \<or> (oc_seats data = [] \<and> oc_quantity data < 1))"

definition normal_order :: "order_completed \<Rightarrow> order_completed" where
  "normal_order data = data\<lparr>oc_seats := map TrimSpace (oc_seats data)\<rparr>"

section \<open>One credential\<close>

definition issued_claims :: "string \<Rightarrow> int \<Rightarrow> int \<Rightarrow> order_completed \<Rightarrow> string \<Rightarrow> claims" where
  "issued_claims cid now ttl data eventID =
     \<lparr>cl_v = 1, cl_credential = cid, cl_ticket = oc_ticket data, cl_event = eventID, cl_version = 1,
      cl_issued = now, cl_expires = now + ttl\<rparr>"

definition new_credential ::
  "string \<Rightarrow> string \<Rightarrow> int \<Rightarrow> order_completed \<Rightarrow> string \<Rightarrow> string \<Rightarrow> string \<Rightarrow> credential" where
  "new_credential cid tid now data eventID key token =
     \<lparr>cr_id = cid, cr_ticket = oc_ticket data, cr_order = oc_order data, cr_buyer = Some (oc_user data),
      cr_event = eventID, cr_version = 1, cr_token_id = tid, cr_qr = Some token, cr_key = key,
      cr_status = CredentialStatusIssued, cr_issued = now, cr_published = None, cr_revoked = None,
      cr_used_at = None, cr_used_by = None, cr_device = None, cr_created = 0, cr_updated = 0\<rparr>"

definition buildIssuanceEventPayload :: "credential \<Rightarrow> string \<Rightarrow> cloud_event" where
  "buildIssuanceEventPayload c qrToken =
     \<lparr>ce_specversion = ''1.0'', ce_type = TopicAttendanceQRIssued, ce_source = ''attendance-service'',
      ce_id = cr_id c, ce_time = cr_issued c, ce_content = ''application/json'',
      ce_data = \<lparr>qi_credential = cr_id c, qi_ticket = cr_ticket c, qi_event = cr_event c, qi_order = cr_order c,
                 qi_issued = cr_issued c, qi_token = qrToken\<rparr>\<rparr>"

definition issuance_row :: "credential \<Rightarrow> string \<Rightarrow> cred_outbox" where
  "issuance_row c token =
     \<lparr>co_id = cr_id c, co_topic = TopicAttendanceQRIssued, co_payload = buildIssuanceEventPayload c token,
      co_partition = cr_id c, co_published = False, co_published_at = None, co_created = 0\<rparr>"

definition store_credential ::
  "(nat \<Rightarrow> outcome) \<Rightarrow> nat \<Rightarrow> int \<Rightarrow> credential \<Rightarrow> string \<Rightarrow> (attendance_db, attendance_error + unit) proc" where
  "store_credential f k now c token =
     bind_proc (CreateWithOutbox (f k) now c (issuance_row c token)) (\<lambda>r.
       if r = Inl AttDuplicate
       then bind_proc (Cred_FindByIssuanceKey (f (k + 1)) (cr_key c))
              (\<lambda>x. Ret (case x of Inl e \<Rightarrow> Inl e | Inr c' \<Rightarrow> Inr ()))
       else Ret r)"

definition issueOne ::
  "token_codec \<Rightarrow> int \<Rightarrow> (nat \<Rightarrow> outcome) \<Rightarrow> nat \<Rightarrow> (nat \<Rightarrow> string \<times> string) \<Rightarrow> (nat \<Rightarrow> int) \<Rightarrow> order_completed
     \<Rightarrow> string \<Rightarrow> string \<Rightarrow> (attendance_db, attendance_error + unit) proc" where
  "issueOne tc ttl f k ids clock data eventID key =
     bind_proc (Cred_FindByIssuanceKey (f k) key) (\<lambda>r.
       case r of
         Inr c \<Rightarrow> Ret (Inr ())
       | Inl e \<Rightarrow>
           if e \<noteq> AttNotFound then Ret (Inl e)
           else (case Generate tc (issued_claims (fst (ids k)) (clock k) ttl data eventID) of
                   None \<Rightarrow> Ret (Inl AttToken)
                 | Some token \<Rightarrow>
                     store_credential f (k + 1) (clock k)
                       (new_credential (fst (ids k)) (snd (ids k)) (clock k) data eventID key token) token))"

section \<open>Orders\<close>

fun issue_units ::
  "token_codec \<Rightarrow> int \<Rightarrow> (nat \<Rightarrow> outcome) \<Rightarrow> nat \<Rightarrow> (nat \<Rightarrow> string \<times> string) \<Rightarrow> (nat \<Rightarrow> int) \<Rightarrow> order_completed
     \<Rightarrow> string list \<Rightarrow> (attendance_db, attendance_error + unit) proc" where
  "issue_units tc ttl f k ids clock data [] = Ret (Inr ())"
| "issue_units tc ttl f k ids clock data (key # keys) =
     bind_proc (issueOne tc ttl f k ids clock data (oc_ticket data) key) (\<lambda>r.
       case r of Inl e \<Rightarrow> Ret (Inl e) | Inr u \<Rightarrow> issue_units tc ttl f (k + 3) ids clock data keys)"

definition OnOrderCompleted_issue ::
  "token_codec \<Rightarrow> int \<Rightarrow> (nat \<Rightarrow> outcome) \<Rightarrow> (nat \<Rightarrow> string \<times> string) \<Rightarrow> (nat \<Rightarrow> int) \<Rightarrow> order_completed
     \<Rightarrow> (attendance_db, attendance_error + unit) proc" where
  "OnOrderCompleted_issue tc ttl f ids clock data =
     (if malformed_order data then Ret (Inl AttMalformed)
      else issue_units tc ttl f 0 ids clock (normal_order data) (admissionUnits (normal_order data)))"

text \<open>
  The consumer tries a message four times, each time with its own calls, and then moves it to the
  dead-letter topic; the offset is committed unless that fails. A message that cannot be
  decoded is \<open>None\<close>. \<open>stop n\<close>: the context is cancelled while the consumer waits before the attempt
  with \<open>n\<close> more to come, which ends the attempts with an error like any other.
\<close>

fun issue_attempts ::
  "token_codec \<Rightarrow> int \<Rightarrow> (nat \<Rightarrow> nat \<Rightarrow> outcome) \<Rightarrow> (nat \<Rightarrow> nat \<Rightarrow> string \<times> string) \<Rightarrow> (nat \<Rightarrow> nat \<Rightarrow> int) \<Rightarrow> (nat \<Rightarrow> bool)
     \<Rightarrow> order_completed \<Rightarrow> nat \<Rightarrow> (attendance_db, attendance_error + unit) proc" where
  "issue_attempts tc ttl f ids clock stop data 0 = OnOrderCompleted_issue tc ttl (f 0) (ids 0) (clock 0) data"
| "issue_attempts tc ttl f ids clock stop data (Suc n) =
     bind_proc (OnOrderCompleted_issue tc ttl (f (Suc n)) (ids (Suc n)) (clock (Suc n)) data) (\<lambda>r.
       case r of Inr u \<Rightarrow> Ret (Inr u)
       | Inl e \<Rightarrow> if stop n then Ret (Inl AttCancelled) else issue_attempts tc ttl f ids clock stop data n)"

definition processMessage ::
  "token_codec \<Rightarrow> int \<Rightarrow> (nat \<Rightarrow> nat \<Rightarrow> outcome) \<Rightarrow> (nat \<Rightarrow> nat \<Rightarrow> string \<times> string) \<Rightarrow> (nat \<Rightarrow> nat \<Rightarrow> int) \<Rightarrow> (nat \<Rightarrow> bool)
     \<Rightarrow> order_completed option \<Rightarrow> (attendance_db, attendance_error + unit) proc" where
  "processMessage tc ttl f ids clock stop msg =
     (case msg of None \<Rightarrow> Ret (Inl AttMalformed) | Some data \<Rightarrow> issue_attempts tc ttl f ids clock stop data 3)"

datatype consumed = Handled | DeadLettered | NotCommitted

definition consume_completed ::
  "token_codec \<Rightarrow> int \<Rightarrow> (nat \<Rightarrow> nat \<Rightarrow> outcome) \<Rightarrow> (nat \<Rightarrow> nat \<Rightarrow> string \<times> string) \<Rightarrow> (nat \<Rightarrow> nat \<Rightarrow> int) \<Rightarrow> (nat \<Rightarrow> bool) \<Rightarrow> outcome
     \<Rightarrow> order_completed option \<Rightarrow> (attendance_db, consumed) proc" where
  "consume_completed tc ttl f ids clock stop oc msg =
     bind_proc (processMessage tc ttl f ids clock stop msg) (\<lambda>r.
       case r of
         Inr u \<Rightarrow> Ret Handled
       | Inl e \<Rightarrow> call oc (\<lambda>d. ((), d\<lparr>ad_dlq := ad_dlq d @ [msg]\<rparr>))
                  (\<lambda>x. Ret (if x = None then NotCommitted else DeadLettered)))"

section \<open>The relay\<close>

definition Publish :: "outcome \<Rightarrow> cred_outbox \<Rightarrow> (attendance_db, attendance_error + unit) proc" where
  "Publish oc row =
     exec oc (\<lambda>d. (Inr (), d\<lparr>ad_topic := ad_topic d @ [(co_topic row, co_partition row, co_payload row)]\<rparr>))"

definition relay_commit ::
  "outcome \<Rightarrow> (string \<times> int) list \<Rightarrow> attendance_error option \<Rightarrow> (attendance_db, attendance_error + unit) proc" where
  "relay_commit oc marks publishErr =
     bind_proc (exec oc (commit_marks marks)) (\<lambda>r. Ret (case r of
       Inl e \<Rightarrow> Inl e | Inr u \<Rightarrow> (case publishErr of None \<Rightarrow> Inr () | Some e \<Rightarrow> Inl e)))"

text \<open>
  A publish that fails ends the batch, which is committed as far as it came; a mark that fails
  rolls the whole batch back.
\<close>

fun relay_rows ::
  "(nat \<Rightarrow> outcome) \<Rightarrow> nat \<Rightarrow> (nat \<Rightarrow> int) \<Rightarrow> cred_outbox list \<Rightarrow> (string \<times> int) list
     \<Rightarrow> (attendance_db, attendance_error + unit) proc" where
  "relay_rows f k clock [] marks = relay_commit (f k) marks None"
| "relay_rows f k clock (row # rows) marks =
     bind_proc (Publish (f k) row) (\<lambda>p.
       case p of
         Inl e \<Rightarrow> relay_commit (f (k + 1)) marks (Some e)
       | Inr u \<Rightarrow>
           bind_proc (MarkPublishedTx (f (k + 1)) marks (co_id row) (clock k)) (\<lambda>m.
             case m of
               Inl e \<Rightarrow> Ret (Inl e)
             | Inr marks' \<Rightarrow> relay_rows f (k + 2) clock rows marks'))"

definition Relay_RunOnce ::
  "(nat \<Rightarrow> outcome) \<Rightarrow> (nat \<Rightarrow> int) \<Rightarrow> (string \<Rightarrow> bool) \<Rightarrow> int \<Rightarrow> (attendance_db, attendance_error + unit) proc" where
  "Relay_RunOnce f clock locked batchSize =
     bind_proc (ListUnpublishedTx (f 0) locked batchSize) (\<lambda>r.
       case r of Inl e \<Rightarrow> Ret (Inl e) | Inr rows \<Rightarrow> relay_rows f 1 clock rows [])"

section \<open>The purge\<close>

definition outboxCleanupBatchSize :: int where "outboxCleanupBatchSize = 500"
definition outboxCleanupMaxBatches :: nat where "outboxCleanupMaxBatches = 20"

fun cleanup_batches ::
  "(nat \<Rightarrow> outcome) \<Rightarrow> nat \<Rightarrow> int \<Rightarrow> nat \<Rightarrow> nat \<Rightarrow> (attendance_db, attendance_error + nat) proc" where
  "cleanup_batches f k cutoff sofar 0 = Ret (Inr sofar)"
| "cleanup_batches f k cutoff sofar (Suc n) =
     bind_proc (DeletePublishedBefore (f k) cutoff outboxCleanupBatchSize) (\<lambda>r.
       case r of
         Inl e \<Rightarrow> Ret (Inl e)
       | Inr deleted \<Rightarrow>
           if int deleted < outboxCleanupBatchSize then Ret (Inr (sofar + deleted))
           else cleanup_batches f (k + 1) cutoff (sofar + deleted) n)"

definition Cleanup_RunOnce ::
  "(nat \<Rightarrow> outcome) \<Rightarrow> int \<Rightarrow> int \<Rightarrow> (attendance_db, attendance_error + unit) proc" where
  "Cleanup_RunOnce f now retention =
     bind_proc (cleanup_batches f 0 (now - retention) 0 outboxCleanupMaxBatches)
       (\<lambda>r. Ret (case r of Inl e \<Rightarrow> Inl e | Inr n \<Rightarrow> Inr ()))"

end
