(* ===== verification/Attendance_Service.thy ===== *)
theory Attendance_Service
  imports Issuance
begin

text \<open>
  Passes, transfers and policies (\<^verbatim>\<open>internal/service/attendance_service.go\<close>), the lookup of a ticket's
  owner (\<^verbatim>\<open>policy_ticket_lookup.go\<close>) and of a user by email (\<^verbatim>\<open>user_lookup.go\<close>). What ticket-service and
  auth-service answer are parameters.
\<close>

section \<open>Lookups\<close>

text \<open>The status of a gRPC answer, as far as the lookup tells them apart.\<close>

datatype grpc_answer = GrpcNotFound | GrpcInvalidArgument | GrpcOther | GrpcOwner string

definition LookupTicketOwner :: "(string \<Rightarrow> grpc_answer) \<Rightarrow> string \<Rightarrow> attendance_error + string" where
  "LookupTicketOwner ticket tid =
     (case ticket tid of
        GrpcNotFound \<Rightarrow> Inl AttNotFound
      | GrpcInvalidArgument \<Rightarrow> Inl AttNotFound
      | GrpcOther \<Rightarrow> Inl AttLookup
      | GrpcOwner uid \<Rightarrow> if uid = [] then Inl AttNotFound else Inr uid)"

text \<open>The HTTP status with the user in the body, if it decodes; no answer is \<open>None\<close>.\<close>

definition ToLower :: "string \<Rightarrow> string" where
  "ToLower s = map (\<lambda>c. let n = (of_char c :: nat) in if 65 \<le> n \<and> n \<le> 90 then char_of (n + 32) else c) s"

definition LookupUserIDByEmail ::
  "(string \<Rightarrow> string \<Rightarrow> string \<Rightarrow> (nat \<times> string option) option) \<Rightarrow> string \<Rightarrow> string \<Rightarrow> string
     \<Rightarrow> attendance_error + string" where
  "LookupUserIDByEmail users email requester sig =
     (if requester = [] then Inl AttForbidden
      else let normalized = TrimSpace (ToLower email) in
        if normalized = [] then Inl AttNotFound
        else (case users normalized requester sig of
                None \<Rightarrow> Inl AttLookup
              | Some (status, body) \<Rightarrow>
                  if status = 404 then Inl AttNotFound
                  else if status = 401 \<or> status = 403 then Inl AttForbidden
                  else if status \<noteq> 200 then Inl AttLookup
                  else (case body of
                          None \<Rightarrow> Inl AttLookup
                        | Some uid \<Rightarrow> if TrimSpace uid = [] then Inl AttNotFound else Inr uid)))"

section \<open>Passes\<close>

definition GetAdmissionPass ::
  "outcome \<Rightarrow> string \<Rightarrow> string option \<Rightarrow> (attendance_db, attendance_error + credential) proc" where
  "GetAdmissionPass oc tid oid =
     (case oid of None \<Rightarrow> Cred_FindByTicketID oc tid | Some o' \<Rightarrow> Cred_FindByTicketAndOrder oc tid o')"

definition GetAdmissionPassForBuyer ::
  "outcome \<Rightarrow> string \<Rightarrow> string option \<Rightarrow> string \<Rightarrow> (attendance_db, attendance_error + credential) proc" where
  "GetAdmissionPassForBuyer oc tid oid buyer =
     (if buyer = [] then Ret (Inl AttForbidden)
      else bind_proc (case oid of Some o' \<Rightarrow> Cred_FindByTicketAndOrder oc tid o' | None \<Rightarrow> Cred_FindByTicketAndBuyer oc tid buyer)
        (\<lambda>r. Ret (case r of Inl e \<Rightarrow> Inl e | Inr c \<Rightarrow> if cr_buyer c \<noteq> Some buyer then Inl AttForbidden else Inr c)))"

definition GetAdmissionPassByCredentialID ::
  "outcome \<Rightarrow> string \<Rightarrow> (attendance_db, attendance_error + credential) proc" where
  "GetAdmissionPassByCredentialID oc cid = Cred_FindByID oc cid"

text \<open>Ownership of the event, which is the ticket; without a lookup nobody is authorised.\<close>

definition EnsureOrganizerOwnsEvent ::
  "(string \<Rightarrow> grpc_answer) option \<Rightarrow> string \<Rightarrow> string \<Rightarrow> attendance_error + unit" where
  "EnsureOrganizerOwnsEvent ticket eventID organizer =
     (if organizer = [] then Inl AttForbidden
      else case ticket of
        None \<Rightarrow> Inl AttForbidden
      | Some lookup \<Rightarrow>
          (case LookupTicketOwner lookup eventID of
             Inl e \<Rightarrow> Inl e
           | Inr owner \<Rightarrow> if owner \<noteq> organizer then Inl AttForbidden else Inr ()))"

section \<open>Transfers\<close>

definition new_transfer :: "string \<Rightarrow> string \<Rightarrow> string \<Rightarrow> string \<Rightarrow> string \<Rightarrow> int \<Rightarrow> transfer" where
  "new_transfer tid cid sender recipient email now =
     \<lparr>tf_id = tid, tf_credential = cid, tf_sender = sender, tf_recipient = Some recipient, tf_email = email,
      tf_state = TransferStatePending, tf_created = now, tf_accepted = None, tf_recalled = None\<rparr>"

definition TransferAdmissionCredential ::
  "(string \<Rightarrow> string \<Rightarrow> string \<Rightarrow> (nat \<times> string option) option) option \<Rightarrow> (nat \<Rightarrow> outcome) \<Rightarrow> nat \<Rightarrow> string \<Rightarrow> int
     \<Rightarrow> string \<Rightarrow> string \<Rightarrow> string \<Rightarrow> string \<Rightarrow> (attendance_db, attendance_error + credential \<times> transfer) proc" where
  "TransferAdmissionCredential users f k tid now cid sender email sig =
     bind_proc (Cred_FindByID (f k) cid) (\<lambda>r.
       case r of
         Inl e \<Rightarrow> Ret (Inl e)
       | Inr c \<Rightarrow>
           if cr_buyer c \<noteq> Some sender then Ret (Inl AttForbidden)
           else case users of
             None \<Rightarrow> Ret (Inl AttForbidden)
           | Some lookup \<Rightarrow>
               (case LookupUserIDByEmail lookup email sender sig of
                  Inl e \<Rightarrow> Ret (Inl e)
                | Inr recipient \<Rightarrow>
                    if recipient = sender then Ret (Inl AttForbidden)
                    else let t = new_transfer tid cid sender recipient email now in
                      bind_proc (CreateTransfer (f (k + 1)) t)
                        (\<lambda>x. Ret (case x of Inl e \<Rightarrow> Inl e | Inr u \<Rightarrow> Inr (c, t)))))"

definition RecallTransfer ::
  "(nat \<Rightarrow> outcome) \<Rightarrow> nat \<Rightarrow> int \<Rightarrow> string \<Rightarrow> string \<Rightarrow> (attendance_db, attendance_error + credential) proc" where
  "RecallTransfer f k now cid sender =
     bind_proc (Cred_FindByID (f k) cid) (\<lambda>r.
       case r of
         Inl e \<Rightarrow> Ret (Inl e)
       | Inr c \<Rightarrow>
           if cr_buyer c \<noteq> Some sender then Ret (Inl AttForbidden)
           else bind_proc (Repo_RecallTransfer (f (k + 1)) cid sender now)
                  (\<lambda>x. Ret (case x of Inl e \<Rightarrow> Inl e | Inr t \<Rightarrow> Inr c)))"

definition AcceptTransfer ::
  "(nat \<Rightarrow> outcome) \<Rightarrow> nat \<Rightarrow> int \<Rightarrow> string \<Rightarrow> string \<Rightarrow> (attendance_db, attendance_error + credential) proc" where
  "AcceptTransfer f k now tid recipient =
     bind_proc (FindTransferByID (f k) tid) (\<lambda>r.
       case r of
         Inl e \<Rightarrow> Ret (Inl e)
       | Inr t \<Rightarrow>
           if tf_state t \<noteq> TransferStatePending then Ret (Inl AttNotFound)
           else if tf_recipient t \<noteq> None \<and> tf_recipient t \<noteq> Some recipient then Ret (Inl AttForbidden)
           else bind_proc (Repo_AcceptTransfer (f (k + 1)) now tid recipient now) (\<lambda>x.
             case x of
               Inl e \<Rightarrow> Ret (Inl e)
             | Inr t' \<Rightarrow> Cred_FindByID (f (k + 2)) (tf_credential t)))"

end
