(* ===== verification/Attendance_Api.thy ===== *)
theory Attendance_Api
  imports Attendance_Service
begin

text \<open>
  The doors of attendance-service: the REST handlers of the scanner and of organizers and buyers
  (\<^verbatim>\<open>internal/handler/scan_handler.go\<close>, \<^verbatim>\<open>attendance_handler.go\<close>) and the GraphQL resolvers
  (\<^verbatim>\<open>internal/graphql/schema.resolvers.go\<close>, \<^verbatim>\<open>helpers.go\<close>, \<^verbatim>\<open>entity.resolvers.go\<close>). A REST answer is a status with an
  error code, or the body; a request whose body does not decode does not get this far. \<open>ticket\<close> is what
  ticket-service answers about the owner of a ticket, and \<open>rfc\<close> writes a time.
\<close>

section \<open>REST: scanning\<close>

type_synonym http_error = "nat \<times> string"

record scan_request =
  sr_token :: string
  sr_event :: string
  sr_buyer :: string
  sr_device :: string
  sr_gate :: "string option"

definition request_scanner :: "string \<Rightarrow> scan_request \<Rightarrow> scanner" where
  "request_scanner user req = \<lparr>sn_user = user, sn_device = sr_device req, sn_gate = sr_gate req\<rparr>"

definition owner_status :: "attendance_error + unit \<Rightarrow> http_error option" where
  "owner_status r =
     (case r of
        Inr u \<Rightarrow> None
      | Inl AttForbidden \<Rightarrow> Some (403, ''FORBIDDEN'')
      | Inl AttNotFound \<Rightarrow> Some (404, ''NOT_FOUND'')
      | Inl e \<Rightarrow> Some (500, ''INTERNAL_ERROR''))"

text \<open>The policy of an event; \<open>None\<close> is that there is no row.\<close>

definition fetch_policy ::
  "outcome \<Rightarrow> string \<Rightarrow> (attendance_db, attendance_error + attendance_policy option) proc" where
  "fetch_policy oc eid = bind_proc (Policy_FindByEventID oc eid) (\<lambda>r. Ret (case r of
     Inr p \<Rightarrow> Inr (Some p) | Inl AttNotFound \<Rightarrow> Inr None | Inl e \<Rightarrow> Inl e))"

definition scan_by_token ::
  "token_codec \<Rightarrow> (string \<Rightarrow> grpc_answer) option \<Rightarrow> (nat \<Rightarrow> outcome) \<Rightarrow> (nat \<Rightarrow> int) \<Rightarrow> string \<Rightarrow> string
     \<Rightarrow> scan_request \<Rightarrow> bool \<Rightarrow> (attendance_db, http_error + scan_outcome) proc" where
  "scan_by_token tc ticket f clock sid user req consume =
     (if sr_token req = [] \<or> sr_event req = [] \<or> sr_device req = [] then Ret (Inl (400, ''INVALID_BODY''))
      else if user = [] then Ret (Inl (401, ''MISSING_USER_ID''))
      else case owner_status (EnsureOrganizerOwnsEvent ticket (sr_event req) user) of
        Some e \<Rightarrow> Ret (Inl e)
      | None \<Rightarrow>
          bind_proc (fetch_policy (f 0) (sr_event req)) (\<lambda>p.
            case p of
              Inl e \<Rightarrow> Ret (Inl (500, ''INTERNAL_ERROR''))
            | Inr policy \<Rightarrow>
                if (case policy of None \<Rightarrow> True | Some x \<Rightarrow> \<not> ap_require_qr x) then Ret (Inl (403, ''POLICY_BLOCK''))
                else bind_proc (evaluate tc f 1 clock sid (request_scanner user req) (sr_token req) (sr_event req) consume)
                  (\<lambda>r. Ret (case r of
                     Inr out \<Rightarrow> Inr out
                   | Inl e \<Rightarrow> Inl (if consume \<and> e = AttForbidden then (403, ''FORBIDDEN'') else (500, ''INTERNAL_ERROR''))))))"

definition Handler_ValidateToken ::
  "token_codec \<Rightarrow> (string \<Rightarrow> grpc_answer) option \<Rightarrow> (nat \<Rightarrow> outcome) \<Rightarrow> (nat \<Rightarrow> int) \<Rightarrow> string \<Rightarrow> string
     \<Rightarrow> scan_request \<Rightarrow> (attendance_db, http_error + scan_outcome) proc" where
  "Handler_ValidateToken tc ticket f clock sid user req = scan_by_token tc ticket f clock sid user req False"

definition Handler_CheckIn ::
  "token_codec \<Rightarrow> (string \<Rightarrow> grpc_answer) option \<Rightarrow> (nat \<Rightarrow> outcome) \<Rightarrow> (nat \<Rightarrow> int) \<Rightarrow> string \<Rightarrow> string
     \<Rightarrow> scan_request \<Rightarrow> (attendance_db, http_error + scan_outcome) proc" where
  "Handler_CheckIn tc ticket f clock sid user req = scan_by_token tc ticket f clock sid user req True"

definition Handler_CheckInByBuyer ::
  "(string \<Rightarrow> grpc_answer) option \<Rightarrow> (nat \<Rightarrow> outcome) \<Rightarrow> (nat \<Rightarrow> int) \<Rightarrow> string \<Rightarrow> string
     \<Rightarrow> scan_request \<Rightarrow> (attendance_db, http_error + scan_outcome) proc" where
  "Handler_CheckInByBuyer ticket f clock sid user req =
     (if sr_event req = [] \<or> sr_buyer req = [] \<or> sr_device req = [] then Ret (Inl (400, ''INVALID_BODY''))
      else if user = [] then Ret (Inl (401, ''MISSING_USER_ID''))
      else case owner_status (EnsureOrganizerOwnsEvent ticket (sr_event req) user) of
        Some e \<Rightarrow> Ret (Inl e)
      | None \<Rightarrow>
          bind_proc (fetch_policy (f 0) (sr_event req)) (\<lambda>p.
            case p of
              Inl e \<Rightarrow> Ret (Inl (500, ''INTERNAL_ERROR''))
            | Inr policy \<Rightarrow>
                bind_proc (CheckInByBuyer f 1 clock sid (request_scanner user req) (sr_event req) (sr_buyer req) policy)
                  (\<lambda>r. Ret (case r of
                     Inr out \<Rightarrow> Inr out
                   | Inl AttPolicyBlock \<Rightarrow> Inl (403, ''POLICY_BLOCK'')
                   | Inl AttForbidden \<Rightarrow> Inl (403, ''FORBIDDEN'')
                   | Inl e \<Rightarrow> Inl (500, ''INTERNAL_ERROR'')))))"

section \<open>REST: passes and events\<close>

definition Handler_GetTicket ::
  "outcome \<Rightarrow> string \<Rightarrow> string \<Rightarrow> string \<Rightarrow> (attendance_db, http_error + credential) proc" where
  "Handler_GetTicket oc buyer tid oid =
     (if tid = [] then Ret (Inl (400, ''INVALID_PARAM''))
      else if buyer = [] then Ret (Inl (401, ''MISSING_USER_ID''))
      else bind_proc (GetAdmissionPassForBuyer oc tid (if oid = [] then None else Some oid) buyer)
        (\<lambda>r. Ret (case r of
           Inr c \<Rightarrow> Inr c
         | Inl AttNotFound \<Rightarrow> Inl (404, ''NOT_FOUND'')
         | Inl AttForbidden \<Rightarrow> Inl (403, ''FORBIDDEN'')
         | Inl e \<Rightarrow> Inl (500, ''INTERNAL_ERROR''))))"

text \<open>What every organizer endpoint checks first.\<close>

definition organizer_checks ::
  "(string \<Rightarrow> grpc_answer) option \<Rightarrow> string \<Rightarrow> string \<Rightarrow> (attendance_db, http_error + 'a) proc
     \<Rightarrow> (attendance_db, http_error + 'a) proc" where
  "organizer_checks ticket eventID user body =
     (if eventID = [] then Ret (Inl (400, ''INVALID_PARAM''))
      else if user = [] then Ret (Inl (401, ''MISSING_USER_ID''))
      else case owner_status (EnsureOrganizerOwnsEvent ticket eventID user) of Some e \<Rightarrow> Ret (Inl e) | None \<Rightarrow> body)"

record policy_view =
  pv_event :: string
  pv_require_qr :: bool
  pv_allow_manual :: bool

definition view_policy :: "string \<Rightarrow> attendance_policy option \<Rightarrow> policy_view" where
  "view_policy eid p =
     (case p of
        None \<Rightarrow> \<lparr>pv_event = eid, pv_require_qr = True, pv_allow_manual = False\<rparr>
      | Some x \<Rightarrow> \<lparr>pv_event = ap_event x, pv_require_qr = ap_require_qr x, pv_allow_manual = ap_allow_manual x\<rparr>)"

definition internal_status :: "attendance_error + 'a \<Rightarrow> http_error + 'a" where
  "internal_status r = (case r of Inl e \<Rightarrow> Inl (500, ''INTERNAL_ERROR'') | Inr x \<Rightarrow> Inr x)"

definition Handler_GetEventSettings ::
  "(string \<Rightarrow> grpc_answer) option \<Rightarrow> outcome \<Rightarrow> string \<Rightarrow> string \<Rightarrow> (attendance_db, http_error + policy_view) proc" where
  "Handler_GetEventSettings ticket oc user eventID =
     organizer_checks ticket eventID user
       (bind_proc (fetch_policy oc eventID) (\<lambda>r. Ret (map_sum id (view_policy eventID) (internal_status r))))"

text \<open>A policy is the one there is, or a new one, with the fields that were sent.\<close>

definition changed_policy ::
  "string \<Rightarrow> string \<Rightarrow> string \<Rightarrow> bool option \<Rightarrow> bool option \<Rightarrow> attendance_policy option \<Rightarrow> attendance_policy" where
  "changed_policy pid eventID organizer requireQR allowManual p =
     (let base = (case p of
          Some x \<Rightarrow> x
        | None \<Rightarrow> \<lparr>ap_id = pid, ap_event = eventID, ap_ticket = None, ap_organizer = organizer, ap_require_qr = True,
                   ap_allow_manual = False, ap_created = 0, ap_updated = 0\<rparr>) in
      base\<lparr>ap_require_qr := (case requireQR of None \<Rightarrow> ap_require_qr base | Some b \<Rightarrow> b),
           ap_allow_manual := (case allowManual of None \<Rightarrow> ap_allow_manual base | Some b \<Rightarrow> b)\<rparr>)"

definition save_policy ::
  "(nat \<Rightarrow> outcome) \<Rightarrow> string \<Rightarrow> int \<Rightarrow> string \<Rightarrow> string \<Rightarrow> bool option \<Rightarrow> bool option
     \<Rightarrow> (attendance_db, attendance_error + policy_view) proc" where
  "save_policy f pid now user eventID requireQR allowManual =
     bind_proc (fetch_policy (f 0) eventID) (\<lambda>r.
       case r of
         Inl e \<Rightarrow> Ret (Inl e)
       | Inr p \<Rightarrow>
           let p' = changed_policy pid eventID user requireQR allowManual p in
           bind_proc (Policy_Upsert (f 1) now p')
             (\<lambda>x. Ret (case x of Inl e \<Rightarrow> Inl e | Inr u \<Rightarrow> Inr (view_policy eventID (Some p')))))"

definition Handler_PatchEventSettings ::
  "(string \<Rightarrow> grpc_answer) option \<Rightarrow> (nat \<Rightarrow> outcome) \<Rightarrow> string \<Rightarrow> int \<Rightarrow> string \<Rightarrow> string \<Rightarrow> bool option \<Rightarrow> bool option
     \<Rightarrow> (attendance_db, http_error + policy_view) proc" where
  "Handler_PatchEventSettings ticket f pid now user eventID requireQR allowManual =
     organizer_checks ticket eventID user
       (if requireQR = None \<and> allowManual = None then Ret (Inl (400, ''INVALID_BODY''))
        else bind_proc (save_policy f pid now user eventID requireQR allowManual) (\<lambda>r. Ret (internal_status r)))"

definition Handler_GetEventSummary ::
  "(string \<Rightarrow> grpc_answer) option \<Rightarrow> outcome \<Rightarrow> string \<Rightarrow> string \<Rightarrow> (attendance_db, http_error + attendance_summary) proc" where
  "Handler_GetEventSummary ticket oc user eventID =
     organizer_checks ticket eventID user
       (bind_proc (SummarizeByEventID oc eventID) (\<lambda>r. Ret (internal_status r)))"

text \<open>\<open>limit\<close> is the text of the query parameter; \<^verbatim>\<open>strconv.Atoi\<close> reads it.\<close>

definition Handler_GetEventCheckIns ::
  "(string \<Rightarrow> grpc_answer) option \<Rightarrow> outcome \<Rightarrow> string \<Rightarrow> string \<Rightarrow> string \<Rightarrow> (attendance_db, http_error + credential list) proc" where
  "Handler_GetEventCheckIns ticket oc user eventID raw =
     organizer_checks ticket eventID user
       (case (if raw = [] then Some 50 else ParseInt raw) of
          None \<Rightarrow> Ret (Inl (400, ''INVALID_PARAM''))
        | Some limit \<Rightarrow>
            if limit < 1 \<or> 200 < limit then Ret (Inl (400, ''INVALID_PARAM''))
            else bind_proc (ListCheckedInByEventID oc eventID limit) (\<lambda>r. Ret (internal_status r)))"

section \<open>GraphQL: views\<close>

datatype gql_error = GqlMessage string | GqlError attendance_error

record admission_pass =
  gp_id :: string
  gp_ticket :: string
  gp_order :: string
  gp_event :: string
  gp_status :: credential_status
  gp_issued :: string
  gp_used :: "string option"
  gp_qr :: "string option"
  gp_state :: transfer_state
  gp_to :: "string option"
  gp_at :: "string option"

definition mapCredentialToGQL :: "(int \<Rightarrow> string) \<Rightarrow> credential \<Rightarrow> transfer option \<Rightarrow> admission_pass" where
  "mapCredentialToGQL rfc c t =
     \<lparr>gp_id = cr_id c, gp_ticket = cr_ticket c, gp_order = cr_order c, gp_event = cr_event c, gp_status = cr_status c,
      gp_issued = rfc (cr_issued c), gp_used = map_option rfc (cr_used_at c), gp_qr = cr_qr c,
      gp_state = (case t of None \<Rightarrow> TransferStateNone | Some x \<Rightarrow> tf_state x), gp_to = (case t of None \<Rightarrow> None | Some x \<Rightarrow> tf_recipient x),
      gp_at = (case t of
          None \<Rightarrow> None
        | Some x \<Rightarrow> (case tf_recalled x of Some r \<Rightarrow> Some (rfc r) | None \<Rightarrow> map_option rfc (tf_accepted x)))\<rparr>"

datatype checkin_source = CheckinSourceQRScan | CheckinSourceManualOverride | CheckinSourceUserIDLookup

record event_checkin =
  ec_id :: string
  ec_event :: string
  ec_ticket :: string
  ec_order :: string
  ec_user :: "string option"
  ec_at :: string
  ec_source :: checkin_source

definition mapCredentialToCheckin :: "(int \<Rightarrow> string) \<Rightarrow> credential \<Rightarrow> event_checkin" where
  "mapCredentialToCheckin rfc c =
     \<lparr>ec_id = cr_id c, ec_event = cr_event c, ec_ticket = cr_ticket c, ec_order = cr_order c, ec_user = cr_buyer c,
      ec_at = rfc (case cr_used_at c of None \<Rightarrow> cr_issued c | Some t \<Rightarrow> t), ec_source = CheckinSourceQRScan\<rparr>"

text \<open>A pass with its latest transfer, whose lookup may fail without notice.\<close>

definition pass_answer ::
  "(int \<Rightarrow> string) \<Rightarrow> outcome \<Rightarrow> credential \<Rightarrow> (attendance_db, gql_error + admission_pass) proc" where
  "pass_answer rfc oc c = bind_proc (FindLatestTransferByCredentialID oc (cr_id c)) (\<lambda>t.
     Ret (Inr (mapCredentialToGQL rfc c (case t of Inl e \<Rightarrow> None | Inr x \<Rightarrow> Some x))))"

definition owner_message :: "attendance_error \<Rightarrow> gql_error" where
  "owner_message e =
     (case e of
        AttForbidden \<Rightarrow> GqlMessage ''forbidden: organizer is not allowed for this event''
      | AttNotFound \<Rightarrow> GqlMessage ''not found: event not found''
      | _ \<Rightarrow> GqlError e)"

definition gql_organizer ::
  "string \<Rightarrow> (string \<Rightarrow> grpc_answer) option \<Rightarrow> string \<Rightarrow> string \<Rightarrow> (attendance_db, gql_error + 'a) proc
     \<Rightarrow> (attendance_db, gql_error + 'a) proc" where
  "gql_organizer who ticket eventID user body =
     (if user = [] then Ret (Inl (GqlMessage (''unauthorized: '' @ who @ '' identity required'')))
      else case EnsureOrganizerOwnsEvent ticket eventID user of Inl e \<Rightarrow> Ret (Inl (owner_message e)) | Inr u \<Rightarrow> body)"

section \<open>GraphQL: policies and scans\<close>

definition Gql_UpdateAttendancePolicy ::
  "(string \<Rightarrow> grpc_answer) option \<Rightarrow> (nat \<Rightarrow> outcome) \<Rightarrow> string \<Rightarrow> int \<Rightarrow> string \<Rightarrow> string \<Rightarrow> bool option \<Rightarrow> bool option
     \<Rightarrow> (attendance_db, gql_error + policy_view) proc" where
  "Gql_UpdateAttendancePolicy ticket f pid now user eventID requireQR allowManual =
     gql_organizer ''organizer'' ticket eventID user
       (bind_proc (save_policy f pid now user eventID requireQR allowManual)
         (\<lambda>r. Ret (case r of Inl e \<Rightarrow> Inl (GqlError e) | Inr v \<Rightarrow> Inr v)))"

record scan_validation =
  sv_valid :: bool
  sv_reason :: "string option"
  sv_ticket :: "string option"
  sv_order :: "string option"
  sv_event :: "string option"

definition graphql_scanner :: "string \<Rightarrow> scanner" where
  "graphql_scanner user = \<lparr>sn_user = user, sn_device = ''graphql'', sn_gate = None\<rparr>"

definition Gql_ValidateScan ::
  "token_codec \<Rightarrow> (nat \<Rightarrow> outcome) \<Rightarrow> (nat \<Rightarrow> int) \<Rightarrow> string \<Rightarrow> string \<Rightarrow> string
     \<Rightarrow> (attendance_db, gql_error + scan_validation) proc" where
  "Gql_ValidateScan tc f clock sid user token =
     (if user = [] then Ret (Inl (GqlMessage ''unauthorized: scanner identity required''))
      else bind_proc (Validate tc f 0 clock sid (graphql_scanner user) token []) (\<lambda>r.
        case r of
          Inl e \<Rightarrow> Ret (Inl (GqlError e))
        | Inr out \<Rightarrow>
            let base = \<lparr>sv_valid = (so_result out = ScanResultValid),
                        sv_reason = (if so_result out = ScanResultValid then None else Some (class_text (so_result out))),
                        sv_ticket = None, sv_order = None, sv_event = None\<rparr> in
            if so_credential out \<noteq> []
            then bind_proc (GetAdmissionPassByCredentialID (f 4) (so_credential out)) (\<lambda>x. Ret (Inr (case x of
                   Inl e \<Rightarrow> base
                 | Inr c \<Rightarrow> base\<lparr>sv_ticket := Some (cr_ticket c), sv_order := Some (cr_order c), sv_event := Some (cr_event c)\<rparr>)))
            else Ret (Inr (if so_event out \<noteq> [] then base\<lparr>sv_event := Some (so_event out)\<rparr> else base))))"

text \<open>The end of both manual check-ins: the outcome, then the credential read again.\<close>

definition checkin_answer ::
  "(int \<Rightarrow> string) \<Rightarrow> outcome \<Rightarrow> checkin_source \<Rightarrow> attendance_error + scan_outcome
     \<Rightarrow> (attendance_db, gql_error + event_checkin) proc" where
  "checkin_answer rfc oc src r =
     (case r of
        Inl AttPolicyBlock \<Rightarrow> Ret (Inl (GqlMessage ''forbidden: manual override disabled by organizer policy''))
      | Inl e \<Rightarrow> Ret (Inl (GqlError e))
      | Inr out \<Rightarrow>
          if so_result out \<noteq> ScanResultValid then Ret (Inl (GqlMessage (''check-in failed: '' @ class_text (so_result out))))
          else bind_proc (GetAdmissionPassByCredentialID oc (so_credential out)) (\<lambda>x. Ret (case x of
                 Inl e \<Rightarrow> Inl (GqlError e) | Inr c \<Rightarrow> Inr ((mapCredentialToCheckin rfc c)\<lparr>ec_source := src\<rparr>))))"

definition manual_checkin ::
  "(int \<Rightarrow> string) \<Rightarrow> (nat \<Rightarrow> outcome) \<Rightarrow> (nat \<Rightarrow> int) \<Rightarrow> string \<Rightarrow> string \<Rightarrow> string \<Rightarrow> string \<Rightarrow> checkin_source
     \<Rightarrow> (attendance_db, gql_error + event_checkin) proc" where
  "manual_checkin rfc f clock sid user eventID buyer src =
     bind_proc (fetch_policy (f 1) eventID) (\<lambda>p.
       case p of
         Inl e \<Rightarrow> Ret (Inl (GqlError e))
       | Inr policy \<Rightarrow>
           bind_proc (CheckInByBuyer f 2 clock sid (graphql_scanner user) eventID buyer policy)
             (\<lambda>r. checkin_answer rfc (f 6) src r))"

text \<open>
  By ticket: the newest credential of the ticket names the buyer, an empty one if it has none. By user:
  the buyer is in the request.
\<close>

definition Gql_RecordCheckin ::
  "(int \<Rightarrow> string) \<Rightarrow> (string \<Rightarrow> grpc_answer) option \<Rightarrow> (nat \<Rightarrow> outcome) \<Rightarrow> (nat \<Rightarrow> int) \<Rightarrow> string \<Rightarrow> string
     \<Rightarrow> string \<Rightarrow> checkin_source \<Rightarrow> (attendance_db, gql_error + event_checkin) proc" where
  "Gql_RecordCheckin rfc ticket f clock sid user ticketID src =
     (if user = [] then Ret (Inl (GqlMessage ''unauthorized: scanner identity required''))
      else if src = CheckinSourceUserIDLookup
      then Ret (Inl (GqlMessage ''invalid source USER_ID_LOOKUP for recordCheckin; use recordCheckinByUserId''))
      else bind_proc (GetAdmissionPass (f 0) ticketID None) (\<lambda>r.
        case r of
          Inl AttNotFound \<Rightarrow> Ret (Inl (GqlMessage ''not found: ticket not found''))
        | Inl e \<Rightarrow> Ret (Inl (GqlError e))
        | Inr c \<Rightarrow>
            gql_organizer ''scanner'' ticket (cr_event c) user
              (manual_checkin rfc f clock sid user (cr_event c) (case cr_buyer c of None \<Rightarrow> [] | Some b \<Rightarrow> b) src)))"

definition Gql_RecordCheckinByUserID ::
  "(int \<Rightarrow> string) \<Rightarrow> (string \<Rightarrow> grpc_answer) option \<Rightarrow> (nat \<Rightarrow> outcome) \<Rightarrow> (nat \<Rightarrow> int) \<Rightarrow> string \<Rightarrow> string
     \<Rightarrow> string \<Rightarrow> string \<Rightarrow> (attendance_db, gql_error + event_checkin) proc" where
  "Gql_RecordCheckinByUserID rfc ticket f clock sid user eventID buyer =
     gql_organizer ''scanner'' ticket eventID user
       (manual_checkin rfc f clock sid user eventID buyer CheckinSourceUserIDLookup)"

section \<open>GraphQL: transfers and queries\<close>

definition pass_error :: "string \<Rightarrow> string \<Rightarrow> attendance_error \<Rightarrow> gql_error" where
  "pass_error missing forbidden e =
     (case e of AttNotFound \<Rightarrow> GqlMessage missing | AttForbidden \<Rightarrow> GqlMessage forbidden | _ \<Rightarrow> GqlError e)"

definition Gql_TransferAdmissionCredential ::
  "(int \<Rightarrow> string) \<Rightarrow> (string \<Rightarrow> string \<Rightarrow> string \<Rightarrow> (nat \<times> string option) option) option \<Rightarrow> (nat \<Rightarrow> outcome) \<Rightarrow> string
     \<Rightarrow> int \<Rightarrow> string \<Rightarrow> string \<Rightarrow> string \<Rightarrow> string \<Rightarrow> (attendance_db, gql_error + admission_pass \<times> string) proc" where
  "Gql_TransferAdmissionCredential rfc users f tid now buyer sig cid email =
     (if buyer = [] then Ret (Inl (GqlMessage ''unauthorized: buyer identity required''))
      else let recipient = TrimSpace email in
        if recipient = [] then Ret (Inl (GqlMessage ''invalid input: recipientEmail is required''))
        else bind_proc (TransferAdmissionCredential users f 0 tid now cid buyer recipient sig) (\<lambda>r. Ret (case r of
          Inl e \<Rightarrow> Inl (pass_error ''not found: credential not found'' ''forbidden: admission pass not accessible'' e)
        | Inr (c, t) \<Rightarrow> Inr (mapCredentialToGQL rfc c (Some t), tf_id t))))"

definition Gql_RecallTransfer ::
  "(int \<Rightarrow> string) \<Rightarrow> (nat \<Rightarrow> outcome) \<Rightarrow> int \<Rightarrow> string \<Rightarrow> string \<Rightarrow> (attendance_db, gql_error + admission_pass) proc" where
  "Gql_RecallTransfer rfc f now buyer cid =
     (if buyer = [] then Ret (Inl (GqlMessage ''unauthorized: buyer identity required''))
      else bind_proc (RecallTransfer f 0 now cid buyer) (\<lambda>r. case r of
          Inl e \<Rightarrow> Ret (Inl (pass_error ''not found: transfer not found'' ''forbidden: admission pass not accessible'' e))
        | Inr c \<Rightarrow> pass_answer rfc (f 2) c))"

definition Gql_AcceptTransfer ::
  "(int \<Rightarrow> string) \<Rightarrow> (nat \<Rightarrow> outcome) \<Rightarrow> int \<Rightarrow> string \<Rightarrow> string \<Rightarrow> (attendance_db, gql_error + admission_pass) proc" where
  "Gql_AcceptTransfer rfc f now buyer tid =
     (if buyer = [] then Ret (Inl (GqlMessage ''unauthorized: buyer identity required''))
      else bind_proc (AcceptTransfer f 0 now tid buyer) (\<lambda>r. case r of
          Inl e \<Rightarrow> Ret (Inl (pass_error ''not found: transfer not found'' ''forbidden: transfer not accessible'' e))
        | Inr c \<Rightarrow> pass_answer rfc (f 3) c))"

definition Gql_AdmissionPass ::
  "(int \<Rightarrow> string) \<Rightarrow> (nat \<Rightarrow> outcome) \<Rightarrow> string \<Rightarrow> string \<Rightarrow> string option
     \<Rightarrow> (attendance_db, gql_error + admission_pass option) proc" where
  "Gql_AdmissionPass rfc f buyer ticketID orderID =
     (if buyer = [] then Ret (Inl (GqlMessage ''unauthorized: buyer identity required''))
      else bind_proc (GetAdmissionPassForBuyer (f 0) ticketID orderID buyer) (\<lambda>r. case r of
          Inl AttNotFound \<Rightarrow> Ret (Inr None)
        | Inl AttForbidden \<Rightarrow> Ret (Inl (GqlMessage ''forbidden: admission pass not accessible''))
        | Inl e \<Rightarrow> Ret (Inl (GqlError e))
        | Inr c \<Rightarrow> bind_proc (pass_answer rfc (f 1) c) (\<lambda>x. Ret (map_sum id Some x))))"

definition Gql_FindAdmissionPassByID ::
  "(int \<Rightarrow> string) \<Rightarrow> (nat \<Rightarrow> outcome) \<Rightarrow> string \<Rightarrow> (attendance_db, gql_error + admission_pass option) proc" where
  "Gql_FindAdmissionPassByID rfc f cid =
     bind_proc (GetAdmissionPassByCredentialID (f 0) cid) (\<lambda>r. case r of
         Inl AttNotFound \<Rightarrow> Ret (Inr None)
       | Inl e \<Rightarrow> Ret (Inl (GqlError e))
       | Inr c \<Rightarrow> bind_proc (pass_answer rfc (f 1) c) (\<lambda>x. Ret (map_sum id Some x)))"

definition Gql_AttendancePolicy ::
  "(string \<Rightarrow> grpc_answer) option \<Rightarrow> outcome \<Rightarrow> string \<Rightarrow> string \<Rightarrow> (attendance_db, gql_error + policy_view) proc" where
  "Gql_AttendancePolicy ticket oc user eventID =
     gql_organizer ''organizer'' ticket eventID user
       (bind_proc (fetch_policy oc eventID) (\<lambda>r. Ret (map_sum GqlError (view_policy eventID) r)))"

definition Gql_AttendanceSummary ::
  "(string \<Rightarrow> grpc_answer) option \<Rightarrow> outcome \<Rightarrow> string \<Rightarrow> string \<Rightarrow> (attendance_db, gql_error + attendance_summary) proc" where
  "Gql_AttendanceSummary ticket oc user eventID =
     gql_organizer ''organizer'' ticket eventID user
       (bind_proc (SummarizeByEventID oc eventID) (\<lambda>r. Ret (map_sum GqlError id r)))"

definition Gql_EventCheckins ::
  "(int \<Rightarrow> string) \<Rightarrow> (string \<Rightarrow> grpc_answer) option \<Rightarrow> outcome \<Rightarrow> string \<Rightarrow> string \<Rightarrow> int option \<Rightarrow> string option
     \<Rightarrow> (attendance_db, gql_error + event_checkin list) proc" where
  "Gql_EventCheckins rfc ticket oc user eventID first after =
     gql_organizer ''organizer'' ticket eventID user
       (if after \<noteq> None \<and> after \<noteq> Some []
        then Ret (Inl (GqlMessage ''pagination cursor is not yet supported for eventCheckins''))
        else let limit = (case first of None \<Rightarrow> 50 | Some n \<Rightarrow> if 0 < n then n else 50) in
          bind_proc (ListCheckedInByEventID oc eventID (if 500 < limit then 500 else limit))
            (\<lambda>r. Ret (map_sum GqlError (map (mapCredentialToCheckin rfc)) r)))"

end
