(* ===== verification/Attendance_Pool.thy ===== *)
theory Attendance_Pool
  imports Attendance_Api
begin

text \<open>
  Everything attendance-service does at once: scans, check-ins, issuance, the relay, the purge,
  transfers and policies on any number of replicas. An answer that admits somebody, or says that an
  order was handled, is a fact about the credentials; \<open>attendance_inv\<close> says that the facts that were
  given away are true together. At the end the requests are an instance of \<open>answer_protocol\<close>.
\<close>

section \<open>Facts and the invariant\<close>

datatype admission_fact = Admitted string | HasKey string

definition credential_used :: "string \<Rightarrow> credential list \<Rightarrow> bool" where
  "credential_used cid cs \<longleftrightarrow> (\<exists>c \<in> set cs. cr_id c = cid \<and> cr_status c = CredentialStatusUsed)"

definition attendance_inv :: "attendance_db \<Rightarrow> admission_fact multiset \<Rightarrow> bool" where
  "attendance_inv d F \<longleftrightarrow>
     distinct (map cr_id (ad_creds d)) \<and> distinct (map cr_key (ad_creds d)) \<and>
     (\<forall>cid. count F (Admitted cid) \<le> of_bool (credential_used cid (ad_creds d))) \<and>
     (\<forall>key. HasKey key \<in># F \<longrightarrow> key \<in> cr_key ` set (ad_creds d))"

lemma attendance_invD:
  assumes "attendance_inv d F"
  shows "distinct (map cr_id (ad_creds d))" "distinct (map cr_key (ad_creds d))"
    "count F (Admitted cid) \<le> of_bool (credential_used cid (ad_creds d))"
    "HasKey key \<in># F \<Longrightarrow> key \<in> cr_key ` set (ad_creds d)"
  using assms by (auto simp: attendance_inv_def)

text \<open>A change that keeps identifiers and keys, and never turns a used credential into another.\<close>

definition gentle_creds :: "credential list \<Rightarrow> credential list \<Rightarrow> bool" where
  "gentle_creds cs cs' \<longleftrightarrow> distinct (map cr_id cs') \<and> distinct (map cr_key cs') \<and>
     cr_key ` set cs \<subseteq> cr_key ` set cs' \<and> (\<forall>cid. credential_used cid cs \<longrightarrow> credential_used cid cs')"

lemma creds_inv:
  assumes "attendance_inv d F" "gentle_creds (ad_creds d) (ad_creds d')"
  shows "attendance_inv d' F"
proof -
  have "count F (Admitted cid) \<le> of_bool (credential_used cid (ad_creds d'))" for cid
    using attendance_invD(3) [OF assms(1), of cid] assms(2)
    by (cases "credential_used cid (ad_creds d)") (auto simp: gentle_creds_def)
  moreover have "key \<in> cr_key ` set (ad_creds d')" if "HasKey key \<in># F" for key
    using attendance_invD(4) [OF assms(1) that] assms(2) by (auto simp: gentle_creds_def)
  ultimately show ?thesis using assms(2) by (simp add: attendance_inv_def gentle_creds_def)
qed

lemma creds_same:
  "attendance_inv d F \<Longrightarrow> ad_creds d' = ad_creds d \<Longrightarrow> attendance_inv d' F"
  by (simp add: attendance_inv_def)

lemma sql_update_map:
  "(\<And>r. key (g r) = key r) \<Longrightarrow> map key (sql_update p g rs) = map key rs"
  by (induction rs) auto

lemma used_sql_update:
  assumes "credential_used cid cs" "\<And>c. cr_id (g c) = cr_id c"
    "\<And>c. cr_status c = CredentialStatusUsed \<Longrightarrow> cr_status (g c) = CredentialStatusUsed"
  shows "credential_used cid (sql_update p g cs)"
  using assms by (induction cs) (auto simp: credential_used_def)

lemma creds_update:
  assumes "attendance_inv d F" "\<And>c. cr_id (g c) = cr_id c" "\<And>c. cr_key (g c) = cr_key c"
    "\<And>c. cr_status c = CredentialStatusUsed \<Longrightarrow> cr_status (g c) = CredentialStatusUsed"
  shows "gentle_creds (ad_creds d) (sql_update p g (ad_creds d))"
proof -
  have "cr_key ` set (sql_update p g (ad_creds d)) = cr_key ` set (ad_creds d)"
    using sql_update_map [of cr_key g p "ad_creds d"] assms(3) by (metis set_map)
  then show ?thesis
    using attendance_invD(1,2) [OF assms(1)] used_sql_update [OF _ assms(2,4)] assms(2,3)
    unfolding gentle_creds_def by (simp add: sql_update_map)
qed

section \<open>Calls that disturb nothing\<close>

lemma quiet_query [simp]: "quiet attendance_inv (query_row oc sel)"
  unfolding query_row_def by (intro quiet_call) simp_all

lemma quiet_exec:
  assumes "\<And>d F. attendance_inv d F \<Longrightarrow> attendance_inv (snd (g d)) F"
  shows "quiet attendance_inv (exec oc g)"
  unfolding exec_def using assms by (intro quiet_call) simp_all

lemma quiet_exec_same:
  assumes "\<And>d. ad_creds (snd (g d)) = ad_creds d"
  shows "quiet attendance_inv (exec oc g)"
  by (rule quiet_exec) (use assms creds_same in blast)

lemma quiet_finds [simp]:
  "quiet attendance_inv (Cred_FindByID oc cid)" "quiet attendance_inv (Cred_FindByTicketID oc tid)"
  "quiet attendance_inv (Cred_FindByTicketAndBuyer oc tid uid)"
  "quiet attendance_inv (Cred_FindByTicketAndOrder oc tid oid)"
  "quiet attendance_inv (FindLatestTransferByCredentialID oc cid)" "quiet attendance_inv (FindTransferByID oc tid)"
  "quiet attendance_inv (ListCheckedInByEventID oc eid n)" "quiet attendance_inv (SummarizeByEventID oc eid)"
  "quiet attendance_inv (Policy_FindByEventID oc eid)" "quiet attendance_inv (ListUnpublishedTx oc locked n)"
  "quiet attendance_inv (MarkPublishedTx oc marks oid at')"
  by (simp_all add: Cred_FindByID_def Cred_FindByTicketID_def Cred_FindByTicketAndBuyer_def
      Cred_FindByTicketAndOrder_def FindLatestTransferByCredentialID_def FindTransferByID_def
      ListCheckedInByEventID_def SummarizeByEventID_def Policy_FindByEventID_def ListUnpublishedTx_def
      MarkPublishedTx_def)

lemma quiet_writes [simp]:
  "quiet attendance_inv (CreateTransfer oc t)" "quiet attendance_inv (Repo_RecallTransfer oc cid sender now)"
  "quiet attendance_inv (Policy_Upsert oc now p)" "quiet attendance_inv (Scan_Create oc s)"
  "quiet attendance_inv (DeletePublishedBefore oc before n)" "quiet attendance_inv (exec oc (commit_marks marks))"
  "quiet attendance_inv (Publish oc row)"
  by (simp_all add: CreateTransfer_def Repo_RecallTransfer_def Policy_Upsert_def Scan_Create_def
      DeletePublishedBefore_def Publish_def quiet_exec_same insert_transfer_def recall_tx_def upsert_policy_def
      insert_scan_def delete_published_def commit_marks_def Let_def)

lemma quiet_accept [simp]: "quiet attendance_inv (Repo_AcceptTransfer oc now tid uid at')"
  unfolding Repo_AcceptTransfer_def
proof (rule quiet_exec)
  fix d F
  assume inv: "attendance_inv d F"
  show "attendance_inv (snd (accept_tx now tid uid at' d)) F"
    using creds_inv [OF inv] creds_update [OF inv] inv by (auto simp: accept_tx_def split: option.split)
qed

section \<open>Requests that disturb nothing\<close>

lemmas quiet_intros = quiet_bind quiet_query quiet_finds quiet_writes quiet_accept

lemma quiet_records [simp]:
  "quiet attendance_inv (recordScan tc oc now sid sn cl raw res)"
  "quiet attendance_inv (recordManualScan oc now sid sn cid eid res)"
  by (simp_all add: recordScan_def recordManualScan_def Let_def)

lemma quiet_finish [simp]:
  "(\<And>res. quiet attendance_inv (log res)) \<Longrightarrow> quiet attendance_inv (finish_scan log out res)"
  by (simp add: finish_scan_def quiet_bind)

lemma quiet_fetch [simp]: "quiet attendance_inv (fetch_policy oc eid)"
  by (simp add: fetch_policy_def quiet_bind)

lemma quiet_validate:
  "(\<And>res. quiet attendance_inv (log res)) \<Longrightarrow> quiet attendance_inv (judge_credential f k now sn log False cl c)"
  "quiet attendance_inv (Validate tc f k clock sid sn token eid)"
  by (auto simp: Validate_def evaluate_def judge_credential_def Let_def intro!: quiet_bind
      split: sum.split attendance_error.split credential_status.split)

lemma quiet_organizer:
  "quiet attendance_inv body \<Longrightarrow> quiet attendance_inv (organizer_checks ticket eid user body)"
  "quiet attendance_inv body' \<Longrightarrow> quiet attendance_inv (gql_organizer who ticket eid user body')"
  by (auto simp: organizer_checks_def gql_organizer_def split: option.split sum.split)

lemma quiet_save [simp]: "quiet attendance_inv (save_policy f pid now user eid q m)"
  by (auto simp: save_policy_def Let_def intro!: quiet_bind split: sum.split)

lemma quiet_transfers [simp]:
  "quiet attendance_inv (TransferAdmissionCredential users f k tid now cid sender email sig)"
  "quiet attendance_inv (RecallTransfer f k now cid sender)" "quiet attendance_inv (AcceptTransfer f k now tid uid)"
  by (auto simp: TransferAdmissionCredential_def RecallTransfer_def AcceptTransfer_def Let_def intro!: quiet_bind
      split: sum.split option.split)

lemma quiet_relay_rows [simp]: "quiet attendance_inv (relay_rows f k clock rows marks)"
  by (induction f k clock rows marks rule: relay_rows.induct)
    (auto simp: relay_commit_def intro!: quiet_bind split: sum.split)

lemma quiet_cleanup [simp]: "quiet attendance_inv (cleanup_batches f k cutoff n m)"
  by (induction f k cutoff n m rule: cleanup_batches.induct) (auto intro!: quiet_bind split: sum.split)

lemma quiet_workers [simp]:
  "quiet attendance_inv (Relay_RunOnce f clock locked n)" "quiet attendance_inv (Cleanup_RunOnce f now retention)"
  by (auto simp: Relay_RunOnce_def Cleanup_RunOnce_def intro!: quiet_bind split: sum.split)

lemma quiet_pass_answer [simp]: "quiet attendance_inv (pass_answer rfc oc c)"
  by (auto simp: pass_answer_def intro!: quiet_bind)

section \<open>Admissions are facts\<close>

text \<open>A consumed credential was issued until then, so nobody was admitted with it before.\<close>

lemma consume_fact:
  "earns attendance_inv (\<lambda>r d. case r of Inr (Consumed c) \<Rightarrow> Admitted (cr_id c) \<in># d | _ \<Rightarrow> True)
     (exec oc (consume_tx now usedAt scanner device cid)) {#}"
  unfolding exec_def
proof (rule earns_call)
  fix d F
  assume "attendance_inv d ({#} + F)"
  then have inv: "attendance_inv d F" by simp
  let ?r = "consume_tx now usedAt scanner device cid d"
  let ?use = "use_credential now usedAt scanner device"
  have upd: "gentle_creds (ad_creds d) (sql_update (issued_row cid) ?use (ad_creds d))"
    by (rule creds_update [OF inv]) (simp_all add: use_credential_def)
  have gentle: "attendance_inv (snd ?r) F"
    using inv creds_inv [OF inv, of "snd ?r"] upd by (auto simp: consume_tx_def split: option.split)
  show "\<exists>F'. attendance_inv (snd ?r) (F' + F) \<and>
      earns attendance_inv (\<lambda>r d. case r of Inr (Consumed c) \<Rightarrow> Admitted (cr_id c) \<in># d | _ \<Rightarrow> True)
        (Ret (case Some (fst ?r) of None \<Rightarrow> Inl AttStore | Some x \<Rightarrow> x)) F'"
  proof (cases "\<exists>c. fst ?r = Inr (Consumed c)")
    case True
    then obtain c where c: "fst ?r = Inr (Consumed c)" by blast
    obtain c0 where c0: "find_row cr_id cid (ad_creds d) = Some c0" "cr_status c0 = CredentialStatusIssued"
        "cr_id c = cid" "ad_creds (snd ?r) = sql_update (issued_row cid) ?use (ad_creds d)"
      using c find_row_Some_iff_set [of cr_id cid "ad_creds d"]
      by (auto simp: consume_tx_def split: option.splits if_splits)
    have mem: "c0 \<in> set (ad_creds d)" "cr_id c0 = cid" using find_row_Some_iff_set [OF c0(1)] by auto
    have "cr_status c1 = CredentialStatusIssued" if "c1 \<in> set (ad_creds d)" "cr_id c1 = cid" for c1
      using find_row_distinct [OF attendance_invD(1) [OF inv] that(1)] that(2) c0(1,2) by simp
    then have "\<not> credential_used cid (ad_creds d)" unfolding credential_used_def by fastforce
    then have none: "count F (Admitted cid) = 0" using attendance_invD(3) [OF inv, of cid] by simp
    have "?use c0 \<in> set (sql_update (issued_row cid) ?use (ad_creds d))"
      using mem c0(2) by (auto simp: set_sql_update issued_row_def)
    then have used: "credential_used cid (ad_creds (snd ?r))"
      unfolding c0(4) credential_used_def using mem(2)
      by (intro bexI [of _ "?use c0"]) (simp_all add: use_credential_def)
    have "attendance_inv (snd ?r) (add_mset (Admitted cid) F)"
      using attendance_invD [OF gentle] used none by (simp add: attendance_inv_def)
    then show ?thesis using c c0(3) by (intro exI [of _ "{#Admitted cid#}"]) simp
  next
    case False
    then show ?thesis using gentle
      by (intro exI [of _ "{#}"]) (auto split: sum.split consume_step.split)
  qed
  show "\<exists>F'. attendance_inv (snd ?r) (F' + F) \<and>
      earns attendance_inv (\<lambda>r d. case r of Inr (Consumed c) \<Rightarrow> Admitted (cr_id c) \<in># d | _ \<Rightarrow> True)
        (Ret (case None of None \<Rightarrow> Inl AttStore | Some x \<Rightarrow> x)) F'"
    using gentle by (intro exI [of _ "{#}"]) simp
qed simp

text \<open>What a scan that answers \<open>valid\<close> has earned.\<close>

definition admits :: "attendance_error + scan_outcome \<Rightarrow> admission_fact multiset \<Rightarrow> bool" where
  "admits r d \<longleftrightarrow> (case r of Inl e \<Rightarrow> True
     | Inr out \<Rightarrow> so_result out = ScanResultValid \<longrightarrow> Admitted (so_credential out) \<in># d)"

lemma earns_finish:
  assumes "\<And>res. quiet attendance_inv (log res)" "admits (Inr out) d"
  shows "earns attendance_inv admits (finish_scan log out res) d"
  unfolding finish_scan_def using assms by (intro earns_quiet_bind) simp_all

lemma earns_consume:
  assumes "\<And>res. quiet attendance_inv (log res)"
  shows "earns attendance_inv admits (consume_and_log f k now sn log cid) {#}"
  unfolding consume_and_log_def ConsumeIssued_def bind_bind
  using assms
  by (intro earns_bind [OF _ consume_fact])
    (auto simp: admits_def cred_outcome_def bind_bind intro!: earns_finish earns_quiet_bind
      split: sum.splits consume_step.splits)

lemma earns_judge:
  assumes "\<And>res. quiet attendance_inv (log res)"
  shows "earns attendance_inv admits (judge_credential f k now sn log True cl c) {#}"
  unfolding judge_credential_def using assms
  by (auto simp: admits_def cred_outcome_def intro!: earns_finish earns_consume split: credential_status.split)

lemma earns_check_in: "earns attendance_inv admits (evaluate tc f k clock sid sn token eid True) {#}"
  unfolding evaluate_def Let_def
  by (auto simp: admits_def bare_outcome_def claims_outcome_def
      intro!: earns_finish earns_judge earns_quiet_bind split: sum.split attendance_error.split)

lemma earns_by_buyer: "earns attendance_inv admits (CheckInByBuyer f k clock sid sn eid buyer policy) {#}"
  unfolding CheckInByBuyer_def Let_def
  by (auto simp: admits_def bare_outcome_def cred_outcome_def
      intro!: earns_finish earns_consume earns_quiet_bind
      split: sum.split attendance_error.split option.split credential_status.split)

section \<open>Issuance keys are facts\<close>

text \<open>A new row keeps the rest; without its insert nothing changes.\<close>

lemma create_inv:
  assumes "attendance_inv d F"
  shows "attendance_inv (snd (create_with_outbox now c ob d)) F"
    "fst (create_with_outbox now c ob d) = Inr () \<Longrightarrow>
       cr_key c \<in> cr_key ` set (ad_creds (snd (create_with_outbox now c ob d)))"
proof -
  have "gentle_creds (ad_creds d) (ad_creds d @ [inserted now c])" if "cr_id c \<notin> cr_id ` set (ad_creds d)"
      "cr_key c \<notin> cr_key ` set (ad_creds d)"
    using attendance_invD(1,2) [OF assms] that by (auto simp: gentle_creds_def inserted_def credential_used_def)
  then show "attendance_inv (snd (create_with_outbox now c ob d)) F"
    using assms creds_inv [OF assms, of "snd (create_with_outbox now c ob d)"]
    by (auto simp: create_with_outbox_def create_credential_def insert_credential_def split: sum.split)
  show "cr_key c \<in> cr_key ` set (ad_creds (snd (create_with_outbox now c ob d)))"
    if "fst (create_with_outbox now c ob d) = Inr ()"
    using that by (auto simp: create_with_outbox_def create_credential_def insert_credential_def inserted_def
        split: if_splits)
qed

definition has_keys :: "admission_fact multiset \<Rightarrow> string set \<Rightarrow> attendance_error + unit \<Rightarrow> admission_fact multiset \<Rightarrow> bool" where
  "has_keys d K r d' \<longleftrightarrow> d \<subseteq># d' \<and> (r = Inr () \<longrightarrow> (\<forall>key \<in> K. HasKey key \<in># d'))"

lemma learn_key:
  assumes "attendance_inv s (d + e)" "key \<in> cr_key ` set (ad_creds s)"
  shows "attendance_inv s (add_mset (HasKey key) d + e)"
  using attendance_invD [OF assms(1)] assms(2) by (auto simp: attendance_inv_def)

lemma earns_find_key:
  "earns attendance_inv (\<lambda>r d'. d \<subseteq># d' \<and> (case r of Inr c \<Rightarrow> HasKey key \<in># d' | Inl e \<Rightarrow> True))
     (Cred_FindByIssuanceKey oc key) d"
  unfolding Cred_FindByIssuanceKey_def query_row_def
proof (rule earns_call)
  fix s e
  assume inv: "attendance_inv s (d + e)"
  show "\<exists>d'. attendance_inv (snd (reads (\<lambda>s. find_row cr_key key (ad_creds s)) s)) (d' + e) \<and>
      earns attendance_inv (\<lambda>r d'. d \<subseteq># d' \<and> (case r of Inr c \<Rightarrow> HasKey key \<in># d' | Inl e \<Rightarrow> True))
        (Ret (case Some (fst (reads (\<lambda>s. find_row cr_key key (ad_creds s)) s)) of
           None \<Rightarrow> Inl AttStore | Some None \<Rightarrow> Inl AttNotFound | Some (Some c) \<Rightarrow> Inr c)) d'"
  proof (cases "find_row cr_key key (ad_creds s)")
    case None
    then show ?thesis using inv by (intro exI [of _ d]) simp
  next
    case (Some c)
    then have "key \<in> cr_key ` set (ad_creds s)" using find_row_Some_iff_set by force
    then show ?thesis using learn_key [OF inv] Some by (intro exI [of _ "add_mset (HasKey key) d"]) simp
  qed
qed auto

lemma earns_store:
  assumes "cr_key c = key"
  shows "earns attendance_inv (has_keys d {key}) (store_credential f k now c token) d"
  unfolding store_credential_def
proof (rule earns_bind [where Q = "has_keys d {key}"])
  fix r d'
  assume r: "has_keys d {key} r d'"
  have "earns attendance_inv (has_keys d {key})
      (bind_proc (Cred_FindByIssuanceKey (f (k + 1)) key) (\<lambda>x. Ret (case x of Inl e \<Rightarrow> Inl e | Inr c' \<Rightarrow> Inr ()))) d'"
    using r by (intro earns_bind [OF _ earns_find_key]) (auto simp: has_keys_def split: sum.splits dest: subset_mset.trans)
  then show "earns attendance_inv (has_keys d {key})
      (if r = Inl AttDuplicate
       then bind_proc (Cred_FindByIssuanceKey (f (k + 1)) (cr_key c)) (\<lambda>x. Ret (case x of Inl e \<Rightarrow> Inl e | Inr c' \<Rightarrow> Inr ()))
       else Ret r) d'"
    using r assms by simp
next
  show "earns attendance_inv (has_keys d {key}) (CreateWithOutbox (f k) now c (issuance_row c token)) d"
    unfolding CreateWithOutbox_def exec_def
  proof (rule earns_call)
    fix s e
    assume inv: "attendance_inv s (d + e)"
    let ?r = "create_with_outbox now c (issuance_row c token) s"
    note keep = create_inv [OF inv, of now c "issuance_row c token"]
    show "\<exists>d'. attendance_inv (snd ?r) (d' + e) \<and>
        earns attendance_inv (has_keys d {key}) (Ret (case Some (fst ?r) of None \<Rightarrow> Inl AttStore | Some x \<Rightarrow> x)) d'"
    proof (cases "fst ?r = Inr ()")
      case True
      then show ?thesis using learn_key [OF keep(1)] keep(2) assms
        by (intro exI [of _ "add_mset (HasKey key) d"]) (simp add: has_keys_def)
    next
      case False
      then show ?thesis using keep(1) by (intro exI [of _ d]) (simp add: has_keys_def)
    qed
    show "\<exists>d'. attendance_inv (snd ?r) (d' + e) \<and>
        earns attendance_inv (has_keys d {key}) (Ret (case None of None \<Rightarrow> Inl AttStore | Some x \<Rightarrow> x)) d'"
      using keep(1) by (intro exI [of _ d]) (simp add: has_keys_def)
  qed (simp add: has_keys_def)
qed

lemma earns_issue_one:
  "earns attendance_inv (has_keys d {key}) (issueOne tc ttl f k ids clock data eid key) d"
  unfolding issueOne_def
proof (rule earns_bind [OF _ earns_find_key])
  fix r :: "attendance_error + credential" and d'
  assume r: "d \<subseteq># d' \<and> (case r of Inr c \<Rightarrow> HasKey key \<in># d' | Inl e \<Rightarrow> True)"
  have "earns attendance_inv (has_keys d {key}) (store_credential f (k + 1) now (new_credential cid tid now data eid key token) token) d'"
      for now cid tid token
    by (rule earns_weaken [OF earns_store [where key = key]])
      (use r in \<open>auto simp: has_keys_def new_credential_def dest: subset_mset.trans\<close>)
  then show "earns attendance_inv (has_keys d {key})
      (case r of Inr c \<Rightarrow> Ret (Inr ()) | Inl e \<Rightarrow>
         if e \<noteq> AttNotFound then Ret (Inl e)
         else (case Generate tc (issued_claims (fst (ids k)) (clock k) ttl data eid) of
                 None \<Rightarrow> Ret (Inl AttToken)
               | Some token \<Rightarrow> store_credential f (k + 1) (clock k)
                   (new_credential (fst (ids k)) (snd (ids k)) (clock k) data eid key token) token)) d'"
    using r by (auto simp: has_keys_def split: sum.split option.split)
qed

lemma earns_units: "earns attendance_inv (has_keys d (set keys)) (issue_units tc ttl f k ids clock data keys) d"
proof (induction keys arbitrary: d k)
  case Nil
  then show ?case by (simp add: has_keys_def)
next
  case (Cons key keys)
  show ?case
    unfolding issue_units.simps
  proof (rule earns_bind [OF _ earns_issue_one])
    fix r d'
    assume r: "has_keys d {key} r d'"
    have "earns attendance_inv (has_keys d (set (key # keys))) (issue_units tc ttl f (k + 3) ids clock data keys) d'"
      if "r = Inr ()"
      by (rule earns_weaken [OF Cons.IH])
        (use r that in \<open>auto simp: has_keys_def dest: subset_mset.trans mset_subset_eqD\<close>)
    then show "earns attendance_inv (has_keys d (set (key # keys)))
        (case r of Inl e \<Rightarrow> Ret (Inl e) | Inr u \<Rightarrow> issue_units tc ttl f (k + 3) ids clock data keys) d'"
      using r by (auto simp: has_keys_def split: sum.split)
  qed
qed

definition order_keys :: "order_completed \<Rightarrow> string set" where
  "order_keys data = set (admissionUnits (normal_order data))"

lemma earns_order: "earns attendance_inv (has_keys d (order_keys data)) (OnOrderCompleted_issue tc ttl f ids clock data) d"
  using earns_units by (auto simp: OnOrderCompleted_issue_def order_keys_def has_keys_def)

lemma earns_attempts: "earns attendance_inv (has_keys d (order_keys data)) (issue_attempts tc ttl f ids clock stop data n) d"
proof (induction n arbitrary: d)
  case 0
  then show ?case by (simp add: earns_order)
next
  case (Suc n)
  have again: "earns attendance_inv (has_keys d (order_keys data)) (issue_attempts tc ttl f ids clock stop data n) d'"
    if "d \<subseteq># d'" for d'
    by (rule earns_weaken [OF Suc.IH]) (use that in \<open>auto simp: has_keys_def dest: subset_mset.trans\<close>)
  show ?case
    unfolding issue_attempts.simps
  proof (rule earns_bind [OF _ earns_order])
    fix r d'
    assume r: "has_keys d (order_keys data) r d'"
    show "earns attendance_inv (has_keys d (order_keys data))
        (case r of Inl e \<Rightarrow> if stop n then Ret (Inl AttCancelled) else issue_attempts tc ttl f ids clock stop data n | Inr u \<Rightarrow> Ret (Inr u)) d'"
    proof (cases r)
      case (Inl e)
      have "d \<subseteq># d'" using r by (simp add: has_keys_def)
      then show ?thesis using again Inl by (simp add: has_keys_def)
    next
      case (Inr u)
      then show ?thesis using r by simp
    qed
  qed
qed

text \<open>What a handled message has earned.\<close>

definition issues :: "order_completed option \<Rightarrow> consumed \<Rightarrow> admission_fact multiset \<Rightarrow> bool" where
  "issues msg r d \<longleftrightarrow> (r = Handled \<longrightarrow> msg \<noteq> None \<and> (\<forall>key \<in> order_keys (the msg). HasKey key \<in># d))"

lemma earns_message: "earns attendance_inv (issues msg) (consume_completed tc ttl f ids clock stop oc msg) {#}"
  unfolding consume_completed_def
proof (rule earns_bind [where Q = "\<lambda>r d. r = Inr () \<longrightarrow> msg \<noteq> None \<and> (\<forall>key \<in> order_keys (the msg). HasKey key \<in># d)"])
  show "earns attendance_inv (\<lambda>r d. r = Inr () \<longrightarrow> msg \<noteq> None \<and> (\<forall>key \<in> order_keys (the msg). HasKey key \<in># d))
      (processMessage tc ttl f ids clock stop msg) {#}"
  proof (cases msg)
    case (Some data)
    then show ?thesis
      by (simp add: processMessage_def) (rule earns_weaken [OF earns_attempts], simp add: has_keys_def)
  qed (simp add: processMessage_def)
next
  fix r d
  assume r: "r = Inr () \<longrightarrow> msg \<noteq> None \<and> (\<forall>key \<in> order_keys (the msg). HasKey key \<in># d)"
  have dlq: "earns attendance_inv (issues msg)
      (call oc (\<lambda>d. ((), d\<lparr>ad_dlq := ad_dlq d @ [msg]\<rparr>)) (\<lambda>x. Ret (if x = None then NotCommitted else DeadLettered))) d"
    by (rule earns_keep) (auto simp: issues_def creds_same)
  show "earns attendance_inv (issues msg) (case r of Inr u \<Rightarrow> Ret Handled
      | Inl e \<Rightarrow> call oc (\<lambda>d. ((), d\<lparr>ad_dlq := ad_dlq d @ [msg]\<rparr>))
                  (\<lambda>x. Ret (if x = None then NotCommitted else DeadLettered))) d"
  proof (cases r)
    case (Inl e)
    then show ?thesis using dlq by simp
  next
    case (Inr u)
    then show ?thesis using r by (simp add: issues_def)
  qed
qed

section \<open>All requests\<close>

text \<open>
  The answers the properties are about: somebody was admitted with a credential, or a message of a
  completed order was handled.
\<close>

datatype attendance_answer = AnsAdmitted string | AnsHandled "order_completed option" | AnsOther

definition scan_answer :: "http_error + scan_outcome \<Rightarrow> attendance_answer" where
  "scan_answer r = (case r of
     Inl e \<Rightarrow> AnsOther
   | Inr out \<Rightarrow> if so_result out = ScanResultValid then AnsAdmitted (so_credential out) else AnsOther)"

definition checkin_done :: "gql_error + event_checkin \<Rightarrow> attendance_answer" where
  "checkin_done r = (case r of Inl e \<Rightarrow> AnsOther | Inr x \<Rightarrow> AnsAdmitted (ec_id x))"

definition consumer_answer :: "order_completed option \<Rightarrow> consumed \<Rightarrow> attendance_answer" where
  "consumer_answer msg r = (if r = Handled then AnsHandled msg else AnsOther)"

definition answering :: "('a \<Rightarrow> attendance_answer) \<Rightarrow> (attendance_db, 'a) proc \<Rightarrow> (attendance_db, attendance_answer) proc" where
  "answering g p = bind_proc p (\<lambda>a. Ret (g a))"

inductive attendance_request :: "(attendance_db, attendance_answer) proc \<Rightarrow> bool" where
  validate: "attendance_request (answering (\<lambda>r. AnsOther) (Handler_ValidateToken tc ticket f clock sid user req))"
| check_in: "attendance_request (answering scan_answer (Handler_CheckIn tc ticket f clock sid user req))"
| by_buyer: "attendance_request (answering scan_answer (Handler_CheckInByBuyer ticket f clock sid user req))"
| gql_validate: "attendance_request (answering (\<lambda>r. AnsOther) (Gql_ValidateScan tc f clock sid user token))"
| gql_checkin: "attendance_request (answering checkin_done (Gql_RecordCheckin rfc ticket f clock sid user tid src))"
| gql_by_user: "attendance_request (answering checkin_done (Gql_RecordCheckinByUserID rfc ticket f clock sid user eid uid))"
| order: "attendance_request (answering (consumer_answer msg) (consume_completed tc ttl fs ids clocks stop oc msg))"
| relay: "attendance_request (answering (\<lambda>r. AnsOther) (Relay_RunOnce f clock locked n))"
| purge: "attendance_request (answering (\<lambda>r. AnsOther) (Cleanup_RunOnce f now retention))"
| transfer: "attendance_request (answering (\<lambda>r. AnsOther) (Gql_TransferAdmissionCredential rfc users f tid now uid sig cid email))"
| recall: "attendance_request (answering (\<lambda>r. AnsOther) (Gql_RecallTransfer rfc f now uid cid))"
| accept: "attendance_request (answering (\<lambda>r. AnsOther) (Gql_AcceptTransfer rfc f now uid tid))"
| settings: "attendance_request (answering (\<lambda>r. AnsOther) (Handler_PatchEventSettings ticket f pid now user eid q m))"
| policy: "attendance_request (answering (\<lambda>r. AnsOther) (Gql_UpdateAttendancePolicy ticket f pid now user eid q m))"
| get_pass: "attendance_request (answering (\<lambda>r. AnsOther) (Handler_GetTicket oc user tid oid))"
| gql_pass: "attendance_request (answering (\<lambda>r. AnsOther) (Gql_AdmissionPass rfc f user tid oid'))"
| gql_entity: "attendance_request (answering (\<lambda>r. AnsOther) (Gql_FindAdmissionPassByID rfc f cid))"
| get_settings: "attendance_request (answering (\<lambda>r. AnsOther) (Handler_GetEventSettings ticket oc user eid))"
| gql_settings: "attendance_request (answering (\<lambda>r. AnsOther) (Gql_AttendancePolicy ticket oc user eid))"
| get_summary: "attendance_request (answering (\<lambda>r. AnsOther) (Handler_GetEventSummary ticket oc user eid))"
| gql_summary: "attendance_request (answering (\<lambda>r. AnsOther) (Gql_AttendanceSummary ticket oc user eid))"
| get_checkins: "attendance_request (answering (\<lambda>r. AnsOther) (Handler_GetEventCheckIns ticket oc user eid raw))"
| gql_checkins: "attendance_request (answering (\<lambda>r. AnsOther) (Gql_EventCheckins rfc ticket oc user eid n after))"

text \<open>What each answer promises.\<close>

definition promise :: "attendance_answer \<Rightarrow> admission_fact multiset \<Rightarrow> bool" where
  "promise a d = (case a of
     AnsAdmitted cid \<Rightarrow> Admitted cid \<in># d
   | AnsHandled msg \<Rightarrow> msg \<noteq> None \<and> (\<forall>key \<in> order_keys (the msg). HasKey key \<in># d)
   | AnsOther \<Rightarrow> True)"

lemma promise_other [simp]: "promise AnsOther d"
  by (simp add: promise_def)

lemma earns_answering:
  "earns I Q p d \<Longrightarrow> (\<And>a d. Q a d \<Longrightarrow> promise (g a) d) \<Longrightarrow> earns I promise (answering g p) d"
  unfolding answering_def by (rule earns_bind) auto

lemma quiet_answering: "quiet attendance_inv p \<Longrightarrow> earns attendance_inv promise (answering (\<lambda>r. AnsOther) p) d"
  unfolding answering_def by (intro earns_quiet_bind) simp

lemma quiet_endpoints:
  "quiet attendance_inv (Handler_ValidateToken tc ticket f clock sid user req)"
  "quiet attendance_inv (Gql_ValidateScan tc f clock sid user token)"
  "quiet attendance_inv (Gql_TransferAdmissionCredential rfc users f tid now uid sig cid email)"
  "quiet attendance_inv (Gql_RecallTransfer rfc f now uid cid)"
  "quiet attendance_inv (Gql_AcceptTransfer rfc f now uid tid)"
  "quiet attendance_inv (Handler_GetTicket oc user tid oid)"
  "quiet attendance_inv (Gql_AdmissionPass rfc f user tid oid')"
  "quiet attendance_inv (Gql_FindAdmissionPassByID rfc f cid)"
  by (auto simp: Handler_ValidateToken_def scan_by_token_def Validate_def [symmetric] quiet_validate(2)
      Gql_ValidateScan_def GetAdmissionPassByCredentialID_def Gql_TransferAdmissionCredential_def
      Gql_RecallTransfer_def Gql_AcceptTransfer_def Handler_GetTicket_def GetAdmissionPassForBuyer_def
      Gql_AdmissionPass_def Gql_FindAdmissionPassByID_def Let_def
      intro!: quiet_bind split: sum.split option.split attendance_error.split)

lemma quiet_organizer_endpoints:
  "quiet attendance_inv (Handler_PatchEventSettings ticket f pid now user eid q m)"
  "quiet attendance_inv (Gql_UpdateAttendancePolicy ticket f pid now user eid q m)"
  "quiet attendance_inv (Handler_GetEventSettings ticket oc user eid)"
  "quiet attendance_inv (Gql_AttendancePolicy ticket oc user eid)"
  "quiet attendance_inv (Handler_GetEventSummary ticket oc user eid)"
  "quiet attendance_inv (Gql_AttendanceSummary ticket oc user eid)"
  "quiet attendance_inv (Handler_GetEventCheckIns ticket oc user eid raw)"
  "quiet attendance_inv (Gql_EventCheckins rfc ticket oc user eid n after)"
  by (auto simp: Handler_PatchEventSettings_def Gql_UpdateAttendancePolicy_def Handler_GetEventSettings_def
      Gql_AttendancePolicy_def Handler_GetEventSummary_def Gql_AttendanceSummary_def Handler_GetEventCheckIns_def
      Gql_EventCheckins_def Let_def
      intro!: quiet_organizer quiet_bind split: sum.split option.split)

text \<open>The endpoints that admit.\<close>

lemma earns_rest_check_in:
  "earns attendance_inv promise (answering scan_answer (Handler_CheckIn tc ticket f clock sid user req)) {#}"
proof (rule earns_answering [where Q = "\<lambda>r d. case r of Inl e \<Rightarrow> True | Inr out \<Rightarrow> admits (Inr out) d"])
  show "earns attendance_inv (\<lambda>r d. case r of Inl e \<Rightarrow> True | Inr out \<Rightarrow> admits (Inr out) d)
      (Handler_CheckIn tc ticket f clock sid user req) {#}"
    unfolding Handler_CheckIn_def scan_by_token_def
    by (auto intro!: earns_quiet_bind earns_bind [OF _ earns_check_in] split: sum.split option.split)
qed (auto simp: scan_answer_def promise_def admits_def split: sum.splits)

lemma earns_rest_by_buyer:
  "earns attendance_inv promise (answering scan_answer (Handler_CheckInByBuyer ticket f clock sid user req)) {#}"
proof (rule earns_answering [where Q = "\<lambda>r d. case r of Inl e \<Rightarrow> True | Inr out \<Rightarrow> admits (Inr out) d"])
  show "earns attendance_inv (\<lambda>r d. case r of Inl e \<Rightarrow> True | Inr out \<Rightarrow> admits (Inr out) d)
      (Handler_CheckInByBuyer ticket f clock sid user req) {#}"
    unfolding Handler_CheckInByBuyer_def
    by (auto intro!: earns_quiet_bind earns_bind [OF _ earns_by_buyer] split: sum.split option.split attendance_error.split)
qed (auto simp: scan_answer_def promise_def admits_def split: sum.splits)

text \<open>The manual check-ins read the credential again by its identifier.\<close>

lemma earns_find_id:
  "earns attendance_inv (\<lambda>r d'. d' = d \<and> (case r of Inl e \<Rightarrow> True | Inr c \<Rightarrow> cr_id c = cid)) (Cred_FindByID oc cid) d"
  unfolding Cred_FindByID_def query_row_def
  by (rule earns_keep) (auto split: option.split dest: find_row_Some_iff_set)

definition checked_in :: "gql_error + event_checkin \<Rightarrow> admission_fact multiset \<Rightarrow> bool" where
  "checked_in r d = (case r of Inl e \<Rightarrow> True | Inr x \<Rightarrow> Admitted (ec_id x) \<in># d)"

lemma checked_in_error [simp]: "checked_in (Inl e) d"
  by (simp add: checked_in_def)

lemma earns_manual:
  "earns attendance_inv checked_in
     (manual_checkin rfc f clock sid user eid uid src) {#}"
proof -
  have answer: "earns attendance_inv checked_in
      (checkin_answer rfc oc src r) d" if "admits r d" for oc r d
    using that unfolding checkin_answer_def GetAdmissionPassByCredentialID_def
    by (auto simp: admits_def checked_in_def mapCredentialToCheckin_def intro!: earns_bind [OF _ earns_find_id]
        split: sum.splits attendance_error.splits)
  show ?thesis
    unfolding manual_checkin_def
    by (auto intro!: earns_quiet_bind earns_bind [OF _ earns_by_buyer] answer split: sum.split)
qed

lemma earns_gql_checkins:
  "earns attendance_inv promise (answering checkin_done (Gql_RecordCheckin rfc ticket f clock sid user tid src)) {#}"
  "earns attendance_inv promise (answering checkin_done (Gql_RecordCheckinByUserID rfc ticket f clock sid user eid uid)) {#}"
proof -
  have org: "earns attendance_inv checked_in
      (gql_organizer who ticket eid' user (manual_checkin rfc f clock sid user eid' uid' src')) {#}" for who eid' uid' src'
    by (simp add: gql_organizer_def earns_manual split: sum.split)
  have promised: "promise (checkin_done r) d" if "checked_in r d" for r d
    using that by (simp add: checked_in_def checkin_done_def promise_def split: sum.splits)
  show "earns attendance_inv promise (answering checkin_done (Gql_RecordCheckin rfc ticket f clock sid user tid src)) {#}"
    unfolding Gql_RecordCheckin_def GetAdmissionPass_def
    by (rule earns_answering [OF _ promised])
      (auto intro!: earns_quiet_bind org split: sum.split option.split attendance_error.split)
  show "earns attendance_inv promise (answering checkin_done (Gql_RecordCheckinByUserID rfc ticket f clock sid user eid uid)) {#}"
    unfolding Gql_RecordCheckinByUserID_def by (rule earns_answering [OF org promised])
qed

lemma earns_consumer:
  "earns attendance_inv promise (answering (consumer_answer msg) (consume_completed tc ttl f ids clock stop oc msg)) {#}"
  by (rule earns_answering [OF earns_message]) (auto simp: issues_def consumer_answer_def promise_def)

interpretation admissions: answer_protocol attendance_inv promise attendance_request
proof
  show "attendance_inv d F" if "attendance_inv d (E + F)" for d E F
  proof -
    have "count F (Admitted cid) \<le> of_bool (credential_used cid (ad_creds d))" for cid
      using attendance_invD(3) [OF that, of cid] by simp
    then show ?thesis using attendance_invD [OF that] by (simp add: attendance_inv_def)
  qed
  show "earns attendance_inv promise p 0" if "attendance_request p" for p
    using that
    by cases (simp_all add: quiet_answering quiet_endpoints quiet_organizer_endpoints earns_rest_check_in
        earns_rest_by_buyer earns_gql_checkins earns_consumer)
qed

end
