(* ===== verification/Attendance_Props.thy ===== *)
theory Attendance_Props
  imports Attendance_Pool
begin

text \<open>
  The properties of attendance-service: nobody is admitted twice with one credential, an order that
  was handled has its credentials, an issued pass opens the gate exactly once, and a transfer that
  was left pending takes the pass from whoever has it by then.
\<close>

section \<open>Counting answers\<close>

definition gives :: "attendance_answer \<Rightarrow> (attendance_db, attendance_answer) proc \<Rightarrow> bool" where
  "gives a p = (case p of Ret b \<Rightarrow> b = a | Act u k \<Rightarrow> False)"

lemma count_promises:
  assumes "list_all2 (\<lambda>p d. \<forall>a. p = Ret a \<longrightarrow> promise a d) ps ds"
  shows "length (filter (gives (AnsAdmitted cid)) ps) \<le> count (sum_list ds) (Admitted cid)"
  using assms
proof (induction rule: list_all2_induct)
  case (Cons p ps d ds)
  have "1 \<le> count d (Admitted cid)" if "gives (AnsAdmitted cid) p"
    using Cons.hyps(1) that by (cases p) (simp_all add: gives_def promise_def)
  then have "length (filter (gives (AnsAdmitted cid)) (p # ps)) \<le>
      count d (Admitted cid) + length (filter (gives (AnsAdmitted cid)) ps)" by simp
  also have "\<dots> \<le> count (sum_list (d # ds)) (Admitted cid)" using Cons.IH by simp
  finally show ?case .
qed simp

lemma handled_promise:
  assumes "list_all2 (\<lambda>p d. \<forall>a. p = Ret a \<longrightarrow> promise a d) ps ds"
    "Ret (AnsHandled (Some data)) \<in> set ps" "key \<in> order_keys data"
  shows "HasKey key \<in># sum_list ds"
  using assms(1,2)
proof (induction rule: list_all2_induct)
  case (Cons p ps d ds)
  then show ?case
    using assms(3) by (cases "p = Ret (AnsHandled (Some data))") (auto simp: promise_def)
qed simp

lemma reached_answers:
  assumes "pool_reach attendance_request d0 (d, ps)"
    "distinct (map cr_id (ad_creds d0))" "distinct (map cr_key (ad_creds d0))"
  obtains ds where "list_all2 (\<lambda>p d. \<forall>a. p = Ret a \<longrightarrow> promise a d) ps ds" "attendance_inv d (sum_list ds)"
proof -
  have "attendance_inv d0 0" using assms(2,3) by (simp add: attendance_inv_def)
  from admissions.answers_hold [OF assms(1) this] show thesis using that by blast
qed

section \<open>Undisturbed runs\<close>

definition all_work :: "nat \<Rightarrow> outcome" where
  "all_work k = Works"

text \<open>Issuing one pass that does not exist yet.\<close>

lemma issue_new:
  assumes "find_row cr_key key (ad_creds d) = None" "cid \<notin> cr_id ` set (ad_creds d)"
    "tid \<notin> cr_token_id ` set (ad_creds d)" "cid \<notin> co_id ` set (ad_outbox d)"
    "ids k = (cid, tid)" "Generate tc (issued_claims cid (clock k) ttl data eid) = Some token"
  defines "c \<equiv> inserted (clock k) (new_credential cid tid (clock k) data eid key token)"
  shows "fst (run_alone (issueOne tc ttl all_work k ids clock data eid key) d) = Inr ()"
    "ad_creds (snd (run_alone (issueOne tc ttl all_work k ids clock data eid key) d)) = ad_creds d @ [c]"
proof -
  have key: "key \<notin> cr_key ` set (ad_creds d)" using assms(1) by (simp add: find_row_None_iff)
  have "create_credential (clock k) (new_credential cid tid (clock k) data eid key token) d =
      (Inr (), d\<lparr>ad_creds := ad_creds d @ [c]\<rparr>)"
    using assms(2,3) key by (simp add: create_credential_def insert_credential_def new_credential_def c_def)
  then have "run_alone (store_credential all_work (k + 1) (clock k)
        (new_credential cid tid (clock k) data eid key token) token) d =
      (Inr (), d\<lparr>ad_creds := ad_creds d @ [c], ad_outbox := ad_outbox d @
         [(issuance_row (new_credential cid tid (clock k) data eid key token) token)
            \<lparr>co_published := False, co_published_at := None, co_created := clock k\<rparr>]\<rparr>)"
    using assms(4) by (simp add: store_credential_def CreateWithOutbox_def create_with_outbox_def all_work_def
        issuance_row_def new_credential_def)
  then show "fst (run_alone (issueOne tc ttl all_work k ids clock data eid key) d) = Inr ()"
    "ad_creds (snd (run_alone (issueOne tc ttl all_work k ids clock data eid key) d)) = ad_creds d @ [c]"
    using assms(1,5,6) by (simp_all add: issueOne_def Cred_FindByIssuanceKey_def all_work_def)
qed

text \<open>The row of a scan touches no credential.\<close>

lemma run_log [simp]: "ad_creds (snd (run_alone (recordScan tc oc now sid sn cl token res) d)) = ad_creds d"
  by (cases oc) (simp_all add: recordScan_def Scan_Create_def insert_scan_def Let_def)

lemma run_finish [simp]: "fst (run_alone (finish_scan log out res) d) = Inr out"
  "snd (run_alone (finish_scan log out res) d) = snd (run_alone (log res) d)"
  by (simp_all add: finish_scan_def split: prod.split)

lemma run_consume:
  assumes "find_row cr_id cid (ad_creds d) = Some c" "cr_status c = CredentialStatusIssued"
  shows "run_alone (ConsumeIssued all_work k now now u dev cid) d =
    (Inr (c\<lparr>cr_status := CredentialStatusUsed, cr_used_at := Some now, cr_used_by := Some u, cr_device := Some dev\<rparr>, True),
     d\<lparr>ad_creds := sql_update (issued_row cid) (use_credential now now u dev) (ad_creds d)\<rparr>)"
proof -
  have "rows_affected (issued_row cid) (ad_creds d) \<noteq> 0"
    using assms find_row_Some_iff_set [OF assms(1)] by (auto simp: rows_affected_zero issued_row_def)
  then show ?thesis using assms by (simp add: ConsumeIssued_def consume_tx_def all_work_def)
qed

text \<open>A scan of a token that names a credential of its event.\<close>

lemma check_in_known:
  assumes "Verify tc (clk 0) token = Inr cl" "cl_event cl = eid"
    "find_row cr_id (cl_credential cl) (ad_creds d) = Some c" "cr_version c = cl_version cl"
  shows "cr_status c = CredentialStatusUsed \<Longrightarrow>
      fst (run_alone (CheckIn tc all_work k clk sid sn token eid) d) = Inr (cred_outcome ScanResultAlreadyUsed c)"
    and "cr_status c = CredentialStatusIssued \<Longrightarrow>
      fst (run_alone (CheckIn tc all_work k clk sid sn token eid) d) =
        Inr (cred_outcome ScanResultValid (c\<lparr>cr_status := CredentialStatusUsed\<rparr>))"
    and "cr_status c = CredentialStatusIssued \<Longrightarrow>
      ad_creds (snd (run_alone (CheckIn tc all_work k clk sid sn token eid) d)) =
        sql_update (issued_row (cr_id c)) (use_credential (clk 1) (clk 1) (sn_user sn) (sn_device sn)) (ad_creds d)"
proof -
  have id: "cr_id c = cl_credential cl" using find_row_Some_iff_set [OF assms(3)] by simp
  have start: "run_alone (CheckIn tc all_work k clk sid sn token eid) d =
      run_alone (judge_credential all_work (k + 1) (clk 1) sn (\<lambda>r. recordScan tc (all_work (k + 3)) (clk 2) sid sn (Some cl) token r) True cl c) d"
    using assms by (simp add: CheckIn_def evaluate_def Let_def Cred_FindByID_def all_work_def)
  note run = run_consume [of "cr_id c" d c, OF assms(3) [folded id]]
  show "fst (run_alone (CheckIn tc all_work k clk sid sn token eid) d) = Inr (cred_outcome ScanResultAlreadyUsed c)"
    if "cr_status c = CredentialStatusUsed"
    using that assms(4) unfolding start by (simp add: judge_credential_def)
  show "fst (run_alone (CheckIn tc all_work k clk sid sn token eid) d) =
        Inr (cred_outcome ScanResultValid (c\<lparr>cr_status := CredentialStatusUsed\<rparr>))"
    "ad_creds (snd (run_alone (CheckIn tc all_work k clk sid sn token eid) d)) =
        sql_update (issued_row (cr_id c)) (use_credential (clk 1) (clk 1) (sn_user sn) (sn_device sn)) (ad_creds d)"
    if "cr_status c = CredentialStatusIssued"
    using that assms(4) run [OF that] unfolding start
    by (simp_all add: judge_credential_def consume_and_log_def cred_outcome_def)
qed

text \<open>Accepting a pending transfer undisturbed.\<close>

lemma accept_tables:
  assumes "find_row tf_id tid (ad_transfers d) = Some t" "tf_state t = TransferStatePending"
  shows "ad_transfers (snd (accept_tx now tid uid at' d)) =
      sql_update (\<lambda>x. tf_id x = tid) (accepted_transfer uid at') (ad_transfers d)"
    "ad_creds (snd (accept_tx now tid uid at' d)) =
      sql_update (\<lambda>c. cr_id c = tf_credential t) (\<lambda>c. c\<lparr>cr_buyer := Some uid, cr_updated := now\<rparr>) (ad_creds d)"
    "fst (accept_tx now tid uid at' d) = Inr (accepted_transfer uid at' t)"
  using assms by (simp_all add: accept_tx_def)

lemma accept_alone:
  assumes "find_row tf_id tid (ad_transfers d) = Some t" "tf_state t = TransferStatePending"
    "tf_recipient t = Some uid" "find_row cr_id (tf_credential t) (ad_creds d) = Some c"
  shows "run_alone (AcceptTransfer all_work k now tid uid) d =
     (Inr (c\<lparr>cr_buyer := Some uid, cr_updated := now\<rparr>), snd (accept_tx now tid uid now d))"
proof -
  obtain d' where tx: "accept_tx now tid uid now d = (Inr (accepted_transfer uid now t), d')"
    using accept_tables(3) [OF assms(1,2)] by (metis prod.collapse)
  have "find_row cr_id (tf_credential t) (ad_creds d') = Some (c\<lparr>cr_buyer := Some uid, cr_updated := now\<rparr>)"
    using accept_tables(2) [OF assms(1,2), of now uid now] find_row_Some_iff_set [OF assms(4)] assms(4) tx
    by (simp add: passing.find_after)
  then show ?thesis
    using assms tx by (simp add: AcceptTransfer_def FindTransferByID_def Repo_AcceptTransfer_def Cred_FindByID_def all_work_def)
qed

section \<open>Properties\<close>

text \<open>
  C37: In every run of all requests and workers of attendance-service, interleaved call by call on
  any number of replicas, with failing calls, lost answers and crashes, at most one of the check-ins
  by token, by buyer and by hand is answered as an admission with a given credential, and then the
  credential is used up.
\<close>

theorem check_in_admits_once:
  assumes "pool_reach attendance_request d0 (d, ps)"
    "distinct (map cr_id (ad_creds d0))" "distinct (map cr_key (ad_creds d0))"
  shows "length (filter (gives (AnsAdmitted cid)) ps) \<le> of_bool (credential_used cid (ad_creds d))"
proof -
  obtain ds where ds: "list_all2 (\<lambda>p d. \<forall>a. p = Ret a \<longrightarrow> promise a d) ps ds" "attendance_inv d (sum_list ds)"
    using assms by (rule reached_answers)
  show ?thesis using count_promises [OF ds(1), of cid] attendance_invD(3) [OF ds(2), of cid] by simp
qed

text \<open>
  A concrete codec: fields are written character by character behind a mark and end with a bar;
  the encoding escapes dots, and the signature puts a key in front.
\<close>

fun field_text :: "string \<Rightarrow> string" where
  "field_text [] = ''|''"
| "field_text (c # s) = CHR ''x'' # c # field_text s"

fun read_field :: "string \<Rightarrow> (string \<times> string) option" where
  "read_field (m # s) =
     (if m = CHR ''|'' then Some ([], s)
      else case s of
        [] \<Rightarrow> None
      | c # t \<Rightarrow> (case read_field t of None \<Rightarrow> None | Some (u, rest) \<Rightarrow> Some (c # u, rest)))"
| "read_field [] = None"

lemma read_field_text [simp]: "read_field (field_text s @ rest) = Some (s, rest)"
  by (induction s) auto

fun read_fields :: "nat \<Rightarrow> string \<Rightarrow> string list" where
  "read_fields 0 s = []"
| "read_fields (Suc n) s = (case read_field s of None \<Rightarrow> [] | Some (u, rest) \<Rightarrow> u # read_fields n rest)"

definition toy_numbers :: "claims \<Rightarrow> int list" where
  "toy_numbers cl = [cl_v cl, cl_version cl, cl_issued cl, cl_expires cl]"

definition toy_marshal :: "claims \<Rightarrow> string option" where
  "toy_marshal cl =
     (if list_all (\<lambda>n. ParseInt (show_int n) = Some n) (toy_numbers cl)
      then Some (concat (map field_text ([cl_credential cl, cl_ticket cl, cl_event cl] @ map show_int (toy_numbers cl))))
      else None)"

definition toy_unmarshal :: "string \<Rightarrow> claims option" where
  "toy_unmarshal s =
     (case read_fields 7 s of
        [c, t, e, v, w, i, x] \<Rightarrow>
          Some \<lparr>cl_v = the (ParseInt v), cl_credential = c, cl_ticket = t, cl_event = e,
            cl_version = the (ParseInt w), cl_issued = the (ParseInt i), cl_expires = the (ParseInt x)\<rparr>
      | _ \<Rightarrow> None)"

fun toy_encode :: "string \<Rightarrow> string" where
  "toy_encode [] = []"
| "toy_encode (c # s) = (if c = dot then ''-d'' else [CHR ''-'', CHR ''-'', c]) @ toy_encode s"

fun toy_decode :: "string \<Rightarrow> string option" where
  "toy_decode [] = Some []"
| "toy_decode (m # k # s) =
     (if k = CHR ''d'' then map_option ((#) dot) (toy_decode s)
      else case s of [] \<Rightarrow> None | c # t \<Rightarrow> map_option ((#) c) (toy_decode t))"
| "toy_decode [m] = None"

definition toy_codec :: token_codec where
  "toy_codec = \<lparr>tc_sign = (\<lambda>p. ''key'' @ p), tc_encode = toy_encode, tc_decode = toy_decode,
     tc_marshal = toy_marshal, tc_unmarshal = toy_unmarshal, tc_hash = (\<lambda>x. x)\<rparr>"

lemma toy_decode_encode: "toy_decode (toy_encode x) = Some x \<and> dot \<notin> set (toy_encode x)"
  by (induction x) (auto simp: dot_def)

lemma toy_read_fields: "read_fields (length ss) (concat (map field_text ss)) = ss"
  by (induction ss) auto

lemma toy_codec_laws: "codec_laws toy_codec"
proof -
  have "toy_unmarshal p = Some cl" if "toy_marshal cl = Some p" for cl p
  proof -
    have p: "p = concat (map field_text ([cl_credential cl, cl_ticket cl, cl_event cl] @ map show_int (toy_numbers cl)))"
      "list_all (\<lambda>n. ParseInt (show_int n) = Some n) (toy_numbers cl)"
      using that by (simp_all add: toy_marshal_def split: if_splits)
    have "read_fields 7 p = [cl_credential cl, cl_ticket cl, cl_event cl] @ map show_int (toy_numbers cl)"
      using toy_read_fields [of "[cl_credential cl, cl_ticket cl, cl_event cl] @ map show_int (toy_numbers cl)"]
      unfolding p(1) by (simp add: toy_numbers_def eval_nat_numeral)
    then show ?thesis using p(2) by (simp add: toy_unmarshal_def toy_numbers_def)
  qed
  then show ?thesis by (simp add: codec_laws_def toy_codec_def toy_decode_encode)
qed

text \<open>
  A gate with its policy; an order of two units is handled, and its buyer is checked in twice.
  Nothing is read back here, so a codec that only writes will do.
\<close>

definition gate :: attendance_db where
  "gate = \<lparr>ad_creds = [], ad_transfers = [],
     ad_policies = [\<lparr>ap_id = ''p1'', ap_event = ''t1'', ap_ticket = None, ap_organizer = ''o1'', ap_require_qr = True,
        ap_allow_manual = True, ap_created = 1, ap_updated = 1\<rparr>],
     ad_scans = [], ad_outbox = [], ad_topic = [], ad_dlq = []\<rparr>"

definition writing_codec :: token_codec where
  "writing_codec = \<lparr>tc_sign = (\<lambda>p. []), tc_encode = (\<lambda>x. x), tc_decode = (\<lambda>x. None),
     tc_marshal = (\<lambda>cl. Some (cl_credential cl)), tc_unmarshal = (\<lambda>p. None), tc_hash = (\<lambda>x. x)\<rparr>"

definition pair_order :: order_completed where
  "pair_order = \<lparr>oc_order = ''o'', oc_user = ''u1'', oc_ticket = ''t1'', oc_reservation = ''r1'', oc_quantity = 2,
     oc_version = 1, oc_seats = []\<rparr>"

definition pair_ids :: "nat \<Rightarrow> nat \<Rightarrow> string \<times> string" where
  "pair_ids n k = (if k = 0 then (''c0'', ''i0'') else (''c1'', ''i1''))"

definition handle_pair :: "(attendance_db, attendance_answer) proc" where
  "handle_pair = answering (consumer_answer (Some pair_order))
     (consume_completed writing_codec 1000 (\<lambda>n. all_work) pair_ids (\<lambda>n k. 5) (\<lambda>n. False) Works (Some pair_order))"

definition admit_buyer :: "string \<Rightarrow> (attendance_db, attendance_answer) proc" where
  "admit_buyer sid = answering scan_answer
     (Handler_CheckInByBuyer (Some (\<lambda>eid. GrpcOwner ''o1'')) all_work (\<lambda>k. 7) sid ''o1''
        \<lparr>sr_token = [], sr_event = ''t1'', sr_buyer = ''u1'', sr_device = ''d1'', sr_gate = None\<rparr>)"

definition issued_pair :: "attendance_answer \<times> attendance_db" where
  "issued_pair = run_alone handle_pair gate"

definition first_scan :: "attendance_answer \<times> attendance_db" where
  "first_scan = run_alone (admit_buyer ''s1'') (snd issued_pair)"

definition second_scan :: "attendance_answer \<times> attendance_db" where
  "second_scan = run_alone (admit_buyer ''s2'') (snd first_scan)"

lemma scans_reached:
  "pool_reach attendance_request gate (snd second_scan, [Ret (fst second_scan), Ret (fst first_scan), Ret (fst issued_pair)])"
proof -
  have start: "attendance_request handle_pair" "attendance_request (admit_buyer sid)" for sid
    unfolding handle_pair_def admit_buyer_def by (rule attendance_request.order, rule attendance_request.by_buyer)
  show ?thesis
    unfolding second_scan_def first_scan_def issued_pair_def
    by (intro pool_request pool_reach.init start)
qed

lemma gate_keys: "distinct (map cr_id (ad_creds gate))" "distinct (map cr_key (ad_creds gate))"
  by (simp_all add: gate_def)

lemma scan_answers:
  "fst issued_pair = AnsHandled (Some pair_order)" "fst first_scan = AnsAdmitted ''c1''" "fst second_scan = AnsOther"
  by code_simp+

lemma check_in_admits_once_witness:
  "gives (AnsAdmitted ''c1'') (Ret (fst first_scan)) \<and>
   length (filter (gives (AnsAdmitted ''c1'')) [Ret (fst second_scan), Ret (fst first_scan), Ret (fst issued_pair)])
     \<le> of_bool (credential_used ''c1'' (ad_creds (snd second_scan)))"
  using check_in_admits_once [OF scans_reached gate_keys] scan_answers(2) by (simp only: gives_def proc.case simp_thms)

text \<open>
  C38: In every reachable state the credentials have different identifiers and different issuance
  keys, and an order that the consumer reported as handled has exactly one credential for each of
  its seats, or for each unit of its quantity, however often it was delivered and on however many
  replicas at once.
\<close>

theorem handled_orders_are_issued:
  assumes "pool_reach attendance_request d0 (d, ps)"
    "distinct (map cr_id (ad_creds d0))" "distinct (map cr_key (ad_creds d0))"
  shows "distinct (map cr_id (ad_creds d)) \<and> distinct (map cr_key (ad_creds d)) \<and>
    (Ret (AnsHandled (Some data)) \<in> set ps \<longrightarrow>
       (\<forall>key \<in> set (admissionUnits (normal_order data)). \<exists>!c. c \<in> set (ad_creds d) \<and> cr_key c = key))"
proof -
  obtain ds where ds: "list_all2 (\<lambda>p d. \<forall>a. p = Ret a \<longrightarrow> promise a d) ps ds" "attendance_inv d (sum_list ds)"
    using assms by (rule reached_answers)
  note inv = attendance_invD [OF ds(2)]
  have "\<exists>!c. c \<in> set (ad_creds d) \<and> cr_key c = key"
    if "Ret (AnsHandled (Some data)) \<in> set ps" "key \<in> set (admissionUnits (normal_order data))" for key
  proof -
    have "key \<in> cr_key ` set (ad_creds d)"
      using inv(4) handled_promise [OF ds(1) that(1)] that(2) by (simp add: order_keys_def)
    then show ?thesis using distinct_key_eq [OF inv(2)] by blast
  qed
  then show ?thesis using inv(1,2) by blast
qed

lemma handled_orders_are_issued_witness:
  "(\<exists>!c. c \<in> set (ad_creds (snd second_scan)) \<and> cr_key c = ''o:unit:1'') \<and> fst issued_pair = AnsHandled (Some pair_order)"
proof -
  have units: "admissionUnits (normal_order pair_order) = [''o:unit:0'', ''o:unit:1'']" by code_simp
  show ?thesis
    using handled_orders_are_issued [OF scans_reached gate_keys, of pair_order] scan_answers(1) units by simp
qed

text \<open>
  C39: A transfer that is still pending hands the pass to its recipient whoever owns it by then:
  of two pending transfers of one pass, the recipient of the first has the pass after accepting it,
  and loses it when the recipient of the other accepts.
\<close>

theorem pending_transfer_takes_over:
  assumes "find_row tf_id tid1 (ad_transfers d) = Some t1" "find_row tf_id tid2 (ad_transfers d) = Some t2"
    "tid1 \<noteq> tid2" "tf_credential t1 = cid" "tf_credential t2 = cid"
    "tf_state t1 = TransferStatePending" "tf_state t2 = TransferStatePending"
    "tf_recipient t1 = Some a" "tf_recipient t2 = Some b" "find_row cr_id cid (ad_creds d) = Some c"
  shows "(let (r1, d1) = run_alone (AcceptTransfer all_work k now tid1 a) d;
              (r2, d2) = run_alone (AcceptTransfer all_work k later tid2 b) d1 in
    map_option cr_buyer (find_row cr_id cid (ad_creds d1)) = Some (Some a) \<and>
    r2 = Inr (c\<lparr>cr_buyer := Some b, cr_updated := later\<rparr>) \<and>
    map_option cr_buyer (find_row cr_id cid (ad_creds d2)) = Some (Some b))"
proof -
  define d1 where "d1 = snd (accept_tx now tid1 a now d)"
  have first: "run_alone (AcceptTransfer all_work k now tid1 a) d =
      (Inr (c\<lparr>cr_buyer := Some a, cr_updated := now\<rparr>), d1)"
    using accept_alone [OF assms(1,6,8), of c] assms(4,10) by (simp add: d1_def)
  have d1: "find_row cr_id cid (ad_creds d1) = Some (c\<lparr>cr_buyer := Some a, cr_updated := now\<rparr>)"
    "find_row tf_id tid2 (ad_transfers d1) = Some t2"
    using accept_tables [OF assms(1,6), of now a now] assms find_row_Some_iff_set [OF assms(10)]
      find_row_Some_iff_set [OF assms(2)]
    unfolding d1_def by (simp_all add: passing.find_after accepting.find_after)
  note second = accept_alone [OF d1(2) assms(7,9), unfolded assms(5), OF d1(1), of k later]
  have "find_row cr_id cid (ad_creds (snd (accept_tx later tid2 b later d1))) =
      Some (c\<lparr>cr_buyer := Some b, cr_updated := later\<rparr>)"
    using accept_tables [OF d1(2) assms(7), of later b later] assms(5) d1(1) find_row_Some_iff_set [OF assms(10)]
    by (simp add: passing.find_after)
  then show ?thesis using first second d1(1) by simp
qed

text \<open>A pass of \<open>u1\<close>, promised to two friends.\<close>

definition pass_of_u1 :: credential where
  "pass_of_u1 = inserted 5 (new_credential ''c0'' ''i0'' 5 pair_order ''t1'' ''o:unit:0'' ''token'')"

definition twice_promised :: attendance_db where
  "twice_promised = gate\<lparr>ad_creds := [pass_of_u1],
     ad_transfers := [new_transfer ''x1'' ''c0'' ''u1'' ''a'' ''a@x'' 6, new_transfer ''x2'' ''c0'' ''u1'' ''b'' ''b@x'' 6]\<rparr>"

lemma pending_transfer_takes_over_witness:
  "fst (run_alone (AcceptTransfer all_work 0 9 ''x2'' ''b'')
      (snd (run_alone (AcceptTransfer all_work 0 8 ''x1'' ''a'') twice_promised))) =
   Inr (pass_of_u1\<lparr>cr_buyer := Some ''b'', cr_updated := 9\<rparr>)"
proof -
  have "find_row tf_id ''x1'' (ad_transfers twice_promised) = Some (new_transfer ''x1'' ''c0'' ''u1'' ''a'' ''a@x'' 6)"
    "find_row tf_id ''x2'' (ad_transfers twice_promised) = Some (new_transfer ''x2'' ''c0'' ''u1'' ''b'' ''b@x'' 6)"
    "find_row cr_id ''c0'' (ad_creds twice_promised) = Some pass_of_u1"
    by (simp_all add: twice_promised_def new_transfer_def pass_of_u1_def inserted_def new_credential_def)
  from pending_transfer_takes_over [OF this(1,2) _ _ _ _ _ _ _ this(3), of "''a''" "''b''" 0 8 9]
  show ?thesis by (simp add: new_transfer_def Let_def split: prod.splits)
qed

text \<open>
  C11: A pass that is issued opens the gate of its event once: its token is checked in as valid and
  the next check-in with it is answered as already used, as long as the token has not expired.
\<close>

theorem issued_pass_admits_once:
  assumes "codec_laws tc" "Generate tc (issued_claims cid (clock k) ttl data (oc_ticket data)) = Some token"
    "ids k = (cid, tid)" "find_row cr_key key (ad_creds d) = None" "cid \<notin> cr_id ` set (ad_creds d)"
    "tid \<notin> cr_token_id ` set (ad_creds d)" "cid \<notin> co_id ` set (ad_outbox d)"
    "clk 0 \<le> clock k + ttl" "later 0 \<le> clock k + ttl"
  shows "(let (r0, d0) = run_alone (issueOne tc ttl all_work k ids clock data (oc_ticket data) key) d;
              (r1, d1) = run_alone (CheckIn tc all_work 0 clk sid sn token (oc_ticket data)) d0;
              (r2, d2) = run_alone (CheckIn tc all_work 0 later sid' sn' token (oc_ticket data)) d1 in
    r0 = Inr () \<and>
    r1 = Inr \<lparr>so_result = ScanResultValid, so_credential = cid, so_event = oc_ticket data,
              so_status = Some CredentialStatusUsed\<rparr> \<and>
    r2 = Inr \<lparr>so_result = ScanResultAlreadyUsed, so_credential = cid, so_event = oc_ticket data,
              so_status = Some CredentialStatusUsed\<rparr>)"
proof -
  let ?cl = "issued_claims cid (clock k) ttl data (oc_ticket data)"
  let ?c = "inserted (clock k) (new_credential cid tid (clock k) data (oc_ticket data) key token)"
  let ?use = "use_credential (clk 1) (clk 1) (sn_user sn) (sn_device sn)"
  define d0 where "d0 = snd (run_alone (issueOne tc ttl all_work k ids clock data (oc_ticket data) key) d)"
  define d1 where "d1 = snd (run_alone (CheckIn tc all_work 0 clk sid sn token (oc_ticket data)) d0)"
  have verified: "Verify tc t token = Inr ?cl" if "t \<le> clock k + ttl" for t
    using Verify_Generate [OF assms(1,2), of t] that by (simp add: issued_claims_def)
  note c = new_credential_def inserted_def issued_claims_def
  have "find_row cr_id cid (ad_creds d) = None" using assms(5) by (simp add: find_row_None_iff)
  then have d0: "find_row cr_id (cl_credential ?cl) (ad_creds d0) = Some ?c"
    using issue_new(2) [where ids = ids and k = k and clock = clock, OF assms(4-7,3,2)] by (simp add: d0_def c)
  have first: "fst (run_alone (CheckIn tc all_work 0 clk sid sn token (oc_ticket data)) d0) =
        Inr (cred_outcome ScanResultValid (?c\<lparr>cr_status := CredentialStatusUsed\<rparr>))"
      "ad_creds d1 = sql_update (issued_row (cr_id ?c)) ?use (ad_creds d0)"
    unfolding d1_def using check_in_known(2,3) [where clk = clk, OF verified [OF assms(8)] _ d0] by (simp_all add: c)
  have used: "find_row cr_id (cl_credential ?cl) (ad_creds d1) = Some (?use ?c)"
    using first(2) d0 by (simp add: using_up.find_after issued_row_def c)
  have "fst (run_alone (CheckIn tc all_work 0 later sid' sn' token (oc_ticket data)) d1) =
      Inr (cred_outcome ScanResultAlreadyUsed (?use ?c))"
    by (rule check_in_known(1) [where clk = later, OF verified [OF assms(9)] _ used]) (simp_all add: c use_credential_def)
  then show ?thesis
    using issue_new(1) [where ids = ids and k = k and clock = clock, OF assms(4-7,3,2)] first(1)
    by (simp add: d0_def d1_def cred_outcome_def c use_credential_def split_beta Let_def)
qed

lemma issued_pass_admits_once_witness:
  "\<exists>token. Generate toy_codec (issued_claims ''c0'' 5 1000 pair_order ''t1'') = Some token \<and>
     fst (run_alone (CheckIn toy_codec all_work 0 (\<lambda>k. 7) ''s1'' \<lparr>sn_user = ''o1'', sn_device = ''d1'', sn_gate = None\<rparr> token ''t1'')
       (snd (run_alone (issueOne toy_codec 1000 all_work 0 (pair_ids 0) (\<lambda>k. 5) pair_order ''t1'' ''o:unit:0'') gate))) =
     Inr \<lparr>so_result = ScanResultValid, so_credential = ''c0'', so_event = ''t1'', so_status = Some CredentialStatusUsed\<rparr>"
proof -
  have "toy_marshal (issued_claims ''c0'' 5 1000 pair_order ''t1'') \<noteq> None"
    by (simp add: toy_marshal_def toy_numbers_def issued_claims_def ParseInt_show)
  then obtain token where token: "Generate toy_codec (issued_claims ''c0'' 5 1000 pair_order ''t1'') = Some token"
    by (auto simp: Generate_def toy_codec_def Let_def)
  have gate: "ad_creds gate = []" "ad_outbox gate = []" and order: "oc_ticket pair_order = ''t1''"
    by (simp_all add: gate_def pair_order_def)
  from issued_pass_admits_once [OF toy_codec_laws, of "''c0''" "\<lambda>k. 5" 0 1000 pair_order token "pair_ids 0" "''i0''"
      "''o:unit:0''" gate "\<lambda>k. 7" "\<lambda>k. 8" "''s1''" "\<lparr>sn_user = ''o1'', sn_device = ''d1'', sn_gate = None\<rparr>"]
  show ?thesis
    using token by (simp add: pair_ids_def gate order split_beta Let_def)
qed

end
