(* ===== verification/Expiration_Service.thy ===== *)
theory Expiration_Service
  imports Interleaving "HOL-Library.Word" "HOL-Library.Signed_Division"
begin

text \<open>
  Expiration-service: it reads \<^verbatim>\<open>orders.order.created\<close> (\<^verbatim>\<open>internal/kafka/consumer.go\<close>), schedules one
  delayed task per order (\<^verbatim>\<open>internal/scheduler/scheduler.go\<close>, the callback in \<^verbatim>\<open>cmd/server/main.go\<close>),
  and when a task fires publishes \<^verbatim>\<open>expiration.order.expiration_complete\<close> (\<^verbatim>\<open>internal/worker/worker.go\<close>,
  \<^verbatim>\<open>internal/kafka/kafka.go\<close>). The task queue is the library asynq: its state is a type \<open>'q\<close> and its
  enqueue operation a parameter, with the documented behaviour of task identifiers as a hypothesis.
  Times are milliseconds; the JSON decoders and the RFC 3339 parser are parameters.
\<close>

section \<open>Messages and state\<close>

definition TopicOrderCreated :: string where "TopicOrderCreated = ''orders.order.created''"
definition TopicExpirationComplete :: string where
  "TopicExpirationComplete = ''expiration.order.expiration_complete''"
definition TopicExpirationCompleteDLQ :: string where
  "TopicExpirationCompleteDLQ = ''expiration.order.expiration_complete.dlq''"

text \<open>The fields of the order event that are read, and a message with its headers.\<close>

record created_data =
  cd_order :: string
  cd_user :: string
  cd_ticket :: string
  cd_title :: string
  cd_price :: string
  cd_expires :: string
  cd_version :: int

record kafka_message =
  km_key :: string
  km_value :: string
  km_headers :: "(string \<times> string) list"

record expiration_event =
  xe_specversion :: string
  xe_type :: string
  xe_source :: string
  xe_id :: string
  xe_time :: string
  xe_content :: string
  xe_order :: string

record expiration_payload =
  ep_order :: string
  ep_trace :: "(string \<times> string) list"

definition TaskTypeOrderExpiration :: string where
  "TaskTypeOrderExpiration = ''order:expire''"

text \<open>The options of a task: type, payload, identifier, delay, retries and retention.\<close>

record expiration_task =
  et_type :: string
  et_payload :: expiration_payload
  et_id :: string
  et_delay :: int
  et_retry :: nat
  et_retention :: int

datatype expiration_error =
    XDecode | XParseTime | XEnqueue | XTaskIDConflict | XProduce | XCancelled | XTaskType | XNoDLQ

text \<open>
  The queue, the two topics the service writes with their keys, and how many messages of the
  consumed partition are committed.
\<close>

record 'q expiration_world =
  xw_queue :: 'q
  xw_topic :: "(string \<times> expiration_event) list"
  xw_dlq :: "kafka_message list"
  xw_committed :: nat

section \<open>Scheduling\<close>

text \<open>\<open>enq\<close> is asynq's \<^verbatim>\<open>EnqueueContext\<close>; a conflict of task identifiers counts as success.\<close>

definition isTaskIDConflict :: "expiration_error \<Rightarrow> bool" where
  "isTaskIDConflict e \<longleftrightarrow> e = XTaskIDConflict"

definition expiration_task_of :: "string \<Rightarrow> (string \<times> string) list \<Rightarrow> int \<Rightarrow> int \<Rightarrow> expiration_task" where
  "expiration_task_of orderID trace now expiresAt =
     (let delay = expiresAt - now in
      \<lparr>et_type = TaskTypeOrderExpiration, et_payload = \<lparr>ep_order = orderID, ep_trace = trace\<rparr>, et_id = orderID,
       et_delay = (if delay < 0 then 0 else delay), et_retry = 3, et_retention = 24 * 3600 * 1000\<rparr>)"

definition ScheduleExpiration ::
  "(expiration_task \<Rightarrow> 'q \<Rightarrow> (expiration_error + unit) \<times> 'q) \<Rightarrow> outcome \<Rightarrow> int \<Rightarrow> (string \<times> string) list \<Rightarrow> string \<Rightarrow> int
     \<Rightarrow> ('q expiration_world, expiration_error + unit) proc" where
  "ScheduleExpiration enq oc now trace orderID expiresAt =
     call oc (\<lambda>w. case enq (expiration_task_of orderID trace now expiresAt) (xw_queue w) of (r, q) \<Rightarrow> (r, w\<lparr>xw_queue := q\<rparr>))
       (\<lambda>x. Ret (case x of
          None \<Rightarrow> Inl XEnqueue
        | Some (Inl e) \<Rightarrow> if isTaskIDConflict e then Inr () else Inl XEnqueue
        | Some (Inr u) \<Rightarrow> Inr ()))"

text \<open>The callback of the consumer.\<close>

definition schedule_order ::
  "(expiration_task \<Rightarrow> 'q \<Rightarrow> (expiration_error + unit) \<times> 'q) \<Rightarrow> (string \<Rightarrow> int option) \<Rightarrow> outcome \<Rightarrow> int
     \<Rightarrow> (string \<times> string) list \<Rightarrow> created_data \<Rightarrow> ('q expiration_world, expiration_error + unit) proc" where
  "schedule_order enq parse oc now trace data =
     (case parse (cd_expires data) of
        None \<Rightarrow> Ret (Inl XParseTime)
      | Some expiresAt \<Rightarrow> ScheduleExpiration enq oc now trace (cd_order data) expiresAt)"

section \<open>Publishing\<close>

definition PublishExpirationComplete ::
  "outcome \<Rightarrow> string \<Rightarrow> string \<Rightarrow> string \<Rightarrow> ('q expiration_world, expiration_error + unit) proc" where
  "PublishExpirationComplete oc eid time orderID =
     call oc (\<lambda>w. ((), w\<lparr>xw_topic := xw_topic w @ [(orderID,
           \<lparr>xe_specversion = ''1.0'', xe_type = TopicExpirationComplete, xe_source = ''expiration-service'', xe_id = eid,
            xe_time = time, xe_content = ''application/json'', xe_order = orderID\<rparr>)]\<rparr>))
       (\<lambda>x. Ret (case x of None \<Rightarrow> Inl XProduce | Some u \<Rightarrow> Inr ()))"

text \<open>\<open>inject\<close> adds the trace context to the headers, \<open>err\<close> is the text of the failure.\<close>

definition PublishToDLQ ::
  "((string \<times> string) list \<Rightarrow> (string \<times> string) list) \<Rightarrow> outcome \<Rightarrow> string \<Rightarrow> kafka_message \<Rightarrow> string
     \<Rightarrow> ('q expiration_world, expiration_error + unit) proc" where
  "PublishToDLQ inject oc sourceTopic msg err =
     call oc (\<lambda>w. ((), w\<lparr>xw_dlq := xw_dlq w @ [msg\<lparr>km_headers :=
           inject (km_headers msg @ [(''x-dlq-source-topic'', sourceTopic), (''x-dlq-error'', err)])\<rparr>]\<rparr>))
       (\<lambda>x. Ret (case x of None \<Rightarrow> Inl XProduce | Some u \<Rightarrow> Inr ()))"

section \<open>The worker\<close>

text \<open>A task that fires; its payload may not decode.\<close>

definition ProcessTask ::
  "outcome \<Rightarrow> string \<Rightarrow> string \<Rightarrow> string \<Rightarrow> expiration_payload option \<Rightarrow> ('q expiration_world, expiration_error + unit) proc" where
  "ProcessTask oc eid time type payload =
     (if type \<noteq> TaskTypeOrderExpiration then Ret (Inl XTaskType)
      else case payload of
        None \<Rightarrow> Ret (Inl XDecode)
      | Some p \<Rightarrow> PublishExpirationComplete oc eid time (ep_order p))"

section \<open>The consumer\<close>

definition maxRetries :: nat where "maxRetries = 3"
definition baseRetryDelay :: int where "baseRetryDelay = 1000000000"
definition maxRetryDelay :: int where "maxRetryDelay = 30000000000"

text \<open>
  \<^verbatim>\<open>exponentialBackoffWithJitter\<close> in nanoseconds: the shift and the product wrap around at 64 bits,
  \<open>rand n\<close> is \<^verbatim>\<open>rand.Int63n(n)\<close>, which panics unless \<open>n\<close> is positive.
\<close>

definition exponentialBackoffWithJitter :: "(int \<Rightarrow> int) \<Rightarrow> nat \<Rightarrow> int \<Rightarrow> int \<Rightarrow> int option" where
  "exponentialBackoffWithJitter rand attempt base mx =
     (let e = sint (word_of_int base * push_bit attempt 1 :: 64 word);
          half = (if e > mx then mx else e) sdiv 2
      in if half + 1 \<le> 0 then None else Some (half + rand (half + 1)))"

text \<open>
  The attempts of one message: \<open>handle\<close> is the callback in its n-th attempt, \<open>stop n\<close> says that the
  context is cancelled during the pause before it. The result is the error of the last attempt.
\<close>

fun created_attempts ::
  "(nat \<Rightarrow> ('q expiration_world, expiration_error + unit) proc) \<Rightarrow> (nat \<Rightarrow> bool) \<Rightarrow> nat \<Rightarrow> nat \<Rightarrow> expiration_error
     \<Rightarrow> ('q expiration_world, (expiration_error + expiration_error) + unit) proc" where
  "created_attempts handle stop attempt 0 lastErr = Ret (Inl (Inr lastErr))"
| "created_attempts handle stop attempt (Suc n) lastErr =
     (if attempt > 0 \<and> stop attempt then Ret (Inl (Inl XCancelled))
      else bind_proc (handle attempt) (\<lambda>r. case r of
             Inr u \<Rightarrow> Ret (Inr ())
           | Inl e \<Rightarrow> created_attempts handle stop (attempt + 1) n e))"

text \<open>
  One message: it is decoded in two steps, handled, and moved to the dead-letter topic when every
  attempt failed; \<open>dlq\<close> is the producer, if there is one. An error of \<open>Inl (Inl e)\<close> above returns at
  once, one of \<open>Inl (Inr e)\<close> means that the attempts are exhausted.
\<close>

record 'q expiration_env =
  xv_enqueue :: "expiration_task \<Rightarrow> 'q \<Rightarrow> (expiration_error + unit) \<times> 'q"
  xv_parse :: "string \<Rightarrow> int option"
  xv_envelope :: "string \<Rightarrow> string option"
  xv_data :: "string \<Rightarrow> created_data option"
  xv_trace :: "(string \<times> string) list \<Rightarrow> (string \<times> string) list"
  xv_inject :: "(string \<times> string) list \<Rightarrow> (string \<times> string) list"
  xv_error :: "expiration_error \<Rightarrow> string"

definition decode_created :: "'q expiration_env \<Rightarrow> kafka_message \<Rightarrow> created_data option" where
  "decode_created E msg = (case xv_envelope E (km_value msg) of None \<Rightarrow> None | Some d \<Rightarrow> xv_data E d)"

definition exhausted ::
  "'q expiration_env \<Rightarrow> outcome option \<Rightarrow> kafka_message \<Rightarrow> expiration_error
     \<Rightarrow> ('q expiration_world, expiration_error + unit) proc" where
  "exhausted E dlq msg lastErr =
     (case dlq of
        None \<Rightarrow> Ret (Inl XNoDLQ)
      | Some oc \<Rightarrow> bind_proc (PublishToDLQ (xv_inject E) oc TopicOrderCreated msg (xv_error E lastErr))
          (\<lambda>r. Ret (case r of Inl e \<Rightarrow> Inl e | Inr u \<Rightarrow> Inr ())))"

definition processCreated ::
  "'q expiration_env \<Rightarrow> outcome option \<Rightarrow> (nat \<Rightarrow> outcome) \<Rightarrow> (nat \<Rightarrow> int) \<Rightarrow> (nat \<Rightarrow> bool) \<Rightarrow> kafka_message
     \<Rightarrow> ('q expiration_world, expiration_error + unit) proc" where
  "processCreated E dlq f clock stop msg =
     (case decode_created E msg of
        None \<Rightarrow> Ret (Inl XDecode)
      | Some data \<Rightarrow>
          bind_proc (created_attempts
              (\<lambda>n. schedule_order (xv_enqueue E) (xv_parse E) (f n) (clock n) (xv_trace E (km_headers msg)) data)
              stop 0 maxRetries XDecode)
            (\<lambda>r. case r of
               Inr u \<Rightarrow> Ret (Inr ())
             | Inl (Inl e) \<Rightarrow> Ret (Inl e)
             | Inl (Inr lastErr) \<Rightarrow> exhausted E dlq msg lastErr))"

text \<open>The loop: the offset is committed whatever processing answered; a commit may fail.\<close>

definition consume_created ::
  "'q expiration_env \<Rightarrow> outcome option \<Rightarrow> (nat \<Rightarrow> outcome) \<Rightarrow> (nat \<Rightarrow> int) \<Rightarrow> (nat \<Rightarrow> bool) \<Rightarrow> outcome \<Rightarrow> nat
     \<Rightarrow> kafka_message \<Rightarrow> ('q expiration_world, expiration_error + unit) proc" where
  "consume_created E dlq f clock stop oc offset msg =
     bind_proc (processCreated E dlq f clock stop msg) (\<lambda>r.
       call oc (\<lambda>w. ((), w\<lparr>xw_committed := offset + 1\<rparr>)) (\<lambda>x. Ret r))"

section \<open>The delay stays between half the step and the step\<close>

lemma backoff_step:
  assumes "attempt < 3"
  shows "sint (word_of_int baseRetryDelay * push_bit attempt 1 :: 64 word) = 1000000000 * 2 ^ attempt"
proof -
  have "attempt = 0 \<or> attempt = 1 \<or> attempt = 2" using assms by linarith
  then show ?thesis by (auto simp: baseRetryDelay_def push_bit_eq_mult)
qed

lemma jitter_bounds:
  assumes "attempt < 3" "\<And>n. 0 < n \<Longrightarrow> 0 \<le> rand n \<and> rand n < n"
  shows "\<exists>d. exponentialBackoffWithJitter rand attempt baseRetryDelay maxRetryDelay = Some d \<and>
    500000000 * 2 ^ attempt \<le> d \<and> d \<le> 1000000000 * 2 ^ attempt"
proof -
  have "attempt = 0 \<or> attempt = 1 \<or> attempt = 2" using assms(1) by linarith
  then show ?thesis
    using backoff_step [OF assms(1)] assms(2) [of 500000001] assms(2) [of 1000000001] assms(2) [of 2000000001]
    by (auto simp: exponentialBackoffWithJitter_def maxRetryDelay_def Let_def signed_divide_int_def)
qed

section \<open>What becomes of a message\<close>

text \<open>
  What the documentation of asynq says of task identifiers: a task is accepted unless one with its
  identifier is still there, which is an error of its own and changes nothing; \<open>has\<close> says which
  identifiers are there.
\<close>

definition asynq_laws ::
  "(expiration_task \<Rightarrow> 'q \<Rightarrow> (expiration_error + unit) \<times> 'q) \<Rightarrow> (string \<Rightarrow> 'q \<Rightarrow> bool) \<Rightarrow> bool" where
  "asynq_laws enq has \<longleftrightarrow> (\<forall>t q. et_id t \<noteq> [] \<longrightarrow>
     (if has (et_id t) q then enq t q = (Inl XTaskIDConflict, q)
      else fst (enq t q) = Inr () \<and> (\<forall>i. has i (snd (enq t q)) \<longleftrightarrow> i = et_id t \<or> has i q)))"

lemma task_id [simp]: "et_id (expiration_task_of orderID trace now expiresAt) = orderID"
  by (simp add: expiration_task_of_def Let_def)

text \<open>One attempt: success means that the task is there; a task that is there is left alone.\<close>

lemma run_schedule:
  assumes "asynq_laws enq has" "cd_order data \<noteq> []"
    "run_alone (schedule_order enq parse oc now trace data) w = (r, w')"
  shows "(r = Inr () \<longrightarrow> has (cd_order data) (xw_queue w')) \<and>
    (has (cd_order data) (xw_queue w) \<longrightarrow> xw_queue w' = xw_queue w) \<and>
    xw_dlq w' = xw_dlq w \<and> xw_topic w' = xw_topic w"
proof (cases "parse (cd_expires data)")
  case None
  then show ?thesis using assms(3) by (auto simp: schedule_order_def)
next
  case (Some t)
  let ?t = "expiration_task_of (cd_order data) trace now t"
  have law: "if has (cd_order data) q then enq ?t q = (Inl XTaskIDConflict, q)
      else fst (enq ?t q) = Inr () \<and> (\<forall>i. has i (snd (enq ?t q)) \<longleftrightarrow> i = cd_order data \<or> has i q)" for q
    using assms(1,2) by (simp add: asynq_laws_def)
  show ?thesis
    using assms(3) Some law [of "xw_queue w"]
    by (cases oc; cases "enq ?t (xw_queue w)"; cases "fst (enq ?t (xw_queue w))")
      (auto simp: schedule_order_def ScheduleExpiration_def isTaskIDConflict_def split: if_splits)
qed

definition left_alone :: "'q expiration_world \<Rightarrow> 'q expiration_world \<Rightarrow> bool" where
  "left_alone w w' \<longleftrightarrow> xw_dlq w' = xw_dlq w \<and> xw_topic w' = xw_topic w"

lemma run_attempts:
  assumes "asynq_laws enq has" "cd_order data \<noteq> []"
    "run_alone (created_attempts (\<lambda>n. schedule_order enq parse (f n) (clock n) trace data) stop a n e) w = (r, w')"
  shows "(r = Inr () \<longrightarrow> has (cd_order data) (xw_queue w')) \<and>
    (has (cd_order data) (xw_queue w) \<longrightarrow> xw_queue w' = xw_queue w) \<and> left_alone w w'"
  using assms(3)
proof (induction n arbitrary: a e w)
  case 0
  then show ?case by (auto simp: left_alone_def)
next
  case (Suc n)
  show ?case
  proof (cases "a > 0 \<and> stop a")
    case True
    then show ?thesis using Suc.prems by (auto simp: left_alone_def)
  next
    case False
    obtain r1 w1 where first: "run_alone (schedule_order enq parse (f a) (clock a) trace data) w = (r1, w1)"
      by (cases "run_alone (schedule_order enq parse (f a) (clock a) trace data) w")
    note one = run_schedule [OF assms(1,2) first]
    show ?thesis
    proof (cases r1)
      case (Inl e1)
      then have "run_alone (created_attempts (\<lambda>n. schedule_order enq parse (f n) (clock n) trace data) stop (a + 1) n e1) w1 = (r, w')"
        using Suc.prems False first by (auto split: if_splits)
      from Suc.IH [OF this] one show ?thesis by (auto simp: left_alone_def)
    next
      case (Inr u)
      then show ?thesis using Suc.prems False first one by (auto simp: left_alone_def split: if_splits)
    qed
  qed
qed

definition dead_letter_of :: "'q expiration_env \<Rightarrow> kafka_message \<Rightarrow> expiration_error \<Rightarrow> kafka_message" where
  "dead_letter_of E msg e = msg\<lparr>km_headers := xv_inject E
     (km_headers msg @ [(''x-dlq-source-topic'', TopicOrderCreated), (''x-dlq-error'', xv_error E e)])\<rparr>"

lemma run_exhausted:
  "run_alone (exhausted E dlq msg e) w = (r, w') \<Longrightarrow>
   xw_queue w' = xw_queue w \<and> xw_topic w' = xw_topic w \<and> (r = Inr () \<longrightarrow> xw_dlq w' = xw_dlq w @ [dead_letter_of E msg e])"
  by (auto simp: exhausted_def PublishToDLQ_def dead_letter_of_def split: option.splits outcome.splits)

section \<open>Properties\<close>


text \<open>A queue that is the list of its tasks; an order, and a message of garbage.\<close>

definition list_enqueue :: "expiration_task \<Rightarrow> expiration_task list \<Rightarrow> (expiration_error + unit) \<times> expiration_task list" where
  "list_enqueue t q = (if et_id t \<in> et_id ` set q then (Inl XTaskIDConflict, q) else (Inr (), q @ [t]))"

definition small_env :: "expiration_task list expiration_env" where
  "small_env = \<lparr>xv_enqueue = list_enqueue, xv_parse = (\<lambda>s. Some 900000),
     xv_envelope = (\<lambda>v. if v = ''garbage'' then None else Some v),
     xv_data = (\<lambda>v. Some \<lparr>cd_order = v, cd_user = ''u'', cd_ticket = ''t'', cd_title = ''T'', cd_price = ''5'',
        cd_expires = ''soon'', cd_version = 0\<rparr>),
     xv_trace = (\<lambda>h. []), xv_inject = (\<lambda>h. h), xv_error = (\<lambda>e. ''failed'')\<rparr>"

definition order_message_of :: "string \<Rightarrow> kafka_message" where
  "order_message_of v = \<lparr>km_key = v, km_value = v, km_headers = []\<rparr>"

definition empty_expirations :: "expiration_task list expiration_world" where
  "empty_expirations = \<lparr>xw_queue = [], xw_topic = [], xw_dlq = [], xw_committed = 0\<rparr>"

lemma list_enqueue_laws: "asynq_laws list_enqueue (\<lambda>i q. i \<in> et_id ` set q)"
  by (auto simp: asynq_laws_def list_enqueue_def)


end
