(* ===== verification/User_Signature.thy ===== *)
theory User_Signature
  imports Go_Text "HOL-Library.Signed_Division"
begin

text \<open>
  Who a request acts for: the signed user header of the gateway
  (\<^verbatim>\<open>internal/security/user_id_signature.go\<close>, the same file in venue-, ticket- and attendance-service),
  the check in front of their GraphQL endpoints (\<^verbatim>\<open>internal/graphql/auth.go\<close>), the header check of
  attendance-service (\<^verbatim>\<open>internal/middleware/auth.go\<close>), and the roles header of ticket-service
  (\<^verbatim>\<open>internal/security/role_validator.go\<close>). HMAC-SHA256 with the signing key, in base64, is the
  parameter \<open>sign\<close>; times are seconds.
\<close>

section \<open>The signature\<close>

definition signed_message :: "string \<Rightarrow> int \<Rightarrow> string" where
  "signed_message userID minute = userID @ ''|'' @ show_int minute"

definition computeSignature :: "(string \<Rightarrow> string) \<Rightarrow> string \<Rightarrow> int \<Rightarrow> string" where
  "computeSignature sign userID minute = sign (signed_message userID minute)"

definition IsValidSignature :: "string \<Rightarrow> (string \<Rightarrow> string) \<Rightarrow> int \<Rightarrow> string \<Rightarrow> string \<Rightarrow> bool" where
  "IsValidSignature signingKey sign now userID signature =
     (if signingKey = [] then True
      else if signature = [] then False
      else if userID = [] then False
      else let currentMinute = now sdiv 60 in
        if computeSignature sign userID currentMinute = signature then True
        else computeSignature sign userID (currentMinute - 1) = signature)"

section \<open>The checks in front of the handlers\<close>

text \<open>A request without a user is let through by the first; the second refuses it where a user is required.\<close>

definition WrapWithUserIDSignatureValidation ::
  "(string \<Rightarrow> string \<Rightarrow> bool) \<Rightarrow> 'a \<Rightarrow> string \<Rightarrow> string \<Rightarrow> (nat \<times> string) + 'a" where
  "WrapWithUserIDSignatureValidation valid answer userID sig =
     (if userID \<noteq> [] \<and> \<not> valid userID sig then Inl (401, ''unauthorized: invalid user identity signature'')
      else Inr answer)"

definition KongAuth :: "bool \<Rightarrow> (string option \<Rightarrow> 'a) \<Rightarrow> string \<Rightarrow> (nat \<times> string) + 'a" where
  "KongAuth requireAuth answer userID =
     (if userID = [] \<and> requireAuth then Inl (401, ''unauthorized'')
      else Inr (answer (if userID = [] then None else Some userID)))"

definition RequireUserID :: "string option \<Rightarrow> string" where
  "RequireUserID v = (case v of None \<Rightarrow> [] | Some s \<Rightarrow> s)"

section \<open>Roles\<close>

text \<open>\<^verbatim>\<open>strings.Split(s, ",")\<close>\<close>

fun split_commas :: "string \<Rightarrow> string list" where
  "split_commas [] = [[]]"
| "split_commas (c # cs) =
     (if c = CHR '','' then [] # split_commas cs
      else case split_commas cs of [] \<Rightarrow> [[c]] | p # ps \<Rightarrow> (c # p) # ps)"

definition ParseUserRoles :: "string \<Rightarrow> string set" where
  "ParseUserRoles rolesHeader =
     (if rolesHeader = [] then {} else set (filter (\<lambda>r. r \<noteq> []) (map TrimSpace (split_commas rolesHeader))))"

definition HasRole :: "string set \<Rightarrow> string \<Rightarrow> bool" where
  "HasRole roles targetRole \<longleftrightarrow> targetRole \<in> roles"

section \<open>The message names its user and its minute\<close>

lemma show_int_no_bar: "CHR ''|'' \<notin> set (show_int n)"
proof -
  have "CHR ''|'' \<notin> set (show_nat k)" for k
    using show_nat_digits [of "CHR ''|''" k] by (auto simp: digit_val_def)
  then show ?thesis by (simp add: show_int_def)
qed

lemma show_int_inject: "show_int m = show_int n \<Longrightarrow> m = n"
proof -
  assume eq: "show_int m = show_int n"
  have sign: "show_nat k = CHR ''-'' # xs \<Longrightarrow> False" for k xs
    using show_nat_Cons [of k] by auto
  show "m = n"
    using eq sign sign [OF sym] by (auto simp: show_int_def split: if_splits)
qed

lemma first_bar_splits:
  "x @ b # y = x' @ b # y' \<Longrightarrow> b \<notin> set x \<Longrightarrow> b \<notin> set x' \<Longrightarrow> x = x' \<and> y = y'"
  by (induction x arbitrary: x') (case_tac x'; auto)+

lemma last_bar_splits:
  assumes "u @ [b] @ m = u' @ [b] @ m'" "b \<notin> set m" "b \<notin> set m'"
  shows "u = u' \<and> m = m'"
  using first_bar_splits [of "rev m" b "rev u" "rev m'" "rev u'"] arg_cong [OF assms(1), of rev] assms(2,3)
  by simp

lemma message_injective:
  "signed_message u m = signed_message u' m' \<longleftrightarrow> u = u' \<and> m = m'"
  using last_bar_splits [of u "CHR ''|''" "show_int m" u' "show_int m'"] show_int_no_bar [of m] show_int_no_bar [of m']
    show_int_inject [of m m'] by (auto simp: signed_message_def)

lemma minute: "0 \<le> (t :: int) \<Longrightarrow> t sdiv 60 = t div 60"
  by (cases "t = 0") (auto simp: signed_divide_int_def)

lemma valid_iff:
  assumes "signingKey \<noteq> []" "inj sign" "\<And>m. sign m \<noteq> []" "0 \<le> t" "0 \<le> now" "userID \<noteq> []"
  shows "IsValidSignature signingKey sign now u (computeSignature sign userID (t sdiv 60)) \<longleftrightarrow>
    u = userID \<and> (now div 60 = t div 60 \<or> now div 60 = t div 60 + 1)"
proof -
  have eq: "computeSignature sign v m = computeSignature sign v' m' \<longleftrightarrow> v = v' \<and> m = m'" for v v' m m'
    using assms(2) by (simp add: computeSignature_def inj_eq message_injective)
  have "computeSignature sign userID (t div 60) \<noteq> []" using assms(3) by (simp add: computeSignature_def)
  then show ?thesis
    using assms(1,6) by (auto simp: IsValidSignature_def Let_def eq minute [OF assms(4)] minute [OF assms(5)])
qed

lemma window_seconds:
  fixes now t :: int
  shows "(t \<le> now \<and> now < t + 60 \<longrightarrow> now div 60 = t div 60 \<or> now div 60 = t div 60 + 1) \<and>
    (now div 60 = t div 60 \<or> now div 60 = t div 60 + 1 \<longrightarrow> now < t + 120) \<and>
    (t mod 60 = 0 \<and> now = t + 119 \<longrightarrow> now div 60 = t div 60 + 1)"
proof -
  have "now = 60 * (now div 60) + now mod 60" "0 \<le> now mod 60" "now mod 60 < 60"
    "t = 60 * (t div 60) + t mod 60" "0 \<le> t mod 60" "t mod 60 < 60" by simp_all
  then show ?thesis by (intro conjI impI; linarith)
qed

section \<open>How long a signature is good for\<close>



end
