(* ===== verification/Sse_Broadcaster.thy ===== *)
theory Sse_Broadcaster
  imports Go_Text
begin

text \<open>
  Live seat changes of venue-service: the broadcaster (\<^verbatim>\<open>internal/sse/broadcaster.go\<close>) and the stream
  handler (\<^verbatim>\<open>internal/handler/sse_handler.go\<close>). A client has a channel of 64 frames; what does not fit
  is dropped and remembered as a gap, and the handler writes a resync frame when it finds a gap. The
  steps are those between which Go may switch: registering and subscribing, each send of a publish,
  receiving, checking for a gap and writing, unregistering and closing the channel.
\<close>

section \<open>Frames\<close>

datatype sse_frame = DataFrame string | Heartbeat | Resync string | Retry int | Connected

definition nl :: string where "nl = [CHR 0x0A]"

text \<open>\<open>version\<close> decodes the version of a change, if there is one.\<close>

definition FormatChange :: "(string \<Rightarrow> nat option) \<Rightarrow> string \<Rightarrow> string" where
  "FormatChange version payload =
     (case version payload of
        Some v \<Rightarrow> if v > 0 then ''id: '' @ show_nat v @ nl @ ''data: '' @ payload @ nl @ nl
                  else ''data: '' @ payload @ nl @ nl
      | None \<Rightarrow> ''data: '' @ payload @ nl @ nl)"

definition resyncFrame :: "string \<Rightarrow> string" where
  "resyncFrame reason = ''event: resync'' @ nl @ ''data: {\"reason\":\"'' @ reason @ ''\"}'' @ nl @ nl"

fun frame_text :: "sse_frame \<Rightarrow> string" where
  "frame_text (DataFrame s) = s"
| "frame_text Heartbeat = '': heartbeat'' @ nl @ nl"
| "frame_text (Resync reason) = resyncFrame reason"
| "frame_text (Retry ms) = ''retry: '' @ show_int ms @ nl @ nl"
| "frame_text Connected = '': connected'' @ nl @ nl"

section \<open>State\<close>

text \<open>Where the handler of a client is; \<open>Opening\<close> is before its subscription is made sure of.\<close>

datatype handler_at = Opening string | Idle | Received sse_frame | Checked sse_frame | Over

record sse_client =
  ck_plan :: string
  ck_buffer :: "sse_frame list"
  ck_gapped :: bool
  ck_closed :: bool
  ck_at :: handler_at
  ck_out :: "sse_frame list"

text \<open>
  The clients by number, those registered, the plans with a Redis subscription, the publishes that are
  under way with the clients they have still to reach, and whether the process has panicked.
\<close>

record broadcaster =
  bc_clients :: "nat \<Rightarrow> sse_client option"
  bc_registered :: "nat list"
  bc_redis :: bool
  bc_subs :: "string list"
  bc_flight :: "(sse_frame \<times> nat list) list"
  bc_draining :: bool
  bc_panicked :: bool

definition NewBroadcaster :: "bool \<Rightarrow> broadcaster" where
  "NewBroadcaster redis = \<lparr>bc_clients = (\<lambda>_. None), bc_registered = [], bc_redis = redis, bc_subs = [],
     bc_flight = [], bc_draining = False, bc_panicked = False\<rparr>"

definition bufferSize :: nat where "bufferSize = 64"

definition set_client :: "nat \<Rightarrow> sse_client \<Rightarrow> broadcaster \<Rightarrow> broadcaster" where
  "set_client i c b = b\<lparr>bc_clients := (bc_clients b)(i \<mapsto> c)\<rparr>"

definition plan_of_client :: "broadcaster \<Rightarrow> nat \<Rightarrow> string option" where
  "plan_of_client b i = map_option ck_plan (bc_clients b i)"

section \<open>Operations of the broadcaster\<close>

definition IsDraining :: "broadcaster \<Rightarrow> bool" where
  "IsDraining b = bc_draining b"

definition Drain :: "broadcaster \<Rightarrow> broadcaster" where
  "Drain b = b\<lparr>bc_draining := True\<rparr>"

text \<open>The first half of \<^verbatim>\<open>Subscribe\<close>; \<open>cursor\<close> is the \<^verbatim>\<open>Last-Event-ID\<close> of the request.\<close>

definition register :: "nat \<Rightarrow> string \<Rightarrow> string \<Rightarrow> broadcaster \<Rightarrow> broadcaster" where
  "register i planID cursor b =
     set_client i \<lparr>ck_plan = planID, ck_buffer = [], ck_gapped = False, ck_closed = False, ck_at = Opening cursor, ck_out = []\<rparr>
       (b\<lparr>bc_registered := bc_registered b @ [i]\<rparr>)"

definition ensureRedisSub :: "string \<Rightarrow> broadcaster \<Rightarrow> broadcaster" where
  "ensureRedisSub planID b = b\<lparr>bc_subs := List.insert planID (bc_subs b)\<rparr>"

definition cancelRedisSub :: "string \<Rightarrow> broadcaster \<Rightarrow> broadcaster" where
  "cancelRedisSub planID b = b\<lparr>bc_subs := filter (\<lambda>p. p \<noteq> planID) (bc_subs b)\<rparr>"

text \<open>The second half, and the frames the handler starts with.\<close>

definition start_stream :: "nat \<Rightarrow> sse_client \<Rightarrow> string \<Rightarrow> broadcaster \<Rightarrow> broadcaster" where
  "start_stream i c cursor b =
     set_client i (c\<lparr>ck_at := Idle, ck_out := ck_out c @ [Connected] @ (if cursor = [] then [] else [Resync ''reconnect''])\<rparr>)
       (if bc_redis b then ensureRedisSub (ck_plan c) b else b)"

text \<open>\<^verbatim>\<open>Unsubscribe\<close>: under the lock, and the closing of the channel after it.\<close>

definition unregister :: "nat \<Rightarrow> string \<Rightarrow> broadcaster \<Rightarrow> broadcaster" where
  "unregister i planID b =
     (let b1 = b\<lparr>bc_registered := filter (\<lambda>j. j \<noteq> i) (bc_registered b)\<rparr>
      in if (\<exists>j \<in> set (bc_registered b1). plan_of_client b1 j = Some planID) \<or> \<not> bc_redis b then b1
         else cancelRedisSub planID b1)"

definition close_channel :: "nat \<Rightarrow> sse_client \<Rightarrow> broadcaster \<Rightarrow> broadcaster" where
  "close_channel i c b = set_client i (c\<lparr>ck_closed := True\<rparr>) b"

text \<open>A publish takes the clients of the plan without keeping the lock, and sends to one after the other.\<close>

definition publish_change :: "string \<Rightarrow> sse_frame \<Rightarrow> broadcaster \<Rightarrow> broadcaster" where
  "publish_change planID payload b =
     b\<lparr>bc_flight := bc_flight b @ [(payload, filter (\<lambda>i. plan_of_client b i = Some planID) (bc_registered b))]\<rparr>"

definition offer :: "sse_frame \<Rightarrow> sse_client \<Rightarrow> sse_client" where
  "offer m c = (if length (ck_buffer c) < bufferSize then c\<lparr>ck_buffer := ck_buffer c @ [m]\<rparr> else c\<lparr>ck_gapped := True\<rparr>)"

definition send_to :: "sse_frame \<Rightarrow> nat \<Rightarrow> broadcaster \<Rightarrow> broadcaster" where
  "send_to m i b =
     (case bc_clients b i of
        None \<Rightarrow> b
      | Some c \<Rightarrow> if ck_closed c then b\<lparr>bc_panicked := True\<rparr> else set_client i (offer m c) b)"

text \<open>A heartbeat that does not fit is dropped and no gap.\<close>

definition beat :: "sse_client \<Rightarrow> sse_client" where
  "beat c = (if length (ck_buffer c) < bufferSize then c\<lparr>ck_buffer := ck_buffer c @ [Heartbeat]\<rparr> else c)"

definition StartHeartbeat :: "broadcaster \<Rightarrow> broadcaster" where
  "StartHeartbeat b = b\<lparr>bc_clients := (\<lambda>i. if i \<in> set (bc_registered b) then map_option beat (bc_clients b i) else bc_clients b i)\<rparr>"

section \<open>Steps of the handler\<close>

text \<open>\<^verbatim>\<open>Gapped\<close> reads the flag and clears it.\<close>

definition Gapped :: "sse_client \<Rightarrow> bool \<times> sse_client" where
  "Gapped c = (ck_gapped c, c\<lparr>ck_gapped := False\<rparr>)"

definition receive :: "sse_client \<Rightarrow> sse_client option" where
  "receive c = (case (ck_at c, ck_buffer c) of
      (Idle, m # ms) \<Rightarrow> Some (c\<lparr>ck_at := Received m, ck_buffer := ms\<rparr>)
    | (Idle, []) \<Rightarrow> if ck_closed c then Some (c\<lparr>ck_at := Over\<rparr>) else None
    | _ \<Rightarrow> None)"

text \<open>\<open>ok\<close> says whether the write of a frame succeeds; the stream ends where it does not.\<close>

definition check_gap :: "bool \<Rightarrow> sse_client \<Rightarrow> sse_client option" where
  "check_gap ok c = (case ck_at c of
      Received m \<Rightarrow>
        (case Gapped c of (gap, c') \<Rightarrow>
           Some (if \<not> gap then c'\<lparr>ck_at := Checked m\<rparr>
                 else if ok then c'\<lparr>ck_at := Checked m, ck_out := ck_out c' @ [Resync ''buffer-overflow'']\<rparr>
                 else c'\<lparr>ck_at := Over\<rparr>))
    | _ \<Rightarrow> None)"

definition write_frame :: "bool \<Rightarrow> sse_client \<Rightarrow> sse_client option" where
  "write_frame ok c = (case ck_at c of
      Checked m \<Rightarrow> Some (if ok then c\<lparr>ck_at := Idle, ck_out := ck_out c @ [m]\<rparr> else c\<lparr>ck_at := Over\<rparr>)
    | _ \<Rightarrow> None)"

definition reconnectDelayMinMS :: int where "reconnectDelayMinMS = 500"
definition reconnectDelayMaxMS :: int where "reconnectDelayMaxMS = 5000"

text \<open>\<open>rand n\<close> is \<^verbatim>\<open>rand.IntN(n)\<close>.\<close>

definition release_stream :: "(int \<Rightarrow> int) \<Rightarrow> bool \<Rightarrow> sse_client \<Rightarrow> sse_client option" where
  "release_stream rand ok c = (case ck_at c of
      Idle \<Rightarrow> Some (c\<lparr>ck_at := Over, ck_out := ck_out c @
        (if ok then [Retry (reconnectDelayMinMS + rand (reconnectDelayMaxMS - reconnectDelayMinMS))] else [])\<rparr>)
    | _ \<Rightarrow> None)"

section \<open>Runs\<close>

text \<open>The label of a step says what reached the channel of which client, or was dropped there.\<close>

datatype sse_event = Offered nat sse_frame | Other

inductive sse_step :: "broadcaster \<Rightarrow> sse_event \<Rightarrow> broadcaster \<Rightarrow> bool" where
  connect: "\<not> IsDraining b \<Longrightarrow> bc_clients b i = None \<Longrightarrow> sse_step b Other (register i planID cursor b)"
| subscribe: "bc_clients b i = Some c \<Longrightarrow> ck_at c = Opening cursor \<Longrightarrow> sse_step b Other (start_stream i c cursor b)"
| publish: "sse_step b Other (publish_change planID (DataFrame payload) b)"
| send: "bc_flight b = xs @ (m, i # is) # ys \<Longrightarrow> bc_clients b i = Some c \<Longrightarrow>
    sse_step b (if ck_closed c then Other else Offered i m) (send_to m i (b\<lparr>bc_flight := xs @ (m, is) # ys\<rparr>))"
| published: "bc_flight b = xs @ (m, []) # ys \<Longrightarrow> sse_step b Other (b\<lparr>bc_flight := xs @ ys\<rparr>)"
| heartbeat: "sse_step b Other (StartHeartbeat b)"
| drain: "sse_step b Other (Drain b)"
| receive: "bc_clients b i = Some c \<Longrightarrow> receive c = Some c' \<Longrightarrow> sse_step b Other (set_client i c' b)"
| check: "bc_clients b i = Some c \<Longrightarrow> check_gap ok c = Some c' \<Longrightarrow> sse_step b Other (set_client i c' b)"
| write_out: "bc_clients b i = Some c \<Longrightarrow> write_frame ok c = Some c' \<Longrightarrow> sse_step b Other (set_client i c' b)"
| release: "IsDraining b \<Longrightarrow> bc_clients b i = Some c \<Longrightarrow> release_stream rand ok c = Some c' \<Longrightarrow> sse_step b Other (set_client i c' b)"
| leave: "bc_clients b i = Some c \<Longrightarrow> ck_at c = Idle \<Longrightarrow> sse_step b Other (set_client i (c\<lparr>ck_at := Over\<rparr>) b)"
| unsubscribe: "bc_clients b i = Some c \<Longrightarrow> ck_at c = Over \<Longrightarrow> i \<in> set (bc_registered b) \<Longrightarrow>
    sse_step b Other (unregister i (ck_plan c) b)"
| close: "bc_clients b i = Some c \<Longrightarrow> ck_at c = Over \<Longrightarrow> i \<notin> set (bc_registered b) \<Longrightarrow> \<not> ck_closed c \<Longrightarrow>
    sse_step b Other (close_channel i c b)"

inductive sse_run :: "broadcaster \<Rightarrow> sse_event list \<Rightarrow> broadcaster \<Rightarrow> bool" for b0 where
  start: "sse_run b0 [] b0"
| more: "sse_run b0 evs b \<Longrightarrow> \<not> bc_panicked b \<Longrightarrow> sse_step b ev b' \<Longrightarrow> sse_run b0 (evs @ [ev]) b'"


section \<open>What happens to one client\<close>

inductive client_move :: "sse_frame option \<Rightarrow> sse_client \<Rightarrow> sse_client \<Rightarrow> bool" where
  stays: "client_move None c c"
| started: "ck_at c = Opening cursor \<Longrightarrow> fs \<in> {[Connected], [Connected, Resync ''reconnect'']} \<Longrightarrow>
    client_move None c (c\<lparr>ck_at := Idle, ck_out := ck_out c @ fs\<rparr>)"
| offered: "client_move (Some m) c (offer m c)"
| beats: "client_move None c (beat c)"
| receives: "receive c = Some c' \<Longrightarrow> client_move None c c'"
| checks: "check_gap ok c = Some c' \<Longrightarrow> client_move None c c'"
| writes: "write_frame ok c = Some c' \<Longrightarrow> client_move None c c'"
| releases: "release_stream rand ok c = Some c' \<Longrightarrow> client_move None c c'"
| leaves: "client_move None c (c\<lparr>ck_at := Over\<rparr>)"
| closes: "client_move None c (c\<lparr>ck_closed := True\<rparr>)"

definition offered_to :: "nat \<Rightarrow> sse_event \<Rightarrow> sse_frame option" where
  "offered_to i ev = (case ev of Offered j m \<Rightarrow> if j = i then Some m else None | Other \<Rightarrow> None)"

definition published_to :: "nat \<Rightarrow> sse_event list \<Rightarrow> sse_frame list" where
  "published_to i evs = List.map_filter (offered_to i) evs"

lemma published_simps [simp]:
  "published_to i [] = []"
  "published_to i (evs @ [ev]) = published_to i evs @ (case offered_to i ev of None \<Rightarrow> [] | Some m \<Rightarrow> [m])"
  by (simp_all add: published_to_def map_filter_simps map_filter_def split: option.split)

lemma clients_set [simp]: "bc_clients (set_client i c b) j = (if j = i then Some c else bc_clients b j)"
  by (simp add: set_client_def)

lemma clients_kept [simp]:
  "bc_clients (ensureRedisSub p b) = bc_clients b" "bc_clients (cancelRedisSub p b) = bc_clients b"
  "bc_clients (unregister i p b) = bc_clients b" "bc_clients (publish_change p m b) = bc_clients b"
  "bc_clients (Drain b) = bc_clients b"
  by (simp_all add: ensureRedisSub_def cancelRedisSub_def unregister_def publish_change_def Drain_def Let_def)

lemma step_moves_client:
  assumes "sse_step b ev b'" "bc_clients b i = Some c"
  shows "\<exists>c'. bc_clients b' i = Some c' \<and> client_move (offered_to i ev) c c'"
  using assms
proof cases
  case (send xs m j js ys c1)
  then show ?thesis
    using assms(2) client_move.offered [of m c] client_move.stays [of c]
    by (auto simp: send_to_def offered_to_def)
next
  case (subscribe j c1 cursor)
  then show ?thesis
    using assms(2) client_move.started [of c1 cursor] client_move.stays [of c]
    by (auto simp: start_stream_def offered_to_def)
next
  case heartbeat
  then show ?thesis
    using assms(2) client_move.beats [of c] client_move.stays [of c] by (auto simp: StartHeartbeat_def offered_to_def)
qed (use assms(2) in \<open>auto simp: offered_to_def register_def close_channel_def intro: client_move.intros\<close>)

section \<open>No silent gap\<close>

definition is_change :: "sse_frame \<Rightarrow> bool" where
  "is_change m \<longleftrightarrow> (case m of DataFrame s \<Rightarrow> True | _ \<Rightarrow> False)"

abbreviation changes :: "sse_frame list \<Rightarrow> sse_frame list" where
  "changes \<equiv> filter is_change"

text \<open>What the handler holds or has still to receive.\<close>

definition pending_frames :: "sse_client \<Rightarrow> sse_frame list" where
  "pending_frames c = (case ck_at c of Received m \<Rightarrow> [m] | Checked m \<Rightarrow> [m] | _ \<Rightarrow> []) @ ck_buffer c"

text \<open>From \<open>c\<close> to \<open>c'\<close> the frames \<open>ws\<close> were written, while \<open>ms\<close> was sent.\<close>

definition accounted :: "sse_client \<Rightarrow> sse_frame list \<Rightarrow> sse_client \<Rightarrow> bool" where
  "accounted c ms c' \<longleftrightarrow> (\<exists>ws. ck_out c' = ck_out c @ ws \<and>
     (ck_at c' \<noteq> Over \<and> \<not> ck_gapped c' \<and> Resync ''buffer-overflow'' \<notin> set ws \<longrightarrow>
      changes ws @ changes (pending_frames c') = changes (pending_frames c) @ changes ms))"

lemmas client_defs = receive_def check_gap_def write_frame_def release_stream_def Gapped_def offer_def beat_def
  pending_frames_def is_change_def

text \<open>One move: what it wrote, and what it leaves pending, where nothing was lost.\<close>

definition move_ok :: "sse_frame list \<Rightarrow> sse_client \<Rightarrow> sse_client \<Rightarrow> bool" where
  "move_ok ms c1 c2 \<longleftrightarrow> (\<exists>fs. ck_out c2 = ck_out c1 @ fs \<and>
     (ck_at c2 \<noteq> Over \<and> \<not> ck_gapped c2 \<and> Resync ''buffer-overflow'' \<notin> set fs \<longrightarrow>
      ck_at c1 \<noteq> Over \<and> \<not> ck_gapped c1 \<and>
      changes fs @ changes (pending_frames c2) = changes (pending_frames c1) @ changes ms))"

lemma move_okI:
  assumes "ck_out c2 = ck_out c1 @ fs"
    "ck_at c2 \<noteq> Over \<Longrightarrow> \<not> ck_gapped c2 \<Longrightarrow> Resync ''buffer-overflow'' \<notin> set fs \<Longrightarrow>
      ck_at c1 \<noteq> Over \<and> \<not> ck_gapped c1 \<and>
      changes fs @ changes (pending_frames c2) = changes (pending_frames c1) @ changes ms"
  shows "move_ok ms c1 c2"
  using assms by (auto simp: move_ok_def)

lemma receive_ok: "receive c1 = Some c2 \<Longrightarrow> move_ok [] c1 c2"
  by (rule move_okI [where fs = "[]"])
    (auto simp: receive_def pending_frames_def split: handler_at.splits list.splits if_splits)

lemma check_ok: "check_gap ok c1 = Some c2 \<Longrightarrow> move_ok [] c1 c2"
  by (rule move_okI [where fs = "if ck_gapped c1 \<and> ok then [Resync ''buffer-overflow''] else []"])
    (auto simp: check_gap_def Gapped_def pending_frames_def split: handler_at.splits if_splits)

lemma write_ok: "write_frame ok c1 = Some c2 \<Longrightarrow> move_ok [] c1 c2"
  by (rule move_okI [where fs = "case ck_at c1 of Checked m \<Rightarrow> if ok then [m] else [] | _ \<Rightarrow> []"])
    (auto simp: write_frame_def pending_frames_def split: handler_at.splits if_splits)

lemma release_ok:
  assumes "release_stream rand ok c1 = Some c2"
  shows "move_ok [] c1 c2"
proof -
  have "\<exists>fs. ck_out c2 = ck_out c1 @ fs" "ck_at c2 = Over"
    using assms by (auto simp: release_stream_def split: handler_at.splits)
  then show ?thesis by (auto simp: move_ok_def)
qed

lemma offer_ok: "move_ok [m] c1 (offer m c1)"
  by (rule move_okI [where fs = "[]"]) (auto simp: offer_def pending_frames_def split: handler_at.splits if_splits)

lemma beat_ok: "move_ok [] c1 (beat c1)"
  by (rule move_okI [where fs = "[]"])
    (auto simp: beat_def pending_frames_def is_change_def split: handler_at.splits if_splits)

lemma start_ok:
  assumes "ck_at c1 = Opening cursor" "fs \<in> {[Connected], [Connected, Resync ''reconnect'']}"
  shows "move_ok [] c1 (c1\<lparr>ck_at := Idle, ck_out := ck_out c1 @ fs\<rparr>)"
  by (rule move_okI [where fs = fs]) (use assms in \<open>auto simp: pending_frames_def is_change_def\<close>)

lemma move_ok_moves: "client_move m c1 c2 \<Longrightarrow> move_ok (case m of None \<Rightarrow> [] | Some x \<Rightarrow> [x]) c1 c2"
proof (induction rule: client_move.induct)
  case (stays c)
  show ?case by (auto simp: move_ok_def)
next
  case (leaves c)
  show ?case by (auto simp: move_ok_def)
next
  case (closes c)
  show ?case by (auto simp: move_ok_def pending_frames_def)
qed (simp_all add: receive_ok check_ok write_ok release_ok offer_ok beat_ok start_ok)

lemma move_accounted:
  assumes "client_move m c1 c2" "accounted c ms c1"
  shows "accounted c (ms @ (case m of None \<Rightarrow> [] | Some x \<Rightarrow> [x])) c2"
proof -
  obtain ws where ws: "ck_out c1 = ck_out c @ ws"
      "ck_at c1 \<noteq> Over \<and> \<not> ck_gapped c1 \<and> Resync ''buffer-overflow'' \<notin> set ws \<Longrightarrow>
       changes ws @ changes (pending_frames c1) = changes (pending_frames c) @ changes ms"
    using assms(2) by (auto simp: accounted_def)
  obtain fs where fs: "ck_out c2 = ck_out c1 @ fs"
      "ck_at c2 \<noteq> Over \<and> \<not> ck_gapped c2 \<and> Resync ''buffer-overflow'' \<notin> set fs \<Longrightarrow>
       ck_at c1 \<noteq> Over \<and> \<not> ck_gapped c1 \<and>
       changes fs @ changes (pending_frames c2) = changes (pending_frames c1) @ changes (case m of None \<Rightarrow> [] | Some x \<Rightarrow> [x])"
    using move_ok_moves [OF assms(1)] by (auto simp: move_ok_def)
  have "changes (ws @ fs) @ changes (pending_frames c2) =
      changes (pending_frames c) @ changes (ms @ (case m of None \<Rightarrow> [] | Some x \<Rightarrow> [x]))"
    if "ck_at c2 \<noteq> Over \<and> \<not> ck_gapped c2 \<and> Resync ''buffer-overflow'' \<notin> set (ws @ fs)"
    using that ws(2) fs(2) by auto
  then show ?thesis using ws(1) fs(1) unfolding accounted_def by (intro exI [of _ "ws @ fs"]) simp
qed

lemma run_accounted:
  assumes "sse_run b0 evs b" "bc_clients b0 i = Some c" "\<not> ck_gapped c"
  shows "\<exists>c'. bc_clients b i = Some c' \<and> accounted c (published_to i evs) c'"
  using assms(1)
proof induction
  case start
  then show ?case using assms(2) by (auto simp: accounted_def)
next
  case (more evs b ev b')
  then obtain c1 c2 where "bc_clients b' i = Some c2" "client_move (offered_to i ev) c1 c2"
      "accounted c (published_to i evs) c1"
    using step_moves_client by blast
  then show ?case using move_accounted by auto
qed

text \<open>A gap is never left with nothing to receive, so the handler comes to see it.\<close>

definition gap_in_sight :: "sse_client \<Rightarrow> bool" where
  "gap_in_sight c \<longleftrightarrow> (ck_gapped c \<longrightarrow> ck_at c = Over \<or> ck_buffer c \<noteq> [] \<or> (\<exists>m. ck_at c = Received m))"

lemma move_gap: "client_move m c c' \<Longrightarrow> gap_in_sight c \<Longrightarrow> gap_in_sight c'"
proof (induction rule: client_move.induct)
  case (offered m c)
  then show ?case by (auto simp: gap_in_sight_def offer_def bufferSize_def)
next
  case (beats c)
  then show ?case by (auto simp: gap_in_sight_def beat_def)
next
  case (receives c c')
  then show ?case by (auto simp: gap_in_sight_def receive_def split: handler_at.splits list.splits if_splits)
next
  case (checks ok c c')
  then show ?case by (auto simp: gap_in_sight_def check_gap_def Gapped_def split: handler_at.splits if_splits)
next
  case (writes ok c c')
  then show ?case by (auto simp: gap_in_sight_def write_frame_def split: handler_at.splits if_splits)
next
  case (releases rand ok c c')
  then show ?case by (auto simp: gap_in_sight_def release_stream_def split: handler_at.splits)
qed (simp_all add: gap_in_sight_def)

lemma step_new_client:
  assumes "sse_step b ev b'" "bc_clients b i = None" "bc_clients b' i = Some c"
  shows "\<not> ck_gapped c"
  using assms
proof cases
  case (send xs m j js ys c1)
  then show ?thesis using assms(2,3) by (auto simp: send_to_def split: if_splits)
qed (auto simp: register_def start_stream_def StartHeartbeat_def close_channel_def split: if_splits)

lemma run_gaps:
  assumes "sse_run (NewBroadcaster redis) evs b" "bc_clients b i = Some c"
  shows "gap_in_sight c"
  using assms
proof (induction arbitrary: c)
  case start
  then show ?case by (simp add: NewBroadcaster_def)
next
  case (more evs b ev b')
  show ?case
  proof (cases "bc_clients b i")
    case None
    then show ?thesis using step_new_client [OF more.hyps(3) _ more.prems] by (simp add: gap_in_sight_def)
  next
    case (Some c0)
    then show ?thesis using step_moves_client [OF more.hyps(3) Some] more.IH [OF Some] more.prems move_gap by fastforce
  qed
qed

text \<open>
  C10: Between two moments of a stream, whatever the other requests, publishes and clients do: where no
  gap is marked at either and no resync frame for an overflow was written in between, what was pending
  and what was sent to the client since, in this order, is exactly what was written and what is pending
  now. A message that was dropped is thus followed by a resync frame, or still marked; and a marked gap
  never waits for a message that may not come.
\<close>

theorem no_silent_gap:
  assumes "sse_run (NewBroadcaster redis) past b0" "sse_run b0 evs b"
    "bc_clients b0 i = Some c" "\<not> ck_gapped c"
    "bc_clients b i = Some c'" "\<not> ck_gapped c'" "ck_at c' \<noteq> Over"
    "ck_out c' = ck_out c @ ws" "Resync ''buffer-overflow'' \<notin> set ws"
  shows "changes ws @ changes (pending_frames c') = changes (pending_frames c) @ changes (published_to i evs) \<and>
    gap_in_sight c'"
proof -
  have "sse_run (NewBroadcaster redis) (past @ evs) b"
    using assms(2)
  proof induction
    case (more evs b ev b')
    then show ?case using sse_run.more [of "NewBroadcaster redis" "past @ evs" b ev b'] by simp
  qed (simp add: assms(1))
  then show ?thesis
    using run_gaps assms(5) run_accounted [OF assms(2,3,4)] assms(5-9) by (auto simp: accounted_def)
qed

section \<open>Subscriptions\<close>

text \<open>
  With Redis, a plan has a subscription exactly while it has registered clients, apart from the moment
  between the two halves of \<^verbatim>\<open>Subscribe\<close>.
\<close>

definition opens :: "broadcaster \<Rightarrow> nat \<Rightarrow> bool" where
  "opens b i \<longleftrightarrow> (\<exists>c x. bc_clients b i = Some c \<and> ck_at c = Opening x)"

definition subscriptions_ok :: "broadcaster \<Rightarrow> bool" where
  "subscriptions_ok b \<longleftrightarrow> bc_redis b \<and>
     (\<forall>p \<in> set (bc_subs b). \<exists>i \<in> set (bc_registered b). plan_of_client b i = Some p) \<and>
     (\<forall>i. opens b i \<longrightarrow> i \<in> set (bc_registered b)) \<and>
     (\<forall>i \<in> set (bc_registered b). \<exists>p. plan_of_client b i = Some p \<and> (opens b i \<or> p \<in> set (bc_subs b)))"

text \<open>Only three steps touch what the invariant looks at.\<close>

lemma subscriptions_view:
  assumes "subscriptions_ok b" "bc_redis b' = bc_redis b" "bc_subs b' = bc_subs b" "bc_registered b' = bc_registered b"
    "\<And>i. plan_of_client b' i = plan_of_client b i" "\<And>i. opens b' i = opens b i"
  shows "subscriptions_ok b'"
  using assms by (simp add: subscriptions_ok_def)

lemma subscriptions_set:
  assumes "subscriptions_ok b" "bc_clients b i = Some c" "ck_plan c' = ck_plan c"
    "(\<exists>x. ck_at c' = Opening x) \<longleftrightarrow> (\<exists>x. ck_at c = Opening x)"
  shows "subscriptions_ok (set_client i c' b)"
  by (rule subscriptions_view [OF assms(1)]) (use assms(2-4) in \<open>auto simp: set_client_def plan_of_client_def opens_def\<close>)

lemma subscriptions_clients:
  assumes "subscriptions_ok b" "bc_redis b' = bc_redis b" "bc_subs b' = bc_subs b" "bc_registered b' = bc_registered b"
    "bc_clients b' = bc_clients b"
  shows "subscriptions_ok b'"
  by (rule subscriptions_view [OF assms(1-4)]) (simp_all add: plan_of_client_def opens_def assms(5))

lemma subscriptions_register:
  assumes "subscriptions_ok b" "bc_clients b i = None"
  shows "subscriptions_ok (register i planID cursor b)"
proof -
  have fresh: "i \<notin> set (bc_registered b)"
    using assms by (auto simp: subscriptions_ok_def plan_of_client_def)
  have "plan_of_client (register i planID cursor b) j = (if j = i then Some planID else plan_of_client b j)"
    "opens (register i planID cursor b) j = (j = i \<or> opens b j)" for j
    using assms(2) by (auto simp: register_def set_client_def plan_of_client_def opens_def)
  then show ?thesis
    using assms(1) fresh by (fastforce simp: subscriptions_ok_def register_def set_client_def)
qed

lemma subscriptions_start:
  assumes "subscriptions_ok b" "bc_clients b i = Some c" "ck_at c = Opening cursor"
  shows "subscriptions_ok (start_stream i c cursor b)"
proof -
  have redis: "bc_redis b" and reg: "i \<in> set (bc_registered b)"
    using assms by (auto simp: subscriptions_ok_def opens_def)
  have view: "plan_of_client (start_stream i c cursor b) j = plan_of_client b j"
    "opens (start_stream i c cursor b) j = (j \<noteq> i \<and> opens b j)" for j
    using assms(2) by (auto simp: start_stream_def set_client_def plan_of_client_def opens_def ensureRedisSub_def)
  have parts: "bc_subs (start_stream i c cursor b) = List.insert (ck_plan c) (bc_subs b)"
    "bc_registered (start_stream i c cursor b) = bc_registered b" "bc_redis (start_stream i c cursor b)"
    using redis by (simp_all add: start_stream_def ensureRedisSub_def set_client_def)
  have here: "plan_of_client b i = Some (ck_plan c)" using assms(2) by (simp add: plan_of_client_def)
  have "\<exists>p. plan_of_client b j = Some p \<and> (j \<noteq> i \<and> opens b j \<or> p \<in> set (List.insert (ck_plan c) (bc_subs b)))"
    if "j \<in> set (bc_registered b)" for j
    using assms(1) here that by (cases "j = i") (auto simp: subscriptions_ok_def)
  then show ?thesis
    using assms(1) reg here parts(3) unfolding subscriptions_ok_def view parts(1,2) by auto
qed

lemma subscriptions_unregister:
  assumes "subscriptions_ok b" "bc_clients b i = Some c" "ck_at c = Over"
  shows "subscriptions_ok (unregister i (ck_plan c) b)"
proof -
  let ?reg = "filter (\<lambda>j. j \<noteq> i) (bc_registered b)"
  have redis: "bc_redis b" and shut: "\<not> opens b i" and here: "plan_of_client b i = Some (ck_plan c)"
    using assms by (auto simp: subscriptions_ok_def opens_def plan_of_client_def)
  have view: "plan_of_client (unregister i (ck_plan c) b) j = plan_of_client b j"
    "opens (unregister i (ck_plan c) b) j = opens b j" for j
    by (simp_all add: plan_of_client_def opens_def)
  have parts: "bc_registered (unregister i (ck_plan c) b) = ?reg" "bc_redis (unregister i (ck_plan c) b)"
    "bc_subs (unregister i (ck_plan c) b) =
       (if \<exists>j \<in> set ?reg. plan_of_client b j = Some (ck_plan c) then bc_subs b
        else filter (\<lambda>p. p \<noteq> ck_plan c) (bc_subs b))"
    using redis by (auto simp: unregister_def cancelRedisSub_def Let_def plan_of_client_def)
  have subs: "\<exists>j \<in> set ?reg. plan_of_client b j = Some p" if "p \<in> set (bc_subs (unregister i (ck_plan c) b))" for p
  proof -
    have "p \<in> set (bc_subs b)" using that parts(3) by (auto split: if_splits)
    then obtain j where j: "j \<in> set (bc_registered b)" "plan_of_client b j = Some p"
      using assms(1) unfolding subscriptions_ok_def by blast
    show ?thesis using j that here parts(3) by (cases "j = i") (auto split: if_splits)
  qed
  have plans: "\<exists>p. plan_of_client b j = Some p \<and> (opens b j \<or> p \<in> set (bc_subs (unregister i (ck_plan c) b)))"
    if j: "j \<in> set ?reg" for j
  proof -
    obtain p where p: "plan_of_client b j = Some p" "opens b j \<or> p \<in> set (bc_subs b)"
      using assms(1) j unfolding subscriptions_ok_def by auto
    show ?thesis using p j by (auto simp: parts(3))
  qed
  have "j \<in> set ?reg" if "opens b j" for j
    using assms(1) shut that by (auto simp: subscriptions_ok_def)
  then show ?thesis unfolding subscriptions_ok_def view parts(1) using subs plans parts(2) by blast
qed

lemma step_subscriptions: "sse_step b ev b' \<Longrightarrow> subscriptions_ok b \<Longrightarrow> subscriptions_ok b'"
proof (induction rule: sse_step.induct)
  case (publish b planID payload)
  then show ?case by (rule subscriptions_clients) (simp_all add: publish_change_def)
next
  case (send b xs m i js ys c)
  have "subscriptions_ok (b\<lparr>bc_flight := xs @ (m, js) # ys\<rparr>)"
    by (rule subscriptions_clients [OF send.prems]) simp_all
  then show ?case
    using send.hyps by (auto simp: send_to_def offer_def intro: subscriptions_set subscriptions_clients)
next
  case (published b xs m ys)
  show ?case by (rule subscriptions_clients [OF published.prems]) simp_all
next
  case (heartbeat b)
  have "ck_plan (beat c) = ck_plan c" "ck_at (beat c) = ck_at c" for c
    by (simp_all add: beat_def)
  then show ?case
    by (intro subscriptions_view [OF heartbeat.prems])
      (auto simp: StartHeartbeat_def plan_of_client_def opens_def option.map_comp comp_def)
next
  case (drain b)
  then show ?case by (rule subscriptions_clients) (simp_all add: Drain_def)
next
  case (receive b i c c')
  show ?case
    by (rule subscriptions_set [OF receive.prems receive.hyps(1)])
      (use receive.hyps(2) in \<open>auto simp: receive_def split: handler_at.splits list.splits if_splits\<close>)
next
  case (check b i c ok c')
  show ?case
    by (rule subscriptions_set [OF check.prems check.hyps(1)])
      (use check.hyps(2) in \<open>auto simp: check_gap_def Gapped_def split: handler_at.splits if_splits\<close>)
next
  case (write_out b i c ok c')
  show ?case
    by (rule subscriptions_set [OF write_out.prems write_out.hyps(1)])
      (use write_out.hyps(2) in \<open>auto simp: write_frame_def split: handler_at.splits if_splits\<close>)
next
  case (release b i c rand ok c')
  show ?case
    by (rule subscriptions_set [OF release.prems release.hyps(2)])
      (use release.hyps(3) in \<open>auto simp: release_stream_def split: handler_at.splits\<close>)
next
  case (leave b i c)
  show ?case by (rule subscriptions_set [OF leave.prems leave.hyps(1)]) (use leave.hyps(2) in auto)
next
  case (close b i c)
  show ?case
    unfolding close_channel_def
    by (rule subscriptions_set [OF close.prems close.hyps(1)]) (use close.hyps(2) in auto)
qed (auto intro: subscriptions_register subscriptions_start subscriptions_unregister)

lemma live_subscriptions: "sse_run (NewBroadcaster True) evs b \<Longrightarrow> subscriptions_ok b"
proof (induction rule: sse_run.induct)
  case start
  show ?case by (simp add: subscriptions_ok_def NewBroadcaster_def opens_def)
qed (rule step_subscriptions)

section \<open>A publish that meets a closed channel\<close>

definition one_client :: "bool \<Rightarrow> sse_client \<Rightarrow> nat list \<Rightarrow> string list \<Rightarrow> (sse_frame \<times> nat list) list \<Rightarrow> broadcaster" where
  "one_client redis c reg subs flight = \<lparr>bc_clients = [0 \<mapsto> c], bc_registered = reg, bc_redis = redis, bc_subs = subs,
     bc_flight = flight, bc_draining = False, bc_panicked = False\<rparr>"

lemma one_client_simps [simp]:
  "bc_clients (one_client redis c reg subs flight) 0 = Some c" "bc_registered (one_client redis c reg subs flight) = reg"
  "bc_flight (one_client redis c reg subs flight) = flight" "\<not> bc_panicked (one_client redis c reg subs flight)"
  "set_client 0 c' (one_client redis c reg subs flight) = one_client redis c' reg subs flight"
  "one_client redis c reg subs flight\<lparr>bc_flight := fl\<rparr> = one_client redis c reg subs fl"
  "plan_of_client (one_client redis c reg subs flight) 0 = Some (ck_plan c)"
  by (simp_all add: one_client_def set_client_def plan_of_client_def)

lemma one_client_ops:
  "register 0 pid [] (NewBroadcaster redis) = one_client redis \<lparr>ck_plan = pid, ck_buffer = [], ck_gapped = False,
     ck_closed = False, ck_at = Opening [], ck_out = []\<rparr> [0] [] []"
  "publish_change (ck_plan c) m (one_client redis c [0] subs []) = one_client redis c [0] subs [(m, [0])]"
  "unregister 0 (ck_plan c) (one_client redis c [0] subs flight) =
     one_client redis c [] (if redis then filter (\<lambda>p. p \<noteq> ck_plan c) subs else subs) flight"
  "start_stream 0 c [] (one_client redis c reg subs flight) =
     one_client redis (c\<lparr>ck_at := Idle, ck_out := ck_out c @ [Connected]\<rparr>) reg
       (if redis then List.insert (ck_plan c) subs else subs) flight"
  by (simp_all add: one_client_def register_def NewBroadcaster_def set_client_def publish_change_def plan_of_client_def
      unregister_def cancelRedisSub_def start_stream_def ensureRedisSub_def)

text \<open>A client that has just connected, and one that a publish is about to reach.\<close>

definition first_client :: sse_client where
  "first_client = \<lparr>ck_plan = ''p'', ck_buffer = [], ck_gapped = False, ck_closed = False, ck_at = Idle, ck_out = [Connected]\<rparr>"

abbreviation first_subs :: "bool \<Rightarrow> string list" where
  "first_subs redis \<equiv> (if redis then [''p''] else [])"

lemma run_connected: "sse_run (NewBroadcaster redis) [Other, Other] (one_client redis first_client [0] (first_subs redis) [])"
proof -
  have began: "sse_run (NewBroadcaster redis) [Other] (one_client redis (first_client\<lparr>ck_at := Opening [], ck_out := []\<rparr>) [0] [] [])"
    using sse_run.more [OF sse_run.start _ sse_step.connect [of "NewBroadcaster redis" 0 "''p''" "[]"]]
    by (simp add: one_client_ops first_client_def IsDraining_def) (simp add: NewBroadcaster_def)
  show ?thesis
    using sse_run.more [OF began _ sse_step.subscribe [of _ 0 _ "[]"]]
    by (cases redis) (simp_all add: one_client_ops first_client_def)
qed

lemma step_publish:
  "sse_step (one_client redis first_client [0] subs []) Other
     (one_client redis first_client [0] subs [(DataFrame ''x'', [0])])"
  using sse_step.publish [of "one_client redis first_client [0] subs []" "ck_plan first_client" "''x''"]
  by (simp add: one_client_ops)


lemma no_silent_gap_witness:
  "changes (pending_frames (first_client\<lparr>ck_buffer := [DataFrame ''x'']\<rparr>)) =
     changes (published_to 0 [Other, Offered 0 (DataFrame ''x'')])"
proof -
  let ?b0 = "one_client True first_client [0] [''p''] []"
  let ?b1 = "one_client True first_client [0] [''p''] [(DataFrame ''x'', [0])]"
  have sent: "sse_run ?b0 [Other, Offered 0 (DataFrame ''x'')]
      (one_client True (first_client\<lparr>ck_buffer := [DataFrame ''x'']\<rparr>) [0] [''p''] [(DataFrame ''x'', [])])"
    using sse_run.more [OF sse_run.more [OF sse_run.start _ step_publish] _
        sse_step.send [of ?b1 "[]" "DataFrame ''x''" 0 "[]" "[]" first_client]]
    by (simp add: send_to_def offer_def bufferSize_def first_client_def)
  show ?thesis
    using no_silent_gap [OF run_connected [of True, simplified] sent, of 0 first_client "first_client\<lparr>ck_buffer := [DataFrame ''x'']\<rparr>" "[]"]
    by (simp add: first_client_def pending_frames_def)
qed

end
