(* ===== verification/Venue_Http.thy ===== *)
theory Venue_Http
  imports Hold_Manager Interleaving Go_Text
begin

text \<open>
  The REST handlers of venue-service (\<^verbatim>\<open>internal/handler/\<close>): plans, venues, venue sections, plan
  sections and price tiers, holds and availability. A handler is a process (theory Interleaving):
  every repository call is one step on the database, and other requests run in between. \<open>valid\<close> is
  the check of the signed user header, \<open>f n\<close> the faults of the n-th repository call, a request whose
  body does not decode is \<open>None\<close>. The answer is the status with the message or the body.
\<close>

section \<open>Requests and answers\<close>

datatype 'b http = Refused nat string | Answered nat 'b

definition server_error :: "'b http" where
  "server_error = Refused 500 ''internal error''"

text \<open>A repository call that reads, and one that writes.\<close>

definition look :: "('s \<Rightarrow> 'r) \<Rightarrow> ('r \<Rightarrow> ('s, 'a) proc) \<Rightarrow> ('s, 'a) proc" where
  "look g k = Act id (\<lambda>s. k (g s))"

definition doing :: "('s \<Rightarrow> 'r \<times> 's) \<Rightarrow> ('r \<Rightarrow> ('s, 'a) proc) \<Rightarrow> ('s, 'a) proc" where
  "doing g k = Act (\<lambda>s. snd (g s)) (\<lambda>s. k (fst (g s)))"

lemma run_look [simp]: "run_alone (look g k) s = run_alone (k (g s)) s"
  by (simp add: look_def)

lemma run_doing [simp]: "run_alone (doing g k) s = run_alone (k (fst (g s))) (snd (g s))"
  by (simp add: doing_def)

type_synonym signed_check = "string \<Rightarrow> string \<Rightarrow> bool"

text \<open>The user of a request and the signature, and the check every handler of a user starts with.\<close>

definition signed_in ::
  "signed_check \<Rightarrow> string \<times> string \<Rightarrow> (string \<Rightarrow> ('s, 'b http) proc) \<Rightarrow> ('s, 'b http) proc" where
  "signed_in valid who k =
     (case who of (userID, signature) \<Rightarrow>
        if userID = [] then Ret (Refused 401 ''missing X-User-Id header'')
        else if \<not> valid userID signature then Ret (Refused 401 ''invalid X-User-Id-Sig signature'')
        else k userID)"

definition bind_body :: "'r option \<Rightarrow> ('r \<Rightarrow> ('s, 'b http) proc) \<Rightarrow> ('s, 'b http) proc" where
  "bind_body req k = (case req of None \<Rightarrow> Ret (Refused 400 ''invalid request body'') | Some r \<Rightarrow> k r)"

definition plan_lookup_error :: "venue_error \<Rightarrow> 'b http" where
  "plan_lookup_error e = (if e = ErrPlanNotFound then Refused 404 ''seating plan not found'' else server_error)"

section \<open>Seating plans\<close>

record create_plan_request =
  cp_venue :: string
  cp_ticket :: string
  cp_name :: string
  cp_max :: int
  cp_assignment :: string
  cp_pricing :: string

record update_plan_request =
  up_name :: string
  up_max :: int
  up_assignment :: string
  up_pricing :: string

text \<open>A plan as it is answered: with its sections and its capacity, where the handler fills them in.\<close>

record plan_body =
  pb_plan :: seating_plan
  pb_sections :: "plan_section list"
  pb_capacity :: int

definition bare_plan :: "seating_plan \<Rightarrow> plan_body" where
  "bare_plan p = \<lparr>pb_plan = p, pb_sections = [], pb_capacity = 0\<rparr>"

definition total_capacity :: "plan_section list \<Rightarrow> int" where
  "total_capacity secs = sum_list (map (\<lambda>s. sec_rows s * sec_columns s) secs)"

definition Http_ListPlans ::
  "signed_check \<Rightarrow> faults \<Rightarrow> string \<times> string \<Rightarrow> string \<Rightarrow> string \<Rightarrow> (venue_db, seating_plan list http) proc" where
  "Http_ListPlans valid f who ticketID venueID = signed_in valid who (\<lambda>organizerID.
     if ticketID \<noteq> [] then
       look (ListPlansByTicket f ticketID organizerID)
         (\<lambda>r. Ret (case r of Inl e \<Rightarrow> server_error | Inr ps \<Rightarrow> Answered 200 ps))
     else if venueID \<noteq> [] then
       look (ListPlansByVenue f venueID organizerID)
         (\<lambda>r. Ret (case r of Inl e \<Rightarrow> server_error | Inr ps \<Rightarrow> Answered 200 ps))
     else Ret (Refused 422 ''either ticketId or venueId query parameter is required''))"

definition drafted_plan :: "string \<Rightarrow> create_plan_request \<Rightarrow> seating_plan" where
  "drafted_plan organizerID req =
     \<lparr>p_id = [], p_venue = cp_venue req, p_ticket = cp_ticket req, p_organizer = organizerID, p_name = cp_name req,
      p_status = PlanStatusDraft, p_max_per_order = cp_max req, p_layout = [], p_assignment = cp_assignment req,
      p_pricing = cp_pricing req, p_version = 0, p_created = 0, p_updated = 0\<rparr>"

text \<open>The identifiers of the plan, of its sections and of its seats are those the database makes up.\<close>

definition Http_CreatePlan ::
  "signed_check \<Rightarrow> (nat \<Rightarrow> faults) \<Rightarrow> string \<Rightarrow> (nat \<Rightarrow> string) \<Rightarrow> (nat \<Rightarrow> string) \<Rightarrow> int \<Rightarrow> string \<times> string
     \<Rightarrow> create_plan_request option \<Rightarrow> (venue_db, plan_body http) proc" where
  "Http_CreatePlan valid f newid sgen gen now who body = signed_in valid who (\<lambda>organizerID. bind_body body (\<lambda>req.
     if cp_venue req = [] then Ret (Refused 422 ''venueId is required'')
     else if cp_ticket req = [] then Ret (Refused 422 ''ticketId is required'')
     else if cp_name req = [] then Ret (Refused 422 ''name is required'')
     else doing (CreatePlan (f 0) newid now (drafted_plan organizerID req)) (\<lambda>r. case r of
         Inl e \<Rightarrow> Ret server_error
       | Inr p \<Rightarrow> doing (ProvisionFromVenue (f 1) sgen gen now (p_id p) (cp_venue req))
           (\<lambda>_. Ret (Answered 201 (bare_plan p))))))"

definition Http_GetPlan :: "(nat \<Rightarrow> faults) \<Rightarrow> string \<Rightarrow> (venue_db, plan_body http) proc" where
  "Http_GetPlan f pid = look (FindPlanByID (f 0) 0 pid) (\<lambda>r. case r of
       Inl e \<Rightarrow> Ret (plan_lookup_error e)
     | Inr p \<Rightarrow> look (ListSectionsByPlan (f 1) pid) (\<lambda>r. Ret (case r of
           Inl e \<Rightarrow> server_error
         | Inr secs \<Rightarrow> Answered 200 \<lparr>pb_plan = p, pb_sections = secs, pb_capacity = total_capacity secs\<rparr>)))"

definition edited_plan :: "string \<Rightarrow> string \<Rightarrow> update_plan_request \<Rightarrow> seating_plan" where
  "edited_plan pid organizerID req =
     \<lparr>p_id = pid, p_venue = [], p_ticket = [], p_organizer = organizerID, p_name = up_name req,
      p_status = PlanStatusDraft, p_max_per_order = up_max req, p_layout = [], p_assignment = up_assignment req,
      p_pricing = up_pricing req, p_version = 0, p_created = 0, p_updated = 0\<rparr>"

text \<open>The answer of an update is the plan of the request, with the time of the update.\<close>

definition Http_UpdatePlan ::
  "signed_check \<Rightarrow> faults \<Rightarrow> int \<Rightarrow> string \<times> string \<Rightarrow> string \<Rightarrow> update_plan_request option
     \<Rightarrow> (venue_db, plan_body http) proc" where
  "Http_UpdatePlan valid f now who pid body = signed_in valid who (\<lambda>organizerID. bind_body body (\<lambda>req.
     if up_name req = [] then Ret (Refused 422 ''name is required'')
     else doing (UpdatePlan f now (edited_plan pid organizerID req)) (\<lambda>r. Ret (case r of
         Inl e \<Rightarrow> plan_lookup_error e
       | Inr u \<Rightarrow> Answered 200 (bare_plan ((edited_plan pid organizerID req)\<lparr>p_updated := now\<rparr>))))))"

definition refetch_plan :: "faults \<Rightarrow> string \<Rightarrow> (venue_db, plan_body http) proc" where
  "refetch_plan f pid = look (FindPlanByID f 0 pid)
     (\<lambda>r. Ret (case r of Inl e \<Rightarrow> server_error | Inr p \<Rightarrow> Answered 200 (bare_plan p)))"

definition activation_error :: "venue_error \<Rightarrow> 'b http" where
  "activation_error e = (case e of
      ErrPlanNotFound \<Rightarrow> Refused 404 ''seating plan not found''
    | ErrPlanAlreadyActive \<Rightarrow> Refused 409 ''plan is already active''
    | ErrPlanHasNoSections \<Rightarrow> Refused 422 ''plan must have at least one section before activation''
    | ErrVersionConflict \<Rightarrow> Refused 409 ''version conflict: plan was modified concurrently''
    | _ \<Rightarrow> server_error)"

text \<open>The version of the body, or else of the query; \<open>Atoi\<close> reads what \<open>ParseInt\<close> reads.\<close>

definition expected_version :: "int option \<Rightarrow> string \<Rightarrow> int" where
  "expected_version body query =
     (let v = (case body of None \<Rightarrow> 0 | Some v \<Rightarrow> v) in
      if v = 0 \<and> query \<noteq> [] then (case ParseInt query of None \<Rightarrow> 0 | Some n \<Rightarrow> n) else v)"

definition activate_checked ::
  "plan_section list \<Rightarrow> seating_plan \<Rightarrow> (venue_db, plan_body http) proc \<Rightarrow> (venue_db, plan_body http) proc" where
  "activate_checked secs existing k =
     (if p_pricing existing \<noteq> ''single'' \<and> (\<exists>s \<in> set secs. sec_type s = SectionTypeGA)
      then Ret (Refused 400 ''GA sections are not allowed in section/seat pricing plans. Create a separate GA ticket instead.'')
      else if total_capacity secs = 0 then Ret (Refused 422 ''plan must have at least one seat before activation'')
      else k)"

text \<open>The repository's activation reads the plan and counts the sections before it writes.\<close>

definition Http_ActivatePlan ::
  "signed_check \<Rightarrow> (nat \<Rightarrow> faults) \<Rightarrow> int \<Rightarrow> string \<times> string \<Rightarrow> string \<Rightarrow> int option \<Rightarrow> string
     \<Rightarrow> (venue_db, plan_body http) proc" where
  "Http_ActivatePlan valid f now who pid body query = signed_in valid who (\<lambda>organizerID.
     look (FindPlanByID (f 0) 0 pid) (\<lambda>r. case r of
       Inl e \<Rightarrow> Ret (plan_lookup_error e)
     | Inr existing \<Rightarrow>
         if p_organizer existing \<noteq> organizerID then Ret (Refused 403 ''not the plan owner'')
         else look (ListSectionsByPlan (f 1) pid) (\<lambda>r. case r of
           Inl e \<Rightarrow> Ret server_error
         | Inr secs \<Rightarrow> activate_checked secs existing
             (let v = expected_version body query; version = (if v = 0 then p_version existing else v) in
              look id (\<lambda>s1. look id (\<lambda>s2. doing (Activate (f 2) now pid version s1 s2) (\<lambda>r. case r of
                Inl e \<Rightarrow> Ret (activation_error e)
              | Inr u \<Rightarrow> refetch_plan (f 3) pid)))))))"

definition Http_DeactivatePlan ::
  "signed_check \<Rightarrow> (nat \<Rightarrow> faults) \<Rightarrow> int \<Rightarrow> string \<times> string \<Rightarrow> string \<Rightarrow> (venue_db, plan_body http) proc" where
  "Http_DeactivatePlan valid f now who pid = signed_in valid who (\<lambda>organizerID.
     look id (\<lambda>s1. doing (Deactivate (f 0) now pid organizerID s1) (\<lambda>r. case r of
       Inl e \<Rightarrow> Ret (case e of
           ErrPlanNotFound \<Rightarrow> Refused 404 ''seating plan not found''
         | ErrPlanNotActive \<Rightarrow> Refused 409 ''plan is not active''
         | _ \<Rightarrow> server_error)
     | Inr u \<Rightarrow> refetch_plan (f 1) pid)))"

definition maxLayoutSize :: nat where "maxLayoutSize = 1048576"

definition Http_SaveLayout ::
  "signed_check \<Rightarrow> (nat \<Rightarrow> faults) \<Rightarrow> int \<Rightarrow> string \<times> string \<Rightarrow> string \<Rightarrow> string option
     \<Rightarrow> (venue_db, plan_body http) proc" where
  "Http_SaveLayout valid f now who pid body = signed_in valid who (\<lambda>organizerID. bind_body body (\<lambda>layout.
     if layout = [] then Ret (Refused 422 ''layoutJson is required'')
     else if length layout > maxLayoutSize then Ret (Refused 422 ''layout JSON exceeds 1 MB limit'')
     else doing (SaveLayout (f 0) now pid organizerID layout) (\<lambda>r. case r of
         Inl e \<Rightarrow> Ret (case e of
             ErrPlanNotFound \<Rightarrow> Refused 404 ''seating plan not found''
           | ErrPlanAlreadyActive \<Rightarrow> Refused 409 ''layout can only be saved while plan is in draft''
           | _ \<Rightarrow> server_error)
       | Inr u \<Rightarrow> refetch_plan (f 1) pid)))"

section \<open>Venues\<close>

record venue_request =
  vq_name :: string
  vq_capacity :: int
  vq_timezone :: string
  vq_address :: "string option"

definition venue_of_request :: "string \<Rightarrow> string \<Rightarrow> venue_request \<Rightarrow> venue" where
  "venue_of_request vid organizerID req =
     \<lparr>v_id = vid, v_organizer = organizerID, v_name = vq_name req, v_capacity = vq_capacity req,
      v_timezone = vq_timezone req, v_address = (case vq_address req of None \<Rightarrow> [] | Some a \<Rightarrow> a),
      v_created = 0, v_updated = 0\<rparr>"

definition valid_venue :: "venue_request \<Rightarrow> (venue_db, 'b http) proc \<Rightarrow> (venue_db, 'b http) proc" where
  "valid_venue req k =
     (if vq_name req = [] then Ret (Refused 422 ''name is required'')
      else if vq_capacity req \<le> 0 then Ret (Refused 422 ''capacity must be positive'')
      else if vq_timezone req = [] then Ret (Refused 422 ''timezone is required'')
      else k)"

definition Http_CreateVenue ::
  "signed_check \<Rightarrow> faults \<Rightarrow> string \<Rightarrow> int \<Rightarrow> string \<times> string \<Rightarrow> venue_request option \<Rightarrow> (venue_db, venue http) proc" where
  "Http_CreateVenue valid f newid now who body = signed_in valid who (\<lambda>organizerID. bind_body body (\<lambda>req.
     valid_venue req (doing (CreateVenue f newid now (venue_of_request [] organizerID req))
       (\<lambda>r. Ret (case r of Inl e \<Rightarrow> server_error | Inr v \<Rightarrow> Answered 201 v)))))"

definition Http_GetVenue :: "faults \<Rightarrow> string \<Rightarrow> (venue_db, venue http) proc" where
  "Http_GetVenue f vid = look (FindVenueByID f vid) (\<lambda>r. Ret (case r of
       Inl e \<Rightarrow> if e = ErrVenueNotFound then Refused 404 ''venue not found'' else server_error
     | Inr v \<Rightarrow> Answered 200 v))"

definition Http_ListVenues :: "signed_check \<Rightarrow> faults \<Rightarrow> string \<times> string \<Rightarrow> (venue_db, venue list http) proc" where
  "Http_ListVenues valid f who = signed_in valid who (\<lambda>organizerID.
     look (ListVenuesByOrganizer f organizerID)
       (\<lambda>r. Ret (case r of Inl e \<Rightarrow> server_error | Inr vs \<Rightarrow> Answered 200 vs)))"

definition Http_UpdateVenue ::
  "signed_check \<Rightarrow> faults \<Rightarrow> int \<Rightarrow> string \<times> string \<Rightarrow> string \<Rightarrow> venue_request option \<Rightarrow> (venue_db, venue http) proc" where
  "Http_UpdateVenue valid f now who vid body = signed_in valid who (\<lambda>organizerID. bind_body body (\<lambda>req.
     valid_venue req (doing (UpdateVenue f now (venue_of_request vid organizerID req)) (\<lambda>r. Ret (case r of
         Inl e \<Rightarrow> if e = ErrVenueNotFound then Refused 404 ''venue not found'' else server_error
       | Inr u \<Rightarrow> Answered 200 ((venue_of_request vid organizerID req)\<lparr>v_updated := now\<rparr>))))))"

section \<open>Venue sections\<close>

definition section_type_message :: string where
  "section_type_message = ''type must be 'seated' or 'ga'' @ [CHR 0x27]"

record venue_section_request =
  vsq_name :: string
  vsq_type :: string
  vsq_rows :: int
  vsq_columns :: int
  vsq_order :: int

definition Http_ListVenueSections :: "faults \<Rightarrow> string \<Rightarrow> (venue_db, venue_section list http) proc" where
  "Http_ListVenueSections f venueID = look (ListVenueSections f venueID)
     (\<lambda>r. Ret (case r of Inl e \<Rightarrow> server_error | Inr vs \<Rightarrow> Answered 200 vs))"

definition owned_venue ::
  "faults \<Rightarrow> string \<Rightarrow> string \<Rightarrow> (venue_db, 'b http) proc \<Rightarrow> (venue_db, 'b http) proc" where
  "owned_venue f venueID organizerID k = look (FindVenueByID f venueID) (\<lambda>r. case r of
       Inl e \<Rightarrow> Ret (if e = ErrVenueNotFound then Refused 404 ''venue not found'' else server_error)
     | Inr v \<Rightarrow> if v_organizer v \<noteq> organizerID then Ret (Refused 403 ''not the venue owner'') else k)"

definition venue_section_of :: "string \<Rightarrow> venue_section_request \<Rightarrow> venue_section" where
  "venue_section_of venueID req =
     \<lparr>vs_id = [], vs_venue = venueID, vs_name = vsq_name req, vs_type = vsq_type req, vs_rows = vsq_rows req,
      vs_columns = vsq_columns req, vs_position = [], vs_order = vsq_order req, vs_created = 0, vs_updated = 0\<rparr>"

definition Http_CreateVenueSection ::
  "signed_check \<Rightarrow> (nat \<Rightarrow> faults) \<Rightarrow> string \<Rightarrow> int \<Rightarrow> string \<times> string \<Rightarrow> string \<Rightarrow> venue_section_request option
     \<Rightarrow> (venue_db, venue_section http) proc" where
  "Http_CreateVenueSection valid f newid now who venueID body = signed_in valid who (\<lambda>organizerID.
     owned_venue (f 0) venueID organizerID (bind_body body (\<lambda>req.
       if vsq_name req = [] then Ret (Refused 422 ''name is required'')
       else if vsq_type req \<noteq> ''seated'' \<and> vsq_type req \<noteq> ''ga'' then Ret (Refused 422 section_type_message)
       else if vsq_type req = ''seated'' \<and> (vsq_rows req < 1 \<or> vsq_columns req < 1)
       then Ret (Refused 422 ''seated sections require rowCount >= 1 and columnCount >= 1'')
       else if vsq_type req = ''ga'' \<and> vsq_columns req < 1
       then Ret (Refused 422 ''GA sections require columnCount (capacity) >= 1'')
       else doing (CreateVenueSection (f 1) newid now (venue_section_of venueID req))
              (\<lambda>r. Ret (case r of Inl e \<Rightarrow> server_error | Inr vs \<Rightarrow> Answered 201 vs)))))"

definition Http_DeleteVenueSection ::
  "signed_check \<Rightarrow> (nat \<Rightarrow> faults) \<Rightarrow> string \<times> string \<Rightarrow> string \<Rightarrow> string \<Rightarrow> (venue_db, unit http) proc" where
  "Http_DeleteVenueSection valid f who venueID sectionID = signed_in valid who (\<lambda>organizerID.
     owned_venue (f 0) venueID organizerID (doing (DeleteVenueSection (f 1) sectionID venueID) (\<lambda>r. Ret (case r of
         Inl e \<Rightarrow> if e = ErrSectionNotFound then Refused 404 ''section not found'' else server_error
       | Inr u \<Rightarrow> Answered 204 ()))))"

section \<open>Plan sections and price tiers\<close>

record section_request =
  sq_name :: string
  sq_type :: string
  sq_rows :: int
  sq_columns :: int
  sq_tier :: string

record tier_request =
  tq_name :: string
  tq_price :: string

definition owned_draft ::
  "faults \<Rightarrow> string \<Rightarrow> string \<Rightarrow> string \<Rightarrow> (venue_db, 'b http) proc \<Rightarrow> (venue_db, 'b http) proc" where
  "owned_draft f pid organizerID what k = look (FindPlanByID f 0 pid) (\<lambda>r. case r of
       Inl e \<Rightarrow> Ret (plan_lookup_error e)
     | Inr p \<Rightarrow>
         if p_organizer p \<noteq> organizerID then Ret (Refused 403 ''not the plan owner'')
         else if p_status p \<noteq> PlanStatusDraft
         then Ret (Refused 409 (''cannot add '' @ what @ '' to an active or inactive plan''))
         else k)"

definition section_of :: "string \<Rightarrow> section_request \<Rightarrow> plan_section" where
  "section_of pid req =
     \<lparr>sec_id = [], sec_plan = pid, sec_name = sq_name req, sec_type = sq_type req, sec_rows = sq_rows req,
      sec_columns = sq_columns req, sec_tier = sq_tier req, sec_created = 0, sec_updated = 0\<rparr>"

definition Http_CreateSection ::
  "signed_check \<Rightarrow> (nat \<Rightarrow> faults) \<Rightarrow> string \<Rightarrow> (nat \<Rightarrow> string) \<Rightarrow> int \<Rightarrow> string \<times> string \<Rightarrow> string
     \<Rightarrow> section_request option \<Rightarrow> (venue_db, plan_section http) proc" where
  "Http_CreateSection valid f newid gen now who pid body = signed_in valid who (\<lambda>organizerID.
     owned_draft (f 0) pid organizerID ''sections'' (bind_body body (\<lambda>req.
       if sq_name req = [] then Ret (Refused 422 ''name is required'')
       else if sq_type req \<noteq> SectionTypeSeated \<and> sq_type req \<noteq> SectionTypeGA
       then Ret (Refused 422 section_type_message)
       else doing (CreateSection (f 1) newid now (section_of pid req)) (\<lambda>r. case r of
           Inl e \<Rightarrow> Ret server_error
         | Inr s \<Rightarrow> doing (BulkInsertSeats (f 2) gen now (sec_id s) pid (sq_type req) (sq_tier req) (sq_rows req) (sq_columns req))
             (\<lambda>r. Ret (case r of Inl e \<Rightarrow> server_error | Inr u \<Rightarrow> Answered 201 s))))))"

definition Http_ListSections :: "(nat \<Rightarrow> faults) \<Rightarrow> string \<Rightarrow> (venue_db, plan_section list http) proc" where
  "Http_ListSections f pid = look (FindPlanByID (f 0) 0 pid) (\<lambda>r. case r of
       Inl e \<Rightarrow> Ret (plan_lookup_error e)
     | Inr p \<Rightarrow> look (ListSectionsByPlan (f 1) pid)
         (\<lambda>r. Ret (case r of Inl e \<Rightarrow> server_error | Inr secs \<Rightarrow> Answered 200 secs)))"

definition Http_CreatePriceTier ::
  "signed_check \<Rightarrow> (nat \<Rightarrow> faults) \<Rightarrow> string \<Rightarrow> int \<Rightarrow> string \<times> string \<Rightarrow> string \<Rightarrow> tier_request option
     \<Rightarrow> (venue_db, price_tier http) proc" where
  "Http_CreatePriceTier valid f newid now who pid body = signed_in valid who (\<lambda>organizerID.
     owned_draft (f 0) pid organizerID ''price tiers'' (bind_body body (\<lambda>req.
       if tq_name req = [] then Ret (Refused 422 ''name is required'')
       else if tq_price req = [] then Ret (Refused 422 ''price is required'')
       else doing (CreateTier (f 1) newid now
              \<lparr>pt_id = [], pt_plan = pid, pt_name = tq_name req, pt_price = tq_price req, pt_created = 0\<rparr>)
              (\<lambda>r. Ret (case r of Inl e \<Rightarrow> server_error | Inr t \<Rightarrow> Answered 201 t)))))"

definition Http_ListPriceTiers :: "(nat \<Rightarrow> faults) \<Rightarrow> string \<Rightarrow> (venue_db, price_tier list http) proc" where
  "Http_ListPriceTiers f pid = look (FindPlanByID (f 0) 0 pid) (\<lambda>r. case r of
       Inl e \<Rightarrow> Ret (plan_lookup_error e)
     | Inr p \<Rightarrow> look (ListTiersByPlan (f 1) pid)
         (\<lambda>r. Ret (case r of Inl e \<Rightarrow> server_error | Inr ts \<Rightarrow> Answered 200 ts)))"

section \<open>Holds and availability\<close>

definition handleHoldError :: "hold_error \<Rightarrow> 'b http" where
  "handleHoldError e =
     (if e = HRepo ErrPlanNotFound then Refused 404 ''seating plan not found''
      else if e = HPlanNotActive then Refused 409 ''seating plan is not active''
      else if e = HRepo ErrSeatNotAvailable then Refused 409 ''one or more seats are not available''
      else if e = HRepo ErrSeatLimitExceeded then Refused 409 ''per-buyer seat limit reached for this plan''
      else if e = HSeatLimitUnavailable then Refused 503 ''seat holds are temporarily unavailable''
      else server_error)"

text \<open>The manager's operations are one step each; a request gives the seats and the session.\<close>

definition Http_HoldSeats ::
  "signed_check \<Rightarrow> hold_config \<Rightarrow> (int \<Rightarrow> string) \<Rightarrow> (nat \<Rightarrow> faults) \<Rightarrow> redis_faults \<Rightarrow> int \<Rightarrow> string \<times> string \<Rightarrow> string
     \<Rightarrow> (string list \<times> string) option \<Rightarrow> (hold_world, (string list \<times> int) http) proc" where
  "Http_HoldSeats valid c rfc f rf now who pid body = signed_in valid who (\<lambda>userID. bind_body body (\<lambda>(seatIDs, sessionID).
     if seatIDs = [] then Ret (Refused 422 ''seatIds is required and must not be empty'')
     else doing (Manager_HoldSeats c rfc (f 0) (f 1) rf now pid userID sessionID seatIDs)
            (\<lambda>r. Ret (case r of Inl e \<Rightarrow> handleHoldError e | Inr held \<Rightarrow> Answered 200 held))))"

definition Http_ReleaseHold ::
  "signed_check \<Rightarrow> hold_config \<Rightarrow> faults \<Rightarrow> redis_faults \<Rightarrow> int \<Rightarrow> string \<times> string \<Rightarrow> string \<Rightarrow> string list option
     \<Rightarrow> (hold_world, unit http) proc" where
  "Http_ReleaseHold valid c f rf now who pid body = signed_in valid who (\<lambda>userID. bind_body body (\<lambda>seatIDs.
     if seatIDs = [] then Ret (Refused 422 ''seatIds is required and must not be empty'')
     else doing (Manager_ReleaseHold c f rf now pid userID seatIDs)
            (\<lambda>r. Ret (case r of Inl e \<Rightarrow> server_error | Inr u \<Rightarrow> Answered 204 ()))))"

definition Http_GetAvailability ::
  "(string \<Rightarrow> string) \<Rightarrow> hold_config \<Rightarrow> (nat \<Rightarrow> faults) \<Rightarrow> (string \<Rightarrow> faults) \<Rightarrow> (string \<Rightarrow> bool) \<Rightarrow> redis_faults \<Rightarrow> int
     \<Rightarrow> string \<Rightarrow> (hold_world, availability http) proc" where
  "Http_GetAvailability collate c f fs xf rf now pid =
     look (GetAvailability collate c (f 0) (f 1) fs xf rf now pid) (\<lambda>r. Ret (case r of
         Inl e \<Rightarrow> plan_lookup_error e
       | Inr snap \<Rightarrow> Answered 200 snap))"

end
