(* ===== verification/Venue_Graphql.thy ===== *)
theory Venue_Graphql
  imports Venue_Http
begin

text \<open>
  The GraphQL resolvers of venue-service (\<^verbatim>\<open>internal/graphql/\<close>): mutations, queries, the federation
  entity with its batch loader, and the views they answer with. The user is the header the request
  carries, already checked in front of the endpoint (theory User_Signature). The gqlgen runtime and
  the dataloader's batching window are not modelled: a batch is a list of keys.
\<close>

section \<open>Views\<close>

datatype gql_assignment = GqlManual | GqlAuto

datatype gql_plan_status = GqlDraft | GqlActive | GqlArchived

datatype gql_seat_status = GqlAvailable | GqlHeld | GqlSold

datatype gql_section_type = GqlSeated | GqlGA

record gql_venue =
  gv_id :: string
  gv_organizer :: string
  gv_name :: string
  gv_capacity :: int
  gv_timezone :: string
  gv_address :: string

record gql_venue_section =
  gvs_id :: string
  gvs_venue :: string
  gvs_name :: string
  gvs_type :: gql_section_type
  gvs_rows :: int
  gvs_columns :: int
  gvs_order :: int
  gvs_capacity :: int

record gql_price_tier =
  gpt_id :: string
  gpt_plan :: string
  gpt_name :: string
  gpt_price :: string

record gql_seat =
  gs_id :: string
  gs_label :: string
  gs_price :: int
  gs_status :: gql_seat_status

record gql_section =
  gsec_id :: string
  gsec_name :: string
  gsec_seats :: "gql_seat list"
  gsec_available :: nat

record gql_plan =
  gp_id :: string
  gp_sections :: "gql_section list"
  gp_assignment :: gql_assignment
  gp_status :: gql_plan_status

record seat_hold_result =
  sh_held :: "string list"
  sh_expires :: string

definition mapVenueToGQL :: "venue \<Rightarrow> gql_venue" where
  "mapVenueToGQL v = \<lparr>gv_id = v_id v, gv_organizer = v_organizer v, gv_name = v_name v, gv_capacity = v_capacity v,
     gv_timezone = v_timezone v, gv_address = v_address v\<rparr>"

definition mapVenueSectionToGQL :: "venue_section \<Rightarrow> gql_venue_section" where
  "mapVenueSectionToGQL v =
     \<lparr>gvs_id = vs_id v, gvs_venue = vs_venue v, gvs_name = vs_name v,
      gvs_type = (if vs_type v = SectionTypeGA then GqlGA else GqlSeated), gvs_rows = vs_rows v,
      gvs_columns = vs_columns v, gvs_order = vs_order v,
      gvs_capacity = (if vs_type v = SectionTypeGA then vs_columns v else vs_rows v * vs_columns v)\<rparr>"

definition mapPriceTierToGQL :: "price_tier \<Rightarrow> gql_price_tier" where
  "mapPriceTierToGQL t = \<lparr>gpt_id = pt_id t, gpt_plan = pt_plan t, gpt_name = pt_name t, gpt_price = pt_price t\<rparr>"

definition mapPlanToGQL :: "seating_plan \<Rightarrow> gql_section list \<Rightarrow> gql_plan" where
  "mapPlanToGQL p secs =
     \<lparr>gp_id = p_id p, gp_sections = secs, gp_assignment = (if p_assignment p = ''auto'' then GqlAuto else GqlManual),
      gp_status = (case p_status p of PlanStatusDraft \<Rightarrow> GqlDraft | PlanStatusActive \<Rightarrow> GqlActive
                     | PlanStatusInactive \<Rightarrow> GqlArchived)\<rparr>"

definition gql_seat_of :: "seat \<Rightarrow> gql_seat" where
  "gql_seat_of s = \<lparr>gs_id = s_id s, gs_label = s_label s, gs_price = 0,
     gs_status = (case s_status s of SeatStatusHeld \<Rightarrow> GqlHeld | SeatStatusSold \<Rightarrow> GqlSold
                    | SeatStatusReserved \<Rightarrow> GqlSold | SeatStatusBlocked \<Rightarrow> GqlSold | SeatStatusAvailable \<Rightarrow> GqlAvailable)\<rparr>"

definition mapSectionToGQL :: "plan_section \<Rightarrow> gql_seat list \<Rightarrow> gql_section" where
  "mapSectionToGQL s seats = \<lparr>gsec_id = sec_id s, gsec_name = sec_name s, gsec_seats = seats,
     gsec_available = length (filter (\<lambda>x. gs_status x = GqlAvailable) seats)\<rparr>"

definition holdResultToGQL :: "(int \<Rightarrow> string) \<Rightarrow> string list \<times> int \<Rightarrow> seat_hold_result" where
  "holdResultToGQL rfc r = \<lparr>sh_held = fst r, sh_expires = rfc (snd r)\<rparr>"

section \<open>Errors and users\<close>

text \<open>A message of the resolver, or the error of the repository or the manager as it is.\<close>

datatype venue_gql_error = VenueMessage string | VenueRepoError venue_error | VenueHoldError hold_error | LoaderError string venue_error

definition with_user ::
  "string \<Rightarrow> string \<Rightarrow> ('s, venue_gql_error + 'b) proc \<Rightarrow> ('s, venue_gql_error + 'b) proc" where
  "with_user who userID k =
     (if userID = [] then Ret (Inl (VenueMessage (''unauthorized: '' @ who @ '' identity required''))) else k)"

definition gql_result :: "('a \<Rightarrow> 'b) \<Rightarrow> venue_error + 'a \<Rightarrow> ('s, venue_gql_error + 'b) proc" where
  "gql_result g r = Ret (map_sum VenueRepoError g r)"

definition plan_missing :: "venue_error \<Rightarrow> venue_gql_error" where
  "plan_missing e = (if e = ErrPlanNotFound then VenueMessage ''not found: seating plan not found'' else VenueRepoError e)"

section \<open>Loading plans\<close>

text \<open>\<open>collate\<close> is the text order of the database, \<open>fs\<close> the faults of reading the seats of a section.\<close>

fun load_each ::
  "(string \<Rightarrow> string) \<Rightarrow> (string \<Rightarrow> faults) \<Rightarrow> plan_section list \<Rightarrow> gql_section list
     \<Rightarrow> (venue_db, venue_error + gql_section list) proc" where
  "load_each collate fs [] acc = Ret (Inr acc)"
| "load_each collate fs (s # ss) acc =
     look (FindSeatsBySection collate (fs (sec_id s)) (sec_id s)) (\<lambda>r. case r of
         Inl e \<Rightarrow> Ret (Inl e)
       | Inr seats \<Rightarrow> load_each collate fs ss (acc @ [mapSectionToGQL s (map gql_seat_of seats)]))"

definition loadSections ::
  "(string \<Rightarrow> string) \<Rightarrow> faults \<Rightarrow> (string \<Rightarrow> faults) \<Rightarrow> string \<Rightarrow> (venue_db, venue_error + gql_section list) proc" where
  "loadSections collate f fs pid = look (ListSectionsByPlan f pid) (\<lambda>r. case r of
       Inl e \<Rightarrow> Ret (Inl e)
     | Inr secs \<Rightarrow> load_each collate fs secs [])"

definition with_sections ::
  "(string \<Rightarrow> string) \<Rightarrow> faults \<Rightarrow> (string \<Rightarrow> faults) \<Rightarrow> seating_plan \<Rightarrow> (venue_db, venue_error + gql_plan) proc" where
  "with_sections collate f fs p =
     bind_proc (loadSections collate f fs (p_id p)) (\<lambda>r. Ret (map_sum id (mapPlanToGQL p) r))"

definition loadPlanWithSections ::
  "(string \<Rightarrow> string) \<Rightarrow> faults \<Rightarrow> faults \<Rightarrow> (string \<Rightarrow> faults) \<Rightarrow> string \<Rightarrow> (venue_db, venue_error + gql_plan) proc" where
  "loadPlanWithSections collate fp f fs pid = look (FindPlanByID fp 0 pid) (\<lambda>r. case r of
       Inl e \<Rightarrow> Ret (Inl e)
     | Inr p \<Rightarrow> with_sections collate f fs p)"

text \<open>The batch of the loader: one answer per key, in the order of the keys.\<close>

fun load_plans ::
  "(string \<Rightarrow> string) \<Rightarrow> (string \<Rightarrow> faults) \<Rightarrow> (string \<Rightarrow> faults) \<Rightarrow> seating_plan option list
     \<Rightarrow> (venue_gql_error + gql_plan option) list \<Rightarrow> (venue_db, (venue_gql_error + gql_plan option) list) proc" where
  "load_plans collate f fs [] acc = Ret acc"
| "load_plans collate f fs (None # ps) acc = load_plans collate f fs ps (acc @ [Inr None])"
| "load_plans collate f fs (Some p # ps) acc =
     bind_proc (with_sections collate (f (p_id p)) fs p)
       (\<lambda>r. load_plans collate f fs ps (acc @ [map_sum (LoaderError ''planloader sections'') Some r]))"

definition planBatchFn ::
  "(string \<Rightarrow> string) \<Rightarrow> faults \<Rightarrow> (string \<Rightarrow> faults) \<Rightarrow> (string \<Rightarrow> faults) \<Rightarrow> string list
     \<Rightarrow> (venue_db, (venue_gql_error + gql_plan option) list) proc" where
  "planBatchFn collate fp f fs keys = look (FindPlansByIDs fp keys) (\<lambda>r. case r of
       Inl e \<Rightarrow> Ret (map (\<lambda>_. Inl (LoaderError ''planloader'' e)) keys)
     | Inr plans \<Rightarrow> load_plans collate f fs plans [])"

section \<open>Mutations on venues and their sections\<close>

definition Gql_CreateVenue ::
  "faults \<Rightarrow> string \<Rightarrow> int \<Rightarrow> string \<Rightarrow> venue_request \<Rightarrow> (venue_db, venue_gql_error + gql_venue) proc" where
  "Gql_CreateVenue f newid now userID input = with_user ''organizer'' userID
     (doing (CreateVenue f newid now (venue_of_request [] userID input)) (gql_result mapVenueToGQL))"

definition Gql_UpdateVenue ::
  "faults \<Rightarrow> int \<Rightarrow> string \<Rightarrow> string \<Rightarrow> venue_request \<Rightarrow> (venue_db, venue_gql_error + gql_venue) proc" where
  "Gql_UpdateVenue f now userID vid input = with_user ''organizer'' userID
     (doing (UpdateVenue f now (venue_of_request vid userID input)) (\<lambda>r. Ret (case r of
         Inl e \<Rightarrow> Inl (if e = ErrVenueNotFound then VenueMessage ''not found: venue not found'' else VenueRepoError e)
       | Inr u \<Rightarrow> Inr (mapVenueToGQL (venue_of_request vid userID input)))))"

record create_section_input =
  cs_name :: string
  cs_type :: gql_section_type
  cs_rows :: "int option"
  cs_columns :: int
  cs_order :: "int option"

record update_section_input =
  us_name :: "string option"
  us_rows :: "int option"
  us_columns :: "int option"
  us_order :: "int option"

definition template_of :: "string \<Rightarrow> create_section_input \<Rightarrow> venue_section" where
  "template_of venueID i =
     \<lparr>vs_id = [], vs_venue = venueID, vs_name = cs_name i,
      vs_type = (if cs_type i = GqlGA then SectionTypeGA else SectionTypeSeated),
      vs_rows = (case cs_rows i of None \<Rightarrow> 0 | Some n \<Rightarrow> n), vs_columns = cs_columns i, vs_position = [],
      vs_order = (case cs_order i of None \<Rightarrow> 0 | Some n \<Rightarrow> n), vs_created = 0, vs_updated = 0\<rparr>"

definition Gql_CreateSection ::
  "(nat \<Rightarrow> faults) \<Rightarrow> string \<Rightarrow> int \<Rightarrow> string \<Rightarrow> string \<Rightarrow> create_section_input
     \<Rightarrow> (venue_db, venue_gql_error + gql_venue_section) proc" where
  "Gql_CreateSection f newid now userID venueID input = with_user ''organizer'' userID
     (look (FindVenueByID (f 0) venueID) (\<lambda>r. case r of
         Inl e \<Rightarrow> Ret (Inl (if e = ErrVenueNotFound then VenueMessage ''not found: venue not found'' else VenueRepoError e))
       | Inr v \<Rightarrow>
           if v_organizer v \<noteq> userID then Ret (Inl (VenueMessage ''forbidden: not the venue owner''))
           else doing (CreateVenueSection (f 1) newid now (template_of venueID input)) (gql_result mapVenueSectionToGQL)))"

definition edited_section :: "update_section_input \<Rightarrow> venue_section \<Rightarrow> venue_section" where
  "edited_section i v = v\<lparr>vs_name := (case us_name i of None \<Rightarrow> vs_name v | Some x \<Rightarrow> x),
     vs_rows := (case us_rows i of None \<Rightarrow> vs_rows v | Some x \<Rightarrow> x),
     vs_columns := (case us_columns i of None \<Rightarrow> vs_columns v | Some x \<Rightarrow> x),
     vs_order := (case us_order i of None \<Rightarrow> vs_order v | Some x \<Rightarrow> x)\<rparr>"

definition Gql_UpdateSection ::
  "(nat \<Rightarrow> faults) \<Rightarrow> int \<Rightarrow> string \<Rightarrow> string \<Rightarrow> update_section_input
     \<Rightarrow> (venue_db, venue_gql_error + gql_venue_section) proc" where
  "Gql_UpdateSection f now userID sid input = with_user ''organizer'' userID
     (look (FindVenueSectionByID (f 0) sid) (\<lambda>r. case r of
         Inl e \<Rightarrow> Ret (Inl (if e = ErrSectionNotFound then VenueMessage ''not found: section not found'' else VenueRepoError e))
       | Inr existing \<Rightarrow> look (FindVenueByID (f 1) (vs_venue existing)) (\<lambda>r. case r of
             Inl e \<Rightarrow> Ret (Inl (VenueRepoError e))
           | Inr v \<Rightarrow>
               if v_organizer v \<noteq> userID then Ret (Inl (VenueMessage ''forbidden: not the venue owner''))
               else doing (UpdateVenueSection (f 2) now (edited_section input existing))
                      (gql_result (\<lambda>_. mapVenueSectionToGQL (edited_section input existing))))))"

section \<open>Mutations on plans and price tiers\<close>

definition normalizeAssignmentMode :: "gql_assignment \<Rightarrow> string" where
  "normalizeAssignmentMode m = (case m of GqlManual \<Rightarrow> ''manual'' | GqlAuto \<Rightarrow> ''auto'')"

record create_plan_input =
  ci_venue :: string
  ci_ticket :: string
  ci_name :: string
  ci_max :: "int option"
  ci_assignment :: gql_assignment
  ci_pricing :: "string option"

record update_plan_input =
  ui_name :: "string option"
  ui_max :: "int option"
  ui_assignment :: "gql_assignment option"
  ui_pricing :: "string option"

definition request_of_input :: "create_plan_input \<Rightarrow> create_plan_request" where
  "request_of_input i =
     \<lparr>cp_venue = ci_venue i, cp_ticket = ci_ticket i, cp_name = ci_name i,
      cp_max = (case ci_max i of None \<Rightarrow> 0 | Some n \<Rightarrow> n), cp_assignment = normalizeAssignmentMode (ci_assignment i),
      cp_pricing = (case ci_pricing i of None \<Rightarrow> [] | Some s \<Rightarrow> s)\<rparr>"

definition Gql_CreateSeatingPlan ::
  "(string \<Rightarrow> string) \<Rightarrow> (nat \<Rightarrow> faults) \<Rightarrow> (string \<Rightarrow> faults) \<Rightarrow> string \<Rightarrow> (nat \<Rightarrow> string) \<Rightarrow> (nat \<Rightarrow> string) \<Rightarrow> int
     \<Rightarrow> string \<Rightarrow> create_plan_input \<Rightarrow> (venue_db, venue_gql_error + gql_plan) proc" where
  "Gql_CreateSeatingPlan collate f fs newid sgen gen now userID input = with_user ''organizer'' userID
     (doing (CreatePlan (f 0) newid now (drafted_plan userID (request_of_input input))) (\<lambda>r. case r of
         Inl e \<Rightarrow> Ret (Inl (VenueRepoError e))
       | Inr p \<Rightarrow> doing (ProvisionFromVenue (f 1) sgen gen now (p_id p) (ci_venue input)) (\<lambda>_.
           bind_proc (with_sections collate (f 2) fs p) (gql_result id))))"

definition plan_edits :: "string \<Rightarrow> update_plan_input \<Rightarrow> seating_plan \<Rightarrow> seating_plan" where
  "plan_edits userID i p = p\<lparr>p_name := (case ui_name i of None \<Rightarrow> p_name p | Some x \<Rightarrow> x),
     p_max_per_order := (case ui_max i of None \<Rightarrow> p_max_per_order p | Some x \<Rightarrow> x),
     p_assignment := (case ui_assignment i of None \<Rightarrow> p_assignment p | Some m \<Rightarrow> normalizeAssignmentMode m),
     p_pricing := (case ui_pricing i of None \<Rightarrow> p_pricing p | Some x \<Rightarrow> x), p_organizer := userID\<rparr>"

definition Gql_UpdateSeatingPlan ::
  "(string \<Rightarrow> string) \<Rightarrow> (nat \<Rightarrow> faults) \<Rightarrow> (string \<Rightarrow> faults) \<Rightarrow> int \<Rightarrow> string \<Rightarrow> string \<Rightarrow> update_plan_input
     \<Rightarrow> (venue_db, venue_gql_error + gql_plan) proc" where
  "Gql_UpdateSeatingPlan collate f fs now userID pid input = with_user ''organizer'' userID
     (look (FindPlanByID (f 0) 0 pid) (\<lambda>r. case r of
         Inl e \<Rightarrow> Ret (Inl (plan_missing e))
       | Inr existing \<Rightarrow> doing (UpdatePlan (f 1) now (plan_edits userID input existing)) (\<lambda>r. case r of
             Inl e \<Rightarrow> Ret (Inl (plan_missing e))
           | Inr u \<Rightarrow> bind_proc (with_sections collate (f 2) fs (plan_edits userID input existing)) (gql_result id))))"

definition activation_message :: "venue_error \<Rightarrow> venue_gql_error" where
  "activation_message e = (case e of
      ErrPlanAlreadyActive \<Rightarrow> VenueMessage ''conflict: plan is already active''
    | ErrPlanHasNoSections \<Rightarrow> VenueMessage ''unprocessable: plan must have at least one section before activation''
    | ErrVersionConflict \<Rightarrow> VenueMessage ''conflict: plan was modified concurrently''
    | _ \<Rightarrow> VenueRepoError e)"

definition Gql_ActivateSeatingPlan ::
  "(string \<Rightarrow> string) \<Rightarrow> (nat \<Rightarrow> faults) \<Rightarrow> (string \<Rightarrow> faults) \<Rightarrow> int \<Rightarrow> string \<Rightarrow> string
     \<Rightarrow> (venue_db, venue_gql_error + gql_plan) proc" where
  "Gql_ActivateSeatingPlan collate f fs now userID pid = with_user ''organizer'' userID
     (look (FindPlanByID (f 0) 0 pid) (\<lambda>r. case r of
         Inl e \<Rightarrow> Ret (Inl (plan_missing e))
       | Inr existing \<Rightarrow>
           if p_organizer existing \<noteq> userID then Ret (Inl (VenueMessage ''forbidden: not the plan owner''))
           else look id (\<lambda>s1. look id (\<lambda>s2. doing (Activate (f 1) now pid (p_version existing) s1 s2) (\<lambda>r. case r of
               Inl e \<Rightarrow> Ret (Inl (activation_message e))
             | Inr u \<Rightarrow> bind_proc (loadPlanWithSections collate (f 2) (f 3) fs pid) (gql_result id))))))"

definition Gql_DeactivateSeatingPlan ::
  "(string \<Rightarrow> string) \<Rightarrow> (nat \<Rightarrow> faults) \<Rightarrow> (string \<Rightarrow> faults) \<Rightarrow> int \<Rightarrow> string \<Rightarrow> string
     \<Rightarrow> (venue_db, venue_gql_error + gql_plan) proc" where
  "Gql_DeactivateSeatingPlan collate f fs now userID pid = with_user ''organizer'' userID
     (look id (\<lambda>s1. doing (Deactivate (f 0) now pid userID s1) (\<lambda>r. case r of
         Inl e \<Rightarrow> Ret (Inl (if e = ErrPlanNotActive then VenueMessage ''conflict: plan is not active'' else plan_missing e))
       | Inr u \<Rightarrow> bind_proc (loadPlanWithSections collate (f 1) (f 2) fs pid) (gql_result id))))"

definition Gql_CreatePriceTier ::
  "(nat \<Rightarrow> faults) \<Rightarrow> string \<Rightarrow> int \<Rightarrow> string \<Rightarrow> string \<Rightarrow> tier_request
     \<Rightarrow> (venue_db, venue_gql_error + gql_price_tier) proc" where
  "Gql_CreatePriceTier f newid now userID pid input = with_user ''organizer'' userID
     (look (FindPlanByID (f 0) 0 pid) (\<lambda>r. case r of
         Inl e \<Rightarrow> Ret (Inl (plan_missing e))
       | Inr p \<Rightarrow>
           if p_organizer p \<noteq> userID then Ret (Inl (VenueMessage ''forbidden: not the plan owner''))
           else doing (CreateTier (f 1) newid now
                  \<lparr>pt_id = [], pt_plan = pid, pt_name = tq_name input, pt_price = tq_price input, pt_created = 0\<rparr>)
                  (gql_result mapPriceTierToGQL)))"

section \<open>Holds\<close>

definition Gql_HoldSeats ::
  "hold_config \<Rightarrow> (int \<Rightarrow> string) \<Rightarrow> (nat \<Rightarrow> faults) \<Rightarrow> redis_faults \<Rightarrow> int \<Rightarrow> string \<Rightarrow> string \<Rightarrow> string list
     \<Rightarrow> (hold_world, venue_gql_error + seat_hold_result) proc" where
  "Gql_HoldSeats c rfc f rf now userID pid seatIDs = with_user ''user'' userID
     (doing (Manager_HoldSeats c rfc (f 0) (f 1) rf now pid userID [] seatIDs) (\<lambda>r. Ret (case r of
         Inl e \<Rightarrow> Inl (if e = HRepo ErrSeatLimitExceeded then VenueMessage ''conflict: per-buyer seat limit reached for this plan''
                       else if e = HSeatLimitUnavailable then VenueMessage ''unavailable: seat holds are temporarily unavailable''
                       else VenueHoldError e)
       | Inr held \<Rightarrow> Inr (holdResultToGQL rfc held))))"

definition Gql_ReleaseSeats ::
  "hold_config \<Rightarrow> faults \<Rightarrow> redis_faults \<Rightarrow> int \<Rightarrow> string \<Rightarrow> string \<Rightarrow> string list
     \<Rightarrow> (hold_world, venue_gql_error + bool) proc" where
  "Gql_ReleaseSeats c f rf now userID pid seatIDs = with_user ''user'' userID
     (doing (Manager_ReleaseHold c f rf now pid userID seatIDs)
       (\<lambda>r. Ret (case r of Inl e \<Rightarrow> Inl (VenueHoldError e) | Inr u \<Rightarrow> Inr True)))"

section \<open>Queries\<close>

definition Gql_Venues :: "faults \<Rightarrow> string \<Rightarrow> (venue_db, venue_gql_error + gql_venue list) proc" where
  "Gql_Venues f userID = with_user ''organizer'' userID
     (look (ListVenuesByOrganizer f userID) (gql_result (map mapVenueToGQL)))"

definition Gql_Venue :: "faults \<Rightarrow> string \<Rightarrow> (venue_db, venue_gql_error + gql_venue option) proc" where
  "Gql_Venue f vid = look (FindVenueByID f vid) (\<lambda>r. Ret (case r of
       Inl e \<Rightarrow> if e = ErrVenueNotFound then Inr None else Inl (VenueRepoError e)
     | Inr v \<Rightarrow> Inr (Some (mapVenueToGQL v))))"

fun gql_plans ::
  "(string \<Rightarrow> string) \<Rightarrow> (string \<Rightarrow> faults) \<Rightarrow> (string \<Rightarrow> faults) \<Rightarrow> seating_plan list \<Rightarrow> gql_plan list
     \<Rightarrow> (venue_db, venue_gql_error + gql_plan list) proc" where
  "gql_plans collate f fs [] acc = Ret (Inr acc)"
| "gql_plans collate f fs (p # ps) acc =
     bind_proc (with_sections collate (f (p_id p)) fs p) (\<lambda>r. case r of
         Inl e \<Rightarrow> Ret (Inl (VenueRepoError e))
       | Inr g \<Rightarrow> gql_plans collate f fs ps (acc @ [g]))"

definition Gql_SeatingPlans ::
  "(string \<Rightarrow> string) \<Rightarrow> faults \<Rightarrow> (string \<Rightarrow> faults) \<Rightarrow> (string \<Rightarrow> faults) \<Rightarrow> string \<Rightarrow> string
     \<Rightarrow> (venue_db, venue_gql_error + gql_plan list) proc" where
  "Gql_SeatingPlans collate fl f fs userID venueID = with_user ''organizer'' userID
     (look (ListPlansByVenue fl venueID userID) (\<lambda>r. case r of
         Inl e \<Rightarrow> Ret (Inl (VenueRepoError e))
       | Inr plans \<Rightarrow> gql_plans collate f fs plans []))"

definition Gql_SeatingPlan ::
  "(string \<Rightarrow> string) \<Rightarrow> faults \<Rightarrow> faults \<Rightarrow> (string \<Rightarrow> faults) \<Rightarrow> string
     \<Rightarrow> (venue_db, venue_gql_error + gql_plan option) proc" where
  "Gql_SeatingPlan collate fp f fs pid = look (FindPlanByID fp 0 pid) (\<lambda>r. case r of
       Inl e \<Rightarrow> Ret (if e = ErrPlanNotFound then Inr None else Inl (VenueRepoError e))
     | Inr p \<Rightarrow> bind_proc (with_sections collate f fs p) (gql_result Some))"

text \<open>The federation entity: the plan of one key of a batch.\<close>

definition FindSeatingPlanByID ::
  "(string \<Rightarrow> string) \<Rightarrow> faults \<Rightarrow> (string \<Rightarrow> faults) \<Rightarrow> (string \<Rightarrow> faults) \<Rightarrow> string
     \<Rightarrow> (venue_db, venue_gql_error + gql_plan option) proc" where
  "FindSeatingPlanByID collate fp f fs pid = bind_proc (planBatchFn collate fp f fs [pid]) (\<lambda>rs. Ret (hd rs))"

end
