(* ===== verification/Venue_Api_Props.thy ===== *)
theory Venue_Api_Props
  imports Venue_Graphql
begin

text \<open>
  What the two interfaces of venue-service promise of plans: whatever else runs, the requests of a
  user leave the plans of others alone; and what REST counts as the seats of a plan.
\<close>

section \<open>Requests among others\<close>

text \<open>
  \<open>guarantees R G p s\<close>: when the others move the state only as \<open>R\<close> allows, every step of \<open>p\<close> is one
  of \<open>G\<close>; \<open>s\<close> is the state after the last step of \<open>p\<close>.
\<close>

primrec guarantees :: "('s \<Rightarrow> 's \<Rightarrow> bool) \<Rightarrow> ('s \<Rightarrow> 's \<Rightarrow> bool) \<Rightarrow> ('s, 'a) proc \<Rightarrow> 's \<Rightarrow> bool" where
  "guarantees R G (Ret a) s = True"
| "guarantees R G (Act u k) s = (\<forall>s'. R s s' \<longrightarrow> G s' (u s') \<and> guarantees R G (k s') (u s'))"

lemma guarantees_look [simp]:
  assumes "\<And>s. G s s"
  shows "guarantees R G (look g k) s \<longleftrightarrow> (\<forall>s'. R s s' \<longrightarrow> guarantees R G (k (g s')) s')"
  using assms by (simp add: look_def)

lemma guarantees_doing:
  "guarantees R G (doing g k) s \<longleftrightarrow>
    (\<forall>s'. R s s' \<longrightarrow> G s' (snd (g s')) \<and> guarantees R G (k (fst (g s'))) (snd (g s')))"
  by (simp add: doing_def)

lemma guarantees_bind:
  "guarantees R G p s \<Longrightarrow> (\<And>a s. guarantees R G (h a) s) \<Longrightarrow> guarantees R G (bind_proc p h) s"
  by (induction p arbitrary: s) auto

section \<open>Whose plan it is\<close>

definition plan_owner :: "venue_db \<Rightarrow> string \<Rightarrow> string option" where
  "plan_owner d pid = map_option p_organizer (find_row p_id pid (db_plans d))"

definition foreign_plans :: "string \<Rightarrow> venue_db \<Rightarrow> seating_plan list" where
  "foreign_plans userID d = filter (\<lambda>p. p_organizer p \<noteq> userID) (db_plans d)"

definition plans_stand :: "venue_db \<Rightarrow> venue_db \<Rightarrow> bool" where
  "plans_stand d d' \<longleftrightarrow> distinct (map p_id (db_plans d')) \<and>
     (\<forall>pid u. plan_owner d pid = Some u \<longrightarrow> plan_owner d' pid = Some u)"

abbreviation leaves_foreign :: "string \<Rightarrow> venue_db \<Rightarrow> venue_db \<Rightarrow> bool" where
  "leaves_foreign userID d d' \<equiv> foreign_plans userID d' = foreign_plans userID d"

lemma foreign_update:
  assumes "\<And>p. p \<in> set ps \<Longrightarrow> hit p \<Longrightarrow> p_organizer p = userID" "\<And>p. p_organizer (g p) = p_organizer p"
  shows "filter (\<lambda>p. p_organizer p \<noteq> userID) (sql_update hit g ps) = filter (\<lambda>p. p_organizer p \<noteq> userID) ps"
  using assms by (induction ps) auto

lemma update_plan_foreign:
  assumes "\<And>p. p \<in> set (db_plans d) \<Longrightarrow> hit p \<Longrightarrow> p_organizer p = userID" "\<And>p. p_organizer (g p) = p_organizer p"
  shows "foreign_plans userID (snd (update_plan f k e hit g d)) = foreign_plans userID d"
  using foreign_update [of "db_plans d" hit userID g] assms by (simp add: foreign_plans_def update_plan_def)

lemma owner_of_row:
  assumes "distinct (map p_id (db_plans d))" "p \<in> set (db_plans d)" "plan_owner d (p_id p) = Some u"
  shows "p_organizer p = u"
  using find_row_distinct [OF assms(1,2)] assms(3) by (simp add: plan_owner_def)

lemma found_owner: "FindPlanByID f k pid d = Inr p \<Longrightarrow> plan_owner d pid = Some (p_organizer p)"
  by (auto simp: FindPlanByID_def plan_owner_def split: if_splits option.splits)

lemma stand_trans: "plans_stand d d' \<Longrightarrow> plans_stand d' d'' \<Longrightarrow> plans_stand d d''"
  by (simp add: plans_stand_def)

lemma activate_foreign:
  assumes "distinct (map p_id (db_plans d))" "plan_owner d pid = Some userID"
  shows "leaves_foreign userID d (snd (Activate f now pid v s1 s2 d))"
proof -
  have "p_organizer p = userID" if "p \<in> set (db_plans d)" "p_id p = pid" for p
    using owner_of_row [OF assms(1) that(1)] assms(2) that(2) by simp
  then show ?thesis
    unfolding Activate_def by (auto simp: set_plan_status_def split: sum.split intro!: update_plan_foreign)
qed

lemma deactivate_foreign: "leaves_foreign userID d (snd (Deactivate f now pid userID s1 d))"
  unfolding Deactivate_def by (auto simp: set_plan_status_def split: sum.split intro!: update_plan_foreign)

lemma update_foreign: "p_organizer p = userID \<Longrightarrow> leaves_foreign userID d (snd (UpdatePlan f now p d))"
  unfolding UpdatePlan_def Let_def by (auto simp: edit_plan_def intro!: update_plan_foreign)

lemma layout_foreign: "leaves_foreign userID d (snd (SaveLayout f now pid userID l d))"
  unfolding SaveLayout_def Let_def by (auto simp: set_layout_def split: sum.split intro!: update_plan_foreign)

lemma create_foreign: "p_organizer p = userID \<Longrightarrow> leaves_foreign userID d (snd (CreatePlan f newid now p d))"
  by (auto simp: CreatePlan_def Let_def run_stmt_def foreign_plans_def)

lemma clone_plans:
  "clone_sections f k sgen m gen n now pid tss d = Inr d' \<Longrightarrow> db_plans d' = db_plans d"
  by (induction tss arbitrary: k m n d)
    (auto simp: createSection_def bulkInsertSeats_def bind_res_Inr_iff Let_def split: if_splits prod.splits)

lemma provision_foreign: "leaves_foreign userID d (snd (ProvisionFromVenue f sgen gen now pid venueID d))"
proof -
  have "db_plans (snd (ProvisionFromVenue f sgen gen now pid venueID d)) = db_plans d"
    unfolding ProvisionFromVenue_def
    by (rule run_tx_invariant) (auto simp: commit_iffs Let_def dest: clone_plans)
  then show ?thesis by (simp add: foreign_plans_def)
qed

section \<open>The requests\<close>

definition forget :: "('s, 'a) proc \<Rightarrow> ('s, unit) proc" where
  "forget p = bind_proc p (\<lambda>_. Ret ())"

text \<open>The requests of a user that write plans, over both interfaces.\<close>

inductive plan_request :: "signed_check \<Rightarrow> string \<Rightarrow> (venue_db, unit) proc \<Rightarrow> bool" for valid userID where
  rest_create: "plan_request valid userID (forget (Http_CreatePlan valid f newid sgen gen now (userID, sig) body))"
| rest_update: "plan_request valid userID (forget (Http_UpdatePlan valid fu now (userID, sig) pid ubody))"
| rest_activate: "plan_request valid userID (forget (Http_ActivatePlan valid f now (userID, sig) pid ver query))"
| rest_deactivate: "plan_request valid userID (forget (Http_DeactivatePlan valid f now (userID, sig) pid))"
| rest_layout: "plan_request valid userID (forget (Http_SaveLayout valid f now (userID, sig) pid layout))"
| gql_create: "plan_request valid userID (forget (Gql_CreateSeatingPlan collate f fs newid sgen gen now userID cinput))"
| gql_update: "plan_request valid userID (forget (Gql_UpdateSeatingPlan collate f fs now userID pid uinput))"
| gql_activate: "plan_request valid userID (forget (Gql_ActivateSeatingPlan collate f fs now userID pid))"
| gql_deactivate: "plan_request valid userID (forget (Gql_DeactivateSeatingPlan collate f fs now userID pid))"

lemmas request_defs = Http_CreatePlan_def Http_UpdatePlan_def Http_ActivatePlan_def Http_DeactivatePlan_def
  Http_SaveLayout_def Gql_CreateSeatingPlan_def Gql_UpdateSeatingPlan_def Gql_ActivateSeatingPlan_def
  Gql_DeactivateSeatingPlan_def

lemma reading_only:
  assumes "\<And>s. G s s"
  shows "guarantees R G (load_each collate fs ss acc) s"
    and "guarantees R G (loadSections collate f fs pid) s"
    and "guarantees R G (with_sections collate f fs p) s"
    and "guarantees R G (loadPlanWithSections collate fp f fs pid) s"
    and "guarantees R G (refetch_plan f pid) s"
proof -
  show each: "guarantees R G (load_each collate fs ss acc) s" for ss acc s
    by (induction ss arbitrary: acc s) (simp_all add: assms split: sum.split)
  show load: "guarantees R G (loadSections collate f fs pid) s" for f pid s
    by (simp add: loadSections_def assms each split: sum.split)
  show withs: "guarantees R G (with_sections collate f fs p) s" for p s
    by (simp add: with_sections_def guarantees_bind load)
  show "guarantees R G (loadPlanWithSections collate fp f fs pid) s"
    by (simp add: loadPlanWithSections_def assms withs split: sum.split)
  show "guarantees R G (refetch_plan f pid) s"
    by (simp add: refetch_plan_def assms split: sum.split)
qed


lemma guarantees_forget [simp]: "guarantees R G p s \<Longrightarrow> guarantees R G (forget p) s"
  by (simp add: forget_def guarantees_bind)

text \<open>The ways the requests write: under the user's name, or a plan that was found to be the user's.\<close>

lemma writes_own:
  assumes "\<And>d. leaves_foreign userID d (snd (g d))" "\<And>r s. guarantees plans_stand (leaves_foreign userID) (k r) s"
  shows "guarantees plans_stand (leaves_foreign userID) (doing g k) s"
  using assms by (simp add: guarantees_doing)

lemma activates_own:
  assumes "plan_owner s pid = Some userID" "\<And>r s. guarantees plans_stand (leaves_foreign userID) (k r) s"
  shows "guarantees plans_stand (leaves_foreign userID)
    (doing (Activate f now pid v s1 s2) k) s"
  using assms by (auto simp: guarantees_doing plans_stand_def intro!: activate_foreign)

lemma owned_later: "plans_stand s s' \<Longrightarrow> plan_owner s pid = Some u \<Longrightarrow> plan_owner s' pid = Some u"
  by (simp add: plans_stand_def)

lemma rest_activate_own:
  "guarantees plans_stand (leaves_foreign userID) (Http_ActivatePlan valid f now (userID, sig) pid ver query) d"
  by (auto simp: Http_ActivatePlan_def signed_in_def activate_checked_def Let_def reading_only
      split: sum.split intro!: activates_own)
    (meson found_owner owned_later)+

lemma gql_activate_own:
  "guarantees plans_stand (leaves_foreign userID) (Gql_ActivateSeatingPlan collate f fs now userID pid) d"
  by (auto simp: Gql_ActivateSeatingPlan_def with_user_def gql_result_def reading_only
      split: sum.split intro!: activates_own guarantees_bind)
    (meson found_owner owned_later)+

lemma creates_own:
  "guarantees plans_stand (leaves_foreign userID) (Http_CreatePlan valid f newid sgen gen now (userID, sig) body) d"
  "guarantees plans_stand (leaves_foreign userID) (Gql_CreateSeatingPlan collate f fs newid sgen gen now userID input) d"
  by (auto simp: Http_CreatePlan_def Gql_CreateSeatingPlan_def with_user_def signed_in_def bind_body_def gql_result_def
      drafted_plan_def reading_only split: sum.split option.split
      intro!: writes_own create_foreign provision_foreign guarantees_bind)

lemma updates_own:
  "guarantees plans_stand (leaves_foreign userID) (Http_UpdatePlan valid fu now (userID, sig) pid ubody) d"
  "guarantees plans_stand (leaves_foreign userID) (Gql_UpdateSeatingPlan collate f fs now userID pid uinput) d"
  by (auto simp: Http_UpdatePlan_def Gql_UpdateSeatingPlan_def with_user_def signed_in_def bind_body_def gql_result_def
      edited_plan_def plan_edits_def reading_only split: sum.split option.split
      intro!: writes_own update_foreign guarantees_bind)

lemma settles_own:
  "guarantees plans_stand (leaves_foreign userID) (Http_DeactivatePlan valid f now (userID, sig) pid) d"
  "guarantees plans_stand (leaves_foreign userID) (Gql_DeactivateSeatingPlan collate f fs now userID pid) d"
  "guarantees plans_stand (leaves_foreign userID) (Http_SaveLayout valid f now (userID, sig) pid layout) d"
  by (auto simp: Http_DeactivatePlan_def Gql_DeactivateSeatingPlan_def Http_SaveLayout_def with_user_def signed_in_def
      bind_body_def gql_result_def reading_only split: sum.split option.split venue_error.split
      intro!: writes_own deactivate_foreign layout_foreign guarantees_bind)

text \<open>
  C6: Whatever the other requests do, as long as plans are neither deleted nor handed over, no step of
  a request of a user that creates, changes, activates, deactivates or lays out a plan changes a plan
  of anyone else: over REST and over GraphQL, with any faults, and even where the ownership was
  checked in an earlier state than the one the write finds.
\<close>

theorem requests_keep_to_own_plans:
  assumes "plan_request valid userID p"
  shows "guarantees plans_stand (leaves_foreign userID) p d"
  using assms
  by cases (simp_all add: creates_own updates_own settles_own rest_activate_own gql_activate_own)

section \<open>Seats of general admission\<close>

definition ga_section_request :: "string \<Rightarrow> int \<Rightarrow> venue_section_request" where
  "ga_section_request name n = \<lparr>vsq_name = name, vsq_type = ''ga'', vsq_rows = 0, vsq_columns = n, vsq_order = 0\<rparr>"

definition plan_for :: "string \<Rightarrow> string \<Rightarrow> string \<Rightarrow> create_plan_request" where
  "plan_for venueID ticketID name = \<lparr>cp_venue = venueID, cp_ticket = ticketID, cp_name = name, cp_max = 0,
     cp_assignment = [], cp_pricing = []\<rparr>"

abbreviation nf :: "nat \<Rightarrow> faults" where
  "nf \<equiv> \<lambda>_. no_faults"

text \<open>The section and the plan in one go: a venue with one section of general admission.\<close>

definition ga_plan :: "seating_plan \<Rightarrow> int \<Rightarrow> venue_db \<Rightarrow> bool" where
  "ga_plan p n d \<longleftrightarrow> find_row p_id (p_id p) (db_plans d) = Some p \<and> p_status p = PlanStatusDraft \<and>
     p_pricing p = ''single'' \<and>
     (\<exists>s. filter (\<lambda>s. sec_plan s = p_id p) (db_sections d) = [s] \<and> sec_type s = SectionTypeGA \<and>
          sec_rows s = 0 \<and> sec_columns s = n) \<and>
     int (length (filter (\<lambda>s. s_plan s = p_id p \<and> s_status s = SeatStatusAvailable) (db_seats d))) = n"


lemma ga_section_created:
  assumes "valid userID sig" "userID \<noteq> []" "0 < n" "name \<noteq> []"
    "find_row v_id venueID (db_venues d) = Some v" "v_organizer v = userID" "venue_templates venueID d = []"
    "run_alone (Http_CreateVenueSection valid nf vsid now (userID, sig) venueID (Some (ga_section_request name n))) d = (a, d1)"
  shows "\<exists>t. d1 = d\<lparr>db_venue_sections := db_venue_sections d @ [t]\<rparr> \<and> venue_templates venueID d1 = [t] \<and>
    vs_type t = SectionTypeGA \<and> vs_rows t = 0 \<and> vs_columns t = n"
proof -
  have no: "filter (\<lambda>v. vs_venue v = venueID) (db_venue_sections d) = []"
    using arg_cong [OF assms(7), of length] by (simp add: venue_templates_def)
  then show ?thesis
    using assms(1-6,8)
    by (auto simp: Http_CreateVenueSection_def signed_in_def owned_venue_def bind_body_def ga_section_request_def FindVenueByID_def
        CreateVenueSection_def Let_def run_stmt_def venue_section_of_def venue_templates_def SectionTypeGA_def)
qed

lemma ga_seats:
  assumes "0 < n"
  shows "\<exists>rows. bulkInsertSeats no_faults k gen n0 now sec pid SectionTypeGA [] 0 n d =
      Inr (n0 + nat n, d\<lparr>db_seats := db_seats d @ rows\<rparr>) \<and> int (length rows) = n \<and>
      (\<forall>s \<in> set rows. s_plan s = pid \<and> s_status s = SeatStatusAvailable)"
proof -
  let ?labs = "map (\<lambda>i. (''GA'' @ sprintf_d i, ''GA'', i)) [1..n]"
  let ?rows = "map (\<lambda>(i, lab). new_seat (gen (n0 + i)) now sec pid [] lab) (enumerate 0 ?labs)"
  have "?labs \<noteq> []" using assms by simp
  then have "bulkInsertSeats no_faults k gen n0 now sec pid SectionTypeGA [] 0 n d =
      Inr (n0 + nat n, d\<lparr>db_seats := db_seats d @ ?rows\<rparr>)"
    by (simp add: bulkInsertSeats_def seat_layout_def SectionTypeGA_def SectionTypeSeated_def)
  moreover have "int (length ?rows) = n \<and> (\<forall>s \<in> set ?rows. s_plan s = pid \<and> s_status s = SeatStatusAvailable)"
    using assms by (auto simp: new_seat_def)
  ultimately show ?thesis by blast
qed

lemma ga_plan_created:
  assumes "valid userID sig" "userID \<noteq> []" "0 < n" "venueID \<noteq> []" "ticketID \<noteq> []" "name \<noteq> []"
    "venue_templates venueID d = [t]" "vs_type t = SectionTypeGA" "vs_rows t = 0" "vs_columns t = n"
    "find_row p_id pid (db_plans d) = None" "filter (\<lambda>s. sec_plan s = pid) (db_sections d) = []"
    "filter (\<lambda>s. s_plan s = pid) (db_seats d) = []"
    "run_alone (Http_CreatePlan valid nf pid sgen gen now (userID, sig) (Some (plan_for venueID ticketID name))) d = (a, d2)"
  shows "\<exists>p. p_id p = pid \<and> p_organizer p = userID \<and> ga_plan p n d2"
proof -
  define p where "p = (drafted_plan userID (plan_for venueID ticketID name))\<lparr>p_id := pid, p_status := PlanStatusDraft,
    p_max_per_order := 10, p_layout := ''{}'', p_assignment := ''manual'', p_pricing := ''single'', p_version := 1,
    p_created := now, p_updated := now\<rparr>"
  define d1 where "d1 = d\<lparr>db_plans := db_plans d @ [p]\<rparr>"
  have plan: "CreatePlan no_faults pid now (drafted_plan userID (plan_for venueID ticketID name)) d = (Inr p, d1)"
    by (simp add: CreatePlan_def Let_def run_stmt_def p_def d1_def drafted_plan_def plan_for_def default_text_def plan_checks_def)
  define s where "s = \<lparr>sec_id = sgen 0, sec_plan = pid, sec_name = vs_name t, sec_type = SectionTypeGA,
    sec_rows = 0, sec_columns = n, sec_tier = [], sec_created = now, sec_updated = now\<rparr>"
  define ds where "ds = d1\<lparr>db_sections := db_sections d1 @ [s]\<rparr>"
  obtain rows where rows: "bulkInsertSeats no_faults 4 gen 0 now (sgen 0) pid SectionTypeGA [] 0 n ds =
      Inr (0 + nat n, ds\<lparr>db_seats := db_seats ds @ rows\<rparr>)" "int (length rows) = n"
      "\<forall>s \<in> set rows. s_plan s = pid \<and> s_status s = SeatStatusAvailable"
    using ga_seats [OF assms(3)] by blast
  have templates: "venue_templates venueID d1 = [t]" using assms(7) by (simp add: d1_def venue_templates_def)
  have clone: "clone_sections no_faults 3 sgen 0 gen 0 now pid [t] d1 = Inr (ds\<lparr>db_seats := db_seats ds @ rows\<rparr>)"
    using rows(1) assms(8,9,10) by (simp add: createSection_def Let_def ds_def s_def)
  have "\<not> (\<exists>s \<in> set (db_sections d1). sec_plan s = pid)"
    using assms(12) by (auto simp: d1_def filter_empty_conv)
  then have prov: "snd (ProvisionFromVenue no_faults sgen gen now pid venueID d1) = ds\<lparr>db_seats := db_seats ds @ rows\<rparr>"
    using clone by (simp add: ProvisionFromVenue_def templates Let_def run_tx_def)
  have "d2 = ds\<lparr>db_seats := db_seats ds @ rows\<rparr>"
    using assms(1,2,4,5,6,14) plan prov
    by (simp add: Http_CreatePlan_def signed_in_def bind_body_def plan_for_def p_def drafted_plan_def)
  moreover have "p_id p = pid" "p_organizer p = userID" by (simp_all add: p_def drafted_plan_def)
  moreover have "ga_plan p n (ds\<lparr>db_seats := db_seats ds @ rows\<rparr>)"
    using assms(11,12,13) rows(2,3)
    by (auto simp: ga_plan_def ds_def d1_def s_def p_def filter_empty_conv intro: arg_cong [where f = int])
  ultimately show ?thesis by blast
qed


text \<open>What the two interfaces say of such a plan.\<close>

lemma ga_plan_answers:
  assumes "ga_plan p n d" "valid (p_organizer p) sig" "p_organizer p \<noteq> []"
  shows "\<exists>b. fst (run_alone (Http_GetPlan nf (p_id p)) d) = Answered 200 b \<and> pb_capacity b = 0"
    and "run_alone (Http_ActivatePlan valid nf now (p_organizer p, sig) (p_id p) ver query) d =
      (Refused 422 ''plan must have at least one seat before activation'', d)"
proof -
  obtain s where s: "filter (\<lambda>s. sec_plan s = p_id p) (db_sections d) = [s]" "sec_type s = SectionTypeGA" "sec_rows s = 0"
    using assms(1) by (auto simp: ga_plan_def)
  have reads: "FindPlanByID no_faults 0 (p_id p) d = Inr p" "ListSectionsByPlan no_faults (p_id p) d = Inr [s]"
    using assms(1) s(1) by (simp_all add: ga_plan_def FindPlanByID_def ListSectionsByPlan_def)
  show "\<exists>b. fst (run_alone (Http_GetPlan nf (p_id p)) d) = Answered 200 b \<and> pb_capacity b = 0"
    using reads s(3) by (simp add: Http_GetPlan_def total_capacity_def)
  show "run_alone (Http_ActivatePlan valid nf now (p_organizer p, sig) (p_id p) ver query) d =
      (Refused 422 ''plan must have at least one seat before activation'', d)"
    using assms reads s(3)
    by (simp add: Http_ActivatePlan_def signed_in_def activate_checked_def total_capacity_def ga_plan_def)
qed

lemma load_answers: "\<exists>g. run_alone (loadPlanWithSections collate no_faults no_faults (\<lambda>_. no_faults) pid) d = (Inr g, d) \<and>
    gp_status g = (case p_status p of PlanStatusDraft \<Rightarrow> GqlDraft | PlanStatusActive \<Rightarrow> GqlActive
                     | PlanStatusInactive \<Rightarrow> GqlArchived)"
  if "find_row p_id pid (db_plans d) = Some p"
proof -
  have each: "\<exists>gs. run_alone (load_each collate (\<lambda>_. no_faults) ss acc) d = (Inr gs, d)" for ss acc
    by (induction ss arbitrary: acc) (simp_all add: FindSeatsBySection_def scanSeats_def)
  obtain gs where "run_alone (load_each collate (\<lambda>_. no_faults)
      (sort_key sec_created (filter (\<lambda>s. sec_plan s = p_id p) (db_sections d))) []) d = (Inr gs, d)"
    using each by blast
  then have "run_alone (loadPlanWithSections collate no_faults no_faults (\<lambda>_. no_faults) pid) d = (Inr (mapPlanToGQL p gs), d)"
    using that by (simp add: loadPlanWithSections_def FindPlanByID_def with_sections_def loadSections_def ListSectionsByPlan_def)
  then show ?thesis by (simp add: mapPlanToGQL_def)
qed

lemma ga_plan_activates:
  assumes "ga_plan p n d" "p_organizer p \<noteq> []"
  shows "\<exists>g d'. run_alone (Gql_ActivateSeatingPlan collate nf (\<lambda>_. no_faults) now (p_organizer p) (p_id p)) d = (Inr g, d') \<and>
    gp_status g = GqlActive"
proof -
  have p: "find_row p_id (p_id p) (db_plans d) = Some p" "p_status p = PlanStatusDraft"
    "filter (\<lambda>s. sec_plan s = p_id p) (db_sections d) \<noteq> []"
    using assms(1) by (auto simp: ga_plan_def)
  let ?hit = "\<lambda>r. p_id r = p_id p \<and> p_version r = p_version p \<and> (p_status r = PlanStatusDraft \<or> p_status r = PlanStatusInactive)"
  let ?d' = "d\<lparr>db_plans := sql_update ?hit (set_plan_status PlanStatusActive now) (db_plans d)\<rparr>"
  have mem: "p \<in> set (db_plans d)" using find_row_Some_iff_set [OF p(1)] by simp
  then have "rows_affected ?hit (db_plans d) \<noteq> 0" using p(2) by (auto simp: rows_affected_zero)
  then have act: "Activate no_faults now (p_id p) (p_version p) d d d = (Inr (), ?d')"
    using p by (simp add: Activate_def FindPlanByID_def update_plan_def)
  have "find_row p_id (p_id p) (db_plans ?d') = Some (set_plan_status PlanStatusActive now p)"
    using p(1,2) plan_status.find_after [of "p_id p" ?hit PlanStatusActive now "db_plans d"] by simp
  then obtain g where g: "run_alone (loadPlanWithSections collate no_faults no_faults (\<lambda>_. no_faults) (p_id p)) ?d' = (Inr g, ?d')"
      "gp_status g = GqlActive"
    using load_answers [of "p_id p" ?d' "set_plan_status PlanStatusActive now p" collate] by (auto simp: set_plan_status_def)
  have "run_alone (Gql_ActivateSeatingPlan collate nf (\<lambda>_. no_faults) now (p_organizer p) (p_id p)) d = (Inr g, ?d')"
    using act p(1) assms(2) g(1)
    by (simp add: Gql_ActivateSeatingPlan_def with_user_def FindPlanByID_def gql_result_def)
  then show ?thesis using g(2) by blast
qed

text \<open>
  An organizer adds a section of general admission to a venue, by its capacity as the handler asks
  for it (no rows, \<open>n\<close> columns), and makes a plan of the venue: the plan gets \<open>n\<close> available seats.
  REST still reports its capacity as 0, because it multiplies rows and columns, and refuses to
  activate the plan for lack of a seat; GraphQL activates it.
\<close>

theorem ga_plan_is_stuck_over_rest:
  assumes "valid userID sig" "userID \<noteq> []" "0 < n" "venueID \<noteq> []" "ticketID \<noteq> []" "name \<noteq> []"
    "find_row v_id venueID (db_venues d) = Some v" "v_organizer v = userID" "venue_templates venueID d = []"
    "find_row p_id pid (db_plans d) = None" "filter (\<lambda>s. sec_plan s = pid) (db_sections d) = []"
    "filter (\<lambda>s. s_plan s = pid) (db_seats d) = []"
    "run_alone (Http_CreateVenueSection valid nf vsid t1 (userID, sig) venueID (Some (ga_section_request name n))) d = (a1, d1)"
    "run_alone (Http_CreatePlan valid nf pid sgen gen t2 (userID, sig) (Some (plan_for venueID ticketID name))) d1 = (a2, d2)"
  shows "int (length (filter (\<lambda>s. s_plan s = pid \<and> s_status s = SeatStatusAvailable) (db_seats d2))) = n \<and>
    (\<exists>b. fst (run_alone (Http_GetPlan nf pid) d2) = Answered 200 b \<and> pb_capacity b = 0) \<and>
    run_alone (Http_ActivatePlan valid nf t3 (userID, sig) pid ver query) d2 =
      (Refused 422 ''plan must have at least one seat before activation'', d2) \<and>
    (\<exists>g d3. run_alone (Gql_ActivateSeatingPlan collate nf (\<lambda>_. no_faults) t3 userID pid) d2 = (Inr g, d3) \<and>
       gp_status g = GqlActive)"
proof -
  obtain t where t: "d1 = d\<lparr>db_venue_sections := db_venue_sections d @ [t]\<rparr>" "venue_templates venueID d1 = [t]"
      "vs_type t = SectionTypeGA" "vs_rows t = 0" "vs_columns t = n"
    using ga_section_created [OF assms(1,2,3,6,7,8,9,13)] by blast
  obtain p where p: "p_id p = pid" "p_organizer p = userID" "ga_plan p n d2"
    using ga_plan_created [OF assms(1-6) t(2-5) _ _ _ assms(14)] assms(10,11,12) t(1) by auto
  have "int (length (filter (\<lambda>s. s_plan s = pid \<and> s_status s = SeatStatusAvailable) (db_seats d2))) = n"
    using p(1,3) by (simp add: ga_plan_def)
  then show ?thesis
    using ga_plan_answers [OF p(3), of valid sig] ga_plan_activates [OF p(3)] p(1,2) assms(1,2) by simp
qed

section \<open>The properties at work\<close>

definition small_venue :: venue where
  "small_venue = \<lparr>v_id = ''v'', v_organizer = ''org'', v_name = ''V'', v_capacity = 10, v_timezone = ''UTC'',
     v_address = [], v_created = 0, v_updated = 0\<rparr>"

definition small_db :: venue_db where
  "small_db = empty_db\<lparr>db_venues := [small_venue]\<rparr>"

lemma ga_plan_is_stuck_over_rest_witness:
  "run_alone (Http_ActivatePlan (\<lambda>u s. True) nf 3 (''org'', []) ''p'' None [])
     (snd (run_alone (Http_CreatePlan (\<lambda>u s. True) nf ''p'' (\<lambda>i. replicate i CHR ''s'') (\<lambda>i. replicate i CHR ''x'') 2 (''org'', [])
        (Some (plan_for ''v'' ''t'' ''P'')))
      (snd (run_alone (Http_CreateVenueSection (\<lambda>u s. True) nf ''vs'' 1 (''org'', []) ''v'' (Some (ga_section_request ''P'' 2))) small_db)))) =
   (Refused 422 ''plan must have at least one seat before activation'',
    snd (run_alone (Http_CreatePlan (\<lambda>u s. True) nf ''p'' (\<lambda>i. replicate i CHR ''s'') (\<lambda>i. replicate i CHR ''x'') 2 (''org'', [])
        (Some (plan_for ''v'' ''t'' ''P'')))
      (snd (run_alone (Http_CreateVenueSection (\<lambda>u s. True) nf ''vs'' 1 (''org'', []) ''v'' (Some (ga_section_request ''P'' 2))) small_db))))"
proof -
  have d: "find_row v_id ''v'' (db_venues small_db) = Some small_venue" "v_organizer small_venue = ''org''"
    "venue_templates ''v'' small_db = []" "find_row p_id ''p'' (db_plans small_db) = None"
    "filter (\<lambda>s. sec_plan s = ''p'') (db_sections small_db) = []" "filter (\<lambda>s. s_plan s = ''p'') (db_seats small_db) = []"
    by (simp_all add: small_db_def small_venue_def empty_db_def venue_templates_def)
  show ?thesis
    using ga_plan_is_stuck_over_rest [of "\<lambda>u s. True" "''org''" "[]" 2 "''v''" "''t''" "''P''", OF _ _ _ _ _ _ d
        surjective_pairing surjective_pairing] by simp
qed

lemma requests_keep_to_own_plans_witness:
  "guarantees plans_stand (leaves_foreign ''org'')
     (forget (Http_ActivatePlan (\<lambda>u s. True) nf 3 (''org'', []) ''p'' None [])) small_db"
  by (rule requests_keep_to_own_plans [OF plan_request.rest_activate])

end
