(* ===== verification/Venue_Consumer.thy ===== *)
theory Venue_Consumer
  imports Venue_Grpc_Props Venue_Http
begin

text \<open>
  The order consumer and the sweepers of venue-service (\<^verbatim>\<open>internal/kafka/consumer.go\<close>,
  \<^verbatim>\<open>internal/hold/sweeper.go\<close>, \<^verbatim>\<open>internal/hold/reservation_sweeper.go\<close>): decoding, three attempts, the
  dead-letter topic and the commit of the offset. The handlers are those of theory Venue_Grpc; what a
  handler reads before it writes it reads in a step of its own. The JSON decoders are parameters.
\<close>

section \<open>Messages and state\<close>

definition TopicOrderCancelled :: string where "TopicOrderCancelled = ''orders.order.cancelled''"
definition TopicOrderCompleted :: string where "TopicOrderCompleted = ''orders.order.completed''"
definition TopicOrderCancelledDLQ :: string where "TopicOrderCancelledDLQ = ''orders.order.cancelled.dlq''"
definition TopicOrderCompletedDLQ :: string where "TopicOrderCompletedDLQ = ''orders.order.completed.dlq''"

record order_event_data =
  od_order :: string
  od_reservation :: string

record venue_message =
  vm_topic :: string
  vm_key :: string
  vm_value :: string
  vm_headers :: "(string \<times> string) list"

datatype consumer_failure = EventDecode | EventHandler venue_error | EventCancelled | EventDLQ | EventNoDLQ

text \<open>The hold manager's state, what the dead-letter topics hold, and the committed offset of the partition.\<close>

record venue_kafka =
  vk_hold :: hold_world
  vk_dlq :: "(string \<times> venue_message) list"
  vk_committed :: nat

abbreviation vk_db :: "venue_kafka \<Rightarrow> venue_db" where
  "vk_db s \<equiv> hw_db (vk_hold s)"

text \<open>
  What the consumer was built with and what happens to it: the decoders, the producer of the dead-letter
  topics with the outcome of its calls, the faults and the time of each attempt.
\<close>

record event_env =
  ve_config :: hold_config
  ve_envelope :: "string \<Rightarrow> string option"
  ve_data :: "string \<Rightarrow> order_event_data option"
  ve_inject :: "(string \<times> string) list \<Rightarrow> (string \<times> string) list"
  ve_error :: "consumer_failure \<Rightarrow> string"
  ve_faults :: "nat \<Rightarrow> nat \<Rightarrow> faults"
  ve_redis :: "nat \<Rightarrow> redis_faults"
  ve_clock :: "nat \<Rightarrow> int"
  ve_stop :: "nat \<Rightarrow> bool"

section \<open>The consumer\<close>

definition on_hold :: "(hold_world \<Rightarrow> 'r \<times> hold_world) \<Rightarrow> venue_kafka \<Rightarrow> 'r \<times> venue_kafka" where
  "on_hold g s = (case g (vk_hold s) of (r, w) \<Rightarrow> (r, s\<lparr>vk_hold := w\<rparr>))"

definition decode_event :: "event_env \<Rightarrow> venue_message \<Rightarrow> order_event_data option" where
  "decode_event E m = (case ve_envelope E (vm_value m) of None \<Rightarrow> None | Some d \<Rightarrow> ve_data E d)"

text \<open>One attempt, the n-th.\<close>

definition process_event :: "event_env \<Rightarrow> nat \<Rightarrow> venue_message \<Rightarrow> (venue_kafka, consumer_failure + unit) proc" where
  "process_event E n m =
     (case decode_event E m of
        None \<Rightarrow> Ret (Inl EventDecode)
      | Some ev \<Rightarrow>
          if od_reservation ev = [] then Ret (Inr ())
          else if vm_topic m = TopicOrderCancelled then
            look vk_db (\<lambda>s0. look vk_db (\<lambda>s1.
              doing (on_hold (OnOrderCancelled (ve_config E) (ve_faults E n 0) (ve_faults E n 1) (ve_redis E n) (ve_clock E n)
                        (od_reservation ev) s0 s1)) (\<lambda>r. Ret (map_sum EventHandler id r))))
          else if vm_topic m = TopicOrderCompleted then
            look vk_db (\<lambda>s1.
              doing (on_hold (OnOrderCompleted (ve_config E) (ve_faults E n 0) (ve_faults E n 1) (ve_redis E n) (ve_clock E n)
                        (od_reservation ev) (od_order ev) s1)) (\<lambda>r. Ret (map_sum EventHandler id r)))
          else Ret (Inr ()))"

definition venue_dlq ::
  "event_env \<Rightarrow> outcome \<Rightarrow> venue_message \<Rightarrow> consumer_failure \<Rightarrow> (venue_kafka, consumer_failure + unit) proc" where
  "venue_dlq E oc m e =
     call oc (\<lambda>s. ((), s\<lparr>vk_dlq := vk_dlq s @ [(vm_topic m @ ''.dlq'', m\<lparr>vm_headers := ve_inject E (vm_headers m @
           [(''x-dlq-source-topic'', vm_topic m), (''x-dlq-error'', ve_error E e)])\<rparr>)]\<rparr>))
       (\<lambda>x. Ret (case x of None \<Rightarrow> Inl EventDLQ | Some u \<Rightarrow> Inr ()))"

text \<open>The attempts from the n-th on, \<open>k\<close> of them; \<open>dlq\<close> is the outcome of the producer, if there is one.\<close>

fun event_attempts ::
  "event_env \<Rightarrow> outcome option \<Rightarrow> venue_message \<Rightarrow> nat \<Rightarrow> nat \<Rightarrow> consumer_failure
     \<Rightarrow> (venue_kafka, consumer_failure + unit) proc" where
  "event_attempts E dlq m n 0 lastErr =
     (case dlq of None \<Rightarrow> Ret (Inl EventNoDLQ) | Some oc \<Rightarrow> venue_dlq E oc m lastErr)"
| "event_attempts E dlq m n (Suc k) lastErr =
     (if n > 0 \<and> ve_stop E n then Ret (Inl EventCancelled)
      else bind_proc (process_event E n m) (\<lambda>r. case r of
             Inr u \<Rightarrow> Ret (Inr ())
           | Inl e \<Rightarrow> event_attempts E dlq m (n + 1) k e))"

definition process_with_retry :: "event_env \<Rightarrow> outcome option \<Rightarrow> venue_message \<Rightarrow> (venue_kafka, consumer_failure + unit) proc" where
  "process_with_retry E dlq m = event_attempts E dlq m 0 3 EventDecode"

text \<open>
  The loop, from the offset of the first message: a message that fails is left without a commit and the
  next one is read. \<open>Es\<close> gives the environment of each message with the outcomes of its dead-letter
  write and its commit.
\<close>

fun consume_orders ::
  "nat \<Rightarrow> (venue_message \<times> event_env \<times> outcome option \<times> outcome) list \<Rightarrow> (venue_kafka, unit) proc" where
  "consume_orders offset [] = Ret ()"
| "consume_orders offset ((m, E, dlq, oc) # ms) =
     bind_proc (process_with_retry E dlq m) (\<lambda>r. case r of
         Inl e \<Rightarrow> consume_orders (offset + 1) ms
       | Inr u \<Rightarrow> call oc (\<lambda>s. ((), s\<lparr>vk_committed := offset + 1\<rparr>)) (\<lambda>_. consume_orders (offset + 1) ms))"

section \<open>The sweepers\<close>

text \<open>One tick of each: the number of rows freed, or nothing when the sweep failed.\<close>

definition Sweeper_tick :: "faults \<Rightarrow> bool \<Rightarrow> int \<Rightarrow> (hold_world, nat option) proc" where
  "Sweeper_tick f gotLock now =
     doing (Manager_SweepExpiredHolds f gotLock now) (\<lambda>r. Ret (case r of Inl e \<Rightarrow> None | Inr n \<Rightarrow> Some n))"

definition ReservationSweeper_tick :: "faults \<Rightarrow> bool \<Rightarrow> string list \<Rightarrow> int \<Rightarrow> (venue_db, nat option) proc" where
  "ReservationSweeper_tick f gotLock locked now =
     doing (SweepExpiredReservations f gotLock locked now) (\<lambda>r. Ret (case r of Inl e \<Rightarrow> None | Inr n \<Rightarrow> Some n))"

section \<open>What a handled event means\<close>

lemma ensures_look [simp]: "ensures R Q (look g k) s \<longleftrightarrow> (\<forall>s'. R s s' \<longrightarrow> ensures R Q (k (g s')) s')"
  by (simp add: look_def)

lemma ensures_doing [simp]:
  "ensures R Q (doing g k) s \<longleftrightarrow> (\<forall>s'. R s s' \<longrightarrow> ensures R Q (k (fst (g s'))) (snd (g s')))"
  by (simp add: doing_def)

text \<open>What the other requests of the service may do: the ledger stays consistent and only grows.\<close>

definition ledger_moves :: "venue_kafka \<Rightarrow> venue_kafka \<Rightarrow> bool" where
  "ledger_moves s s' \<longleftrightarrow> ledger_ok (vk_db s') \<and> ledger_ext (vk_db s) (vk_db s') \<and> set (vk_dlq s) \<subseteq> set (vk_dlq s')"

definition event_known :: "string \<Rightarrow> venue_kafka \<Rightarrow> bool" where
  "event_known rid s \<longleftrightarrow> ledger_ok (vk_db s) \<and> reservation_of (vk_db s) rid \<noteq> None"

definition event_settled :: "string \<Rightarrow> string \<Rightarrow> venue_kafka \<Rightarrow> bool" where
  "event_settled topic rid s \<longleftrightarrow>
     (topic = TopicOrderCancelled \<longrightarrow> status_in (vk_db s) rid gone) \<and>
     (topic = TopicOrderCompleted \<longrightarrow> status_in (vk_db s) rid {ReservationStatusSold})"

lemma known_keys: "event_known rid s \<Longrightarrow> keys_ok (vk_db s)"
  by (simp add: event_known_def ledger_ok_def)

lemma known_ext: "ledger_ext d d' \<Longrightarrow> reservation_of d rid \<noteq> None \<Longrightarrow> reservation_of d' rid \<noteq> None"
  unfolding ledger_ext_def by fastforce

lemma known_moves: "ledger_moves s s' \<Longrightarrow> event_known rid s \<Longrightarrow> event_known rid s'"
  using known_ext unfolding ledger_moves_def event_known_def by blast

lemma completed_db: "hw_db (snd (OnOrderCompleted c f f1 rf now rid oid s1 w)) = snd (FinalizeReservation f now rid oid s1 (hw_db w))"
  by (auto simp: OnOrderCompleted_def Synced_Finalize_def split: sum.splits prod.splits venue_error.splits)

lemma cancelled_db: "hw_db (snd (OnOrderCancelled c f0 f rf now rid s0 s1 w)) = snd (ReleaseReservation f now rid s1 (hw_db w))"
  by (auto simp: OnOrderCancelled_def Synced_Release_def Let_def split: sum.splits prod.splits venue_error.splits)

lemma ledger_kept:
  assumes "ledger_ok (hw_db w)" "ledger_ext s1 (hw_db w)"
  shows "ledger_ok (hw_db (snd (OnOrderCompleted c f f1 rf now rid oid s1 w))) \<and>
      ledger_ext (hw_db w) (hw_db (snd (OnOrderCompleted c f f1 rf now rid oid s1 w)))"
    and "ledger_ok (hw_db (snd (OnOrderCancelled c f0 f rf now rid s0 s1 w))) \<and>
      ledger_ext (hw_db w) (hw_db (snd (OnOrderCancelled c f0 f rf now rid s0 s1 w)))"
  using finalize_step [OF assms refl] release_step [OF assms refl] assms(1) ledger_ext_refl
  unfolding completed_db cancelled_db by metis+

text \<open>One attempt keeps the reservation known, and settles it when it succeeds.\<close>

definition attempt_done :: "event_env \<Rightarrow> venue_message \<Rightarrow> order_event_data \<Rightarrow> consumer_failure + unit \<Rightarrow> venue_kafka \<Rightarrow> bool" where
  "attempt_done E m ev r s \<longleftrightarrow> event_known (od_reservation ev) s \<and>
     (r = Inr () \<longrightarrow> event_settled (vm_topic m) (od_reservation ev) s)"

lemma hold_step_done:
  assumes "event_known rid s" "ledger_ok (hw_db w) \<and> ledger_ext (vk_db s) (hw_db w)"
  shows "event_known rid (s\<lparr>vk_hold := w\<rparr>)"
  using assms known_ext unfolding event_known_def by fastforce

lemma moves_ext: "ledger_moves s s' \<Longrightarrow> ledger_ext (vk_db s) (vk_db s')"
  by (simp add: ledger_moves_def)

lemma completed_attempt:
  assumes "event_known rid s1" "ledger_moves s1 s"
  shows "case OnOrderCompleted c f f1 rf now rid oid (vk_db s1) (vk_hold s) of (r, w) \<Rightarrow>
    event_known rid (s\<lparr>vk_hold := w\<rparr>) \<and> (r = Inr () \<longrightarrow> status_in (hw_db w) rid {ReservationStatusSold})"
proof -
  have known: "event_known rid s" using known_moves assms by blast
  have ext: "ledger_ext (vk_db s1) (vk_db s)" using moves_ext assms(2) .
  have "event_known rid (s\<lparr>vk_hold := snd (OnOrderCompleted c f f1 rf now rid oid (vk_db s1) (vk_hold s))\<rparr>)"
    using hold_step_done [OF known ledger_kept(1) [OF _ ext]] known by (simp add: event_known_def)
  moreover have "fst (OnOrderCompleted c f f1 rf now rid oid (vk_db s1) (vk_hold s)) = Inr () \<longrightarrow>
      status_in (hw_db (snd (OnOrderCompleted c f f1 rf now rid oid (vk_db s1) (vk_hold s)))) rid {ReservationStatusSold}"
    using conjunct1 [OF order_events_settle [OF ext known_keys [OF known], where c = c and f = f and ?f1.0 = f1
          and rf = rf and now = now and rid = rid and oid = oid]] assms(1)
    by (auto simp: event_known_def split: prod.splits)
  ultimately show ?thesis by (simp add: split_beta)
qed

lemma cancelled_attempt:
  assumes "event_known rid s1" "ledger_moves s1 s"
  shows "case OnOrderCancelled c f0 f rf now rid s0 (vk_db s1) (vk_hold s) of (r, w) \<Rightarrow>
    event_known rid (s\<lparr>vk_hold := w\<rparr>) \<and> (r = Inr () \<longrightarrow> status_in (hw_db w) rid gone)"
proof -
  have known: "event_known rid s" using known_moves assms by blast
  have ext: "ledger_ext (vk_db s1) (vk_db s)" using moves_ext assms(2) .
  have "event_known rid (s\<lparr>vk_hold := snd (OnOrderCancelled c f0 f rf now rid s0 (vk_db s1) (vk_hold s))\<rparr>)"
    using hold_step_done [OF known ledger_kept(2) [OF _ ext]] known by (simp add: event_known_def)
  moreover have "fst (OnOrderCancelled c f0 f rf now rid s0 (vk_db s1) (vk_hold s)) = Inr () \<longrightarrow>
      status_in (hw_db (snd (OnOrderCancelled c f0 f rf now rid s0 (vk_db s1) (vk_hold s)))) rid gone"
    using conjunct2 [OF order_events_settle [OF ext known_keys [OF known], where c = c and ?f0.0 = f0 and f = f
          and rf = rf and now = now and rid = rid and ?s0.0 = s0]] assms(1)
    by (auto simp: event_known_def split: prod.splits)
  ultimately show ?thesis by (simp add: split_beta)
qed

lemma process_ensures:
  assumes "decode_event E m = Some ev" "od_reservation ev \<noteq> []" "event_known (od_reservation ev) s"
  shows "ensures ledger_moves (attempt_done E m ev) (process_event E n m) s"
proof -
  have cancelled: "attempt_done E m ev (map_sum EventHandler id (fst (on_hold (OnOrderCancelled c f0 f rf now
        (od_reservation ev) s0 (vk_db s1)) s2))) (snd (on_hold (OnOrderCancelled c f0 f rf now (od_reservation ev) s0 (vk_db s1)) s2))"
    if "event_known (od_reservation ev) s1" "ledger_moves s1 s2" "vm_topic m = TopicOrderCancelled" for c f0 f rf now s0 s1 s2
    using cancelled_attempt [OF that(1,2), of c f0 f rf now s0] that(3)
    by (auto simp: attempt_done_def on_hold_def event_settled_def TopicOrderCancelled_def TopicOrderCompleted_def
        map_sum_def split: prod.splits sum.splits)
  have completed: "attempt_done E m ev (map_sum EventHandler id (fst (on_hold (OnOrderCompleted c f f1 rf now
        (od_reservation ev) oid (vk_db s1)) s2))) (snd (on_hold (OnOrderCompleted c f f1 rf now (od_reservation ev) oid (vk_db s1)) s2))"
    if "event_known (od_reservation ev) s1" "ledger_moves s1 s2" "vm_topic m = TopicOrderCompleted" for c f f1 rf now oid s1 s2
    using completed_attempt [OF that(1,2), of c f f1 rf now oid] that(3)
    by (auto simp: attempt_done_def on_hold_def event_settled_def TopicOrderCancelled_def TopicOrderCompleted_def
        map_sum_def split: prod.splits sum.splits)
  have known: "event_known (od_reservation ev) s'" if "ledger_moves s s'" for s'
    using that assms(3) by (rule known_moves)
  show ?thesis
    unfolding process_event_def
    using assms cancelled completed known known_moves
    by (auto simp: attempt_done_def event_settled_def)
qed

definition event_dead :: "venue_message \<Rightarrow> venue_kafka \<Rightarrow> bool" where
  "event_dead m s \<longleftrightarrow> (\<exists>h. (vm_topic m @ ''.dlq'', m\<lparr>vm_headers := h\<rparr>) \<in> set (vk_dlq s))"

definition event_over :: "venue_message \<Rightarrow> order_event_data \<Rightarrow> consumer_failure + unit \<Rightarrow> venue_kafka \<Rightarrow> bool" where
  "event_over m ev r s \<longleftrightarrow> (r = Inr () \<longrightarrow> event_settled (vm_topic m) (od_reservation ev) s \<or> event_dead m s)"

lemma attempts_ensure:
  assumes "decode_event E m = Some ev" "od_reservation ev \<noteq> []"
  shows "event_known (od_reservation ev) s \<Longrightarrow> ensures ledger_moves (event_over m ev) (event_attempts E dlq m n k e) s"
proof (induction k arbitrary: n e s)
  case 0
  show ?case
    by (cases dlq) (auto simp: venue_dlq_def event_over_def event_dead_def)
next
  case (Suc k)
  have "ensures ledger_moves (event_over m ev)
      (bind_proc (process_event E n m) (\<lambda>r. case r of Inr u \<Rightarrow> Ret (Inr ()) | Inl e \<Rightarrow> event_attempts E dlq m (n + 1) k e)) s"
    by (rule ensures_bind [OF process_ensures [OF assms Suc.prems]])
      (auto simp: attempt_done_def event_over_def intro: Suc.IH split: sum.split)
  moreover have "event_over m ev (Inl EventCancelled) s" by (simp add: event_over_def)
  ultimately show ?case
    unfolding event_attempts.simps by (cases "0 < n \<and> ve_stop E n") (simp_all only: if_True if_False simp_thms ensures.simps)
qed

text \<open>
  C24: An order event of a known reservation, among any other requests that keep the ledger: when its
  processing reports success, the reservation is sold, or released or expired, as the event asks, or
  the message is in the dead-letter topic of its topic, its payload unchanged. A message whose
  processing fails is not committed, but the consumer reads on, and the commit of the next message
  that succeeds passes over it.
\<close>

theorem order_event_settled_or_dead:
  assumes "decode_event E m = Some ev" "od_reservation ev \<noteq> []" "event_known (od_reservation ev) s"
  shows "ensures ledger_moves (event_over m ev) (process_with_retry E dlq m) s \<and>
    (\<forall>s1 s2 e. run_alone (process_with_retry E dlq m) s = (Inl e, s1) \<and>
       run_alone (process_with_retry E' dlq' m') s1 = (Inr (), s2) \<longrightarrow>
       vk_committed (snd (run_alone (consume_orders k [(m, E, dlq, oc), (m', E', dlq', Works)]) s)) = k + 2)"
proof
  show "ensures ledger_moves (event_over m ev) (process_with_retry E dlq m) s"
    unfolding process_with_retry_def by (rule attempts_ensure [OF assms])
qed simp

section \<open>The property at work\<close>

definition small_events :: event_env where
  "small_events = \<lparr>ve_config = ex_config, ve_envelope = Some,
     ve_data = (\<lambda>v. Some \<lparr>od_order = ''order1'', od_reservation = v\<rparr>), ve_inject = id, ve_error = (\<lambda>e. ''failed''),
     ve_faults = (\<lambda>n k. no_faults), ve_redis = (\<lambda>n. no_redis_faults), ve_clock = (\<lambda>n. 12), ve_stop = (\<lambda>n. False)\<rparr>"

definition completed_message :: venue_message where
  "completed_message = \<lparr>vm_topic = TopicOrderCompleted, vm_key = ''order1'', vm_value = ''r1'', vm_headers = []\<rparr>"

definition small_kafka :: venue_kafka where
  "small_kafka = \<lparr>vk_hold = ex_synced, vk_dlq = [], vk_committed = 0\<rparr>"

lemma order_event_settled_or_dead_witness:
  "ensures ledger_moves (event_over completed_message \<lparr>od_order = ''order1'', od_reservation = ''r1''\<rparr>)
     (process_with_retry small_events (Some Works) completed_message) small_kafka"
proof -
  have "decode_event small_events completed_message = Some \<lparr>od_order = ''order1'', od_reservation = ''r1''\<rparr>"
    by (simp add: decode_event_def small_events_def completed_message_def)
  moreover have "event_known ''r1'' small_kafka"
  proof -
    have "reservation_of (hw_db ex_synced) ''r1'' \<noteq> None" by code_simp
    then show ?thesis using ex1_ok by (simp add: event_known_def small_kafka_def ex_synced_def)
  qed
  ultimately show ?thesis using order_event_settled_or_dead by fastforce
qed

end
