(* ===== verification/Ticket_Search.thy ===== *)
theory Ticket_Search
  imports Ticket_Service Ticket_Outbox Quota_Reconciler
begin

text \<open>
  The search of ticket-service (\<^verbatim>\<open>internal/search/\<close> and \<^verbatim>\<open>SearchTickets\<close> of the service): the indexer
  that consumes ticket events, the reindexing of all tickets, the query and its cursors. OpenSearch
  is a parameter: its state is a type \<open>'ix\<close>, \<open>put\<close> writes a document with an external version, \<open>query\<close>
  answers a search; what the code relies on is the locale \<open>versioned_index\<close>. The conversions of
  \<^verbatim>\<open>strconv\<close> between text and 64-bit floats and the JSON decoders are parameters as well.
\<close>

section \<open>Documents\<close>

datatype go_float = Finite rat | Infinite bool | NotANumber

text \<open>\<^verbatim>\<open>ParseFloat\<close>: the value it returns, also with an error, and whether there was none.\<close>

type_synonym parse_float = "string \<Rightarrow> go_float \<times> bool"

record doc =
  d_id :: string
  d_version :: int
  d_event :: string
  d_title :: string
  d_venue :: string
  d_description :: string
  d_address :: string
  d_category :: string
  d_type :: string
  d_plan :: string
  d_price :: go_float
  d_starts :: string
  d_created :: string

definition eventToDoc :: "parse_float \<Rightarrow> event_data \<Rightarrow> doc" where
  "eventToDoc pf d =
     (let from = (\<lambda>g. case ed_event d of None \<Rightarrow> [] | Some e \<Rightarrow> g e) in
      \<lparr>d_id = ed_id d, d_version = ed_version d, d_event = from od_title, d_title = ed_title d,
       d_venue = from od_venue, d_description = from od_description, d_address = from od_address,
       d_category = ed_category d, d_type = ed_type d, d_plan = ed_plan d, d_price = fst (pf (ed_price d)),
       d_starts = from od_starts, d_created = ed_created d\<rparr>)"

definition ticketToDoc :: "parse_float \<Rightarrow> (int \<Rightarrow> string) \<Rightarrow> ticket \<Rightarrow> doc" where
  "ticketToDoc pf utc t =
     (let from = (\<lambda>g. case t_event t of None \<Rightarrow> [] | Some e \<Rightarrow> g e) in
      \<lparr>d_id = t_id t, d_version = t_version t, d_event = from e_title, d_title = t_title t,
       d_venue = from e_venue, d_description = from e_description, d_address = from e_address,
       d_category = t_category t, d_type = t_type t, d_plan = field (t_plan t), d_price = fst (pf (t_price t)),
       d_starts = from (\<lambda>e. utc (e_starts e)), d_created = utc (t_created t)\<rparr>)"

section \<open>The shared state\<close>

record index_message =
  im_topic :: string
  im_key :: string
  im_value :: string
  im_headers :: "(string \<times> string) list"

text \<open>
  What ticket-service shares, the index, the dead-letter topics, each message with its topic, and how
  many messages of the consumed partition are committed.
\<close>

record 'ix search_world =
  sw_shared :: ticket_world
  sw_index :: 'ix
  sw_dlq :: "index_message list"
  sw_committed :: nat

primrec on_shared :: "(ticket_world, 'a) proc \<Rightarrow> ('ix search_world, 'a) proc" where
  "on_shared (Ret a) = Ret a"
| "on_shared (Act u k) = Act (\<lambda>w. w\<lparr>sw_shared := u (sw_shared w)\<rparr>) (\<lambda>w. on_shared (k (sw_shared w)))"

lemma run_on_shared [simp]:
  "run_alone (on_shared p) w = (let (a, s) = run_alone p (sw_shared w) in (a, w\<lparr>sw_shared := s\<rparr>))"
  by (induction p arbitrary: w) simp_all

datatype put_answer = Indexed | VersionConflict

datatype search_error = SearchEncode | SearchBackend | SearchCanceled | SearchDecode | SearchDLQ | SearchTickets_repo ticket_error
  | SearchNotConfigured

type_synonym 'ix putting = "'ix \<Rightarrow> doc \<Rightarrow> put_answer \<times> 'ix"

section \<open>The client\<close>

text \<open>The circuit breaker counts every failure but a cancelled request, and trips at half of ten or more.\<close>

definition shouldCountOpenSearchFailure :: "search_error option \<Rightarrow> bool" where
  "shouldCountOpenSearchFailure err =
     (case err of None \<Rightarrow> False | Some e \<Rightarrow> e \<noteq> SearchCanceled)"

definition search_readyToTrip :: "nat \<Rightarrow> nat \<Rightarrow> bool" where
  "search_readyToTrip requests totalFailures =
     (if requests < 10 then False else (of_nat totalFailures / of_nat requests :: rat) \<ge> 1 / 2)"

text \<open>\<open>there\<close> asks for the index, \<open>build\<close> creates it or finds that it was created meanwhile.\<close>

definition EnsureIndex ::
  "('ix \<Rightarrow> bool) \<Rightarrow> ('ix \<Rightarrow> 'ix) \<Rightarrow> outcome \<Rightarrow> outcome \<Rightarrow> ('ix search_world, search_error + unit) proc" where
  "EnsureIndex there build oc1 oc2 =
     call oc1 (reads (\<lambda>w. there (sw_index w))) (\<lambda>r. case r of
       Some True \<Rightarrow> Ret (Inr ())
     | None \<Rightarrow> Ret (Inl SearchBackend)
     | Some False \<Rightarrow>
         call oc2 (\<lambda>w. ((), if there (sw_index w) then w else w\<lparr>sw_index := build (sw_index w)\<rparr>))
           (\<lambda>x. Ret (case x of None \<Rightarrow> Inl SearchBackend | Some u \<Rightarrow> Inr ())))"

text \<open>A price that is not a finite number has no JSON; a conflict of versions is a success.\<close>

definition UpsertTicket ::
  "'ix putting \<Rightarrow> outcome \<Rightarrow> doc \<Rightarrow> ('ix search_world, search_error + unit) proc" where
  "UpsertTicket put oc d =
     (case d_price d of
        Finite p \<Rightarrow> call oc (\<lambda>w. case put (sw_index w) d of (a, ix) \<Rightarrow> (a, w\<lparr>sw_index := ix\<rparr>))
          (\<lambda>r. Ret (case r of None \<Rightarrow> Inl SearchBackend | Some Indexed \<Rightarrow> Inr () | Some VersionConflict \<Rightarrow> Inr ()))
      | _ \<Rightarrow> Ret (Inl SearchEncode))"

section \<open>Queries\<close>

record query_params =
  qp_search :: string
  qp_category :: string
  qp_min :: "rat option"
  qp_max :: "rat option"
  qp_limit :: int
  qp_after :: string

text \<open>
  What a request asks for: the size, the text of the multi-match, the filters and the place after
  which the ranking is read. The fields and their weights are the same for every request.
\<close>

record search_body =
  sb_size :: int
  sb_query :: string
  sb_category :: "string option"
  sb_gte :: "rat option"
  sb_lte :: "rat option"
  sb_after :: "(rat \<times> string) option"

datatype sort_value = SortFloat go_float | SortNumber string | SortOther

record hit =
  h_id :: string
  h_sort :: "sort_value list"

definition os_prefix :: string where "os_prefix = ''os:''"

definition search_after_of :: "parse_float \<Rightarrow> string \<Rightarrow> (rat \<times> string) option" where
  "search_after_of pf after =
     (if take 3 after \<noteq> os_prefix then None
      else
        let rest = drop 3 after; scoreStr = takeWhile (\<lambda>c. c \<noteq> colon) rest; tl_rest = dropWhile (\<lambda>c. c \<noteq> colon) rest in
        if scoreStr = [] \<or> tl_rest = [] then None
        else case pf scoreStr of
               (Finite score, True) \<Rightarrow> if tl tl_rest \<noteq> [] then Some (score, tl tl_rest) else None
             | _ \<Rightarrow> None)"

definition query_body :: "parse_float \<Rightarrow> query_params \<Rightarrow> search_body" where
  "query_body pf p =
     \<lparr>sb_size = (if qp_limit p \<le> 0 then 20 else qp_limit p), sb_query = qp_search p,
      sb_category = (if qp_category p = [] then None else Some (qp_category p)),
      sb_gte = qp_min p, sb_lte = qp_max p, sb_after = search_after_of pf (qp_after p)\<rparr>"

definition Search_Query ::
  "('ix \<Rightarrow> search_body \<Rightarrow> hit list) \<Rightarrow> parse_float \<Rightarrow> outcome \<Rightarrow> query_params
     \<Rightarrow> ('ix search_world, search_error + hit list) proc" where
  "Search_Query query pf oc p =
     call oc (reads (\<lambda>w. query (sw_index w) (query_body pf p)))
       (\<lambda>r. Ret (case r of None \<Rightarrow> Inl SearchBackend | Some hits \<Rightarrow> Inr hits))"

section \<open>Searching tickets\<close>

definition os_cursor :: "string \<Rightarrow> string \<Rightarrow> string" where
  "os_cursor score tid = os_prefix @ score @ colon # tid"

definition buildOSCursor :: "parse_float \<Rightarrow> (go_float \<Rightarrow> string) \<Rightarrow> sort_value list \<Rightarrow> string \<Rightarrow> string" where
  "buildOSCursor pf fmt tuple tid =
     (case tuple of
        SortFloat v # rest \<Rightarrow> os_cursor (fmt v) tid
      | SortNumber s # rest \<Rightarrow> (case pf s of (f, True) \<Rightarrow> os_cursor (fmt f) tid | _ \<Rightarrow> os_cursor ''0'' tid)
      | _ \<Rightarrow> os_cursor ''0'' tid)"

definition shown_in_search :: "bool \<Rightarrow> ticket \<Rightarrow> bool" where
  "shown_in_search availableOnly t \<longleftrightarrow> \<not> (availableOnly \<and> field (t_plan t) = [] \<and> t_sold t \<ge> t_quota t)"

text \<open>The sort tuple of the last hit with the identifier.\<close>

definition sort_of :: "hit list \<Rightarrow> string \<Rightarrow> sort_value list" where
  "sort_of hits tid = (case find_row h_id tid (rev hits) of None \<Rightarrow> [] | Some h \<Rightarrow> h_sort h)"

definition search_results ::
  "parse_float \<Rightarrow> (go_float \<Rightarrow> string) \<Rightarrow> bool \<Rightarrow> hit list \<Rightarrow> ticket option list \<Rightarrow> (ticket \<times> string) list" where
  "search_results pf fmt availableOnly hits ts =
     map (\<lambda>t. (t, buildOSCursor pf fmt (sort_of hits (t_id t)) (t_id t)))
       (filter (shown_in_search availableOnly) (concat (map (\<lambda>t. case t of None \<Rightarrow> [] | Some t \<Rightarrow> [t]) ts)))"

text \<open>The answer: the results, the cursor of the last raw hit, and whether the index has no more.\<close>

type_synonym search_answer = "(ticket \<times> string) list \<times> string \<times> bool"

definition SearchTickets ::
  "('ix \<Rightarrow> search_body \<Rightarrow> hit list) option \<Rightarrow> parse_float \<Rightarrow> (go_float \<Rightarrow> string) \<Rightarrow> (nat \<Rightarrow> outcome) \<Rightarrow> nat
     \<Rightarrow> page_params \<Rightarrow> string \<Rightarrow> ('ix search_world, search_error + search_answer) proc" where
  "SearchTickets client pf fmt f k p after =
     (case client of
        None \<Rightarrow> Ret (Inl SearchNotConfigured)
      | Some query \<Rightarrow>
          bind_proc (Search_Query query pf (f k)
              \<lparr>qp_search = pp_search p, qp_category = pp_category p, qp_min = pp_min p, qp_max = pp_max p,
               qp_limit = pp_limit p, qp_after = after\<rparr>) (\<lambda>r.
            case r of
              Inl e \<Rightarrow> Ret (Inl e)
            | Inr hits \<Rightarrow>
                let exhausted = int (length hits) < pp_limit p in
                if hits = [] then Ret (Inr ([], [], exhausted))
                else
                  let nextCursor = buildOSCursor pf fmt (h_sort (last hits)) (h_id (last hits)) in
                  bind_proc (on_shared (Mongo_FindByIDs f (k + 1) (map h_id hits))) (\<lambda>x. Ret (case x of
                      Inl e \<Rightarrow> Inl (SearchTickets_repo e)
                    | Inr ts \<Rightarrow> Inr (search_results pf fmt (pp_available p) hits ts, nextCursor, exhausted)))))"

section \<open>The indexer\<close>

definition topicTicketCreated :: string where "topicTicketCreated = ''tickets.ticket.created''"
definition topicTicketUpdated :: string where "topicTicketUpdated = ''tickets.ticket.updated''"

definition topic_of_type :: "outbox_type \<Rightarrow> string" where
  "topic_of_type ty =
     (case ty of OutboxEventTypeTicketCreated \<Rightarrow> topicTicketCreated | OutboxEventTypeTicketUpdated \<Rightarrow> topicTicketUpdated)"

text \<open>
  The environment: the write of the index, the decoders of the envelope and of its data, the trace
  headers, and the texts of errors.
\<close>

record 'ix index_env =
  ie_put :: "'ix putting"
  ie_float :: parse_float
  ie_envelope :: "string \<Rightarrow> string option"
  ie_data :: "string \<Rightarrow> event_data option"
  ie_inject :: "(string \<times> string) list \<Rightarrow> (string \<times> string) list"
  ie_error :: "search_error \<Rightarrow> string"

definition decodeMessage :: "'ix index_env \<Rightarrow> string \<Rightarrow> doc option" where
  "decodeMessage E payload =
     (case ie_envelope E payload of
        None \<Rightarrow> None
      | Some d \<Rightarrow> map_option (eventToDoc (ie_float E)) (ie_data E d))"

text \<open>\<open>dlq\<close> is the producer with the outcome of its write; without one the message is lost.\<close>

definition index_dead_letter :: "'ix index_env \<Rightarrow> index_message \<Rightarrow> search_error \<Rightarrow> index_message" where
  "index_dead_letter E msg err =
     msg\<lparr>im_topic := im_topic msg @ ''.dlq'', im_headers := ie_inject E
        (im_headers msg @ [(''x-dlq-source-topic'', im_topic msg), (''x-dlq-error'', ie_error E err)])\<rparr>"

definition index_publishToDLQ ::
  "'ix index_env \<Rightarrow> outcome option \<Rightarrow> index_message \<Rightarrow> search_error \<Rightarrow> ('ix search_world, search_error + unit) proc" where
  "index_publishToDLQ E dlq msg err =
     (case dlq of
        None \<Rightarrow> Ret (Inr ())
      | Some oc \<Rightarrow> call oc (\<lambda>w. ((), w\<lparr>sw_dlq := sw_dlq w @ [index_dead_letter E msg err]\<rparr>))
          (\<lambda>r. Ret (case r of None \<Rightarrow> Inl SearchDLQ | Some u \<Rightarrow> Inr ())))"

text \<open>\<open>stop n\<close>: the context is cancelled in the pause before the n-th attempt.\<close>

fun upsert_attempts ::
  "'ix index_env \<Rightarrow> outcome option \<Rightarrow> (nat \<Rightarrow> outcome) \<Rightarrow> (nat \<Rightarrow> bool) \<Rightarrow> index_message \<Rightarrow> doc \<Rightarrow> nat \<Rightarrow> nat \<Rightarrow> search_error
     \<Rightarrow> ('ix search_world, search_error + unit) proc" where
  "upsert_attempts E dlq f stop msg d attempt 0 lastErr = index_publishToDLQ E dlq msg lastErr"
| "upsert_attempts E dlq f stop msg d attempt (Suc n) lastErr =
     (if attempt > 0 \<and> stop attempt then Ret (Inl SearchCanceled)
      else bind_proc (UpsertTicket (ie_put E) (f attempt) d) (\<lambda>r. case r of
             Inr u \<Rightarrow> Ret (Inr ())
           | Inl e \<Rightarrow> upsert_attempts E dlq f stop msg d (attempt + 1) n e))"

definition indexer_process ::
  "'ix index_env \<Rightarrow> outcome option \<Rightarrow> (nat \<Rightarrow> outcome) \<Rightarrow> (nat \<Rightarrow> bool) \<Rightarrow> index_message
     \<Rightarrow> ('ix search_world, search_error + unit) proc" where
  "indexer_process E dlq f stop msg =
     (case decodeMessage E (im_value msg) of
        None \<Rightarrow> index_publishToDLQ E dlq msg SearchDecode
      | Some d \<Rightarrow> upsert_attempts E dlq f stop msg d 0 3 SearchBackend)"

text \<open>
  The messages of the partition from an offset on, each with what happens to it, until the context
  is cancelled; a message whose processing fails is not committed, and the loop reads on.
\<close>

fun indexer_run ::
  "'ix index_env \<Rightarrow> nat \<Rightarrow> (index_message \<times> outcome option \<times> (nat \<Rightarrow> outcome) \<times> (nat \<Rightarrow> bool) \<times> outcome) list
     \<Rightarrow> ('ix search_world, unit) proc" where
  "indexer_run E offset [] = Ret ()"
| "indexer_run E offset ((msg, dlq, f, stop, oc) # rest) =
     bind_proc (indexer_process E dlq f stop msg) (\<lambda>r. case r of
       Inl e \<Rightarrow> indexer_run E (offset + 1) rest
     | Inr u \<Rightarrow> call oc (\<lambda>w. ((), w\<lparr>sw_committed := offset + 1\<rparr>)) (\<lambda>x. indexer_run E (offset + 1) rest))"

section \<open>Reindexing\<close>

text \<open>The page size of the command (\<^verbatim>\<open>cmd/reindex/main.go\<close>), from its environment variable.\<close>

definition reindex_page_size :: "string \<Rightarrow> int" where
  "reindex_page_size ps =
     (if ps = [] then 100
      else case ParseInt ps of
        None \<Rightarrow> 100
      | Some n \<Rightarrow> if n \<le> 0 then 100 else if n > 100 then 100 else n)"

fun upsert_page ::
  "'ix putting \<Rightarrow> parse_float \<Rightarrow> (int \<Rightarrow> string) \<Rightarrow> (nat \<Rightarrow> outcome) \<Rightarrow> nat \<Rightarrow> ticket list
     \<Rightarrow> ('ix search_world, search_error + unit) proc" where
  "upsert_page put pf utc f k [] = Ret (Inr ())"
| "upsert_page put pf utc f k (t # ts) =
     bind_proc (UpsertTicket put (f k) (ticketToDoc pf utc t)) (\<lambda>r. case r of
       Inl e \<Rightarrow> Ret (Inl e)
     | Inr u \<Rightarrow> upsert_page put pf utc f (k + 1) ts)"

text \<open>The loop over the pages has fuel; the answer \<open>None\<close> means that it ran out.\<close>

fun Reindex ::
  "'ix putting \<Rightarrow> parse_float \<Rightarrow> (int \<Rightarrow> string) \<Rightarrow> (string \<Rightarrow> string \<Rightarrow> bool) \<Rightarrow> (string \<Rightarrow> rat option) \<Rightarrow> (nat \<Rightarrow> outcome)
     \<Rightarrow> nat \<Rightarrow> int \<Rightarrow> nat \<Rightarrow> string \<Rightarrow> ('ix search_world, (search_error + unit) option) proc" where
  "Reindex put pf utc like price f k pageSize 0 after = Ret None"
| "Reindex put pf utc like price f k pageSize (Suc fuel) after =
     bind_proc (on_shared (Mongo_FindAll like price f k (default_page after pageSize))) (\<lambda>r. case r of
       Inl e \<Rightarrow> Ret (Some (Inl (SearchTickets_repo e)))
     | Inr page \<Rightarrow>
         if page = [] then Ret (Some (Inr ()))
         else bind_proc (upsert_page put pf utc f (k + 1) page) (\<lambda>x. case x of
             Inl e \<Rightarrow> Ret (Some (Inl e))
           | Inr u \<Rightarrow> Reindex put pf utc like price f (k + 1 + length page) pageSize fuel
                        (EncodeCursor (t_created (last page)) (t_id (last page)))))"

section \<open>What the index promises\<close>

text \<open>
  The documented behaviour of external versions: a document is written when its version is greater
  than the stored one, and refused otherwise. \<open>newer\<close> is the effect on the documents.
\<close>

definition newer :: "doc \<Rightarrow> (string \<Rightarrow> doc option) \<Rightarrow> string \<Rightarrow> doc option" where
  "newer d m = (if (case m (d_id d) of None \<Rightarrow> True | Some e \<Rightarrow> d_version e < d_version d) then m(d_id d := Some d) else m)"

locale versioned_index =
  fixes put :: "'ix putting" and stored :: "'ix \<Rightarrow> string \<Rightarrow> doc option"
  assumes put_stored: "stored (snd (put ix d)) = newer d (stored ix)"

text \<open>An index that is the map of its documents.\<close>

definition external_put :: "(string \<Rightarrow> doc option) putting" where
  "external_put m d =
     (if (case m (d_id d) of None \<Rightarrow> True | Some e \<Rightarrow> d_version e < d_version d) then (Indexed, m(d_id d := Some d))
      else (VersionConflict, m))"

interpretation map_index: versioned_index external_put "\<lambda>m. m"
  by unfold_locales (simp add: external_put_def newer_def)

section \<open>The newest version wins\<close>

definition index_keyed :: "(string \<Rightarrow> doc option) \<Rightarrow> bool" where
  "index_keyed m \<longleftrightarrow> (\<forall>i e. m i = Some e \<longrightarrow> d_id e = i)"

lemma newer_same [simp]: "newer d (newer d m) = newer d m"
  by (auto simp: newer_def split: option.splits)

lemma newer_none: "newer d m i = None \<longleftrightarrow> m i = None \<and> i \<noteq> d_id d"
  by (auto simp: newer_def split: option.splits)

lemma newer_some:
  assumes "newer d m i = Some e"
  shows "(m i = Some e \<or> e = d \<and> i = d_id d) \<and> (i = d_id d \<longrightarrow> d_version d \<le> d_version e) \<and>
    (\<forall>e0. m i = Some e0 \<longrightarrow> d_version e0 \<le> d_version e)"
  using assms by (auto simp: newer_def split: option.splits if_splits)

lemma fold_newer_none: "fold newer ds m i = None \<longleftrightarrow> m i = None \<and> i \<notin> d_id ` set ds"
  by (induction ds arbitrary: m) (auto simp: newer_none)

lemma fold_newer_some:
  "fold newer ds m i = Some e \<Longrightarrow>
   (m i = Some e \<or> e \<in> set ds \<and> d_id e = i) \<and> (\<forall>d \<in> set ds. d_id d = i \<longrightarrow> d_version d \<le> d_version e) \<and>
   (\<forall>e0. m i = Some e0 \<longrightarrow> d_version e0 \<le> d_version e)"
proof (induction ds arbitrary: m)
  case (Cons d ds)
  then have ih: "(newer d m i = Some e \<or> e \<in> set ds \<and> d_id e = i) \<and>
      (\<forall>d \<in> set ds. d_id d = i \<longrightarrow> d_version d \<le> d_version e) \<and>
      (\<forall>e0. newer d m i = Some e0 \<longrightarrow> d_version e0 \<le> d_version e)" by simp
  show ?case
  proof (cases "newer d m i")
    case None
    have "newer d m i \<noteq> Some e" using None by simp
    moreover have "m i = None \<and> i \<noteq> d_id d" using None unfolding newer_none .
    ultimately show ?thesis using ih by auto
  next
    case (Some e1)
    from newer_some [OF this] Some ih show ?thesis by fastforce
  qed
qed simp

definition docs_agree :: "doc set \<Rightarrow> bool" where
  "docs_agree D \<longleftrightarrow> (\<forall>d \<in> D. \<forall>e \<in> D. d_id d = d_id e \<and> d_version d = d_version e \<longrightarrow> d = e)"

lemma fold_newer_order:
  assumes "set ds = set ds'" "docs_agree (ran m \<union> set ds)" "index_keyed m"
  shows "fold newer ds m = fold newer ds' m"
proof
  fix i
  show "fold newer ds m i = fold newer ds' m i"
  proof (cases "fold newer ds m i")
    case None
    then have "fold newer ds' m i = None" using assms(1) unfolding fold_newer_none by simp
    then show ?thesis using None by simp
  next
    case (Some e)
    then have "fold newer ds' m i \<noteq> None" using assms(1) by (metis fold_newer_none option.distinct(1))
    then obtain e' where e': "fold newer ds' m i = Some e'" by blast
    note a = fold_newer_some [OF Some] and b = fold_newer_some [OF e']
    have ids: "d_id e = i" "d_id e' = i" using a b assms(3) by (auto simp: index_keyed_def)
    have mem: "e \<in> ran m \<union> set ds" "e' \<in> ran m \<union> set ds" using a b assms(1) by (auto simp: ran_def)
    have "d_version e' \<le> d_version e" using a b ids assms(1) by blast
    moreover have "d_version e \<le> d_version e'" using a b ids assms(1) by blast
    ultimately have "e = e'" using assms(2) ids mem unfolding docs_agree_def by force
    then show ?thesis using Some e' by simp
  qed
qed

section \<open>What the indexer writes\<close>

definition priced :: "doc \<Rightarrow> bool" where
  "priced d \<longleftrightarrow> (case d_price d of Finite p \<Rightarrow> True | _ \<Rightarrow> False)"

text \<open>One of the three attempts is reached and answered.\<close>

definition gets_through :: "(nat \<Rightarrow> outcome) \<Rightarrow> (nat \<Rightarrow> bool) \<Rightarrow> bool" where
  "gets_through f stop \<longleftrightarrow> (\<exists>n < 3. f n = Works \<and> (\<forall>m. 0 < m \<and> m \<le> n \<longrightarrow> \<not> stop m))"

context versioned_index
begin

lemma run_upsert:
  assumes "priced d"
  shows "\<exists>r w'. run_alone (UpsertTicket put oc d) w = (r, w') \<and> (r = Inr () \<longleftrightarrow> oc = Works) \<and>
    stored (sw_index w') = (if oc = Fails then stored (sw_index w) else newer d (stored (sw_index w))) \<and>
    sw_shared w' = sw_shared w \<and> sw_dlq w' = sw_dlq w \<and> sw_committed w' = sw_committed w"
proof -
  obtain p where "d_price d = Finite p" using assms by (auto simp: priced_def split: go_float.splits)
  then show ?thesis
    using put_stored [of "sw_index w" d]
    by (cases oc; cases "put (sw_index w) d"; cases "fst (put (sw_index w) d)") (auto simp: UpsertTicket_def)
qed

lemma run_upsert_attempts:
  assumes "ie_put E = put" "priced d"
  shows "\<lbrakk>a + k = n; k < m; f n = Works; \<forall>j. 0 < j \<and> j \<le> n \<longrightarrow> \<not> stop j\<rbrakk> \<Longrightarrow>
    \<exists>w'. run_alone (upsert_attempts E dlq f stop msg d a m e) w = (Inr (), w') \<and>
      stored (sw_index w') = newer d (stored (sw_index w)) \<and> sw_dlq w' = sw_dlq w"
proof (induction m arbitrary: a k e w)
  case (Suc m)
  have go: "\<not> (0 < a \<and> stop a)" using Suc.prems by auto
  obtain r w1 where one: "run_alone (UpsertTicket put (f a) d) w = (r, w1)" "r = Inr () \<longleftrightarrow> f a = Works"
      "stored (sw_index w1) = (if f a = Fails then stored (sw_index w) else newer d (stored (sw_index w)))"
      "sw_dlq w1 = sw_dlq w"
    using run_upsert [OF assms(2)] by blast
  show ?case
  proof (cases "f a = Works")
    case True
    then show ?thesis using go one assms(1) by auto
  next
    case False
    then obtain e1 where r: "r = Inl e1" using one(2) by (cases r) auto
    have "k \<noteq> 0" using False Suc.prems(1,3) by (cases k) auto
    then obtain j where k: "k = Suc j" by (cases k) auto
    obtain w' where w': "run_alone (upsert_attempts E dlq f stop msg d (a + 1) m e1) w1 = (Inr (), w')"
        "stored (sw_index w') = newer d (stored (sw_index w1))" "sw_dlq w' = sw_dlq w1"
      using Suc.IH [of "a + 1" j e1 w1] Suc.prems k by auto
    have "run_alone (upsert_attempts E dlq f stop msg d a (Suc m) e) w = (Inr (), w')"
      using go one(1) r w'(1) assms(1) by auto
    then show ?thesis using w' one(3,4) by auto
  qed
qed simp

lemma run_upsert_page:
  assumes "f = (\<lambda>i. Works)"
  shows "\<forall>t \<in> set ts. priced (ticketToDoc pf utc t) \<Longrightarrow>
    \<exists>w'. run_alone (upsert_page put pf utc f k ts) w = (Inr (), w') \<and>
      stored (sw_index w') = fold newer (map (ticketToDoc pf utc) ts) (stored (sw_index w)) \<and>
      sw_shared w' = sw_shared w"
proof (induction ts arbitrary: k w)
  case (Cons t ts)
  obtain w1 where w1: "run_alone (UpsertTicket put Works (ticketToDoc pf utc t)) w = (Inr (), w1)"
      "stored (sw_index w1) = newer (ticketToDoc pf utc t) (stored (sw_index w))" "sw_shared w1 = sw_shared w"
    using run_upsert [of "ticketToDoc pf utc t" Works w] Cons.prems by auto
  obtain w2 where "run_alone (upsert_page put pf utc f (k + 1) ts) w1 = (Inr (), w2)"
      "stored (sw_index w2) = fold newer (map (ticketToDoc pf utc) ts) (stored (sw_index w1))" "sw_shared w2 = sw_shared w1"
    using Cons.IH [of "k + 1" w1] Cons.prems by auto
  then show ?case using w1 assms by auto
qed simp

lemma run_Reindex:
  assumes works: "f = (\<lambda>i. Works)" and size: "1 \<le> pageSize" "pageSize \<le> 100"
    and st: "storable (sw_shared w)" and L: "newest_tickets (tw_tickets (sw_shared w)) = us @ vs"
    and cursor: "cursor = (if us = [] then [] else EncodeCursor (t_created (last us)) (t_id (last us)))"
    and fuel: "length vs + nat pageSize \<le> nat pageSize * fuel"
    and price: "\<forall>t \<in> set vs. priced (ticketToDoc pf utc t)"
  shows "\<exists>w'. run_alone (Reindex put pf utc like price f k pageSize fuel cursor) w = (Some (Inr ()), w') \<and>
    stored (sw_index w') = fold newer (map (ticketToDoc pf utc) vs) (stored (sw_index w)) \<and> sw_shared w' = sw_shared w"
  using st L cursor fuel price
proof (induction fuel arbitrary: us vs k w cursor)
  case 0
  then show ?case using size by simp
next
  case (Suc fuel)
  define page where "page = take (nat pageSize) vs"
  have lim: "page_limit (default_page c pageSize) = nat pageSize" for c
    using size by (simp add: page_limit_def default_page_def)
  have find: "find_page like price (default_page cursor pageSize) (tw_tickets (sw_shared w)) = Some page"
    using find_next_page [OF Suc.prems(1-3), of like price pageSize] by (simp add: lim page_def)
  have run: "run_alone (on_shared (Mongo_FindAll like price f k (default_page cursor pageSize))) w = (Inr page, w)"
    using works find by (simp add: Mongo_FindAll_def)
  show ?case
  proof (cases "vs = []")
    case True
    then show ?thesis using run by (simp add: page_def)
  next
    case False
    have page: "page \<noteq> []" using False size by (auto simp: page_def)
    have "\<forall>t \<in> set page. priced (ticketToDoc pf utc t)" using Suc.prems(5) by (auto simp: page_def dest: in_set_takeD)
    then obtain w1 where w1: "run_alone (upsert_page put pf utc f (k + 1) page) w = (Inr (), w1)"
        "stored (sw_index w1) = fold newer (map (ticketToDoc pf utc) page) (stored (sw_index w))" "sw_shared w1 = sw_shared w"
      using run_upsert_page [OF works] by blast
    let ?us = "us @ page" and ?vs = "drop (nat pageSize) vs"
    have "storable (sw_shared w1)" using Suc.prems(1) w1(3) by simp
    moreover have "newest_tickets (tw_tickets (sw_shared w1)) = ?us @ ?vs" using w1(3) Suc.prems(2) by (simp add: page_def)
    moreover have "EncodeCursor (t_created (last page)) (t_id (last page)) =
        (if ?us = [] then [] else EncodeCursor (t_created (last ?us)) (t_id (last ?us)))" using page by simp
    moreover have "length ?vs + nat pageSize \<le> nat pageSize * fuel"
    proof -
      have "length vs \<le> nat pageSize * fuel" "length vs \<ge> 1" using Suc.prems(4) False by (simp_all add: Suc_le_eq)
      then have "1 \<le> fuel" by (cases fuel) auto
      then have "nat pageSize \<le> nat pageSize * fuel" by simp
      then show ?thesis using \<open>length vs \<le> nat pageSize * fuel\<close> by (simp only: length_drop)
    qed
    moreover have "\<forall>t \<in> set ?vs. priced (ticketToDoc pf utc t)" using Suc.prems(5) by (auto dest: in_set_dropD)
    ultimately obtain w' where w': "run_alone (Reindex put pf utc like price f (k + 1 + length page) pageSize fuel
          (EncodeCursor (t_created (last page)) (t_id (last page)))) w1 = (Some (Inr ()), w')"
        "stored (sw_index w') = fold newer (map (ticketToDoc pf utc) ?vs) (stored (sw_index w1))" "sw_shared w' = sw_shared w1"
      using Suc.IH by blast
    have "map (ticketToDoc pf utc) vs = map (ticketToDoc pf utc) page @ map (ticketToDoc pf utc) ?vs"
      by (simp add: page_def map_append [symmetric] del: map_append)
    then have "stored (sw_index w') = fold newer (map (ticketToDoc pf utc) vs) (stored (sw_index w))"
      using w1(2) w'(2) by simp
    moreover have "run_alone (Reindex put pf utc like price f k pageSize (Suc fuel) cursor) w = (Some (Inr ()), w')"
      using run page w1(1) w'(1) by (simp del: run_on_shared)
    ultimately show ?thesis using w1(3) w'(3) by simp
  qed
qed

lemma run_indexer_process:
  assumes "ie_put E = put"
    "case decodeMessage E (im_value msg) of None \<Rightarrow> True | Some d \<Rightarrow> priced d \<and> gets_through f stop"
  shows "\<exists>r w'. run_alone (indexer_process E dlq f stop msg) w = (r, w') \<and>
    stored (sw_index w') = (case decodeMessage E (im_value msg) of None \<Rightarrow> id | Some d \<Rightarrow> newer d) (stored (sw_index w))"
proof (cases "decodeMessage E (im_value msg)")
  case None
  then show ?thesis
    by (auto simp: indexer_process_def index_publishToDLQ_def split: option.split outcome.split)
next
  case (Some d)
  then have d: "priced d" "gets_through f stop" using assms(2) by simp_all
  then obtain n where "n < 3" "f n = Works" "\<forall>j. 0 < j \<and> j \<le> n \<longrightarrow> \<not> stop j" unfolding gets_through_def by blast
  then show ?thesis
    using run_upsert_attempts [OF assms(1) d(1), of 0 n n 3 f stop dlq msg SearchBackend w] Some
    by (auto simp: indexer_process_def)
qed

lemma run_indexer:
  assumes "ie_put E = put"
  shows "\<forall>(msg, dlq, f, stop, oc) \<in> set items.
      (case decodeMessage E (im_value msg) of None \<Rightarrow> True | Some d \<Rightarrow> priced d \<and> gets_through f stop) \<Longrightarrow>
    stored (sw_index (snd (run_alone (indexer_run E k items) w))) =
      fold newer (List.map_filter (\<lambda>(msg, x). decodeMessage E (im_value msg)) items) (stored (sw_index w))"
proof (induction items arbitrary: k w)
  case (Cons item items)
  obtain msg dlq f stop oc where item: "item = (msg, dlq, f, stop, oc)" by (cases item)
  have "case decodeMessage E (im_value msg) of None \<Rightarrow> True | Some d \<Rightarrow> priced d \<and> gets_through f stop"
    using Cons.prems item by auto
  from run_indexer_process [OF assms this]
  obtain r w1 where one: "run_alone (indexer_process E dlq f stop msg) w = (r, w1)"
      "stored (sw_index w1) = (case decodeMessage E (im_value msg) of None \<Rightarrow> id | Some d \<Rightarrow> newer d) (stored (sw_index w))"
    by blast
  have "stored (sw_index (snd (run_alone (indexer_run E k (item # items)) w))) =
      fold newer (List.map_filter (\<lambda>(msg, x). decodeMessage E (im_value msg)) items) (stored (sw_index w1))"
    using Cons.IH Cons.prems one(1) item by (cases r; cases oc) simp_all
  then show ?case using one(2) item by (cases "decodeMessage E (im_value msg)") (simp_all add: List.map_filter_simps)
qed (simp add: List.map_filter_simps)

end

end
