(* ===== verification/Ticket_Graphql.thy ===== *)
theory Ticket_Graphql
  imports Ticket_Search
begin

text \<open>
  The GraphQL resolvers of ticket-service (\<^verbatim>\<open>internal/graphql/\<close>): the view of a ticket, the mutations,
  the connection with its search through OpenSearch or MongoDB, saved events, and the loader of the
  federation. \<open>pf\<close> is \<^verbatim>\<open>strconv.ParseFloat\<close>, \<open>stamp\<close> the RFC 3339 text of a time and \<open>parse\<close> its
  reader; the runtime of gqlgen is not modelled.
\<close>

section \<open>Views\<close>

datatype TicketType = TicketTypeGeneralAdmission | TicketTypeSeated

datatype TicketCategory = TicketCategoryConcert | TicketCategorySports | TicketCategoryComedy
  | TicketCategoryTheatre | TicketCategoryFestival | TicketCategoryOther

fun type_text :: "TicketType \<Rightarrow> string" where
  "type_text TicketTypeGeneralAdmission = ''GENERAL_ADMISSION''"
| "type_text TicketTypeSeated = ''SEATED''"

fun category_text :: "TicketCategory \<Rightarrow> string" where
  "category_text TicketCategoryConcert = ''CONCERT''"
| "category_text TicketCategorySports = ''SPORTS''"
| "category_text TicketCategoryComedy = ''COMEDY''"
| "category_text TicketCategoryTheatre = ''THEATRE''"
| "category_text TicketCategoryFestival = ''FESTIVAL''"
| "category_text TicketCategoryOther = ''OTHER''"

record gql_event =
  ge_title :: string
  ge_description :: "string option"
  ge_starts :: string
  ge_ends :: "string option"
  ge_image :: "string option"
  ge_venue :: "string option"
  ge_address :: "string option"

record gql_ticket =
  gk_id :: string
  gk_title :: string
  gk_price :: int
  gk_decimal :: string
  gk_user :: string
  gk_order :: "string option"
  gk_quota :: int
  gk_reserved :: int
  gk_sold :: int
  gk_available :: int
  gk_max :: "int option"
  gk_type :: TicketType
  gk_category :: TicketCategory
  gk_plan :: "string option"
  gk_event :: "gql_event option"
  gk_created :: string
  gk_updated :: string
  gk_saved :: bool

definition given :: "string \<Rightarrow> string option" where
  "given s = (if s = [] then None else Some s)"

text \<open>
  \<^verbatim>\<open>int(f)\<close> truncates; for a value that is no 64-bit integer Go leaves the result to the
  implementation, here the one of amd64.
\<close>

definition int_of_float :: "go_float \<Rightarrow> int" where
  "int_of_float x =
     (case x of
        Finite q \<Rightarrow>
          let n = (if q \<ge> 0 then \<lfloor>q\<rfloor> else \<lceil>q\<rceil>) in
          if - 9223372036854775808 \<le> n \<and> n \<le> 9223372036854775807 then n else - 9223372036854775808
      | _ \<Rightarrow> - 9223372036854775808)"

definition category_of :: "string \<Rightarrow> TicketCategory" where
  "category_of c =
     (case find (\<lambda>k. category_text k = c) [TicketCategoryConcert, TicketCategorySports, TicketCategoryComedy,
          TicketCategoryTheatre, TicketCategoryFestival, TicketCategoryOther] of
        None \<Rightarrow> TicketCategoryOther
      | Some k \<Rightarrow> k)"

definition event_view :: "(int \<Rightarrow> string) \<Rightarrow> ticket_event \<Rightarrow> gql_event" where
  "event_view stamp e =
     \<lparr>ge_title = e_title e, ge_description = given (e_description e), ge_starts = stamp (e_starts e),
      ge_ends = map_option stamp (e_ends e), ge_image = given (e_image e), ge_venue = given (e_venue e),
      ge_address = given (e_address e)\<rparr>"

definition mapTicketToGQL :: "parse_float \<Rightarrow> (int \<Rightarrow> string) \<Rightarrow> ticket \<Rightarrow> gql_ticket" where
  "mapTicketToGQL pf stamp t =
     (let available = t_quota t - t_reserved t - t_sold t in
      \<lparr>gk_id = t_id t, gk_title = t_title t, gk_price = int_of_float (fst (pf (t_price t))), gk_decimal = t_price t,
       gk_user = t_user t, gk_order = given (field (t_order t)), gk_quota = t_quota t, gk_reserved = t_reserved t,
       gk_sold = t_sold t, gk_available = (if available < 0 then 0 else available),
       gk_max = (if t_max t > 0 then Some (t_max t) else None),
       gk_type = (if t_type t = ''SEATED_MANUAL'' \<or> t_type t = ''SEATED_AUTO'' then TicketTypeSeated
                  else TicketTypeGeneralAdmission),
       gk_category = (if t_category t = [] then TicketCategoryOther else category_of (t_category t)),
       gk_plan = given (field (t_plan t)), gk_event = map_option (event_view stamp) (t_event t),
       gk_created = stamp (t_created t), gk_updated = stamp (t_updated t), gk_saved = False\<rparr>)"

text \<open>
  \<^verbatim>\<open>float64(price) / 100\<close>, rounded and printed with two decimals; 64-bit floats do this exactly for
  prices below 2^50.
\<close>

definition two_digits :: "nat \<Rightarrow> string" where
  "two_digits n = (if n < 10 then ''0'' else []) @ show_nat n"

definition intPriceToDecimalString :: "int \<Rightarrow> string" where
  "intPriceToDecimalString price =
     (if price < 0 then ''-'' else []) @ show_nat (nat \<bar>price\<bar> div 100) @ ''.'' @ two_digits (nat \<bar>price\<bar> mod 100)"

section \<open>Inputs\<close>

record event_input =
  ei_title :: "string option"
  ei_description :: "string option"
  ei_starts :: string
  ei_ends :: "string option"
  ei_image :: "string option"
  ei_venue :: "string option"
  ei_address :: "string option"

datatype ticket_gql_error =
    GqlIdentityRequired
  | GqlInvalidTime string
  | GqlService service_error
  | GqlSearchError search_error

definition mapEventInput :: "(string \<Rightarrow> int option) \<Rightarrow> event_input \<Rightarrow> ticket_gql_error + ticket_event" where
  "mapEventInput parse i =
     (case parse (ei_starts i) of
        None \<Rightarrow> Inl (GqlInvalidTime (ei_starts i))
      | Some startsAt \<Rightarrow>
          let ev = (\<lambda>ends. \<lparr>e_title = field (ei_title i), e_description = field (ei_description i), e_starts = startsAt,
              e_ends = ends, e_image = field (ei_image i), e_venue = field (ei_venue i), e_address = field (ei_address i)\<rparr>)
          in case ei_ends i of
               None \<Rightarrow> Inr (ev None)
             | Some s \<Rightarrow> (case parse s of None \<Rightarrow> Inl (GqlInvalidTime s) | Some t \<Rightarrow> Inr (ev (Some t))))"

record create_ticket_input =
  cti_title :: string
  cti_price :: int
  cti_quota :: int
  cti_max :: "int option"
  cti_type :: TicketType
  cti_category :: "TicketCategory option"
  cti_event :: "event_input option"

record update_ticket_input =
  uti_title :: "string option"
  uti_price :: "int option"
  uti_quota :: "int option"
  uti_max :: "int option"
  uti_event :: "event_input option"
  uti_plan :: "string option"

definition optional_event ::
  "(string \<Rightarrow> int option) \<Rightarrow> event_input option \<Rightarrow> ticket_gql_error + ticket_event option" where
  "optional_event parse i = (case i of None \<Rightarrow> Inr None | Some e \<Rightarrow> map_sum id Some (mapEventInput parse e))"

definition identified ::
  "string \<Rightarrow> ('s, ticket_gql_error + 'b) proc \<Rightarrow> ('s, ticket_gql_error + 'b) proc" where
  "identified userID k = (if userID = [] then Ret (Inl GqlIdentityRequired) else k)"

section \<open>Mutations\<close>

text \<open>The type of the input is not passed on, nor are the quota and the limit of an update.\<close>

definition Gql_CreateTicket ::
  "parse_float \<Rightarrow> (int \<Rightarrow> string) \<Rightarrow> (string \<Rightarrow> int option) \<Rightarrow> bool \<Rightarrow> (nat \<Rightarrow> outcome) \<Rightarrow> string \<Rightarrow> string \<Rightarrow> int \<Rightarrow> string
     \<Rightarrow> create_ticket_input \<Rightarrow> (ticket_world, ticket_gql_error + gql_ticket) proc" where
  "Gql_CreateTicket pf stamp parse qm f newid u now userID input = identified userID
     (case optional_event parse (cti_event input) of
        Inl e \<Rightarrow> Ret (Inl e)
      | Inr ev \<Rightarrow>
          bind_proc (CreateTicket qm stamp f newid u now
              \<lparr>ci_title = cti_title input, ci_price = intPriceToDecimalString (cti_price input), ci_user = userID,
               ci_quota = cti_quota input, ci_max = (case cti_max input of None \<Rightarrow> 0 | Some n \<Rightarrow> n),
               ci_category = (case cti_category input of None \<Rightarrow> [] | Some c \<Rightarrow> category_text c), ci_event = ev\<rparr>)
            (\<lambda>r. Ret (map_sum GqlService (mapTicketToGQL pf stamp) r)))"

definition gql_update_input :: "string \<Rightarrow> string \<Rightarrow> update_ticket_input \<Rightarrow> ticket \<Rightarrow> ticket_event option \<Rightarrow> update_input" where
  "gql_update_input userID tid input existing ev =
     \<lparr>ui_id = tid, ui_title = (case uti_title input of None \<Rightarrow> t_title existing | Some s \<Rightarrow> s),
      ui_price = (case uti_price input of None \<Rightarrow> t_price existing | Some n \<Rightarrow> intPriceToDecimalString n),
      ui_user = userID, ui_plan = field (uti_plan input), ui_type = [], ui_event = ev\<rparr>"

definition Gql_UpdateTicket ::
  "parse_float \<Rightarrow> (int \<Rightarrow> string) \<Rightarrow> (string \<Rightarrow> int option) \<Rightarrow> (string \<Rightarrow> rpc_error + plan_info) \<Rightarrow> (nat \<Rightarrow> outcome)
     \<Rightarrow> string \<Rightarrow> int \<Rightarrow> string \<Rightarrow> string \<Rightarrow> update_ticket_input \<Rightarrow> (ticket_world, ticket_gql_error + gql_ticket) proc" where
  "Gql_UpdateTicket pf stamp parse venue f u now userID tid input = identified userID
     (bind_proc (GetTicketByID f 0 now tid) (\<lambda>r. case r of
        Inl e \<Rightarrow> Ret (Inl (GqlService e))
      | Inr existing \<Rightarrow>
          (case optional_event parse (uti_event input) of
             Inl e \<Rightarrow> Ret (Inl e)
           | Inr ev \<Rightarrow>
               bind_proc (UpdateTicket stamp venue f 3 u now (gql_update_input userID tid input existing ev))
                 (\<lambda>r. Ret (map_sum GqlService (mapTicketToGQL pf stamp) r)))))"

definition Gql_SaveEvent ::
  "parse_float \<Rightarrow> (int \<Rightarrow> string) \<Rightarrow> (nat \<Rightarrow> outcome) \<Rightarrow> int \<Rightarrow> string \<Rightarrow> string
     \<Rightarrow> (ticket_world, ticket_gql_error + gql_ticket) proc" where
  "Gql_SaveEvent pf stamp f now userID eventID = identified userID
     (bind_proc (Service_SaveEvent f 0 now userID eventID)
       (\<lambda>r. Ret (map_sum GqlService (\<lambda>t. (mapTicketToGQL pf stamp t)\<lparr>gk_saved := True\<rparr>) r)))"

definition Gql_UnsaveEvent ::
  "parse_float \<Rightarrow> (int \<Rightarrow> string) \<Rightarrow> (nat \<Rightarrow> outcome) \<Rightarrow> int \<Rightarrow> string \<Rightarrow> string
     \<Rightarrow> (ticket_world, ticket_gql_error + gql_ticket) proc" where
  "Gql_UnsaveEvent pf stamp f now userID eventID = identified userID
     (bind_proc (Service_UnsaveEvent f 0 userID eventID) (\<lambda>r. case r of
        Inl e \<Rightarrow> Ret (Inl (GqlService e))
      | Inr u \<Rightarrow> bind_proc (GetTicketByID f 1 now eventID) (\<lambda>r. Ret (map_sum GqlService (mapTicketToGQL pf stamp) r))))"

section \<open>Listings\<close>

record ticket_filter =
  tf_available :: "bool option"
  tf_type :: "TicketType option"
  tf_search :: "string option"
  tf_category :: "TicketCategory option"
  tf_min :: "int option"
  tf_max :: "int option"

record ticket_edge =
  te_node :: gql_ticket
  te_cursor :: string

record ticket_connection =
  tc_edges :: "ticket_edge list"
  tc_next :: bool
  tc_end :: "string option"

definition Gql_Tickets ::
  "parse_float \<Rightarrow> (int \<Rightarrow> string) \<Rightarrow> (string \<Rightarrow> string \<Rightarrow> bool) \<Rightarrow> (string \<Rightarrow> rat option) \<Rightarrow> (nat \<Rightarrow> outcome) \<Rightarrow> int
     \<Rightarrow> (ticket_world, ticket_gql_error + gql_ticket list) proc" where
  "Gql_Tickets pf stamp like price f now =
     bind_proc (ListTickets like price f 0 now (default_page [] 0))
       (\<lambda>r. Ret (map_sum GqlService (map (mapTicketToGQL pf stamp)) r))"

text \<open>The filter as parameters of a page; the bounds of the price are taken as they are.\<close>

definition filter_params :: "ticket_filter option \<Rightarrow> string \<Rightarrow> int \<Rightarrow> page_params" where
  "filter_params fl after limit =
     (case fl of
        None \<Rightarrow> default_page after limit
      | Some x \<Rightarrow>
          \<lparr>pp_after = after, pp_limit = limit, pp_available = (tf_available x = Some True), pp_search = field (tf_search x),
           pp_category = (case tf_category x of None \<Rightarrow> [] | Some c \<Rightarrow> category_text c),
           pp_min = map_option of_int (tf_min x), pp_max = map_option of_int (tf_max x)\<rparr>)"

text \<open>The type of a stored ticket is compared with the text of the filter's type.\<close>

definition type_matches :: "ticket_filter option \<Rightarrow> ticket \<Rightarrow> bool" where
  "type_matches fl t =
     (case fl of
        None \<Rightarrow> True
      | Some x \<Rightarrow> (case tf_type x of None \<Rightarrow> True | Some ty \<Rightarrow> t_type t = type_text ty))"

definition ticketsConnectionMongo ::
  "parse_float \<Rightarrow> (int \<Rightarrow> string) \<Rightarrow> (string \<Rightarrow> string \<Rightarrow> bool) \<Rightarrow> (string \<Rightarrow> rat option) \<Rightarrow> (nat \<Rightarrow> outcome) \<Rightarrow> nat \<Rightarrow> int
     \<Rightarrow> ticket_filter option \<Rightarrow> nat \<Rightarrow> string \<Rightarrow> (ticket_world, ticket_gql_error + ticket_connection) proc" where
  "ticketsConnectionMongo pf stamp like price f k now fl limit cursorIn =
     bind_proc (ListTickets like price f k now (filter_params fl cursorIn (int limit + 1))) (\<lambda>r. Ret (case r of
         Inl e \<Rightarrow> Inl (GqlService e)
       | Inr found \<Rightarrow>
           let tickets = filter (type_matches fl) found;
               page = take limit tickets;
               edges = map (\<lambda>t. \<lparr>te_node = mapTicketToGQL pf stamp t, te_cursor = EncodeCursor (t_created t) (t_id t)\<rparr>) page
           in Inr \<lparr>tc_edges = edges, tc_next = (length tickets > limit),
                  tc_end = (if edges = [] then None else Some (te_cursor (last edges)))\<rparr>))"

definition maxRefill :: nat where "maxRefill = 5"

text \<open>
  The refill loop: \<open>n\<close> more searches, the items so far, the place reached and whether the index is
  exhausted. A batch fills the page up to the limit; what is left of it is dropped.
\<close>

definition refill_items :: "ticket_filter option \<Rightarrow> nat \<Rightarrow> (ticket \<times> string) list \<Rightarrow> (ticket \<times> string) list \<Rightarrow> (ticket \<times> string) list" where
  "refill_items fl limit items results =
     items @ take (limit - length items) (filter (\<lambda>r. type_matches fl (fst r)) results)"

fun refill ::
  "('ix \<Rightarrow> search_body \<Rightarrow> hit list) option \<Rightarrow> parse_float \<Rightarrow> (go_float \<Rightarrow> string) \<Rightarrow> (nat \<Rightarrow> outcome) \<Rightarrow> nat \<Rightarrow> ticket_filter option
     \<Rightarrow> nat \<Rightarrow> nat \<Rightarrow> (ticket \<times> string) list \<Rightarrow> string \<Rightarrow> bool
     \<Rightarrow> ('ix search_world, search_error + (ticket \<times> string) list \<times> string \<times> bool) proc" where
  "refill client pf fmt f k fl limit 0 items after exhausted = Ret (Inr (items, after, exhausted))"
| "refill client pf fmt f k fl limit (Suc n) items after exhausted =
     (if \<not> length items < limit then Ret (Inr (items, after, exhausted))
      else bind_proc (SearchTickets client pf fmt f k (filter_params fl [] (int limit)) after) (\<lambda>r. case r of
          Inl e \<Rightarrow> Ret (Inl e)
        | Inr (results, next_cursor, ex) \<Rightarrow>
            let after' = (if next_cursor \<noteq> [] then next_cursor else after);
                items' = refill_items fl limit items results
            in if ex then Ret (Inr (items', after', True))
               else refill client pf fmt f (k + 2) fl limit n items' after' ex))"

definition search_connection ::
  "parse_float \<Rightarrow> (int \<Rightarrow> string) \<Rightarrow> (ticket \<times> string) list \<Rightarrow> string \<Rightarrow> bool \<Rightarrow> ticket_connection" where
  "search_connection pf stamp items after exhausted =
     (let endCursor = (if items = [] then [] else snd (last items)) in
      \<lparr>tc_edges = map (\<lambda>(t, c). \<lparr>te_node = mapTicketToGQL pf stamp t, te_cursor = c\<rparr>) items, tc_next = (\<not> exhausted),
       tc_end = given (if endCursor = [] \<and> \<not> exhausted \<and> after \<noteq> [] then after else endCursor)\<rparr>)"

definition connection_limit :: "int option \<Rightarrow> nat" where
  "connection_limit first =
     (let limit = (case first of None \<Rightarrow> 20 | Some n \<Rightarrow> if n > 0 then n else 20) in
      nat (if limit > 100 then 100 else limit))"

text \<open>\<open>backend\<close>: the configuration asks for OpenSearch. A failed search falls back to MongoDB.\<close>

definition TicketsConnection ::
  "bool \<Rightarrow> ('ix \<Rightarrow> search_body \<Rightarrow> hit list) option \<Rightarrow> parse_float \<Rightarrow> (go_float \<Rightarrow> string) \<Rightarrow> (int \<Rightarrow> string)
     \<Rightarrow> (string \<Rightarrow> string \<Rightarrow> bool) \<Rightarrow> (string \<Rightarrow> rat option) \<Rightarrow> (nat \<Rightarrow> outcome) \<Rightarrow> int \<Rightarrow> ticket_filter option \<Rightarrow> int option
     \<Rightarrow> string option \<Rightarrow> ('ix search_world, ticket_gql_error + ticket_connection) proc" where
  "TicketsConnection backend client pf fmt stamp like price f now fl first after =
     (let limit = connection_limit first; cursorIn = field after;
          mongo = (\<lambda>k. on_shared (ticketsConnectionMongo pf stamp like price f k now fl limit cursorIn))
      in if backend \<and> (case fl of None \<Rightarrow> False | Some x \<Rightarrow> field (tf_search x) \<noteq> [])
         then bind_proc (refill client pf fmt f 0 fl limit maxRefill [] cursorIn False) (\<lambda>r. case r of
             Inl e \<Rightarrow> mongo 10
           | Inr (items, reached, exhausted) \<Rightarrow> Ret (Inr (search_connection pf stamp items reached exhausted)))
         else mongo 0)"

section \<open>Single tickets and saved events\<close>

definition Gql_Ticket ::
  "parse_float \<Rightarrow> (int \<Rightarrow> string) \<Rightarrow> (nat \<Rightarrow> outcome) \<Rightarrow> int \<Rightarrow> string \<Rightarrow> string
     \<Rightarrow> (ticket_world, ticket_gql_error + gql_ticket option) proc" where
  "Gql_Ticket pf stamp f now userID tid =
     bind_proc (GetTicketByID f 0 now tid) (\<lambda>r. case r of
       Inl e \<Rightarrow> Ret (if e = Repo ErrTicketNotFound then Inr None else Inl (GqlService e))
     | Inr t \<Rightarrow>
         let view = mapTicketToGQL pf stamp t in
         if userID = [] then Ret (Inr (Some view))
         else bind_proc (Service_IsSaved f 3 userID tid) (\<lambda>r. Ret (case r of
             Inl e \<Rightarrow> Inl (GqlService e)
           | Inr saved \<Rightarrow> Inr (Some (if saved then view\<lparr>gk_saved := True\<rparr> else view)))))"

text \<open>The cursor of a saved event is the identifier of its ticket.\<close>

definition Gql_SavedEvents ::
  "parse_float \<Rightarrow> (int \<Rightarrow> string) \<Rightarrow> (nat \<Rightarrow> outcome) \<Rightarrow> string \<Rightarrow> int option \<Rightarrow> string option
     \<Rightarrow> (ticket_world, ticket_gql_error + ticket_connection) proc" where
  "Gql_SavedEvents pf stamp f userID first after = identified userID
     (let limit = (case first of None \<Rightarrow> 20 | Some n \<Rightarrow> if n > 0 then n else 20) in
      bind_proc (Service_ListSavedEvents f 0 userID (field after) (limit + 1)) (\<lambda>r. Ret (case r of
          Inl e \<Rightarrow> Inl (GqlService e)
        | Inr tickets \<Rightarrow>
            let edges = map (\<lambda>t. \<lparr>te_node = (mapTicketToGQL pf stamp t)\<lparr>gk_saved := True\<rparr>, te_cursor = t_id t\<rparr>)
                  (take (nat limit) tickets)
            in Inr \<lparr>tc_edges = edges, tc_next = (int (length tickets) > limit),
                   tc_end = (if edges = [] then None else Some (te_cursor (last edges)))\<rparr>)))"

text \<open>The batch function of the loader, and the entity it resolves for one key of a batch.\<close>

definition ticketBatchFn ::
  "parse_float \<Rightarrow> (int \<Rightarrow> string) \<Rightarrow> (nat \<Rightarrow> outcome) \<Rightarrow> string list
     \<Rightarrow> (ticket_world, (ticket_gql_error + gql_ticket option) list) proc" where
  "ticketBatchFn pf stamp f keys =
     bind_proc (GetTicketsByIDs f 0 keys) (\<lambda>r. Ret (case r of
         Inl e \<Rightarrow> map (\<lambda>_. Inl (GqlService e)) keys
       | Inr ts \<Rightarrow> map (\<lambda>t. Inr (map_option (mapTicketToGQL pf stamp) t)) ts))"

definition loadTicket :: "string list \<Rightarrow> (ticket_gql_error + gql_ticket option) list \<Rightarrow> string \<Rightarrow> ticket_gql_error + gql_ticket option" where
  "loadTicket keys results tid =
     (case map_of (zip keys results) tid of
        None \<Rightarrow> Inr None
      | Some (Inl e) \<Rightarrow> if e = GqlService (Repo ErrTicketNotFound) then Inr None else Inl e
      | Some (Inr t) \<Rightarrow> Inr t)"

end
