(* ===== verification/Ticket_Http.thy ===== *)
theory Ticket_Http
  imports Ticket_Service Ticket_Listing
begin

text \<open>
  The REST handlers of ticket-service (\<^verbatim>\<open>internal/handler/ticket_handler.go\<close>). \<open>valid\<close> is the check of
  the signed user header, \<open>stamp\<close> the text of a time, a request whose body does not decode is
  \<open>None\<close>. An answer is the status with the body, or with the error code, message and details; the
  dashes of two messages are written in ASCII.
\<close>

section \<open>Texts\<close>

definition is_digit :: "char \<Rightarrow> bool" where
  "is_digit c \<longleftrightarrow> digit_val c \<noteq> None"

definition is_hex :: "char \<Rightarrow> bool" where
  "is_hex c \<longleftrightarrow> is_digit c \<or> c \<in> set ''abcdefABCDEF''"

text \<open>\<^verbatim>\<open>uuidRE\<close>: groups of 8, 4, 4, 4 and 12 hexadecimal digits.\<close>

fun hex_groups :: "nat list \<Rightarrow> string \<Rightarrow> bool" where
  "hex_groups [] s \<longleftrightarrow> False"
| "hex_groups [n] s \<longleftrightarrow> length s = n \<and> list_all is_hex s"
| "hex_groups (n # m # ns) s \<longleftrightarrow> list_all is_hex (take n s) \<and>
     (case drop n s of [] \<Rightarrow> False | c # rest \<Rightarrow> c = CHR ''.'' \<and> hex_groups (m # ns) rest)"

definition uuidRE :: "string \<Rightarrow> bool" where
  "uuidRE s \<longleftrightarrow> hex_groups [8, 4, 4, 4, 12] s"

definition decimalPriceRE :: "string \<Rightarrow> bool" where
  "decimalPriceRE s \<longleftrightarrow>
     (let whole = takeWhile is_digit s; rest = dropWhile is_digit s in
      1 \<le> length whole \<and> length whole \<le> 15 \<and>
      (case rest of
         [] \<Rightarrow> True
       | c # decimals \<Rightarrow> c = CHR ''.'' \<and> 1 \<le> length decimals \<and> length decimals \<le> 4 \<and> list_all is_digit decimals))"

definition validatePrice :: "string \<Rightarrow> string + string" where
  "validatePrice raw0 =
     (let raw = TrimSpace raw0 in
      if raw = [] then Inl ''price is required''
      else if \<not> decimalPriceRE raw then
        Inl ''price must be a positive decimal number with up to 15 integer digits and 4 decimal places (e.g. \"9.99\")''
      else Inr raw)"

text \<open>The number of characters of UTF-8 text: the bytes that do not continue one.\<close>

definition rune_count :: "string \<Rightarrow> int" where
  "rune_count s = int (length (filter (\<lambda>c. \<not> (128 \<le> (of_char c :: nat) \<and> (of_char c :: nat) < 192)) s))"

section \<open>Requests and answers\<close>

type_synonym detail = "string \<times> string"

datatype 'b rest = Denied nat string string "detail list" | Served nat 'b

definition unexpected :: "'b rest" where
  "unexpected = Denied 500 ''INTERNAL_ERROR'' ''An unexpected error occurred'' []"

definition validation_failed :: "detail list \<Rightarrow> 'b rest" where
  "validation_failed details = Denied 400 ''VALIDATION_FAILED'' ''Request validation failed'' details"

definition bad_ticket_id :: "'b rest" where
  "bad_ticket_id = Denied 400 ''VALIDATION_FAILED'' ''id must be a valid UUID'' []"

text \<open>The event of a request has the fields of \<open>ticket_event\<close>, which the handlers copy one by one.\<close>

record create_ticket_request =
  tq_title :: string
  tq_price :: string
  tq_quota :: int
  tq_max :: int
  tq_category :: string
  tq_event :: "ticket_event option"

record update_ticket_request =
  uq_title :: string
  uq_price :: string
  uq_plan :: string
  uq_type :: string
  uq_event :: "ticket_event option"

record event_response =
  er_title :: string
  er_description :: string
  er_starts :: string
  er_ends :: "string option"
  er_image :: string
  er_venue :: string
  er_address :: string

record ticket_response =
  tr_id :: string
  tr_title :: string
  tr_price :: string
  tr_user :: string
  tr_order :: string
  tr_plan :: string
  tr_type :: string
  tr_quota :: int
  tr_reserved :: int
  tr_sold :: int
  tr_max :: int
  tr_version :: int
  tr_created :: string
  tr_updated :: string
  tr_event :: "event_response option"

definition toResponse :: "(int \<Rightarrow> string) \<Rightarrow> ticket \<Rightarrow> ticket_response" where
  "toResponse stamp t =
     \<lparr>tr_id = t_id t, tr_title = t_title t, tr_price = t_price t, tr_user = t_user t, tr_order = field (t_order t),
      tr_plan = field (t_plan t), tr_type = t_type t, tr_quota = t_quota t, tr_reserved = t_reserved t,
      tr_sold = t_sold t, tr_max = t_max t, tr_version = t_version t, tr_created = stamp (t_created t),
      tr_updated = stamp (t_updated t),
      tr_event = map_option (\<lambda>e. \<lparr>er_title = e_title e, er_description = e_description e,
          er_starts = stamp (e_starts e), er_ends = map_option stamp (e_ends e), er_image = e_image e,
          er_venue = e_venue e, er_address = e_address e\<rparr>) (t_event t)\<rparr>"

text \<open>The user of a request and the signature.\<close>

definition authenticated ::
  "(string \<Rightarrow> string \<Rightarrow> bool) \<Rightarrow> string \<times> string \<Rightarrow> (string \<Rightarrow> ('s, 'b rest) proc) \<Rightarrow> ('s, 'b rest) proc" where
  "authenticated valid who k =
     (case who of (userID, signature) \<Rightarrow>
        if userID = [] then Ret (Denied 401 ''UNAUTHORIZED'' ''Authentication required'' [])
        else if \<not> valid userID signature then Ret (Denied 401 ''INVALID_SIGNATURE'' ''Invalid user ID signature'' [])
        else k userID)"

definition title_details :: "string \<Rightarrow> detail list" where
  "title_details title =
     (if title = [] then [(''title'', ''must not be empty'')] else []) @
     (if rune_count title > 200 then [(''title'', ''must not exceed 200 characters'')] else [])"

definition price_details :: "string \<Rightarrow> detail list" where
  "price_details price = (case validatePrice price of Inl issue \<Rightarrow> [(''price'', issue)] | Inr p \<Rightarrow> [])"

text \<open>The trimmed price, empty when it is refused.\<close>

definition norm_price :: "string \<Rightarrow> string" where
  "norm_price price = (case validatePrice price of Inl issue \<Rightarrow> [] | Inr p \<Rightarrow> p)"

section \<open>Handlers\<close>

definition create_details :: "create_ticket_request \<Rightarrow> detail list" where
  "create_details req =
     title_details (tq_title req) @ price_details (tq_price req) @
     (if tq_quota req < 0 then [(''quota'', ''must be a non-negative integer'')] else []) @
     (if tq_max req < 0 then [(''maxPerUser'', ''must be a non-negative integer'')] else [])"

definition Rest_CreateTicket ::
  "(string \<Rightarrow> string \<Rightarrow> bool) \<Rightarrow> (int \<Rightarrow> string) \<Rightarrow> bool \<Rightarrow> (int \<Rightarrow> string) \<Rightarrow> (nat \<Rightarrow> outcome) \<Rightarrow> string \<Rightarrow> string \<Rightarrow> int
     \<Rightarrow> string \<times> string \<Rightarrow> create_ticket_request option \<Rightarrow> (ticket_world, ticket_response rest) proc" where
  "Rest_CreateTicket valid stamp qm rfc3339 f newid u now who body = authenticated valid who (\<lambda>userID.
     case body of
       None \<Rightarrow> Ret (Denied 400 ''INVALID_JSON'' ''Invalid request body'' [])
     | Some req \<Rightarrow>
         if create_details req \<noteq> [] then Ret (validation_failed (create_details req))
         else bind_proc (CreateTicket qm rfc3339 f newid u now
             \<lparr>ci_title = tq_title req, ci_price = norm_price (tq_price req), ci_user = userID, ci_quota = tq_quota req,
              ci_max = tq_max req, ci_category = tq_category req, ci_event = tq_event req\<rparr>)
           (\<lambda>r. Ret (case r of Inl e \<Rightarrow> unexpected | Inr t \<Rightarrow> Served 201 (toResponse stamp t))))"

text \<open>\<open>Atoi\<close> reads what \<open>ParseInt\<close> reads; the parameters are empty when they are absent.\<close>

definition list_limit :: "string \<Rightarrow> int option" where
  "list_limit rawLimit =
     (if rawLimit = [] then Some 0
      else case ParseInt rawLimit of None \<Rightarrow> None | Some n \<Rightarrow> if n < 1 \<or> n > 100 then None else Some n)"

definition Rest_ListTickets ::
  "(int \<Rightarrow> string) \<Rightarrow> (string \<Rightarrow> string \<Rightarrow> bool) \<Rightarrow> (string \<Rightarrow> rat option) \<Rightarrow> (nat \<Rightarrow> outcome) \<Rightarrow> int
     \<Rightarrow> string \<Rightarrow> string \<Rightarrow> string \<Rightarrow> (ticket_world, ticket_response list rest) proc" where
  "Rest_ListTickets stamp like price f now after rawLimit rawAvailable =
     (case list_limit rawLimit of
        None \<Rightarrow> Ret (Denied 400 ''VALIDATION_FAILED'' ''limit must be an integer between 1 and 100'' [])
      | Some n \<Rightarrow>
          bind_proc (ListTickets like price f 0 now
              \<lparr>pp_after = after, pp_limit = n, pp_available = (rawAvailable = ''true''), pp_search = [], pp_category = [],
               pp_min = None, pp_max = None\<rparr>)
            (\<lambda>r. Ret (case r of Inl e \<Rightarrow> unexpected | Inr ts \<Rightarrow> Served 200 (map (toResponse stamp) ts))))"

definition Rest_GetTicket ::
  "(int \<Rightarrow> string) \<Rightarrow> (nat \<Rightarrow> outcome) \<Rightarrow> int \<Rightarrow> string \<Rightarrow> (ticket_world, ticket_response rest) proc" where
  "Rest_GetTicket stamp f now tid =
     (if \<not> uuidRE tid then Ret bad_ticket_id
      else bind_proc (GetTicketByID f 0 now tid) (\<lambda>r. Ret (case r of
          Inl e \<Rightarrow> if e = Repo ErrTicketNotFound then Denied 404 ''NOT_FOUND'' ''Ticket not found'' [] else unexpected
        | Inr t \<Rightarrow> Served 200 (toResponse stamp t))))"

definition update_details :: "update_ticket_request \<Rightarrow> detail list" where
  "update_details req =
     title_details (uq_title req) @ price_details (uq_price req) @
     (if uq_plan req \<noteq> [] \<and> \<not> uuidRE (uq_plan req) then [(''seatingPlanId'', ''must be a valid UUID'')] else []) @
     (case uq_event req of None \<Rightarrow> []
      | Some e \<Rightarrow> if e_starts e = zero_time then [(''event.startsAt'', ''must not be empty'')] else [])"

definition update_denied :: "service_error \<Rightarrow> 'b rest" where
  "update_denied e = (case e of
      Repo ErrTicketNotFound \<Rightarrow> Denied 404 ''NOT_FOUND'' ''Ticket not found'' []
    | ErrUnauthorized \<Rightarrow> Denied 403 ''FORBIDDEN'' ''Not authorised to modify this ticket'' []
    | Repo ErrTicketReserved \<Rightarrow> Denied 409 ''CONFLICT'' ''Cannot edit a reserved ticket'' []
    | Repo ErrVersionConflict \<Rightarrow> Denied 409 ''VERSION_CONFLICT''
        ''Ticket was modified concurrently - please retry with fresh data'' []
    | Repo ErrSeatingPlanAlreadyAttached \<Rightarrow> Denied 409 ''CONFLICT''
        ''Ticket already has a seating plan attached - detach it first'' []
    | ErrVenueServiceUnavailable \<Rightarrow> Denied 503 ''DEPENDENCY_UNAVAILABLE'' ''Venue service is temporarily unavailable'' []
    | ErrVenueServiceTimeout \<Rightarrow> Denied 504 ''DEPENDENCY_TIMEOUT'' ''Venue service did not respond in time'' []
    | _ \<Rightarrow> unexpected)"

definition Rest_UpdateTicket ::
  "(string \<Rightarrow> string \<Rightarrow> bool) \<Rightarrow> (int \<Rightarrow> string) \<Rightarrow> (int \<Rightarrow> string) \<Rightarrow> (string \<Rightarrow> rpc_error + plan_info) \<Rightarrow> (nat \<Rightarrow> outcome)
     \<Rightarrow> string \<Rightarrow> int \<Rightarrow> string \<times> string \<Rightarrow> string \<Rightarrow> update_ticket_request option
     \<Rightarrow> (ticket_world, ticket_response rest) proc" where
  "Rest_UpdateTicket valid stamp rfc3339 venue f u now who tid body = authenticated valid who (\<lambda>userID.
     if \<not> uuidRE tid then Ret bad_ticket_id
     else case body of
       None \<Rightarrow> Ret (Denied 400 ''INVALID_JSON'' ''Invalid request body'' [])
     | Some req \<Rightarrow>
         if update_details req \<noteq> [] then Ret (validation_failed (update_details req))
         else bind_proc (UpdateTicket rfc3339 venue f 0 u now
             \<lparr>ui_id = tid, ui_title = uq_title req, ui_price = norm_price (uq_price req), ui_user = userID,
              ui_plan = uq_plan req, ui_type = uq_type req, ui_event = uq_event req\<rparr>)
           (\<lambda>r. Ret (case r of Inl e \<Rightarrow> update_denied e | Inr t \<Rightarrow> Served 200 (toResponse stamp t))))"

end
