(* ===== verification/Ticket_Api_Props.thy ===== *)
theory Ticket_Api_Props
  imports Ticket_Graphql Ticket_Http Ticket_Retries
begin

text \<open>
  What the listings and the search of ticket-service promise: the pages of the connection, the index
  after events in any order, and the index after a reindexing.
\<close>

section \<open>Pages of the connection\<close>

lemma run_list_default:
  assumes "storable w" "newest_tickets (tw_tickets w) = us @ vs"
    "cursor = (if us = [] then [] else EncodeCursor (t_created (last us)) (t_id (last us)))"
    and f: "f = (\<lambda>i. Works)" and cold: "tw_list w = None \<or> us \<noteq> [] \<or> n \<noteq> 20" "0 < n"
  shows "fst (run_alone (ListTickets like price f k now (default_page cursor n)) w) =
      Inr (take (page_limit (default_page cursor n)) vs)"
proof -
  have find: "find_page like price (default_page cursor n) (tw_tickets w) =
      Some (take (page_limit (default_page cursor n)) vs)"
    using find_next_page [OF assms(1-3)] by simp
  have c: "cacheable (default_page cursor n) \<longleftrightarrow> us = [] \<and> n = 20"
    using cold(2) by (auto simp: cacheable_def default_page_def assms(3))
  show ?thesis
    using find cold(1) c f by (auto simp: ListTickets_def Caching_FindAll_def Mongo_FindAll_def)
qed

definition edge_of :: "parse_float \<Rightarrow> (int \<Rightarrow> string) \<Rightarrow> ticket \<Rightarrow> ticket_edge" where
  "edge_of pf stamp t = \<lparr>te_node = mapTicketToGQL pf stamp t, te_cursor = EncodeCursor (t_created t) (t_id t)\<rparr>"

text \<open>
  C34: The connection without a filter, over the tickets newest first: after the cursor of the last
  ticket of \<open>us\<close> it shows the next \<open>n\<close> tickets, ends at the cursor of the last of them, and says
  exactly whether more remain, for \<open>n\<close> up to 99. For 100 and more it shows 20 and says that none
  remain: the one ticket too many it asks for exceeds the limit of a page, for which the repository
  takes 20 instead.
\<close>

theorem connection_pages:
  assumes "storable w" "newest_tickets (tw_tickets w) = us @ vs"
    and cursor: "after = (if us = [] then None else Some (EncodeCursor (t_created (last us)) (t_id (last us))))"
    and n: "1 \<le> n" and cold: "tw_list w = None \<or> us \<noteq> [] \<or> n \<noteq> 19"
    and m: "m = (if n \<le> 99 then nat n else 20)"
  shows "fst (run_alone (TicketsConnection backend client pf fmt stamp like price (\<lambda>i. Works) now None (Some n) after)
      \<lparr>sw_shared = w, sw_index = ix, sw_dlq = ds, sw_committed = c\<rparr>) =
    Inr \<lparr>tc_edges = map (edge_of pf stamp) (take m vs), tc_next = (n \<le> 99 \<and> m < length vs),
         tc_end = (if vs = [] then None
                   else Some (EncodeCursor (t_created (last (take m vs))) (t_id (last (take m vs)))))\<rparr>"
proof -
  let ?cursor = "field after" and ?limit = "connection_limit (Some n)"
  have cur: "?cursor = (if us = [] then [] else EncodeCursor (t_created (last us)) (t_id (last us)))"
    by (simp add: cursor field_def)
  have lim: "?limit = (if n \<le> 99 then nat n else 100)" "0 < int ?limit + 1"
      "int ?limit + 1 = 20 \<Longrightarrow> n = 19" using n by (auto simp: connection_limit_def split: if_splits)
  have found: "fst (run_alone (ListTickets like price (\<lambda>i. Works) 0 now (default_page ?cursor (int ?limit + 1))) w) =
      Inr (take (page_limit (default_page ?cursor (int ?limit + 1))) vs)"
    using run_list_default [OF assms(1,2) cur refl, of "int ?limit + 1"] lim cold by blast
  have page: "page_limit (default_page ?cursor (int ?limit + 1)) = (if n \<le> 99 then nat n + 1 else 20)"
    using n lim(1) by (cases "n \<le> 99") (simp_all add: page_limit_def default_page_def nat_add_distrib)
  have m0: "0 < m" using n m by simp
  define edges where "edges = map (edge_of pf stamp) (take m vs)"
  have e: "edges = [] \<longleftrightarrow> vs = []" "vs \<noteq> [] \<Longrightarrow> te_cursor (last edges) =
      EncodeCursor (t_created (last (take m vs))) (t_id (last (take m vs)))"
    using m0 by (auto simp: edges_def last_map edge_of_def)
  have "fst (run_alone (ticketsConnectionMongo pf stamp like price (\<lambda>i. Works) 0 now None ?limit ?cursor) w) =
    Inr \<lparr>tc_edges = edges, tc_next = (n \<le> 99 \<and> m < length vs),
         tc_end = (if edges = [] then None else Some (te_cursor (last edges)))\<rparr>"
  proof -
    define ts where "ts = take (page_limit (default_page ?cursor (int ?limit + 1))) vs"
    obtain w' where run: "run_alone (ListTickets like price (\<lambda>i. Works) 0 now (default_page ?cursor (int ?limit + 1))) w =
        (Inr ts, w')"
      using found unfolding ts_def by (metis fst_conv surj_pair)
    have "take ?limit ts = take m vs" "?limit < length ts \<longleftrightarrow> n \<le> 99 \<and> m < length vs"
      unfolding ts_def page unfolding lim(1) m using n by (cases "n \<le> 99"; simp; linarith?)+
    then show ?thesis
      using run by (simp add: ticketsConnectionMongo_def filter_params_def type_matches_def [abs_def] Let_def edges_def
          edge_of_def [abs_def] del: take_eq_Nil take_eq_Nil2)
  qed
  then show ?thesis
    using e by (auto simp: TicketsConnection_def Let_def edges_def [symmetric] split: prod.splits)
qed

text \<open>A shop of 21 tickets, of which a request for 100 shows 20 and no next page.\<close>

definition crowd :: "ticket list" where
  "crowd = map (\<lambda>i. shop_ticket\<lparr>t_id := replicate i (CHR ''a'')\<rparr>) [0..<21]"

definition crowded :: ticket_world where
  "crowded = shop\<lparr>tw_tickets := crowd\<rparr>"

lemma crowd_ids: "map t_id crowd = map (\<lambda>i. replicate i (CHR ''a'')) [0..<21]"
  by (simp add: crowd_def comp_def)

lemma replicate_distinct: "distinct (map (\<lambda>i. replicate i c) [0..<n])"
  unfolding distinct_map by (auto intro!: inj_onI dest: arg_cong [of _ _ length])

lemma crowded_storable: "storable crowded"
proof -
  have "distinct (map t_id crowd)" unfolding crowd_ids by (rule replicate_distinct)
  then show ?thesis by (auto simp: storable_def crowded_def crowd_def shop_ticket_def)
qed

lemma connection_pages_witness:
  "\<exists>c. fst (run_alone (TicketsConnection False None (\<lambda>s. (NotANumber, False)) (\<lambda>x. []) (\<lambda>t. []) (\<lambda>s t. True) (\<lambda>p. None)
      (\<lambda>i. Works) 0 None (Some 100) None) \<lparr>sw_shared = crowded, sw_index = (), sw_dlq = [], sw_committed = 0\<rparr>) = Inr c \<and>
     length (tc_edges c) = 20 \<and> \<not> tc_next c \<and> length (tw_tickets crowded) = 21"
proof -
  have "length (tw_tickets crowded) = 21" by (simp add: crowded_def crowd_def)
  moreover from this have "length (newest_tickets (tw_tickets crowded)) = 21" by simp
  ultimately show ?thesis
    using connection_pages [OF crowded_storable, of "[]" "newest_tickets (tw_tickets crowded)" None 100 20 False None
        "\<lambda>s. (NotANumber, False)" "\<lambda>x. []" "\<lambda>t. []" "\<lambda>s t. True" "\<lambda>p. None" 0 "()" "[]" 0]
    by simp
qed

section \<open>The index\<close>

text \<open>The documents of the messages that decode.\<close>

definition docs_of :: "'ix index_env \<Rightarrow> index_message set \<Rightarrow> doc set" where
  "docs_of E ms = {d. \<exists>m \<in> ms. decodeMessage E (im_value m) = Some d}"

definition index_after ::
  "('ix \<Rightarrow> string \<Rightarrow> doc option) \<Rightarrow> 'ix index_env
     \<Rightarrow> (index_message \<times> outcome option \<times> (nat \<Rightarrow> outcome) \<times> (nat \<Rightarrow> bool) \<times> outcome) list \<Rightarrow> 'ix search_world
     \<Rightarrow> string \<Rightarrow> doc option" where
  "index_after stored E items w = stored (sw_index (snd (run_alone (indexer_run E 0 items) w)))"

definition all_delivered ::
  "'ix index_env \<Rightarrow> (index_message \<times> outcome option \<times> (nat \<Rightarrow> outcome) \<times> (nat \<Rightarrow> bool) \<times> outcome) list \<Rightarrow> bool" where
  "all_delivered E items \<longleftrightarrow> (\<forall>(msg, dlq, f, stop, oc) \<in> set items.
     case decodeMessage E (im_value msg) of None \<Rightarrow> True | Some d \<Rightarrow> priced d \<and> gets_through f stop)"

lemma docs_of_items: "set (List.map_filter (\<lambda>(msg, x). decodeMessage E (im_value msg)) items) = docs_of E (fst ` set items)"
  by (induction items) (auto simp: docs_of_def List.map_filter_simps split: option.splits)

text \<open>
  C17: Whatever the order in which the events of tickets arrive, and however often, when each gets
  through within its three attempts the index is the same in the end: of every ticket it holds the
  newest version it ever had or was sent. An older event never overwrites a newer document. Two
  documents with the same ticket and version are taken to be the same.
\<close>

theorem index_order_irrelevant:
  assumes "versioned_index put stored" "ie_put E = put"
    and "index_keyed (stored (sw_index w))" "docs_agree (ran (stored (sw_index w)) \<union> docs_of E (fst ` set items))"
    and "all_delivered E items" "all_delivered E items'" "fst ` set items = fst ` set items'"
  shows "index_after stored E items w = index_after stored E items' w \<and>
    (\<forall>i e. index_after stored E items w i = Some e \<longrightarrow>
       (stored (sw_index w) i = Some e \<or> e \<in> docs_of E (fst ` set items) \<and> d_id e = i) \<and>
       (\<forall>d. (stored (sw_index w) i = Some d \<or> d \<in> docs_of E (fst ` set items) \<and> d_id d = i) \<longrightarrow> d_version d \<le> d_version e)) \<and>
    (\<forall>d \<in> docs_of E (fst ` set items). index_after stored E items w (d_id d) \<noteq> None)"
proof -
  let ?m = "stored (sw_index w)" and ?D = "docs_of E (fst ` set items)"
  let ?ds = "\<lambda>items. List.map_filter (\<lambda>(msg, x). decodeMessage E (im_value msg)) items"
  have run: "index_after stored E xs w = fold newer (?ds xs) ?m" if "all_delivered E xs" for xs
    unfolding index_after_def
    by (rule versioned_index.run_indexer [OF assms(1,2)]) (use that in \<open>simp add: all_delivered_def\<close>)
  have D: "set (?ds items) = ?D" "set (?ds items') = ?D" using assms(7) docs_of_items by metis+
  have "fold newer (?ds items) ?m = fold newer (?ds items') ?m"
    using fold_newer_order [of "?ds items" "?ds items'" ?m] D assms(3,4) by simp
  moreover have "(?m i = Some e \<or> e \<in> ?D \<and> d_id e = i) \<and>
      (\<forall>d. (?m i = Some d \<or> d \<in> ?D \<and> d_id d = i) \<longrightarrow> d_version d \<le> d_version e)"
    if "fold newer (?ds items) ?m i = Some e" for i e
    using fold_newer_some [OF that] D(1) by blast
  moreover have "fold newer (?ds items) ?m (d_id d) \<noteq> None" if "d \<in> ?D" for d
    using that D(1) by (auto simp: fold_newer_none)
  ultimately show ?thesis using run [OF assms(5)] run [OF assms(6)] by simp
qed

text \<open>Two versions of a ticket, delivered in either order, the newer one also twice and after a failure.\<close>

definition small_index :: "(string \<Rightarrow> doc option) index_env" where
  "small_index = \<lparr>ie_put = external_put, ie_float = (\<lambda>s. (Finite 5, True)), ie_envelope = Some,
     ie_data = (\<lambda>v. Some \<lparr>ed_id = ''t1'', ed_title = v, ed_price = ''5'', ed_user = ''u'', ed_plan = [], ed_type = [],
        ed_quota = 1, ed_reserved = 0, ed_sold = 0, ed_max = 1, ed_version = (if v = ''old'' then 1 else 2),
        ed_category = ''OTHER'', ed_event = None, ed_created = []\<rparr>),
     ie_inject = id, ie_error = (\<lambda>e. [])\<rparr>"

definition ticket_message :: "string \<Rightarrow> index_message" where
  "ticket_message v = \<lparr>im_topic = topicTicketUpdated, im_key = ''t1'', im_value = v, im_headers = []\<rparr>"

definition deliver :: "(nat \<Rightarrow> outcome) \<Rightarrow> string
    \<Rightarrow> index_message \<times> outcome option \<times> (nat \<Rightarrow> outcome) \<times> (nat \<Rightarrow> bool) \<times> outcome" where
  "deliver f v = (ticket_message v, Some Works, f, (\<lambda>n. False), Works)"

definition bare_index :: "(string \<Rightarrow> doc option) search_world" where
  "bare_index = \<lparr>sw_shared = shop, sw_index = (\<lambda>i. None), sw_dlq = [], sw_committed = 0\<rparr>"

definition once_failing :: "nat \<Rightarrow> outcome" where
  "once_failing n = (if n = 0 then Fails else Works)"

lemma deliver_fst: "fst (deliver f v) = ticket_message v"
  by (simp add: deliver_def)

lemma deliver_through: "f 0 = Works \<or> f (Suc 0) = Works \<Longrightarrow> all_delivered small_index [deliver f v]"
  unfolding all_delivered_def
  by (auto simp: deliver_def ticket_message_def decodeMessage_def small_index_def eventToDoc_def Let_def priced_def
      gets_through_def intro: exI [of _ 0] exI [of _ "Suc 0"])

lemma all_delivered_append: "all_delivered E (xs @ ys) \<longleftrightarrow> all_delivered E xs \<and> all_delivered E ys"
  by (simp add: all_delivered_def ball_Un)

lemma index_order_irrelevant_witness:
  "map_option d_title (index_after (\<lambda>m. m) small_index [deliver once_failing ''new'', deliver (\<lambda>n. Works) ''old''] bare_index ''t1'') =
     Some ''new'' \<and>
   index_after (\<lambda>m. m) small_index [deliver once_failing ''new'', deliver (\<lambda>n. Works) ''old''] bare_index =
     index_after (\<lambda>m. m) small_index [deliver (\<lambda>n. Works) ''old'', deliver (\<lambda>n. Works) ''new'', deliver (\<lambda>n. Works) ''new''] bare_index"
proof
  show "map_option d_title (index_after (\<lambda>m. m) small_index [deliver once_failing ''new'', deliver (\<lambda>n. Works) ''old''] bare_index ''t1'') =
     Some ''new''" by code_simp
  have d: "all_delivered small_index ([deliver once_failing ''new''] @ [deliver (\<lambda>n. Works) ''old''])"
    "all_delivered small_index ([deliver (\<lambda>n. Works) ''old''] @ [deliver (\<lambda>n. Works) ''new''] @ [deliver (\<lambda>n. Works) ''new''])"
    unfolding all_delivered_append by (simp_all add: deliver_through once_failing_def)
  have "docs_agree (ran (sw_index bare_index) \<union> docs_of small_index (fst ` set ([deliver once_failing ''new''] @ [deliver (\<lambda>n. Works) ''old''])))"
    by (auto simp: docs_agree_def bare_index_def docs_of_def deliver_fst ticket_message_def decodeMessage_def
        small_index_def eventToDoc_def Let_def)
  moreover have "index_keyed (sw_index bare_index)" by (simp add: index_keyed_def bare_index_def)
  moreover have "ie_put small_index = external_put" by (simp add: small_index_def)
  ultimately show "index_after (\<lambda>m. m) small_index [deliver once_failing ''new'', deliver (\<lambda>n. Works) ''old''] bare_index =
     index_after (\<lambda>m. m) small_index [deliver (\<lambda>n. Works) ''old'', deliver (\<lambda>n. Works) ''new'', deliver (\<lambda>n. Works) ''new''] bare_index"
    using index_order_irrelevant [OF map_index.versioned_index_axioms _ _ _ d, of bare_index] by (auto simp: deliver_fst)
qed

section \<open>Reindexing\<close>

lemma fold_newer_distinct:
  "distinct (map d_id ds) \<Longrightarrow>
   fold newer ds m i = (case find_row d_id i ds of None \<Rightarrow> m i | Some d \<Rightarrow> newer d m i)"
proof (induction ds arbitrary: m)
  case (Cons d ds)
  have other: "newer d m i = m i" if "d_id d \<noteq> i" using that by (auto simp: newer_def split: option.split)
  show ?case
  proof (cases "d_id d = i")
    case True
    then have "find_row d_id i ds = None" using Cons.prems by (auto simp: find_row_None_iff)
    then show ?thesis using Cons True by simp
  next
    case False
    then have "newer e (newer d m) i = newer e m i" for e
      using other by (auto simp: newer_def split: option.split)
    then show ?thesis using Cons False other by (simp split: option.split)
  qed
qed simp

lemma find_row_docs:
  "find_row d_id i (map (ticketToDoc pf utc) ts) = map_option (ticketToDoc pf utc) (find_row t_id i ts)"
  by (induction ts) (auto simp: ticketToDoc_def Let_def)

lemma doc_id [simp]: "d_id (ticketToDoc pf utc t) = t_id t" "d_version (ticketToDoc pf utc t) = t_version t"
  by (simp_all add: ticketToDoc_def Let_def)

lemma find_row_set_cong:
  assumes "distinct (map key xs)" "distinct (map key ys)" "set xs = set ys"
  shows "find_row key i xs = find_row key i ys"
proof (cases "find_row key i xs")
  case None
  then show ?thesis using assms(3) by (metis find_row_None_iff)
next
  case (Some x)
  then have "x \<in> set ys" "key x = i" using find_row_Some_iff_set [OF Some] assms(3) by simp_all
  then show ?thesis using find_row_distinct [OF assms(2)] Some by metis
qed

lemma newest_ids: "distinct (map t_id ts) \<Longrightarrow> distinct (map t_id (newest_tickets ts))"
  by (simp add: newest_tickets_def rev_map [symmetric] distinct_map)

text \<open>
  C23: A reindexing whose calls answer ends after the page that is empty, for any page size from 1 to
  100, and leaves exactly the document of every ticket, unless the index has one of the same or a
  newer version already; other documents, also of tickets that are gone, stay.
\<close>

theorem reindex_rebuilds_index:
  assumes "versioned_index put stored" "storable (sw_shared w)" "1 \<le> pageSize" "pageSize \<le> 100"
    and "length (tw_tickets (sw_shared w)) + nat pageSize \<le> nat pageSize * fuel"
    and "\<forall>t \<in> set (tw_tickets (sw_shared w)). \<exists>p. fst (pf (t_price t)) = Finite p"
  shows "\<exists>w'. run_alone (Reindex put pf utc like price (\<lambda>i. Works) 0 pageSize fuel []) w = (Some (Inr ()), w') \<and>
    sw_shared w' = sw_shared w \<and>
    (\<forall>i. stored (sw_index w') i =
      (case find_row t_id i (tw_tickets (sw_shared w)) of
         None \<Rightarrow> stored (sw_index w) i
       | Some t \<Rightarrow> (case stored (sw_index w) i of
                     None \<Rightarrow> Some (ticketToDoc pf utc t)
                   | Some e \<Rightarrow> if t_version t \<le> d_version e then Some e else Some (ticketToDoc pf utc t))))"
proof -
  let ?ts = "tw_tickets (sw_shared w)"
  have ids: "distinct (map t_id ?ts)" "distinct (map t_id (newest_tickets ?ts))"
    using assms(2) newest_ids by (auto simp: storable_def)
  have "priced (ticketToDoc pf utc t)" if "t \<in> set ?ts" for t
    using that assms(6) by (fastforce simp: priced_def ticketToDoc_def Let_def)
  then obtain w' where w': "run_alone (Reindex put pf utc like price (\<lambda>i. Works) 0 pageSize fuel []) w = (Some (Inr ()), w')"
      "stored (sw_index w') = fold newer (map (ticketToDoc pf utc) (newest_tickets ?ts)) (stored (sw_index w))"
      "sw_shared w' = sw_shared w"
    using versioned_index.run_Reindex [OF assms(1) refl assms(3,4,2), of "[]" "newest_tickets ?ts" "[]" fuel pf utc like price 0]
      assms(5) by auto
  have "distinct (map d_id (map (ticketToDoc pf utc) (newest_tickets ?ts)))" using ids(2) by (simp add: comp_def)
  then have "stored (sw_index w') i = (case find_row t_id i ?ts of None \<Rightarrow> stored (sw_index w) i
      | Some t \<Rightarrow> newer (ticketToDoc pf utc t) (stored (sw_index w)) i)" for i
    using w'(2) find_row_set_cong [OF ids(2,1)] 
    by (cases "find_row t_id i ?ts") (simp_all add: fold_newer_distinct find_row_docs)
  moreover have "newer (ticketToDoc pf utc t) m i = (case m i of None \<Rightarrow> Some (ticketToDoc pf utc t)
      | Some e \<Rightarrow> if t_version t \<le> d_version e then Some e else Some (ticketToDoc pf utc t))"
    if "find_row t_id i ?ts = Some t" for t m i
    using find_row_Some_iff_set [OF that] by (auto simp: newer_def split: option.split)
  ultimately show ?thesis using w'(1,3) by (simp split: option.split cong: option.case_cong)
qed

lemma reindex_rebuilds_index_witness:
  "\<exists>w'. run_alone (Reindex external_put (\<lambda>s. (Finite 10, True)) (\<lambda>t. []) (\<lambda>s t. True) (\<lambda>p. None) (\<lambda>i. Works) 0 1 2 [])
      bare_index = (Some (Inr ()), w') \<and> map_option d_title (sw_index w' ''t1'') = Some ''Concert''"
proof -
  have "storable (sw_shared bare_index)" by (simp add: bare_index_def storable_def shop_def shop_ticket_def)
  from reindex_rebuilds_index [OF map_index.versioned_index_axioms this, of 1 2 "\<lambda>s. (Finite 10, True)" "\<lambda>t. []"
      "\<lambda>s t. True" "\<lambda>p. None"]
  show ?thesis by (auto simp: bare_index_def shop_def shop_ticket_def ticketToDoc_def Let_def)
qed

text \<open>
  The document made from the event of a write and the one made by the reindexing of the written
  ticket are the same, except for the text of the event's start: \<open>local\<close> is how a time of a
  request is written, in its own zone, and \<open>utc\<close> how a reindexing writes it.
\<close>

lemma index_paths_agree:
  assumes "op_event (ob_payload ev) = map_option (event_detail local) (t_event t)"
  shows "eventToDoc pf (snd (message_of utc (normalizePendingOutboxEvent local t ev))) = ticketToDoc pf utc t \<longleftrightarrow>
    (case t_event t of None \<Rightarrow> True | Some e \<Rightarrow> local (e_starts e) = utc (e_starts e))"
  using assms
  by (cases "t_event t")
    (auto simp: eventToDoc_def ticketToDoc_def message_of_def buildTicketEventData_def normalizePendingOutboxEvent_def
      event_detail_def Let_def)

section \<open>What the search leaves out\<close>

text \<open>
  A page of three: the first batch has a ticket that is sold out, the second has the last two hits.
  The page is full after the first of these, the other is dropped, and the answer says that there is
  no next page.
\<close>

definition found_tickets :: "ticket list" where
  "found_tickets = map (\<lambda>i. shop_ticket\<lparr>t_id := i, t_quota := 1, t_sold := (if i = ''b'' then 1 else 0)\<rparr>)
     [''a'', ''b'', ''c'', ''d'', ''e'']"

definition five_hits :: "search_body \<Rightarrow> hit list" where
  "five_hits b = map (\<lambda>i. \<lparr>h_id = i, h_sort = []\<rparr>) (if sb_after b = None then [''a'', ''b'', ''c''] else [''d'', ''e''])"

definition available_search :: ticket_filter where
  "available_search = \<lparr>tf_available = Some True, tf_type = None, tf_search = Some ''jazz'', tf_category = None, tf_min = None, tf_max = None\<rparr>"

lemma refill_drops_a_hit:
  "map_sum (\<lambda>e. ()) (\<lambda>c. (map (\<lambda>e. gk_id (te_node e)) (tc_edges c), tc_next c))
     (fst (run_alone (TicketsConnection True (Some (\<lambda>ix. five_hits)) (\<lambda>s. (Finite 0, True)) (\<lambda>x. ''0'') (\<lambda>t. []) (\<lambda>s t. True)
         (\<lambda>p. None) (\<lambda>i. Works) 0 (Some available_search) (Some 3) None)
       \<lparr>sw_shared = shop\<lparr>tw_tickets := found_tickets\<rparr>, sw_index = (), sw_dlq = [], sw_committed = 0\<rparr>)) =
   Inr ([''a'', ''c'', ''d''], False)"
  by code_simp

text \<open>No ticket the service stores has a type that a filter can name.\<close>

lemma type_filter_finds_nothing:
  assumes "t_type t \<in> {[], ''SEATED_AUTO'', ''SEATED_MANUAL''}" "tf_type x \<noteq> None"
  shows "\<not> type_matches (Some x) t"
proof -
  obtain ty where "tf_type x = Some ty" using assms(2) by auto
  then show ?thesis using assms(1) by (cases ty) (auto simp: type_matches_def)
qed

end
