(* ===== verification/Kafka_Headers.thy ===== *)
theory Kafka_Headers
  imports Expiration_Service Venue_Consumer
begin

text \<open>
  How trace context and dead-letter reasons travel in Kafka headers
  (\<^verbatim>\<open>internal/kafka/trace_context.go\<close>, one file in three services, with two more functions in
  expiration-service). The carrier is a list of headers; the propagator of OpenTelemetry is a
  parameter: the fields it writes for a context, and the context it makes of a lookup function.
\<close>

section \<open>The carrier\<close>

type_synonym kafka_headers = "(string \<times> string) list"

primrec carrier_Get :: "kafka_headers \<Rightarrow> string \<Rightarrow> string" where
  "carrier_Get [] key = []"
| "carrier_Get (h # hs) key = (if fst h = key then snd h else carrier_Get hs key)"

primrec carrier_Set :: "kafka_headers \<Rightarrow> string \<Rightarrow> string \<Rightarrow> kafka_headers" where
  "carrier_Set [] key v = [(key, v)]"
| "carrier_Set (h # hs) key v = (if fst h = key then (fst h, v) # hs else h # carrier_Set hs key v)"

definition carrier_Keys :: "kafka_headers \<Rightarrow> string list" where
  "carrier_Keys hs = map fst hs"

text \<open>What a propagator relies on: a field that was set is read back, the others are left alone.\<close>

locale text_map_carrier =
  fixes get :: "'c \<Rightarrow> string \<Rightarrow> string" and put :: "'c \<Rightarrow> string \<Rightarrow> string \<Rightarrow> 'c" and keys :: "'c \<Rightarrow> string list"
  assumes get_put: "get (put c k v) k' = (if k' = k then v else get c k')"
    and keys_put: "set (keys (put c k v)) = insert k (set (keys c))"
    and distinct_put: "distinct (keys c) \<Longrightarrow> distinct (keys (put c k v))"
begin

definition inject_all :: "(string \<times> string) list \<Rightarrow> 'c \<Rightarrow> 'c" where
  "inject_all kvs c = foldl (\<lambda>c (k, v). put c k v) c kvs"

lemma inject_simps [simp]:
  "inject_all [] c = c" "inject_all ((k, v) # kvs) c = inject_all kvs (put c k v)"
  by (simp_all add: inject_all_def)

lemma get_other: "k \<notin> fst ` set kvs \<Longrightarrow> get (inject_all kvs c) k = get c k"
  by (induction kvs arbitrary: c) (auto simp: get_put)

lemma get_injected: "distinct (map fst kvs) \<Longrightarrow> (k, v) \<in> set kvs \<Longrightarrow> get (inject_all kvs c) k = v"
proof (induction kvs arbitrary: c)
  case (Cons kv kvs)
  show ?case
  proof (cases "(k, v) = kv")
    case True
    then have "k \<notin> fst ` set kvs" using Cons.prems(1) True [symmetric] by simp
    then show ?thesis by (simp add: True [symmetric] get_put get_other)
  next
    case False
    then show ?thesis using Cons.IH Cons.prems by (cases kv) auto
  qed
qed simp

lemma keys_injected: "set (keys (inject_all kvs c)) = fst ` set kvs \<union> set (keys c)"
proof (induction kvs arbitrary: c)
  case (Cons kv kvs)
  then show ?case by (cases kv) (simp add: keys_put)
qed simp

lemma distinct_injected: "distinct (keys c) \<Longrightarrow> distinct (keys (inject_all kvs c))"
  by (induction kvs arbitrary: c) (auto simp: distinct_put)

end

lemma get_set_header: "carrier_Get (carrier_Set hs k v) k' = (if k' = k then v else carrier_Get hs k')"
  by (induction hs) auto

lemma keys_set_header: "set (carrier_Keys (carrier_Set hs k v)) = insert k (set (carrier_Keys hs))"
  by (induction hs) (auto simp: carrier_Keys_def)

lemma distinct_set_header: "distinct (carrier_Keys hs) \<Longrightarrow> distinct (carrier_Keys (carrier_Set hs k v))"
proof (induction hs)
  case (Cons h hs)
  then show ?case using keys_set_header [of hs k v] by (auto simp: carrier_Keys_def)
qed (simp add: carrier_Keys_def)

interpretation hdr: text_map_carrier carrier_Get carrier_Set carrier_Keys
  by unfold_locales (fact get_set_header keys_set_header distinct_set_header)+

section \<open>Producing and consuming with a trace context\<close>

text \<open>\<open>sent\<close>: what the propagator sets for a context, \<open>parse\<close>: the context it reads.\<close>

definition Inject :: "('c \<Rightarrow> (string \<times> string) list) \<Rightarrow> 'c \<Rightarrow> kafka_headers \<Rightarrow> kafka_headers" where
  "Inject sent c hs = foldl (\<lambda>hs (k, v). carrier_Set hs k v) hs (sent c)"

definition startKafkaProducerSpan :: "('c \<Rightarrow> (string \<times> string) list) \<Rightarrow> 'c \<Rightarrow> kafka_headers" where
  "startKafkaProducerSpan sent c = Inject sent c []"

definition injectKafkaContextHeaders ::
  "('c \<Rightarrow> (string \<times> string) list) \<Rightarrow> 'c \<Rightarrow> kafka_headers \<Rightarrow> kafka_headers" where
  "injectKafkaContextHeaders sent c headers = Inject sent c headers"

definition startKafkaConsumerSpan :: "((string \<Rightarrow> string) \<Rightarrow> 'c) \<Rightarrow> kafka_headers \<Rightarrow> 'c" where
  "startKafkaConsumerSpan parse headers = parse (carrier_Get headers)"

text \<open>Expiration-service keeps the context of an order event in its task, as a map.\<close>

definition CaptureTraceHeaders :: "('c \<Rightarrow> (string \<times> string) list) \<Rightarrow> 'c \<Rightarrow> string \<rightharpoonup> string" where
  "CaptureTraceHeaders sent c = foldl (\<lambda>m (k, v). m(k \<mapsto> v)) Map.empty (Inject sent c [])"

text \<open>\<open>order\<close>: the keys of the map in the order in which Go happens to iterate.\<close>

definition ExtractTraceContext :: "((string \<Rightarrow> string) \<Rightarrow> 'c) \<Rightarrow> string list \<Rightarrow> (string \<rightharpoonup> string) \<Rightarrow> 'c" where
  "ExtractTraceContext parse order m =
     parse (carrier_Get (map (\<lambda>k. (k, case m k of None \<Rightarrow> [] | Some v \<Rightarrow> v)) order))"

text \<open>The headers of a dead letter, in the three services that write them.\<close>

definition dlq_headers ::
  "('c \<Rightarrow> (string \<times> string) list) \<Rightarrow> 'c \<Rightarrow> string \<Rightarrow> string \<Rightarrow> kafka_headers \<Rightarrow> kafka_headers" where
  "dlq_headers sent c topic err hs =
     injectKafkaContextHeaders sent c (hs @ [(''x-dlq-source-topic'', topic), (''x-dlq-error'', err)])"

section \<open>What arrives\<close>

text \<open>
  The documented contract of a propagator: a context is read back from every carrier that has its
  fields and nothing under the other names the propagator uses.
\<close>

definition propagates ::
  "('c \<Rightarrow> (string \<times> string) list) \<Rightarrow> ((string \<Rightarrow> string) \<Rightarrow> 'c) \<Rightarrow> string set \<Rightarrow> bool" where
  "propagates sent parse names \<longleftrightarrow>
     (\<forall>c. distinct (map fst (sent c)) \<and> fst ` set (sent c) \<subseteq> names \<and>
       (\<forall>get. (\<forall>(k, v) \<in> set (sent c). get k = v) \<and> (\<forall>k \<in> names - fst ` set (sent c). get k = []) \<longrightarrow>
          parse get = c))"

lemma inject_eq: "Inject sent c hs = hdr.inject_all (sent c) hs"
  by (simp add: Inject_def hdr.inject_all_def)

lemma carrier_Get_missing: "k \<notin> fst ` set hs \<Longrightarrow> carrier_Get hs k = []"
  by (induction hs) auto

lemma carrier_Get_append: "carrier_Get (hs @ hs') k = (if k \<in> fst ` set hs then carrier_Get hs k else carrier_Get hs' k)"
  by (induction hs) auto

lemma parse_injected:
  assumes "propagates sent parse names" "\<And>k. k \<in> names \<Longrightarrow> carrier_Get hs k = []"
  shows "parse (carrier_Get (Inject sent c hs)) = c"
proof -
  have d: "distinct (map fst (sent c))" "fst ` set (sent c) \<subseteq> names"
    using assms(1) unfolding propagates_def by blast+
  have "\<forall>(k, v) \<in> set (sent c). carrier_Get (Inject sent c hs) k = v"
    using hdr.get_injected [OF d(1)] by (auto simp: inject_eq)
  moreover have "\<forall>k \<in> names - fst ` set (sent c). carrier_Get (Inject sent c hs) k = []"
    using hdr.get_other [of _ "sent c" hs] assms(2) by (auto simp: inject_eq)
  ultimately show ?thesis using assms(1) unfolding propagates_def by blast
qed

text \<open>A consumer continues the trace of the producer.\<close>

lemma trace_round_trip:
  "propagates sent parse names \<Longrightarrow> startKafkaConsumerSpan parse (startKafkaProducerSpan sent c) = c"
  by (simp add: startKafkaConsumerSpan_def startKafkaProducerSpan_def parse_injected)

text \<open>So does the task of expiration-service, in whatever order the map is iterated.\<close>

lemma captured: "CaptureTraceHeaders sent c = map_of (Inject sent c [])"
proof -
  have fold: "foldl (\<lambda>m (k, v). m(k \<mapsto> v)) m hs = m ++ map_of hs"
    if "distinct (map fst hs)" for m :: "string \<rightharpoonup> string" and hs
    using that
  proof (induction hs arbitrary: m)
    case (Cons h hs)
    obtain k v where h: "h = (k, v)" by (cases h)
    have d: "distinct (map fst hs)" using Cons.prems by simp
    have "k \<notin> dom (map_of hs)" using Cons.prems h by (simp add: dom_map_of_conv_image_fst)
    then have upd: "m(k \<mapsto> v) ++ map_of hs = (m ++ map_of hs)(k \<mapsto> v)" by (rule map_add_upd_left)
    show ?case unfolding h foldl_Cons case_prod_conv Cons.IH [OF d] upd by (rule ext) (simp add: map_add_def)
  qed simp
  have "distinct (map fst (Inject sent c []))"
    using hdr.distinct_injected [of "[]" "sent c"] by (simp add: inject_eq carrier_Keys_def)
  then show ?thesis by (simp add: CaptureTraceHeaders_def fold)
qed

lemma get_listed:
  "carrier_Get (map (\<lambda>k. (k, case m k of None \<Rightarrow> [] | Some v \<Rightarrow> v)) order) k =
     (if k \<in> set order then case m k of None \<Rightarrow> [] | Some v \<Rightarrow> v else [])"
  by (induction order) auto

lemma get_map_of: "(case map_of hs k of None \<Rightarrow> [] | Some v \<Rightarrow> v) = carrier_Get hs k"
  by (induction hs) auto

lemma task_keeps_trace:
  assumes "propagates sent parse names" "set order = dom (CaptureTraceHeaders sent c)"
  shows "ExtractTraceContext parse order (CaptureTraceHeaders sent c) = c"
proof -
  have "carrier_Get (map (\<lambda>k. (k, case CaptureTraceHeaders sent c k of None \<Rightarrow> [] | Some v \<Rightarrow> v)) order) k =
      carrier_Get (Inject sent c []) k" for k
    unfolding get_listed assms(2) captured
    using get_map_of [of "Inject sent c []" k] by (auto simp: domIff split: option.splits)
  then have eq: "carrier_Get (map (\<lambda>k. (k, case CaptureTraceHeaders sent c k of None \<Rightarrow> [] | Some v \<Rightarrow> v)) order) =
      carrier_Get (Inject sent c [])" by (rule ext)
  show ?thesis unfolding ExtractTraceContext_def eq by (rule parse_injected [OF assms(1)]) simp
qed

text \<open>
  A dead letter names its topic and error, unless the message had such headers before: a message that
  was replayed and fails again shows the first reason, not the last.
\<close>

lemma dead_letter_reason:
  assumes "propagates sent parse names" "''x-dlq-source-topic'' \<notin> names" "''x-dlq-error'' \<notin> names"
  shows "carrier_Get (dlq_headers sent c topic err hs) ''x-dlq-error'' =
      (if ''x-dlq-error'' \<in> fst ` set hs then carrier_Get hs ''x-dlq-error'' else err)"
    and "carrier_Get (dlq_headers sent c topic err hs) ''x-dlq-source-topic'' =
      (if ''x-dlq-source-topic'' \<in> fst ` set hs then carrier_Get hs ''x-dlq-source-topic'' else topic)"
proof -
  have "fst ` set (sent c) \<subseteq> names" using assms(1) unfolding propagates_def by blast
  then have n: "''x-dlq-error'' \<notin> fst ` set (sent c)" "''x-dlq-source-topic'' \<notin> fst ` set (sent c)"
    using assms(2,3) by blast+
  show "carrier_Get (dlq_headers sent c topic err hs) ''x-dlq-error'' =
      (if ''x-dlq-error'' \<in> fst ` set hs then carrier_Get hs ''x-dlq-error'' else err)"
    unfolding dlq_headers_def injectKafkaContextHeaders_def inject_eq hdr.get_other [OF n(1)] carrier_Get_append by simp
  show "carrier_Get (dlq_headers sent c topic err hs) ''x-dlq-source-topic'' =
      (if ''x-dlq-source-topic'' \<in> fst ` set hs then carrier_Get hs ''x-dlq-source-topic'' else topic)"
    unfolding dlq_headers_def injectKafkaContextHeaders_def inject_eq hdr.get_other [OF n(2)] carrier_Get_append by simp
qed

text \<open>The dead letters of the modelled consumers are written with these headers.\<close>

lemma expiration_dead_letter:
  "xv_inject E = injectKafkaContextHeaders sent c \<Longrightarrow>
   km_headers (dead_letter_of E msg e) = dlq_headers sent c TopicOrderCreated (xv_error E e) (km_headers msg)"
  by (simp add: dead_letter_of_def dlq_headers_def)

lemma venue_dead_letter:
  assumes "ve_inject E = injectKafkaContextHeaders sent c"
  shows "vk_dlq (snd (run_alone (venue_dlq E Works m e) s)) = vk_dlq s @
    [(vm_topic m @ ''.dlq'', m\<lparr>vm_headers := dlq_headers sent c (vm_topic m) (ve_error E e) (vm_headers m)\<rparr>)]"
  by (simp add: venue_dlq_def dlq_headers_def assms)

text \<open>The W3C propagator for the field it always writes, as an instance of the contract.\<close>

lemma traceparent_propagates:
  "propagates (\<lambda>c. [(''traceparent'', c)]) (\<lambda>get. get ''traceparent'') {''traceparent'', ''tracestate''}"
  by (simp add: propagates_def)

lemma replayed_letter_witness:
  "carrier_Get (dlq_headers (\<lambda>c. [(''traceparent'', c)]) ''00-a-b-01'' ''orders.order.created'' ''second''
     [(''x-dlq-error'', ''first'')]) ''x-dlq-error'' = ''first''"
  using dead_letter_reason(1) [OF traceparent_propagates] by simp

end
