(* ===== verification/Worker_Loops.thy ===== *)
theory Worker_Loops
  imports Venue_Consumer Redis_Reconciler Ticket_Pool Attendance_Pool
begin

text \<open>
  The loops of the background workers: the sweepers and the Redis reconciler of venue-service, the
  quota reconciler and the outbox relay of ticket-service, the outbox relay and the purge of
  attendance-service, and the Kafka consumers of the last two. One pass of each is defined with its
  component; here are the \<^verbatim>\<open>Start\<close> and \<^verbatim>\<open>Run\<close> methods around it. What a \<^verbatim>\<open>select\<close> or a read takes is
  an argument, one element for each time the loop comes to it; a list that ends leaves the loop
  waiting.
\<close>

section \<open>Tickers\<close>

datatype wake = Tick | Stopped

text \<open>The answer says whether the loop has ended.\<close>

primrec tick_loop :: "(nat \<Rightarrow> ('s, 'a) proc) \<Rightarrow> nat \<Rightarrow> wake list \<Rightarrow> ('s, bool) proc" where
  "tick_loop pass n [] = Ret False"
| "tick_loop pass n (w # ws) =
     (case w of
        Stopped \<Rightarrow> Ret True
      | Tick \<Rightarrow> bind_proc (pass n) (\<lambda>r. tick_loop pass (n + 1) ws))"

text \<open>The workers of attendance-service make a pass before they wait for the first time.\<close>

definition pass_first_loop :: "(nat \<Rightarrow> ('s, 'a) proc) \<Rightarrow> wake list \<Rightarrow> ('s, bool) proc" where
  "pass_first_loop pass ws = bind_proc (pass 0) (\<lambda>r. tick_loop pass 1 ws)"

definition Sweeper_Start ::
  "(nat \<Rightarrow> faults) \<Rightarrow> (nat \<Rightarrow> bool) \<Rightarrow> (nat \<Rightarrow> int) \<Rightarrow> wake list \<Rightarrow> (hold_world, bool) proc" where
  "Sweeper_Start f gotLock clock ws = tick_loop (\<lambda>n. Sweeper_tick (f n) (gotLock n) (clock n)) 0 ws"

definition ReservationSweeper_Start ::
  "(nat \<Rightarrow> faults) \<Rightarrow> (nat \<Rightarrow> bool) \<Rightarrow> (nat \<Rightarrow> string list) \<Rightarrow> (nat \<Rightarrow> int) \<Rightarrow> wake list \<Rightarrow> (venue_db, bool) proc" where
  "ReservationSweeper_Start f gotLock locked clock ws =
     tick_loop (\<lambda>n. ReservationSweeper_tick (f n) (gotLock n) (locked n) (clock n)) 0 ws"

definition RedisReconciler_tick ::
  "(string \<Rightarrow> string) \<Rightarrow> faults \<Rightarrow> (string \<Rightarrow> faults) \<Rightarrow> (string \<Rightarrow> string \<Rightarrow> faults) \<Rightarrow> (string \<Rightarrow> redis_faults)
     \<Rightarrow> (hold_world, venue_error + unit) proc" where
  "RedisReconciler_tick collate fa fl fs rf =
     doing (\<lambda>w. case Reconciler_Run collate fa fl fs rf (hw_db w) (hw_redis w) of
                  (r, rd) \<Rightarrow> (r, w\<lparr>hw_redis := rd\<rparr>)) Ret"

definition RedisReconciler_Start ::
  "(string \<Rightarrow> string) \<Rightarrow> (nat \<Rightarrow> faults) \<Rightarrow> (nat \<Rightarrow> string \<Rightarrow> faults) \<Rightarrow> (nat \<Rightarrow> string \<Rightarrow> string \<Rightarrow> faults)
     \<Rightarrow> (nat \<Rightarrow> string \<Rightarrow> redis_faults) \<Rightarrow> wake list \<Rightarrow> (hold_world, bool) proc" where
  "RedisReconciler_Start collate fa fl fs rf ws =
     tick_loop (\<lambda>n. RedisReconciler_tick collate (fa n) (fl n) (fs n) (rf n)) 0 ws"

text \<open>What a pass of the quota reconciler gets from outside.\<close>

record quota_pass =
  qp_leader :: "nat \<Rightarrow> outcome"
  qp_sweep :: "nat \<Rightarrow> outcome"
  qp_calls :: "nat \<Rightarrow> outcome"
  qp_clock :: "nat \<Rightarrow> int"
  qp_now :: int
  qp_expired :: bool
  qp_token :: string

definition QuotaReconciler_Start ::
  "(string \<Rightarrow> string \<Rightarrow> bool) \<Rightarrow> (string \<Rightarrow> rat option) \<Rightarrow> bool \<Rightarrow> nat \<Rightarrow> (nat \<Rightarrow> quota_pass) \<Rightarrow> wake list
     \<Rightarrow> (ticket_world, bool) proc" where
  "QuotaReconciler_Start like price qm fuel ps ws =
     tick_loop (\<lambda>n. let p = ps n in
       runIfLeader like price qm (qp_leader p) (qp_sweep p) (qp_calls p) (qp_clock p) (qp_now p) fuel (qp_expired p) (qp_token p))
       0 ws"

definition OutboxRelay_Run ::
  "(nat \<Rightarrow> nat \<Rightarrow> outcome) \<Rightarrow> (nat \<Rightarrow> nat \<Rightarrow> int) \<Rightarrow> (nat \<Rightarrow> string \<Rightarrow> bool) \<Rightarrow> int \<Rightarrow> wake list \<Rightarrow> (attendance_db, bool) proc" where
  "OutboxRelay_Run f clock locked batchSize ws =
     pass_first_loop (\<lambda>n. Relay_RunOnce (f n) (clock n) (locked n) batchSize) ws"

definition OutboxCleanup_Run ::
  "(nat \<Rightarrow> nat \<Rightarrow> outcome) \<Rightarrow> (nat \<Rightarrow> int) \<Rightarrow> int \<Rightarrow> wake list \<Rightarrow> (attendance_db, bool) proc" where
  "OutboxCleanup_Run f clock retention ws = pass_first_loop (\<lambda>n. Cleanup_RunOnce (f n) (clock n) retention) ws"

section \<open>The outbox relay of ticket-service\<close>

record relay_round =
  rr_claims :: "nat \<Rightarrow> outcome"
  rr_calls :: "nat \<Rightarrow> outcome"
  rr_token :: "nat \<Rightarrow> string"
  rr_now :: int
  rr_clock :: "nat \<Rightarrow> int"
  rr_error :: string
  rr_wake :: wake

definition defaultPollInterval :: int where "defaultPollInterval = 500000000"

text \<open>
  A batch with work is followed by the next one at once; after an empty or failed one the relay waits,
  each time twice as long. The answer lists the waits, in nanoseconds.
\<close>

primrec relay_loop ::
  "(int \<Rightarrow> string) \<Rightarrow> int \<Rightarrow> relay_round list \<Rightarrow> (ticket_world, int list) proc" where
  "relay_loop rfc idle [] = Ret []"
| "relay_loop rfc idle (r # rs) =
     bind_proc (processBatch rfc (rr_claims r) (rr_calls r) (rr_token r) (rr_now r) (rr_clock r) (rr_error r)) (\<lambda>x.
       if (case x of Inr n \<Rightarrow> 0 < n | Inl e \<Rightarrow> False) then relay_loop rfc defaultPollInterval rs
       else if rr_wake r = Stopped then Ret [idle]
       else bind_proc (relay_loop rfc (nextIdleInterval idle) rs) (\<lambda>ts. Ret (idle # ts)))"

definition Relay_Start :: "(int \<Rightarrow> string) \<Rightarrow> relay_round list \<Rightarrow> (ticket_world, int list) proc" where
  "Relay_Start rfc rs = relay_loop rfc defaultPollInterval rs"

section \<open>Consumers\<close>

text \<open>
  What the read of the loop gives: nothing (the time is over or the read failed), or the next message
  with the outcome of its commit. The answer is the offset that is committed in the end; \<open>pos\<close> is the
  offset of the next message.
\<close>

datatype 'm poll = Cancelled | Nothing | Message 'm bool

primrec consumer_loop ::
  "('m \<Rightarrow> ('s, bool) proc) \<Rightarrow> nat \<Rightarrow> nat \<Rightarrow> 'm poll list \<Rightarrow> ('s, nat) proc" where
  "consumer_loop handle pos committed [] = Ret committed"
| "consumer_loop handle pos committed (e # es) =
     (case e of
        Cancelled \<Rightarrow> Ret committed
      | Nothing \<Rightarrow> consumer_loop handle pos committed es
      | Message m commits \<Rightarrow>
          bind_proc (handle m) (\<lambda>done.
            consumer_loop handle (pos + 1) (if done \<and> commits then pos + 1 else committed) es))"

text \<open>
  A message of ticket-service with what happens to it; a message that went to the dead-letter topic is
  committed too.
\<close>

record order_delivery =
  dl_calls :: "nat \<Rightarrow> outcome"
  dl_clock :: "nat \<Rightarrow> int"
  dl_stopped :: "nat \<Rightarrow> bool"
  dl_dlq :: bool
  dl_message :: order_message

definition TicketConsumer_Start :: "bool \<Rightarrow> nat \<Rightarrow> order_delivery poll list \<Rightarrow> (ticket_world, nat) proc" where
  "TicketConsumer_Start qm offset es =
     consumer_loop (\<lambda>d. bind_proc (consume_order qm (dl_calls d) (dl_clock d) (dl_stopped d) (dl_dlq d) (dl_message d))
       (\<lambda>r. Ret (r \<noteq> None))) offset offset es"

record completed_delivery =
  cdl_calls :: "nat \<Rightarrow> nat \<Rightarrow> outcome"
  cdl_ids :: "nat \<Rightarrow> nat \<Rightarrow> string \<times> string"
  cdl_clock :: "nat \<Rightarrow> nat \<Rightarrow> int"
  cdl_stop :: "nat \<Rightarrow> bool"
  cdl_dlq :: outcome
  cdl_message :: "order_completed option"

definition AttendanceConsumer_loop ::
  "token_codec \<Rightarrow> int \<Rightarrow> nat \<Rightarrow> completed_delivery poll list \<Rightarrow> (attendance_db, nat) proc" where
  "AttendanceConsumer_loop tc ttl offset es =
     consumer_loop (\<lambda>d. bind_proc (consume_completed tc ttl (cdl_calls d) (cdl_ids d) (cdl_clock d) (cdl_stop d) (cdl_dlq d)
         (cdl_message d)) (\<lambda>r. Ret (r \<noteq> NotCommitted))) offset offset es"

section \<open>Facts\<close>

text \<open>A property that every pass keeps is kept by the loop, however often it runs.\<close>

lemma keeps_tick_loop: "(\<And>n. keeps P (pass n)) \<Longrightarrow> keeps P (tick_loop pass n ws)"
proof (induction ws arbitrary: n)
  case (Cons w ws)
  then show ?case by (cases w) (simp_all add: keeps_bind)
qed simp

lemma quiet_tick_loop: "(\<And>n. quiet I (pass n)) \<Longrightarrow> quiet I (tick_loop pass n ws)"
proof (induction ws arbitrary: n)
  case (Cons w ws)
  then show ?case by (cases w) (simp_all add: quiet_bind)
qed simp

lemma safe_tick_loop: "(\<And>n. safe stock_inv (pass n) {#}) \<Longrightarrow> safe stock_inv (tick_loop pass n ws) {#}"
proof (induction ws arbitrary: n)
  case (Cons w ws)
  then show ?case by (cases w) (simp_all add: safe_seq)
qed simp

lemma safe_consumer_loop:
  "(\<And>m. safe stock_inv (handle m) {#}) \<Longrightarrow> safe stock_inv (consumer_loop handle pos committed es) {#}"
proof (induction es arbitrary: pos committed)
  case (Cons e es)
  then show ?case by (cases e) (simp_all add: safe_seq)
qed simp

text \<open>The workers keep the accounts of their services while everything else runs.\<close>

lemma ticket_workers_safe:
  "safe stock_inv (QuotaReconciler_Start like price qm fuel ps ws) {#}"
  "safe stock_inv (relay_loop rfc idle rs) {#}"
  "safe stock_inv (TicketConsumer_Start qm offset es) {#}"
proof -
  show "safe stock_inv (QuotaReconciler_Start like price qm fuel ps ws) {#}"
    unfolding QuotaReconciler_Start_def Let_def by (intro safe_tick_loop safe_runIfLeader)
  show "safe stock_inv (relay_loop rfc idle rs) {#}"
  proof (induction rs arbitrary: idle)
    case (Cons r rs)
    then show ?case by (auto intro!: safe_seq safe_processBatch)
  qed simp
  show "safe stock_inv (TicketConsumer_Start qm offset es) {#}"
    unfolding TicketConsumer_Start_def consume_order_def by (intro safe_consumer_loop safe_seq safe_consume) simp
qed

lemma attendance_workers_quiet:
  "quiet attendance_inv (OutboxRelay_Run f clock locked n ws)" "quiet attendance_inv (OutboxCleanup_Run f now retention ws)"
  unfolding OutboxRelay_Run_def OutboxCleanup_Run_def pass_first_loop_def
  by (intro quiet_bind quiet_tick_loop; simp)+

lemma venue_workers_keep_ledger:
  "keeps ledger_ok (ReservationSweeper_Start f gotLock locked clock ws)"
  "keeps (\<lambda>w. ledger_ok (hw_db w)) (RedisReconciler_Start collate fa fl fs rf ws)"
proof -
  have "ledger_ok (snd (SweepExpiredReservations f got lk now d))" if "ledger_ok d" for f got lk now d
    using sweep_step [OF that refl, of f got lk now] that by metis
  then show "keeps ledger_ok (ReservationSweeper_Start f gotLock locked clock ws)"
    unfolding ReservationSweeper_Start_def ReservationSweeper_tick_def
    by (intro keeps_tick_loop) (simp add: doing_def)
  show "keeps (\<lambda>w. ledger_ok (hw_db w)) (RedisReconciler_Start collate fa fl fs rf ws)"
    unfolding RedisReconciler_Start_def RedisReconciler_tick_def
    by (intro keeps_tick_loop) (simp add: doing_def split: prod.split)
qed

text \<open>
  The relay never waits less than half a second or more than five, and never more than twice the wait
  before: an idle relay waits 0.5, 1, 2, 4, 5, 5, ... seconds.
\<close>

primrec answers :: "('a \<Rightarrow> bool) \<Rightarrow> ('s, 'a) proc \<Rightarrow> bool" where
  "answers P (Ret a) = P a"
| "answers P (Act u k) = (\<forall>s. answers P (k s))"

lemma answers_bind: "answers Q p \<Longrightarrow> (\<And>a. Q a \<Longrightarrow> answers P (h a)) \<Longrightarrow> answers P (bind_proc p h)"
  by (induction p) auto

lemma answers_weaken: "answers Q p \<Longrightarrow> (\<And>a. Q a \<Longrightarrow> P a) \<Longrightarrow> answers P p"
  by (induction p) auto

lemma answers_any: "(\<And>a. P a) \<Longrightarrow> answers P p"
  by (induction p) auto

primrec backs_off :: "int \<Rightarrow> int list \<Rightarrow> bool" where
  "backs_off idle [] = True"
| "backs_off idle (t # ts) = ((t = idle \<or> t = defaultPollInterval) \<and> backs_off (nextIdleInterval t) ts)"

lemma next_idle:
  assumes "defaultPollInterval \<le> t" "t \<le> 5000000000"
  shows "nextIdleInterval t = min (2 * t) 5000000000"
proof -
  have "signed_take_bit 63 (2 * t) = 2 * t"
    using assms by (intro signed_take_bit_int_eq_self) (simp_all add: defaultPollInterval_def)
  moreover have "(word_of_int t * 2 :: 64 word) = word_of_int (2 * t)" by (simp add: mult.commute)
  ultimately have "sint (word_of_int t * 2 :: 64 word) = 2 * t" by (simp only: sint_sbintrunc') simp
  then show ?thesis by (simp add: nextIdleInterval_def)
qed

lemma backs_off_bounds:
  "backs_off idle ts \<Longrightarrow> defaultPollInterval \<le> idle \<Longrightarrow> idle \<le> 5000000000 \<Longrightarrow>
   t \<in> set ts \<Longrightarrow> defaultPollInterval \<le> t \<and> t \<le> 5000000000"
proof (induction ts arbitrary: idle)
  case (Cons u ts)
  have u: "defaultPollInterval \<le> u \<and> u \<le> 5000000000"
    using Cons.prems by (auto simp: defaultPollInterval_def)
  then have "defaultPollInterval \<le> nextIdleInterval u \<and> nextIdleInterval u \<le> 5000000000"
    by (auto simp: next_idle defaultPollInterval_def)
  then show ?case using Cons u by auto
qed simp

lemma backs_off_reset: "backs_off defaultPollInterval ts \<Longrightarrow> backs_off idle ts"
  by (cases ts) auto

lemma relay_waits: "answers (backs_off idle) (relay_loop rfc idle rs)"
proof (induction rs arbitrary: idle)
  case (Cons r rs)
  have again: "answers (backs_off idle) (relay_loop rfc defaultPollInterval rs)"
    by (rule answers_weaken [OF Cons.IH backs_off_reset])
  have wait: "answers (backs_off idle) (bind_proc (relay_loop rfc (nextIdleInterval idle) rs) (\<lambda>ts. Ret (idle # ts)))"
    by (rule answers_bind [OF Cons.IH]) simp
  show ?case
    unfolding relay_loop.simps
    by (rule answers_bind [where Q = "\<lambda>x. True"]) (use again wait in \<open>auto intro: answers_any\<close>)
qed simp

lemma idle_relay: "map (\<lambda>n. (nextIdleInterval ^^ n) defaultPollInterval) [0..<6] =
    [500000000, 1000000000, 2000000000, 4000000000, 5000000000, 5000000000]"
  by code_simp

text \<open>
  A message whose dead-letter write fails is not committed, but the loop reads on, and the commit of the
  next message covers it. In attendance-service an order that nobody could read is lost that way.
\<close>

lemma commit_passes_failure:
  assumes "run_alone (handle m1) s = (False, s1)" "run_alone (handle m2) s1 = (True, s2)"
  shows "run_alone (consumer_loop handle pos committed [Message m1 b, Message m2 True]) s = (pos + 2, s2)"
  using assms by simp

lemma undecodable_order_is_lost:
  assumes "cdl_message d1 = None" "cdl_dlq d1 = Fails" "cdl_message d2 = None" "cdl_dlq d2 = Works"
  shows "run_alone (AttendanceConsumer_loop tc ttl offset [Message d1 b, Message d2 True]) d =
    (offset + 2, d\<lparr>ad_dlq := ad_dlq d @ [None]\<rparr>)"
  unfolding AttendanceConsumer_loop_def
  by (rule commit_passes_failure) (simp_all add: assms consume_completed_def processMessage_def)

lemma failed_orders_are_passed:
  "run_alone (consume_order qm (dl_calls d1) (dl_clock d1) (dl_stopped d1) (dl_dlq d1) (dl_message d1)) w = (None, w1) \<Longrightarrow>
   run_alone (consume_order qm (dl_calls d2) (dl_clock d2) (dl_stopped d2) (dl_dlq d2) (dl_message d2)) w1 = (Some x, w2) \<Longrightarrow>
   run_alone (TicketConsumer_Start qm offset [Message d1 b, Message d2 True]) w = (offset + 2, w2)"
  unfolding TicketConsumer_Start_def by (rule commit_passes_failure [where ?s1.0 = w1]) simp_all

text \<open>
  An order that waits for its next attempt when the service stops is not tried again: its message goes
  to the dead-letter topic and is committed.
\<close>

lemma stopping_dead_letters:
  assumes "run_alone (OnOrderCompleted_issue tc ttl (f 3) (ids 3) (clock 3) data) d = (Inl e, d1)" "stop 2"
  shows "run_alone (consume_completed tc ttl f ids clock stop Works (Some data)) d =
    (DeadLettered, d1\<lparr>ad_dlq := ad_dlq d1 @ [Some data]\<rparr>)"
  using assms by (simp add: consume_completed_def processMessage_def numeral_3_eq_3 numeral_2_eq_2)

end
