(* ===== verification/Service_Config.thy ===== *)
theory Service_Config
  imports User_Signature
begin

text \<open>
  How the four services read their configuration (\<^verbatim>\<open>internal/config/config.go\<close>), hand its Kafka part
  to the Kafka client (\<^verbatim>\<open>internal/kafka/security.go\<close>, the same file in three services), and answer
  the readiness probe. The environment is a function that is empty where a variable is not set;
  values are ASCII; the name of the environment and the log level are left out where nothing depends
  on them. \<^verbatim>\<open>net/url\<close> and \<^verbatim>\<open>time.ParseDuration\<close> are parameters, an error is the variable with
  the value that was refused.
\<close>

section \<open>Reading the environment\<close>

type_synonym env = "string \<Rightarrow> string"

datatype config_error = Required string | BadValue string string

definition getEnv :: "env \<Rightarrow> string \<Rightarrow> string \<Rightarrow> string" where
  "getEnv env key d = (if env key \<noteq> [] then env key else d)"

definition splitAndTrim :: "string \<Rightarrow> string list" where
  "splitAndTrim s = filter (\<lambda>p. p \<noteq> []) (map TrimSpace (split_commas s))"

definition upper_char :: "char \<Rightarrow> char" where
  "upper_char c = (let n = of_char c :: nat in if 97 \<le> n \<and> n \<le> 122 then char_of (n - 32) else c)"

definition ToUpper :: "string \<Rightarrow> string" where
  "ToUpper s = map upper_char s"

definition must :: "string \<Rightarrow> string \<Rightarrow> config_error list" where
  "must key v = (if v = [] then [Required key] else [])"

text \<open>\<^verbatim>\<open>Atoi\<close> of a variable with a default, and the check of its range.\<close>

definition read_int :: "env \<Rightarrow> string \<Rightarrow> string \<Rightarrow> (int \<Rightarrow> bool) \<Rightarrow> int \<times> config_error list" where
  "read_int env key d ok =
     (case ParseInt (getEnv env key d) of
        None \<Rightarrow> (0, [BadValue key (getEnv env key d)])
      | Some n \<Rightarrow> (n, if ok n then [] else [BadValue key (getEnv env key d)]))"

definition port_ok :: "int \<Rightarrow> bool" where "port_ok n \<longleftrightarrow> 1 \<le> n \<and> n \<le> 65535"

definition ParseBool :: "string \<Rightarrow> bool option" where
  "ParseBool s =
     (if s \<in> {''1'', ''t'', ''T'', ''true'', ''TRUE'', ''True''} then Some True
      else if s \<in> {''0'', ''f'', ''F'', ''false'', ''FALSE'', ''False''} then Some False
      else None)"

section \<open>Kafka\<close>

record kafka_settings =
  ks_brokers :: "string list"
  ks_protocol :: string
  ks_mechanism :: string
  ks_username :: string
  ks_password :: string
  ks_ca :: string

definition SASL :: "string \<Rightarrow> bool" where
  "SASL protocol \<longleftrightarrow> take 4 protocol = ''SASL''"

text \<open>\<open>up\<close>: the mechanism is put in upper case, which attendance-service leaves out.\<close>

definition load_kafka :: "bool \<Rightarrow> env \<Rightarrow> kafka_settings \<times> config_error list" where
  "load_kafka up env =
     (let brokers = env ''KAFKA_BROKERS'';
          protocol = ToUpper (TrimSpace (getEnv env ''KAFKA_SECURITY_PROTOCOL'' ''PLAINTEXT''));
          raw = TrimSpace (env ''KAFKA_SASL_MECHANISM'');
          mechanism = (if up then ToUpper raw else raw);
          username = TrimSpace (env ''KAFKA_SASL_USERNAME'');
          password = TrimSpace (env ''KAFKA_SASL_PASSWORD'') in
      (\<lparr>ks_brokers = splitAndTrim brokers, ks_protocol = protocol, ks_mechanism = mechanism, ks_username = username,
        ks_password = password, ks_ca = TrimSpace (env ''KAFKA_SSL_CA_LOCATION'')\<rparr>,
       must ''KAFKA_BROKERS'' brokers @
       (if protocol \<in> {''PLAINTEXT'', ''SSL'', ''SASL_PLAINTEXT'', ''SASL_SSL''} then []
        else [BadValue ''KAFKA_SECURITY_PROTOCOL'' protocol]) @
       (if SASL protocol then
          must ''KAFKA_SASL_MECHANISM'' mechanism @ must ''KAFKA_SASL_USERNAME'' username @
          must ''KAFKA_SASL_PASSWORD'' password
        else [])))"

text \<open>\<^verbatim>\<open>Apply\<close>: \<open>put\<close> sets a key of the client's configuration, or fails.\<close>

definition set_keys ::
  "('m \<Rightarrow> string \<Rightarrow> string \<Rightarrow> 'm option) \<Rightarrow> (string \<times> string) list \<Rightarrow> 'm \<Rightarrow> 'm option" where
  "set_keys put kvs cfg = foldl (\<lambda>m (k, v). case m of None \<Rightarrow> None | Some m \<Rightarrow> put m k v) (Some cfg) kvs"

definition security_protocol :: "kafka_settings \<Rightarrow> string" where
  "security_protocol c = (let p = ToUpper (TrimSpace (ks_protocol c)) in if p = [] then ''PLAINTEXT'' else p)"

definition Apply :: "('m \<Rightarrow> string \<Rightarrow> string \<Rightarrow> 'm option) \<Rightarrow> kafka_settings \<Rightarrow> 'm \<Rightarrow> 'm option" where
  "Apply put c cfg =
     (let protocol = security_protocol c;
          base = (''security.protocol'', protocol) # (if ks_ca c \<noteq> [] then [(''ssl.ca.location'', ks_ca c)] else []) in
      case set_keys put base cfg of
        None \<Rightarrow> None
      | Some m \<Rightarrow>
          if protocol \<in> {''PLAINTEXT'', ''SSL''} then Some m
          else if protocol \<in> {''SASL_PLAINTEXT'', ''SASL_SSL''} then
            set_keys put [(''sasl.mechanisms'', ToUpper (TrimSpace (ks_mechanism c))), (''sasl.username'', ks_username c),
              (''sasl.password'', ks_password c)] m
          else None)"

section \<open>The four configurations\<close>

record venue_config =
  vc_port :: int
  vc_grpc :: int
  vc_pool :: int
  vc_database :: string
  vc_kafka :: kafka_settings
  vc_redis :: string
  vc_ticket :: string
  vc_hold_ttl :: int
  vc_key :: string
  vc_enforced :: bool

definition load_venue :: "env \<Rightarrow> config_error list + venue_config" where
  "load_venue env =
     (let pool = read_int env ''DB_POOL_MAX'' ''10'' (\<lambda>n. n \<ge> 1);
          port = read_int env ''PORT'' ''3003'' port_ok;
          grpc = read_int env ''GRPC_PORT'' ''50052'' port_ok;
          kafka = load_kafka True env;
          hold = read_int env ''HOLD_TTL_SEC'' ''600'' (\<lambda>n. n > 0);
          cap = ParseBool (getEnv env ''SEATED_CAP_ENFORCED'' ''false'');
          errs = snd pool @ snd port @ snd grpc @ must ''DATABASE_URL'' (env ''DATABASE_URL'') @ snd kafka @
            must ''TICKET_SERVICE_URL'' (env ''TICKET_SERVICE_URL'') @ snd hold @
            (if cap = None then [BadValue ''SEATED_CAP_ENFORCED'' (getEnv env ''SEATED_CAP_ENFORCED'' ''false'')] else [])
      in if errs \<noteq> [] then Inl errs
         else Inr \<lparr>vc_port = fst port, vc_grpc = fst grpc, vc_pool = fst pool, vc_database = env ''DATABASE_URL'',
           vc_kafka = fst kafka, vc_redis = env ''REDIS_URL'', vc_ticket = env ''TICKET_SERVICE_URL'',
           vc_hold_ttl = fst hold, vc_key = env ''X_USER_ID_SIGNING_KEY'', vc_enforced = (cap = Some True)\<rparr>)"

record ticket_config =
  tcf_port :: int
  tcf_grpc :: int
  tcf_mongo :: string
  tcf_db :: string
  tcf_pool :: int
  tcf_kafka :: kafka_settings
  tcf_redis :: string
  tcf_venue :: string
  tcf_backend :: string
  tcf_search_url :: string
  tcf_index :: string

definition load_ticket :: "(string \<Rightarrow> bool) \<Rightarrow> env \<Rightarrow> config_error list + ticket_config" where
  "load_ticket request_uri env =
     (let port = read_int env ''PORT'' ''3001'' port_ok;
          grpc = read_int env ''GRPC_PORT'' ''9090'' port_ok;
          pool = read_int env ''MONGO_MAX_POOL_SIZE'' ''50'' (\<lambda>n. n \<ge> 1);
          kafka = load_kafka True env;
          backend = getEnv env ''SEARCH_BACKEND'' ''mongo'';
          url = env ''OPENSEARCH_URL'';
          errs = snd port @ snd grpc @ must ''MONGO_URI'' (env ''MONGO_URI'') @ snd pool @ snd kafka @
            (if backend \<in> {''mongo'', ''opensearch''} then [] else [BadValue ''SEARCH_BACKEND'' backend]) @
            (if backend = ''opensearch'' \<and> \<not> request_uri url then [BadValue ''OPENSEARCH_URL'' url] else [])
      in if errs \<noteq> [] then Inl errs
         else Inr \<lparr>tcf_port = fst port, tcf_grpc = fst grpc, tcf_mongo = env ''MONGO_URI'',
           tcf_db = getEnv env ''MONGO_DB'' ''tickets'', tcf_pool = fst pool, tcf_kafka = fst kafka, tcf_redis = env ''REDIS_URL'',
           tcf_venue = getEnv env ''VENUE_SERVICE_ADDR'' ''localhost:9091'', tcf_backend = backend, tcf_search_url = url,
           tcf_index = getEnv env ''OPENSEARCH_INDEX'' ''tickets''\<rparr>)"

record expiration_config =
  xc_port :: int
  xc_redis :: string
  xc_kafka :: kafka_settings

definition load_expiration :: "env \<Rightarrow> config_error list + expiration_config" where
  "load_expiration env =
     (let port = read_int env ''PORT'' ''8080'' port_ok; kafka = load_kafka True env;
          errs = snd port @ must ''REDIS_ADDR'' (env ''REDIS_ADDR'') @ snd kafka
      in if errs \<noteq> [] then Inl errs
         else Inr \<lparr>xc_port = fst port, xc_redis = env ''REDIS_ADDR'', xc_kafka = fst kafka\<rparr>)"

text \<open>A bare endpoint is \<^verbatim>\<open>host:port\<close>; \<open>url_host\<close> is the host of a URL that parses.\<close>

fun has_scheme :: "string \<Rightarrow> bool" where
  "has_scheme (a # b # c # s) \<longleftrightarrow> [a, b, c] = ''://'' \<or> has_scheme (b # c # s)"
| "has_scheme _ \<longleftrightarrow> False"

definition validateOTELEndpoint :: "(string \<Rightarrow> string option) \<Rightarrow> string \<Rightarrow> bool" where
  "validateOTELEndpoint url_host endpoint \<longleftrightarrow>
     (if has_scheme endpoint then (case url_host endpoint of None \<Rightarrow> False | Some h \<Rightarrow> h \<noteq> [])
      else
        let host = takeWhile (\<lambda>c. c \<noteq> CHR '':'') endpoint; rest = dropWhile (\<lambda>c. c \<noteq> CHR '':'') endpoint in
        host \<noteq> [] \<and> rest \<noteq> [] \<and> tl rest \<noteq> [] \<and> (case ParseInt (tl rest) of None \<Rightarrow> False | Some n \<Rightarrow> port_ok n))"

definition minSigningKeyLength :: nat where "minSigningKeyLength = 32"

record attendance_config =
  ac_env :: string
  ac_port :: int
  ac_database :: string
  ac_pool :: int
  ac_kafka :: kafka_settings
  ac_qr_key :: string
  ac_ticket :: string
  ac_auth :: string
  ac_key :: string
  ac_otel :: string
  ac_qr_ttl :: int

definition qr_ttl :: "(string \<Rightarrow> int option) \<Rightarrow> env \<Rightarrow> int \<times> config_error list" where
  "qr_ttl dur env =
     (let raw = TrimSpace (env ''QR_TOKEN_TTL'') in
      if raw = [] then (0, [])
      else case dur raw of
        Some d \<Rightarrow> if d \<le> 0 then (0, [BadValue ''QR_TOKEN_TTL'' raw]) else (d, [])
      | None \<Rightarrow> (0, [BadValue ''QR_TOKEN_TTL'' raw]))"

definition load_attendance ::
  "(string \<Rightarrow> bool) \<Rightarrow> (string \<Rightarrow> string option) \<Rightarrow> (string \<Rightarrow> int option) \<Rightarrow> env \<Rightarrow> config_error list + attendance_config" where
  "load_attendance request_uri url_host dur env =
     (let mode = getEnv env ''APP_ENV'' ''development'';
          pool = read_int env ''DB_POOL_MAX'' ''10'' (\<lambda>n. n \<ge> 1);
          port = read_int env ''HTTP_PORT'' ''3007'' port_ok;
          kafka = load_kafka False env;
          qr = env ''QR_SIGNING_KEY'';
          ticket = TrimSpace (env ''TICKET_SERVICE_URL'');
          auth = TrimSpace (getEnv env ''AUTH_SERVICE_URL'' ''http://auth-service:3000'');
          key = env ''X_USER_ID_SIGNING_KEY'';
          otel = TrimSpace (env ''OTEL_EXPORTER_OTLP_ENDPOINT'');
          ttl = qr_ttl dur env;
          errs = snd pool @ snd port @ must ''DATABASE_URL'' (env ''DATABASE_URL'') @ snd kafka @
            (if qr = [] then [Required ''QR_SIGNING_KEY'']
             else if length qr < minSigningKeyLength then [BadValue ''QR_SIGNING_KEY'' qr] else []) @
            must ''TICKET_SERVICE_URL'' ticket @
            (if request_uri auth then [] else [BadValue ''AUTH_SERVICE_URL'' auth]) @
            (if mode = ''production'' \<and> length key < minSigningKeyLength then [BadValue ''X_USER_ID_SIGNING_KEY'' key] else []) @
            (if otel \<noteq> [] \<and> \<not> validateOTELEndpoint url_host otel then [BadValue ''OTEL_EXPORTER_OTLP_ENDPOINT'' otel] else []) @
            snd ttl
      in if errs \<noteq> [] then Inl errs
         else Inr \<lparr>ac_env = mode, ac_port = fst port, ac_database = env ''DATABASE_URL'', ac_pool = fst pool, ac_kafka = fst kafka,
           ac_qr_key = qr, ac_ticket = ticket, ac_auth = auth, ac_key = key, ac_otel = otel, ac_qr_ttl = fst ttl\<rparr>)"

section \<open>Readiness\<close>

text \<open>
  A checker is a Go interface value: nil, an interface that holds a nil pointer, or a checker whose ping
  answers or fails. A ping on the nil pointer panics, which the framework turns into a 500. A probe
  pings the dependencies in order and answers 503 with the first that fails.
\<close>

datatype checker = NoChecker | NilPointer | Pings bool

fun probe :: "(string \<times> checker) list \<Rightarrow> nat \<times> string" where
  "probe [] = (200, ''ok'')"
| "probe ((name, c) # rest) =
     (case c of
        NoChecker \<Rightarrow> probe rest
      | NilPointer \<Rightarrow> (500, ''Internal Server Error'')
      | Pings up \<Rightarrow> if up then probe rest else (503, name @ '' unreachable''))"

definition venue_ready :: "checker \<Rightarrow> checker \<Rightarrow> checker \<Rightarrow> nat \<times> string" where
  "venue_ready db redis kafka = probe [(''postgres'', db), (''redis'', redis), (''kafka'', kafka)]"

definition ticket_ready :: "bool \<Rightarrow> checker \<Rightarrow> checker \<Rightarrow> nat \<times> string" where
  "ticket_ready mongo redis kafka = probe [(''mongodb'', Pings mongo), (''redis'', redis), (''kafka'', kafka)]"

definition attendance_ready :: "checker \<Rightarrow> checker \<Rightarrow> nat \<times> string" where
  "attendance_ready db kafka = probe [(''postgres'', db), (''kafka'', kafka)]"

definition expiration_ready :: "checker \<Rightarrow> checker \<Rightarrow> nat \<times> string" where
  "expiration_ready redis kafka = probe [(''redis'', redis), (''kafka'', kafka)]"

lemma probe_ready: "fst (probe ps) = 200 \<longleftrightarrow> (\<forall>(name, c) \<in> set ps. c = NoChecker \<or> c = Pings True)"
  by (induction ps rule: probe.induct) (auto split: checker.split)

section \<open>Accepted settings are accepted by the client\<close>

lemma accepted_protocol:
  assumes "load_kafka up env = (k, [])"
  shows "ks_protocol k \<in> {''PLAINTEXT'', ''SSL'', ''SASL_PLAINTEXT'', ''SASL_SSL''}"
  using assms by (auto simp: load_kafka_def Let_def split: if_splits)

lemma set_keys_total:
  assumes "\<And>m k v. put m k v \<noteq> None"
  shows "set_keys put kvs cfg \<noteq> None"
  unfolding set_keys_def using assms
  by (induction kvs rule: rev_induct) (auto split: option.splits prod.splits)

lemma protocol_texts:
  "ToUpper (TrimSpace ''PLAINTEXT'') = ''PLAINTEXT''" "ToUpper (TrimSpace ''SSL'') = ''SSL''"
  "ToUpper (TrimSpace ''SASL_PLAINTEXT'') = ''SASL_PLAINTEXT''" "ToUpper (TrimSpace ''SASL_SSL'') = ''SASL_SSL''"
  by (simp_all add: ToUpper_def upper_char_def TrimSpace_def white_def)

text \<open>A start that passed \<^verbatim>\<open>Load\<close> never fails in \<^verbatim>\<open>Apply\<close> when the client takes every key.\<close>

lemma accepted_settings_apply:
  assumes "load_kafka up env = (k, [])" "\<And>m key v. put m key v \<noteq> None"
  shows "Apply put k cfg \<noteq> None"
proof -
  have "security_protocol k = ks_protocol k"
    using accepted_protocol [OF assms(1)] unfolding security_protocol_def
    by (elim insertE) (simp_all only: protocol_texts Let_def, simp_all)
  moreover obtain m where "set_keys put ((''security.protocol'', ks_protocol k) #
      (if ks_ca k \<noteq> [] then [(''ssl.ca.location'', ks_ca k)] else [])) cfg = Some m"
    using set_keys_total [of put, OF assms(2)] by blast
  ultimately have "Apply put k cfg = (if ks_protocol k \<in> {''PLAINTEXT'', ''SSL''} then Some m
      else if ks_protocol k \<in> {''SASL_PLAINTEXT'', ''SASL_SSL''} then
        set_keys put [(''sasl.mechanisms'', ToUpper (TrimSpace (ks_mechanism k))), (''sasl.username'', ks_username k),
          (''sasl.password'', ks_password k)] m
      else None)" by (simp only: Apply_def Let_def option.case)
  moreover have "ks_protocol k \<in> {''PLAINTEXT'', ''SSL''} \<or> ks_protocol k \<in> {''SASL_PLAINTEXT'', ''SASL_SSL''}"
    using accepted_protocol [OF assms(1)] by blast
  ultimately show ?thesis using set_keys_total [of put, OF assms(2)] by (metis option.distinct(1))
qed

end
