(* ===== verification/Service_Startup.thy ===== *)
theory Service_Startup
  imports Service_Config Hold_Manager Grpc_Types "HOL-Library.Word"
begin

text \<open>
  How the four services start and stop (\<^verbatim>\<open>cmd/server/main.go\<close>): the calls that end the process when
  they fail, the deferred clean-ups, the background workers, and what each component is built with;
  the connection checks (\<^verbatim>\<open>internal/health/checkers.go\<close>), the migrations
  (\<^verbatim>\<open>internal/migrations/migrate.go\<close>), the set-up of tracing (\<^verbatim>\<open>internal/tracing/tracing.go\<close>), the
  routes, and the gRPC servers. Whether a call of a library succeeds is a parameter.
\<close>

section \<open>Starting a process\<close>

text \<open>
  A call whose error is fatal, a setting that is refused, a deferred clean-up, and a worker. A fatal error
  calls \<^verbatim>\<open>os.Exit\<close>, which runs no deferred clean-up and stops the workers where they are.
\<close>

datatype 'w boot = Attempt string | Refuse bool string | Deferred string | Spawn 'w

text \<open>The deferred clean-ups are a stack.\<close>

record 'w process =
  pr_workers :: "'w list"
  pr_deferred :: "string list"

definition no_process :: "'w process" where
  "no_process = \<lparr>pr_workers = [], pr_deferred = []\<rparr>"

primrec run_boot :: "(string \<Rightarrow> bool) \<Rightarrow> 'w boot list \<Rightarrow> 'w process \<Rightarrow> (string \<times> 'w process) + 'w process" where
  "run_boot ok [] p = Inr p"
| "run_boot ok (b # bs) p =
     (case b of
        Attempt a \<Rightarrow> if ok a then run_boot ok bs p else Inl (a, p)
      | Refuse bad a \<Rightarrow> if bad then Inl (a, p) else run_boot ok bs p
      | Deferred r \<Rightarrow> run_boot ok bs (p\<lparr>pr_deferred := r # pr_deferred p\<rparr>)
      | Spawn w \<Rightarrow> run_boot ok bs (p\<lparr>pr_workers := pr_workers p @ [w]\<rparr>))"

text \<open>What runs when the start is over, or when it ended in the middle.\<close>

definition process_of :: "(string \<times> 'w process) + 'w process \<Rightarrow> 'w process" where
  "process_of r = (case r of Inl (a, p) \<Rightarrow> p | Inr p \<Rightarrow> p)"

section \<open>Venue-service\<close>

text \<open>Intervals are seconds.\<close>

datatype venue_worker =
    SseHeartbeat | HoldSweeper int | ReservationSweeper int | RedisReconciler int | VenueOrders
  | VenueGrpc int | VenueHttp int

text \<open>\<open>production\<close>: the environment is production.\<close>

definition venue_connect :: "bool \<Rightarrow> venue_config \<Rightarrow> venue_worker boot list" where
  "venue_connect production c =
     [Attempt ''logger'', Deferred ''log'', Refuse (production \<and> length (vc_key c) < 32) ''X_USER_ID_SIGNING_KEY'',
      Deferred ''tracing'', Attempt ''migrations'', Attempt ''pgxpool.ParseConfig'', Attempt ''pgxpool.New'',
      Deferred ''pool'', Attempt ''postgres ping''] @
     (if vc_redis c \<noteq> [] then
        [Attempt ''redis.ParseURL'', Deferred ''redis'', Attempt ''redis ping'', Attempt ''redis checker'', Deferred ''redis checker'']
      else []) @
     [Attempt ''kafka producer'', Deferred ''producer'']"

definition venue_workers :: "venue_config \<Rightarrow> venue_worker boot list" where
  "venue_workers c =
     [Deferred ''heartbeat'', Spawn SseHeartbeat, Deferred ''sweeper'', Spawn (HoldSweeper 30),
      Deferred ''reservation sweeper'', Spawn (ReservationSweeper 300)] @
     (if vc_redis c \<noteq> [] then [Deferred ''reconciler'', Spawn (RedisReconciler 300)] else []) @
     [Attempt ''kafka consumer'', Deferred ''consumer'', Spawn VenueOrders, Attempt ''ticket-service client'',
      Deferred ''ticket-service client'', Deferred ''grpc'']"

definition venue_boot :: "bool \<Rightarrow> venue_config \<Rightarrow> venue_worker boot list" where
  "venue_boot production c = venue_connect production c @ venue_workers c @
     [Spawn (VenueGrpc (vc_grpc c)), Spawn (VenueHttp (vc_port c))]"

text \<open>The whole start, from the environment on.\<close>

definition venue_main :: "(string \<Rightarrow> bool) \<Rightarrow> env \<Rightarrow> (string \<times> venue_worker process) + venue_worker process" where
  "venue_main ok env =
     (case load_venue env of
        Inl errs \<Rightarrow> Inl (''invalid configuration'', no_process)
      | Inr c \<Rightarrow> run_boot ok (venue_boot (getEnv env ''APP_ENV'' ''development'' = ''production'') c) no_process)"

text \<open>
  After a signal, or when a server failed: what is stopped in which order, then the deferred clean-ups.
  Cancelling does not wait for the worker; the last two wait, for requests and for the servers.
\<close>

definition venue_stop :: "venue_config \<Rightarrow> venue_worker process \<Rightarrow> string list" where
  "venue_stop c p =
     [''drain'', ''grpc'', ''consumer'', ''sweeper''] @ (if vc_redis c \<noteq> [] then [''reconciler''] else []) @
     [''heartbeat'', ''http shutdown'', ''wait'', ''shutdown timeout''] @ pr_deferred p"

text \<open>
  What the components are built with. The lifetime of a hold is a duration of 64 bits in nanoseconds;
  it is kept in milliseconds, rounded up.
\<close>

definition hold_lifetime :: "int \<Rightarrow> int" where
  "hold_lifetime secs = (sint (word_of_int secs * 1000000000 :: 64 word) + 999999) div 1000000"

definition WithBroadcaster :: "hold_config \<Rightarrow> hold_config" where
  "WithBroadcaster h = h\<lparr>hc_broadcaster := True\<rparr>"

definition WithSeatLimit :: "(seating_plan \<Rightarrow> int option) \<Rightarrow> hold_config \<Rightarrow> hold_config" where
  "WithSeatLimit f h = h\<lparr>hc_limit := Some f\<rparr>"

text \<open>\<open>limit\<close>: the cached limit that ticket-service answers.\<close>

definition venue_holds :: "(seating_plan \<Rightarrow> int option) \<Rightarrow> venue_config \<Rightarrow> hold_config" where
  "venue_holds limit c =
     (let h = WithBroadcaster (NewManager (vc_redis c \<noteq> []) (hold_lifetime (vc_hold_ttl c)))
      in if vc_enforced c then WithSeatLimit limit h else h)"

text \<open>The checker of a Redis that is not configured is a nil pointer in an interface.\<close>

definition redis_checker :: "string \<Rightarrow> bool \<Rightarrow> checker" where
  "redis_checker url up = (if url \<noteq> [] then Pings up else NilPointer)"

definition venue_probe :: "venue_config \<Rightarrow> bool \<Rightarrow> bool \<Rightarrow> bool \<Rightarrow> nat \<times> string" where
  "venue_probe c db redis kafka = venue_ready (Pings db) (redis_checker (vc_redis c) redis) (Pings kafka)"

section \<open>Ticket-service\<close>

datatype ticket_worker =
    QuotaReconciler int | TicketOrders | TicketRelay | SearchIndexer | TicketGrpc int | TicketHttp int

definition ticket_connect :: "bool \<Rightarrow> string \<Rightarrow> ticket_config \<Rightarrow> ticket_worker boot list" where
  "ticket_connect production key c =
     [Attempt ''logger'', Deferred ''log'', Refuse (production \<and> length key < 32) ''X_USER_ID_SIGNING_KEY'', Deferred ''tracing'',
      Attempt ''mongo client'', Deferred ''mongo client'', Attempt ''ticket repository'', Deferred ''ticket repository'',
      Attempt ''saved-event repository''] @
     (if tcf_redis c \<noteq> [] then
        [Attempt ''redis.ParseURL'', Deferred ''redis'', Attempt ''redis checker'', Deferred ''redis checker'',
         Deferred ''reconciler'', Spawn (QuotaReconciler 300)]
      else []) @
     [Attempt ''kafka producer'', Deferred ''producer'', Attempt ''kafka consumer'', Deferred ''consumer'', Spawn TicketOrders,
      Deferred ''relay'', Spawn TicketRelay]"

definition ticket_serve :: "ticket_config \<Rightarrow> ticket_worker boot list" where
  "ticket_serve c =
     (let search = tcf_backend c = ''opensearch'' in
      (if search then [Attempt ''search client'', Deferred ''ensure index timeout'', Attempt ''ensure search index''] else []) @
      [Attempt ''venue-service client'', Deferred ''venue-service client''] @
      (if search then [Attempt ''search indexer'', Deferred ''indexer'', Spawn SearchIndexer] else []) @
      [Deferred ''grpc''])"

definition ticket_boot :: "bool \<Rightarrow> string \<Rightarrow> ticket_config \<Rightarrow> ticket_worker boot list" where
  "ticket_boot production key c = ticket_connect production key c @ ticket_serve c @
     [Spawn (TicketGrpc (tcf_grpc c)), Spawn (TicketHttp (tcf_port c))]"

definition ticket_main ::
  "(string \<Rightarrow> bool) \<Rightarrow> (string \<Rightarrow> bool) \<Rightarrow> env \<Rightarrow> (string \<times> ticket_worker process) + ticket_worker process" where
  "ticket_main request_uri ok env =
     (case load_ticket request_uri env of
        Inl errs \<Rightarrow> Inl (''invalid configuration'', no_process)
      | Inr c \<Rightarrow> run_boot ok (ticket_boot (getEnv env ''APP_ENV'' ''development'' = ''production'')
          (env ''X_USER_ID_SIGNING_KEY'') c) no_process)"

definition ticket_stop :: "ticket_worker process \<Rightarrow> string list" where
  "ticket_stop p = [''grpc'', ''relay'', ''consumer'', ''http shutdown'', ''wait'', ''shutdown timeout''] @ pr_deferred p"

text \<open>The repository has a quota manager exactly when Redis is configured.\<close>

definition ticket_quota_manager :: "ticket_config \<Rightarrow> bool" where
  "ticket_quota_manager c \<longleftrightarrow> tcf_redis c \<noteq> []"

definition ticket_probe :: "ticket_config \<Rightarrow> bool \<Rightarrow> bool \<Rightarrow> bool \<Rightarrow> nat \<times> string" where
  "ticket_probe c mongo redis kafka = ticket_ready mongo (redis_checker (tcf_redis c) redis) (Pings kafka)"

section \<open>Attendance-service and expiration-service\<close>

text \<open>The relay polls every 2 seconds in batches of 100, the purge runs every 10 minutes and keeps a day.\<close>

datatype attendance_worker = CompletedOrders | AttendanceRelay int int | AttendancePurge int int | AttendanceHttp int

definition attendance_boot :: "attendance_config \<Rightarrow> attendance_worker boot list" where
  "attendance_boot c =
     [Attempt ''logger'', Deferred ''log'', Deferred ''tracing'', Attempt ''migrations'', Attempt ''pgxpool.ParseConfig'',
      Attempt ''pgxpool.New'', Deferred ''pool'', Attempt ''postgres ping'', Attempt ''kafka producer'', Deferred ''producer'',
      Attempt ''ticket-service dial'', Deferred ''ticket-service client'', Attempt ''kafka consumer'', Deferred ''consumer'',
      Spawn CompletedOrders, Spawn (AttendanceRelay 2 100), Spawn (AttendancePurge 600 86400),
      Spawn (AttendanceHttp (ac_port c))]"

definition attendance_stop :: "attendance_worker process \<Rightarrow> string list" where
  "attendance_stop p = ''http shutdown'' # ''shutdown timeout'' # pr_deferred p"

definition attendance_probe :: "bool \<Rightarrow> bool \<Rightarrow> nat \<times> string" where
  "attendance_probe db kafka = attendance_ready (Pings db) (Pings kafka)"

datatype expiration_worker = TaskWorker | CreatedOrders | ExpirationHttp int

definition expiration_boot :: "expiration_config \<Rightarrow> expiration_worker boot list" where
  "expiration_boot c =
     [Attempt ''logger'', Deferred ''log'', Deferred ''tracing'', Attempt ''kafka producer'', Deferred ''producer'',
      Deferred ''scheduler'', Attempt ''kafka consumer'', Deferred ''consumer'', Deferred ''redis checker'',
      Spawn TaskWorker, Spawn CreatedOrders, Spawn (ExpirationHttp (xc_port c))]"

definition expiration_stop :: "expiration_worker process \<Rightarrow> string list" where
  "expiration_stop p = [''consumer context'', ''task worker'', ''http shutdown'', ''shutdown timeout''] @ pr_deferred p"

definition expiration_probe :: "bool \<Rightarrow> bool \<Rightarrow> nat \<times> string" where
  "expiration_probe redis kafka = expiration_ready (Pings redis) (Pings kafka)"

section \<open>Connection checks, migrations and tracing\<close>

fun join_brokers :: "string list \<Rightarrow> string" where
  "join_brokers [] = []"
| "join_brokers [b] = b"
| "join_brokers (b # bs) = b @ '','' @ join_brokers bs"

text \<open>Expiration-service joins the brokers in a loop over their indices.\<close>

definition loop_brokers :: "string list \<Rightarrow> string" where
  "loop_brokers bs = snd (foldl (\<lambda>(i, r) b. (i + 1, (if 0 < i then r @ '','' else r) @ b)) (0 :: nat, []) bs)"

text \<open>The settings a checker is built with: those that are passed, or plain text.\<close>

definition checker_security :: "kafka_settings option \<Rightarrow> kafka_settings" where
  "checker_security s = (case s of
     Some k \<Rightarrow> k
   | None \<Rightarrow> \<lparr>ks_brokers = [], ks_protocol = ''PLAINTEXT'', ks_mechanism = [], ks_username = [], ks_password = [], ks_ca = []\<rparr>)"

datatype ping_error = PingConfig | PingClient | PingMetadata

text \<open>\<open>blank\<close> is the client configuration without keys, \<open>admin\<close> opens a client, \<open>metadata\<close> asks it.\<close>

definition kafka_ping ::
  "'m \<Rightarrow> ('m \<Rightarrow> string \<Rightarrow> string \<Rightarrow> 'm option) \<Rightarrow> ('m \<Rightarrow> 'a option) \<Rightarrow> ('a \<Rightarrow> bool) \<Rightarrow> string \<Rightarrow> kafka_settings \<Rightarrow> ping_error + unit" where
  "kafka_ping blank put admin metadata brokers security =
     (case set_keys put [(''bootstrap.servers'', brokers), (''socket.timeout.ms'', ''1000''), (''request.timeout.ms'', ''1000''),
          (''metadata.request.timeout.ms'', ''1000'')] blank of
        None \<Rightarrow> Inl PingConfig
      | Some m \<Rightarrow>
          (case Apply put security m of
             None \<Rightarrow> Inl PingConfig
           | Some m' \<Rightarrow> (case admin m' of
               None \<Rightarrow> Inl PingClient
             | Some a \<Rightarrow> if metadata a then Inr () else Inl PingMetadata)))"

text \<open>Running the migrations: nothing to do counts as done, and the version is only logged.\<close>

datatype migration_outcome = Applied | NoChange | MigrationFailed

datatype migration_error = MigrationSource | MigrationClient | MigrationUp

definition migrate_Run :: "bool \<Rightarrow> bool \<Rightarrow> migration_outcome \<Rightarrow> migration_error + unit" where
  "migrate_Run source client up =
     (if \<not> source then Inl MigrationSource
      else if \<not> client then Inl MigrationClient
      else case up of Applied \<Rightarrow> Inr () | NoChange \<Rightarrow> Inr () | MigrationFailed \<Rightarrow> Inl MigrationUp)"

definition normalizeCollectorEndpoint :: "(string \<Rightarrow> string option) \<Rightarrow> string \<Rightarrow> string" where
  "normalizeCollectorEndpoint url_host raw =
     (if raw = [] then []
      else if has_scheme raw then
        (case url_host raw of None \<Rightarrow> raw | Some h \<Rightarrow> if h \<noteq> [] then h else raw)
      else raw)"

text \<open>The endpoint spans are exported to, if there is one; a failure to connect turns tracing off.\<close>

definition init_tracing :: "(string \<Rightarrow> string option) \<Rightarrow> (string \<Rightarrow> bool) \<Rightarrow> string \<Rightarrow> string option" where
  "init_tracing url_host exporter endpoint =
     (let url = normalizeCollectorEndpoint url_host endpoint in
      if url \<noteq> [] \<and> exporter url then Some url else None)"

section \<open>The gRPC servers\<close>

text \<open>
  The interceptors, first logging and then recovery: a request whose deadline is over is refused before
  its handler; a handler that panics (\<open>None\<close>) is answered with an internal error.
\<close>

definition unary_chain :: "bool \<Rightarrow> ('s \<Rightarrow> (grpc_status + 'r) option \<times> 's) \<Rightarrow> 's \<Rightarrow> (grpc_status + 'r) \<times> 's" where
  "unary_chain expired handler s =
     (if expired then (Inl (CodeDeadlineExceeded, ''deadline exceeded before handler started''), s)
      else case handler s of
             (None, s') \<Rightarrow> (Inl (CodeInternal, ''internal server error''), s')
           | (Some r, s') \<Rightarrow> (r, s'))"

datatype serve_event = ContextDone | ServeFails

datatype serve_end = ListenFailed | GracefulStop | ServeError

definition grpc_Start :: "bool \<Rightarrow> serve_event \<Rightarrow> serve_end" where
  "grpc_Start listens e =
     (if \<not> listens then ListenFailed else case e of ContextDone \<Rightarrow> GracefulStop | ServeFails \<Rightarrow> ServeError)"

section \<open>Routes\<close>

datatype http_method = GET | POST | PUT | PATCH | DELETE

text \<open>A route has its method, the segments of its path, its handler, and whether its group needs a user header.\<close>

record route =
  rt_method :: http_method
  rt_path :: "string list"
  rt_handler :: string
  rt_auth :: bool

definition on :: "bool \<Rightarrow> string list \<Rightarrow> (http_method \<times> string list \<times> string) list \<Rightarrow> route list" where
  "on auth prefix rs = map (\<lambda>(m, path, h). \<lparr>rt_method = m, rt_path = prefix @ path, rt_handler = h, rt_auth = auth\<rparr>) rs"

definition health_routes :: "route list" where
  "health_routes = on False []
     [(GET, [''metrics''], ''Metrics''), (GET, [''healthz'', ''live''], ''Live''), (GET, [''healthz'', ''ready''], ''Ready'')]"

definition plan_routes :: "route list" where
  "plan_routes = on False [''api'', ''seating-plans'']
     [(GET, [], ''List''), (POST, [], ''Create''), (GET, ['':id''], ''Get''), (PUT, ['':id''], ''Update''),
      (PATCH, ['':id'', ''layout''], ''SaveLayout''), (POST, ['':id'', ''activate''], ''Activate''),
      (POST, ['':id'', ''deactivate''], ''Deactivate'')]"

definition section_routes :: "route list" where
  "section_routes = on False [''api'', ''seating-plans'', '':planId'']
     [(POST, [''sections''], ''CreateSection''), (GET, [''sections''], ''ListSections''),
      (POST, [''price-tiers''], ''CreatePriceTier''), (GET, [''price-tiers''], ''ListPriceTiers'')]"

definition hold_routes :: "route list" where
  "hold_routes = on False [''api'', ''seating-plans'', '':planId'']
     [(POST, [''seats'', ''hold''], ''HoldSeats''), (POST, [''seats'', ''release''], ''ReleaseHold''),
      (GET, [''availability''], ''GetAvailability'')]"

definition stream_routes :: "route list" where
  "stream_routes = on False [''api'', ''seating-plans'', '':planId''] [(GET, [''events''], ''Stream'')]"

definition place_routes :: "route list" where
  "place_routes = on False [''api'', ''venues'']
     [(POST, [], ''Create''), (GET, [], ''List''), (GET, ['':id''], ''Get''), (PUT, ['':id''], ''Update'')]"

definition venue_section_routes :: "route list" where
  "venue_section_routes = on False [''api'', ''venues'', '':venueId'']
     [(GET, [''sections''], ''List''), (POST, [''sections''], ''Create''), (DELETE, [''sections'', '':sectionId''], ''Delete'')]"

definition venue_routes :: "route list" where
  "venue_routes = health_routes @ place_routes @ venue_section_routes @ plan_routes @ section_routes @ hold_routes @
     stream_routes @ on False [] [(POST, [''graphql''], ''GraphQL'')]"

definition ticket_routes :: "route list" where
  "ticket_routes = health_routes @ on False [''api'', ''tickets'']
     [(POST, [], ''Create''), (GET, [], ''List''), (GET, ['':id''], ''GetByID''), (PUT, ['':id''], ''Update'')] @
     on False [] [(POST, [''graphql''], ''GraphQL'')]"

definition attendance_routes :: "route list" where
  "attendance_routes = health_routes @
     on False [] [(POST, [''graphql''], ''GraphQL''), (GET, [''graphql''], ''GraphQL'')] @
     on True [''api'', ''attendance'']
       [(GET, [''tickets'', '':ticketId''], ''GetTicket''), (GET, [''events'', '':eventId'', ''settings''], ''GetEventSettings''),
        (PATCH, [''events'', '':eventId'', ''settings''], ''PatchEventSettings''),
        (GET, [''events'', '':eventId'', ''summary''], ''GetEventSummary''),
        (GET, [''events'', '':eventId'', ''checkins''], ''GetEventCheckIns'')] @
     on True [''api'', ''attendance'', ''scan'']
       [(POST, [''validate''], ''ValidateToken''), (POST, [''check-in''], ''CheckIn''),
        (POST, [''check-in-user''], ''CheckInByBuyer'')]"

text \<open>What a route of attendance-service does with the user header of a request; \<open>answer\<close> is its handler.\<close>

definition serve_route :: "route \<Rightarrow> (string option \<Rightarrow> 'a) \<Rightarrow> string \<Rightarrow> (nat \<times> string) + 'a" where
  "serve_route r answer user = (if rt_auth r then KongAuth True answer user else Inr (answer None))"

section \<open>Facts about a start\<close>

lemma run_boot_append: "run_boot ok (bs @ cs) p = (case run_boot ok bs p of Inl e \<Rightarrow> Inl e | Inr q \<Rightarrow> run_boot ok cs q)"
proof (induction bs arbitrary: p)
  case (Cons b bs)
  then show ?case by (cases b) auto
qed simp

text \<open>A start that is over made every call with success and no setting was refused.\<close>

lemma run_boot_done:
  "run_boot ok bs p = Inr q \<Longrightarrow> b \<in> set bs \<Longrightarrow> case b of Attempt a \<Rightarrow> ok a | Refuse bad a \<Rightarrow> \<not> bad | _ \<Rightarrow> True"
proof (induction bs arbitrary: p)
  case (Cons c cs)
  then show ?case by (cases c) (auto split: if_splits)
qed simp

text \<open>If anything ever ran, all that stands before the first worker had succeeded.\<close>

definition no_workers :: "'w boot list \<Rightarrow> bool" where
  "no_workers bs \<longleftrightarrow> (\<forall>w. Spawn w \<notin> set bs)"

lemma run_boot_quiet:
  "no_workers bs \<Longrightarrow> pr_workers (process_of (run_boot ok bs p)) = pr_workers p"
proof (induction bs arbitrary: p)
  case (Cons b bs)
  then have "no_workers bs" by (simp add: no_workers_def)
  then show ?case using Cons by (cases b) (auto simp: no_workers_def process_of_def)
qed (simp add: process_of_def)

lemma workers_come_last:
  assumes "no_workers bs" "pr_workers (process_of (run_boot ok (bs @ cs) no_process)) \<noteq> []" "Attempt a \<in> set bs"
  shows "ok a"
proof (cases "run_boot ok bs no_process")
  case (Inl e)
  then show ?thesis using assms(2) run_boot_quiet [OF assms(1), of ok no_process]
    by (simp add: run_boot_append no_process_def)
next
  case (Inr q)
  then show ?thesis using run_boot_done [OF Inr assms(3)] by simp
qed

lemmas boot_simps = venue_boot_def venue_connect_def venue_workers_def ticket_boot_def ticket_connect_def ticket_serve_def
  attendance_boot_def expiration_boot_def no_workers_def

text \<open>Venue-service serves nothing and sweeps nothing before its tables are migrated and its stores answer.\<close>

lemma venue_waits_for_stores:
  assumes "pr_workers (process_of (run_boot ok (venue_boot production c) no_process)) \<noteq> []"
  shows "ok ''migrations'' \<and> ok ''postgres ping'' \<and> ok ''kafka producer'' \<and> (vc_redis c \<noteq> [] \<longrightarrow> ok ''redis ping'')"
  using workers_come_last [OF _ assms [unfolded venue_boot_def]] by (auto simp: boot_simps)

lemma attendance_waits_for_stores:
  assumes "pr_workers (process_of (run_boot ok (attendance_boot c) no_process)) \<noteq> []"
  shows "ok ''migrations'' \<and> ok ''postgres ping'' \<and> ok ''ticket-service dial'' \<and> ok ''kafka consumer''"
proof -
  define bs :: "attendance_worker boot list" where "bs = take 14 (attendance_boot c)"
  define cs where "cs = drop 14 (attendance_boot c)"
  have "attendance_boot c = bs @ cs" by (simp add: bs_def cs_def)
  then have run: "pr_workers (process_of (run_boot ok (bs @ cs) no_process)) \<noteq> []" using assms by simp
  have "no_workers bs" by (simp add: bs_def boot_simps)
  then show ?thesis using workers_come_last [OF _ run] by (auto simp: bs_def boot_simps)
qed

text \<open>
  Ticket-service is less careful: with Redis configured, the quota reconciler runs before the Redis
  server was ever asked for, and a broker that is down ends the process under it.
\<close>

lemma ticket_exits_under_a_worker:
  assumes "tcf_redis c \<noteq> []"
  shows "run_boot (\<lambda>a. a \<noteq> ''kafka producer'') (ticket_boot False key c) no_process =
    Inl (''kafka producer'', \<lparr>pr_workers = [QuotaReconciler 300], pr_deferred =
      [''reconciler'', ''redis checker'', ''redis'', ''ticket repository'', ''mongo client'', ''tracing'', ''log'']\<rparr>)"
  by (simp add: boot_simps no_process_def assms)

text \<open>A stop drains the streams first, and closes the pool only after every worker was told to end.\<close>

lemma venue_stop_order:
  assumes "run_boot ok (venue_boot production c) no_process = Inr p"
  shows "venue_stop c p = [''drain'', ''grpc'', ''consumer'', ''sweeper''] @ (if vc_redis c \<noteq> [] then [''reconciler''] else []) @
    [''heartbeat'', ''http shutdown'', ''wait'', ''shutdown timeout'', ''grpc'', ''ticket-service client'', ''consumer''] @
    (if vc_redis c \<noteq> [] then [''reconciler''] else []) @ [''reservation sweeper'', ''sweeper'', ''heartbeat'', ''producer''] @
    (if vc_redis c \<noteq> [] then [''redis checker'', ''redis''] else []) @ [''pool'', ''tracing'', ''log'']"
  using assms by (auto simp: venue_stop_def boot_simps no_process_def split: if_splits)

section \<open>Facts about the wiring\<close>

text \<open>A hold always has a positive lifetime, also when the setting overflows a duration.\<close>

lemma hold_lifetime_positive: "0 < hc_ttl (venue_holds limit c)"
  by (simp add: venue_holds_def WithBroadcaster_def WithSeatLimit_def NewManager_def Let_def)

lemma hold_lifetime_small: "0 < n \<Longrightarrow> n \<le> 9000000000 \<Longrightarrow> hold_lifetime n = n * 1000"
proof -
  assume n: "0 < n" "n \<le> 9000000000"
  then have "signed_take_bit 63 (n * 1000000000) = n * 1000000000" by (intro signed_take_bit_int_eq_self) simp_all
  moreover have "(word_of_int n * 1000000000 :: 64 word) = word_of_int (n * 1000000000)" by simp
  ultimately have "sint (word_of_int n * 1000000000 :: 64 word) = n * 1000000000" by (simp only: sint_sbintrunc') simp
  then show ?thesis by (simp add: hold_lifetime_def)
qed

text \<open>Without Redis a change reaches the streams of the process it happened in.\<close>

lemma changes_without_redis:
  assumes "vc_redis c = []"
  shows "\<exists>v. hw_broadcast (publishChange (venue_holds limit c) rf planID event ids w) =
    hw_broadcast w @ [(planID, event, ids, v)]"
  by (auto simp: publishChange_def nextVersion_def venue_holds_def WithBroadcaster_def WithSeatLimit_def NewManager_def Let_def
      assms split: prod.split)

lemma brokers_agree: "loop_brokers bs = join_brokers bs"
proof -
  have step: "snd (foldl (\<lambda>(i, r) b. (i + 1, (if 0 < i then r @ '','' else r) @ b)) (i, r) cs) =
      r @ (if cs = [] then [] else '','' @ join_brokers cs)" if "0 < i" for i :: nat and r cs
    using that
  proof (induction cs arbitrary: i r)
    case (Cons b cs)
    then show ?case using Cons.IH [of "Suc i" "r @ '','' @ b"] by (cases cs) simp_all
  qed simp
  show ?thesis
  proof (cases bs)
    case (Cons b cs)
    then show ?thesis using step [of 1 b cs] by (cases cs) (simp_all add: loop_brokers_def)
  qed (simp add: loop_brokers_def)
qed

text \<open>The endpoint that the configuration accepts is never lost.\<close>

lemma endpoint_kept: "validateOTELEndpoint url_host e \<Longrightarrow> normalizeCollectorEndpoint url_host e \<noteq> []"
  by (auto simp: normalizeCollectorEndpoint_def validateOTELEndpoint_def Let_def split: if_splits option.splits)

text \<open>The checker of a service that started uses settings that its client accepts.\<close>

lemma started_checker_applies:
  assumes "load_kafka up env = (k, [])" "\<And>m key v. put m key v \<noteq> None"
  shows "kafka_ping blank put admin metadata brokers (checker_security (Some k)) \<noteq> Inl PingConfig"
proof -
  obtain m where "set_keys put [(''bootstrap.servers'', brokers), (''socket.timeout.ms'', ''1000''), (''request.timeout.ms'', ''1000''),
          (''metadata.request.timeout.ms'', ''1000'')] blank = Some m"
    using set_keys_total [of put, OF assms(2)] by blast
  moreover obtain m' where "Apply put k m = Some m'" using accepted_settings_apply [of up env k put m, OF assms] by blast
  ultimately show ?thesis by (simp add: kafka_ping_def checker_security_def split: option.split)
qed

text \<open>A panic never leaves a server, and a handler whose caller has given up does not run.\<close>

lemma expired_request_changes_nothing: "snd (unary_chain True handler s) = s"
  by (simp add: unary_chain_def)

lemma panic_is_internal: "handler s = (None, s') \<Longrightarrow> unary_chain False handler s = (Inl (CodeInternal, ''internal server error''), s')"
  by (simp add: unary_chain_def)

text \<open>No two routes of a service match the same request: they differ in method or fixed segments.\<close>

definition route_shape :: "route \<Rightarrow> http_method \<times> string list" where
  "route_shape r = (rt_method r, map (\<lambda>seg. if seg \<noteq> [] \<and> hd seg = CHR '':'' then '':'' else seg) (rt_path r))"

lemma routes_distinct:
  "distinct (map route_shape venue_routes)" "distinct (map route_shape ticket_routes)"
  "distinct (map route_shape attendance_routes)"
  by code_simp+

text \<open>Every route of attendance-service under \<^verbatim>\<open>/api\<close> refuses a request without a user header.\<close>

lemma attendance_routes_need_user:
  "r \<in> set attendance_routes \<Longrightarrow> rt_path r \<noteq> [] \<Longrightarrow> hd (rt_path r) = ''api'' \<Longrightarrow> serve_route r answer [] = Inl (401, ''unauthorized'')"
  by (auto simp: attendance_routes_def health_routes_def on_def serve_route_def KongAuth_def)

section \<open>Readiness without Redis\<close>

lemma venue_probe_ready: "fst (venue_probe c db redis kafka) = 200 \<longleftrightarrow> vc_redis c \<noteq> [] \<and> db \<and> redis \<and> kafka"
  by (auto simp: venue_probe_def venue_ready_def redis_checker_def probe_ready)

lemma ticket_probe_ready: "fst (ticket_probe c mongo redis kafka) = 200 \<longleftrightarrow> tcf_redis c \<noteq> [] \<and> mongo \<and> redis \<and> kafka"
  by (auto simp: ticket_probe_def ticket_ready_def redis_checker_def probe_ready)

text \<open>
  C15: Redis is optional in the configuration of venue-service and ticket-service, and both start and
  serve without it; but neither is ever ready: main hands the readiness handler a nil pointer in an
  interface, which is not nil, and the ping on it panics, however well all dependencies are.
\<close>

theorem redis_is_not_optional:
  assumes "vc_redis c = []" "tcf_redis t = []"
  shows "(\<exists>p. run_boot (\<lambda>a. True) (venue_boot False c) no_process = Inr p \<and> VenueHttp (vc_port c) \<in> set (pr_workers p)) \<and>
    (\<exists>p. run_boot (\<lambda>a. True) (ticket_boot False key t) no_process = Inr p \<and> TicketHttp (tcf_port t) \<in> set (pr_workers p)) \<and>
    fst (venue_probe c db redis kafka) \<noteq> 200 \<and> fst (ticket_probe t mongo redis kafka) \<noteq> 200 \<and>
    venue_probe c True redis kafka = (500, ''Internal Server Error'') \<and>
    ticket_probe t True redis kafka = (500, ''Internal Server Error'')"
proof -
  have "venue_probe c True redis kafka = (500, ''Internal Server Error'') \<and>
      ticket_probe t True redis kafka = (500, ''Internal Server Error'')"
    by (simp add: venue_probe_def venue_ready_def ticket_probe_def ticket_ready_def redis_checker_def assms)
  moreover have "\<exists>p. run_boot (\<lambda>a. True) (venue_boot False c) no_process = Inr p \<and> VenueHttp (vc_port c) \<in> set (pr_workers p)"
    by (simp add: boot_simps assms)
  moreover have "\<exists>p. run_boot (\<lambda>a. True) (ticket_boot False key t) no_process = Inr p \<and> TicketHttp (tcf_port t) \<in> set (pr_workers p)"
    by (simp add: boot_simps assms Let_def)
  ultimately show ?thesis by (simp add: venue_probe_ready ticket_probe_ready assms)
qed

definition plain_kafka :: kafka_settings where
  "plain_kafka = \<lparr>ks_brokers = [''kafka:9092''], ks_protocol = ''PLAINTEXT'', ks_mechanism = [], ks_username = [],
     ks_password = [], ks_ca = []\<rparr>"

definition plain_venue :: venue_config where
  "plain_venue = \<lparr>vc_port = 3003, vc_grpc = 50052, vc_pool = 10, vc_database = ''postgres://db'', vc_kafka = plain_kafka,
     vc_redis = [], vc_ticket = ''ticket-service:9090'', vc_hold_ttl = 600, vc_key = [], vc_enforced = False\<rparr>"

definition plain_ticket :: ticket_config where
  "plain_ticket = \<lparr>tcf_port = 3001, tcf_grpc = 9090, tcf_mongo = ''mongodb://db'', tcf_db = ''tickets'', tcf_pool = 50,
     tcf_kafka = plain_kafka, tcf_redis = [], tcf_venue = ''localhost:9091'', tcf_backend = ''mongo'', tcf_search_url = [],
     tcf_index = ''tickets''\<rparr>"

lemma redis_is_not_optional_witness:
  "venue_probe plain_venue True True True = (500, ''Internal Server Error'') \<and>
   ticket_probe plain_ticket True True True = (500, ''Internal Server Error'') \<and>
   venue_probe (plain_venue\<lparr>vc_redis := ''redis://r''\<rparr>) True True True = (200, ''ok'')"
  using redis_is_not_optional [of plain_venue plain_ticket "[]" True True True True]
  by (simp add: plain_venue_def plain_ticket_def venue_probe_def venue_ready_def redis_checker_def)

end
