(* ===== verification/Ticket_Setup.thy ===== *)
theory Ticket_Setup
  imports Service_Startup Ticket_Search
begin

text \<open>
  What ticket-service does with MongoDB before it serves: the client
  (\<^verbatim>\<open>internal/repository/mongo_client.go\<close>), the schemas and indexes of the collections, and the
  constructors and \<^verbatim>\<open>Close\<close> of the repositories (\<^verbatim>\<open>mongo_ticket_repository.go\<close>,
  \<^verbatim>\<open>mongo_saved_event_repository.go\<close>); the command that rebuilds the search index
  (\<^verbatim>\<open>cmd/reindex/main.go\<close>); and how its Kafka producer sends an event (\<^verbatim>\<open>internal/kafka/producer.go\<close>).
  A command to the database works, fails, or works and loses its answer; times are milliseconds.
\<close>

section \<open>The client\<close>

record mongo_options =
  mo_uri :: string
  mo_pool :: nat
  mo_majority :: bool
  mo_primary :: bool

text \<open>\<open>of_uri\<close>: what the URI asks for, as write concern majority and read preference primary.\<close>

definition MongoClientOptions :: "(string \<Rightarrow> bool \<times> bool) \<Rightarrow> string \<Rightarrow> nat \<Rightarrow> mongo_options" where
  "MongoClientOptions of_uri uri maxPoolSize =
     (let o1 = \<lparr>mo_uri = uri, mo_pool = 100, mo_majority = fst (of_uri uri), mo_primary = snd (of_uri uri)\<rparr> in
      o1\<lparr>mo_pool := maxPoolSize, mo_majority := True, mo_primary := True\<rparr>)"

definition DefaultMongoMaxPoolSize :: nat where "DefaultMongoMaxPoolSize = 50"

text \<open>An error, with what the code puts before it.\<close>

datatype mongo_error = CommandError int | ServerError string

type_synonym setup_error = "string list \<times> mongo_error"

definition NewMongoClient ::
  "(string \<Rightarrow> bool \<times> bool) \<Rightarrow> mongo_error option \<Rightarrow> mongo_error option \<Rightarrow> string \<Rightarrow> nat \<Rightarrow> setup_error + mongo_options" where
  "NewMongoClient of_uri connect ping uri maxPoolSize =
     (case connect of
        Some e \<Rightarrow> Inl ([''mongo connect''], e)
      | None \<Rightarrow> (case ping of
          Some e \<Rightarrow> Inl ([''mongo ping''], e)
        | None \<Rightarrow> Inr (MongoClientOptions of_uri uri maxPoolSize)))"

section \<open>Collections and indexes\<close>

datatype validator = TicketSchema | ReservationSchema

record mongo_index =
  mi_name :: string
  mi_keys :: "string list"
  mi_sparse :: bool
  mi_unique :: bool

text \<open>The collections that exist, each with its validator, and the indexes by collection.\<close>

record mongo_setup =
  ms_schemas :: "string \<rightharpoonup> validator option"
  ms_indexes :: "(string \<times> mongo_index) list"

datatype mongo_fault = Works | Fails mongo_error | AnswerLost mongo_error

definition mongo_command ::
  "mongo_fault \<Rightarrow> ('d \<Rightarrow> mongo_error option \<times> 'd) \<Rightarrow> 'd \<Rightarrow> mongo_error option \<times> 'd" where
  "mongo_command f g d =
     (case f of
        Works \<Rightarrow> g d
      | Fails e \<Rightarrow> (Some e, d)
      | AnswerLost e \<Rightarrow> (Some e, snd (g d)))"

text \<open>
  The documented answers of the server: creating a collection that exists is an error with code 48
  (newer servers accept it when nothing differs: \<open>same_ok\<close>), and \<^verbatim>\<open>collMod\<close> sets the validator
  of a collection that exists (code 26 otherwise).
\<close>

definition create_collection ::
  "bool \<Rightarrow> string \<Rightarrow> validator \<Rightarrow> mongo_setup \<Rightarrow> mongo_error option \<times> mongo_setup" where
  "create_collection same_ok name v d =
     (case ms_schemas d name of
        None \<Rightarrow> (None, d\<lparr>ms_schemas := (ms_schemas d)(name \<mapsto> Some v)\<rparr>)
      | Some old \<Rightarrow> (if same_ok \<and> old = Some v then None else Some (CommandError 48), d))"

definition coll_mod :: "string \<Rightarrow> validator \<Rightarrow> mongo_setup \<Rightarrow> mongo_error option \<times> mongo_setup" where
  "coll_mod name v d =
     (case ms_schemas d name of
        None \<Rightarrow> (Some (CommandError 26), d)
      | Some old \<Rightarrow> (None, d\<lparr>ms_schemas := (ms_schemas d)(name \<mapsto> Some v)\<rparr>))"

definition isTransientPrimaryError :: "mongo_error \<Rightarrow> bool" where
  "isTransientPrimaryError err =
     (case err of
        CommandError c \<Rightarrow> c \<in> {10107, 13435, 13436, 189, 11602}
      | ServerError s \<Rightarrow> False)"

text \<open>
  What happens to one start: the faults of the attempts, the time when each has answered, whether the
  context ends the wait after it, and the fault of \<^verbatim>\<open>collMod\<close>.
\<close>

record setup_run =
  su_same_ok :: bool
  su_start :: int
  su_create :: "nat \<Rightarrow> mongo_fault"
  su_clock :: "nat \<Rightarrow> int"
  su_stop :: "nat \<Rightarrow> bool"
  su_mod :: mongo_fault

text \<open>The loop has fuel; the answer \<open>None\<close> means that it ran out.\<close>

primrec create_attempts ::
  "setup_run \<Rightarrow> nat \<Rightarrow> string \<Rightarrow> validator \<Rightarrow> nat \<Rightarrow> mongo_setup \<Rightarrow> (mongo_error option \<times> mongo_setup) option" where
  "create_attempts R 0 name v n d = None"
| "create_attempts R (Suc fuel) name v n d =
     (case mongo_command (su_create R n) (create_collection (su_same_ok R) name v) d of
        (None, d') \<Rightarrow> Some (None, d')
      | (Some e, d') \<Rightarrow>
          if \<not> isTransientPrimaryError e \<or> su_clock R n > su_start R + 10000 then Some (Some e, d')
          else if su_stop R n then Some (Some e, d')
          else create_attempts R fuel name v (n + 1) d')"

definition createCollectionWithRetry ::
  "setup_run \<Rightarrow> nat \<Rightarrow> string \<Rightarrow> validator \<Rightarrow> mongo_setup \<Rightarrow> (mongo_error option \<times> mongo_setup) option" where
  "createCollectionWithRetry R fuel name v d = create_attempts R fuel name v 0 d"

text \<open>The part that both schemas have in common.\<close>

definition apply_schema ::
  "setup_run \<Rightarrow> nat \<Rightarrow> string \<Rightarrow> validator \<Rightarrow> mongo_setup \<Rightarrow> ((setup_error + unit) \<times> mongo_setup) option" where
  "apply_schema R fuel name v d =
     (case createCollectionWithRetry R fuel name v d of
        None \<Rightarrow> None
      | Some (None, d') \<Rightarrow> Some (Inr (), d')
      | Some (Some e, d') \<Rightarrow>
          if e \<noteq> CommandError 48 then Some (Inl ([''create collection''], e), d')
          else (case mongo_command (su_mod R) (coll_mod name v) d' of
                  (None, d'') \<Rightarrow> Some (Inr (), d'')
                | (Some e', d'') \<Rightarrow> Some (Inl ([''collMod''], e'), d'')))"

definition ensureCollectionSchema ::
  "setup_run \<Rightarrow> nat \<Rightarrow> mongo_setup \<Rightarrow> ((setup_error + unit) \<times> mongo_setup) option" where
  "ensureCollectionSchema R fuel d = apply_schema R fuel ''tickets'' TicketSchema d"

definition ensureReservationCollectionSchema ::
  "setup_run \<Rightarrow> nat \<Rightarrow> mongo_setup \<Rightarrow> ((setup_error + unit) \<times> mongo_setup) option" where
  "ensureReservationCollectionSchema R fuel d = apply_schema R fuel ''ticket_reservations'' ReservationSchema d"

definition index_on :: "string \<Rightarrow> string list \<Rightarrow> bool \<Rightarrow> mongo_index" where
  "index_on name keys sparse = \<lparr>mi_name = name, mi_keys = keys, mi_sparse = sparse, mi_unique = False\<rparr>"

text \<open>An index that exists as it is asked for is left alone; a conflict is a fault of the command.\<close>

definition create_indexes ::
  "string \<Rightarrow> mongo_index list \<Rightarrow> mongo_setup \<Rightarrow> mongo_error option \<times> mongo_setup" where
  "create_indexes coll ixs d =
     (None, d\<lparr>ms_indexes := ms_indexes d @ filter (\<lambda>x. x \<notin> set (ms_indexes d)) (map (Pair coll) ixs)\<rparr>)"

definition ticket_indexes :: "mongo_index list" where
  "ticket_indexes =
     [index_on ''idx_id_asc'' [''_id''] False, index_on ''idx_userId'' [''userId''] False,
      index_on ''idx_orderId'' [''orderId''] True, index_on ''idx_seatingPlanId'' [''seatingPlanId''] True,
      index_on ''idx_outbox_pending'' [''outbox.nextAttemptAt''] False]"

definition ensureIndexes :: "mongo_fault \<Rightarrow> mongo_setup \<Rightarrow> mongo_error option \<times> mongo_setup" where
  "ensureIndexes f d = mongo_command f (create_indexes ''tickets'' ticket_indexes) d"

definition reservation_indexes :: "mongo_index list" where
  "reservation_indexes =
     [index_on ''idx_ticketId_status'' [''ticketId'', ''status''] False,
      index_on ''idx_userId_ticketId_status'' [''userId'', ''ticketId'', ''status''] False,
      index_on ''idx_orderId_sparse'' [''orderId''] True, index_on ''idx_expiresAt'' [''expiresAt''] True]"

definition ensureReservationIndexes :: "mongo_fault \<Rightarrow> mongo_setup \<Rightarrow> mongo_error option \<times> mongo_setup" where
  "ensureReservationIndexes f d = mongo_command f (create_indexes ''ticket_reservations'' reservation_indexes) d"

section \<open>The repositories\<close>

text \<open>A repository, without its collections: the quota manager and the log are optional.\<close>

record ('q, 'l) mongo_repo =
  mr_quota :: "'q option"
  mr_log :: "'l option"
  mr_owns :: bool

type_synonym ('q, 'l) mongo_option = "('q, 'l) mongo_repo \<Rightarrow> ('q, 'l) mongo_repo"

definition WithQuotaManager :: "'q \<Rightarrow> ('q, 'l) mongo_option" where
  "WithQuotaManager qm r = r\<lparr>mr_quota := Some qm\<rparr>"

definition WithLogger :: "'l option \<Rightarrow> ('q, 'l) mongo_option" where
  "WithLogger l r = (if l \<noteq> None then r\<lparr>mr_log := l\<rparr> else r)"

text \<open>One run for each collection, and the faults of the two index commands.\<close>

record repo_run =
  rr_tickets :: setup_run
  rr_reservations :: setup_run
  rr_index :: mongo_fault
  rr_resv_index :: mongo_fault

definition under :: "string \<Rightarrow> setup_error \<Rightarrow> setup_error" where
  "under label e = (label # fst e, snd e)"

definition newMongoTicketRepository ::
  "repo_run \<Rightarrow> nat \<Rightarrow> bool \<Rightarrow> ('q, 'l) mongo_option list \<Rightarrow> mongo_setup
     \<Rightarrow> ((setup_error + ('q, 'l) mongo_repo) \<times> mongo_setup) option" where
  "newMongoTicketRepository R fuel ownsClient opts d =
     (case ensureCollectionSchema (rr_tickets R) fuel d of
        None \<Rightarrow> None
      | Some (Inl e, d1) \<Rightarrow> Some (Inl (under ''ensure schema'' e), d1)
      | Some (Inr u, d1) \<Rightarrow>
     (case ensureReservationCollectionSchema (rr_reservations R) fuel d1 of
        None \<Rightarrow> None
      | Some (Inl e, d2) \<Rightarrow> Some (Inl (under ''ensure reservation schema'' e), d2)
      | Some (Inr u, d2) \<Rightarrow>
     (case ensureIndexes (rr_index R) d2 of
        (Some e, d3) \<Rightarrow> Some (Inl ([''ensure indexes''], e), d3)
      | (None, d3) \<Rightarrow>
     (case ensureReservationIndexes (rr_resv_index R) d3 of
        (Some e, d4) \<Rightarrow> Some (Inl ([''ensure reservation indexes''], e), d4)
      | (None, d4) \<Rightarrow>
          Some (Inr (foldl (\<lambda>r opt. opt r) \<lparr>mr_quota = None, mr_log = None, mr_owns = ownsClient\<rparr> opts), d4)))))"

definition NewMongoTicketRepositoryWithClient ::
  "repo_run \<Rightarrow> nat \<Rightarrow> ('q, 'l) mongo_option list \<Rightarrow> mongo_setup
     \<Rightarrow> ((setup_error + ('q, 'l) mongo_repo) \<times> mongo_setup) option" where
  "NewMongoTicketRepositoryWithClient R fuel opts d = newMongoTicketRepository R fuel False opts d"

text \<open>The client it dials is the second part of the answer: \<open>Some True\<close> when it is connected at the end.\<close>

definition NewMongoTicketRepository ::
  "(string \<Rightarrow> bool \<times> bool) \<Rightarrow> mongo_error option \<Rightarrow> mongo_error option \<Rightarrow> repo_run \<Rightarrow> nat \<Rightarrow> string
     \<Rightarrow> ('q, 'l) mongo_option list \<Rightarrow> mongo_setup
     \<Rightarrow> ((setup_error + ('q, 'l) mongo_repo) \<times> bool option \<times> mongo_setup) option" where
  "NewMongoTicketRepository of_uri connect ping R fuel uri opts d =
     (case NewMongoClient of_uri connect ping uri DefaultMongoMaxPoolSize of
        Inl e \<Rightarrow> Some (Inl e, None, d)
      | Inr client \<Rightarrow>
     (case newMongoTicketRepository R fuel True opts d of
        None \<Rightarrow> None
      | Some (Inl e, d') \<Rightarrow> Some (Inl e, Some False, d')
      | Some (Inr r, d') \<Rightarrow> Some (Inr r, Some True, d')))"

text \<open>\<open>conn\<close>: whether the client of the repository is connected; \<open>f\<close>: the answer of \<^verbatim>\<open>Disconnect\<close>.\<close>

definition repo_Close :: "mongo_error option \<Rightarrow> ('q, 'l) mongo_repo \<Rightarrow> bool \<Rightarrow> mongo_error option \<times> bool" where
  "repo_Close f r conn = (if \<not> mr_owns r then (None, conn) else (f, False))"

definition saved_event_indexes :: "mongo_index \<times> mongo_index" where
  "saved_event_indexes =
     (\<lparr>mi_name = ''userId_1_eventId_1'', mi_keys = [''userId'', ''eventId''], mi_sparse = False, mi_unique = True\<rparr>,
      index_on ''userId_1'' [''userId''] False)"

definition NewMongoSavedEventRepository ::
  "mongo_fault \<Rightarrow> mongo_fault \<Rightarrow> mongo_setup \<Rightarrow> (setup_error + unit) \<times> mongo_setup" where
  "NewMongoSavedEventRepository f g d =
     (case mongo_command f (create_indexes ''saved_events'' [fst saved_event_indexes]) d of
        (Some e, d1) \<Rightarrow> (Inl ([''create saved_events index''], e), d1)
      | (None, d1) \<Rightarrow>
     (case mongo_command g (create_indexes ''saved_events'' [snd saved_event_indexes]) d1 of
        (Some e, d2) \<Rightarrow> (Inl ([''create saved_events userId index''], e), d2)
      | (None, d2) \<Rightarrow> (Inr (), d2)))"

section \<open>The command that rebuilds the search index\<close>

text \<open>Name of the database, of the index, and the log level.\<close>

definition reindex_settings :: "env \<Rightarrow> string \<times> string \<times> string" where
  "reindex_settings env =
     (getEnv env ''MONGO_DB'' ''tickets'', getEnv env ''OPENSEARCH_INDEX'' ''tickets'', getEnv env ''LOG_LEVEL'' ''info'')"

definition reindex_boot :: "env \<Rightarrow> unit boot list" where
  "reindex_boot env =
     [Refuse (env ''MONGO_URI'' = []) ''MONGO_URI is required'', Refuse (env ''OPENSEARCH_URL'' = []) ''OPENSEARCH_URL is required'',
      Attempt ''create logger'', Deferred ''log'', Attempt ''connect to MongoDB'', Deferred ''repository'',
      Attempt ''create search client'', Deferred ''ensure index timeout'', Attempt ''ensure index'', Attempt ''reindex'']"

definition reindex_main :: "(string \<Rightarrow> bool) \<Rightarrow> env \<Rightarrow> (string \<times> unit process) + unit process" where
  "reindex_main ok env = run_boot ok (reindex_boot env) no_process"

section \<open>Sending an event\<close>

record ticket_cloud_event =
  tce_specversion :: string
  tce_type :: string
  tce_source :: string
  tce_id :: string
  tce_time :: string
  tce_content :: string
  tce_data :: event_data

record produced =
  pd_topic :: string
  pd_key :: string
  pd_event :: ticket_cloud_event
  pd_headers :: "(string \<times> string) list"

text \<open>
  What becomes of a message: it does not fit the queue, its delivery report comes first, or the context
  ends first, and then it may be delivered later or not.
\<close>

datatype message_fate = QueueFull | Report bool | CtxDone bool

datatype produce_error = MarshalCloudEvent | KafkaProduce | KafkaDelivery | ProduceCancelled

definition produce ::
  "message_fate \<Rightarrow> produced \<Rightarrow> produced list \<Rightarrow> (produce_error + unit) \<times> produced list" where
  "produce dv msg topic =
     (case dv of
        QueueFull \<Rightarrow> (Inl KafkaProduce, topic)
      | Report True \<Rightarrow> (Inr (), topic @ [msg])
      | Report False \<Rightarrow> (Inl KafkaDelivery, topic)
      | CtxDone late \<Rightarrow> (Inl ProduceCancelled, if late then topic @ [msg] else topic))"

text \<open>\<open>marshal_ok\<close>: JSON can write the event.\<close>

definition producer_publish ::
  "(ticket_cloud_event \<Rightarrow> bool) \<Rightarrow> message_fate \<Rightarrow> string \<Rightarrow> string \<Rightarrow> (string \<times> string) list \<Rightarrow> string \<Rightarrow> string \<Rightarrow> string
     \<Rightarrow> event_data \<Rightarrow> produced list \<Rightarrow> (produce_error + unit) \<times> produced list" where
  "producer_publish marshal_ok dv eid time headers topic partitionKey eventType data sent =
     (let event = \<lparr>tce_specversion = ''1.0'', tce_type = eventType, tce_source = ''ticket-service'', tce_id = eid,
                   tce_time = time, tce_content = ''application/json'', tce_data = data\<rparr> in
      if \<not> marshal_ok event then (Inl MarshalCloudEvent, sent)
      else produce dv \<lparr>pd_topic = topic, pd_key = partitionKey, pd_event = event, pd_headers = headers\<rparr> sent)"

definition PublishTicketCreated ::
  "(ticket_cloud_event \<Rightarrow> bool) \<Rightarrow> message_fate \<Rightarrow> string \<Rightarrow> string \<Rightarrow> (string \<times> string) list \<Rightarrow> event_data
     \<Rightarrow> produced list \<Rightarrow> (produce_error + unit) \<times> produced list" where
  "PublishTicketCreated ok dv eid time headers data sent =
     producer_publish ok dv eid time headers ''tickets.ticket.created'' (ed_id data) ''tickets.ticket.created'' data sent"

definition PublishTicketUpdated ::
  "(ticket_cloud_event \<Rightarrow> bool) \<Rightarrow> message_fate \<Rightarrow> string \<Rightarrow> string \<Rightarrow> (string \<times> string) list \<Rightarrow> event_data
     \<Rightarrow> produced list \<Rightarrow> (produce_error + unit) \<times> produced list" where
  "PublishTicketUpdated ok dv eid time headers data sent =
     producer_publish ok dv eid time headers ''tickets.ticket.updated'' (ed_id data) ''tickets.ticket.updated'' data sent"

section \<open>What the set-up guarantees\<close>

lemma reads_and_writes_are_safe:
  "mo_majority (MongoClientOptions of_uri uri n) \<and> mo_primary (MongoClientOptions of_uri uri n)"
  by (simp add: MongoClientOptions_def Let_def)

lemma create_collection_in_force:
  "create_collection s name v d = (None, d') \<Longrightarrow> ms_schemas d' name = Some (Some v)"
  by (auto simp: create_collection_def split: option.splits if_splits)

lemma coll_mod_in_force: "coll_mod name v d = (None, d') \<Longrightarrow> ms_schemas d' name = Some (Some v)"
  by (auto simp: coll_mod_def split: option.splits)

lemma command_answers: "mongo_command f g d = (None, d') \<Longrightarrow> g d = (None, d')"
  by (auto simp: mongo_command_def split: mongo_fault.splits)

lemma command_state: "mongo_command f g d = (r, d') \<Longrightarrow> d' = d \<or> d' = snd (g d)"
  by (auto simp: mongo_command_def split: mongo_fault.splits)

text \<open>Neither command touches another collection or an index.\<close>

definition only_schema_of :: "string \<Rightarrow> mongo_setup \<Rightarrow> mongo_setup \<Rightarrow> bool" where
  "only_schema_of name d d' \<longleftrightarrow> (\<forall>n. n \<noteq> name \<longrightarrow> ms_schemas d' n = ms_schemas d n) \<and> ms_indexes d' = ms_indexes d"

lemma only_schema_refl: "only_schema_of name d d"
  by (simp add: only_schema_of_def)

lemma only_schema_trans: "only_schema_of name d d' \<Longrightarrow> only_schema_of name d' d'' \<Longrightarrow> only_schema_of name d d''"
  by (simp add: only_schema_of_def)

lemma create_collection_frame: "only_schema_of name d (snd (create_collection s name v d))"
  by (auto simp: create_collection_def only_schema_of_def split: option.splits)

lemma coll_mod_frame: "only_schema_of name d (snd (coll_mod name v d))"
  by (auto simp: coll_mod_def only_schema_of_def split: option.splits)

lemma command_frame:
  "mongo_command f g d = (r, d') \<Longrightarrow> only_schema_of name d (snd (g d)) \<Longrightarrow> only_schema_of name d d'"
  using command_state [of f g d r d'] by (auto simp: only_schema_refl)

lemma create_attempts_frame: "create_attempts R fuel name v n d = Some (r, d') \<Longrightarrow> only_schema_of name d d'"
proof (induction fuel arbitrary: n d)
  case (Suc fuel)
  obtain e d1 where c: "mongo_command (su_create R n) (create_collection (su_same_ok R) name v) d = (e, d1)"
    by fastforce
  note f = command_frame [OF c create_collection_frame]
  show ?case using Suc.prems Suc.IH [of "n + 1" d1] f c
    by (auto split: option.splits if_splits intro: only_schema_trans)
qed simp

lemma create_attempts_in_force:
  "create_attempts R fuel name v n d = Some (None, d') \<Longrightarrow> ms_schemas d' name = Some (Some v)"
proof (induction fuel arbitrary: n d)
  case (Suc fuel)
  then show ?case
    by (auto split: prod.splits option.splits if_splits dest!: command_answers create_collection_in_force)
qed simp

text \<open>
  When the set-up of a schema reports no error, its validator is in force, also when the collection
  was there before with another one, and when an answer was lost on the way.
\<close>

lemma schema_in_force: "apply_schema R fuel name v d = Some (Inr u, d') \<Longrightarrow> ms_schemas d' name = Some (Some v)"
  by (auto simp: apply_schema_def createCollectionWithRetry_def split: option.splits prod.splits if_splits
      dest!: create_attempts_in_force command_answers coll_mod_in_force)

lemma schema_frame: "apply_schema R fuel name v d = Some (r, d') \<Longrightarrow> only_schema_of name d d'"
  by (auto simp: apply_schema_def createCollectionWithRetry_def split: option.splits prod.splits if_splits
      dest!: create_attempts_frame command_frame [OF _ coll_mod_frame] intro: only_schema_trans)

text \<open>
  The retries end: each wait takes 200 milliseconds, so an attempt that answers after the deadline of
  10 seconds is among the first 52.
\<close>

lemma create_attempts_end:
  assumes "\<And>k. su_start R + 200 * int k \<le> su_clock R k" "52 \<le> n + fuel" "n < 52"
  shows "\<exists>x. create_attempts R fuel name v n d = Some x"
  using assms(2-)
proof (induction fuel arbitrary: n d)
  case (Suc fuel)
  show ?case
  proof (cases "n = 51")
    case True
    then have "su_clock R n > su_start R + 10000" using assms(1) [of n] by simp
    then show ?thesis by (auto split: prod.splits option.splits)
  next
    case False
    then have "\<exists>x. create_attempts R fuel name v (n + 1) d' = Some x" for d'
      using Suc.IH [of "n + 1" d'] Suc.prems by simp
    then show ?thesis by (auto split: prod.splits option.splits)
  qed
qed simp

lemma retry_ends:
  "(\<And>k. su_start R + 200 * int k \<le> su_clock R k) \<Longrightarrow> \<exists>x. createCollectionWithRetry R 52 name v d = Some x"
  unfolding createCollectionWithRetry_def by (rule create_attempts_end) simp_all

text \<open>A repository that was made has both schemas in force and every index it asked for.\<close>

lemma create_indexes_there: "(coll, i) \<in> set (ms_indexes (snd (create_indexes coll ixs d)))" if "i \<in> set ixs"
  using that by (auto simp: create_indexes_def)

lemma create_indexes_keep:
  "ms_schemas (snd (create_indexes coll ixs d)) = ms_schemas d"
  "set (ms_indexes d) \<subseteq> set (ms_indexes (snd (create_indexes coll ixs d)))"
  by (auto simp: create_indexes_def)

lemma made_repository:
  assumes "newMongoTicketRepository R fuel ow opts d = Some (Inr r, d')"
  shows "ms_schemas d' ''tickets'' = Some (Some TicketSchema)"
    and "ms_schemas d' ''ticket_reservations'' = Some (Some ReservationSchema)"
    and "Pair ''tickets'' ` set ticket_indexes \<union> Pair ''ticket_reservations'' ` set reservation_indexes
      \<subseteq> set (ms_indexes d')"
proof -
  from assms obtain d1 d2 d3 where
    s: "ensureCollectionSchema (rr_tickets R) fuel d = Some (Inr (), d1)"
       "ensureReservationCollectionSchema (rr_reservations R) fuel d1 = Some (Inr (), d2)" and
    i: "ensureIndexes (rr_index R) d2 = (None, d3)" "ensureReservationIndexes (rr_resv_index R) d3 = (None, d')"
    by (auto simp: newMongoTicketRepository_def split: option.splits prod.splits sum.splits)
  note s' = s [unfolded ensureCollectionSchema_def ensureReservationCollectionSchema_def]
  have i': "d3 = snd (create_indexes ''tickets'' ticket_indexes d2)"
    "d' = snd (create_indexes ''ticket_reservations'' reservation_indexes d3)"
    using i [unfolded ensureIndexes_def ensureReservationIndexes_def, THEN command_answers] by simp_all
  show "ms_schemas d' ''tickets'' = Some (Some TicketSchema)"
    using schema_in_force [OF s'(1)] schema_frame [OF s'(2)] by (simp add: i' create_indexes_keep only_schema_of_def)
  show "ms_schemas d' ''ticket_reservations'' = Some (Some ReservationSchema)"
    using schema_in_force [OF s'(2)] by (simp add: i' create_indexes_keep)
  show "Pair ''tickets'' ` set ticket_indexes \<union> Pair ''ticket_reservations'' ` set reservation_indexes \<subseteq> set (ms_indexes d')"
    using create_indexes_keep(2) [of d3 "''ticket_reservations''" reservation_indexes]
    by (auto simp: i' create_indexes_there)
qed

text \<open>
  Closing a repository on a client of the caller leaves the client connected; one that dialled its own
  client disconnects it, and so does a constructor that fails after dialling.
\<close>

definition keep_owner :: "('q, 'l) mongo_option list \<Rightarrow> bool" where
  "keep_owner opts \<longleftrightarrow> (\<forall>opt \<in> set opts. \<forall>r. mr_owns (opt r) = mr_owns r)"

lemma options_keep_owner:
  "keep_owner opts \<Longrightarrow> mr_owns (foldl (\<lambda>r opt. opt r) r opts) = mr_owns r"
  by (induction opts arbitrary: r) (auto simp: keep_owner_def)

lemma option_owner: "keep_owner [WithQuotaManager qm, WithLogger l]"
  by (simp add: keep_owner_def WithQuotaManager_def WithLogger_def)

lemma repo_owner:
  "newMongoTicketRepository R fuel ow opts d = Some (Inr r, d') \<Longrightarrow> keep_owner opts \<Longrightarrow> mr_owns r = ow"
  by (auto simp: newMongoTicketRepository_def options_keep_owner split: option.splits prod.splits sum.splits)

lemma shared_client_stays:
  "NewMongoTicketRepositoryWithClient R fuel opts d = Some (Inr r, d') \<Longrightarrow> keep_owner opts \<Longrightarrow>
     repo_Close f r True = (None, True)"
  by (auto simp: NewMongoTicketRepositoryWithClient_def repo_Close_def dest: repo_owner)

lemma own_client_is_closed:
  assumes "NewMongoTicketRepository u c p R fuel uri opts d = Some (r, client, d')" "keep_owner opts"
  shows "case r of Inl e \<Rightarrow> client \<noteq> Some True | Inr repo \<Rightarrow> client = Some True \<and> snd (repo_Close f repo True) = False"
proof (cases "newMongoTicketRepository R fuel True opts d")
  case None
  then show ?thesis using assms(1) by (auto simp: NewMongoTicketRepository_def split: sum.splits)
next
  case (Some x)
  obtain r' d1 where x: "x = (r', d1)" by (cases x)
  have "mr_owns repo" if "r' = Inr repo" for repo
    using repo_owner [of R fuel True opts d repo d1] Some assms(2) that by (simp add: x)
  then show ?thesis using assms(1) Some
    by (cases r') (auto simp: NewMongoTicketRepository_def repo_Close_def x split: sum.splits)
qed

text \<open>The unique index of saved events is there when the repository is.\<close>

lemma saved_events_unique:
  "NewMongoSavedEventRepository f g d = (Inr u, d') \<Longrightarrow>
     (''saved_events'', fst saved_event_indexes) \<in> set (ms_indexes d') \<and> mi_unique (fst saved_event_indexes)"
  by (auto simp: NewMongoSavedEventRepository_def saved_event_indexes_def create_indexes_def split: prod.splits option.splits
      dest!: command_answers)

text \<open>An example: the primary steps down after it has created the collection, the next attempt finds it.\<close>

definition step_down :: setup_run where
  "step_down = \<lparr>su_same_ok = False, su_start = 0, su_create = (\<lambda>n. if n = 0 then AnswerLost (CommandError 189) else Works),
     su_clock = (\<lambda>n. 200 * int n), su_stop = (\<lambda>n. False), su_mod = Works\<rparr>"

definition new_database :: mongo_setup where
  "new_database = \<lparr>ms_schemas = Map.empty, ms_indexes = []\<rparr>"

lemma step_down_recovers:
  "apply_schema step_down 52 ''tickets'' TicketSchema new_database =
     Some (Inr (), \<lparr>ms_schemas = [''tickets'' \<mapsto> Some TicketSchema], ms_indexes = []\<rparr>)"
  by (simp add: apply_schema_def createCollectionWithRetry_def step_down_def new_database_def mongo_command_def
      create_collection_def coll_mod_def isTransientPrimaryError_def numeral_eq_Suc)

text \<open>A publication without an error is in the topic exactly once; after an error it may be there too.\<close>

lemma published_once:
  "producer_publish ok dv eid time hs topic key ty data sent = (Inr u, sent') \<Longrightarrow>
     \<exists>msg. sent' = sent @ [msg] \<and> pd_topic msg = topic \<and> pd_key msg = key \<and> tce_data (pd_event msg) = data"
  by (auto simp: producer_publish_def produce_def Let_def split: message_fate.splits bool.splits if_splits)

lemma cancelled_may_be_sent:
  "\<exists>sent'. producer_publish (\<lambda>e. True) (CtxDone True) eid time hs topic key ty data sent = (Inl ProduceCancelled, sent') \<and>
     length sent' = length sent + 1"
  by (simp add: producer_publish_def produce_def)

text \<open>The reindexing command stops at the first thing that is missing, and only a full run closes its repository.\<close>

lemma reindex_needs_both:
  "env ''MONGO_URI'' = [] \<Longrightarrow> reindex_main ok env = Inl (''MONGO_URI is required'', no_process)"
  "env ''MONGO_URI'' \<noteq> [] \<Longrightarrow> env ''OPENSEARCH_URL'' = [] \<Longrightarrow>
     reindex_main ok env = Inl (''OPENSEARCH_URL is required'', no_process)"
  by (simp_all add: reindex_main_def reindex_boot_def)

lemma reindex_runs:
  "reindex_main ok env = Inr p \<longleftrightarrow>
     env ''MONGO_URI'' \<noteq> [] \<and> env ''OPENSEARCH_URL'' \<noteq> [] \<and>
     (\<forall>a \<in> {''create logger'', ''connect to MongoDB'', ''create search client'', ''ensure index'', ''reindex''}. ok a) \<and>
     p = \<lparr>pr_workers = [], pr_deferred = [''ensure index timeout'', ''repository'', ''log'']\<rparr>"
  by (auto simp: reindex_main_def reindex_boot_def no_process_def)

end
