(* ===== verification/Spec2Isabelle.thy ===== *)
theory Spec2Isabelle
  imports Venue_Grpc_Props Redis_Reconciler Plan_Repo Autoassign Ticket_Workers Ticket_Retries Attendance_Props
    Expiration_Service User_Signature Sse_Broadcaster Venue_Api_Props Venue_Consumer Ticket_Api_Props
    Kafka_Headers Worker_Loops Service_Startup Ticket_Setup
begin

text \<open>
  A model of the Go services of an event ticketing platform, with the theorems that make them
  correct. The platform sells two kinds of tickets: general admission, counted by ticket-service, and
  seats, held and reserved in venue-service. An order reserves first, is paid or expires, and then
  finalizes or releases what it reserved; paid orders become admission passes, which are scanned at
  the door. The services talk by gRPC, by HTTP and by Kafka topics.

  \<^bold>\<open>Parts and where they are modelled\<close> (sources under \<^verbatim>\<open>src/services/\<close>; \<^verbatim>\<open>X/\<close> below stands for
  \<^verbatim>\<open>internal/X/\<close> of the service):

  \<^item> \<^bold>\<open>Shared\<close>. Prelude: tables as lists of rows, SQL updates, find by key, transactions with faults.
    Interleaving: requests as processes of atomic calls, run alone or in a pool with crashes, and the
    proof rules for both. Go_Text and Grpc_Types: numbers as text, trimming, gRPC status codes.
    Ledger_Contract: the contract of a reservation ledger, interpreted for venue-service in
    Venue_Ledger and for ticket-service in Ticket_Ledger.

  \<^item> \<^bold>\<open>venue-service\<close>. Venue_Types (rows, enumerations, errors of \<^verbatim>\<open>repository/repository.go\<close>);
    Section_Repo, Reservation_Repo, Plan_Repo (\<^verbatim>\<open>repository/postgres/\<close>, one definition per method);
    Autoassign (\<^verbatim>\<open>autoassign/\<close>); Hold_Manager (\<^verbatim>\<open>hold/\<close> with its Lua scripts and the Redis
    decorator of reservations); Redis_Reconciler (\<^verbatim>\<open>reconciler/\<close> and the availability snapshot);
    Venue_Grpc (\<^verbatim>\<open>grpc/\<close>); Venue_Http and Venue_Graphql (\<^verbatim>\<open>handler/\<close>, \<^verbatim>\<open>graphql/\<close>);
    Venue_Consumer (\<^verbatim>\<open>kafka/consumer.go\<close>, \<^verbatim>\<open>service/\<close>, the sweepers); Sse_Broadcaster (\<^verbatim>\<open>sse/\<close> and
    the stream handler). Theorems: Venue_Props, Venue_Run (runs of ledger operations), Hold_Props,
    Venue_Grpc_Props, Venue_Api_Props and the ends of Autoassign, Redis_Reconciler,
    Venue_Consumer and Sse_Broadcaster.

  \<^item> \<^bold>\<open>ticket-service\<close>. Ticket_Types (documents, outbox entries, schemas); Ticket_Repo and
    Ticket_Listing (\<^verbatim>\<open>repository/\<close>); Quota_Manager and Ticket_Cache (\<^verbatim>\<open>cache/\<close> and the caching
    repository); Ticket_Service (\<^verbatim>\<open>service/\<close>); Ticket_Grpc (\<^verbatim>\<open>grpc/\<close>, \<^verbatim>\<open>kafka/consumer.go\<close>);
    Ticket_Outbox (\<^verbatim>\<open>outbox/\<close>); Quota_Reconciler (\<^verbatim>\<open>reconciler/\<close>); Ticket_Search (\<^verbatim>\<open>search/\<close>);
    Ticket_Http (\<^verbatim>\<open>handler/\<close>); Ticket_Graphql (\<^verbatim>\<open>graphql/\<close>); Ticket_Setup (MongoDB client, schemas and
    indexes, the reindexing command, the Kafka producer). Ticket_Pool has all requests and
    workers of the service as one pool. Theorems: Ticket_Props, Ticket_Retries, Ticket_Workers (with
    Outbox_Delivery) and Ticket_Api_Props.

  \<^item> \<^bold>\<open>attendance-service\<close>. Attendance_Types (rows of \<^verbatim>\<open>repository/repository.go\<close>); Credential_Repo
    (\<^verbatim>\<open>repository/postgres/\<close>); Qr_Token (\<^verbatim>\<open>qr/\<close>); Scan_Service, Issuance, Attendance_Service
    (\<^verbatim>\<open>service/\<close>, \<^verbatim>\<open>kafka/\<close>); Attendance_Api (\<^verbatim>\<open>handler/\<close>, \<^verbatim>\<open>graphql/\<close>); Attendance_Pool (all
    of it as one pool). Theorems: Attendance_Props.

  \<^item> \<^bold>\<open>expiration-service\<close>. Expiration_Service, with its theorem.

  \<^item> \<^bold>\<open>Across services\<close>. User_Signature (the signed user header, one file copied to three services),
    Service_Config (configuration, Kafka security settings, readiness probes), Service_Startup
    (\<^verbatim>\<open>cmd/server/main.go\<close>, health checkers, migrations, tracing set-up, routes, gRPC servers),
    Worker_Loops (the \<^verbatim>\<open>Start\<close> and \<^verbatim>\<open>Run\<close> loops around the passes of the workers and consumers),
    Kafka_Headers (\<^verbatim>\<open>kafka/trace_context.go\<close> and the headers of dead letters), and this theory (the
    seat limit on its way from ticket-service to venue-service).

  \<^bold>\<open>State and operations\<close>. A PostgreSQL or MongoDB database is a record of lists of rows in storage
  order; Redis keys are maps; Kafka topics are lists of messages. An operation of a repository of
  venue-service is one function on the database with a set of fault points (no transaction, the n-th
  statement fails, the commit fails, the commit succeeds but its answer is lost) and, where the code
  reads before its transaction, with the older states those reads saw. In the other services, and in
  the handlers of venue-service, an operation is a process: every call to a store is one atomic step,
  other requests run between the steps, and a call works, fails, or works and loses its answer.
  Errors are values of a sum type, with one constructor per sentinel error of the source.

  \<^bold>\<open>What the theorems show\<close>, by property number:

  \<^item> Seats (C1--C5): no seat is sold twice, whatever requests, retries and sweeps run; the seats
    agree with the ledger; sold, released and expired are final; the per-buyer cap holds; the first
    request after a reserve decides.
  \<^item> Interfaces of venue-service (C6, C7, C24): plan requests keep to the plans of their user;
    signatures; order events are settled or dead-lettered.
  \<^item> Seat choice and holds (C8, C9, C12--C14): auto-assignment against its specification; PostgreSQL
    decides over Redis; all-or-nothing scripts; rollback.
  \<^item> Live updates and mirrors (C10, C16, C19, C20): no silent gap, the panic on a closed channel,
    refilling a lost hash, the availability snapshot.
  \<^item> gRPC of venue-service (C21, C22, C25): retries repeat, answers are true, concurrent duplicates.
  \<^item> Expiration (C18) and attendance (C11, C37--C39): scheduling, passes admit once, issuance,
    transfers.
  \<^item> Ticket quota (C26--C33, C36): never oversold in any run with crashes, the reference of a reserve,
    first settlement, crashes and lost answers, guarded updates, the reconciler, the back-off.
  \<^item> Ticket search, listing and outbox (C17, C23, C34, C35): order of events, reindexing, pages, no
    lost outbox entry.
  \<^item> Across services (C15, C40): readiness of a service that started without Redis; the per-buyer
    limit of seats never reaches venue-service.
  \<^item> Kafka_Headers and Worker_Loops close with lemmas that are not numbered: a trace survives its way
    through a topic, dead letters keep their reason, and the loops keep the invariants of the pools.

  Several theorems say that the code does something its documentation does not say; the manifest lists
  these as findings.

  \<^bold>\<open>Bounds and fuel\<close>. Loops over pages have fuel and answer \<open>None\<close> when it runs out: the quota
  reconciler needs more than a 50th of the number of tickets, the reindexing one page more than all
  pages; C33 and C23 prove that this is enough. Creating a collection is retried until a deadline, and 52
  attempts reach it (lemma \<open>retry_ends\<close> of Ticket_Setup). All other loops are structural (retries, batches,
  messages). gRPC integers are 32-bit words, Go durations and the shifts of back-off 64-bit words with
  wrap-around; other Go \<^verbatim>\<open>int\<close>s are unbounded integers, with the 32-bit check of the MongoDB schema
  and of PostgreSQL columns where the code relies on it.

  \<^bold>\<open>Assumptions\<close>. Each statement, transaction, MongoDB operation, Lua script and Redis command is
  atomic. Times are milliseconds (in the tables of venue-service ticks of the database clock); the clock
  of a request is an argument.
  Identifiers that a database or a library makes up are arguments. A MongoDB operation on one document
  takes the first match in storage order. Rows with the same sort key keep the order of insertion
  where SQL leaves it open. An expired Redis key reads like a missing one or a failed read. Prices are
  texts. Foreign keys and CHECK constraints that are not modelled show up as failing statements.
  HMAC, base64, JSON, net/url, float text, asynq, OpenSearch and sort.Slice are parameters; what is
  needed of them is a named hypothesis or a locale (\<open>versioned_index\<close>, \<open>asynq_laws\<close>, \<open>slice_sort\<close>), with a
  concrete instance in a witness. The circuit breakers, the propagator of traces, and the library
  calls of the start-up with their success or failure are parameters too. Trimming and case conversion are those of ASCII text.

  \<^bold>\<open>Not modelled\<close>. Code written by gqlgen and protoc; logs, metrics and the spans of traces (output
  only); the inside of the circuit breakers, the singleflight of the cache and the batching window of
  the data loaders (they only merge equal reads); the real time of tickers and retries; the services
  in Java, TypeScript and C#, whose events and answers are arguments here; gateway, router and
  deployment files.
\<close>

section \<open>The seat limit between ticket-service and venue-service\<close>

text \<open>What venue-service reads of the answer of ticket-service.\<close>

definition venue_view :: "get_ticket_response \<Rightarrow> ticket_info" where
  "venue_view r = \<lparr>ti_price = gt_price r, ti_max_per_user = gt_max_per_user r\<rparr>"

lemma answer_has_no_limit: "gt_max_per_user (get_ticket_answer t) = 0"
  by (simp add: get_ticket_answer_def Let_def split: option.split)

lemma lookup_has_no_limit: "fst (run_alone (GetTicket f now tid) w) = Inr r \<Longrightarrow> gt_max_per_user r = 0"
  by (auto simp: GetTicket_def answer_has_no_limit split: if_splits sum.splits prod.splits)

text \<open>
  C40: Venue-service takes the per-buyer limit of a seated plan from ticket-service's answer. Whatever
  limit the ticket has, whatever fails, and whether the answer comes from the cache or the database,
  the answer never carries it, and 0 means no limit: with the enforcement switched on, reserves do
  exactly what they do with it switched off, holds fetch the limit 0, and no check refuses a seat.
\<close>

theorem seat_cap_never_binds:
  "case fst (run_alone (GetTicket f now tid) w) of
     Inl e \<Rightarrow> True
   | Inr r \<Rightarrow>
       reserve_and_answer c True fs f1 rf t (venue_view r) ids res unavail vw =
         reserve_and_answer c False fs f1 rf t (venue_view r) ids res unavail vw \<and>
       fst (CachedSeatLimit ttl t (Some (sint (gt_max_per_user r))) plan []) = Some 0 \<and>
       checkSeatLimit fs k t planID userID ids (seatLimit True (venue_view r)) d = Inr ()"
  using lookup_has_no_limit [of f now tid w]
  by (auto simp: reserve_and_answer_def venue_view_def seatLimit_def CachedSeatLimit_def checkSeatLimit_def
      split: sum.split)

end
